(* ===== verification/DK_Prelude.thy ===== *)
theory DK_Prelude
  imports Main "HOL-Library.Sublist" "HOL-Library.AList" "HOL-Library.Word"
begin

text \<open>
  Shared vocabulary of the development: the collections of simplification rules, Go's byte
  strings and the \<^theory_text>\<open>strings\<close> package functions the program uses, 64-bit signed
  arithmetic with its wrap-around, instants and durations of the \<^theory_text>\<open>time\<close>
  package, and the generic facts on lists and association lists that the components share.
\<close>

named_theorems str_simps \<open>facts on the functions of package strings\<close>
named_theorems path_simps \<open>facts on the functions of package path\<close>
named_theorems err_simps \<open>facts on error chains\<close>
named_theorems fs_simps \<open>facts on the local file system primitives\<close>

subsection \<open>Results\<close>

text \<open>A Go function that returns \<open>(T, error)\<close> and never both is modelled as a sum.\<close>

definition is_ok :: "'e + 'a \<Rightarrow> bool" where
  "is_ok r = (case r of Inl _ \<Rightarrow> False | Inr _ \<Rightarrow> True)"

lemma is_ok_simps [simp]: "\<not> is_ok (Inl e)" "is_ok (Inr x)"
  by (simp_all add: is_ok_def)

lemma is_ok_iff: "is_ok r \<longleftrightarrow> (\<exists>x. r = Inr x)"
  by (cases r) simp_all

subsection \<open>Signed 64-bit arithmetic\<close>

definition i64 :: "int \<Rightarrow> int" where
  "i64 x = (x + 2 ^ 63) mod 2 ^ 64 - 2 ^ 63"

definition max_i64 :: int where "max_i64 = 2 ^ 63 - 1"
definition min_i64 :: int where "min_i64 = - (2 ^ 63)"

definition in_i64 :: "int \<Rightarrow> bool" where
  "in_i64 x \<longleftrightarrow> min_i64 \<le> x \<and> x \<le> max_i64"

lemma i64_id: "in_i64 x \<Longrightarrow> i64 x = x"
  unfolding in_i64_def i64_def min_i64_def max_i64_def by simp

lemma in_i64_i64 [simp]: "in_i64 (i64 x)"
  unfolding in_i64_def i64_def min_i64_def max_i64_def
  using pos_mod_bound [of "2 ^ 64" "x + 2 ^ 63"] pos_mod_sign [of "2 ^ 64" "x + 2 ^ 63"] by simp

lemma i64_between: "min_i64 \<le> x \<Longrightarrow> x \<le> max_i64 \<Longrightarrow> i64 x = x"
  by (simp add: i64_id in_i64_def)

subsection \<open>Instants and durations\<close>

text \<open>
  An instant is the number of nanoseconds since 1 January of year 1, UTC, so that Go's zero
  \<open>time.Time\<close> is 0 and \<open>UTC()\<close> is the identity. A duration is an \<open>int64\<close>
  number of nanoseconds: \<open>Sub\<close> saturates, arithmetic on durations wraps.
\<close>

type_synonym instant = int
type_synonym duration = int

definition time_IsZero :: "instant \<Rightarrow> bool" where
  "time_IsZero t \<longleftrightarrow> t = 0"

definition second :: duration where "second = 1000000000"

definition time_Sub :: "instant \<Rightarrow> instant \<Rightarrow> duration" where
  "time_Sub a b = max min_i64 (min max_i64 (a - b))"

definition time_AddDate_days :: "instant \<Rightarrow> int \<Rightarrow> instant" where
  "time_AddDate_days t d = t + d * (86400 * second)"

subsection \<open>Strings\<close>

text \<open>
  A Go string is a sequence of bytes; \<^typ>\<open>char\<close> is a byte. The space sequences are the
  UTF-8 encodings of the runes \<open>unicode.IsSpace\<close> accepts.
\<close>

abbreviation (input) slash :: char where "slash \<equiv> CHR ''/''"
abbreviation (input) backslash :: char where "backslash \<equiv> CHR 0x5C"
abbreviation (input) nul :: char where "nul \<equiv> CHR 0x00"

definition HasPrefix :: "string \<Rightarrow> string \<Rightarrow> bool" where
  "HasPrefix s p \<longleftrightarrow> prefix p s"

definition HasSuffix :: "string \<Rightarrow> string \<Rightarrow> bool" where
  "HasSuffix s p \<longleftrightarrow> suffix p s"

definition TrimPrefix :: "string \<Rightarrow> string \<Rightarrow> string" where
  "TrimPrefix s p = (if HasPrefix s p then drop (length p) s else s)"

definition TrimSuffix :: "string \<Rightarrow> string \<Rightarrow> string" where
  "TrimSuffix s p = (if HasSuffix s p then take (length s - length p) s else s)"

text \<open>\<open>strings.ReplaceAll(s, "\\", "/")\<close>, the only replacement the program makes on paths.\<close>

definition ReplaceBackslashes :: "string \<Rightarrow> string" where
  "ReplaceBackslashes s = map (\<lambda>c. if c = backslash then slash else c) s"

fun Split :: "string \<Rightarrow> char \<Rightarrow> string list" where
  "Split [] sep = [[]]"
| "Split (c # s) sep =
     (if c = sep then [] # Split s sep
      else (case Split s sep of [] \<Rightarrow> [[c]] | p # ps \<Rightarrow> (c # p) # ps))"

fun strings_Join :: "string list \<Rightarrow> string \<Rightarrow> string" where
  "strings_Join [] sep = []"
| "strings_Join [p] sep = p"
| "strings_Join (p # ps) sep = p @ sep @ strings_Join ps sep"

definition space_seqs :: "string list" where
  "space_seqs =
     [[CHR 0x20], [CHR 0x09], [CHR 0x0A], [CHR 0x0B], [CHR 0x0C], [CHR 0x0D],
      [CHR 0xC2, CHR 0x85], [CHR 0xC2, CHR 0xA0], [CHR 0xE1, CHR 0x9A, CHR 0x80],
      [CHR 0xE2, CHR 0x80, CHR 0x80], [CHR 0xE2, CHR 0x80, CHR 0x81], [CHR 0xE2, CHR 0x80, CHR 0x82],
      [CHR 0xE2, CHR 0x80, CHR 0x83], [CHR 0xE2, CHR 0x80, CHR 0x84], [CHR 0xE2, CHR 0x80, CHR 0x85],
      [CHR 0xE2, CHR 0x80, CHR 0x86], [CHR 0xE2, CHR 0x80, CHR 0x87], [CHR 0xE2, CHR 0x80, CHR 0x88],
      [CHR 0xE2, CHR 0x80, CHR 0x89], [CHR 0xE2, CHR 0x80, CHR 0x8A], [CHR 0xE2, CHR 0x80, CHR 0xA8],
      [CHR 0xE2, CHR 0x80, CHR 0xA9], [CHR 0xE2, CHR 0x80, CHR 0xAF], [CHR 0xE2, CHR 0x81, CHR 0x9F],
      [CHR 0xE3, CHR 0x80, CHR 0x80]]"

text \<open>The length of the white space at the front of a byte sequence, and whether all of it is.\<close>

definition space_len :: "string list \<Rightarrow> string \<Rightarrow> nat" where
  "space_len seqs s = (case filter (\<lambda>w. prefix w s) seqs of [] \<Rightarrow> 0 | w # _ \<Rightarrow> length w)"

function trim_front :: "string list \<Rightarrow> string \<Rightarrow> string" where
  "trim_front seqs s =
     (if 0 < space_len seqs s \<and> s \<noteq> [] then trim_front seqs (drop (space_len seqs s) s) else s)"
  by pat_completeness auto
termination
  by (relation "measure (\<lambda>(seqs, s). length s)") auto

declare trim_front.simps [simp del]

definition TrimSpace :: "string \<Rightarrow> string" where
  "TrimSpace s = rev (trim_front (map rev space_seqs) (rev (trim_front space_seqs s)))"

definition ContainsNUL :: "string \<Rightarrow> bool" where
  "ContainsNUL s \<longleftrightarrow> nul \<in> set s"

definition ContainsAnySlash :: "string \<Rightarrow> bool" where
  "ContainsAnySlash s \<longleftrightarrow> slash \<in> set s \<or> backslash \<in> set s"

text \<open>\<open>strings.ToUpper\<close> and \<open>ToLower\<close> on ASCII, which is all the modelled callers pass.\<close>

definition char_upper :: "char \<Rightarrow> char" where
  "char_upper c = (let n = of_char c :: nat in if 97 \<le> n \<and> n \<le> 122 then char_of (n - 32) else c)"

definition char_lower :: "char \<Rightarrow> char" where
  "char_lower c = (let n = of_char c :: nat in if 65 \<le> n \<and> n \<le> 90 then char_of (n + 32) else c)"

definition ToUpper :: "string \<Rightarrow> string" where "ToUpper s = map char_upper s"
definition ToLower :: "string \<Rightarrow> string" where "ToLower s = map char_lower s"

definition Contains :: "string \<Rightarrow> string \<Rightarrow> bool" where
  "Contains s t \<longleftrightarrow> list_ex (\<lambda>n. prefix t (drop n s)) [0..<Suc (length s)]"

lemma HasPrefix_append [str_simps]: "HasPrefix (p @ s) p"
  by (simp add: HasPrefix_def)

lemma TrimPrefix_append [str_simps]: "TrimPrefix (p @ s) p = s"
  by (simp add: TrimPrefix_def HasPrefix_def)

lemma TrimPrefix_slash [str_simps]:
  "TrimPrefix (c # s) ''/'' = (if c = slash then s else c # s)"
  "TrimPrefix [] ''/'' = []"
  by (simp_all add: TrimPrefix_def HasPrefix_def)

lemma TrimSuffix_append [str_simps]: "TrimSuffix (s @ p) p = s"
  by (simp add: TrimSuffix_def HasSuffix_def suffix_def)

lemma HasSuffix_append [str_simps]: "HasSuffix (s @ p) p"
  by (simp add: HasSuffix_def suffix_def)

lemma HasSuffix_split: "HasSuffix s p \<Longrightarrow> s = TrimSuffix s p @ p"
  by (auto simp: TrimSuffix_def HasSuffix_def suffix_def)

lemma Split_ne [simp]: "Split s sep \<noteq> []"
  by (induction s) (auto split: list.splits)

lemma Split_no_sep: "p \<in> set (Split s sep) \<Longrightarrow> sep \<notin> set p"
  by (induction s arbitrary: p) (force split: list.splits if_splits)+

lemma Split_single [str_simps]: "sep \<notin> set s \<Longrightarrow> Split s sep = [s]"
  by (induction s) (auto split: list.splits)

lemma Split_append_sep [str_simps]: "Split (a @ sep # b) sep = Split a sep @ Split b sep"
  by (induction a) (auto split: list.splits)

lemma Join_Cons: "ps \<noteq> [] \<Longrightarrow> strings_Join (p # ps) sep = p @ sep @ strings_Join ps sep"
  by (cases ps) simp_all

lemma Split_Join [str_simps]:
  "ps \<noteq> [] \<Longrightarrow> \<forall>p \<in> set ps. sep \<notin> set p \<Longrightarrow> Split (strings_Join ps [sep]) sep = ps"
proof (induction ps)
  case (Cons p ps)
  then show ?case by (cases "ps = []") (simp_all add: str_simps Join_Cons)
qed simp

lemma Join_Split [str_simps]: "strings_Join (Split s sep) [sep] = s"
proof (induction s)
  case (Cons c s)
  obtain p ps where sp: "Split s sep = p # ps" by (cases "Split s sep") auto
  with Cons show ?case by (cases ps) auto
qed simp

lemma Join_append:
  "ps \<noteq> [] \<Longrightarrow> qs \<noteq> [] \<Longrightarrow>
   strings_Join (ps @ qs) sep = strings_Join ps sep @ sep @ strings_Join qs sep"
proof (induction ps)
  case (Cons p ps)
  then show ?case by (cases "ps = []") (simp_all add: Join_Cons)
qed simp

lemma Replace_append [str_simps]:
  "ReplaceBackslashes (a @ b) = ReplaceBackslashes a @ ReplaceBackslashes b"
  "ReplaceBackslashes (c # b) = (if c = backslash then slash else c) # ReplaceBackslashes b"
  "ReplaceBackslashes [] = []"
  by (simp_all add: ReplaceBackslashes_def)

lemma Replace_id: "backslash \<notin> set s \<Longrightarrow> ReplaceBackslashes s = s"
  by (induction s) (auto simp: ReplaceBackslashes_def)

lemma Replace_no_backslash [simp]: "backslash \<notin> set (ReplaceBackslashes s)"
  by (auto simp: ReplaceBackslashes_def)

lemma Replace_idem [simp]: "ReplaceBackslashes (ReplaceBackslashes s) = ReplaceBackslashes s"
  by (rule Replace_id) simp

subsection \<open>Association lists as finite maps\<close>

text \<open>
  A Go \<open>map\<close> whose size the code reads is an association list with distinct keys. Insertion
  and deletion are those of the library; the two sums below are what the code keeps as counters.
\<close>

definition al_keys :: "('k \<times> 'v) list \<Rightarrow> 'k list" where
  "al_keys m = map fst m"

definition al_sum :: "('v \<Rightarrow> int) \<Rightarrow> ('k \<times> 'v) list \<Rightarrow> int" where
  "al_sum f m = sum_list (map (f \<circ> snd) m)"

lemma al_sum_Nil [simp]: "al_sum f [] = 0"
  by (simp add: al_sum_def)

lemma al_sum_Cons [simp]: "al_sum f (p # m) = f (snd p) + al_sum f m"
  by (simp add: al_sum_def)

lemma al_sum_filter_le: "(\<And>v. 0 \<le> f v) \<Longrightarrow> al_sum f (filter P m) \<le> al_sum f m"
  by (induction m) (auto simp: add_increasing)

lemma delete_absent: "map_of m k = None \<Longrightarrow> AList.delete k m = m"
  by (simp add: AList.delete_eq map_of_eq_None_iff filter_id_conv) force

lemma al_sum_delete:
  "distinct (al_keys m) \<Longrightarrow>
   al_sum f (AList.delete k m) = al_sum f m - (case map_of m k of None \<Rightarrow> 0 | Some v \<Rightarrow> f v)"
proof (induction m)
  case (Cons p m)
  obtain k' v where p: "p = (k', v)" by (cases p)
  show ?case
  proof (cases "k' = k")
    case True
    with Cons.prems p have "map_of m k = None"
      by (simp add: al_keys_def map_of_eq_None_iff)
    with True p show ?thesis by (simp add: delete_absent)
  next
    case False
    with Cons p show ?thesis by (simp add: al_keys_def)
  qed
qed simp

lemma al_keys_delete [simp]: "al_keys (AList.delete k m) = filter (\<lambda>x. x \<noteq> k) (al_keys m)"
  by (induction m) (auto simp: al_keys_def)

lemma al_keys_Cons [simp]: "al_keys (p # m) = fst p # al_keys m"
  by (simp add: al_keys_def)

lemma al_keys_Nil [simp]: "al_keys [] = []"
  by (simp add: al_keys_def)

lemma length_delete_le: "length (AList.delete k m) \<le> length m"
  by (simp add: AList.delete_eq)

lemma length_delete_present:
  "map_of m k = Some v \<Longrightarrow> length (AList.delete k m) < length m"
  by (induction m) (auto simp: le_imp_less_Suc length_delete_le split: if_splits)

subsection \<open>Observing the calls of a library\<close>

text \<open>
  A library the program calls is a record of state transformers. An observed library runs the same
  transformers beside a log of the calls of interest, or beside a count of what they hand out and take
  back; the log and the count are the second component of its state.
\<close>

definition silent_call :: "('s \<Rightarrow> 'a \<times> 's) \<Rightarrow> 's \<times> 'm \<Rightarrow> 'a \<times> 's \<times> 'm" where
  "silent_call f s = (case f (fst s) of (r, t) \<Rightarrow> (r, t, snd s))"

definition noted_call :: "'m \<Rightarrow> ('s \<Rightarrow> 'a \<times> 's) \<Rightarrow> 's \<times> 'm list \<Rightarrow> 'a \<times> 's \<times> 'm list" where
  "noted_call m f s = (case f (fst s) of (r, t) \<Rightarrow> (r, t, snd s @ [m]))"

definition counted_call :: "('a \<Rightarrow> int) \<Rightarrow> ('s \<Rightarrow> 'a \<times> 's) \<Rightarrow> 's \<times> int \<Rightarrow> 'a \<times> 's \<times> int" where
  "counted_call cost f s = (case f (fst s) of (r, t) \<Rightarrow> (r, t, snd s + cost r))"

lemma silent_log [simp]: "snd (snd (silent_call f s)) = snd s"
  by (simp add: silent_call_def split: prod.splits)

lemma noted_log [simp]: "snd (snd (noted_call m f s)) = snd s @ [m]"
  by (simp add: noted_call_def split: prod.splits)

lemma silent_callD: "silent_call f s = (r, t) \<Longrightarrow> snd t = snd s"
  using silent_log [of f s] by simp

lemma noted_callD: "noted_call m f s = (r, t) \<Longrightarrow> snd t = snd s @ [m]"
  using noted_log [of m f s] by simp

lemma counted_callD: "counted_call cost f s = (r, t) \<Longrightarrow> snd t = snd s + cost r"
  by (auto simp: counted_call_def split: prod.splits)

end
