(* ===== verification/Go_Errors.thy ===== *)
theory Go_Errors
  imports DK_Prelude
begin

text \<open>
  Go's error values: sentinels, texts, the chains \<open>fmt.Errorf("...: %w", e)\<close> builds, the trees
  \<open>errors.Join\<close> builds, and the standard library's \<open>errors.Is\<close>,
  \<open>errors.Unwrap\<close>, \<open>errors.As\<close> and \<open>os.IsNotExist\<close> on them. The Korean message
  texts of the program are replaced by short ASCII tags; no decision of the program reads them.
\<close>

datatype sentinel =
    ErrNotExist | ErrExist | ErrPermission | ErrClosed | ErrInvalid
  | NetErrClosed | Canceled | DeadlineExceeded
  | EOF | ErrUnexpectedEOF | ErrShortWrite | ErrUnsupported
  | ENOENT | EEXIST | EACCES | EIO | ENOSPC | EISDIR | ENOTDIR | STATUS_DISK_FULL
  | STATUS_INVALID_HANDLE | STATUS_ACCESS_DENIED

text \<open>
  \<open>PathErr s\<close> is an \<open>*fs.PathError\<close> of an operating system call, \<open>Reply c m\<close> a
  \<open>*textproto.Error\<close> with code \<open>c\<close>, \<open>NetErr m\<close> any other \<open>net.Error\<close>.
\<close>

datatype err =
    Sentinel sentinel
  | ErrNew string
  | Wrapped string err
  | Joined "err list"
  | PathErr sentinel
  | Reply nat string
  | NetErr string

text \<open>\<open>syscall.Errno.Is\<close>: which portable sentinel an error number stands for.\<close>

fun errno_is :: "sentinel \<Rightarrow> sentinel \<Rightarrow> bool" where
  "errno_is ENOENT t = (t = ErrNotExist)"
| "errno_is EEXIST t = (t = ErrExist)"
| "errno_is EACCES t = (t = ErrPermission)"
| "errno_is s t = False"

definition sentinel_is :: "sentinel \<Rightarrow> sentinel \<Rightarrow> bool" where
  "sentinel_is s t \<longleftrightarrow> s = t \<or> errno_is s t"

fun errors_Is :: "err \<Rightarrow> sentinel \<Rightarrow> bool" where
  "errors_Is (Sentinel s) t = sentinel_is s t"
| "errors_Is (ErrNew m) t = False"
| "errors_Is (Wrapped m e) t = errors_Is e t"
| "errors_Is (Joined es) t = list_ex (\<lambda>e. errors_Is e t) es"
| "errors_Is (PathErr s) t = sentinel_is s t"
| "errors_Is (Reply c m) t = False"
| "errors_Is (NetErr m) t = False"

fun errors_Unwrap :: "err \<Rightarrow> err option" where
  "errors_Unwrap (Wrapped m e) = Some e"
| "errors_Unwrap (PathErr s) = Some (Sentinel s)"
| "errors_Unwrap e = None"

text \<open>\<open>errors.Join\<close>: nil arguments are dropped, and no argument left means nil.\<close>

definition errors_Join :: "err option list \<Rightarrow> err option" where
  "errors_Join es =
     (case List.map_filter id es of [] \<Rightarrow> None | e # rest \<Rightarrow> Some (Joined (e # rest)))"

text \<open>\<open>os.IsNotExist\<close> looks through a \<open>PathError\<close> but not through wrapped errors.\<close>

fun os_IsNotExist :: "err \<Rightarrow> bool" where
  "os_IsNotExist (Sentinel s) = sentinel_is s ErrNotExist"
| "os_IsNotExist (PathErr s) = sentinel_is s ErrNotExist"
| "os_IsNotExist e = False"

text \<open>
  The code of the first \<open>*textproto.Error\<close> in the tree, as \<open>errors.As\<close> finds it, and
  whether the tree has a \<open>net.Error\<close>. Error numbers, \<open>context.DeadlineExceeded\<close> and
  \<open>net.ErrClosed\<close> have the methods \<open>Timeout\<close> and \<open>Temporary\<close>, so they are
  \<open>net.Error\<close>s too.
\<close>

fun as_Reply :: "err \<Rightarrow> nat option" where
  "as_Reply (Wrapped m e) = as_Reply e"
| "as_Reply (Joined es) =
     foldr (\<lambda>e r. case as_Reply e of None \<Rightarrow> r | Some c \<Rightarrow> Some c) es None"
| "as_Reply (Reply c m) = Some c"
| "as_Reply e = None"

definition sentinel_is_net :: "sentinel \<Rightarrow> bool" where
  "sentinel_is_net s \<longleftrightarrow>
     s \<in> set [NetErrClosed, DeadlineExceeded, ENOENT, EEXIST, EACCES, EIO, ENOSPC, EISDIR, ENOTDIR]"

fun as_NetError :: "err \<Rightarrow> bool" where
  "as_NetError (Sentinel s) = sentinel_is_net s"
| "as_NetError (PathErr s) = sentinel_is_net s"
| "as_NetError (Wrapped m e) = as_NetError e"
| "as_NetError (Joined es) = list_ex as_NetError es"
| "as_NetError (NetErr m) = True"
| "as_NetError e = False"

text \<open>The text of an error, for the callers that search it; sentinels have their library text.\<close>

fun sentinel_text :: "sentinel \<Rightarrow> string" where
  "sentinel_text ErrNotExist = ''file does not exist''"
| "sentinel_text ErrExist = ''file already exists''"
| "sentinel_text ErrPermission = ''permission denied''"
| "sentinel_text ErrClosed = ''file already closed''"
| "sentinel_text ErrInvalid = ''invalid argument''"
| "sentinel_text NetErrClosed = ''use of closed network connection''"
| "sentinel_text Canceled = ''context canceled''"
| "sentinel_text DeadlineExceeded = ''context deadline exceeded''"
| "sentinel_text EOF = ''EOF''"
| "sentinel_text ErrUnexpectedEOF = ''unexpected EOF''"
| "sentinel_text ErrShortWrite = ''short write''"
| "sentinel_text ErrUnsupported = ''unsupported operation''"
| "sentinel_text ENOENT = ''no such file or directory''"
| "sentinel_text EEXIST = ''file exists''"
| "sentinel_text EACCES = ''permission denied''"
| "sentinel_text EIO = ''input/output error''"
| "sentinel_text ENOSPC = ''no space left on device''"
| "sentinel_text EISDIR = ''is a directory''"
| "sentinel_text ENOTDIR = ''not a directory''"
| "sentinel_text STATUS_DISK_FULL = ''disk full''"
| "sentinel_text STATUS_INVALID_HANDLE = ''invalid handle''"
| "sentinel_text STATUS_ACCESS_DENIED = ''access denied''"

fun err_Error :: "err \<Rightarrow> string" where
  "err_Error (Sentinel s) = sentinel_text s"
| "err_Error (ErrNew m) = m"
| "err_Error (Wrapped m e) = m @ '': '' @ err_Error e"
| "err_Error (Joined es) = strings_Join (map err_Error es) [CHR 0x0A]"
| "err_Error (PathErr s) = sentinel_text s"
| "err_Error (Reply c m) = m"
| "err_Error (NetErr m) = m"

lemma sentinel_is_refl [simp, err_simps]: "sentinel_is s s"
  by (simp add: sentinel_is_def)

lemma errors_Join_None_iff [err_simps]: "errors_Join es = None \<longleftrightarrow> (\<forall>e \<in> set es. e = None)"
proof -
  have "List.map_filter id es = [] \<longleftrightarrow> (\<forall>e \<in> set es. e = None)"
    by (induction es) (auto simp: List.map_filter_def split: option.splits)
  then show ?thesis by (auto simp: errors_Join_def split: list.splits)
qed

lemma errors_Join_two [err_simps]:
  "errors_Join [None, None] = None"
  "errors_Join [Some a, None] = Some (Joined [a])"
  "errors_Join [None, Some b] = Some (Joined [b])"
  "errors_Join [Some a, Some b] = Some (Joined [a, b])"
  by (simp_all add: errors_Join_def List.map_filter_def)

lemma errors_Join_Is:
  "errors_Join es = Some j \<Longrightarrow> errors_Is j t \<longleftrightarrow> (\<exists>e. Some e \<in> set es \<and> errors_Is e t)"
proof -
  assume "errors_Join es = Some j"
  then have j: "j = Joined (List.map_filter id es)"
    by (auto simp: errors_Join_def split: list.splits)
  have "set (List.map_filter id es) = {e. Some e \<in> set es}"
    by (force simp: List.map_filter_def)
  then show ?thesis by (auto simp: j list_ex_iff)
qed

end
