(* ===== verification/Go_Path.thy ===== *)
theory Go_Path
  imports DK_Prelude
begin

text \<open>
  The functions of Go's package \<^theory_text>\<open>path\<close> that the program uses, on byte strings, and
  the algebra of rooted, cleaned paths behind every "stays under the root" argument: a cleaned
  rooted path is \<open>/\<close> followed by plain components, and cleaning computes those components with
  a stack that a \<open>..\<close> can never pop below the root.
\<close>

definition clean_step :: "bool \<Rightarrow> string list \<Rightarrow> string \<Rightarrow> string list" where
  "clean_step rooted st p =
     (if p = '''' \<or> p = ''.'' then st
      else if p = ''..'' then
        (if st \<noteq> [] \<and> last st \<noteq> ''..'' then butlast st
         else if rooted then st else st @ [''..''])
      else st @ [p])"

definition path_Clean :: "string \<Rightarrow> string" where
  "path_Clean s =
     (if s = [] then ''.''
      else let rooted = (hd s = slash);
               st = foldl (clean_step rooted) [] (Split s slash);
               out = (if rooted then ''/'' else []) @ strings_Join st ''/''
           in if out = [] then ''.'' else out)"

fun join_buf :: "string \<Rightarrow> string list \<Rightarrow> string" where
  "join_buf buf [] = buf"
| "join_buf buf (e # es) =
     join_buf (if buf \<noteq> [] then buf @ ''/'' @ e else e) es"

definition path_Join :: "string list \<Rightarrow> string" where
  "path_Join es = (if list_all (\<lambda>e. e = []) es then [] else path_Clean (join_buf [] es))"

text \<open>\<open>path.Split\<close>: the file part is what follows the last slash.\<close>

definition path_Split :: "string \<Rightarrow> string \<times> string" where
  "path_Split s = (let f = last (Split s slash) in (take (length s - length f) s, f))"

definition path_Dir :: "string \<Rightarrow> string" where
  "path_Dir s = path_Clean (fst (path_Split s))"

definition strip_slashes :: "string \<Rightarrow> string" where
  "strip_slashes s = rev (dropWhile (\<lambda>c. c = slash) (rev s))"

definition path_Base :: "string \<Rightarrow> string" where
  "path_Base s =
     (if s = [] then ''.''
      else let t = last (Split (strip_slashes s) slash) in if t = [] then ''/'' else t)"

definition path_Ext :: "string \<Rightarrow> string" where
  "path_Ext s =
     (let f = last (Split s slash); ps = Split f (CHR ''.'')
      in if length ps = 1 then [] else CHR ''.'' # last ps)"

subsection \<open>Plain components and rooted paths\<close>

definition plain :: "string \<Rightarrow> bool" where
  "plain p \<longleftrightarrow> p \<noteq> [] \<and> p \<noteq> ''.'' \<and> p \<noteq> ''..'' \<and> slash \<notin> set p"

definition abs_path :: "string list \<Rightarrow> string" where
  "abs_path ps = slash # strings_Join ps ''/''"

text \<open>The components a rooted string denotes.\<close>

definition norm :: "string list \<Rightarrow> string list" where
  "norm cs = foldl (clean_step True) [] cs"

definition comps :: "string \<Rightarrow> string list" where
  "comps s = norm (Split s slash)"

lemma clean_step_skip [path_simps]: "clean_step r st '''' = st" "clean_step r st ''.'' = st"
  by (simp_all add: clean_step_def)

lemma clean_step_plain [path_simps]: "plain p \<Longrightarrow> clean_step r st p = st @ [p]"
  by (auto simp: clean_step_def plain_def)

lemma foldl_plain [path_simps]: "list_all plain ps \<Longrightarrow> foldl (clean_step r) st ps = st @ ps"
  by (induction ps arbitrary: st) (auto simp: path_simps)

lemma norm_plain_id [path_simps]: "list_all plain ps \<Longrightarrow> norm ps = ps"
  by (simp add: norm_def foldl_plain)

lemma norm_append_plain [path_simps]: "list_all plain ps \<Longrightarrow> norm (cs @ ps) = norm cs @ ps"
  by (simp add: norm_def foldl_plain)

lemma norm_Nil_first [path_simps]: "norm ('''' # cs) = norm cs"
  by (simp add: norm_def path_simps)

lemma clean_step_keeps_plain:
  "list_all plain st \<Longrightarrow> slash \<notin> set p \<Longrightarrow> list_all plain (clean_step True st p)"
  by (auto simp: clean_step_def plain_def list_all_iff dest: in_set_butlastD)

lemma foldl_keeps_plain:
  "list_all plain st \<Longrightarrow> \<forall>p \<in> set cs. slash \<notin> set p \<Longrightarrow>
   list_all plain (foldl (clean_step True) st cs)"
  by (induction cs arbitrary: st) (auto simp: clean_step_keeps_plain)

lemma norm_plain: "\<forall>p \<in> set cs. slash \<notin> set p \<Longrightarrow> list_all plain (norm cs)"
  by (simp add: norm_def foldl_keeps_plain)

lemma comps_plain [simp]: "list_all plain (comps s)"
  by (simp add: comps_def norm_plain Split_no_sep)

lemma norm_append_norm [path_simps]:
  "\<forall>p \<in> set cs. slash \<notin> set p \<Longrightarrow> norm (norm cs @ ds) = norm (cs @ ds)"
  using norm_plain_id [OF norm_plain, of cs] by (simp add: norm_def)

lemma path_Clean_rooted [path_simps]: "path_Clean (slash # s) = abs_path (comps s)"
  by (simp add: path_Clean_def abs_path_def comps_def norm_def path_simps)

lemma plain_no_slash: "list_all plain ps \<Longrightarrow> \<forall>p \<in> set ps. slash \<notin> set p"
  by (auto simp: list_all_iff plain_def)

lemma comps_Nil [simp]: "comps [] = []"
  by (simp add: comps_def norm_def path_simps)

lemma comps_Join [path_simps]: "list_all plain ps \<Longrightarrow> comps (strings_Join ps ''/'') = ps"
  by (cases "ps = []")
     (simp_all add: comps_def Split_Join plain_no_slash norm_plain_id norm_def clean_step_skip foldl_plain)

lemma comps_slash [path_simps]: "comps (slash # s) = comps s"
  by (simp add: comps_def path_simps)

lemma comps_append_slash [path_simps]:
  "comps (a @ slash # b) = norm (comps a @ Split b slash)"
  by (simp add: comps_def Split_append_sep norm_append_norm Split_no_sep)

lemma comps_slash_end [path_simps]: "comps (s @ ''/'') = comps s"
  by (simp add: path_simps norm_def)

lemma comps_abs_path [path_simps]: "list_all plain ps \<Longrightarrow> comps (abs_path ps) = ps"
  by (simp add: abs_path_def path_simps)

lemma abs_path_inj: "list_all plain ps \<Longrightarrow> list_all plain qs \<Longrightarrow> abs_path ps = abs_path qs \<longleftrightarrow> ps = qs"
  using comps_abs_path by metis

lemma path_Clean_abs [path_simps]: "list_all plain ps \<Longrightarrow> path_Clean (abs_path ps) = abs_path ps"
  by (simp add: abs_path_def path_Clean_rooted path_simps)

lemma path_Clean_rooted_idem: "path_Clean (path_Clean (slash # s)) = path_Clean (slash # s)"
  by (simp add: path_simps)

text \<open>Appending a relative part to a rooted one and cleaning: the components are appended.\<close>

lemma Join_two_rooted [path_simps]:
  "path_Join [slash # a, b] = abs_path (norm (comps a @ Split b slash))"
  by (cases "b = []") (simp_all add: path_Join_def path_Clean_rooted comps_append_slash)

lemma Join_abs_plain [path_simps]:
  assumes "list_all plain rs" and "list_all plain ns"
  shows "path_Join [abs_path rs, strings_Join ns ''/''] = abs_path (rs @ ns)"
proof (cases "ns = []")
  case True
  with assms show ?thesis
    by (simp add: abs_path_def Join_two_rooted path_simps)
       (simp add: abs_path_def norm_def path_simps)
next
  case False
  with assms show ?thesis
    by (simp add: abs_path_def Join_two_rooted path_simps Split_Join plain_no_slash)
qed

lemma Join_plain_no_slash_end:
  assumes "list_all plain ps" and "ps \<noteq> []"
  shows "strings_Join ps ''/'' \<noteq> []" "last (strings_Join ps ''/'') \<noteq> slash"
        "hd (strings_Join ps ''/'') \<noteq> slash"
proof -
  obtain qs p where ps: "ps = qs @ [p]" using \<open>ps \<noteq> []\<close> by (metis rev_exhaust)
  from assms ps have p: "p \<noteq> []" "slash \<notin> set p" by (auto simp: plain_def)
  have j: "strings_Join ps ''/'' = (if qs = [] then p else strings_Join qs ''/'' @ slash # p)"
    using Join_append [of qs "[p]" "''/''"] ps by auto
  from j p show "strings_Join ps ''/'' \<noteq> []" by auto
  from j p show "last (strings_Join ps ''/'') \<noteq> slash" by (auto dest: last_in_set)
  obtain a as where a: "ps = a # as" using \<open>ps \<noteq> []\<close> by (cases ps) auto
  with assms have "a \<noteq> []" "slash \<notin> set a" by (auto simp: plain_def)
  with a show "hd (strings_Join ps ''/'') \<noteq> slash"
    by (cases "as = []") (auto simp: Join_Cons dest: hd_in_set)
qed

lemma abs_path_snoc:
  "abs_path (ps @ [p]) = (if ps = [] then slash # p else abs_path ps @ slash # p)"
  using Join_append [of ps "[p]" "''/''"] by (simp add: abs_path_def)

lemma Split_abs_path:
  "list_all plain ps \<Longrightarrow> ps \<noteq> [] \<Longrightarrow> Split (abs_path ps) slash = '''' # ps"
  by (simp add: abs_path_def Split_Join plain_no_slash)

lemma strip_slashes_id: "last s \<noteq> slash \<Longrightarrow> strip_slashes s = s"
  by (cases s rule: rev_cases) (simp_all add: strip_slashes_def)

lemma path_Base_abs [path_simps]:
  assumes "list_all plain ps" and "plain p"
  shows "path_Base (abs_path (ps @ [p])) = p"
proof -
  from assms have all: "list_all plain (ps @ [p])" by simp
  have "last (abs_path (ps @ [p])) \<noteq> slash"
    using Join_plain_no_slash_end [OF all] by (simp add: abs_path_def)
  then have "strip_slashes (abs_path (ps @ [p])) = abs_path (ps @ [p])"
    by (rule strip_slashes_id)
  with Split_abs_path [OF all] assms show ?thesis
    by (simp add: path_Base_def Let_def plain_def) (simp add: abs_path_def)
qed

lemma path_Base_root [path_simps]: "path_Base ''/'' = ''/''"
  by (simp add: path_Base_def strip_slashes_def)

lemma path_Dir_abs [path_simps]:
  assumes "list_all plain ps" and "plain p"
  shows "path_Dir (abs_path (ps @ [p])) = abs_path ps"
proof -
  from assms have all: "list_all plain (ps @ [p])" by simp
  have f: "last (Split (abs_path (ps @ [p])) slash) = p"
    using Split_abs_path [OF all] by simp
  have "take (length (abs_path (ps @ [p])) - length p) (abs_path (ps @ [p])) =
        (if ps = [] then ''/'' else abs_path ps @ ''/'')"
    by (simp add: abs_path_snoc)
  then have "fst (path_Split (abs_path (ps @ [p]))) = (if ps = [] then ''/'' else abs_path ps @ ''/'')"
    by (simp add: path_Split_def f Let_def)
  then show ?thesis using assms
    by (auto simp: path_Dir_def abs_path_def path_Clean_rooted comps_slash_end comps_Join)
qed

lemma path_Dir_root [path_simps]: "path_Dir ''/'' = ''/''"
  by (simp add: path_Dir_def path_Split_def path_Clean_def clean_step_def)

text \<open>Prefixes of rooted paths, as the code compares them: equality, or the path and a slash.\<close>

lemma abs_path_append:
  "ps \<noteq> [] \<Longrightarrow> qs \<noteq> [] \<Longrightarrow> abs_path (ps @ qs) = abs_path ps @ slash # strings_Join qs ''/''"
  by (simp add: abs_path_def Join_append)

lemma below_iff:
  assumes "list_all plain ps" and "list_all plain qs" and "ps \<noteq> []"
  shows "prefix (abs_path ps @ ''/'') (abs_path qs) \<longleftrightarrow> (\<exists>rs. rs \<noteq> [] \<and> qs = ps @ rs)"
proof
  assume "prefix (abs_path ps @ ''/'') (abs_path qs)"
  then obtain t where t: "abs_path qs = abs_path ps @ slash # t" by (auto simp: prefix_def)
  have qne: "qs \<noteq> []"
    using t assms by (auto simp: abs_path_def Join_plain_no_slash_end)
  have "Split (abs_path qs) slash = ('''' # ps) @ Split t slash"
    using t Split_append_sep [of "abs_path ps" slash t] Split_abs_path [OF assms(1,3)] by simp
  then have "qs = ps @ Split t slash" using Split_abs_path [OF assms(2) qne] by simp
  then show "\<exists>rs. rs \<noteq> [] \<and> qs = ps @ rs" by (metis Split_ne)
next
  assume "\<exists>rs. rs \<noteq> [] \<and> qs = ps @ rs"
  then show "prefix (abs_path ps @ ''/'') (abs_path qs)"
    using assms(3) by (auto simp: abs_path_append)
qed

end
