(* ===== verification/Vfs.thy ===== *)
theory Vfs
  imports Go_Errors Go_Path
begin

text \<open>
  \<^verbatim>\<open>internal/vfs/backend.go\<close> and \<^verbatim>\<open>readonly.go\<close>: the protocol-neutral
  file operation boundary and its read-only wrapper. A backend is a record of operations on an
  explicit world \<open>'w\<close>; readers and writers are references of types \<open>'r\<close> and \<open>'h\<close>
  into it. A context is what \<open>ctx.Err()\<close> answers during the call.
\<close>

unbundle bit_operations_syntax

type_synonym filemode = "32 word"
type_synonym bytes = "8 word list"
type_synonym ctx = "err option"

definition ModeDir :: filemode where "ModeDir = 0x80000000"
definition ModeSymlink :: filemode where "ModeSymlink = 0x08000000"
definition ModeType :: filemode where "ModeType = 0x8F280000"
definition ModePerm :: filemode where "ModePerm = 0x1FF"

definition mode_IsDir :: "filemode \<Rightarrow> bool" where
  "mode_IsDir m \<longleftrightarrow> m AND ModeDir \<noteq> 0"

definition mode_IsRegular :: "filemode \<Rightarrow> bool" where
  "mode_IsRegular m \<longleftrightarrow> m AND ModeType = 0"

definition mode_IsSymlink :: "filemode \<Rightarrow> bool" where
  "mode_IsSymlink m \<longleftrightarrow> m AND ModeSymlink \<noteq> 0"

record entry =
  e_Name :: string
  e_Size :: int
  e_Mode :: filemode
  e_ModTime :: instant

definition zero_entry :: entry where
  "zero_entry = \<lparr>e_Name = [], e_Size = 0, e_Mode = 0, e_ModTime = 0\<rparr>"

definition entry_IsDir :: "entry \<Rightarrow> bool" where
  "entry_IsDir e = mode_IsDir (e_Mode e)"

record write_options =
  wo_Create :: bool
  wo_Truncate :: bool
  wo_Append :: bool
  wo_Mode :: filemode

record ('w, 'r, 'h) backend =
  b_Stat :: "ctx \<Rightarrow> string \<Rightarrow> 'w \<Rightarrow> (err + entry) \<times> 'w"
  b_ReadDir :: "ctx \<Rightarrow> string \<Rightarrow> 'w \<Rightarrow> (err + entry list) \<times> 'w"
  b_OpenRead :: "ctx \<Rightarrow> string \<Rightarrow> 'w \<Rightarrow> (err + 'r) \<times> 'w"
  b_OpenWrite :: "ctx \<Rightarrow> string \<Rightarrow> write_options \<Rightarrow> 'w \<Rightarrow> (err + 'h) \<times> 'w"
  b_Mkdir :: "ctx \<Rightarrow> string \<Rightarrow> 'w \<Rightarrow> err option \<times> 'w"
  b_Remove :: "ctx \<Rightarrow> string \<Rightarrow> bool \<Rightarrow> 'w \<Rightarrow> err option \<times> 'w"
  b_Rename :: "ctx \<Rightarrow> string \<Rightarrow> string \<Rightarrow> 'w \<Rightarrow> err option \<times> 'w"
  b_SetModTime :: "ctx \<Rightarrow> string \<Rightarrow> instant \<Rightarrow> 'w \<Rightarrow> err option \<times> 'w"
  b_SetReadOnly :: "ctx \<Rightarrow> string \<Rightarrow> bool \<Rightarrow> 'w \<Rightarrow> err option \<times> 'w"
  b_Close :: "'w \<Rightarrow> err option \<times> 'w"
  r_ReadAll :: "'r \<Rightarrow> 'w \<Rightarrow> (bytes \<times> err option) \<times> 'w"
  r_Close :: "'r \<Rightarrow> 'w \<Rightarrow> err option \<times> 'w"
  h_WriteAt :: "'h \<Rightarrow> bytes \<Rightarrow> int \<Rightarrow> 'w \<Rightarrow> (nat \<times> err option) \<times> 'w"
  h_Sync :: "'h \<Rightarrow> 'w \<Rightarrow> err option \<times> 'w"
  h_Close :: "'h \<Rightarrow> 'w \<Rightarrow> err option \<times> 'w"

subsection \<open>The read-only wrapper\<close>

definition ErrReadOnly :: err where
  "ErrReadOnly = Wrapped ''DK-Drive read-only connection'' (Sentinel ErrPermission)"

definition NewReadOnlyBackend :: "('w, 'r, 'h) backend \<Rightarrow> ('w, 'r, 'h) backend" where
  "NewReadOnlyBackend b = b\<lparr>
     b_OpenWrite := (\<lambda>_ _ _ w. (Inl ErrReadOnly, w)),
     b_Mkdir := (\<lambda>_ _ w. (Some ErrReadOnly, w)),
     b_Remove := (\<lambda>_ _ _ w. (Some ErrReadOnly, w)),
     b_Rename := (\<lambda>_ _ _ w. (Some ErrReadOnly, w)),
     b_SetModTime := (\<lambda>_ _ _ w. (Some ErrReadOnly, w)),
     b_SetReadOnly := (\<lambda>_ _ _ w. (Some ErrReadOnly, w))\<rparr>"

lemma ErrReadOnly_is_permission [simp]: "errors_Is ErrReadOnly ErrPermission"
  by (simp add: ErrReadOnly_def)

text \<open>
  One call at the boundary, and a run of calls: what a client of a backend can do to the world
  without a reader or a writer in hand.
\<close>

datatype vfs_call =
    CStat string | CReadDir string | COpenRead string | COpenWrite string write_options
  | CMkdir string | CRemove string bool | CRename string string
  | CSetModTime string instant | CSetReadOnly string bool

fun vfs_run :: "('w, 'r, 'h) backend \<Rightarrow> ctx \<Rightarrow> vfs_call \<Rightarrow> 'w \<Rightarrow> err option \<times> 'w" where
  "vfs_run b x (CStat n) w = map_prod (case_sum Some (\<lambda>_. None)) id (b_Stat b x n w)"
| "vfs_run b x (CReadDir n) w = map_prod (case_sum Some (\<lambda>_. None)) id (b_ReadDir b x n w)"
| "vfs_run b x (COpenRead n) w = map_prod (case_sum Some (\<lambda>_. None)) id (b_OpenRead b x n w)"
| "vfs_run b x (COpenWrite n opt) w =
     map_prod (case_sum Some (\<lambda>_. None)) id (b_OpenWrite b x n opt w)"
| "vfs_run b x (CMkdir n) w = b_Mkdir b x n w"
| "vfs_run b x (CRemove n d) w = b_Remove b x n d w"
| "vfs_run b x (CRename m n) w = b_Rename b x m n w"
| "vfs_run b x (CSetModTime n t) w = b_SetModTime b x n t w"
| "vfs_run b x (CSetReadOnly n r) w = b_SetReadOnly b x n r w"

fun vfs_mutating :: "vfs_call \<Rightarrow> bool" where
  "vfs_mutating (CStat n) = False"
| "vfs_mutating (CReadDir n) = False"
| "vfs_mutating (COpenRead n) = False"
| "vfs_mutating _ = True"

fun vfs_runs :: "('w, 'r, 'h) backend \<Rightarrow> ctx \<Rightarrow> vfs_call list \<Rightarrow> 'w \<Rightarrow> 'w" where
  "vfs_runs b x [] w = w"
| "vfs_runs b x (c # cs) w = vfs_runs b x cs (snd (vfs_run b x c w))"

lemma readonly_mutating:
  "vfs_mutating c \<Longrightarrow> vfs_run (NewReadOnlyBackend b) x c w = (Some ErrReadOnly, w)"
  by (cases c) (simp_all add: NewReadOnlyBackend_def)

lemma readonly_reading:
  "\<not> vfs_mutating c \<Longrightarrow> vfs_run (NewReadOnlyBackend b) x c w = vfs_run b x c w"
  by (cases c) (simp_all add: NewReadOnlyBackend_def)

lemma readonly_runs:
  "vfs_runs (NewReadOnlyBackend b) x cs w = vfs_runs b x (filter (Not \<circ> vfs_mutating) cs) w"
proof (induction cs arbitrary: w)
  case (Cons c cs)
  then show ?case
    by (cases "vfs_mutating c") (simp_all add: readonly_mutating readonly_reading)
qed simp

text \<open>
  Over a read-only connection a run of calls has exactly the effect of its reading calls on the
  wrapped backend, whatever the mutating calls in between; and every mutating call is refused with
  an error that \<open>errors.Is\<close> recognises as a permission error.
\<close>

theorem readonly_backend_confines:
  "vfs_runs (NewReadOnlyBackend b) x cs w = vfs_runs b x (filter (Not \<circ> vfs_mutating) cs) w
   \<and> (vfs_mutating c \<longrightarrow>
      (\<exists>e. vfs_run (NewReadOnlyBackend b) x c w = (Some e, w) \<and> errors_Is e ErrPermission))"
  by (simp add: readonly_runs readonly_mutating)

text \<open>A backend whose world counts the calls that reach it.\<close>

definition counting_backend :: "(nat, unit, unit) backend" where
  "counting_backend = \<lparr>
     b_Stat = (\<lambda>x n w. (Inr zero_entry, Suc w)), b_ReadDir = (\<lambda>x n w. (Inr [], Suc w)),
     b_OpenRead = (\<lambda>x n w. (Inr (), Suc w)), b_OpenWrite = (\<lambda>x n opt w. (Inr (), Suc w)),
     b_Mkdir = (\<lambda>x n w. (None, Suc w)), b_Remove = (\<lambda>x n d w. (None, Suc w)),
     b_Rename = (\<lambda>x m n w. (None, Suc w)), b_SetModTime = (\<lambda>x n t w. (None, Suc w)),
     b_SetReadOnly = (\<lambda>x n r w. (None, Suc w)), b_Close = (\<lambda>w. (None, Suc w)),
     r_ReadAll = (\<lambda>r w. (([], None), w)), r_Close = (\<lambda>r w. (None, w)),
     h_WriteAt = (\<lambda>h d off w. ((0, None), w)), h_Sync = (\<lambda>h w. (None, w)), h_Close = (\<lambda>h w. (None, w))\<rparr>"

theorem readonly_backend_confines_witness:
  "\<exists>e. vfs_run (NewReadOnlyBackend counting_backend) None (CRemove ''/a'' False) (3::nat) = (Some e, 3)
       \<and> errors_Is e ErrPermission"
proof -
  have "vfs_mutating (CRemove ''/a'' False)" by simp
  from readonly_backend_confines [THEN conjunct2, THEN mp, OF this] show ?thesis .
qed

end
