(* ===== verification/Metadata_Cache.thy ===== *)
theory Metadata_Cache
  imports Vfs
begin

text \<open>
  \<^verbatim>\<open>internal/vfs/metadata_cache.go\<close>: the short-lived cache of \<open>Stat\<close> and
  \<open>ReadDir\<close> answers in front of a backend. This theory holds its data and the code between a
  \<open>mu.Lock()\<close> and the matching \<open>mu.Unlock()\<close>, one definition per critical section;
  \<^verbatim>\<open>Metadata_Protocol\<close> interleaves them.
\<close>

definition metadataTTL :: duration where "metadataTTL = 2 * second"
definition missingTTL :: duration where "missingTTL = 500000000"
definition metadataMaxEntries :: nat where "metadataMaxEntries = 4096"
definition metadataMaxBytes :: int where "metadataMaxBytes = 16 * 2 ^ 20"

datatype metadataKey = MKey (k_name: string) (k_directory: bool)

record metadataValue =
  v_entry :: entry
  v_entries :: "entry list option"
  v_err :: "err option"
  v_expires :: instant
  v_bytes :: int

type_synonym flightKey = "metadataKey \<times> nat"

text \<open>
  Flights are pointers: \<open>c_flights\<close> holds the running ones by key and generation,
  \<open>c_done\<close> the value of every flight whose channel is closed. The generation counter is a
  \<open>uint64\<close> in the code; it is unbounded here (2^64 mutations are out of reach).
\<close>

record metadataCache =
  c_values :: "(metadataKey \<times> metadataValue) list"
  c_flights :: "(flightKey \<times> nat) list"
  c_done :: "nat \<rightharpoonup> metadataValue"
  c_next :: nat
  c_generation :: nat
  c_changing :: nat
  c_closed :: bool
  c_bytes :: int

definition NewMetadataCache :: metadataCache where
  "NewMetadataCache = \<lparr>c_values = [], c_flights = [], c_done = Map.empty, c_next = 0,
     c_generation = 0, c_changing = 0, c_closed = False, c_bytes = 0\<rparr>"

text \<open>The Go result \<open>(string, bool)\<close>; \<open>None\<close> is \<open>("", false)\<close>.\<close>

definition metadataPath :: "string \<Rightarrow> string option" where
  "metadataPath name =
     (let name = ReplaceBackslashes name
      in if list_ex (\<lambda>part. part = ''..'') (Split name slash) then None
         else Some (path_Clean (''/'' @ name)))"

fun err_root :: "err \<Rightarrow> err" where
  "err_root (Wrapped m e) = err_root e"
| "err_root (PathErr s) = Sentinel s"
| "err_root e = e"

definition definiteMissing :: "err option \<Rightarrow> bool" where
  "definiteMissing e = (case e of None \<Rightarrow> False | Some e \<Rightarrow> err_root e = Sentinel ErrNotExist)"

text \<open>\<open>err_root\<close> is the loop \<open>for errors.Unwrap(err) != nil\<close>: it follows the chain to its end.\<close>

lemma err_root_loop:
  "err_root e = (case errors_Unwrap e of None \<Rightarrow> e | Some e' \<Rightarrow> err_root e')"
  by (cases e) simp_all

definition zero_value :: metadataValue where
  "zero_value = \<lparr>v_entry = zero_entry, v_entries = None, v_err = None, v_expires = 0, v_bytes = 0\<rparr>"

definition error_value :: "err \<Rightarrow> metadataValue" where
  "error_value e = zero_value\<lparr>v_err := Some e\<rparr>"

definition cache_drop :: "metadataKey \<Rightarrow> metadataCache \<Rightarrow> metadataCache" where
  "cache_drop k c =
     (case map_of (c_values c) k of
        None \<Rightarrow> c
      | Some v \<Rightarrow> c\<lparr>c_bytes := c_bytes c - v_bytes v, c_values := AList.delete k (c_values c)\<rparr>)"

definition value_size :: "metadataKey \<Rightarrow> metadataValue \<Rightarrow> int" where
  "value_size k v =
     int (length (k_name k)) + int (length (e_Name (v_entry v))) + 128 +
     sum_list (map (\<lambda>e. int (length (e_Name e)) + 64)
                   (case v_entries v of None \<Rightarrow> [] | Some es \<Rightarrow> es))"

definition cache_clear :: "metadataCache \<Rightarrow> metadataCache" where
  "cache_clear c = c\<lparr>c_values := [], c_bytes := 0\<rparr>"

definition cache_put :: "metadataKey \<Rightarrow> metadataValue \<Rightarrow> metadataCache \<Rightarrow> metadataCache" where
  "cache_put k v c =
     (let size = value_size k v
      in if size > metadataMaxBytes then c
         else
           let c = cache_drop k c;
               c = (if metadataMaxEntries \<le> length (c_values c) \<or> c_bytes c + size > metadataMaxBytes
                    then cache_clear c else c)
           in c\<lparr>c_values := (k, v\<lparr>v_bytes := size\<rparr>) # c_values c, c_bytes := c_bytes c + size\<rparr>)"

subsection \<open>The critical sections of query\<close>

datatype outcome = Hit metadataValue | Refused err | WaitOn nat nat | Lead nat nat bool

text \<open>
  From the lock at the top of the loop to the unlock before waiting or calling:
  \<open>query_enter\<close> looks the key up, \<open>query_join\<close> joins or starts a flight.
  \<open>WaitOn g f\<close> and \<open>Lead g f merge\<close> carry the flight key's generation and the flight.
\<close>

definition query_join :: "metadataKey \<Rightarrow> metadataCache \<Rightarrow> outcome \<times> metadataCache" where
  "query_join k c =
     (let g = c_generation c
      in case (if c_changing c = 0 then map_of (c_flights c) (k, g) else None) of
           Some f \<Rightarrow> (WaitOn g f, c)
         | None \<Rightarrow>
             let f = c_next c; merge = (c_changing c = 0); c = c\<lparr>c_next := Suc f\<rparr>
             in (Lead g f merge,
                 if merge then c\<lparr>c_flights := ((k, g), f) # c_flights c\<rparr> else c))"

definition query_enter ::
  "instant \<Rightarrow> metadataKey \<Rightarrow> metadataCache \<Rightarrow> outcome \<times> metadataCache" where
  "query_enter now k c =
     (if c_closed c then (Refused (Sentinel ErrClosed), c)
      else case (if c_changing c = 0 then map_of (c_values c) k else None) of
             Some v \<Rightarrow> if now < v_expires v then (Hit v, c) else query_join k (cache_drop k c)
           | None \<Rightarrow> query_join k c)"

text \<open>
  A waiter whose flight has landed with value \<open>fv\<close>: \<open>None\<close> is \<open>continue\<close>, the next
  round of the loop.
\<close>

definition query_waited :: "nat \<Rightarrow> metadataValue \<Rightarrow> metadataCache \<Rightarrow> metadataValue option" where
  "query_waited g fv c =
     (if (case v_err fv of None \<Rightarrow> False
          | Some e \<Rightarrow> errors_Is e Canceled \<or> errors_Is e DeadlineExceeded) then None
      else if \<not> c_closed c \<and> c_generation c = g then Some fv else None)"

definition seedable :: "entry \<Rightarrow> bool" where
  "seedable e \<longleftrightarrow> \<not> (e_Name e = '''' \<or> e_Name e = ''.'' \<or> e_Name e = ''..'' \<or> ContainsAnySlash (e_Name e))"

definition seed_child :: "string \<Rightarrow> instant \<Rightarrow> metadataCache \<Rightarrow> entry \<Rightarrow> metadataCache" where
  "seed_child normalized expires c e =
     (if \<not> seedable e then c
      else cache_put (MKey (path_Join [normalized, e_Name e]) False)
             (zero_value\<lparr>v_entry := e, v_expires := expires\<rparr>) c)"

definition storable :: "ctx \<Rightarrow> nat \<Rightarrow> metadataValue \<Rightarrow> metadataCache \<Rightarrow> bool" where
  "storable ctx g v c \<longleftrightarrow>
     \<not> c_closed c \<and> c_changing c = 0 \<and> c_generation c = g \<and> ctx = None \<and>
     (v_err v = None \<or> definiteMissing (v_err v))"

text \<open>The leader's second critical section: store the answer, seed the children, land the flight.\<close>

definition query_store ::
  "instant \<Rightarrow> metadataKey \<Rightarrow> metadataValue \<Rightarrow> metadataCache \<Rightarrow> metadataCache" where
  "query_store now k v c =
     (let ttl = (if v_err v \<noteq> None then missingTTL else metadataTTL);
          v = v\<lparr>v_expires := now + ttl\<rparr>;
          stored = (if v_err v \<noteq> None then v\<lparr>v_err := Some (Sentinel ErrNotExist)\<rparr> else v);
          c = cache_put k stored c
      in if k_directory k \<and> v_err v = None
         then foldl (seed_child (k_name k) (v_expires v)) c
                (case v_entries v of None \<Rightarrow> [] | Some es \<Rightarrow> es)
         else c)"

definition query_finish ::
  "instant \<Rightarrow> ctx \<Rightarrow> metadataKey \<Rightarrow> nat \<Rightarrow> nat \<Rightarrow> bool \<Rightarrow> metadataValue \<Rightarrow> metadataCache \<Rightarrow> metadataCache"
where
  "query_finish now ctx k g f merge v c =
     (let c = (if storable ctx g v c then query_store now k v c else c);
          c = (if merge then c\<lparr>c_flights := AList.delete (k, g) (c_flights c)\<rparr> else c)
      in c\<lparr>c_done := (c_done c)(f \<mapsto> v)\<rparr>)"

subsection \<open>Invalidation\<close>

definition covered :: "string \<Rightarrow> metadataKey \<Rightarrow> bool" where
  "covered n k \<longleftrightarrow>
     k_name k = n \<or> n = ''/'' \<or> HasPrefix (k_name k) (n @ ''/'') \<or>
     (k_directory k \<and> k_name k = path_Dir n)"

definition drop_covered :: "string \<Rightarrow> metadataCache \<Rightarrow> metadataCache" where
  "drop_covered n c =
     foldl (\<lambda>c k. if covered n k then cache_drop k c else c) c (al_keys (c_values c))"

definition invalidate :: "string list \<Rightarrow> metadataCache \<Rightarrow> metadataCache" where
  "invalidate names c =
     foldl (\<lambda>c name. case metadataPath name of None \<Rightarrow> cache_clear c | Some n \<Rightarrow> drop_covered n c)
       (c\<lparr>c_generation := Suc (c_generation c)\<rparr>) names"

definition mutation_begin :: "string list \<Rightarrow> metadataCache \<Rightarrow> metadataCache" where
  "mutation_begin names c = invalidate names (c\<lparr>c_changing := Suc (c_changing c)\<rparr>)"

definition mutation_done :: "string list \<Rightarrow> metadataCache \<Rightarrow> metadataCache" where
  "mutation_done names c =
     (let c = invalidate names c in c\<lparr>c_changing := c_changing c - 1\<rparr>)"

definition cache_Close :: "metadataCache \<Rightarrow> metadataCache" where
  "cache_Close c = cache_clear (c\<lparr>c_closed := True, c_generation := Suc (c_generation c)\<rparr>)"

subsection \<open>Well-formed caches\<close>

text \<open>
  Keys are distinct, the byte counter is the sum of the sizes recorded with the values, those sizes
  are the values' own, and both bounds hold.
\<close>

definition cache_wf :: "metadataCache \<Rightarrow> bool" where
  "cache_wf c \<longleftrightarrow>
     distinct (al_keys (c_values c)) \<and>
     c_bytes c = al_sum v_bytes (c_values c) \<and>
     (\<forall>(k, v) \<in> set (c_values c). v_bytes v = value_size k v) \<and>
     length (c_values c) \<le> metadataMaxEntries \<and>
     c_bytes c \<le> metadataMaxBytes"

lemma value_size_pos: "128 \<le> value_size k v"
proof -
  have "0 \<le> sum_list (map (\<lambda>e. int (length (e_Name e)) + 64) es)" for es
    by (induction es) auto
  from this [of "case v_entries v of None \<Rightarrow> [] | Some es \<Rightarrow> es"]
  show ?thesis unfolding value_size_def by linarith
qed

lemma value_size_upd [simp]:
  "value_size k (v\<lparr>v_bytes := n\<rparr>) = value_size k v"
  "value_size k (v\<lparr>v_expires := t\<rparr>) = value_size k v"
  "value_size k (v\<lparr>v_err := e\<rparr>) = value_size k v"
  by (simp_all add: value_size_def)

text \<open>The fields an operation on the values leaves alone.\<close>

definition same_frame :: "metadataCache \<Rightarrow> metadataCache \<Rightarrow> bool" where
  "same_frame c c' \<longleftrightarrow>
     c_flights c' = c_flights c \<and> c_done c' = c_done c \<and> c_next c' = c_next c \<and>
     c_generation c' = c_generation c \<and> c_changing c' = c_changing c \<and> c_closed c' = c_closed c"

lemma same_frame_refl [simp]: "same_frame c c"
  by (simp add: same_frame_def)

lemma same_frame_trans: "same_frame a b \<Longrightarrow> same_frame b c \<Longrightarrow> same_frame a c"
  by (simp add: same_frame_def)

lemma drop_frame: "same_frame c (cache_drop k c)"
  by (simp add: same_frame_def cache_drop_def split: option.splits)

lemma put_frame: "same_frame c (cache_put k v c)"
  using drop_frame [of c k]
  by (simp add: same_frame_def cache_put_def cache_clear_def Let_def)

lemma clear_frame: "same_frame c (cache_clear c)"
  by (simp add: same_frame_def cache_clear_def)

lemma drop_values [simp]: "c_values (cache_drop k c) = AList.delete k (c_values c)"
  by (simp add: cache_drop_def delete_absent split: option.splits)

lemma drop_wf: "cache_wf c \<Longrightarrow> cache_wf (cache_drop k c)"
proof -
  assume wf: "cache_wf c"
  show ?thesis
  proof (cases "map_of (c_values c) k")
    case None
    then show ?thesis using wf by (simp add: cache_drop_def)
  next
    case (Some v)
    from Some have v: "(k, v) \<in> set (c_values c)" by (rule map_of_SomeD)
    then have "0 \<le> v_bytes v" using wf value_size_pos [of k v] by (auto simp: cache_wf_def)
    moreover have "\<forall>(k', v') \<in> set (AList.delete k (c_values c)). v_bytes v' = value_size k' v'"
      using wf by (auto simp: cache_wf_def AList.delete_eq)
    moreover have "length (AList.delete k (c_values c)) \<le> metadataMaxEntries"
      using wf length_delete_le [of k "c_values c"] by (auto simp: cache_wf_def)
    ultimately show ?thesis using wf Some
      by (simp add: cache_wf_def cache_drop_def al_sum_delete)
  qed
qed

lemma clear_wf [simp]: "cache_wf (cache_clear c)"
  by (simp add: cache_wf_def cache_clear_def metadataMaxBytes_def)

lemma put_wf: assumes "cache_wf c" shows "cache_wf (cache_put k v c)"
proof (cases "value_size k v > metadataMaxBytes")
  case True
  with assms show ?thesis by (simp add: cache_put_def)
next
  case False
  let ?d = "cache_drop k c"
  let ?e = "if metadataMaxEntries \<le> length (c_values ?d) \<or> c_bytes ?d + value_size k v > metadataMaxBytes
            then cache_clear ?d else ?d"
  have wf: "cache_wf ?e" using assms by (simp add: drop_wf)
  have absent: "k \<notin> set (al_keys (c_values ?e))"
    by (simp add: cache_clear_def)
  have fits: "length (c_values ?e) < metadataMaxEntries \<and> c_bytes ?e + value_size k v \<le> metadataMaxBytes"
    using False by (simp add: cache_clear_def metadataMaxEntries_def)
  have "cache_put k v c = ?e\<lparr>c_values := (k, v\<lparr>v_bytes := value_size k v\<rparr>) # c_values ?e,
                             c_bytes := c_bytes ?e + value_size k v\<rparr>"
    using False unfolding cache_put_def Let_def by simp
  then show ?thesis using wf absent fits by (simp add: cache_wf_def del: drop_values)
qed

lemma foldl_invariant:
  "P c \<Longrightarrow> (\<And>c x. P c \<Longrightarrow> x \<in> set xs \<Longrightarrow> P (f c x)) \<Longrightarrow> P (foldl f c xs)"
  by (induction xs arbitrary: c) auto

lemma seed_wf: "cache_wf c \<Longrightarrow> cache_wf (seed_child n t c e)"
  by (simp add: seed_child_def put_wf)

lemma seed_frame: "same_frame c (seed_child n t c e)"
  by (simp add: seed_child_def put_frame)

lemma seeds_wf: "cache_wf c \<Longrightarrow> cache_wf (foldl (seed_child n t) c es)"
  by (rule foldl_invariant) (auto intro: seed_wf)

lemma seeds_frame: "same_frame c (foldl (seed_child n t) c es)"
  by (rule foldl_invariant) (auto intro: same_frame_trans seed_frame)

lemma store_wf: "cache_wf c \<Longrightarrow> cache_wf (query_store now k v c)"
  by (simp add: query_store_def Let_def put_wf seeds_wf)

lemma store_frame: "same_frame c (query_store now k v c)"
  unfolding query_store_def Let_def
  by (auto intro: same_frame_trans put_frame seeds_frame)

lemma wf_frame_upd [simp]:
  "cache_wf (c\<lparr>c_flights := x\<rparr>) = cache_wf c" "cache_wf (c\<lparr>c_done := y\<rparr>) = cache_wf c"
  "cache_wf (c\<lparr>c_next := n\<rparr>) = cache_wf c" "cache_wf (c\<lparr>c_generation := n\<rparr>) = cache_wf c"
  "cache_wf (c\<lparr>c_changing := n\<rparr>) = cache_wf c" "cache_wf (c\<lparr>c_closed := b\<rparr>) = cache_wf c"
  by (simp_all add: cache_wf_def)

lemma finish_wf: "cache_wf c \<Longrightarrow> cache_wf (query_finish now ctx k g f m v c)"
  by (simp add: query_finish_def Let_def store_wf)

lemma join_wf: "cache_wf c \<Longrightarrow> cache_wf (snd (query_join k c))"
  by (simp add: query_join_def Let_def split: option.splits)

lemma enter_wf: "cache_wf c \<Longrightarrow> cache_wf (snd (query_enter now k c))"
  by (simp add: query_enter_def join_wf drop_wf split: option.splits)

lemma drop_covered_wf: "cache_wf c \<Longrightarrow> cache_wf (drop_covered n c)"
  unfolding drop_covered_def by (rule foldl_invariant) (auto simp: drop_wf)

lemma invalidate_wf: "cache_wf c \<Longrightarrow> cache_wf (invalidate names c)"
  unfolding invalidate_def
  by (rule foldl_invariant) (auto simp: drop_covered_wf split: option.splits)

lemma begin_wf: "cache_wf c \<Longrightarrow> cache_wf (mutation_begin names c)"
  by (simp add: mutation_begin_def invalidate_wf)

lemma done_wf: "cache_wf c \<Longrightarrow> cache_wf (mutation_done names c)"
  by (simp add: mutation_done_def Let_def invalidate_wf)

lemma Close_wf: "cache_wf (cache_Close c)"
  by (simp add: cache_Close_def)

subsection \<open>What invalidation removes\<close>

text \<open>The keys a mutation of \<open>names\<close> may change: all of them when a name is not a path.\<close>

definition affected :: "string list \<Rightarrow> metadataKey \<Rightarrow> bool" where
  "affected names k \<longleftrightarrow>
     list_ex (\<lambda>name. case metadataPath name of None \<Rightarrow> True | Some n \<Rightarrow> covered n k) names"

lemma foldl_drop_values:
  "c_values (foldl (\<lambda>c k. if P k then cache_drop k c else c) c ks) =
   filter (\<lambda>(k, v). \<not> (P k \<and> k \<in> set ks)) (c_values c)"
  by (induction ks arbitrary: c)
     (auto simp: AList.delete_eq case_prod_unfold intro!: filter_cong)

lemma drop_covered_values:
  "c_values (drop_covered n c) = filter (\<lambda>(k, v). \<not> covered n k) (c_values c)"
  unfolding drop_covered_def foldl_drop_values
  by (rule filter_cong) (force simp: al_keys_def)+

lemma invalidate_values:
  "c_values (invalidate names c) = filter (\<lambda>(k, v). \<not> affected names k) (c_values c)"
proof -
  have "c_values (foldl (\<lambda>c name. case metadataPath name of None \<Rightarrow> cache_clear c
                                  | Some n \<Rightarrow> drop_covered n c) c' names) =
        filter (\<lambda>(k, v). \<not> affected names k) (c_values c')" for c'
  proof (induction names arbitrary: c')
    case Nil
    then show ?case by (simp add: affected_def)
  next
    case (Cons n ns)
    then show ?case
      by (cases "metadataPath n")
         (auto simp: affected_def cache_clear_def drop_covered_values case_prod_unfold intro!: filter_cong)
  qed
  then show ?thesis by (simp add: invalidate_def)
qed

lemma drop_covered_frame: "same_frame c (drop_covered n c)"
  unfolding drop_covered_def by (rule foldl_invariant) (auto intro: same_frame_trans drop_frame)

lemma invalidate_frame:
  "same_frame (c\<lparr>c_generation := Suc (c_generation c)\<rparr>) (invalidate names c)"
  unfolding invalidate_def
  by (rule foldl_invariant)
     (auto intro: same_frame_trans drop_covered_frame clear_frame split: option.splits)

lemma mutation_values:
  "c_values (mutation_begin names c) = filter (\<lambda>(k, v). \<not> affected names k) (c_values c)"
  "c_values (mutation_done names c) = filter (\<lambda>(k, v). \<not> affected names k) (c_values c)"
  by (simp_all add: mutation_begin_def mutation_done_def Let_def invalidate_values)

lemma map_of_filter_key:
  "map_of (filter (\<lambda>(k, v). P k) m) k = (if P k then map_of m k else None)"
  by (induction m) auto

subsection \<open>What a store adds\<close>

lemma put_lookup:
  "map_of (c_values (cache_put k v c)) k' = Some v' \<Longrightarrow>
   (k' = k \<and> v' = v\<lparr>v_bytes := value_size k v\<rparr>) \<or> map_of (c_values c) k' = Some v'"
  by (auto simp: cache_put_def Let_def cache_clear_def delete_conv' split: if_splits)

lemma seeds_lookup:
  "map_of (c_values (foldl (seed_child n t) c es)) k' = Some v' \<Longrightarrow>
   map_of (c_values c) k' = Some v' \<or>
   (\<exists>e \<in> set es. seedable e \<and> k' = MKey (path_Join [n, e_Name e]) False \<and>
      v_entry v' = e \<and> v_entries v' = None \<and> v_err v' = None \<and> v_expires v' = t)"
proof (induction es arbitrary: c)
  case (Cons e es)
  from Cons.IH [of "seed_child n t c e"] Cons.prems
  show ?case
    by (auto simp: seed_child_def zero_value_def split: if_splits dest!: put_lookup)
qed simp

text \<open>A cached value says what the backend's answer says, missing errors reduced to the sentinel.\<close>

definition agrees :: "metadataValue \<Rightarrow> metadataValue \<Rightarrow> bool" where
  "agrees v a \<longleftrightarrow>
     v_entry v = v_entry a \<and> v_entries v = v_entries a \<and>
     (case v_err a of None \<Rightarrow> v_err v = None
      | Some _ \<Rightarrow> definiteMissing (v_err a) \<and> v_err v = Some (Sentinel ErrNotExist))"

lemma store_lookup:
  assumes "map_of (c_values (query_store now k v c)) k' = Some v'"
    and "v_err v = None \<or> definiteMissing (v_err v)"
  shows "map_of (c_values c) k' = Some v' \<or> (k' = k \<and> agrees v' v) \<or>
    (\<exists>es e. v_entries v = Some es \<and> e \<in> set es \<and> seedable e \<and> k_directory k \<and> v_err v = None \<and>
       k' = MKey (path_Join [k_name k, e_Name e]) False \<and>
       v_entry v' = e \<and> v_entries v' = None \<and> v_err v' = None)"
  using assms unfolding query_store_def Let_def
  by (auto simp: agrees_def split: if_splits option.splits dest!: seeds_lookup put_lookup)

subsection \<open>Mutating calls through the cache\<close>

text \<open>
  \<open>done := c.begin(names...); defer done()\<close> around a call of the wrapped backend: the cache is
  invalidated before and after, whatever the call returns. A writer remembers its path.
\<close>

definition mc_mutate ::
  "string list \<Rightarrow> ('w \<Rightarrow> 'a \<times> 'w) \<Rightarrow> metadataCache \<times> 'w \<Rightarrow> 'a \<times> (metadataCache \<times> 'w)" where
  "mc_mutate names call = (\<lambda>(c, w).
     let c = mutation_begin names c; (r, w) = call w
     in (r, (mutation_done names c, w)))"

definition mc_Mkdir where "mc_Mkdir b x n = mc_mutate [n] (b_Mkdir b x n)"
definition mc_Remove where "mc_Remove b x n d = mc_mutate [n] (b_Remove b x n d)"
definition mc_Rename where "mc_Rename b x m n = mc_mutate [m, n] (b_Rename b x m n)"
definition mc_SetModTime where "mc_SetModTime b x n t = mc_mutate [n] (b_SetModTime b x n t)"
definition mc_SetReadOnly where "mc_SetReadOnly b x n r = mc_mutate [n] (b_SetReadOnly b x n r)"

definition mc_OpenWrite where
  "mc_OpenWrite b x n opt = mc_mutate [n] (\<lambda>w.
     case b_OpenWrite b x n opt w of
       (Inl e, w) \<Rightarrow> (Inl e, w)
     | (Inr h, w) \<Rightarrow> (Inr (h, n), w))"

definition mc_WriteAt where "mc_WriteAt b h p off = mc_mutate [snd h] (h_WriteAt b (fst h) p off)"
definition mc_Sync where "mc_Sync b h = mc_mutate [snd h] (h_Sync b (fst h))"
definition mc_HandleClose where "mc_HandleClose b h = mc_mutate [snd h] (h_Close b (fst h))"

definition mc_Close where
  "mc_Close b = (\<lambda>(c, w). let (r, w) = b_Close b w in (r, (cache_Close c, w)))"

lemma mc_mutate_world:
  "fst (mc_mutate names call (c, w)) = fst (call w)"
  "snd (snd (mc_mutate names call (c, w))) = snd (call w)"
  by (simp_all add: mc_mutate_def Let_def case_prod_unfold)

lemma mc_mutate_cache:
  "fst (snd (mc_mutate names call (c, w))) = mutation_done names (mutation_begin names c)"
  by (simp add: mc_mutate_def Let_def case_prod_unfold)

text \<open>
  A mutating call through the cache returns what the backend returned and has the backend's effect;
  whatever that result is, no key the call may have changed is cached afterwards, the generation has
  moved on twice and the count of running mutations is restored.
\<close>

theorem mutate_invalidates:
  assumes "mc_mutate names call (c, w) = (r, (c', w'))"
  shows "call w = (r, w') \<and> c_changing c' = c_changing c \<and>
    c_generation c' = c_generation c + 2 \<and>
    (\<forall>k. affected names k \<longrightarrow> map_of (c_values c') k = None)"
proof -
  from assms have c': "c' = mutation_done names (mutation_begin names c)"
    using mc_mutate_cache [of names call c w] by simp
  have "call w = (r, w')"
    using assms mc_mutate_world [of names call c w] by (simp add: prod_eq_iff)
  moreover have "c_changing c' = c_changing c \<and> c_generation c' = c_generation c + 2"
    using invalidate_frame [of "mutation_begin names c" names]
      invalidate_frame [of "c\<lparr>c_changing := Suc (c_changing c)\<rparr>" names]
    by (simp add: c' mutation_done_def mutation_begin_def Let_def same_frame_def)
  moreover have "map_of (c_values c') k = None" if "affected names k" for k
    using that by (simp add: c' mutation_values map_of_filter_key)
  ultimately show ?thesis by blast
qed

theorem mutate_invalidates_witness:
  "(\<lambda>w. (Some (Sentinel EIO), w + 1)) (0::nat) = (Some (Sentinel EIO), 1) \<and>
   c_changing NewMetadataCache = c_changing NewMetadataCache \<and>
   c_generation (fst (snd (mc_mutate [''a''] (\<lambda>w. (Some (Sentinel EIO), w + 1)) (NewMetadataCache, 0::nat)))) = 2"
  using mutate_invalidates [of "[''a'']" "\<lambda>w. (Some (Sentinel EIO), w + 1)" NewMetadataCache "0::nat",
    OF surjective_pairing [THEN trans, OF arg_cong2 [of _ _ _ _ Pair, OF refl surjective_pairing]]]
  by (simp add: mc_mutate_world NewMetadataCache_def)

end
