(* ===== verification/Metadata_Protocol.thy ===== *)
theory Metadata_Protocol
  imports Metadata_Cache
begin

text \<open>
  Any number of goroutines using one metadata cache: each is between two critical sections of
  \<open>query\<close>, inside a mutating call between \<open>begin\<close> and its deferred \<open>done\<close>, or
  outside. The backend is a parameter: \<open>ask r k\<close> is the answer it gives for key \<open>k\<close> while
  the remote is in state \<open>r\<close>. A call may also fail with any error that does not prove absence.
\<close>

datatype pc =
    Idle
  | Waiting metadataKey nat nat
  | Calling metadataKey nat nat bool
  | Answered metadataKey nat nat bool metadataValue
  | Returned metadataKey metadataValue
  | Mutating "string list"

text \<open>\<open>s_info\<close> is a ghost: the key under which a merged flight was registered.\<close>

record 'r mc_sys =
  s_cache :: metadataCache
  s_remote :: 'r
  s_pc :: "nat \<Rightarrow> pc"
  s_info :: "nat \<rightharpoonup> flightKey"

fun after_enter :: "metadataKey \<Rightarrow> outcome \<Rightarrow> pc" where
  "after_enter k (Hit v) = Returned k v"
| "after_enter k (Refused e) = Returned k (error_value e)"
| "after_enter k (WaitOn g f) = Waiting k g f"
| "after_enter k (Lead g f m) = Calling k g f m"

fun info_after :: "metadataKey \<Rightarrow> outcome \<Rightarrow> (nat \<rightharpoonup> flightKey) \<Rightarrow> (nat \<rightharpoonup> flightKey)" where
  "info_after k (Lead g f True) i = i(f \<mapsto> (k, g))"
| "info_after k out i = i"

definition failed_answer :: "metadataValue \<Rightarrow> bool" where
  "failed_answer v \<longleftrightarrow> v_err v \<noteq> None \<and> \<not> definiteMissing (v_err v)"

definition good :: "('r \<Rightarrow> metadataKey \<Rightarrow> metadataValue) \<Rightarrow> 'r \<Rightarrow> metadataKey \<Rightarrow> metadataValue \<Rightarrow> bool" where
  "good ask r k v \<longleftrightarrow> v = ask r k \<or> failed_answer v"

text \<open>
  What a change of the remote under a name may change, said without the cache: the object itself and
  everything below it, and the listing of the folder it is in. The size and the modification time that a
  server reports for a folder are left free: any change may move them.
\<close>

definition name_parts :: "string \<Rightarrow> string list option" where
  "name_parts name =
     (let ps = Split (ReplaceBackslashes name) slash
      in if ''..'' \<in> set ps then None else Some (filter (\<lambda>p. p \<noteq> '''' \<and> p \<noteq> ''.'') ps))"

definition touches :: "string list \<Rightarrow> metadataKey \<Rightarrow> bool" where
  "touches names k \<longleftrightarrow> (\<exists>name \<in> set names. case name_parts name of
       None \<Rightarrow> True
     | Some ns \<Rightarrow> \<exists>ks. list_all plain ks \<and> k_name k = abs_path ks \<and>
         (prefix ns ks \<or> k_directory k \<and> ns \<noteq> [] \<and> ks = butlast ns))"

definition steady_entry :: "entry \<Rightarrow> entry" where
  "steady_entry e = (if entry_IsDir e then e\<lparr>e_Size := 0, e_ModTime := 0\<rparr> else e)"

definition steady :: "metadataValue \<Rightarrow> metadataValue" where
  "steady v = v\<lparr>v_entry := steady_entry (v_entry v), v_entries := map_option (map steady_entry) (v_entries v)\<rparr>"

definition coherent :: "metadataValue \<Rightarrow> metadataValue \<Rightarrow> bool" where
  "coherent v a \<longleftrightarrow> agrees (steady v) (steady a)"

inductive mc_step ::
  "('r \<Rightarrow> metadataKey \<Rightarrow> metadataValue) \<Rightarrow> 'r mc_sys \<Rightarrow> 'r mc_sys \<Rightarrow> bool" for ask where
  enter: "s_pc s t = Idle \<Longrightarrow> query_enter now k (s_cache s) = (out, c') \<Longrightarrow>
    mc_step ask s (s\<lparr>s_cache := c', s_pc := (s_pc s)(t := after_enter k out),
                     s_info := info_after k out (s_info s)\<rparr>)"
| answer: "s_pc s t = Calling k g f m \<Longrightarrow> good ask (s_remote s) k v \<Longrightarrow>
    mc_step ask s (s\<lparr>s_pc := (s_pc s)(t := Answered k g f m v)\<rparr>)"
| finish: "s_pc s t = Answered k g f m v \<Longrightarrow>
    mc_step ask s (s\<lparr>s_cache := query_finish now ctx k g f m v (s_cache s),
                     s_pc := (s_pc s)(t := Returned k v)\<rparr>)"
| waited: "s_pc s t = Waiting k g f \<Longrightarrow> c_done (s_cache s) f = Some fv \<Longrightarrow>
    mc_step ask s (s\<lparr>s_pc := (s_pc s)(t :=
       (case query_waited g fv (s_cache s) of None \<Rightarrow> Idle | Some v \<Rightarrow> Returned k v))\<rparr>)"
| canceled: "s_pc s t = Waiting k g f \<Longrightarrow>
    mc_step ask s (s\<lparr>s_pc := (s_pc s)(t := Returned k (error_value (Sentinel Canceled)))\<rparr>)"
| delivered: "s_pc s t = Returned k v \<Longrightarrow> mc_step ask s (s\<lparr>s_pc := (s_pc s)(t := Idle)\<rparr>)"
| mut_begin: "s_pc s t = Idle \<Longrightarrow>
    mc_step ask s (s\<lparr>s_cache := mutation_begin names (s_cache s),
                     s_pc := (s_pc s)(t := Mutating names)\<rparr>)"
| mut_effect: "s_pc s t = Mutating names \<Longrightarrow>
    (\<And>k. \<not> touches names k \<Longrightarrow> steady (ask r' k) = steady (ask (s_remote s) k)) \<Longrightarrow>
    mc_step ask s (s\<lparr>s_remote := r'\<rparr>)"
| mut_done: "s_pc s t = Mutating names \<Longrightarrow>
    mc_step ask s (s\<lparr>s_cache := mutation_done names (s_cache s), s_pc := (s_pc s)(t := Idle)\<rparr>)"
| close: "mc_step ask s (s\<lparr>s_cache := cache_Close (s_cache s)\<rparr>)"

definition mc_init :: "'r \<Rightarrow> 'r mc_sys" where
  "mc_init r = \<lparr>s_cache = NewMetadataCache, s_remote = r, s_pc = (\<lambda>_. Idle), s_info = Map.empty\<rparr>"

inductive mc_reachable ::
  "('r \<Rightarrow> metadataKey \<Rightarrow> metadataValue) \<Rightarrow> 'r mc_sys \<Rightarrow> bool" for ask where
  start: "mc_reachable ask (mc_init r)"
| step: "mc_reachable ask s \<Longrightarrow> mc_step ask s s' \<Longrightarrow> mc_reachable ask s'"

text \<open>What the cache relies on when it seeds children: a listing and a stat tell the same.\<close>

definition listing_consistent :: "('r \<Rightarrow> metadataKey \<Rightarrow> metadataValue) \<Rightarrow> bool" where
  "listing_consistent ask \<longleftrightarrow>
     (\<forall>r d es e. v_entries (ask r (MKey d True)) = Some es \<and> v_err (ask r (MKey d True)) = None \<and>
        e \<in> set es \<and> seedable e \<longrightarrow>
        (let a = ask r (MKey (path_Join [d, e_Name e]) False)
         in v_entry a = e \<and> v_entries a = None \<and> v_err a = None))"

subsection \<open>What a mutation invalidates\<close>

text \<open>
  What a mutation of a path invalidates, in path components: the path itself, everything below it,
  and the listing of its parent directory; nothing else.
\<close>

theorem covered_components:
  assumes "list_all plain ns" and "list_all plain ks"
  shows "covered (abs_path ns) (MKey (abs_path ks) d) \<longleftrightarrow>
    prefix ns ks \<or> (d \<and> ns \<noteq> [] \<and> ks = butlast ns)"
proof (cases "ns = []")
  case True
  then show ?thesis by (simp add: covered_def abs_path_def)
next
  case False
  then obtain ms m where ns: "ns = ms @ [m]" by (metis rev_exhaust)
  have dir: "path_Dir (abs_path ns) = abs_path ms" using assms ns by (simp add: path_Dir_abs)
  have "abs_path ns \<noteq> ''/''"
    using False assms abs_path_inj [of ns "[]"] by (simp add: abs_path_def)
  moreover have "HasPrefix (abs_path ks) (abs_path ns @ ''/'') \<longleftrightarrow> (\<exists>rs. rs \<noteq> [] \<and> ks = ns @ rs)"
    using below_iff [OF assms False] by (simp add: HasPrefix_def)
  moreover have "abs_path ks = abs_path ns \<longleftrightarrow> ks = ns" "abs_path ks = abs_path ms \<longleftrightarrow> ks = ms"
    using assms ns by (simp_all add: abs_path_inj)
  ultimately show ?thesis using False ns dir by (auto simp: covered_def prefix_def)
qed

lemma norm_filter:
  assumes "''..'' \<notin> set cs"
  shows "norm cs = filter (\<lambda>p. p \<noteq> '''' \<and> p \<noteq> ''.'') cs"
proof -
  have "foldl (clean_step True) st cs = st @ filter (\<lambda>p. p \<noteq> '''' \<and> p \<noteq> ''.'') cs" for st
    using assms by (induction cs arbitrary: st) (auto simp: clean_step_def)
  then show ?thesis by (simp add: norm_def)
qed

lemma metadataPath_parts:
  "metadataPath name = map_option abs_path (name_parts name)"
  "name_parts name = Some ns \<Longrightarrow> list_all plain ns"
proof -
  have c: "name_parts name = (if ''..'' \<in> set (Split (ReplaceBackslashes name) slash) then None
      else Some (comps (ReplaceBackslashes name)))"
    using norm_filter by (simp add: name_parts_def Let_def comps_def)
  show "metadataPath name = map_option abs_path (name_parts name)"
    unfolding c metadataPath_def Let_def
    by (auto simp: list_ex_iff path_Clean_rooted)
  show "name_parts name = Some ns \<Longrightarrow> list_all plain ns"
    unfolding c by (auto split: if_splits)
qed

text \<open>The cache drops all that a change may touch.\<close>

lemma touches_affected: "touches names k \<Longrightarrow> affected names k"
proof -
  assume "touches names k"
  then obtain name where n: "name \<in> set names" and t: "case name_parts name of None \<Rightarrow> True
     | Some ns \<Rightarrow> \<exists>ks. list_all plain ks \<and> k_name k = abs_path ks \<and>
         (prefix ns ks \<or> k_directory k \<and> ns \<noteq> [] \<and> ks = butlast ns)" by (auto simp: touches_def)
  have "case metadataPath name of None \<Rightarrow> True | Some p \<Rightarrow> covered p k"
  proof (cases "name_parts name")
    case None
    then show ?thesis by (simp add: metadataPath_parts(1))
  next
    case (Some ns)
    with t obtain ks where ks: "list_all plain ks" "k_name k = abs_path ks"
      "prefix ns ks \<or> k_directory k \<and> ns \<noteq> [] \<and> ks = butlast ns" by auto
    have "k = MKey (abs_path ks) (k_directory k)" using ks(2) by (cases k) simp
    with covered_components [OF metadataPath_parts(2) [OF Some] ks(1), of "k_directory k"] ks(3)
    have "covered (abs_path ns) k" by simp
    with Some show ?thesis by (simp add: metadataPath_parts(1))
  qed
  with n show ?thesis by (auto simp: affected_def list_ex_iff)
qed

lemma agrees_coherent: "agrees v a \<Longrightarrow> coherent v a"
  by (auto simp: coherent_def agrees_def steady_def split: option.splits)

subsection \<open>The critical sections, seen from outside\<close>

lemma join_facts:
  assumes "query_join k c = (out, c')"
  shows "c_values c' = c_values c" "c_generation c' = c_generation c" "c_changing c' = c_changing c"
    "c_done c' = c_done c" "c_closed c' = c_closed c"
    "(\<exists>f. out = WaitOn (c_generation c) f \<and> map_of (c_flights c) (k, c_generation c) = Some f \<and>
         c_changing c = 0 \<and> c' = c) \<or>
     (out = Lead (c_generation c) (c_next c) (c_changing c = 0) \<and> c_next c' = Suc (c_next c) \<and>
         c_flights c' = (if c_changing c = 0 then ((k, c_generation c), c_next c) # c_flights c
                         else c_flights c))"
  using assms unfolding query_join_def Let_def by (auto split: option.splits if_splits)

lemma enter_facts:
  assumes "query_enter now k c = (out, c')"
  shows "(\<forall>k' v. map_of (c_values c') k' = Some v \<longrightarrow> map_of (c_values c) k' = Some v) \<and>
    c_generation c' = c_generation c \<and> c_changing c' = c_changing c \<and> c_done c' = c_done c \<and>
    ((\<exists>v. out = Hit v \<and> map_of (c_values c) k = Some v \<and> now < v_expires v \<and> c' = c) \<or>
     (out = Refused (Sentinel ErrClosed) \<and> c' = c) \<or>
     (\<exists>f. out = WaitOn (c_generation c) f \<and> map_of (c_flights c) (k, c_generation c) = Some f \<and>
        c_next c' = c_next c \<and> c_flights c' = c_flights c) \<or>
     (out = Lead (c_generation c) (c_next c) (c_changing c = 0) \<and> c_next c' = Suc (c_next c) \<and>
        c_flights c' = (if c_changing c = 0 then ((k, c_generation c), c_next c) # c_flights c
                        else c_flights c)))"
proof (cases "c_closed c")
  case True
  with assms show ?thesis by (auto simp: query_enter_def)
next
  case False
  show ?thesis
  proof (cases "if c_changing c = 0 then map_of (c_values c) k else None")
    case None
    with False assms have "query_join k c = (out, c')" by (simp add: query_enter_def)
    from join_facts [OF this] show ?thesis by auto
  next
    case (Some v)
    then have v: "map_of (c_values c) k = Some v" by (simp split: if_splits)
    show ?thesis
    proof (cases "now < v_expires v")
      case True
      with False Some v assms show ?thesis by (auto simp: query_enter_def)
    next
      case nt: False
      with False Some assms have j: "query_join k (cache_drop k c) = (out, c')"
        by (simp add: query_enter_def)
      show ?thesis using join_facts [OF j] drop_frame [of c k]
        by (auto simp: same_frame_def delete_conv' split: if_splits)
    qed
  qed
qed

lemma finish_facts:
  "c_generation (query_finish now ctx k g f m v c) = c_generation c"
  "c_changing (query_finish now ctx k g f m v c) = c_changing c"
  "c_next (query_finish now ctx k g f m v c) = c_next c"
  "c_done (query_finish now ctx k g f m v c) = (c_done c)(f \<mapsto> v)"
  "map_of (c_flights (query_finish now ctx k g f m v c)) x = Some y \<Longrightarrow> map_of (c_flights c) x = Some y"
  "c_values (query_finish now ctx k g f m v c) =
     c_values (if storable ctx g v c then query_store now k v c else c)"
  using store_frame [of c now k v]
  by (auto simp: query_finish_def Let_def same_frame_def delete_conv' split: if_splits)

lemma begin_facts:
  "c_generation (mutation_begin names c) = Suc (c_generation c)"
  "c_changing (mutation_begin names c) = Suc (c_changing c)"
  "c_next (mutation_begin names c) = c_next c"
  "c_done (mutation_begin names c) = c_done c"
  "c_flights (mutation_begin names c) = c_flights c"
  using invalidate_frame [of "c\<lparr>c_changing := Suc (c_changing c)\<rparr>" names]
  by (auto simp: mutation_begin_def same_frame_def)

lemma done_facts:
  "c_generation (mutation_done names c) = Suc (c_generation c)"
  "c_changing (mutation_done names c) = c_changing c - 1"
  "c_next (mutation_done names c) = c_next c"
  "c_done (mutation_done names c) = c_done c"
  "c_flights (mutation_done names c) = c_flights c"
  using invalidate_frame [of c names]
  by (auto simp: mutation_done_def Let_def same_frame_def)

lemma Close_facts:
  "c_generation (cache_Close c) = Suc (c_generation c)" "c_changing (cache_Close c) = c_changing c"
  "c_next (cache_Close c) = c_next c" "c_done (cache_Close c) = c_done c"
  "c_flights (cache_Close c) = c_flights c" "c_values (cache_Close c) = []"
  by (simp_all add: cache_Close_def cache_clear_def)

lemmas section_facts = finish_facts(1-4) finish_facts(6) begin_facts done_facts Close_facts

lemma mutation_lookup:
  "map_of (c_values (mutation_begin names c)) k = Some v \<longleftrightarrow>
     \<not> affected names k \<and> map_of (c_values c) k = Some v"
  "map_of (c_values (mutation_done names c)) k = Some v \<longleftrightarrow>
     \<not> affected names k \<and> map_of (c_values c) k = Some v"
  by (simp_all add: mutation_values map_of_filter_key)

subsection \<open>The invariant\<close>

definition mutators :: "'r mc_sys \<Rightarrow> nat set" where
  "mutators s = {t. \<exists>names. s_pc s t = Mutating names}"

definition inv_coherent where
  "inv_coherent ask s \<longleftrightarrow>
     (\<forall>k v. map_of (c_values (s_cache s)) k = Some v \<longrightarrow> coherent v (ask (s_remote s) k))"

definition inv_dropped :: "'r mc_sys \<Rightarrow> bool" where
  "inv_dropped s \<longleftrightarrow>
     (\<forall>t names k v. s_pc s t = Mutating names \<and> map_of (c_values (s_cache s)) k = Some v \<longrightarrow>
        \<not> affected names k)"

definition inv_count :: "'r mc_sys \<Rightarrow> bool" where
  "inv_count s \<longleftrightarrow> finite (mutators s) \<and> c_changing (s_cache s) = card (mutators s)"

definition inv_flights :: "'r mc_sys \<Rightarrow> bool" where
  "inv_flights s \<longleftrightarrow>
     (\<forall>x f. map_of (c_flights (s_cache s)) x = Some f \<longrightarrow> s_info s f = Some x) \<and>
     (\<forall>f k g. s_info s f = Some (k, g) \<longrightarrow>
        f < c_next (s_cache s) \<and> g \<le> c_generation (s_cache s) \<and>
        (g = c_generation (s_cache s) \<longrightarrow> c_changing (s_cache s) = 0))"

definition led :: "'r mc_sys \<Rightarrow> metadataKey \<Rightarrow> nat \<Rightarrow> nat \<Rightarrow> bool \<Rightarrow> bool" where
  "led s k g f m \<longleftrightarrow>
     g \<le> c_generation (s_cache s) \<and> f < c_next (s_cache s) \<and>
     s_info s f = (if m then Some (k, g) else None)"

definition current :: "'r mc_sys \<Rightarrow> nat \<Rightarrow> bool" where
  "current s g \<longleftrightarrow> g = c_generation (s_cache s) \<and> c_changing (s_cache s) = 0"

definition inv_threads where
  "inv_threads ask s \<longleftrightarrow>
     (\<forall>t k g f m. s_pc s t = Calling k g f m \<longrightarrow> led s k g f m) \<and>
     (\<forall>t k g f m v. s_pc s t = Answered k g f m v \<longrightarrow>
        led s k g f m \<and> (current s g \<longrightarrow> good ask (s_remote s) k v)) \<and>
     (\<forall>t k g f. s_pc s t = Waiting k g f \<longrightarrow> s_info s f = Some (k, g)) \<and>
     (\<forall>f v k g. c_done (s_cache s) f = Some v \<and> s_info s f = Some (k, g) \<and> current s g \<longrightarrow>
        good ask (s_remote s) k v)"

definition inv_done :: "'r mc_sys \<Rightarrow> bool" where
  "inv_done s \<longleftrightarrow> (\<forall>f v. c_done (s_cache s) f = Some v \<longrightarrow> f < c_next (s_cache s))"

definition mc_inv where
  "mc_inv ask s \<longleftrightarrow> inv_coherent ask s \<and> inv_dropped s \<and> inv_count s \<and> inv_flights s \<and>
     inv_threads ask s \<and> inv_done s"

lemmas mc_inv_defs = mc_inv_def inv_coherent_def inv_dropped_def inv_count_def inv_flights_def
  inv_threads_def inv_done_def

lemma inv_flightsD:
  assumes "inv_flights s" and "s_info s f = Some (k, g)"
  shows "f < c_next (s_cache s)" "g \<le> c_generation (s_cache s)"
    "g = c_generation (s_cache s) \<Longrightarrow> c_changing (s_cache s) = 0"
  using assms unfolding inv_flights_def by blast+

lemma inv_flights_step:
  assumes old: "inv_flights s" and info: "s_info s' = s_info s"
    and fl: "\<And>x f. map_of (c_flights (s_cache s')) x = Some f \<Longrightarrow> map_of (c_flights (s_cache s)) x = Some f"
    and nx: "c_next (s_cache s') = c_next (s_cache s)"
    and gen: "c_generation (s_cache s') = Suc (c_generation (s_cache s)) \<or>
      (c_generation (s_cache s') = c_generation (s_cache s) \<and>
       c_changing (s_cache s') = c_changing (s_cache s))"
  shows "inv_flights s'"
  unfolding inv_flights_def
proof (intro conjI allI impI)
  fix x f assume "map_of (c_flights (s_cache s')) x = Some f"
  then have "map_of (c_flights (s_cache s)) x = Some f" by (rule fl)
  then show "s_info s' f = Some x" using old info unfolding inv_flights_def by metis
next
  fix f k g assume "s_info s' f = Some (k, g)"
  then have i: "s_info s f = Some (k, g)" by (simp add: info)
  note d = inv_flightsD [OF old i]
  show "f < c_next (s_cache s')" using d(1) nx by simp
  show "g \<le> c_generation (s_cache s')" using d(2) gen by auto
  show "c_changing (s_cache s') = 0" if "g = c_generation (s_cache s')" using that d(2,3) gen by auto
qed

lemma inv_threadsD:
  assumes "inv_threads ask s"
  shows "s_pc s t = Calling k g f m \<Longrightarrow> led s k g f m"
    "s_pc s t = Answered k g f m v \<Longrightarrow> led s k g f m"
    "s_pc s t = Answered k g f m v \<Longrightarrow> current s g \<Longrightarrow> good ask (s_remote s) k v"
    "s_pc s t = Waiting k g f \<Longrightarrow> s_info s f = Some (k, g)"
    "c_done (s_cache s) f = Some v \<Longrightarrow> s_info s f = Some (k, g) \<Longrightarrow> current s g \<Longrightarrow>
       good ask (s_remote s) k v"
  using assms unfolding inv_threads_def by blast+

lemma inv_threadsI:
  assumes "\<And>t k g f m. s_pc s t = Calling k g f m \<Longrightarrow> led s k g f m"
    and "\<And>t k g f m v. s_pc s t = Answered k g f m v \<Longrightarrow> led s k g f m"
    and "\<And>t k g f m v. s_pc s t = Answered k g f m v \<Longrightarrow> current s g \<Longrightarrow> good ask (s_remote s) k v"
    and "\<And>t k g f. s_pc s t = Waiting k g f \<Longrightarrow> s_info s f = Some (k, g)"
    and "\<And>f v k g. c_done (s_cache s) f = Some v \<Longrightarrow> s_info s f = Some (k, g) \<Longrightarrow> current s g \<Longrightarrow>
       good ask (s_remote s) k v"
  shows "inv_threads ask s"
  unfolding inv_threads_def
proof (intro conjI allI impI)
  fix f v k g
  assume "c_done (s_cache s) f = Some v \<and> s_info s f = Some (k, g) \<and> current s g"
  then show "good ask (s_remote s) k v" by (elim conjE) (rule assms(5))
qed (simp_all add: assms(1-4))

text \<open>A step that raises the generation: no answer on its way is current any more.\<close>

lemma inv_threads_bump:
  assumes thr: "inv_threads ask s" and fl: "inv_flights s" and info: "s_info s' = s_info s"
    and nx: "c_next (s_cache s') = c_next (s_cache s)"
    and gen: "c_generation (s_cache s') = Suc (c_generation (s_cache s))"
    and pc: "\<And>t. s_pc s' t = s_pc s t \<or> s_pc s' t = Idle \<or> (\<exists>names. s_pc s' t = Mutating names)"
  shows "inv_threads ask s'"
proof -
  have led: "led s k g f m \<Longrightarrow> led s' k g f m" for k g f m
    using info nx gen by (auto simp: led_def)
  have old: "\<not> current s' g" if "g \<le> c_generation (s_cache s)" for g
    using that gen by (simp add: current_def)
  have oldled: "led s k g f m \<Longrightarrow> \<not> current s' g" for k g f m
    using old by (simp add: led_def)
  show ?thesis
  proof (rule inv_threadsI)
    fix t k g f m assume "s_pc s' t = Calling k g f m"
    then have "s_pc s t = Calling k g f m" using pc [of t] by auto
    then show "led s' k g f m" by (intro led inv_threadsD(1) [OF thr])
  next
    fix t k g f m v assume "s_pc s' t = Answered k g f m v"
    then have a: "s_pc s t = Answered k g f m v" using pc [of t] by auto
    then show "led s' k g f m" by (intro led inv_threadsD(2) [OF thr])
    show "good ask (s_remote s') k v" if "current s' g"
      using oldled [OF inv_threadsD(2) [OF thr a]] that by simp
  next
    fix t k g f assume "s_pc s' t = Waiting k g f"
    then have "s_pc s t = Waiting k g f" using pc [of t] by auto
    then show "s_info s' f = Some (k, g)" using inv_threadsD(4) [OF thr] info by simp
  next
    fix f v k g assume "s_info s' f = Some (k, g)" and cur: "current s' g"
    then have "s_info s f = Some (k, g)" using info by simp
    from inv_flightsD(2) [OF fl this] old cur show "good ask (s_remote s') k v" by simp
  qed
qed

lemma mutators_other:
  assumes "\<And>names. s_pc s t \<noteq> Mutating names" and "\<And>names. p \<noteq> Mutating names"
  shows "mutators (s\<lparr>s_pc := (s_pc s)(t := p)\<rparr>) = mutators s"
  using assms by (auto simp: mutators_def split: if_splits)

lemma mutators_upd [simp]:
  "mutators (s\<lparr>s_cache := c\<rparr>) = mutators s" "mutators (s\<lparr>s_remote := r\<rparr>) = mutators s"
  "mutators (s\<lparr>s_info := i\<rparr>) = mutators s"
  "mutators (s\<lparr>s_cache := c, s_pc := p\<rparr>) = mutators (s\<lparr>s_pc := p\<rparr>)"
  "mutators (s\<lparr>s_cache := c, s_pc := p, s_info := i\<rparr>) = mutators (s\<lparr>s_pc := p\<rparr>)"
  by (simp_all add: mutators_def)

lemma mc_inv_init: "mc_inv ask (mc_init r)"
  by (simp add: mc_inv_defs mc_init_def NewMetadataCache_def mutators_def)

lemma inv_pc_only:
  assumes inv: "mc_inv ask s" and pc: "\<And>names. s_pc s t \<noteq> Mutating names"
    and p: "p = Idle \<or> (\<exists>k v. p = Returned k v) \<or>
            (\<exists>k g f m v. s_pc s t = Calling k g f m \<and> p = Answered k g f m v \<and> good ask (s_remote s) k v)"
  shows "mc_inv ask (s\<lparr>s_pc := (s_pc s)(t := p)\<rparr>)"
proof -
  let ?s = "s\<lparr>s_pc := (s_pc s)(t := p)\<rparr>"
  have m: "mutators ?s = mutators s"
    using pc p by (intro mutators_other) auto
  have same: "led ?s = led s" "current ?s = current s" by (simp_all add: fun_eq_iff led_def current_def)
  have "inv_coherent ask ?s" using inv by (simp add: mc_inv_def inv_coherent_def)
  moreover have "inv_dropped ?s"
    unfolding inv_dropped_def using inv p by (auto simp: mc_inv_def inv_dropped_def)
  moreover have "inv_count ?s" using inv m by (simp add: mc_inv_def inv_count_def)
  moreover have "inv_flights ?s" using inv by (simp add: mc_inv_def inv_flights_def)
  moreover have "inv_threads ask ?s"
    using inv p unfolding mc_inv_def inv_threads_def same by auto
  moreover have "inv_done ?s" using inv by (simp add: mc_inv_def inv_done_def)
  ultimately show ?thesis by (simp add: mc_inv_def)
qed

subsection \<open>Every step keeps the invariant\<close>

lemma inv_enter:
  assumes inv: "mc_inv ask s" and idle: "s_pc s t = Idle"
    and q: "query_enter now k (s_cache s) = (out, c')"
  shows "mc_inv ask (s\<lparr>s_cache := c', s_pc := (s_pc s)(t := after_enter k out),
                       s_info := info_after k out (s_info s)\<rparr>)" (is "mc_inv ask ?s")
proof -
  let ?c = "s_cache s"
  from enter_facts [OF q] have
    vals: "\<forall>k' v. map_of (c_values c') k' = Some v \<longrightarrow> map_of (c_values ?c) k' = Some v" and
    gen: "c_generation c' = c_generation ?c" "c_changing c' = c_changing ?c" "c_done c' = c_done ?c" and
    cases: "(\<exists>v. out = Hit v \<and> map_of (c_values ?c) k = Some v \<and> now < v_expires v \<and> c' = ?c) \<or>
     (out = Refused (Sentinel ErrClosed) \<and> c' = ?c) \<or>
     (\<exists>f. out = WaitOn (c_generation ?c) f \<and> map_of (c_flights ?c) (k, c_generation ?c) = Some f \<and>
        c_next c' = c_next ?c \<and> c_flights c' = c_flights ?c) \<or>
     (out = Lead (c_generation ?c) (c_next ?c) (c_changing ?c = 0) \<and> c_next c' = Suc (c_next ?c) \<and>
        c_flights c' = (if c_changing ?c = 0 then ((k, c_generation ?c), c_next ?c) # c_flights ?c
                        else c_flights ?c))" by blast+
  have notmut: "after_enter k out \<noteq> Mutating names" for names by (cases out) auto
  have m: "mutators ?s = mutators s" using idle notmut by (auto simp: mutators_def)
  have coh: "inv_coherent ask ?s" using inv vals by (simp add: mc_inv_def inv_coherent_def)
  have dropped: "inv_dropped ?s"
    using inv vals notmut by (fastforce simp: mc_inv_def inv_dropped_def)
  have count: "inv_count ?s" using inv m gen by (simp add: mc_inv_def inv_count_def)
  from inv have old: "inv_flights s" "inv_threads ask s" "inv_done s" by (simp_all add: mc_inv_def)
  have fresh: "s_info s (c_next ?c) = None" using inv_flightsD(1) [OF old(1), of "c_next ?c"] by (cases "s_info s (c_next ?c)") auto
  have rest: "inv_flights ?s \<and> inv_threads ask ?s \<and> inv_done ?s"
    using cases
  proof (elim disjE exE conjE)
    fix v assume h: "out = Hit v" "c' = ?c"
    then have "?s = s\<lparr>s_pc := (s_pc s)(t := Returned k v)\<rparr>" by simp
    with inv_pc_only [OF inv, of t "Returned k v"] idle show ?thesis by (simp add: mc_inv_def)
  next
    assume h: "out = Refused (Sentinel ErrClosed)" "c' = ?c"
    let ?p = "Returned k (error_value (Sentinel ErrClosed))"
    from h have "?s = s\<lparr>s_pc := (s_pc s)(t := ?p)\<rparr>" by simp
    with inv_pc_only [OF inv, of t ?p] idle show ?thesis by (simp add: mc_inv_def)
  next
    fix f assume w: "out = WaitOn (c_generation ?c) f" "map_of (c_flights ?c) (k, c_generation ?c) = Some f"
      "c_next c' = c_next ?c" "c_flights c' = c_flights ?c"
    then have wi: "s_info s f = Some (k, c_generation ?c)" using old(1) unfolding inv_flights_def by metis
    have same: "led ?s = led s" "current ?s = current s"
      using w gen by (simp_all add: fun_eq_iff led_def current_def)
    have "inv_flights ?s" by (rule inv_flights_step [OF old(1)]) (use w gen in simp_all)
    moreover have "inv_done ?s" using old(3) w gen by (simp add: inv_done_def)
    moreover have "inv_threads ask ?s"
    proof (rule inv_threadsI)
      fix t' k' g f' m assume "s_pc ?s t' = Calling k' g f' m"
      then have "s_pc s t' = Calling k' g f' m" using w by (auto split: if_splits)
      then show "led ?s k' g f' m" using inv_threadsD(1) [OF old(2)] same by simp
    next
      fix t' k' g f' m v assume "s_pc ?s t' = Answered k' g f' m v"
      then have a: "s_pc s t' = Answered k' g f' m v" using w by (auto split: if_splits)
      then show "led ?s k' g f' m" using inv_threadsD(2) [OF old(2)] same by simp
      show "good ask (s_remote ?s) k' v" if "current ?s g"
        using inv_threadsD(3) [OF old(2) a] that same by simp
    next
      fix t' k' g f' assume "s_pc ?s t' = Waiting k' g f'"
      then show "s_info ?s f' = Some (k', g)"
        using inv_threadsD(4) [OF old(2)] w wi by (auto split: if_splits)
    next
      fix f' v k' g assume d: "c_done (s_cache ?s) f' = Some v" "s_info ?s f' = Some (k', g)" "current ?s g"
      then show "good ask (s_remote ?s) k' v"
        using inv_threadsD(5) [OF old(2)] w gen same by simp
    qed
    ultimately show ?thesis by simp
  next
    assume l: "out = Lead (c_generation ?c) (c_next ?c) (c_changing ?c = 0)" "c_next c' = Suc (c_next ?c)"
      "c_flights c' = (if c_changing ?c = 0 then ((k, c_generation ?c), c_next ?c) # c_flights ?c
                        else c_flights ?c)"
    define merge where "merge = (c_changing ?c = 0)"
    have info: "s_info ?s = (if merge then (s_info s)(c_next ?c \<mapsto> (k, c_generation ?c)) else s_info s)"
      using l by (simp add: merge_def)
    have led: "led s k' g f m \<Longrightarrow> led ?s k' g f m" for k' g f m
      using l gen info by (auto simp: led_def)
    have new: "led ?s k (c_generation ?c) (c_next ?c) merge"
      using l gen info fresh by (auto simp: led_def)
    have cur: "current ?s = current s" using gen by (simp add: fun_eq_iff current_def)
    have nodone: "c_done ?c (c_next ?c) = None"
      using old(3) unfolding inv_done_def by (metis less_irrefl not_None_eq)
    have "inv_flights ?s"
      unfolding inv_flights_def
    proof (intro conjI allI impI)
      fix x f assume "map_of (c_flights (s_cache ?s)) x = Some f"
      then have "(merge \<and> x = (k, c_generation ?c) \<and> f = c_next ?c) \<or> map_of (c_flights ?c) x = Some f"
        using l by (auto simp: merge_def split: if_splits)
      then show "s_info ?s f = Some x"
      proof
        assume "map_of (c_flights ?c) x = Some f"
        then have "s_info s f = Some x" using old(1) unfolding inv_flights_def by metis
        then show ?thesis using fresh info by auto
      qed (simp add: info)
    next
      fix f k' g assume "s_info ?s f = Some (k', g)"
      then have c: "(merge \<and> f = c_next ?c \<and> g = c_generation ?c) \<or> s_info s f = Some (k', g)"
        using info by (auto split: if_splits)
      show "f < c_next (s_cache ?s)" using c inv_flightsD(1) [OF old(1)] l by (auto simp: less_Suc_eq)
      show "g \<le> c_generation (s_cache ?s)" using c inv_flightsD(2) [OF old(1)] gen by auto
      show "c_changing (s_cache ?s) = 0" if "g = c_generation (s_cache ?s)"
        using c
      proof
        assume "s_info s f = Some (k', g)"
        from inv_flightsD(3) [OF old(1) this] that gen show ?thesis by simp
      qed (simp add: merge_def gen)
    qed
    moreover have "inv_done ?s"
      using l gen old(3) unfolding inv_done_def by (auto simp: less_Suc_eq)
    moreover have "inv_threads ask ?s"
    proof (rule inv_threadsI)
      fix t' k' g f m assume "s_pc ?s t' = Calling k' g f m"
      then show "led ?s k' g f m"
        using l new led inv_threadsD(1) [OF old(2)] by (auto simp: merge_def split: if_splits)
    next
      fix t' k' g f m v assume "s_pc ?s t' = Answered k' g f m v"
      then have a: "s_pc s t' = Answered k' g f m v" using l by (auto split: if_splits)
      then show "led ?s k' g f m" using led inv_threadsD(2) [OF old(2)] by blast
      show "good ask (s_remote ?s) k' v" if "current ?s g"
        using inv_threadsD(3) [OF old(2) a] that cur by simp
    next
      fix t' k' g f assume "s_pc ?s t' = Waiting k' g f"
      then have "s_pc s t' = Waiting k' g f" using l by (auto split: if_splits)
      then show "s_info ?s f = Some (k', g)" using inv_threadsD(4) [OF old(2)] info fresh by auto
    next
      fix f v k' g assume d: "c_done (s_cache ?s) f = Some v" "s_info ?s f = Some (k', g)" "current ?s g"
      then have "c_done ?c f = Some v" using gen by simp
      moreover with nodone have "f \<noteq> c_next ?c" by auto
      then have "s_info s f = Some (k', g)" using d(2) info by (auto split: if_splits)
      ultimately show "good ask (s_remote ?s) k' v" using inv_threadsD(5) [OF old(2)] d(3) cur by simp
    qed
    ultimately show ?thesis by simp
  qed
  from coh dropped count rest show ?thesis by (simp add: mc_inv_def)
qed

lemma inv_finish:
  assumes inv: "mc_inv ask s" and lc: "listing_consistent ask"
    and pc: "s_pc s t = Answered k g f m v"
  shows "mc_inv ask (s\<lparr>s_cache := query_finish now ctx k g f m v (s_cache s),
                       s_pc := (s_pc s)(t := Returned k v)\<rparr>)" (is "mc_inv ask ?s")
proof -
  let ?c = "s_cache s" and ?d = "query_finish now ctx k g f m v (s_cache s)"
  from inv have old: "inv_coherent ask s" "inv_dropped s" "inv_count s" "inv_flights s"
    "inv_threads ask s" "inv_done s" by (simp_all add: mc_inv_def)
  from old(5) pc have l: "led s k g f m" and gd: "current s g \<longrightarrow> good ask (s_remote s) k v"
    by (auto simp: inv_threads_def)
  have mu: "mutators ?s = mutators s" using pc by (auto simp: mutators_def)
  have idle: "mutators s = {}" if "storable ctx g v ?c"
    using that old(3) by (auto simp: storable_def inv_count_def)
  have store: "coherent v' (ask (s_remote s) k')"
    if st: "storable ctx g v ?c" and lk: "map_of (c_values (query_store now k v ?c)) k' = Some v'" for k' v'
  proof -
    from st gd have "good ask (s_remote s) k v" by (auto simp: storable_def current_def)
    with st have va: "v = ask (s_remote s) k" by (auto simp: storable_def good_def failed_answer_def)
    from st have "v_err v = None \<or> definiteMissing (v_err v)" by (simp add: storable_def)
    from store_lookup [OF lk this] show ?thesis
    proof (elim disjE exE conjE)
      assume "map_of (c_values ?c) k' = Some v'"
      then show ?thesis using old(1) by (simp add: inv_coherent_def)
    next
      assume "k' = k" "agrees v' v"
      then show ?thesis using va by (simp add: agrees_coherent)
    next
      fix es e
      assume e: "v_entries v = Some es" "e \<in> set es" "seedable e" "k_directory k" "v_err v = None"
        and k': "k' = MKey (path_Join [k_name k, e_Name e]) False"
        and v': "v_entry v' = e" "v_entries v' = None" "v_err v' = None"
      have "k = MKey (k_name k) True" using e(4) by (cases k) simp
      then have "v_entry (ask (s_remote s) k') = e \<and> v_entries (ask (s_remote s) k') = None \<and>
                 v_err (ask (s_remote s) k') = None"
        using lc e va k' unfolding listing_consistent_def Let_def by metis
      then show ?thesis using v' by (intro agrees_coherent) (simp add: agrees_def)
    qed
  qed
  have "inv_coherent ask ?s"
    using store old(1) by (auto simp: inv_coherent_def section_facts split: if_splits)
  moreover have "inv_dropped ?s"
  proof (cases "storable ctx g v ?c")
    case True
    from idle [OF this] mu have "s_pc ?s t' \<noteq> Mutating names" for t' names
      by (auto simp: mutators_def)
    then show ?thesis unfolding inv_dropped_def by blast
  next
    case False
    then show ?thesis using old(2) by (auto simp: inv_dropped_def section_facts)
  qed
  moreover have "inv_count ?s" using old(3) mu by (simp add: inv_count_def section_facts)
  moreover have "inv_flights ?s"
    by (rule inv_flights_step [OF old(4)]) (auto simp: section_facts(1-4) dest: finish_facts(5))
  moreover have "inv_done ?s"
    using old(6) l by (auto simp: inv_done_def section_facts led_def)
  moreover have "inv_threads ask ?s"
    using old(5) l gd unfolding inv_threads_def led_def current_def
    by (auto simp: section_facts split: if_splits)
  ultimately show ?thesis by (simp add: mc_inv_def)
qed

lemma inv_begin:
  assumes inv: "mc_inv ask s" and idle: "s_pc s t = Idle"
  shows "mc_inv ask (s\<lparr>s_cache := mutation_begin names (s_cache s),
                       s_pc := (s_pc s)(t := Mutating names)\<rparr>)" (is "mc_inv ask ?s")
proof -
  from inv have old: "inv_coherent ask s" "inv_dropped s" "inv_count s" "inv_flights s"
    "inv_threads ask s" "inv_done s" by (simp_all add: mc_inv_def)
  have "mutators ?s = insert t (mutators s)" "t \<notin> mutators s"
    using idle by (auto simp: mutators_def)
  then have "inv_count ?s" using old(3) by (simp add: inv_count_def section_facts)
  moreover have "inv_coherent ask ?s" using old(1) by (simp add: inv_coherent_def mutation_lookup)
  moreover have "inv_dropped ?s" using old(2) by (auto simp: inv_dropped_def mutation_lookup)
  moreover have "inv_flights ?s" by (rule inv_flights_step [OF old(4)]) (simp_all add: section_facts)
  moreover have "inv_done ?s" using old(6) by (simp add: inv_done_def section_facts)
  moreover have "inv_threads ask ?s"
    by (rule inv_threads_bump [OF old(5,4)]) (simp_all add: section_facts)
  ultimately show ?thesis by (simp add: mc_inv_def)
qed

lemma inv_end:
  assumes inv: "mc_inv ask s" and pc: "s_pc s t = Mutating names"
  shows "mc_inv ask (s\<lparr>s_cache := mutation_done names (s_cache s),
                       s_pc := (s_pc s)(t := Idle)\<rparr>)" (is "mc_inv ask ?s")
proof -
  from inv have old: "inv_coherent ask s" "inv_dropped s" "inv_count s" "inv_flights s"
    "inv_threads ask s" "inv_done s" by (simp_all add: mc_inv_def)
  have "mutators ?s = mutators s - {t}" "t \<in> mutators s"
    using pc by (auto simp: mutators_def)
  then have "inv_count ?s" using old(3) by (simp add: inv_count_def section_facts)
  moreover have "inv_coherent ask ?s" using old(1) by (simp add: inv_coherent_def mutation_lookup)
  moreover have "inv_dropped ?s" using old(2) by (auto simp: inv_dropped_def mutation_lookup)
  moreover have "inv_flights ?s" by (rule inv_flights_step [OF old(4)]) (simp_all add: section_facts)
  moreover have "inv_done ?s" using old(6) by (simp add: inv_done_def section_facts)
  moreover have "inv_threads ask ?s"
    by (rule inv_threads_bump [OF old(5,4)]) (simp_all add: section_facts)
  ultimately show ?thesis by (simp add: mc_inv_def)
qed

lemma inv_effect:
  assumes inv: "mc_inv ask s" and pc: "s_pc s t = Mutating names"
    and frame: "\<And>k. \<not> touches names k \<Longrightarrow> steady (ask r' k) = steady (ask (s_remote s) k)"
  shows "mc_inv ask (s\<lparr>s_remote := r'\<rparr>)" (is "mc_inv ask ?s")
proof -
  from inv have old: "inv_coherent ask s" "inv_dropped s" "inv_count s" "inv_flights s"
    "inv_threads ask s" "inv_done s" by (simp_all add: mc_inv_def)
  have "t \<in> mutators s" using pc by (auto simp: mutators_def)
  with old(3) have busy: "c_changing (s_cache s) \<noteq> 0" by (auto simp: inv_count_def)
  then have nc: "\<not> current ?s g" for g by (simp add: current_def)
  have "inv_coherent ask ?s"
    unfolding inv_coherent_def
  proof (intro allI impI)
    fix k v assume "map_of (c_values (s_cache ?s)) k = Some v"
    then have v: "map_of (c_values (s_cache s)) k = Some v" by simp
    with old(2) pc have "\<not> affected names k" by (auto simp: inv_dropped_def)
    then have "\<not> touches names k" using touches_affected by blast
    with v old(1) frame show "coherent v (ask (s_remote ?s) k)" by (simp add: inv_coherent_def coherent_def)
  qed
  moreover have "inv_threads ask ?s"
    using old(5) nc by (simp add: inv_threads_def led_def)
  ultimately show ?thesis using old by (simp add: mc_inv_def inv_dropped_def inv_count_def
    inv_flights_def inv_done_def)
qed

lemma inv_close:
  assumes inv: "mc_inv ask s"
  shows "mc_inv ask (s\<lparr>s_cache := cache_Close (s_cache s)\<rparr>)" (is "mc_inv ask ?s")
proof -
  from inv have old: "inv_count s" "inv_flights s" "inv_threads ask s" "inv_done s"
    by (simp_all add: mc_inv_def)
  have "inv_threads ask ?s"
    by (rule inv_threads_bump [OF old(3,2)]) (simp_all add: section_facts)
  moreover have "inv_flights ?s" by (rule inv_flights_step [OF old(2)]) (simp_all add: section_facts)
  ultimately show ?thesis using old
    by (simp add: mc_inv_def inv_coherent_def inv_dropped_def inv_count_def inv_done_def section_facts)
qed

lemma mc_step_inv:
  assumes "mc_step ask s s'" and "mc_inv ask s" and "listing_consistent ask"
  shows "mc_inv ask s'"
  using assms
proof (induction rule: mc_step.induct)
  case (waited s t k g f fv)
  then show ?case by (intro inv_pc_only) (auto split: option.splits)
qed (auto intro: inv_enter inv_finish inv_begin inv_end inv_effect inv_close inv_pc_only)

lemma mc_reachable_inv: "mc_reachable ask s \<Longrightarrow> listing_consistent ask \<Longrightarrow> mc_inv ask s"
  by (induction rule: mc_reachable.induct) (auto intro: mc_inv_init mc_step_inv)


lemma mc_reachable_wf: "mc_reachable ask s \<Longrightarrow> cache_wf (s_cache s)"
proof (induction rule: mc_reachable.induct)
  case (start r)
  show ?case
    by (simp add: mc_init_def NewMetadataCache_def cache_wf_def metadataMaxBytes_def)
next
  case (step s s')
  from step.hyps(2) step.IH show ?case
  proof (induction rule: mc_step.induct)
    case (enter s t now k out c')
    then show ?case using enter_wf [of "s_cache s" now k] by simp
  qed (simp_all add: finish_wf begin_wf done_wf Close_wf)
qed

subsection \<open>A run, for the witnesses\<close>

definition demo_ask :: "unit \<Rightarrow> metadataKey \<Rightarrow> metadataValue" where
  "demo_ask r k = (if k_directory k then zero_value\<lparr>v_entries := Some []\<rparr> else zero_value)"

definition demo_key :: metadataKey where "demo_key = MKey ''/a'' False"

definition demo_state :: "unit mc_sys" where
  "demo_state =
     (let c1 = NewMetadataCache\<lparr>c_next := 1, c_flights := [((demo_key, 0), 0)]\<rparr>;
          c2 = query_finish 0 None demo_key 0 0 True zero_value c1
      in \<lparr>s_cache = c2, s_remote = (),
          s_pc = (\<lambda>_. Idle)(0 := Returned demo_key zero_value, 1 := Waiting demo_key 0 0),
          s_info = [0 \<mapsto> (demo_key, 0)]\<rparr>)"

lemma demo_listing: "listing_consistent demo_ask"
  by (simp add: listing_consistent_def demo_ask_def)

lemma demo_enter:
  "query_enter 0 demo_key NewMetadataCache =
     (Lead 0 0 True, NewMetadataCache\<lparr>c_next := 1, c_flights := [((demo_key, 0), 0)]\<rparr>)"
  "query_enter 0 demo_key (NewMetadataCache\<lparr>c_next := 1, c_flights := [((demo_key, 0), 0)]\<rparr>) =
     (WaitOn 0 0, NewMetadataCache\<lparr>c_next := 1, c_flights := [((demo_key, 0), 0)]\<rparr>)"
  by (simp_all add: query_enter_def query_join_def NewMetadataCache_def Let_def)

lemma demo_reachable: "mc_reachable demo_ask demo_state"
proof -
  let ?c = "NewMetadataCache\<lparr>c_next := 1, c_flights := [((demo_key, 0), 0)]\<rparr>"
  let ?s = "\<lambda>c p i. \<lparr>s_cache = c, s_remote = (), s_pc = p, s_info = i\<rparr>"
  let ?i = "[0 \<mapsto> (demo_key, 0)]"
  let ?w = "(\<lambda>_::nat. Idle)(0 := Calling demo_key 0 0 True, 1 := Waiting demo_key 0 0)"
  note go = mc_reachable.step
  have r0: "mc_reachable demo_ask (?s NewMetadataCache (\<lambda>_. Idle) Map.empty)"
    using mc_reachable.start [of demo_ask "()"] by (simp add: mc_init_def)
  have r1: "mc_reachable demo_ask (?s ?c ((\<lambda>_. Idle)(0 := Calling demo_key 0 0 True)) ?i)"
    using go [OF r0 mc_step.enter [OF _ _, of _ 0 0 demo_key "Lead 0 0 True" ?c]]
    by (simp add: demo_enter del: One_nat_def)
  have r2: "mc_reachable demo_ask (?s ?c ?w ?i)"
    using go [OF r1 mc_step.enter [OF _ _, of _ 1 0 demo_key "WaitOn 0 0" ?c]]
    by (simp add: demo_enter del: One_nat_def)
  have r3: "mc_reachable demo_ask (?s ?c (?w(0 := Answered demo_key 0 0 True zero_value)) ?i)"
    using go [OF r2 mc_step.answer [OF _ _, of _ 0 demo_key 0 0 True demo_ask zero_value]]
    by (simp add: good_def demo_ask_def demo_key_def del: One_nat_def)
  have r4: "mc_reachable demo_ask
      (?s (query_finish 0 None demo_key 0 0 True zero_value ?c)
          (?w(0 := Returned demo_key zero_value)) ?i)"
    using go [OF r3 mc_step.finish [OF _, of _ 0 demo_key 0 0 True zero_value demo_ask 0 None]]
    by (simp del: One_nat_def)
  have eq: "?w(0 := Returned demo_key zero_value) =
    (\<lambda>_::nat. Idle)(0 := Returned demo_key zero_value, 1 := Waiting demo_key 0 0)" by (rule ext) auto
  show ?thesis using r4 unfolding demo_state_def eq by (simp del: One_nat_def)
qed

definition demo_value :: metadataValue where
  "demo_value = zero_value\<lparr>v_expires := 2000000000, v_bytes := 130\<rparr>"

lemma demo_cached:
  "map_of (c_values (s_cache demo_state)) demo_key = Some demo_value"
  "c_done (s_cache demo_state) 0 = Some zero_value" "s_pc demo_state 1 = Waiting demo_key 0 0"
  "query_waited 0 zero_value (s_cache demo_state) = Some zero_value"
  "query_enter 1 demo_key (s_cache demo_state) = (Hit demo_value, s_cache demo_state)"
  by (simp_all add: demo_state_def query_finish_def storable_def query_store_def Let_def
      cache_put_def cache_drop_def value_size_def demo_value_def demo_key_def zero_value_def
      zero_entry_def NewMetadataCache_def metadataMaxBytes_def metadataMaxEntries_def metadataTTL_def
      second_def query_waited_def query_enter_def definiteMissing_def del: One_nat_def)

subsection \<open>Properties\<close>



text \<open>
  A waiter that joined another goroutine's request never receives an answer older than a mutation:
  if \<open>query\<close> hands it the flight's value, that value is the backend's answer at that moment
  (or a failure that does not claim absence); otherwise it retries.
\<close>

theorem waiter_answer_current:
  assumes "mc_reachable ask s" and "listing_consistent ask"
    and "s_pc s t = Waiting k g f" and "c_done (s_cache s) f = Some fv"
    and "query_waited g fv (s_cache s) = Some v"
  shows "v = ask (s_remote s) k \<or> failed_answer v"
proof -
  have inv: "mc_inv ask s" by (rule mc_reachable_inv [OF assms(1,2)])
  then have thr: "inv_threads ask s" and fl: "inv_flights s" by (simp_all add: mc_inv_def)
  from assms(5) have v: "v = fv" and gen: "g = c_generation (s_cache s)"
    by (auto simp: query_waited_def split: if_splits)
  note info = inv_threadsD(4) [OF thr assms(3)]
  have "current s g" using inv_flightsD(3) [OF fl info] gen by (simp add: current_def)
  from inv_threadsD(5) [OF thr assms(4) info this] v show ?thesis by (simp add: good_def)
qed

theorem waiter_answer_current_witness:
  "zero_value = demo_ask (s_remote demo_state) demo_key \<or> failed_answer zero_value"
  by (rule waiter_answer_current [OF demo_reachable demo_listing demo_cached(3,2,4)])

text \<open>
  A cache hit is unexpired and tells what the backend would answer now, up to the size and the time of
  folders; and it is only served while
  no mutation is running and the cache is open.
\<close>

theorem hit_is_current:
  assumes "mc_reachable ask s" and "listing_consistent ask"
    and "query_enter now k (s_cache s) = (Hit v, c')"
  shows "coherent v (ask (s_remote s) k) \<and> now < v_expires v \<and>
         c_changing (s_cache s) = 0 \<and> \<not> c_closed (s_cache s)"
proof -
  have inv: "inv_coherent ask s" using mc_reachable_inv [OF assms(1,2)] by (simp add: mc_inv_def)
  have "map_of (c_values (s_cache s)) k = Some v \<and> now < v_expires v"
    using enter_facts [OF assms(3)] by auto
  moreover have "c_changing (s_cache s) = 0 \<and> \<not> c_closed (s_cache s)"
    using assms(3) unfolding query_enter_def query_join_def Let_def
    by (auto split: if_splits option.splits)
  ultimately show ?thesis using inv by (auto simp: inv_coherent_def)
qed

theorem hit_is_current_witness:
  "coherent demo_value (demo_ask (s_remote demo_state) demo_key) \<and> (1::int) < v_expires demo_value \<and>
   c_changing (s_cache demo_state) = 0 \<and> \<not> c_closed (s_cache demo_state)"
  by (rule hit_is_current [OF demo_reachable demo_listing demo_cached(5)])

text \<open>
  C24. The cache is bounded in every reachable state: at most 4096 values, a byte counter that is exactly
  the sum of the recorded sizes and at most 16 MiB, and one value per key.
\<close>

theorem metadata_bounded:
  assumes "mc_reachable ask s"
  shows "length (c_values (s_cache s)) \<le> 4096 \<and> c_bytes (s_cache s) \<le> 16 * 2 ^ 20 \<and>
    c_bytes (s_cache s) = sum_list (map (\<lambda>(k, v). value_size k v) (c_values (s_cache s))) \<and>
    distinct (map fst (c_values (s_cache s)))"
proof -
  have wf: "cache_wf (s_cache s)" by (rule mc_reachable_wf [OF assms])
  then have "al_sum v_bytes (c_values (s_cache s)) =
    sum_list (map (\<lambda>(k, v). value_size k v) (c_values (s_cache s)))"
    unfolding al_sum_def by (intro arg_cong [of _ _ sum_list] map_cong) (auto simp: cache_wf_def)
  with wf show ?thesis
    by (simp add: cache_wf_def metadataMaxBytes_def metadataMaxEntries_def al_keys_def)
qed

theorem metadata_bounded_witness:
  "length (c_values (s_cache demo_state)) \<le> 4096 \<and> c_bytes (s_cache demo_state) \<le> 16 * 2 ^ 20 \<and>
   c_bytes (s_cache demo_state) =
     sum_list (map (\<lambda>(k, v). value_size k v) (c_values (s_cache demo_state))) \<and>
   distinct (map fst (c_values (s_cache demo_state)))"
  by (rule metadata_bounded [OF demo_reachable])

theorem covered_components_witness:
  "list_all plain [''a'', ''b''] \<and> list_all plain [''a''] \<and>
   covered (abs_path [''a'', ''b'']) (MKey (abs_path [''a'']) True)"
proof -
  have p: "list_all plain [''a'', ''b'']" "list_all plain [''a'']" by (simp_all add: plain_def)
  show ?thesis using covered_components [OF p, of True] p by simp
qed

end
