(* ===== verification/Local_FS.thy ===== *)
theory Local_FS
  imports Vfs "HOL-Library.Char_ord" "HOL-Library.List_Lexorder"
begin

text \<open>
  The part of the packages \<^theory_text>\<open>os\<close>, \<^theory_text>\<open>io\<close> and
  \<^theory_text>\<open>path/filepath\<close> (with the POSIX separator) that the program uses on local files.
  A file system maps cleaned absolute paths to nodes. Which calls fail is an arbitrary table
  \<open>fs_faults\<close>: a call with an entry fails with that error and has no effect, so that every error
  branch of the callers can be taken. A regular file knows whether its bytes have been synced.
\<close>

datatype node =
    Reg (reg_data: bytes) (reg_time: instant) (reg_synced: bool)
  | DirNode
  | Link string
  | OtherNode

datatype fsop =
    OpLstat | OpInfo | OpReadDir | OpCreate | OpOpen | OpRead | OpWrite | OpSync | OpClose
  | OpRemove | OpRename | OpMkdir | OpChtimes | OpTruncate | OpGetwd

record lfs =
  fs_nodes :: "(string \<times> node) list"
  fs_cwd :: string
  fs_faults :: "fsop \<Rightarrow> string \<Rightarrow> err option"

record finfo =
  fi_Size :: int
  fi_Mode :: filemode
  fi_ModTime :: instant

fun node_info :: "node \<Rightarrow> finfo" where
  "node_info (Reg d t s) = \<lparr>fi_Size = int (length d), fi_Mode = 0x180, fi_ModTime = t\<rparr>"
| "node_info DirNode = \<lparr>fi_Size = 0, fi_Mode = ModeDir OR 0x1C0, fi_ModTime = 0\<rparr>"
| "node_info (Link t) = \<lparr>fi_Size = int (length t), fi_Mode = ModeSymlink OR 0x1FF, fi_ModTime = 0\<rparr>"
| "node_info OtherNode = \<lparr>fi_Size = 0, fi_Mode = 0x04000180, fi_ModTime = 0\<rparr>"

definition fs_get :: "lfs \<Rightarrow> string \<Rightarrow> node option" where
  "fs_get fs p = map_of (fs_nodes fs) p"

definition fs_set :: "string \<Rightarrow> node \<Rightarrow> lfs \<Rightarrow> lfs" where
  "fs_set p n fs = fs\<lparr>fs_nodes := AList.update p n (fs_nodes fs)\<rparr>"

definition fs_del :: "string \<Rightarrow> lfs \<Rightarrow> lfs" where
  "fs_del p fs = fs\<lparr>fs_nodes := AList.delete p (fs_nodes fs)\<rparr>"

lemma fs_get_set [fs_simps]: "fs_get (fs_set p n fs) q = (if q = p then Some n else fs_get fs q)"
  by (simp add: fs_get_def fs_set_def update_conv')

lemma fs_get_del [fs_simps]: "fs_get (fs_del p fs) q = (if q = p then None else fs_get fs q)"
  by (simp add: fs_get_def fs_del_def delete_conv')

lemma fs_faults_upd [simp]:
  "fs_faults (fs_set p n fs) = fs_faults fs" "fs_faults (fs_del p fs) = fs_faults fs"
  "fs_cwd (fs_set p n fs) = fs_cwd fs" "fs_cwd (fs_del p fs) = fs_cwd fs"
  by (simp_all add: fs_set_def fs_del_def)

definition fs_wf :: "lfs \<Rightarrow> bool" where
  "fs_wf fs \<longleftrightarrow> distinct (al_keys (fs_nodes fs))"

lemma fs_wf_set [simp]: "fs_wf fs \<Longrightarrow> fs_wf (fs_set p n fs)"
  by (simp add: fs_wf_def fs_set_def al_keys_def distinct_update)

lemma fs_wf_del [simp]: "fs_wf fs \<Longrightarrow> fs_wf (fs_del p fs)"
  by (simp add: fs_wf_def fs_del_def)

subsection \<open>Reading\<close>

definition os_Lstat :: "string \<Rightarrow> lfs \<Rightarrow> err + finfo" where
  "os_Lstat p fs =
     (case fs_faults fs OpLstat p of
        Some e \<Rightarrow> Inl e
      | None \<Rightarrow> (case fs_get fs p of None \<Rightarrow> Inl (PathErr ENOENT) | Some n \<Rightarrow> Inr (node_info n)))"

definition child_of :: "string \<Rightarrow> string \<Rightarrow> bool" where
  "child_of d p \<longleftrightarrow> prefix (d @ ''/'') p \<and> slash \<notin> set (drop (length d + 1) p) \<and> length d + 1 < length p"

definition child_name :: "string \<Rightarrow> string \<Rightarrow> string" where
  "child_name d p = drop (length d + 1) p"

text \<open>\<open>os.ReadDir\<close>: the entries of a directory, sorted by name.\<close>

definition os_ReadDir :: "string \<Rightarrow> lfs \<Rightarrow> err + (string \<times> node) list" where
  "os_ReadDir d fs =
     (case fs_faults fs OpReadDir d of
        Some e \<Rightarrow> Inl e
      | None \<Rightarrow>
          if fs_get fs d = Some DirNode
          then Inr (sort_key fst (map (\<lambda>(p, n). (child_name d p, n))
                                   (filter (\<lambda>(p, n). child_of d p) (fs_nodes fs))))
          else Inl (PathErr (if fs_get fs d = None then ENOENT else ENOTDIR)))"

text \<open>\<open>entry.Info()\<close> of an entry of a listing.\<close>

definition entry_Info :: "string \<Rightarrow> string \<times> node \<Rightarrow> lfs \<Rightarrow> err + finfo" where
  "entry_Info d e fs =
     (case fs_faults fs OpInfo (d @ ''/'' @ fst e) of
        Some err \<Rightarrow> Inl err | None \<Rightarrow> Inr (node_info (snd e)))"

text \<open>\<open>os.ReadFile\<close> and \<open>os.Open\<close> follow a symbolic link (one level is modelled).\<close>

definition resolve :: "lfs \<Rightarrow> string \<Rightarrow> node option" where
  "resolve fs p = (case fs_get fs p of Some (Link t) \<Rightarrow> fs_get fs t | n \<Rightarrow> n)"

definition os_ReadFile :: "string \<Rightarrow> lfs \<Rightarrow> err + bytes" where
  "os_ReadFile p fs =
     (case fs_faults fs OpRead p of
        Some e \<Rightarrow> Inl e
      | None \<Rightarrow> (case resolve fs p of
                  Some (Reg d t s) \<Rightarrow> Inr d
                | None \<Rightarrow> Inl (PathErr ENOENT)
                | Some _ \<Rightarrow> Inl (PathErr EISDIR)))"

definition os_Open :: "string \<Rightarrow> lfs \<Rightarrow> err + unit" where
  "os_Open p fs =
     (case fs_faults fs OpOpen p of
        Some e \<Rightarrow> Inl e
      | None \<Rightarrow> if resolve fs p = None then Inl (PathErr ENOENT) else Inr ())"

subsection \<open>Package filepath\<close>

text \<open>
  \<open>filepath.Abs\<close> joins a relative path to the working directory; \<open>filepath.Rel\<close> on two rooted
  paths goes up from the base to the common prefix and down to the target.
\<close>

definition filepath_IsAbs :: "string \<Rightarrow> bool" where
  "filepath_IsAbs s \<longleftrightarrow> HasPrefix s ''/''"

definition filepath_Abs :: "lfs \<Rightarrow> string \<Rightarrow> err + string" where
  "filepath_Abs fs s =
     (if filepath_IsAbs s then Inr (path_Clean s)
      else case fs_faults fs OpGetwd [] of
             Some e \<Rightarrow> Inl e | None \<Rightarrow> Inr (path_Join [fs_cwd fs, s]))"

definition filepath_Rel :: "string \<Rightarrow> string \<Rightarrow> string" where
  "filepath_Rel base targ =
     (let b = comps base; t = comps targ; k = length (longest_common_prefix b t);
          rel = replicate (length b - k) ''..'' @ drop k t
      in if rel = [] then ''.'' else strings_Join rel ''/'')"

text \<open>The working directory is a cleaned rooted path.\<close>

definition cwd_ok :: "lfs \<Rightarrow> bool" where
  "cwd_ok fs \<longleftrightarrow> fs_cwd fs = abs_path (comps (fs_cwd fs))"

lemma Abs_rooted:
  assumes "cwd_ok fs" and "filepath_Abs fs s = Inr p"
  shows "p = abs_path (comps p)"
proof (cases "filepath_IsAbs s")
  case True
  then obtain s' where "s = slash # s'" by (auto simp: filepath_IsAbs_def HasPrefix_def prefix_def)
  with assms(2) show ?thesis by (auto simp: filepath_Abs_def filepath_IsAbs_def HasPrefix_def path_simps)
next
  case False
  obtain r where r: "fs_cwd fs = slash # r" using assms(1) by (auto simp: cwd_ok_def abs_path_def)
  have "list_all plain (norm (comps r @ Split s slash))"
    by (rule norm_plain) (auto simp: plain_no_slash dest: Split_no_sep plain_no_slash [OF comps_plain, rule_format])
  with False assms(2) r show ?thesis
    by (auto simp: filepath_Abs_def Join_two_rooted comps_abs_path split: option.splits)
qed

lemma Abs_abs_path [simp]: "list_all plain ps \<Longrightarrow> filepath_Abs fs (abs_path ps) = Inr (abs_path ps)"
  by (simp add: filepath_Abs_def filepath_IsAbs_def path_Clean_abs) (simp add: abs_path_def HasPrefix_def)

lemma Rel_below:
  assumes "list_all plain ds" and "list_all plain rs" and "rs \<noteq> []"
  shows "filepath_Rel (abs_path ds) (abs_path (ds @ rs)) = strings_Join rs ''/''"
proof -
  have "longest_common_prefix ds (ds @ rs) = ds"
    by (simp add: longest_common_prefix_max_prefix longest_common_prefix_prefix1 prefix_order.antisym)
  then show ?thesis using assms by (simp add: filepath_Rel_def comps_abs_path Let_def)
qed

text \<open>A relative path that is neither \<open>..\<close> nor starts with \<open>../\<close> leads to or below the base.\<close>

lemma Rel_inside:
  assumes "list_all plain ds" and "list_all plain ts"
    and "r = filepath_Rel (abs_path ds) (abs_path ts)" and "r \<noteq> ''..''" and "\<not> HasPrefix r ''../''"
  shows "\<exists>rs. ts = ds @ rs \<and> r = (if rs = [] then ''.'' else strings_Join rs ''/'')"
proof -
  let ?c = "longest_common_prefix ds ts"
  have c: "prefix ?c ds" "prefix ?c ts" by (simp_all add: longest_common_prefix_prefix1 longest_common_prefix_prefix2)
  obtain us where us: "ds = ?c @ us" using c(1) by (auto simp: prefix_def)
  obtain rs where rs: "ts = ?c @ rs" using c(2) by (auto simp: prefix_def)
  have len: "length ds - length ?c = length us" by (subst us) simp
  have drp: "drop (length ?c) ts = rs" by (subst rs) simp
  have r: "r = (let rel = replicate (length us) ''..'' @ rs in if rel = [] then ''.'' else strings_Join rel ''/'')"
    unfolding assms(3) filepath_Rel_def Let_def comps_abs_path [OF assms(1)] comps_abs_path [OF assms(2)] len drp ..
  have "us = []"
  proof (rule ccontr)
    assume "us \<noteq> []"
    then obtain n where n: "length us = Suc n" by (cases us) auto
    then have rel: "r = strings_Join (''..'' # (replicate n ''..'' @ rs)) ''/''" using r by (simp add: Let_def)
    show False
    proof (cases "replicate n ''..'' @ rs = []")
      case True
      with rel assms(4) show False by simp
    next
      case False
      then have "r = ''../'' @ strings_Join (replicate n ''..'' @ rs) ''/''" unfolding rel Join_Cons [OF False] by simp
      with assms(5) show False by (simp add: HasPrefix_def)
    qed
  qed
  with us rs r show ?thesis by (auto simp: Let_def)
qed

subsection \<open>Writing\<close>

definition os_MkdirAll :: "string \<Rightarrow> lfs \<Rightarrow> err option \<times> lfs" where
  "os_MkdirAll d fs =
     (case fs_faults fs OpMkdir d of
        Some e \<Rightarrow> (Some e, fs)
      | None \<Rightarrow> (case fs_get fs d of
                   None \<Rightarrow> (None, fs_set d DirNode fs)
                 | Some DirNode \<Rightarrow> (None, fs)
                 | Some _ \<Rightarrow> (Some (PathErr ENOTDIR), fs)))"

text \<open>
  \<open>os.CreateTemp(dir, prefix*suffix)\<close> with the random part \<open>rnd\<close> the run drew last: the file
  is opened with \<open>O_EXCL\<close>, so an existing file is never reused.
\<close>

definition os_CreateTemp ::
  "string \<Rightarrow> string \<Rightarrow> string \<Rightarrow> string \<Rightarrow> instant \<Rightarrow> lfs \<Rightarrow> (err + string) \<times> lfs" where
  "os_CreateTemp dir pre suf rnd now fs =
     (let p = dir @ ''/'' @ pre @ rnd @ suf
      in case fs_faults fs OpCreate p of
           Some e \<Rightarrow> (Inl e, fs)
         | None \<Rightarrow> if fs_get fs p \<noteq> None then (Inl (PathErr EEXIST), fs)
                   else (Inr p, fs_set p (Reg [] now False) fs))"

text \<open>
  \<open>os.OpenFile(path, O_WRONLY|O_CREATE|O_TRUNC, 0600)\<close>: the path of the file that is now empty and
  open, which for a symbolic link is its target.
\<close>

definition os_OpenTrunc :: "string \<Rightarrow> instant \<Rightarrow> lfs \<Rightarrow> (err + string) \<times> lfs" where
  "os_OpenTrunc p now fs =
     (case fs_faults fs OpCreate p of
        Some e \<Rightarrow> (Inl e, fs)
      | None \<Rightarrow>
          let q = (case fs_get fs p of Some (Link t) \<Rightarrow> t | _ \<Rightarrow> p)
          in (case fs_get fs q of
                Some DirNode \<Rightarrow> (Inl (PathErr EISDIR), fs)
              | Some (Link t) \<Rightarrow> (Inl (PathErr EIO), fs)
              | Some OtherNode \<Rightarrow> (Inl (PathErr EIO), fs)
              | _ \<Rightarrow> (Inr q, fs_set q (Reg [] now False) fs)))"

definition write_at :: "nat \<Rightarrow> bytes \<Rightarrow> bytes \<Rightarrow> bytes" where
  "write_at off new old =
     take off (old @ replicate (off - length old) 0) @ new @ drop (off + length new) old"

definition file_WriteAt :: "string \<Rightarrow> bytes \<Rightarrow> nat \<Rightarrow> instant \<Rightarrow> lfs \<Rightarrow> (nat \<times> err option) \<times> lfs" where
  "file_WriteAt p new off now fs =
     (case fs_faults fs OpWrite p of
        Some e \<Rightarrow> ((0, Some e), fs)
      | None \<Rightarrow> (case fs_get fs p of
                   Some (Reg d t s) \<Rightarrow>
                     ((length new, None),
                      if new = [] then fs else fs_set p (Reg (write_at off new d) now False) fs)
                 | _ \<Rightarrow> ((0, Some (PathErr ErrClosed)), fs)))"

definition file_Truncate :: "string \<Rightarrow> nat \<Rightarrow> instant \<Rightarrow> lfs \<Rightarrow> err option \<times> lfs" where
  "file_Truncate p n now fs =
     (case fs_faults fs OpTruncate p of
        Some e \<Rightarrow> (Some e, fs)
      | None \<Rightarrow> (case fs_get fs p of
                   Some (Reg d t s) \<Rightarrow>
                     (None, fs_set p (Reg (take n d @ replicate (n - length d) 0) now False) fs)
                 | _ \<Rightarrow> (Some (PathErr ErrClosed), fs)))"

definition file_Sync :: "string \<Rightarrow> lfs \<Rightarrow> err option \<times> lfs" where
  "file_Sync p fs =
     (case fs_faults fs OpSync p of
        Some e \<Rightarrow> (Some e, fs)
      | None \<Rightarrow> (case fs_get fs p of
                   Some (Reg d t s) \<Rightarrow> (None, fs_set p (Reg d t True) fs)
                 | _ \<Rightarrow> (Some (PathErr ErrClosed), fs)))"

text \<open>
  \<open>File.ReadAt\<close> into a buffer of \<open>want\<close> bytes: fewer bytes than asked for always come with an
  error, which is \<open>io.EOF\<close> at the end of the file.
\<close>

definition file_ReadAt :: "string \<Rightarrow> nat \<Rightarrow> nat \<Rightarrow> lfs \<Rightarrow> bytes \<times> err option" where
  "file_ReadAt p want off fs =
     (case fs_faults fs OpRead p of
        Some e \<Rightarrow> ([], Some e)
      | None \<Rightarrow> (case fs_get fs p of
                   Some (Reg d t s) \<Rightarrow>
                     let data = take want (drop off d)
                     in (data, if length data < want then Some (Sentinel EOF) else None)
                 | _ \<Rightarrow> ([], Some (PathErr ErrClosed))))"

lemma ReadAt_full: "file_ReadAt p want off fs = (data, None) \<Longrightarrow> length data = want"
  by (auto simp: file_ReadAt_def Let_def split: option.splits node.splits if_splits)

lemma ReadAt_data:
  "file_ReadAt p want off fs = (data, None) \<Longrightarrow> fs_get fs p = Some (Reg d t s) \<Longrightarrow> data = take want (drop off d)"
  by (auto simp: file_ReadAt_def Let_def split: option.splits if_splits)

text \<open>The size \<open>File.Stat\<close> reports of an open regular file.\<close>

definition file_Size :: "string \<Rightarrow> lfs \<Rightarrow> err + nat" where
  "file_Size p fs =
     (case fs_faults fs OpInfo p of
        Some e \<Rightarrow> Inl e
      | None \<Rightarrow> (case fs_get fs p of Some (Reg d t s) \<Rightarrow> Inr (length d) | _ \<Rightarrow> Inl (PathErr ErrClosed)))"

definition file_Close :: "string \<Rightarrow> lfs \<Rightarrow> err option" where
  "file_Close p fs = fs_faults fs OpClose p"

definition os_Remove :: "string \<Rightarrow> lfs \<Rightarrow> err option \<times> lfs" where
  "os_Remove p fs =
     (case fs_faults fs OpRemove p of
        Some e \<Rightarrow> (Some e, fs)
      | None \<Rightarrow> if fs_get fs p = None then (Some (PathErr ENOENT), fs) else (None, fs_del p fs))"

definition os_RemoveAll :: "string \<Rightarrow> lfs \<Rightarrow> err option \<times> lfs" where
  "os_RemoveAll p fs =
     (case fs_faults fs OpRemove p of
        Some e \<Rightarrow> (Some e, fs)
      | None \<Rightarrow> (None, fs\<lparr>fs_nodes := filter (\<lambda>(q, n). q \<noteq> p \<and> \<not> prefix (p @ ''/'') q) (fs_nodes fs)\<rparr>))"

definition os_Rename :: "string \<Rightarrow> string \<Rightarrow> lfs \<Rightarrow> err option \<times> lfs" where
  "os_Rename a b fs =
     (case fs_faults fs OpRename b of
        Some e \<Rightarrow> (Some e, fs)
      | None \<Rightarrow> (case fs_get fs a of
                   None \<Rightarrow> (Some (PathErr ENOENT), fs)
                 | Some n \<Rightarrow> if fs_get fs b = Some DirNode then (Some (PathErr EEXIST), fs)
                             else (None, fs_set b n (fs_del a fs))))"

definition os_Chtimes :: "string \<Rightarrow> instant \<Rightarrow> lfs \<Rightarrow> err option \<times> lfs" where
  "os_Chtimes p t fs =
     (case fs_faults fs OpChtimes p of
        Some e \<Rightarrow> (Some e, fs)
      | None \<Rightarrow> (case fs_get fs p of
                   None \<Rightarrow> (Some (PathErr ENOENT), fs)
                 | Some (Reg d _ s) \<Rightarrow> (None, fs_set p (Reg d t s) fs)
                 | Some _ \<Rightarrow> (None, fs)))"

lemma write_at_append: "write_at (length old) new old = old @ new"
  by (simp add: write_at_def)

lemma length_write_at: "length (write_at off new old) = max (length old) (off + length new)"
  by (simp add: write_at_def)

text \<open>No primitive touches a path other than the ones it is given.\<close>

lemma CreateTemp_frame:
  "os_CreateTemp dir pre suf rnd now fs = (r, fs') \<Longrightarrow> q \<noteq> dir @ ''/'' @ pre @ rnd @ suf \<Longrightarrow>
   fs_get fs' q = fs_get fs q"
  by (auto simp: os_CreateTemp_def Let_def fs_simps split: option.splits if_splits)

lemma WriteAt_frame: "q \<noteq> p \<Longrightarrow> fs_get (snd (file_WriteAt p d off now fs)) q = fs_get fs q"
  by (auto simp: file_WriteAt_def fs_simps split: option.splits node.splits)

lemma Truncate_frame: "q \<noteq> p \<Longrightarrow> fs_get (snd (file_Truncate p n now fs)) q = fs_get fs q"
  by (auto simp: file_Truncate_def fs_simps split: option.splits node.splits)

lemma Sync_frame: "q \<noteq> p \<Longrightarrow> fs_get (snd (file_Sync p fs)) q = fs_get fs q"
  by (auto simp: file_Sync_def fs_simps split: option.splits node.splits)

lemma Remove_frame: "q \<noteq> p \<Longrightarrow> fs_get (snd (os_Remove p fs)) q = fs_get fs q"
  by (auto simp: os_Remove_def fs_simps split: option.splits)

lemma Rename_frame: "q \<noteq> a \<Longrightarrow> q \<noteq> b \<Longrightarrow> fs_get (snd (os_Rename a b fs)) q = fs_get fs q"
  by (auto simp: os_Rename_def fs_simps split: option.splits)

lemma MkdirAll_frame: "q \<noteq> d \<Longrightarrow> fs_get (snd (os_MkdirAll d fs)) q = fs_get fs q"
  by (auto simp: os_MkdirAll_def fs_simps split: option.splits node.splits)

lemmas fs_frames = WriteAt_frame Truncate_frame Sync_frame Remove_frame Rename_frame MkdirAll_frame

lemma primitive_faults [simp]:
  "fs_faults (snd (file_WriteAt p d off now fs)) = fs_faults fs"
  "fs_faults (snd (file_Sync p fs)) = fs_faults fs"
  "fs_faults (snd (os_Remove p fs)) = fs_faults fs"
  "fs_faults (snd (os_MkdirAll p fs)) = fs_faults fs"
  "fs_faults (snd (os_Rename a p fs)) = fs_faults fs"
  "fs_faults (snd (file_Truncate p n now fs)) = fs_faults fs"
  "fs_faults (snd (os_CreateTemp dir a b rnd now fs)) = fs_faults fs"
  by (auto simp: file_WriteAt_def file_Sync_def os_Remove_def os_MkdirAll_def os_Rename_def file_Truncate_def
      os_CreateTemp_def Let_def split: option.splits node.splits)

lemma primitive_cwd [simp]:
  "fs_cwd (snd (file_WriteAt p d off now fs)) = fs_cwd fs"
  "fs_cwd (snd (file_Sync p fs)) = fs_cwd fs"
  "fs_cwd (snd (os_Remove p fs)) = fs_cwd fs"
  "fs_cwd (snd (os_MkdirAll p fs)) = fs_cwd fs"
  "fs_cwd (snd (os_Rename a p fs)) = fs_cwd fs"
  "fs_cwd (snd (file_Truncate p n now fs)) = fs_cwd fs"
  "fs_cwd (snd (os_CreateTemp dir a b rnd now fs)) = fs_cwd fs"
  by (auto simp: file_WriteAt_def file_Sync_def os_Remove_def os_MkdirAll_def os_Rename_def file_Truncate_def
      os_CreateTemp_def Let_def split: option.splits node.splits)

subsection \<open>Replacing a file through a temporary one\<close>

text \<open>A document is published at a path: complete, and synced to the disk.\<close>

definition published :: "string \<Rightarrow> bytes \<Rightarrow> lfs \<Rightarrow> bool" where
  "published p doc fs \<longleftrightarrow> (\<exists>t. fs_get fs p = Some (Reg doc t True))"

lemma written_file:
  assumes "fs_get fs p = Some (Reg [] t s)" and "file_WriteAt p doc 0 now fs = ((n, None), fs')"
    and "file_Sync p fs' = (None, fs'')"
  shows "\<exists>t. fs_get fs'' p = Some (Reg doc t True)"
  using assms
  by (auto simp: file_WriteAt_def file_Sync_def write_at_def fs_simps split: option.splits if_splits)

lemma renamed_file:
  "os_Rename a b fs = (None, fs') \<Longrightarrow> fs_get fs' b = fs_get fs a \<and> fs_get fs a \<noteq> None"
  by (auto simp: os_Rename_def fs_simps split: option.splits if_splits)

lemma rename_failed: "os_Rename a b fs = (Some e, fs') \<Longrightarrow> fs' = fs"
  by (auto simp: os_Rename_def split: option.splits if_splits)

end
