(* ===== verification/Config.thy ===== *)
theory Config
  imports Local_FS
begin

text \<open>
  \<^verbatim>\<open>internal/config/profile.go\<close> and \<^verbatim>\<open>store.go\<close>: connection
  profiles, the settings document, their validation, the settings file and the protected secrets.
  The JSON codec and the Windows data protection are parameters.
\<close>

definition ProtocolSFTP :: string where "ProtocolSFTP = ''sftp''"
definition ProtocolWebDAV :: string where "ProtocolWebDAV = ''webdav''"
definition ProtocolFTP :: string where "ProtocolFTP = ''ftp''"
definition ProtocolFTPS :: string where "ProtocolFTPS = ''ftps''"
definition AuthPassword :: string where "AuthPassword = ''password''"
definition AuthPrivateKey :: string where "AuthPrivateKey = ''private_key''"

record profile =
  p_Name :: string
  p_Protocol :: string
  p_DriveLetter :: string
  p_VolumeName :: string
  p_Host :: string
  p_Port :: "16 word"
  p_RemotePath :: string
  p_Username :: string
  p_AuthMethod :: string
  p_PrivateKey :: string
  p_AutoConnect :: bool
  p_ReadOnly :: bool
  p_AutoReconnect :: bool
  p_WebDAVScheme :: string
  p_FTPSMode :: string
  p_KnownHosts :: string
  p_InsecureSkipTLSVerify :: bool

definition isASCIILetter :: "char \<Rightarrow> bool" where
  "isASCIILetter c \<longleftrightarrow> (let v = of_char c :: nat in 65 \<le> v \<and> v \<le> 90 \<or> 97 \<le> v \<and> v \<le> 122)"

definition Profile_Validate :: "profile \<Rightarrow> err option" where
  "Profile_Validate p =
     (if list_ex ContainsNUL [p_Name p, p_VolumeName p, p_Host p, p_RemotePath p, p_Username p,
                              p_PrivateKey p, p_KnownHosts p]
      then Some (ErrNew ''NUL in a setting'')
      else if TrimSpace (p_Name p) = '''' then Some (ErrNew ''name required'')
      else if p_Protocol p \<noteq> ProtocolSFTP \<and> p_Protocol p \<noteq> ProtocolWebDAV \<and>
              p_Protocol p \<noteq> ProtocolFTP \<and> p_Protocol p \<noteq> ProtocolFTPS
      then Some (ErrNew ''unsupported protocol'')
      else if length (p_DriveLetter p) \<noteq> 1 \<or> \<not> isASCIILetter (hd (p_DriveLetter p))
      then Some (ErrNew ''drive letter must be A to Z'')
      else if TrimSpace (p_Host p) = '''' then Some (ErrNew ''host required'')
      else if p_Port p = 0 then Some (ErrNew ''port must be at least 1'')
      else if TrimSpace (p_Username p) = '''' then Some (ErrNew ''user name required'')
      else if p_AuthMethod p \<noteq> AuthPassword \<and> p_AuthMethod p \<noteq> AuthPrivateKey
      then Some (ErrNew ''unsupported authentication'')
      else if p_AuthMethod p = AuthPrivateKey \<and> TrimSpace (p_PrivateKey p) = ''''
      then Some (ErrNew ''private key path required'')
      else if p_AuthMethod p = AuthPrivateKey \<and> p_Protocol p \<noteq> ProtocolSFTP
      then Some (ErrNew ''private key only with SFTP'')
      else if p_Protocol p = ProtocolWebDAV \<and> p_WebDAVScheme p \<noteq> '''' \<and>
              p_WebDAVScheme p \<noteq> ''http'' \<and> p_WebDAVScheme p \<noteq> ''https''
      then Some (ErrNew ''WebDAV scheme must be http or https'')
      else if p_Protocol p = ProtocolFTPS \<and> p_FTPSMode p \<noteq> '''' \<and>
              p_FTPSMode p \<noteq> ''explicit-ftps'' \<and> p_FTPSMode p \<noteq> ''implicit-ftps''
      then Some (ErrNew ''FTPS mode must be explicit-ftps or implicit-ftps'')
      else if p_InsecureSkipTLSVerify p \<and>
              (p_Protocol p = ProtocolSFTP \<or> p_Protocol p = ProtocolFTP \<or>
               (p_Protocol p = ProtocolWebDAV \<and> p_WebDAVScheme p = ''http''))
      then Some (ErrNew ''certificate bypass only with HTTPS or FTPS'')
      else None)"

record secrets =
  sec_Password :: string
  sec_Passphrase :: string

record saved_profile =
  sp_ID :: string
  sp_Profile :: profile
  sp_ProtectedSecret :: bytes

record settings =
  s_Version :: int
  s_CloseToTray :: bool
  s_CacheRetentionDays :: int
  s_CacheMaxFileBytes :: int
  s_CacheMaxTotalBytes :: int
  s_Profiles :: "saved_profile list"

definition DefaultSettings :: settings where
  "DefaultSettings = \<lparr>s_Version = 1, s_CloseToTray = True, s_CacheRetentionDays = 30,
     s_CacheMaxFileBytes = 10 * 2 ^ 30, s_CacheMaxTotalBytes = 50 * 2 ^ 30, s_Profiles = []\<rparr>"

text \<open>The loop over the profiles, with the identifiers and the drives seen so far.\<close>

fun validate_profiles :: "string list \<Rightarrow> string list \<Rightarrow> saved_profile list \<Rightarrow> err option" where
  "validate_profiles ids drives [] = None"
| "validate_profiles ids drives (p # ps) =
     (if sp_ID p = '''' \<or> sp_ID p \<in> set ids then Some (ErrNew ''profile ID missing or duplicate'')
      else case Profile_Validate (sp_Profile p) of
             Some e \<Rightarrow> Some (Wrapped ''profile invalid'' e)
           | None \<Rightarrow>
               let drive = ToUpper (p_DriveLetter (sp_Profile p))
               in if drive \<in> set drives then Some (ErrNew ''duplicate drive'')
                  else validate_profiles (sp_ID p # ids) (drive # drives) ps)"

definition Settings_Validate :: "settings \<Rightarrow> err option" where
  "Settings_Validate s =
     (if s_Version s \<noteq> 1 then Some (ErrNew ''unsupported settings version'')
      else if s_CacheRetentionDays s \<le> 0 then Some (ErrNew ''retention must be at least one day'')
      else if s_CacheMaxFileBytes s \<le> 0 \<or> s_CacheMaxTotalBytes s \<le> 0
      then Some (ErrNew ''cache limits must be positive'')
      else if s_CacheMaxFileBytes s mod 2 ^ 30 \<noteq> 0 \<or> s_CacheMaxTotalBytes s mod 2 ^ 30 \<noteq> 0
      then Some (ErrNew ''cache limits must be whole GB'')
      else if s_CacheMaxFileBytes s > s_CacheMaxTotalBytes s
      then Some (ErrNew ''file limit above total limit'')
      else validate_profiles [] [] (s_Profiles s))"

subsection \<open>Secrets\<close>

record protector =
  pr_Protect :: "bytes \<Rightarrow> err + bytes"
  pr_Unprotect :: "bytes \<Rightarrow> err + bytes"

record json_codec =
  js_MarshalSecrets :: "secrets \<Rightarrow> err + bytes"
  js_UnmarshalSecrets :: "bytes \<Rightarrow> err + secrets"
  js_MarshalSettings :: "settings \<Rightarrow> err + bytes"
  js_DecodeSettings :: "settings \<Rightarrow> bytes \<Rightarrow> err + (settings \<times> bytes)"
  js_OnlySpace :: "bytes \<Rightarrow> bool"

definition SealSecrets :: "json_codec \<Rightarrow> protector \<Rightarrow> secrets \<Rightarrow> err + bytes" where
  "SealSecrets js p s =
     (case js_MarshalSecrets js s of Inl e \<Rightarrow> Inl e | Inr data \<Rightarrow> pr_Protect p data)"

definition OpenSecrets :: "json_codec \<Rightarrow> protector \<Rightarrow> bytes \<Rightarrow> err + secrets" where
  "OpenSecrets js p data =
     (if data = [] then Inr \<lparr>sec_Password = '''', sec_Passphrase = ''''\<rparr>
      else case pr_Unprotect p data of
             Inl e \<Rightarrow> Inl (ErrNew ''stored credentials cannot be decrypted'')
           | Inr clear \<Rightarrow>
               (case js_UnmarshalSecrets js clear of
                  Inl e \<Rightarrow> Inl (ErrNew ''stored credentials malformed'')
                | Inr s \<Rightarrow> if ContainsNUL (sec_Password s) \<or> ContainsNUL (sec_Passphrase s)
                           then Inl (ErrNew ''NUL in stored credentials'') else Inr s))"

subsection \<open>The settings file\<close>

definition LoadSettings :: "json_codec \<Rightarrow> string \<Rightarrow> lfs \<Rightarrow> settings \<times> err option" where
  "LoadSettings js filename fs =
     (let zero = \<lparr>s_Version = 0, s_CloseToTray = False, s_CacheRetentionDays = 0,
                  s_CacheMaxFileBytes = 0, s_CacheMaxTotalBytes = 0, s_Profiles = []\<rparr>
      in case os_ReadFile filename fs of
           Inl e \<Rightarrow> if errors_Is e ErrNotExist then (DefaultSettings, None) else (zero, Some e)
         | Inr data \<Rightarrow>
             (case js_DecodeSettings js DefaultSettings data of
                Inl e \<Rightarrow> (zero, Some (ErrNew ''settings file unreadable''))
              | Inr (s, rest) \<Rightarrow>
                  if \<not> js_OnlySpace js rest then (zero, Some (ErrNew ''data after the settings''))
                  else (s, Settings_Validate s)))"

text \<open>
  \<open>SaveSettings\<close> returns its error and every state the disk went through, oldest first: the
  last one is the final state, the others are what a crash may leave. The temporary file is removed
  by the deferred call, which after a successful rename finds nothing.
\<close>

definition SaveSettings ::
  "json_codec \<Rightarrow> string \<Rightarrow> settings \<Rightarrow> string \<Rightarrow> instant \<Rightarrow> lfs \<Rightarrow> err option \<times> lfs list" where
  "SaveSettings js filename s rnd now fs =
     (case Settings_Validate s of
        Some e \<Rightarrow> (Some e, [fs])
      | None \<Rightarrow>
     (case js_MarshalSettings js s of
        Inl e \<Rightarrow> (Some e, [fs])
      | Inr data \<Rightarrow>
        let dir = path_Dir filename
        in case os_MkdirAll dir fs of
             (Some e, fs1) \<Rightarrow> (Some e, [fs, fs1])
           | (None, fs1) \<Rightarrow>
        (case os_CreateTemp dir ''.settings-'' '''' rnd now fs1 of
           (Inl e, fs2) \<Rightarrow> (Some e, [fs, fs1, fs2])
         | (Inr tmp, fs2) \<Rightarrow>
           let ((n, writeErr), fs3) = file_WriteAt tmp (data @ [10]) 0 now fs2;
               (syncErr, fs4) = file_Sync tmp fs3;
               closeErr = file_Close tmp fs4
           in case errors_Join [writeErr, syncErr, closeErr] of
                Some e \<Rightarrow> (Some e, [fs, fs1, fs2, fs3, fs4, snd (os_Remove tmp fs4)])
              | None \<Rightarrow>
                  (case os_Rename tmp filename fs4 of
                     (r, fs5) \<Rightarrow> (r, [fs, fs1, fs2, fs3, fs4, fs5, snd (os_Remove tmp fs5)])))))"

subsection \<open>Identifiers and the settings path\<close>

text \<open>\<open>hex.EncodeToString\<close>, and \<open>NewID\<close> over the answer of the random source.\<close>

definition hex_digit :: "nat \<Rightarrow> char" where
  "hex_digit n = (if n < 10 then char_of (48 + n) else char_of (87 + n))"

definition hex_EncodeToString :: "bytes \<Rightarrow> string" where
  "hex_EncodeToString data = concat (map (\<lambda>b. [hex_digit (unat b div 16), hex_digit (unat b mod 16)]) data)"

definition NewID :: "err + bytes \<Rightarrow> err + string" where
  "NewID random = (case random of Inl e \<Rightarrow> Inl e | Inr data \<Rightarrow> Inr (hex_EncodeToString data))"

definition SettingsPath :: "err + string \<Rightarrow> err + string" where
  "SettingsPath userConfigDir =
     (case userConfigDir of Inl e \<Rightarrow> Inl e | Inr dir \<Rightarrow> Inr (path_Join [dir, ''DKDrive'', ''settings.json'']))"

subsection \<open>Validation, declaratively\<close>

text \<open>What an accepted profile satisfies; the order of the checks plays no part.\<close>

definition profile_ok :: "profile \<Rightarrow> bool" where
  "profile_ok p \<longleftrightarrow>
     (\<forall>f \<in> {p_Name, p_VolumeName, p_Host, p_RemotePath, p_Username, p_PrivateKey, p_KnownHosts}.
        \<not> ContainsNUL (f p)) \<and>
     TrimSpace (p_Name p) \<noteq> [] \<and> TrimSpace (p_Host p) \<noteq> [] \<and> TrimSpace (p_Username p) \<noteq> [] \<and>
     p_Port p \<noteq> 0 \<and> (\<exists>c. p_DriveLetter p = [c] \<and> isASCIILetter c) \<and>
     (p_Protocol p = ''sftp'' \<and> \<not> p_InsecureSkipTLSVerify p \<and>
        (p_AuthMethod p = ''password'' \<or>
         p_AuthMethod p = ''private_key'' \<and> TrimSpace (p_PrivateKey p) \<noteq> []) \<or>
      p_AuthMethod p = ''password'' \<and>
        (p_Protocol p = ''ftp'' \<and> \<not> p_InsecureSkipTLSVerify p \<or>
         p_Protocol p = ''ftps'' \<and> p_FTPSMode p \<in> {'''', ''explicit-ftps'', ''implicit-ftps''} \<or>
         p_Protocol p = ''webdav'' \<and>
           (p_WebDAVScheme p \<in> {'''', ''https''} \<or>
            p_WebDAVScheme p = ''http'' \<and> \<not> p_InsecureSkipTLSVerify p)))"

lemmas protocol_defs = ProtocolSFTP_def ProtocolWebDAV_def ProtocolFTP_def ProtocolFTPS_def
  AuthPassword_def AuthPrivateKey_def

lemma drive_letter_iff:
  "(length d = 1 \<and> isASCIILetter (hd d)) \<longleftrightarrow> (\<exists>c. d = [c] \<and> isASCIILetter c)"
  by (cases d) auto

lemma Profile_Validate_ok: "Profile_Validate p = None \<longleftrightarrow> profile_ok p"
proof -
  have "(\<exists>c. p_DriveLetter p = [c] \<and> isASCIILetter c) \<longleftrightarrow>
        \<not> (length (p_DriveLetter p) \<noteq> 1 \<or> \<not> isASCIILetter (hd (p_DriveLetter p)))"
    using drive_letter_iff by blast
  then show ?thesis
    unfolding profile_ok_def Profile_Validate_def protocol_defs by auto
qed

definition settings_ok :: "settings \<Rightarrow> bool" where
  "settings_ok s \<longleftrightarrow>
     s_Version s = 1 \<and> 0 < s_CacheRetentionDays s \<and>
     0 < s_CacheMaxFileBytes s \<and> s_CacheMaxFileBytes s \<le> s_CacheMaxTotalBytes s \<and>
     2 ^ 30 dvd s_CacheMaxFileBytes s \<and> 2 ^ 30 dvd s_CacheMaxTotalBytes s \<and>
     list_all (\<lambda>p. sp_ID p \<noteq> [] \<and> profile_ok (sp_Profile p)) (s_Profiles s) \<and>
     distinct (map sp_ID (s_Profiles s)) \<and>
     distinct (map (\<lambda>p. ToUpper (p_DriveLetter (sp_Profile p))) (s_Profiles s))"

lemma validate_profiles_ok:
  "validate_profiles ids drives ps = None \<longleftrightarrow>
     list_all (\<lambda>p. sp_ID p \<noteq> [] \<and> profile_ok (sp_Profile p)) ps \<and>
     distinct (map sp_ID ps) \<and> set (map sp_ID ps) \<inter> set ids = {} \<and>
     distinct (map (\<lambda>p. ToUpper (p_DriveLetter (sp_Profile p))) ps) \<and>
     set (map (\<lambda>p. ToUpper (p_DriveLetter (sp_Profile p))) ps) \<inter> set drives = {}"
proof (induction ps arbitrary: ids drives)
  case (Cons p ps)
  show ?case
    by (simp add: Let_def Profile_Validate_ok [symmetric] Cons.IH split: option.split) blast
qed simp

lemma Settings_Validate_ok: "Settings_Validate s = None \<longleftrightarrow> settings_ok s"
  unfolding Settings_Validate_def settings_ok_def validate_profiles_ok
  by (auto simp: dvd_eq_mod_eq_0 validate_profiles_ok)

text \<open>
  \<open>Settings.Validate\<close> accepts exactly the documents with version 1, a positive retention,
  positive whole-GB limits with the file limit within the total, valid profiles, and pairwise distinct
  non-empty identifiers and drive letters (compared in upper case).
\<close>

theorem settings_validate_iff: "Settings_Validate s = None \<longleftrightarrow> settings_ok s"
  by (rule Settings_Validate_ok)

text \<open>
  A profile that \<open>Profile.Validate\<close> accepts never sends data without transport protection
  while claiming to check certificates being skipped, uses a private key only with SFTP, and names one
  drive; the certificate bypass is confined to HTTPS and FTPS.
\<close>

theorem profile_validate_safe:
  assumes "Profile_Validate p = None"
  shows "(p_AuthMethod p = AuthPrivateKey \<longrightarrow> p_Protocol p = ProtocolSFTP \<and> TrimSpace (p_PrivateKey p) \<noteq> []) \<and>
    (p_InsecureSkipTLSVerify p \<longrightarrow> p_Protocol p = ProtocolFTPS \<or>
       p_Protocol p = ProtocolWebDAV \<and> p_WebDAVScheme p \<in> {'''', ''https''}) \<and>
    (\<exists>c. p_DriveLetter p = [c] \<and> isASCIILetter c)"
  using assms unfolding Profile_Validate_ok profile_ok_def protocol_defs by auto

definition sample_profile :: profile where
  "sample_profile = \<lparr>p_Name = ''nas'', p_Protocol = ''ftps'', p_DriveLetter = ''X'', p_VolumeName = '''',
     p_Host = ''host'', p_Port = 21, p_RemotePath = ''/'', p_Username = ''u'', p_AuthMethod = ''password'',
     p_PrivateKey = '''', p_AutoConnect = False, p_ReadOnly = False, p_AutoReconnect = True,
     p_WebDAVScheme = '''', p_FTPSMode = ''explicit-ftps'', p_KnownHosts = '''',
     p_InsecureSkipTLSVerify = True\<rparr>"

lemma sample_profile_valid: "Profile_Validate sample_profile = None"
  by code_simp

theorem profile_validate_safe_witness:
  "Profile_Validate sample_profile = None \<and>
   (p_InsecureSkipTLSVerify sample_profile \<longrightarrow> p_Protocol sample_profile = ProtocolFTPS \<or>
       p_Protocol sample_profile = ProtocolWebDAV \<and> p_WebDAVScheme sample_profile \<in> {'''', ''https''})"
  using profile_validate_safe [OF sample_profile_valid] sample_profile_valid by blast

subsection \<open>Saving is atomic\<close>

lemma save_paths:
  assumes "filename = abs_path (ds @ [b])" and "list_all plain (ds @ [b])" and "\<not> prefix ''.settings-'' b"
  shows "path_Dir filename \<noteq> filename" "path_Dir filename @ ''/'' @ ''.settings-'' @ rnd @ '''' \<noteq> filename"
proof -
  from assms have d: "path_Dir filename = abs_path ds" by (simp add: path_Dir_abs)
  show "path_Dir filename \<noteq> filename" using assms d abs_path_inj [of ds "ds @ [b]"] by auto
  show "path_Dir filename @ ''/'' @ ''.settings-'' @ rnd @ '''' \<noteq> filename"
  proof (cases "ds = []")
    case True
    with assms d show ?thesis by (auto simp: abs_path_def plain_def)
  next
    case False
    then show ?thesis using assms d by (auto simp: abs_path_snoc prefix_def)
  qed
qed

lemma SaveSettings_states:
  assumes run: "SaveSettings js filename s rnd now fs = (r, states)"
    and dest: "filename = abs_path (ds @ [b])" "list_all plain (ds @ [b])" "\<not> prefix ''.settings-'' b"
  shows "(\<forall>st \<in> set states. fs_get st filename = fs_get fs filename \<or>
            (\<exists>data. js_MarshalSettings js s = Inr data \<and> published filename (data @ [10]) st)) \<and>
    (r = None \<longrightarrow> settings_ok s \<and>
       (\<exists>data. js_MarshalSettings js s = Inr data \<and> published filename (data @ [10]) (last states))) \<and>
    (r \<noteq> None \<longrightarrow> fs_get (last states) filename = fs_get fs filename)"
proof (cases "Settings_Validate s")
  case (Some e)
  with run show ?thesis by (auto simp: SaveSettings_def)
next
  case valid: None
  show ?thesis
  proof (cases "js_MarshalSettings js s")
    case (Inl e)
    with run valid show ?thesis by (auto simp: SaveSettings_def)
  next
    case data: (Inr data)
    let ?dir = "path_Dir filename"
    note paths = save_paths(1) [OF dest] save_paths(2) [OF dest, of rnd]
    obtain e1 fs1 where mk: "os_MkdirAll ?dir fs = (e1, fs1)" by force
    have g1: "fs_get fs1 filename = fs_get fs filename"
      using MkdirAll_frame [of filename ?dir fs] paths(1) mk by simp
    obtain t fs2 where ct: "os_CreateTemp ?dir ''.settings-'' '''' rnd now fs1 = (t, fs2)" by force
    have g2: "fs_get fs2 filename = fs_get fs filename"
      using CreateTemp_frame [OF ct] paths(2) g1 by auto
    show ?thesis
    proof (cases e1)
      case (Some e)
      with run valid data mk g1 show ?thesis by (auto simp: SaveSettings_def)
    next
      case e1: None
      show ?thesis
      proof (cases t)
        case (Inl e)
        with run valid data mk e1 ct g1 g2 show ?thesis by (auto simp: SaveSettings_def)
      next
        case t: (Inr tmp)
        have tmp: "tmp \<noteq> filename" "\<exists>t0. fs_get fs2 tmp = Some (Reg [] t0 False)"
          using ct t paths(2) by (auto simp: os_CreateTemp_def Let_def fs_simps split: option.splits if_splits)
        obtain n we fs3 where wr: "file_WriteAt tmp (data @ [10]) 0 now fs2 = ((n, we), fs3)"
          by (metis prod.exhaust)
        obtain se fs4 where sy: "file_Sync tmp fs3 = (se, fs4)" by force
        obtain re fs5 where rn: "os_Rename tmp filename fs4 = (re, fs5)" by force
        have g3: "fs_get fs3 filename = fs_get fs filename"
          using WriteAt_frame [of filename tmp "data @ [10]" 0 now fs2] wr g2 tmp(1) by simp
        have g4: "fs_get fs4 filename = fs_get fs filename"
          using Sync_frame [of filename tmp fs3] sy g3 tmp(1) by simp
        note rm = Remove_frame [OF tmp(1) [symmetric]]
        show ?thesis
        proof (cases "errors_Join [we, se, file_Close tmp fs4]")
          case (Some e)
          with run valid data mk e1 ct t wr sy g1 g2 g3 g4 rm show ?thesis
            by (auto simp: SaveSettings_def)
        next
          case None
          then have ok: "we = None" "se = None" by (simp_all add: errors_Join_None_iff)
          obtain t0 where "fs_get fs2 tmp = Some (Reg [] t0 False)" using tmp(2) by blast
          from written_file [OF this] wr sy ok
          have full: "\<exists>t1. fs_get fs4 tmp = Some (Reg (data @ [10]) t1 True)" by simp
          have g5: "(re = None \<and> published filename (data @ [10]) fs5) \<or>
                    (re \<noteq> None \<and> fs_get fs5 filename = fs_get fs filename)"
            using renamed_file [of tmp filename fs4 fs5] rename_failed [of tmp filename fs4 _ fs5] rn full g4
            by (cases re) (auto simp: published_def)
          have states: "states = [fs, fs1, fs2, fs3, fs4, fs5, snd (os_Remove tmp fs5)]" "r = re"
            using run valid data mk e1 ct t wr sy None rn by (simp_all add: SaveSettings_def)
          show ?thesis using g1 g2 g3 g4 g5 rm valid Settings_Validate_ok [of s] data
            unfolding states by (auto simp: published_def)
        qed
      qed
    qed
  qed
qed

definition demo_js :: json_codec where
  "demo_js = \<lparr>js_MarshalSecrets = (\<lambda>s. Inr [1]), js_UnmarshalSecrets = (\<lambda>d. Inl (ErrNew ''syntax'')),
     js_MarshalSettings = (\<lambda>s. Inr [of_int (s_CacheRetentionDays s)]),
     js_DecodeSettings = (\<lambda>d b. case b of
        x # rest \<Rightarrow> Inr (d\<lparr>s_CacheRetentionDays := uint x\<rparr>, rest) | [] \<Rightarrow> Inl (Sentinel EOF)),
     js_OnlySpace = (\<lambda>b. b = [10])\<rparr>"

definition demo_disk :: lfs where
  "demo_disk = \<lparr>fs_nodes = [(''/d'', DirNode)], fs_cwd = ''/'', fs_faults = (\<lambda>_ _. None)\<rparr>"

definition demo_save :: "err option \<times> lfs list" where
  "demo_save = SaveSettings demo_js ''/d/s'' DefaultSettings ''1'' 0 demo_disk"

lemma demo_save_ok: "fst demo_save = None" "fs_faults (last (snd demo_save)) OpRead ''/d/s'' = None"
  by code_simp+

lemma demo_save_path:
  "''/d/s'' = abs_path ([''d''] @ [''s''])" "list_all plain ([''d''] @ [''s''])" "\<not> prefix ''.settings-'' ''s''"
  by (simp_all add: abs_path_def plain_def)

lemma demo_save_run: "SaveSettings demo_js ''/d/s'' DefaultSettings ''1'' 0 demo_disk = (None, snd demo_save)"
  using demo_save_ok(1) by (metis demo_save_def prod.collapse)

lemma demo_codec:
  "js_MarshalSettings demo_js DefaultSettings = Inr data \<Longrightarrow>
   js_DecodeSettings demo_js DefaultSettings (data @ [10]) = Inr (DefaultSettings, [10])"
  "js_OnlySpace demo_js [10]"
  by (auto simp: demo_js_def DefaultSettings_def)

text \<open>
  C37. Saving the settings is atomic: in every state the disk goes through, and so after a crash at any
  point, the settings file is untouched or holds the complete new document, synced; it holds the new
  document exactly when the call reports success, and an invalid document is never written.
\<close>

theorem save_settings_atomic:
  assumes run: "SaveSettings js filename s rnd now fs = (r, states)"
    and dest: "filename = abs_path (ds @ [b])" "list_all plain (ds @ [b])" "\<not> prefix ''.settings-'' b"
  shows "(\<forall>st \<in> set states. fs_get st filename = fs_get fs filename \<or>
            (\<exists>data. js_MarshalSettings js s = Inr data \<and> published filename (data @ [10]) st)) \<and>
    (r = None \<longrightarrow> settings_ok s \<and>
       (\<exists>data. js_MarshalSettings js s = Inr data \<and> published filename (data @ [10]) (last states))) \<and>
    (r \<noteq> None \<longrightarrow> fs_get (last states) filename = fs_get fs filename)"
  by (rule SaveSettings_states [OF assms])

theorem save_settings_atomic_witness:
  "settings_ok DefaultSettings \<and> (\<exists>data. js_MarshalSettings demo_js DefaultSettings = Inr data \<and>
     published ''/d/s'' (data @ [10]) (last (snd demo_save)))"
  using save_settings_atomic [OF demo_save_run demo_save_path] by blast

text \<open>
  The settings survive a save and a load: what was saved is what a later load returns, without an
  error, when the decoder inverts the encoder (white space may follow the document).
\<close>

theorem save_load_settings:
  assumes run: "SaveSettings js filename s rnd now fs = (None, states)"
    and dest: "filename = abs_path (ds @ [b])" "list_all plain (ds @ [b])" "\<not> prefix ''.settings-'' b"
    and readable: "fs_faults (last states) OpRead filename = None"
    and codec: "\<And>data. js_MarshalSettings js s = Inr data \<Longrightarrow>
       js_DecodeSettings js DefaultSettings (data @ [10]) = Inr (s, [10])" "js_OnlySpace js [10]"
  shows "LoadSettings js filename (last states) = (s, None)"
proof -
  from SaveSettings_states [OF run dest] obtain data where
    ok: "settings_ok s" "js_MarshalSettings js s = Inr data" "published filename (data @ [10]) (last states)"
    by blast
  from ok(3) readable have "os_ReadFile filename (last states) = Inr (data @ [10])"
    by (auto simp: os_ReadFile_def resolve_def published_def)
  then show ?thesis
    using codec(1) [OF ok(2)] codec(2) Settings_Validate_ok [of s] ok(1) by (simp add: LoadSettings_def)
qed

theorem save_load_settings_witness:
  "LoadSettings demo_js ''/d/s'' (last (snd demo_save)) = (DefaultSettings, None)"
  by (rule save_load_settings [OF demo_save_run demo_save_path demo_save_ok(2) demo_codec])

text \<open>
  Secrets survive sealing and opening, when the protection and the codec are inverse to each other
  and a sealed blob is not empty: what \<open>OpenSecrets\<close> gives back is what \<open>SealSecrets\<close>
  was given, except that a secret holding a NUL is refused on opening, never returned.
\<close>

theorem seal_open_secrets:
  assumes "SealSecrets js p s = Inr blob"
    and "\<And>d b. pr_Protect p d = Inr b \<Longrightarrow> b \<noteq> [] \<and> pr_Unprotect p b = Inr d"
    and "\<And>s d. js_MarshalSecrets js s = Inr d \<Longrightarrow> js_UnmarshalSecrets js d = Inr s"
  shows "OpenSecrets js p blob =
    (if ContainsNUL (sec_Password s) \<or> ContainsNUL (sec_Passphrase s)
     then Inl (ErrNew ''NUL in stored credentials'') else Inr s)"
proof -
  from assms(1) obtain d where d: "js_MarshalSecrets js s = Inr d" "pr_Protect p d = Inr blob"
    by (auto simp: SealSecrets_def split: sum.splits)
  from assms(2) [OF d(2)] assms(3) [OF d(1)] show ?thesis by (simp add: OpenSecrets_def)
qed

text \<open>A codec that writes both secrets in full, and a protection that reverses and marks the bytes.\<close>

fun enc_text :: "string \<Rightarrow> bytes" where
  "enc_text [] = [0]"
| "enc_text (c # s) = 1 # of_nat (of_char c) # enc_text s"

fun dec_text :: "bytes \<Rightarrow> string \<times> bytes" where
  "dec_text (t # b # r) =
     (if t = 0 then ([], b # r)
      else (case dec_text r of (s, rest) \<Rightarrow> (char_of (unat b) # s, rest)))"
| "dec_text r = ([], [])"

definition demo_secrets_js :: json_codec where
  "demo_secrets_js = demo_js\<lparr>
     js_MarshalSecrets := (\<lambda>s. Inr (enc_text (sec_Password s) @ enc_text (sec_Passphrase s))),
     js_UnmarshalSecrets := (\<lambda>d. let (p, r) = dec_text d in
        Inr \<lparr>sec_Password = p, sec_Passphrase = fst (dec_text r)\<rparr>)\<rparr>"

definition demo_protector :: protector where
  "demo_protector = \<lparr>pr_Protect = (\<lambda>d. Inr (255 # rev d)), pr_Unprotect = (\<lambda>b. Inr (rev (tl b)))\<rparr>"

lemma dec_enc: "dec_text (enc_text s @ r) = (s, r) \<or> r = []"
proof (induction s)
  case (Cons c s)
  have "(char_of (unat (of_nat (of_char c) :: 8 word)) :: char) = c"
    by (simp add: unat_of_nat)
  with Cons show ?case by auto
qed (cases r; simp)

lemma dec_enc_last: "fst (dec_text (enc_text s)) = s"
proof (induction s)
  case (Cons c s)
  have "(char_of (unat (of_nat (of_char c) :: 8 word)) :: char) = c"
    by (simp add: unat_of_nat)
  with Cons show ?case by (cases "dec_text (enc_text s)") auto
qed simp

lemma enc_text_ne: "enc_text s \<noteq> []"
  by (cases s) simp_all

lemma demo_secrets_law:
  "js_MarshalSecrets demo_secrets_js s = Inr d \<Longrightarrow> js_UnmarshalSecrets demo_secrets_js d = Inr s"
  using dec_enc [of "sec_Password s" "enc_text (sec_Passphrase s)"]
  by (auto simp: demo_secrets_js_def enc_text_ne dec_enc_last)

lemma demo_protector_law:
  "pr_Protect demo_protector d = Inr b \<Longrightarrow> b \<noteq> [] \<and> pr_Unprotect demo_protector b = Inr d"
  by (auto simp: demo_protector_def)

definition demo_secrets :: secrets where
  "demo_secrets = \<lparr>sec_Password = ''pw'', sec_Passphrase = []\<rparr>"

lemma demo_sealed:
  "SealSecrets demo_secrets_js demo_protector demo_secrets = Inr [255, 0, 0, 119, 1, 112, 1]"
  by (simp add: SealSecrets_def demo_secrets_js_def demo_protector_def demo_secrets_def)

theorem seal_open_secrets_witness:
  "OpenSecrets demo_secrets_js demo_protector [255, 0, 0, 119, 1, 112, 1] = Inr demo_secrets"
  by (subst seal_open_secrets [OF demo_sealed demo_protector_law demo_secrets_law])
     (simp_all add: demo_secrets_def ContainsNUL_def)

end
