(* ===== verification/Connection.thy ===== *)
theory Connection
  imports Config
begin

text \<open>
  \<^verbatim>\<open>internal/connection/manager.go\<close> and \<^verbatim>\<open>internal/desktop/disconnect.go\<close>:
  the manager of the mounted connections. The entries are objects shared between the map and the
  goroutine that works on them, so the model keeps a heap of entries and the map holds references;
  a critical section of the mutex is one function, and the calls made outside the mutex (the factory,
  the session's close) lie between two of them. The five state labels of the program are the
  constructors of \<open>cstate\<close>.
\<close>

datatype cstate = NotConnected | Connecting | Connected | Disconnecting | Errored

record 's centry =
  ce_drive :: string
  ce_state :: cstate
  ce_session :: "'s option"

record diagnostic =
  dg_State :: cstate
  dg_LastError :: string
  dg_ErrorAt :: instant

record 's manager =
  mg_heap :: "'s centry list"
  mg_entries :: "(string \<times> nat) list"
  mg_errors :: "(string \<times> diagnostic) list"

definition mg_New :: "'s manager" where
  "mg_New = \<lparr>mg_heap = [], mg_entries = [], mg_errors = []\<rparr>"

definition mg_entry :: "'s manager \<Rightarrow> string \<Rightarrow> 's centry option" where
  "mg_entry m cid = map_option (\<lambda>p. mg_heap m ! p) (map_of (mg_entries m) cid)"

definition mg_State :: "'s manager \<Rightarrow> string \<Rightarrow> cstate" where
  "mg_State m cid =
     (case mg_entry m cid of
        Some e \<Rightarrow> ce_state e
      | None \<Rightarrow> (case map_of (mg_errors m) cid of
                   Some d \<Rightarrow> if dg_LastError d \<noteq> '''' then Errored else NotConnected
                 | None \<Rightarrow> NotConnected))"

definition mg_Diagnostic :: "'s manager \<Rightarrow> string \<Rightarrow> diagnostic" where
  "mg_Diagnostic m cid =
     (let result = (case map_of (mg_errors m) cid of
                      Some d \<Rightarrow> d
                    | None \<Rightarrow> \<lparr>dg_State = NotConnected, dg_LastError = '''', dg_ErrorAt = 0\<rparr>)
      in case mg_entry m cid of
           Some e \<Rightarrow> result\<lparr>dg_State := ce_state e\<rparr>
         | None \<Rightarrow> if dg_LastError result \<noteq> '''' then result\<lparr>dg_State := Errored\<rparr>
                   else result\<lparr>dg_State := NotConnected\<rparr>)"

definition set_error :: "string \<Rightarrow> diagnostic \<Rightarrow> 's manager \<Rightarrow> 's manager" where
  "set_error cid d m = m\<lparr>mg_errors := AList.update cid d (mg_errors m)\<rparr>"

definition mg_RecordError :: "string \<Rightarrow> err option \<Rightarrow> instant \<Rightarrow> 's manager \<Rightarrow> 's manager" where
  "mg_RecordError cid e now m =
     (case e of
        None \<Rightarrow> m
      | Some e \<Rightarrow>
          if cid = '''' then m
          else let state = (case mg_entry m cid of Some en \<Rightarrow> ce_state en | None \<Rightarrow> Errored)
               in set_error cid \<lparr>dg_State = state, dg_LastError = err_Error e, dg_ErrorAt = now\<rparr> m)"

subsection \<open>The critical sections\<close>

text \<open>\<open>Connect\<close> before the factory runs: refusals, or the reference of the new entry.\<close>

definition connect_begin :: "string \<Rightarrow> profile \<Rightarrow> instant \<Rightarrow> 's manager \<Rightarrow> (err + nat) \<times> 's manager" where
  "connect_begin cid p now m =
     (if cid = '''' then (Inl (ErrNew ''connection ID required''), m)
      else case Profile_Validate p of
             Some e \<Rightarrow> (Inl e, mg_RecordError cid (Some e) now m)
           | None \<Rightarrow>
               if map_of (mg_entries m) cid \<noteq> None then (Inl (ErrNew ''already connected or busy''), m)
               else let drive = ToUpper (p_DriveLetter p)
                    in if list_ex (\<lambda>q. ce_drive (mg_heap m ! q) = drive) (map snd (mg_entries m))
                       then (Inl (ErrNew ''drive already in use''), m)
                       else let e = length (mg_heap m)
                            in (Inr e, m\<lparr>mg_heap := mg_heap m @ [\<lparr>ce_drive = drive, ce_state = Connecting, ce_session = None\<rparr>],
                                         mg_entries := (cid, e) # mg_entries m\<rparr>))"

definition connect_end :: "string \<Rightarrow> nat \<Rightarrow> err + 's \<Rightarrow> instant \<Rightarrow> 's manager \<Rightarrow> err option \<times> 's manager" where
  "connect_end cid e r now m =
     (case r of
        Inl er \<Rightarrow> (Some er, set_error cid \<lparr>dg_State = Errored, dg_LastError = err_Error er, dg_ErrorAt = now\<rparr>
                            (m\<lparr>mg_entries := AList.delete cid (mg_entries m)\<rparr>))
      | Inr s \<Rightarrow> (None, m\<lparr>mg_errors := AList.delete cid (mg_errors m),
                          mg_heap := (mg_heap m)[e := (mg_heap m ! e)\<lparr>ce_session := Some s, ce_state := Connected\<rparr>]\<rparr>))"

text \<open>
  \<open>disconnect\<close> up to the session's close: a final answer, or the entry and its session. A connected
  entry always has a session (an invariant below); without one the program would panic.
\<close>

definition disconnect_begin :: "string \<Rightarrow> 's manager \<Rightarrow> (err option + nat \<times> 's) \<times> 's manager" where
  "disconnect_begin cid m =
     (case map_of (mg_entries m) cid of
        None \<Rightarrow> (Inl None, m)
      | Some e \<Rightarrow>
          if ce_state (mg_heap m ! e) \<noteq> Connected
          then (Inl (Some (ErrNew ''retry after the running operation'')), m)
          else (case ce_session (mg_heap m ! e) of
                  None \<Rightarrow> (Inl (Some (ErrNew ''panic: nil session'')), m)
                | Some s \<Rightarrow> (Inr (e, s), m\<lparr>mg_heap := (mg_heap m)[e := (mg_heap m ! e)\<lparr>ce_state := Disconnecting\<rparr>]\<rparr>)))"

definition disconnect_end :: "string \<Rightarrow> nat \<Rightarrow> err option \<Rightarrow> instant \<Rightarrow> 's manager \<Rightarrow> 's manager" where
  "disconnect_end cid e r now m =
     (case r of
        Some er \<Rightarrow> set_error cid \<lparr>dg_State = Connected, dg_LastError = err_Error er, dg_ErrorAt = now\<rparr>
                     (m\<lparr>mg_heap := (mg_heap m)[e := (mg_heap m ! e)\<lparr>ce_state := Connected\<rparr>]\<rparr>)
      | None \<Rightarrow> m\<lparr>mg_entries := AList.delete cid (mg_entries m), mg_errors := AList.delete cid (mg_errors m)\<rparr>)"

subsection \<open>The operations run alone\<close>

text \<open>\<open>so_ForceClose s\<close> is None when the session has no such method (the failed type assertion).\<close>

record ('w, 's) session_ops =
  so_Close :: "'s \<Rightarrow> 'w \<Rightarrow> err option \<times> 'w"
  so_ForceClose :: "'s \<Rightarrow> ('w \<Rightarrow> (string \<times> err option) \<times> 'w) option"
  so_Now :: "'w \<Rightarrow> instant"

definition mg_Connect ::
  "('w, 's) session_ops \<Rightarrow> (string \<Rightarrow> profile \<Rightarrow> secrets \<Rightarrow> 'w \<Rightarrow> (err + 's) \<times> 'w) \<Rightarrow> string \<Rightarrow> profile \<Rightarrow> secrets
     \<Rightarrow> 's manager \<Rightarrow> 'w \<Rightarrow> err option \<times> 's manager \<times> 'w" where
  "mg_Connect so factory cid p sec m w =
     (case connect_begin cid p (so_Now so w) m of
        (Inl e, m1) \<Rightarrow> (Some e, m1, w)
      | (Inr e, m1) \<Rightarrow>
          (case factory cid p sec w of
             (r, w1) \<Rightarrow> (case connect_end cid e r (so_Now so w1) m1 of (res, m2) \<Rightarrow> (res, m2, w1))))"

definition mg_disconnect ::
  "('w, 's) session_ops \<Rightarrow> bool \<Rightarrow> string \<Rightarrow> 's manager \<Rightarrow> 'w \<Rightarrow> (string \<times> err option) \<times> 's manager \<times> 'w" where
  "mg_disconnect so force cid m w =
     (case disconnect_begin cid m of
        (Inl r, m1) \<Rightarrow> (('''', r), m1, w)
      | (Inr (e, s), m1) \<Rightarrow>
          (case (if force
                 then (case so_ForceClose so s of
                         Some f \<Rightarrow> f w
                       | None \<Rightarrow> (('''', Some (ErrNew ''forced disconnect unsupported'')), w))
                 else (case so_Close so s w of (r, w') \<Rightarrow> (('''', r), w'))) of
             ((message, r), w1) \<Rightarrow> ((message, r), disconnect_end cid e r (so_Now so w1) m1, w1)))"

definition mg_Disconnect ::
  "('w, 's) session_ops \<Rightarrow> string \<Rightarrow> 's manager \<Rightarrow> 'w \<Rightarrow> err option \<times> 's manager \<times> 'w" where
  "mg_Disconnect so cid m w = (case mg_disconnect so False cid m w of ((_, r), m', w') \<Rightarrow> (r, m', w'))"

definition mg_ForceDisconnect ::
  "('w, 's) session_ops \<Rightarrow> string \<Rightarrow> 's manager \<Rightarrow> 'w \<Rightarrow> (string \<times> err option) \<times> 's manager \<times> 'w" where
  "mg_ForceDisconnect so cid m w = mg_disconnect so True cid m w"

text \<open>The loop of \<open>CloseAll\<close> over the snapshot \<open>ids\<close> of the map's keys, in any order.\<close>

fun close_loop ::
  "('w, 's) session_ops \<Rightarrow> string list \<Rightarrow> err option \<Rightarrow> 's manager \<Rightarrow> 'w \<Rightarrow> err option \<times> 's manager \<times> 'w" where
  "close_loop so [] result m w = (result, m, w)"
| "close_loop so (cid # ids) result m w =
     (case mg_Disconnect so cid m w of
        (r, m', w') \<Rightarrow> close_loop so ids (errors_Join [result, r]) m' w')"

definition mg_CloseAll ::
  "('w, 's) session_ops \<Rightarrow> string list \<Rightarrow> 's manager \<Rightarrow> 'w \<Rightarrow> err option \<times> 's manager \<times> 'w" where
  "mg_CloseAll so ids m w = close_loop so ids None m w"

subsection \<open>Disconnecting profiles from the desktop\<close>

record disconnect_result =
  dr_messages :: "string list"
  dr_canceled :: "string list"
  dr_err :: "err option"

definition dr_forceMessage :: "disconnect_result \<Rightarrow> string" where
  "dr_forceMessage r = strings_Join (dr_messages r) [CHR 0x0A, CHR 0x0A]"

definition profile_label :: "saved_profile \<Rightarrow> string" where
  "profile_label p = p_Name (sp_Profile p) @ '' ('' @ p_DriveLetter (sp_Profile p) @ '':)''"

fun disconnect_loop ::
  "('w, 's) session_ops \<Rightarrow> (saved_profile \<Rightarrow> err \<Rightarrow> bool) \<Rightarrow> saved_profile list \<Rightarrow> disconnect_result
     \<Rightarrow> 's manager \<Rightarrow> 'w \<Rightarrow> disconnect_result \<times> 's manager \<times> 'w" where
  "disconnect_loop so confirm [] result m w = (result, m, w)"
| "disconnect_loop so confirm (p # ps) result m w =
     (case mg_Disconnect so (sp_ID p) m w of
        (None, m1, w1) \<Rightarrow> disconnect_loop so confirm ps result m1 w1
      | (Some e, m1, w1) \<Rightarrow>
          if \<not> confirm p e
          then disconnect_loop so confirm ps
                 (result\<lparr>dr_canceled := dr_canceled result @ [profile_label p]\<rparr>) m1 w1
          else (case mg_ForceDisconnect so (sp_ID p) m1 w1 of
                  ((message, r), m2, w2) \<Rightarrow>
                    disconnect_loop so confirm ps
                      (result\<lparr>dr_messages := (if message \<noteq> ''''
                           then dr_messages result @ [p_Name (sp_Profile p) @ '': '' @ message]
                           else dr_messages result),
                         dr_err := (case r of None \<Rightarrow> dr_err result
                                    | Some er \<Rightarrow> errors_Join [dr_err result,
                                        Some (Wrapped (p_Name (sp_Profile p) @ '': forced disconnect failed'') er)])\<rparr>)
                      m2 w2))"

definition disconnectProfiles ::
  "('w, 's) session_ops \<Rightarrow> saved_profile list \<Rightarrow> (saved_profile \<Rightarrow> err \<Rightarrow> bool) \<Rightarrow> 's manager \<Rightarrow> 'w
     \<Rightarrow> disconnect_result \<times> 's manager \<times> 'w" where
  "disconnectProfiles so profiles confirm m w =
     disconnect_loop so confirm profiles \<lparr>dr_messages = [], dr_canceled = [], dr_err = None\<rparr> m w"

definition disconnectProfilesForSessionEnd ::
  "('w, 's) session_ops \<Rightarrow> saved_profile list \<Rightarrow> 's manager \<Rightarrow> 'w \<Rightarrow> disconnect_result \<times> 's manager \<times> 'w" where
  "disconnectProfilesForSessionEnd so profiles m w = disconnectProfiles so profiles (\<lambda>_ _. True) m w"

subsection \<open>The map as the clients see it\<close>

text \<open>References in the map are allocated and not shared.\<close>

definition mg_wf :: "'s manager \<Rightarrow> bool" where
  "mg_wf m \<longleftrightarrow> distinct (al_keys (mg_entries m)) \<and> distinct (map snd (mg_entries m)) \<and>
     (\<forall>q \<in> set (map snd (mg_entries m)). q < length (mg_heap m))"

text \<open>The map by value: each identifier's reference and the object behind it.\<close>

definition mview :: "'s manager \<Rightarrow> string \<Rightarrow> (nat \<times> 's centry) option" where
  "mview m cid = map_option (\<lambda>q. (q, mg_heap m ! q)) (map_of (mg_entries m) cid)"

lemma mg_entry_view: "mg_entry m cid = map_option snd (mview m cid)"
  by (simp add: mg_entry_def mview_def option.map_comp comp_def)

lemma mg_wf_New [simp]: "mg_wf mg_New"
  by (simp add: mg_wf_def mg_New_def)

lemma mview_New [simp]: "mview mg_New cid = None"
  by (simp add: mview_def mg_New_def)

lemma view_errors [simp]:
  "mview (set_error cid d m) = mview m" "mview (m\<lparr>mg_errors := es\<rparr>) = mview m"
  "mg_wf (set_error cid d m) = mg_wf m" "mg_wf (m\<lparr>mg_errors := es\<rparr>) = mg_wf m"
  by (simp_all add: fun_eq_iff mview_def set_error_def mg_wf_def)

lemma view_RecordError [simp]:
  "mview (mg_RecordError cid e now m) = mview m" "mg_wf (mg_RecordError cid e now m) = mg_wf m"
  by (simp_all add: mg_RecordError_def Let_def split: option.splits)

lemma map_of_snd_inj:
  "distinct (map snd xs) \<Longrightarrow> map_of xs i = Some q \<Longrightarrow> map_of xs j = Some q \<Longrightarrow> i = j"
  by (metis map_of_SomeD distinct_map inj_onD snd_conv Pair_inject)

lemma view_write:
  assumes "mg_wf m" and "mview m cid = Some (q, e0)"
  shows "mview (m\<lparr>mg_heap := (mg_heap m)[q := e]\<rparr>) = (mview m)(cid \<mapsto> (q, e))"
    and "mg_wf (m\<lparr>mg_heap := (mg_heap m)[q := e]\<rparr>)"
proof -
  from assms have q: "map_of (mg_entries m) cid = Some q" "q < length (mg_heap m)"
    by (auto simp: mview_def mg_wf_def dest!: map_of_SomeD)
  show "mview (m\<lparr>mg_heap := (mg_heap m)[q := e]\<rparr>) = (mview m)(cid \<mapsto> (q, e))"
  proof
    fix i
    show "mview (m\<lparr>mg_heap := (mg_heap m)[q := e]\<rparr>) i = ((mview m)(cid \<mapsto> (q, e))) i"
    proof (cases "map_of (mg_entries m) i")
      case None
      with q show ?thesis by (auto simp: mview_def)
    next
      case (Some r)
      show ?thesis
      proof (cases "i = cid")
        case True
        with q Some show ?thesis by (simp add: mview_def)
      next
        case False
        with map_of_snd_inj [of "mg_entries m" i q cid] q(1) Some assms(1)
        have "r \<noteq> q" by (auto simp: mg_wf_def)
        with Some False show ?thesis by (simp add: mview_def)
      qed
    qed
  qed
  show "mg_wf (m\<lparr>mg_heap := (mg_heap m)[q := e]\<rparr>)" using assms(1) by (simp add: mg_wf_def)
qed

lemma view_delete:
  assumes "mg_wf m"
  shows "mview (m\<lparr>mg_entries := AList.delete cid (mg_entries m)\<rparr>) = (mview m)(cid := None)"
    and "mg_wf (m\<lparr>mg_entries := AList.delete cid (mg_entries m)\<rparr>)"
proof -
  show "mview (m\<lparr>mg_entries := AList.delete cid (mg_entries m)\<rparr>) = (mview m)(cid := None)"
    by (simp add: fun_eq_iff mview_def delete_conv')
  show "mg_wf (m\<lparr>mg_entries := AList.delete cid (mg_entries m)\<rparr>)"
    using assms by (auto simp: mg_wf_def AList.delete_eq al_keys_def distinct_map inj_on_def)
qed

lemma view_begin:
  assumes "mg_wf m" and "connect_begin cid p now m = (Inr q, m')"
  shows "mg_wf m' \<and> mview m cid = None \<and>
    mview m' = (mview m)(cid \<mapsto> (q, \<lparr>ce_drive = ToUpper (p_DriveLetter p), ce_state = Connecting, ce_session = None\<rparr>)) \<and>
    (\<forall>i r e. mview m i = Some (r, e) \<longrightarrow> ce_drive e \<noteq> ToUpper (p_DriveLetter p)) \<and> Profile_Validate p = None"
proof -
  let ?d = "ToUpper (p_DriveLetter p)"
  let ?e = "\<lparr>ce_drive = ?d, ce_state = Connecting, ce_session = None\<rparr>"
  from assms(2) have c: "map_of (mg_entries m) cid = None" "Profile_Validate p = None" "q = length (mg_heap m)"
    "\<not> list_ex (\<lambda>q. ce_drive (mg_heap m ! q) = ?d) (map snd (mg_entries m))"
    "m' = m\<lparr>mg_heap := mg_heap m @ [?e], mg_entries := (cid, q) # mg_entries m\<rparr>"
    by (auto simp: connect_begin_def Let_def split: if_splits option.splits)
  have below: "map_of (mg_entries m) i = Some r \<Longrightarrow> r < length (mg_heap m)" for i r
    using assms(1) by (auto simp: mg_wf_def dest!: map_of_SomeD)
  have "mg_wf m'" using assms(1) c by (auto simp: mg_wf_def al_keys_def map_of_eq_None_iff less_Suc_eq)
  moreover have "mview m' = (mview m)(cid \<mapsto> (q, ?e))"
    using below by (auto simp: fun_eq_iff mview_def c(3,5) nth_append intro!: map_option_cong)
  moreover have "\<forall>i r e. mview m i = Some (r, e) \<longrightarrow> ce_drive e \<noteq> ?d"
    using c(4) by (auto simp: mview_def list_ex_iff dest!: map_of_SomeD)
  ultimately show ?thesis using c by (simp add: mview_def)
qed

lemma view_connect_refused:
  assumes "connect_begin cid p now m = (Inl e, m')"
  shows "mview m' = mview m \<and> mg_wf m' = mg_wf m"
  using assms by (auto simp: connect_begin_def Let_def split: if_splits option.splits)

lemma view_connect_end:
  assumes "mg_wf m" and "mview m cid = Some (q, e)" and "connect_end cid q r now m = (x, m')"
  shows "mg_wf m' \<and> (case r of
      Inl er \<Rightarrow> x = Some er \<and> mview m' = (mview m)(cid := None)
    | Inr s \<Rightarrow> x = None \<and> mview m' = (mview m)(cid \<mapsto> (q, e\<lparr>ce_session := Some s, ce_state := Connected\<rparr>)))"
proof (cases r)
  case (Inl er)
  with assms view_delete [OF assms(1), of cid] show ?thesis by (auto simp: connect_end_def)
next
  case (Inr s)
  have e: "mg_heap m ! q = e" using assms(2) by (auto simp: mview_def)
  let ?m1 = "m\<lparr>mg_errors := AList.delete cid (mg_errors m)\<rparr>"
  have "mg_wf ?m1" "mview ?m1 cid = Some (q, e)" using assms(1,2) by simp_all
  from view_write [OF this] Inr e assms(3) show ?thesis by (auto simp: connect_end_def)
qed

lemma view_disconnect_skip:
  "disconnect_begin cid m = (Inl r, m') \<Longrightarrow> m' = m \<and> (r = None \<longleftrightarrow> mview m cid = None)"
  by (auto simp: disconnect_begin_def mview_def split: option.splits if_splits)

lemma view_disconnect_begin:
  assumes "mg_wf m" and "disconnect_begin cid m = (Inr (q, s), m')"
  shows "\<exists>e. mview m cid = Some (q, e) \<and> ce_state e = Connected \<and> ce_session e = Some s \<and> mg_wf m' \<and>
    mview m' = (mview m)(cid \<mapsto> (q, e\<lparr>ce_state := Disconnecting\<rparr>))"
proof -
  from assms(2) obtain e where e: "mview m cid = Some (q, e)" "e = mg_heap m ! q" "ce_state e = Connected"
      "ce_session e = Some s" "m' = m\<lparr>mg_heap := (mg_heap m)[q := e\<lparr>ce_state := Disconnecting\<rparr>]\<rparr>"
    by (auto simp: disconnect_begin_def mview_def split: option.splits if_splits)
  with view_write [OF assms(1) e(1), of "e\<lparr>ce_state := Disconnecting\<rparr>"] show ?thesis by auto
qed

lemma view_disconnect_end:
  assumes "mg_wf m" and "mview m cid = Some (q, e)"
  shows "mg_wf (disconnect_end cid q r now m) \<and> mview (disconnect_end cid q r now m) =
    (case r of Some er \<Rightarrow> (mview m)(cid \<mapsto> (q, e\<lparr>ce_state := Connected\<rparr>)) | None \<Rightarrow> (mview m)(cid := None))"
proof (cases r)
  case None
  let ?m1 = "m\<lparr>mg_entries := AList.delete cid (mg_entries m)\<rparr>"
  have "disconnect_end cid q r now m = ?m1\<lparr>mg_errors := AList.delete cid (mg_errors m)\<rparr>"
    using None by (simp add: disconnect_end_def)
  then show ?thesis using view_delete [OF assms(1), of cid] None by simp
next
  case (Some er)
  have e: "mg_heap m ! q = e" using assms(2) by (auto simp: mview_def)
  show ?thesis using view_write [OF assms, of "e\<lparr>ce_state := Connected\<rparr>"] Some e
    by (simp add: disconnect_end_def)
qed

end
