(* ===== verification/Connection_Runs.thy ===== *)
theory Connection_Runs
  imports Connection
begin

text \<open>
  The connection manager under concurrency: goroutines interleave at the critical sections of
  \<^theory_text>\<open>Connection\<close>, and the factory and the sessions' closes, which run outside the mutex,
  may answer anything at any later point. \<open>cs_live\<close> is the set of mounted sessions: those a factory
  has returned and no close has released.
\<close>

datatype 's cpc =
    CIdle
  | CFactory string nat
  | CClosing string nat 's bool

record 's csys =
  cs_mgr :: "'s manager"
  cs_pc :: "nat \<Rightarrow> 's cpc"
  cs_live :: "'s set"

definition cs_init :: "'s csys" where
  "cs_init = \<lparr>cs_mgr = mg_New, cs_pc = (\<lambda>_. CIdle), cs_live = {}\<rparr>"

inductive cs_step :: "'s csys \<Rightarrow> 's csys \<Rightarrow> bool" where
  refuse: "cs_pc S t = CIdle \<Longrightarrow> connect_begin cid p now (cs_mgr S) = (Inl e, m') \<Longrightarrow>
    cs_step S (S\<lparr>cs_mgr := m'\<rparr>)"
| begin_connect: "cs_pc S t = CIdle \<Longrightarrow> connect_begin cid p now (cs_mgr S) = (Inr q, m') \<Longrightarrow>
    cs_step S (S\<lparr>cs_mgr := m', cs_pc := (cs_pc S)(t := CFactory cid q)\<rparr>)"
| factory_fails: "cs_pc S t = CFactory cid q \<Longrightarrow> connect_end cid q (Inl e) now (cs_mgr S) = (x, m') \<Longrightarrow>
    cs_step S (S\<lparr>cs_mgr := m', cs_pc := (cs_pc S)(t := CIdle)\<rparr>)"
| factory_opens: "cs_pc S t = CFactory cid q \<Longrightarrow> s \<notin> cs_live S \<Longrightarrow>
    connect_end cid q (Inr s) now (cs_mgr S) = (x, m') \<Longrightarrow>
    cs_step S (S\<lparr>cs_mgr := m', cs_pc := (cs_pc S)(t := CIdle), cs_live := insert s (cs_live S)\<rparr>)"
| skip_disconnect: "cs_pc S t = CIdle \<Longrightarrow> disconnect_begin cid (cs_mgr S) = (Inl r, m') \<Longrightarrow>
    cs_step S (S\<lparr>cs_mgr := m'\<rparr>)"
| begin_disconnect: "cs_pc S t = CIdle \<Longrightarrow> disconnect_begin cid (cs_mgr S) = (Inr (q, s), m') \<Longrightarrow>
    cs_step S (S\<lparr>cs_mgr := m', cs_pc := (cs_pc S)(t := CClosing cid q s force)\<rparr>)"
| close_fails: "cs_pc S t = CClosing cid q s force \<Longrightarrow>
    cs_step S (S\<lparr>cs_mgr := disconnect_end cid q (Some e) now (cs_mgr S), cs_pc := (cs_pc S)(t := CIdle)\<rparr>)"
| close_releases: "cs_pc S t = CClosing cid q s force \<Longrightarrow>
    cs_step S (S\<lparr>cs_mgr := disconnect_end cid q None now (cs_mgr S), cs_pc := (cs_pc S)(t := CIdle),
                 cs_live := cs_live S - {s}\<rparr>)"
| record_error: "cs_step S (S\<lparr>cs_mgr := mg_RecordError cid e now (cs_mgr S)\<rparr>)"

inductive cs_reachable :: "'s csys \<Rightarrow> bool" where
  cs_start: "cs_reachable cs_init"
| cs_next: "cs_reachable S \<Longrightarrow> cs_step S S' \<Longrightarrow> cs_reachable S'"

subsection \<open>The invariant\<close>

text \<open>The state over the map by value: one goroutine works on a busy entry, and only on that one.\<close>

definition drives_distinct :: "(string \<Rightarrow> (nat \<times> 's centry) option) \<Rightarrow> bool" where
  "drives_distinct V \<longleftrightarrow> (\<forall>i j q r e f. V i = Some (q, e) \<longrightarrow> V j = Some (r, f) \<longrightarrow>
     ce_drive e = ce_drive f \<longrightarrow> i = j)"

definition pcs_match :: "(string \<Rightarrow> (nat \<times> 's centry) option) \<Rightarrow> (nat \<Rightarrow> 's cpc) \<Rightarrow> bool" where
  "pcs_match V P \<longleftrightarrow> (\<forall>t. case P t of
      CIdle \<Rightarrow> True
    | CFactory i q \<Rightarrow> (\<exists>e. V i = Some (q, e) \<and> ce_state e = Connecting \<and> ce_session e = None)
    | CClosing i q s f \<Rightarrow> (\<exists>e. V i = Some (q, e) \<and> ce_state e = Disconnecting \<and> ce_session e = Some s))"

fun busy_on :: "'s cpc \<Rightarrow> string option" where
  "busy_on CIdle = None"
| "busy_on (CFactory i q) = Some i"
| "busy_on (CClosing i q s f) = Some i"

definition one_worker :: "(nat \<Rightarrow> 's cpc) \<Rightarrow> bool" where
  "one_worker P \<longleftrightarrow> (\<forall>t u i. busy_on (P t) = Some i \<longrightarrow> busy_on (P u) = Some i \<longrightarrow> t = u)"

definition entries_match :: "(string \<Rightarrow> (nat \<times> 's centry) option) \<Rightarrow> (nat \<Rightarrow> 's cpc) \<Rightarrow> bool" where
  "entries_match V P \<longleftrightarrow> (\<forall>i q e. V i = Some (q, e) \<longrightarrow>
     (ce_state e = Connecting \<and> (\<exists>t. P t = CFactory i q)) \<or>
     (ce_state e = Connected \<and> ce_session e \<noteq> None \<and> (\<forall>t. busy_on (P t) \<noteq> Some i)) \<or>
     (ce_state e = Disconnecting \<and> (\<exists>t s f. P t = CClosing i q s f)))"

definition session_of :: "(string \<Rightarrow> (nat \<times> 's centry) option) \<Rightarrow> string \<Rightarrow> 's option" where
  "session_of V i = (case V i of None \<Rightarrow> None | Some (q, e) \<Rightarrow> ce_session e)"

definition live_match :: "(string \<Rightarrow> 's option) \<Rightarrow> 's set \<Rightarrow> bool" where
  "live_match \<sigma> L \<longleftrightarrow> (\<forall>s. s \<in> L \<longleftrightarrow> (\<exists>i. \<sigma> i = Some s)) \<and>
     (\<forall>i j s. \<sigma> i = Some s \<longrightarrow> \<sigma> j = Some s \<longrightarrow> i = j)"

definition cs_inv :: "'s csys \<Rightarrow> bool" where
  "cs_inv S \<longleftrightarrow> mg_wf (cs_mgr S) \<and> drives_distinct (mview (cs_mgr S)) \<and>
     pcs_match (mview (cs_mgr S)) (cs_pc S) \<and> one_worker (cs_pc S) \<and>
     entries_match (mview (cs_mgr S)) (cs_pc S) \<and> live_match (session_of (mview (cs_mgr S))) (cs_live S)"

lemma session_upd [simp]:
  "session_of (V(i := x)) = (session_of V)(i := (case x of None \<Rightarrow> None | Some (q, e) \<Rightarrow> ce_session e))"
  by (simp add: fun_eq_iff session_of_def)

lemma cs_inv_init: "cs_inv cs_init"
  by (simp add: cs_inv_def cs_init_def drives_distinct_def pcs_match_def one_worker_def
      entries_match_def live_match_def session_of_def)

lemma pcs_factory:
  "pcs_match V P \<Longrightarrow> P t = CFactory i q \<Longrightarrow> \<exists>e. V i = Some (q, e) \<and> ce_state e = Connecting \<and> ce_session e = None"
  unfolding pcs_match_def by (drule spec [of _ t]) simp

lemma pcs_closing:
  "pcs_match V P \<Longrightarrow> P t = CClosing i q s f \<Longrightarrow>
   \<exists>e. V i = Some (q, e) \<and> ce_state e = Disconnecting \<and> ce_session e = Some s"
  unfolding pcs_match_def by (drule spec [of _ t]) simp

lemma pcs_busy: "pcs_match V P \<Longrightarrow> busy_on (P t) = Some i \<Longrightarrow> V i \<noteq> None"
  by (cases "P t") (auto dest: pcs_factory pcs_closing)

text \<open>A goroutine that is not working on \<open>i\<close> does not notice a change of \<open>i\<close>'s entry.\<close>

lemma pcs_frame:
  assumes "pcs_match V P" and "\<And>u. u \<noteq> t \<Longrightarrow> busy_on (P u) \<noteq> Some i"
    and "case pc of CIdle \<Rightarrow> True
      | CFactory j q \<Rightarrow> (\<exists>e. (V(i := x)) j = Some (q, e) \<and> ce_state e = Connecting \<and> ce_session e = None)
      | CClosing j q s f \<Rightarrow> (\<exists>e. (V(i := x)) j = Some (q, e) \<and> ce_state e = Disconnecting \<and> ce_session e = Some s)"
  shows "pcs_match (V(i := x)) (P(t := pc))"
  unfolding pcs_match_def
proof
  fix u
  show "case (P(t := pc)) u of CIdle \<Rightarrow> True
      | CFactory j q \<Rightarrow> (\<exists>e. (V(i := x)) j = Some (q, e) \<and> ce_state e = Connecting \<and> ce_session e = None)
      | CClosing j q s f \<Rightarrow> (\<exists>e. (V(i := x)) j = Some (q, e) \<and> ce_state e = Disconnecting \<and> ce_session e = Some s)"
  proof (cases "u = t")
    case True
    then show ?thesis using assms(3) by simp
  next
    case False
    with assms(2) [of u] have "busy_on (P u) \<noteq> Some i" by simp
    with assms(1) False show ?thesis
      by (cases "P u") (auto dest: pcs_factory pcs_closing)
  qed
qed

lemma entries_frame:
  assumes "entries_match V P" and "busy_on (P t) \<in> {None, Some i}" and "busy_on pc \<in> {None, Some i}"
    and "\<And>q e. x = Some (q, e) \<Longrightarrow>
     (ce_state e = Connecting \<and> (\<exists>t'. (P(t := pc)) t' = CFactory i q)) \<or>
     (ce_state e = Connected \<and> ce_session e \<noteq> None \<and> (\<forall>t'. busy_on ((P(t := pc)) t') \<noteq> Some i)) \<or>
     (ce_state e = Disconnecting \<and> (\<exists>t' s f. (P(t := pc)) t' = CClosing i q s f))"
  shows "entries_match (V(i := x)) (P(t := pc))"
  unfolding entries_match_def
proof (intro allI impI)
  fix j q e
  assume V: "(V(i := x)) j = Some (q, e)"
  show "(ce_state e = Connecting \<and> (\<exists>t'. (P(t := pc)) t' = CFactory j q)) \<or>
     (ce_state e = Connected \<and> ce_session e \<noteq> None \<and> (\<forall>t'. busy_on ((P(t := pc)) t') \<noteq> Some j)) \<or>
     (ce_state e = Disconnecting \<and> (\<exists>t' s f. (P(t := pc)) t' = CClosing j q s f))"
  proof (cases "j = i")
    case True
    with V assms(4) show ?thesis by simp
  next
    case False
    with V have Vj: "V j = Some (q, e)" by simp
    have keep: "P t' = pc' \<Longrightarrow> busy_on pc' = Some j \<Longrightarrow> (P(t := pc)) t' = pc'" for t' pc'
      using assms(2) False by auto
    have new: "busy_on pc \<noteq> Some j" using assms(3) False by auto
    from assms(1) Vj consider
        t' where "ce_state e = Connecting" "P t' = CFactory j q"
      | "ce_state e = Connected" "ce_session e \<noteq> None" "\<forall>t'. busy_on (P t') \<noteq> Some j"
      | t' s f where "ce_state e = Disconnecting" "P t' = CClosing j q s f"
      unfolding entries_match_def by blast
    then show ?thesis
    proof cases
      case 1
      have "(P(t := pc)) t' = CFactory j q" by (rule keep [OF 1(2)]) simp
      with 1(1) show ?thesis by blast
    next
      case 2
      with new show ?thesis by auto
    next
      case 3
      have "(P(t := pc)) t' = CClosing j q s f" by (rule keep [OF 3(2)]) simp
      with 3(1) show ?thesis by blast
    qed
  qed
qed

lemma drives_frame:
  "drives_distinct V \<Longrightarrow> (\<And>q e. x = Some (q, e) \<Longrightarrow> \<exists>q' e'. V i = Some (q', e') \<and> ce_drive e = ce_drive e') \<Longrightarrow>
   drives_distinct (V(i := x))"
  unfolding drives_distinct_def by (metis fun_upd_apply)

lemma drives_new:
  "drives_distinct V \<Longrightarrow> (\<forall>j r e'. V j = Some (r, e') \<longrightarrow> ce_drive e' \<noteq> ce_drive e) \<Longrightarrow>
   drives_distinct (V(i \<mapsto> (q, e)))"
  unfolding drives_distinct_def by (metis fun_upd_apply option.inject prod.inject)

lemma worker_frame:
  "one_worker P \<Longrightarrow> (\<And>i. busy_on pc = Some i \<Longrightarrow> \<forall>u. u \<noteq> t \<longrightarrow> busy_on (P u) \<noteq> Some i) \<Longrightarrow>
   one_worker (P(t := pc))"
  unfolding one_worker_def by auto

subsection \<open>Every step preserves it\<close>

lemma worker_alone:
  "one_worker P \<Longrightarrow> busy_on (P t) = Some i \<Longrightarrow> u \<noteq> t \<Longrightarrow> busy_on (P u) \<noteq> Some i"
  unfolding one_worker_def by blast

lemma inv_begin_connect:
  assumes inv: "cs_inv S" and idle: "cs_pc S t = CIdle"
    and b: "connect_begin cid p now (cs_mgr S) = (Inr q, m')"
  shows "cs_inv (S\<lparr>cs_mgr := m', cs_pc := (cs_pc S)(t := CFactory cid q)\<rparr>)"
proof -
  let ?V = "mview (cs_mgr S)" and ?P = "cs_pc S"
  let ?e = "\<lparr>ce_drive = ToUpper (p_DriveLetter p), ce_state = Connecting, ce_session = None\<rparr>"
  from inv have i: "mg_wf (cs_mgr S)" "drives_distinct ?V" "pcs_match ?V ?P" "one_worker ?P"
      "entries_match ?V ?P" "live_match (session_of ?V) (cs_live S)"
    by (simp_all add: cs_inv_def)
  from view_begin [OF i(1) b] have v: "mg_wf m'" "?V cid = None" "mview m' = ?V(cid \<mapsto> (q, ?e))"
      "\<forall>j r e'. ?V j = Some (r, e') \<longrightarrow> ce_drive e' \<noteq> ce_drive ?e"
    by simp_all
  have free: "busy_on (?P u) \<noteq> Some cid" for u using pcs_busy [OF i(3), of u cid] v(2) by auto
  have "drives_distinct (?V(cid \<mapsto> (q, ?e)))" by (rule drives_new [OF i(2) v(4)])
  moreover have "pcs_match (?V(cid \<mapsto> (q, ?e))) (?P(t := CFactory cid q))"
    by (rule pcs_frame [OF i(3)]) (simp_all add: free)
  moreover have "one_worker (?P(t := CFactory cid q))"
    by (rule worker_frame [OF i(4)]) (auto simp: free)
  moreover have "entries_match (?V(cid \<mapsto> (q, ?e))) (?P(t := CFactory cid q))"
    by (rule entries_frame [OF i(5)]) (auto simp: idle)
  moreover have "(session_of ?V)(cid := None) = session_of ?V"
    using v(2) by (simp add: fun_eq_iff session_of_def)
  with i(6) have "live_match (session_of (?V(cid \<mapsto> (q, ?e)))) (cs_live S)" by simp
  ultimately show ?thesis by (simp add: cs_inv_def v(1,3))
qed

text \<open>The end of an operation on \<open>cid\<close>: its entry becomes \<open>x\<close>, idle or gone, and \<open>t\<close> is free.\<close>

lemma inv_worker_done:
  assumes inv: "cs_inv S" and busy: "busy_on (cs_pc S t) = Some cid"
    and m': "mg_wf m'" "mview m' = (mview (cs_mgr S))(cid := x)"
    and x: "\<And>q e. x = Some (q, e) \<Longrightarrow> ce_state e = Connected \<and> ce_session e \<noteq> None \<and>
        (\<exists>q' e'. mview (cs_mgr S) cid = Some (q', e') \<and> ce_drive e = ce_drive e')"
    and live: "live_match (session_of ((mview (cs_mgr S))(cid := x))) L"
  shows "cs_inv (S\<lparr>cs_mgr := m', cs_pc := (cs_pc S)(t := CIdle), cs_live := L\<rparr>)"
proof -
  let ?V = "mview (cs_mgr S)" and ?P = "cs_pc S"
  from inv have i: "drives_distinct ?V" "pcs_match ?V ?P" "one_worker ?P" "entries_match ?V ?P"
    by (simp_all add: cs_inv_def)
  have alone: "u \<noteq> t \<Longrightarrow> busy_on (?P u) \<noteq> Some cid" for u by (rule worker_alone [OF i(3) busy])
  have "drives_distinct (?V(cid := x))" by (rule drives_frame [OF i(1)]) (use x in blast)
  moreover have "pcs_match (?V(cid := x)) (?P(t := CIdle))"
    by (rule pcs_frame [OF i(2)]) (simp_all add: alone)
  moreover have "one_worker (?P(t := CIdle))" by (rule worker_frame [OF i(3)]) simp
  moreover have "entries_match (?V(cid := x)) (?P(t := CIdle))"
    by (rule entries_frame [OF i(4)]) (use busy x alone in auto)
  ultimately show ?thesis using live by (simp add: cs_inv_def m')
qed

lemma live_free: "live_match \<sigma> L \<Longrightarrow> \<sigma> i = None \<Longrightarrow> live_match (\<sigma>(i := None)) L"
  by (metis fun_upd_triv)

lemma live_same: "live_match \<sigma> L \<Longrightarrow> \<sigma> i = x \<Longrightarrow> live_match (\<sigma>(i := x)) L"
  by (metis fun_upd_triv)

lemma live_release:
  assumes L: "live_match \<sigma> L" and s: "\<sigma> i = Some s"
  shows "live_match (\<sigma>(i := None)) (L - {s})"
proof -
  have inj: "\<sigma> a = Some u \<Longrightarrow> \<sigma> b = Some u \<Longrightarrow> a = b" for a b u using L by (auto simp: live_match_def)
  have mem: "u \<in> L \<longleftrightarrow> (\<exists>j. \<sigma> j = Some u)" for u using L by (auto simp: live_match_def)
  have "u \<in> L - {s} \<longleftrightarrow> (\<exists>j. (\<sigma>(i := None)) j = Some u)" for u
  proof
    assume "u \<in> L - {s}"
    then obtain j where "\<sigma> j = Some u" "u \<noteq> s" using mem by auto
    with s show "\<exists>j. (\<sigma>(i := None)) j = Some u" by (intro exI [of _ j]) auto
  next
    assume "\<exists>j. (\<sigma>(i := None)) j = Some u"
    then obtain j where j: "j \<noteq> i" "\<sigma> j = Some u" by (auto split: if_splits)
    have "u \<noteq> s" using inj [OF j(2), of i] j(1) s by blast
    moreover have "u \<in> L" using mem [of u] j(2) by blast
    ultimately show "u \<in> L - {s}" by blast
  qed
  moreover have "(\<sigma>(i := None)) a = Some u \<Longrightarrow> (\<sigma>(i := None)) b = Some u \<Longrightarrow> a = b" for a b u
    using inj [of a u b] by (simp split: if_splits)
  ultimately show ?thesis unfolding live_match_def by blast
qed

lemma live_insert:
  assumes L: "live_match \<sigma> L" and s: "s \<notin> L" "\<sigma> i = None"
  shows "live_match (\<sigma>(i \<mapsto> s)) (insert s L)"
proof -
  have inj: "\<sigma> a = Some u \<Longrightarrow> \<sigma> b = Some u \<Longrightarrow> a = b" for a b u using L by (auto simp: live_match_def)
  have mem: "u \<in> L \<longleftrightarrow> (\<exists>j. \<sigma> j = Some u)" for u using L by (auto simp: live_match_def)
  have new: "\<sigma> j \<noteq> Some s" for j using mem s by auto
  have "u \<in> insert s L \<longleftrightarrow> (\<exists>j. (\<sigma>(i \<mapsto> s)) j = Some u)" for u
    using mem [of u] s(2) by (cases "u = s") (auto split: if_splits, metis option.distinct(1))
  moreover have "(\<sigma>(i \<mapsto> s)) a = Some u \<Longrightarrow> (\<sigma>(i \<mapsto> s)) b = Some u \<Longrightarrow> a = b" for a b u
    using inj [of a u b] new [of a] new [of b] by (simp split: if_splits)
  ultimately show ?thesis unfolding live_match_def by blast
qed

lemma inv_factory:
  assumes inv: "cs_inv S" and pc: "cs_pc S t = CFactory cid q"
    and e: "connect_end cid q r now (cs_mgr S) = (x, m')"
    and L: "case r of Inl _ \<Rightarrow> L = cs_live S | Inr s \<Rightarrow> s \<notin> cs_live S \<and> L = insert s (cs_live S)"
  shows "cs_inv (S\<lparr>cs_mgr := m', cs_pc := (cs_pc S)(t := CIdle), cs_live := L\<rparr>)"
proof -
  let ?V = "mview (cs_mgr S)"
  from inv have i: "mg_wf (cs_mgr S)" "pcs_match ?V (cs_pc S)" "live_match (session_of ?V) (cs_live S)"
    by (simp_all add: cs_inv_def)
  from pcs_factory [OF i(2) pc] obtain en where en: "?V cid = Some (q, en)" "ce_session en = None" by blast
  have s0: "session_of ?V cid = None" using en by (simp add: session_of_def)
  note v = view_connect_end [OF i(1) en(1) e]
  show ?thesis
  proof (cases r)
    case (Inl er)
    with v L show ?thesis
      by (intro inv_worker_done [OF inv, where x = None]) (auto simp: pc live_free [OF i(3) s0])
  next
    case (Inr s)
    with v L show ?thesis
      by (intro inv_worker_done [OF inv, where x = "Some (q, en\<lparr>ce_session := Some s, ce_state := Connected\<rparr>)"])
         (auto simp: pc en live_insert [OF i(3) _ s0])
  qed
qed

lemma inv_begin_disconnect:
  assumes inv: "cs_inv S" and idle: "cs_pc S t = CIdle"
    and b: "disconnect_begin cid (cs_mgr S) = (Inr (q, s), m')"
  shows "cs_inv (S\<lparr>cs_mgr := m', cs_pc := (cs_pc S)(t := CClosing cid q s force)\<rparr>)"
proof -
  let ?V = "mview (cs_mgr S)" and ?P = "cs_pc S"
  from inv have i: "mg_wf (cs_mgr S)" "drives_distinct ?V" "pcs_match ?V ?P" "one_worker ?P"
      "entries_match ?V ?P" "live_match (session_of ?V) (cs_live S)"
    by (simp_all add: cs_inv_def)
  from view_disconnect_begin [OF i(1) b] obtain e where e: "?V cid = Some (q, e)" "ce_state e = Connected"
      "ce_session e = Some s" "mg_wf m'" "mview m' = ?V(cid \<mapsto> (q, e\<lparr>ce_state := Disconnecting\<rparr>))"
    by blast
  have free: "busy_on (?P u) \<noteq> Some cid" for u using i(5) e(1,2) by (force simp: entries_match_def)
  have s0: "session_of ?V cid = Some s" using e by (simp add: session_of_def)
  have "drives_distinct (?V(cid \<mapsto> (q, e\<lparr>ce_state := Disconnecting\<rparr>)))"
    by (rule drives_frame [OF i(2)]) (use e in auto)
  moreover have "pcs_match (?V(cid \<mapsto> (q, e\<lparr>ce_state := Disconnecting\<rparr>))) (?P(t := CClosing cid q s force))"
    by (rule pcs_frame [OF i(3)]) (simp_all add: free e)
  moreover have "one_worker (?P(t := CClosing cid q s force))"
    by (rule worker_frame [OF i(4)]) (auto simp: free)
  moreover have "entries_match (?V(cid \<mapsto> (q, e\<lparr>ce_state := Disconnecting\<rparr>))) (?P(t := CClosing cid q s force))"
    by (rule entries_frame [OF i(5)]) (auto simp: idle)
  moreover have "live_match (session_of (?V(cid \<mapsto> (q, e\<lparr>ce_state := Disconnecting\<rparr>)))) (cs_live S)"
    using live_same [OF i(6) s0] e by simp
  ultimately show ?thesis by (simp add: cs_inv_def e)
qed

lemma inv_closed:
  assumes inv: "cs_inv S" and pc: "cs_pc S t = CClosing cid q s force"
    and L: "L = (case r of None \<Rightarrow> cs_live S - {s} | Some _ \<Rightarrow> cs_live S)"
  shows "cs_inv (S\<lparr>cs_mgr := disconnect_end cid q r now (cs_mgr S), cs_pc := (cs_pc S)(t := CIdle), cs_live := L\<rparr>)"
proof -
  let ?V = "mview (cs_mgr S)"
  from inv have i: "mg_wf (cs_mgr S)" "pcs_match ?V (cs_pc S)" "live_match (session_of ?V) (cs_live S)"
    by (simp_all add: cs_inv_def)
  from pcs_closing [OF i(2) pc] obtain e where e: "?V cid = Some (q, e)" "ce_session e = Some s" by blast
  have s0: "session_of ?V cid = Some s" using e by (simp add: session_of_def)
  note v = view_disconnect_end [OF i(1) e(1), of r now]
  show ?thesis
  proof (cases r)
    case None
    with v L show ?thesis
      by (intro inv_worker_done [OF inv, where x = None]) (auto simp: pc live_release [OF i(3) s0])
  next
    case (Some er)
    with v L show ?thesis
      by (intro inv_worker_done [OF inv, where x = "Some (q, e\<lparr>ce_state := Connected\<rparr>)"])
         (auto simp: pc e live_same [OF i(3) s0])
  qed
qed

lemma cs_inv_view:
  "cs_inv S \<Longrightarrow> mview m' = mview (cs_mgr S) \<Longrightarrow> mg_wf m' \<Longrightarrow> cs_inv (S\<lparr>cs_mgr := m'\<rparr>)"
  by (simp add: cs_inv_def)

lemma cs_inv_step: "cs_step S S' \<Longrightarrow> cs_inv S \<Longrightarrow> cs_inv S'"
proof (induction rule: cs_step.induct)
  case (refuse S t cid p now e m')
  then show ?case using view_connect_refused [OF refuse(2)] by (auto intro: cs_inv_view simp: cs_inv_def)
next
  case (begin_connect S t cid p now q m')
  then show ?case by (intro inv_begin_connect)
next
  case (factory_fails S t cid q e now x m')
  then show ?case using inv_factory [of S t cid q "Inl e" now x m' "cs_live S"] by simp
next
  case (factory_opens S t cid q s now x m')
  then show ?case using inv_factory [of S t cid q "Inr s" now x m' "insert s (cs_live S)"] by simp
next
  case (skip_disconnect S t cid r m')
  then show ?case using view_disconnect_skip [OF skip_disconnect(2)] by simp
next
  case (begin_disconnect S t cid q s m' force)
  then show ?case by (intro inv_begin_disconnect)
next
  case (close_fails S t cid q s force e now)
  then show ?case using inv_closed [of S t cid q s force "cs_live S" "Some e" now] by simp
next
  case (close_releases S t cid q s force now)
  then show ?case using inv_closed [of S t cid q s force "cs_live S - {s}" None now] by simp
next
  case (record_error S cid e now)
  then show ?case by (auto intro: cs_inv_view simp: cs_inv_def)
qed

lemma cs_reachable_inv: "cs_reachable S \<Longrightarrow> cs_inv S"
  by (induction rule: cs_reachable.induct) (auto intro: cs_inv_init cs_inv_step)

subsection \<open>What holds in every reachable state\<close>

text \<open>
  C25. No session is leaked or lost: however the goroutines interleave, the mounted sessions are exactly
  those an entry of the manager holds, each held by one entry; an identifier reported connected holds a
  mounted session, and one reported not connected or failed holds none.
\<close>

theorem sessions_accounted:
  assumes "cs_reachable S"
  shows "(\<forall>s. s \<in> cs_live S \<longleftrightarrow> (\<exists>!cid. session_of (mview (cs_mgr S)) cid = Some s)) \<and>
    (mg_State (cs_mgr S) cid = Connected \<longrightarrow> (\<exists>s \<in> cs_live S. session_of (mview (cs_mgr S)) cid = Some s)) \<and>
    (mg_State (cs_mgr S) cid \<in> {NotConnected, Errored} \<longrightarrow> session_of (mview (cs_mgr S)) cid = None)"
proof -
  let ?V = "mview (cs_mgr S)"
  from cs_reachable_inv [OF assms] have i: "live_match (session_of ?V) (cs_live S)" "entries_match ?V (cs_pc S)"
    by (simp_all add: cs_inv_def)
  have one: "\<forall>s. s \<in> cs_live S \<longleftrightarrow> (\<exists>!cid. session_of ?V cid = Some s)"
    using i(1) unfolding live_match_def by blast
  show ?thesis
  proof (cases "?V cid")
    case None
    then show ?thesis using one
      by (auto simp: mg_State_def mg_entry_view session_of_def split: option.splits if_splits)
  next
    case (Some qe)
    obtain q e where qe: "qe = (q, e)" by (cases qe)
    have st: "mg_State (cs_mgr S) cid = ce_state e" "session_of ?V cid = ce_session e"
      using Some qe by (simp_all add: mg_State_def mg_entry_view session_of_def)
    from i(2) Some qe have "ce_state e \<in> {Connecting, Connected, Disconnecting}"
      "ce_state e = Connected \<longrightarrow> ce_session e \<noteq> None"
      unfolding entries_match_def by (simp_all) (metis cstate.distinct)+
    moreover have "ce_session e = Some s \<longrightarrow> s \<in> cs_live S" for s
      using i(1) st(2) unfolding live_match_def by metis
    ultimately show ?thesis using one st by auto
  qed
qed

text \<open>
  C26. Two connections never hold the same drive letter, whatever the interleaving; a session is being
  closed by one goroutine at a time and only while it is mounted; and \<open>Disconnect\<close> never
  dereferences a missing session.
\<close>

theorem drives_and_closes_exclusive:
  assumes "cs_reachable S"
  shows "(\<forall>i j e f. mg_entry (cs_mgr S) i = Some e \<longrightarrow> mg_entry (cs_mgr S) j = Some f \<longrightarrow>
        ce_drive e = ce_drive f \<longrightarrow> i = j) \<and>
    (\<forall>t u i j p q s f g. cs_pc S t = CClosing i p s f \<longrightarrow> cs_pc S u = CClosing j q s g \<longrightarrow>
        t = u \<and> s \<in> cs_live S) \<and>
    (\<forall>i. fst (disconnect_begin i (cs_mgr S)) \<noteq> Inl (Some (ErrNew ''panic: nil session'')))"
proof -
  let ?V = "mview (cs_mgr S)"
  from cs_reachable_inv [OF assms] have i: "drives_distinct ?V" "pcs_match ?V (cs_pc S)"
      "one_worker (cs_pc S)" "entries_match ?V (cs_pc S)" "live_match (session_of ?V) (cs_live S)"
    by (simp_all add: cs_inv_def)
  have "\<forall>i j e f. mg_entry (cs_mgr S) i = Some e \<longrightarrow> mg_entry (cs_mgr S) j = Some f \<longrightarrow>
        ce_drive e = ce_drive f \<longrightarrow> i = j"
    using i(1) by (auto simp: mg_entry_view drives_distinct_def)
  moreover have "t = u \<and> s \<in> cs_live S"
    if "cs_pc S t = CClosing i p s f" "cs_pc S u = CClosing j q s g" for t u i j p q s f g
  proof -
    have "session_of ?V i = Some s" "session_of ?V j = Some s"
      using pcs_closing [OF i(2) that(1)] pcs_closing [OF i(2) that(2)] by (auto simp: session_of_def)
    with i(5) have "i = j" "s \<in> cs_live S" unfolding live_match_def by blast+
    with i(3) that show ?thesis unfolding one_worker_def by (metis busy_on.simps(3))
  qed
  moreover have "fst (disconnect_begin i (cs_mgr S)) \<noteq> Inl (Some (ErrNew ''panic: nil session''))" for i
    using i(4) by (fastforce simp: disconnect_begin_def entries_match_def mview_def split: option.splits)
  ultimately show ?thesis by blast
qed

text \<open>A run: one connection is open and being closed while a second one is starting.\<close>

definition demo_m1 :: "nat manager" where
  "demo_m1 = \<lparr>mg_heap = [\<lparr>ce_drive = ''X'', ce_state = Connecting, ce_session = None\<rparr>],
     mg_entries = [(''a'', 0)], mg_errors = []\<rparr>"

definition demo_m2 :: "nat manager" where
  "demo_m2 = demo_m1\<lparr>mg_heap := [\<lparr>ce_drive = ''X'', ce_state = Connected, ce_session = Some 7\<rparr>]\<rparr>"

definition demo_m3 :: "nat manager" where
  "demo_m3 = demo_m1\<lparr>mg_heap := [\<lparr>ce_drive = ''X'', ce_state = Disconnecting, ce_session = Some 7\<rparr>]\<rparr>"

definition demo_closing :: "nat csys" where
  "demo_closing = \<lparr>cs_mgr = demo_m3, cs_pc = (\<lambda>_. CIdle)(0 := CClosing ''a'' 0 7 False), cs_live = {7}\<rparr>"

lemma demo_connect: "connect_begin ''a'' sample_profile 0 mg_New = (Inr 0, demo_m1)"
proof -
  have "ToUpper (p_DriveLetter sample_profile) = ''X''" by code_simp
  then show ?thesis
    by (simp add: connect_begin_def sample_profile_valid mg_New_def demo_m1_def Let_def)
qed

lemma demo_closing_reachable: "cs_reachable demo_closing"
proof -
  have "cs_step cs_init (cs_init\<lparr>cs_mgr := demo_m1, cs_pc := (cs_pc cs_init)(0 := CFactory ''a'' 0)\<rparr>)"
    by (rule begin_connect [where p = sample_profile and now = 0])
       (simp_all add: cs_init_def demo_connect)
  from cs_next [OF cs_start this]
  have 1: "cs_reachable \<lparr>cs_mgr = demo_m1, cs_pc = (\<lambda>_. CIdle)(0 := CFactory ''a'' 0), cs_live = {}\<rparr>" (is "cs_reachable ?S1")
    by (simp add: cs_init_def)
  have "cs_step ?S1 (?S1\<lparr>cs_mgr := demo_m2, cs_pc := (cs_pc ?S1)(0 := CIdle), cs_live := insert 7 (cs_live ?S1)\<rparr>)"
    by (rule factory_opens [where t = 0 and cid = "''a''" and q = 0 and now = 0 and x = None])
       (simp_all add: connect_end_def demo_m1_def demo_m2_def)
  from cs_next [OF 1 this]
  have 2: "cs_reachable \<lparr>cs_mgr = demo_m2, cs_pc = (\<lambda>_. CIdle), cs_live = {7}\<rparr>" (is "cs_reachable ?S2")
    by (simp add: fun_upd_idem)
  have "cs_step ?S2 (?S2\<lparr>cs_mgr := demo_m3, cs_pc := (cs_pc ?S2)(0 := CClosing ''a'' 0 7 False)\<rparr>)"
    by (rule begin_disconnect [where t = 0 and cid = "''a''" and q = 0 and s = 7])
       (simp_all add: disconnect_begin_def demo_m1_def demo_m2_def demo_m3_def)
  from cs_next [OF 2 this] show ?thesis by (simp add: demo_closing_def)
qed

theorem sessions_accounted_witness:
  "\<exists>!cid. session_of (mview (cs_mgr demo_closing)) cid = Some 7"
proof -
  have "7 \<in> cs_live demo_closing" by (simp add: demo_closing_def)
  then show ?thesis using sessions_accounted [OF demo_closing_reachable] by blast
qed

theorem drives_and_closes_exclusive_witness:
  "fst (disconnect_begin ''a'' (cs_mgr demo_closing)) \<noteq> Inl (Some (ErrNew ''panic: nil session''))"
  using drives_and_closes_exclusive [OF demo_closing_reachable] by blast

subsection \<open>Disconnecting, one caller\<close>

lemma disconnect_outcome:
  assumes wf: "mg_wf m" and run: "mg_disconnect so force cid m w = ((msg, r), m', w')"
  shows "mg_wf m' \<and> mview m' = (if r = None then (mview m)(cid := None) else mview m) \<and>
    (r \<noteq> None \<longrightarrow> mview m cid \<noteq> None)"
proof (cases "disconnect_begin cid m")
  case (Pair x m1)
  show ?thesis
  proof (cases x)
    case (Inl r0)
    with run Pair have "r0 = r" "m' = m1" by (auto simp: mg_disconnect_def)
    with view_disconnect_skip [of cid m r0 m1] Pair Inl wf show ?thesis by (auto simp: fun_eq_iff)
  next
    case (Inr qs)
    obtain q s where qs: "qs = (q, s)" by (cases qs)
    from view_disconnect_begin [OF wf, of cid q s m1] Pair Inr qs obtain e where
      e: "mview m cid = Some (q, e)" "ce_state e = Connected" "mg_wf m1"
         "mview m1 = (mview m)(cid \<mapsto> (q, e\<lparr>ce_state := Disconnecting\<rparr>))" by blast
    have "mview m1 cid = Some (q, e\<lparr>ce_state := Disconnecting\<rparr>)" using e(4) by simp
    note fin = view_disconnect_end [OF e(3) this]
    from run Pair Inr qs obtain w1 where "m' = disconnect_end cid q r (so_Now so w1) m1"
      by (auto simp: mg_disconnect_def split: prod.splits)
    moreover have "e\<lparr>ce_state := Connected\<rparr> = e" using e(2) by (cases e) simp
    ultimately show ?thesis using fin [of r] e
      by (cases r) (auto simp: fun_eq_iff)
  qed
qed

lemma Disconnect_outcome:
  assumes "mg_wf m" and "mg_Disconnect so cid m w = (r, m', w')"
  shows "mg_wf m' \<and> mview m' = (if r = None then (mview m)(cid := None) else mview m) \<and>
    (r \<noteq> None \<longrightarrow> mview m cid \<noteq> None)"
proof -
  from assms(2) obtain msg where "mg_disconnect so False cid m w = ((msg, r), m', w')"
    by (auto simp: mg_Disconnect_def split: prod.splits)
  from disconnect_outcome [OF assms(1) this] show ?thesis .
qed

lemma close_loop_outcome:
  assumes "mg_wf m" and "close_loop so ids res m w = (r, m', w')" and "distinct ids"
  shows "mg_wf m' \<and> (\<forall>j. mview m' j \<in> {None, mview m j}) \<and> (\<forall>j. j \<notin> set ids \<longrightarrow> mview m' j = mview m j) \<and>
    (r = None \<longleftrightarrow> res = None \<and> (\<forall>j \<in> set ids. mview m' j = None))"
  using assms
proof (induction ids arbitrary: res m w)
  case (Cons i ids)
  obtain r1 m1 w1 where d: "mg_Disconnect so i m w = (r1, m1, w1)" by (metis prod_cases3)
  note o1 = Disconnect_outcome [OF Cons.prems(1) d]
  from Cons.prems d have rest: "close_loop so ids (errors_Join [res, r1]) m1 w1 = (r, m', w')" "distinct ids"
    and i: "i \<notin> set ids"
    by simp_all
  note IH0 = Cons.IH [OF o1 [THEN conjunct1] rest]
  note IH = IH0 [THEN conjunct1] IH0 [THEN conjunct2, THEN conjunct1]
    IH0 [THEN conjunct2, THEN conjunct2, THEN conjunct1] IH0 [THEN conjunct2, THEN conjunct2, THEN conjunct2]
  have "mview m' i = mview m1 i" using IH(3) i by blast
  have one: "mview m1 j \<in> {None, mview m j}" "j \<noteq> i \<Longrightarrow> mview m1 j = mview m j" for j using o1 by auto
  have "mview m' j \<in> {None, mview m j}" for j using spec [OF IH(2), of j] one(1) [of j] by auto
  moreover have "mview m' j = mview m j" if "j \<notin> set (i # ids)" for j
    using spec [OF IH(3), of j] one(2) [of j] that by simp
  moreover have "r1 = None \<longleftrightarrow> mview m' i = None" using o1 \<open>mview m' i = mview m1 i\<close> by auto
  then have "r = None \<longleftrightarrow> res = None \<and> (\<forall>j \<in> set (i # ids). mview m' j = None)"
    using IH(4) by (auto simp: errors_Join_None_iff)
  ultimately show ?case using IH(1) by blast
qed simp

lemma no_entries: "(\<forall>j. mview m j = None) \<longleftrightarrow> mg_entries m = []"
proof
  assume none: "\<forall>j. mview m j = None"
  show "mg_entries m = []"
  proof (cases "mg_entries m")
    case (Cons p ps)
    then have "mview m (fst p) \<noteq> None" by (cases p) (simp add: mview_def)
    with none show ?thesis by simp
  qed
qed (simp add: mview_def)

text \<open>
  \<open>CloseAll\<close>, in whatever order it visits the connections, succeeds exactly when nothing is left
  mounted; a connection it cannot close keeps its entry, session and state, so it can be retried.
\<close>

theorem close_all_outcome:
  assumes "mg_wf m" and "distinct ids" and "set ids = set (al_keys (mg_entries m))"
    and "mg_CloseAll so ids m w = (r, m', w')"
  shows "(r = None \<longleftrightarrow> mg_entries m' = []) \<and> (\<forall>j. mg_entry m' j \<in> {None, mg_entry m j})"
proof -
  from assms(4) have "close_loop so ids None m w = (r, m', w')" by (simp add: mg_CloseAll_def)
  from close_loop_outcome [OF assms(1) this assms(2)] have
    o: "\<forall>j. mview m' j \<in> {None, mview m j}" "r = None \<longleftrightarrow> (\<forall>j \<in> set ids. mview m' j = None)"
    by blast+
  have "mview m j = None" if "j \<notin> set ids" for j
    using that assms(3) by (simp add: mview_def map_of_eq_None_iff al_keys_def)
  with o have "r = None \<longleftrightarrow> (\<forall>j. mview m' j = None)" by (metis insertE empty_iff)
  moreover have "mg_entry m' j \<in> {None, mg_entry m j}" for j
    using spec [OF o(1), of j] by (auto simp: mg_entry_view)
  ultimately show ?thesis unfolding no_entries by blast
qed

definition demo_ops :: "(unit, nat) session_ops" where
  "demo_ops = \<lparr>so_Close = (\<lambda>s w. (if s = 7 then Some (ErrNew ''files open'') else None, w)),
     so_ForceClose = (\<lambda>s. Some (\<lambda>w. ((''kept'', None), w))), so_Now = (\<lambda>w. 3)\<rparr>"

definition demo_two :: "nat manager" where
  "demo_two = \<lparr>mg_heap = [\<lparr>ce_drive = ''X'', ce_state = Connected, ce_session = Some 7\<rparr>,
       \<lparr>ce_drive = ''Y'', ce_state = Connected, ce_session = Some 8\<rparr>],
     mg_entries = [(''a'', 0), (''b'', 1)], mg_errors = []\<rparr>"

lemma demo_two_wf: "mg_wf demo_two"
  by (simp add: mg_wf_def demo_two_def)

lemma demo_close_all: "fst (mg_CloseAll demo_ops [''b'', ''a''] demo_two ()) \<noteq> None"
  by (simp add: mg_CloseAll_def mg_Disconnect_def mg_disconnect_def disconnect_begin_def demo_two_def
      demo_ops_def errors_Join_def List.map_filter_def disconnect_end_def set_error_def)

theorem close_all_outcome_witness:
  "mg_entries (fst (snd (mg_CloseAll demo_ops [''b'', ''a''] demo_two ()))) \<noteq> []"
proof -
  obtain r m' w' where run: "mg_CloseAll demo_ops [''b'', ''a''] demo_two () = (r, m', w')" by (metis prod_cases3)
  have "set [''b'', ''a''] = set (al_keys (mg_entries demo_two))" by (auto simp: demo_two_def)
  from close_all_outcome [OF demo_two_wf _ this run] demo_close_all run show ?thesis by auto
qed

subsection \<open>Disconnecting a list of profiles\<close>

lemma disconnect_loop_outcome:
  assumes "mg_wf m" and "disconnect_loop so confirm ps res m w = (res', m', w')"
  shows "(\<forall>j. mview m' j \<in> {None, mview m j}) \<and>
    (\<forall>l \<in> set (dr_canceled res). l \<in> set (dr_canceled res')) \<and> (dr_err res \<noteq> None \<longrightarrow> dr_err res' \<noteq> None) \<and>
    (\<forall>p \<in> set ps. mview m' (sp_ID p) = None \<or> profile_label p \<in> set (dr_canceled res') \<or> dr_err res' \<noteq> None)"
  using assms
proof (induction ps arbitrary: res m w)
  case (Cons p ps)
  obtain r1 m1 w1 where d: "mg_Disconnect so (sp_ID p) m w = (r1, m1, w1)" by (metis prod_cases3)
  note o1 = Disconnect_outcome [OF Cons.prems(1) d]
  have v1: "mview m1 j \<in> {None, mview m j}" for j using o1 by auto
  show ?case
  proof (cases r1)
    case None
    with Cons.prems d have "disconnect_loop so confirm ps res m1 w1 = (res', m', w')" by simp
    note IH = Cons.IH [OF o1 [THEN conjunct1] this]
    have gone: "mview m' (sp_ID p) = None" using o1 None IH by (metis fun_upd_same insertE singletonD)
    have "mview m' j \<in> {None, mview m j}" for j using v1 [of j] IH by (metis insertE insertI1 singletonD)
    with IH gone show ?thesis by auto
  next
    case (Some e)
    show ?thesis
    proof (cases "confirm p e")
      case False
      with Some Cons.prems d have "disconnect_loop so confirm ps
          (res\<lparr>dr_canceled := dr_canceled res @ [profile_label p]\<rparr>) m1 w1 = (res', m', w')" by simp
      note IH = Cons.IH [OF o1 [THEN conjunct1] this]
      have "mview m' j \<in> {None, mview m j}" for j using v1 [of j] IH by (metis insertE insertI1 singletonD)
      with IH show ?thesis by auto
    next
      case True
      obtain msg r2 m2 w2 where f: "mg_ForceDisconnect so (sp_ID p) m1 w1 = ((msg, r2), m2, w2)"
        by (metis prod_cases3 surj_pair)
      note o2 = disconnect_outcome [OF o1 [THEN conjunct1] f [unfolded mg_ForceDisconnect_def]]
      have v2: "mview m2 j \<in> {None, mview m j}" for j using o2 v1 [of j] by auto
      let ?res = "res\<lparr>dr_messages := (if msg \<noteq> '''' then dr_messages res @ [p_Name (sp_Profile p) @ '': '' @ msg]
             else dr_messages res),
           dr_err := (case r2 of None \<Rightarrow> dr_err res
              | Some er \<Rightarrow> errors_Join [dr_err res,
                  Some (Wrapped (p_Name (sp_Profile p) @ '': forced disconnect failed'') er)])\<rparr>"
      from True Some Cons.prems d f have "disconnect_loop so confirm ps ?res m2 w2 = (res', m', w')" by simp
      note IH = Cons.IH [OF o2 [THEN conjunct1] this]
      have "errors_Join [x, Some y] \<noteq> None" for x y by (simp add: errors_Join_None_iff)
      then have err: "dr_err res' \<noteq> None" if "r2 \<noteq> None \<or> dr_err res \<noteq> None"
        using IH that by (auto split: option.splits)
      have "mview m' j \<in> {None, mview m j}" for j using v2 [of j] IH by (metis insertE insertI1 singletonD)
      moreover have "mview m' (sp_ID p) = None \<or> dr_err res' \<noteq> None"
        using o2 err IH by (metis fun_upd_same insertE singletonD)
      ultimately show ?thesis using IH err by auto
    qed
  qed
qed simp

text \<open>Without a confirmation the force operation of the sessions plays no part.\<close>

lemma disconnect_unconfirmed:
  "(\<And>p e. \<not> confirm p e) \<Longrightarrow>
   disconnect_loop so confirm ps res m w = disconnect_loop (so\<lparr>so_ForceClose := f\<rparr>) confirm ps res m w"
proof (induction ps arbitrary: res m w)
  case (Cons p ps)
  have "mg_Disconnect (so\<lparr>so_ForceClose := f\<rparr>) (sp_ID p) m w = mg_Disconnect so (sp_ID p) m w"
    by (simp add: mg_Disconnect_def mg_disconnect_def split: sum.splits prod.splits)
  with Cons show ?case by (simp split: prod.splits option.splits)
qed simp

lemma disconnect_always_confirmed:
  "disconnect_loop so (\<lambda>_ _. True) ps res m w = (res', m', w') \<Longrightarrow> dr_canceled res' = dr_canceled res"
proof (induction ps arbitrary: res m w)
  case (Cons p ps)
  then show ?case by (auto split: prod.splits option.splits dest!: Cons.IH)
qed simp

text \<open>
  Disconnecting profiles leaves each of them detached, or declined by the user and listed, or
  reported in the error; an entry is removed or exactly as it was, never half way. If every question is
  declined nothing is forced: the result does not depend on the sessions' force operation. At the end of
  the Windows session nothing is declined: every profile is detached or an error is reported.
\<close>

theorem disconnect_profiles_outcome:
  assumes "mg_wf m"
  shows "(case disconnectProfiles so ps confirm m w of (res, m', w') \<Rightarrow>
      (\<forall>j. mg_entry m' j \<in> {None, mg_entry m j}) \<and>
      list_all (\<lambda>p. mg_entry m' (sp_ID p) = None \<or> profile_label p \<in> set (dr_canceled res) \<or> dr_err res \<noteq> None) ps) \<and>
    disconnectProfiles so ps (\<lambda>_ _. False) m w = disconnectProfiles (so\<lparr>so_ForceClose := f\<rparr>) ps (\<lambda>_ _. False) m w \<and>
    (case disconnectProfilesForSessionEnd so ps m w of (res, m', w') \<Rightarrow>
      list_all (\<lambda>p. mg_entry m' (sp_ID p) = None \<or> dr_err res \<noteq> None) ps)"
proof -
  let ?r0 = "\<lparr>dr_messages = [], dr_canceled = [], dr_err = None\<rparr>"
  obtain r1 m1 w1 where 1: "disconnectProfiles so ps confirm m w = (r1, m1, w1)" by (metis prod_cases3)
  obtain r2 m2 w2 where 2: "disconnectProfilesForSessionEnd so ps m w = (r2, m2, w2)" by (metis prod_cases3)
  note o1 = disconnect_loop_outcome [OF assms 1 [unfolded disconnectProfiles_def]]
  note o2 = disconnect_loop_outcome [OF assms 2 [unfolded disconnectProfilesForSessionEnd_def disconnectProfiles_def]]
  have "dr_canceled r2 = []"
    using disconnect_always_confirmed [OF 2 [unfolded disconnectProfilesForSessionEnd_def disconnectProfiles_def]] by simp
  moreover have "mg_entry m1 j \<in> {None, mg_entry m j}" for j
    using o1 [THEN conjunct1, THEN spec, of j] by (auto simp: mg_entry_view)
  moreover have "disconnectProfiles so ps (\<lambda>_ _. False) m w =
      disconnectProfiles (so\<lparr>so_ForceClose := f\<rparr>) ps (\<lambda>_ _. False) m w"
    unfolding disconnectProfiles_def by (rule disconnect_unconfirmed) simp
  ultimately show ?thesis using 1 2 o1 o2 by (auto simp: list_all_iff mg_entry_view)
qed

theorem disconnect_profiles_outcome_witness:
  "case disconnectProfilesForSessionEnd demo_ops
      [\<lparr>sp_ID = ''a'', sp_Profile = sample_profile, sp_ProtectedSecret = []\<rparr>] demo_two () of
    (res, m', w') \<Rightarrow> mg_entry m' ''a'' = None \<or> dr_err res \<noteq> None"
  using disconnect_profiles_outcome [OF demo_two_wf, where so = demo_ops and w = "()"
      and ps = "[\<lparr>sp_ID = ''a'', sp_Profile = sample_profile, sp_ProtectedSecret = []\<rparr>]"]
  by (simp add: list_all_iff split: prod.splits)

end
