(* ===== verification/Diagnostics.thy ===== *)
theory Diagnostics
  imports Local_FS
begin

text \<open>
  \<^verbatim>\<open>internal/diagnostics/recorder.go\<close> and \<^verbatim>\<open>internal/vfs/diagnostics.go\<close>:
  the bounded counters of one connection, their report file, and the backend wrapper that measures
  the logical metadata calls. Every critical section of the recorder's mutex is one function; the
  clock readings are arguments, and the JSON encoder is a parameter.
\<close>

type_synonym operation = "8 word"

definition LogicalStat :: operation where "LogicalStat = 0"
definition LogicalReadDir :: operation where "LogicalReadDir = 1"
definition operationCount :: operation where "operationCount = 8"

definition op_names :: "string list" where
  "op_names = [''logical.stat'', ''logical.readdir'', ''webdav.propfind.depth0'', ''webdav.propfind.depth1'',
     ''ftp.getentry'', ''ftp.list'', ''sftp.stat'', ''sftp.readdir'']"

record metric =
  m_Operation :: string
  m_Calls :: "64 word"
  m_Errors :: "64 word"
  m_TotalNS :: int
  m_MaxNS :: int

record report =
  rp_Schema :: int
  rp_Protocol :: string
  rp_Started :: instant
  rp_ElapsedNS :: int
  rp_Metrics :: "metric list"

record recorder =
  rc_report :: report
  rc_started :: instant
  rc_file :: string
  rc_closed :: bool
  rc_closeErr :: "err option"

definition protocol_label :: "string \<Rightarrow> string" where
  "protocol_label protocol =
     (if protocol \<in> set [''sftp'', ''webdav'', ''ftp'', ''explicit-ftps'', ''implicit-ftps'']
      then protocol else ''unknown'')"

definition fresh_metric :: "string \<Rightarrow> metric" where
  "fresh_metric name = \<lparr>m_Operation = name, m_Calls = 0, m_Errors = 0, m_TotalNS = 0, m_MaxNS = 0\<rparr>"

definition fresh_recorder :: "string \<Rightarrow> string \<Rightarrow> instant \<Rightarrow> recorder" where
  "fresh_recorder protocol path now = \<lparr>
     rc_report = \<lparr>rp_Schema = 1, rp_Protocol = protocol, rp_Started = now, rp_ElapsedNS = 0,
                  rp_Metrics = map fresh_metric op_names\<rparr>,
     rc_started = now, rc_file = path, rc_closed = False, rc_closeErr = None\<rparr>"

definition diagnostics_Open ::
  "string \<Rightarrow> string \<Rightarrow> string \<Rightarrow> instant \<Rightarrow> lfs \<Rightarrow> (err + recorder option) \<times> lfs" where
  "diagnostics_Open directory protocol rnd now fs =
     (if directory = '''' then (Inr None, fs)
      else let label = protocol_label protocol
           in case os_MkdirAll directory fs of
                (Some e, fs1) \<Rightarrow> (Inl e, fs1)
              | (None, fs1) \<Rightarrow>
                  (case os_CreateTemp directory ''dkdrive-metadata-'' ''.json'' rnd now fs1 of
                     (Inl e, fs2) \<Rightarrow> (Inl e, fs2)
                   | (Inr path, fs2) \<Rightarrow> (Inr (Some (fresh_recorder label path now)), fs2)))"

subsection \<open>Counting\<close>

definition bump :: "bool \<Rightarrow> int \<Rightarrow> metric \<Rightarrow> metric" where
  "bump failed elapsed m = m\<lparr>
     m_Calls := m_Calls m + 1,
     m_Errors := (if failed then m_Errors m + 1 else m_Errors m),
     m_TotalNS := i64 (m_TotalNS m + elapsed),
     m_MaxNS := (if elapsed > m_MaxNS m then elapsed else m_MaxNS m)\<rparr>"

text \<open>The critical section of \<open>Call\<close>, after the measured call has returned.\<close>

definition record_call :: "operation \<Rightarrow> bool \<Rightarrow> int \<Rightarrow> recorder \<Rightarrow> recorder" where
  "record_call op failed elapsed r =
     (if \<not> rc_closed r \<and> op < operationCount
      then r\<lparr>rc_report := (rc_report r)\<lparr>rp_Metrics :=
               (rp_Metrics (rc_report r))[unat op := bump failed elapsed (rp_Metrics (rc_report r) ! unat op)]\<rparr>\<rparr>
      else r)"

definition diagnostics_Call ::
  "('w \<Rightarrow> instant) \<Rightarrow> recorder option \<Rightarrow> operation \<Rightarrow> ('w \<Rightarrow> (err + 'a) \<times> 'w) \<Rightarrow> 'w
     \<Rightarrow> (err + 'a) \<times> recorder option \<times> 'w" where
  "diagnostics_Call clk r op call w =
     (case r of
        None \<Rightarrow> (case call w of (x, w') \<Rightarrow> (x, None, w'))
      | Some rc \<Rightarrow>
          (case call w of (x, w') \<Rightarrow>
             (x, Some (record_call op (\<not> is_ok x) (time_Sub (clk w') (clk w)) rc), w')))"

definition recorder_Snapshot :: "instant \<Rightarrow> recorder \<Rightarrow> report" where
  "recorder_Snapshot now r = (rc_report r)\<lparr>rp_ElapsedNS := time_Sub now (rc_started r)\<rparr>"

definition recorder_Close ::
  "(report \<Rightarrow> err + bytes) \<Rightarrow> instant \<Rightarrow> recorder option \<Rightarrow> lfs \<Rightarrow> err option \<times> recorder option \<times> lfs" where
  "recorder_Close enc now ro fs =
     (case ro of
        None \<Rightarrow> (None, None, fs)
      | Some r \<Rightarrow>
          if rc_closed r then (rc_closeErr r, Some r, fs)
          else let rep = (rc_report r)\<lparr>rp_ElapsedNS := time_Sub now (rc_started r)\<rparr>;
                   (encodeErr, fs1) =
                     (case enc rep of
                        Inl e \<Rightarrow> (Some e, fs)
                      | Inr doc \<Rightarrow> (case file_WriteAt (rc_file r) (doc @ [10]) 0 now fs of
                                     ((n, e), fs') \<Rightarrow> (e, fs')));
                   closeErr = file_Close (rc_file r) fs1;
                   result = (if encodeErr \<noteq> None then encodeErr else closeErr)
               in (result, Some (r\<lparr>rc_closed := True, rc_report := rep, rc_closeErr := result\<rparr>), fs1))"

subsection \<open>The measuring backend\<close>

text \<open>The recorder and the report's disk join the world of the wrapped backend.\<close>

type_synonym 'w measured = "'w \<times> recorder option \<times> lfs"

definition inner :: "('w \<Rightarrow> 'a \<times> 'w) \<Rightarrow> 'w measured \<Rightarrow> 'a \<times> 'w measured" where
  "inner f m = (case m of (w, r, fs) \<Rightarrow> (case f w of (x, w') \<Rightarrow> (x, w', r, fs)))"

definition measured_call ::
  "('w \<Rightarrow> instant) \<Rightarrow> operation \<Rightarrow> ('w \<Rightarrow> (err + 'a) \<times> 'w) \<Rightarrow> 'w measured \<Rightarrow> (err + 'a) \<times> 'w measured" where
  "measured_call clk op f m =
     (case m of (w, r, fs) \<Rightarrow> (case diagnostics_Call clk r op f w of (x, r', w') \<Rightarrow> (x, w', r', fs)))"

definition measured_Close ::
  "('w \<Rightarrow> instant) \<Rightarrow> (report \<Rightarrow> err + bytes) \<Rightarrow> ('w, 'r, 'h) backend \<Rightarrow> 'w measured \<Rightarrow> err option \<times> 'w measured" where
  "measured_Close clk enc b m =
     (case m of (w, r, fs) \<Rightarrow>
        (case b_Close b w of (e, w') \<Rightarrow>
           (case recorder_Close enc (clk w') r fs of (reportErr, r', fs') \<Rightarrow> (e, w', r', fs'))))"

definition lift_backend :: "('w, 'r, 'h) backend \<Rightarrow> ('w measured, 'r, 'h) backend" where
  "lift_backend b = \<lparr>
     b_Stat = (\<lambda>x n. inner (b_Stat b x n)), b_ReadDir = (\<lambda>x n. inner (b_ReadDir b x n)),
     b_OpenRead = (\<lambda>x n. inner (b_OpenRead b x n)), b_OpenWrite = (\<lambda>x n opt. inner (b_OpenWrite b x n opt)),
     b_Mkdir = (\<lambda>x n. inner (b_Mkdir b x n)), b_Remove = (\<lambda>x n d. inner (b_Remove b x n d)),
     b_Rename = (\<lambda>x m n. inner (b_Rename b x m n)), b_SetModTime = (\<lambda>x n t. inner (b_SetModTime b x n t)),
     b_SetReadOnly = (\<lambda>x n ro. inner (b_SetReadOnly b x n ro)), b_Close = inner (b_Close b),
     r_ReadAll = (\<lambda>r. inner (r_ReadAll b r)), r_Close = (\<lambda>r. inner (r_Close b r)),
     h_WriteAt = (\<lambda>h d off. inner (h_WriteAt b h d off)), h_Sync = (\<lambda>h. inner (h_Sync b h)),
     h_Close = (\<lambda>h. inner (h_Close b h))\<rparr>"

definition measuredBackend ::
  "('w \<Rightarrow> instant) \<Rightarrow> (report \<Rightarrow> err + bytes) \<Rightarrow> ('w, 'r, 'h) backend \<Rightarrow> ('w measured, 'r, 'h) backend" where
  "measuredBackend clk enc b = (lift_backend b)\<lparr>
     b_Stat := (\<lambda>x n. measured_call clk LogicalStat (b_Stat b x n)),
     b_ReadDir := (\<lambda>x n. measured_call clk LogicalReadDir (b_ReadDir b x n)),
     b_Close := measured_Close clk enc b\<rparr>"

definition WithDiagnostics ::
  "('w \<Rightarrow> instant) \<Rightarrow> (report \<Rightarrow> err + bytes) \<Rightarrow> ('w, 'r, 'h) backend \<Rightarrow> recorder option
     \<Rightarrow> ('w measured, 'r, 'h) backend" where
  "WithDiagnostics clk enc b recorder =
     (if recorder = None then lift_backend b else measuredBackend clk enc b)"

subsection \<open>Transparency\<close>

text \<open>Forgetting the recorder and the report: what the wrapped backend does.\<close>

definition forget :: "'a \<times> 'w measured \<Rightarrow> 'a \<times> 'w" where
  "forget p = (fst p, fst (snd p))"

lemma forget_inner [simp]: "forget (inner f m) = f (fst m)"
  by (auto simp: forget_def inner_def split: prod.splits)

lemma forget_measured [simp]: "forget (measured_call clk op f m) = f (fst m)"
  by (auto simp: forget_def measured_call_def diagnostics_Call_def split: prod.splits option.splits)

lemma forget_Close [simp]: "forget (measured_Close clk enc b m) = b_Close b (fst m)"
  by (auto simp: forget_def measured_Close_def split: prod.splits)

lemma forget_map [simp]: "forget (map_prod f id p) = map_prod f id (forget p)"
  by (simp add: forget_def)

lemma lift_run: "forget (vfs_run (lift_backend b) x c m) = vfs_run b x c (fst m)"
  by (cases c) (auto simp: lift_backend_def inner_def forget_def split: prod.splits)

lemma measured_run: "forget (vfs_run (measuredBackend clk enc b) x c m) = vfs_run b x c (fst m)"
  using lift_run [of b x c m] by (cases c) (simp_all add: measuredBackend_def)

lemma with_diagnostics_run: "forget (vfs_run (WithDiagnostics clk enc b r) x c m) = vfs_run b x c (fst m)"
  by (simp add: WithDiagnostics_def lift_run measured_run)

lemma with_diagnostics_Close: "forget (b_Close (WithDiagnostics clk enc b r) m) = b_Close b (fst m)"
  by (simp add: WithDiagnostics_def measuredBackend_def lift_backend_def)

text \<open>
  C38. Measuring is transparent: with a recorder in any state (absent, open, closed, failing) and any
  report disk, every call of the boundary and the final close return what the wrapped backend returns
  and change its world in the same way; a report that cannot be written changes nothing.
\<close>

theorem diagnostics_transparent:
  "forget (vfs_run (WithDiagnostics clk enc b r) x c m) = vfs_run b x c (fst m)
   \<and> forget (b_Close (WithDiagnostics clk enc b r) m) = b_Close b (fst m)"
  by (simp add: with_diagnostics_run with_diagnostics_Close)

subsection \<open>The counters\<close>

text \<open>One measured attempt: the operation, whether it failed, and how long it took.\<close>

type_synonym sample = "operation \<times> bool \<times> int"

definition run_samples :: "sample list \<Rightarrow> recorder \<Rightarrow> recorder" where
  "run_samples es r = foldl (\<lambda>r (op, failed, t). record_call op failed t r) r es"

definition samples_of :: "operation \<Rightarrow> sample list \<Rightarrow> (bool \<times> int) list" where
  "samples_of op es = map snd (filter (\<lambda>e. fst e = op) es)"

definition summary :: "string \<Rightarrow> (bool \<times> int) list \<Rightarrow> metric" where
  "summary name ss = \<lparr>m_Operation = name,
     m_Calls = of_nat (length ss), m_Errors = of_nat (length (filter fst ss)),
     m_TotalNS = i64 (sum_list (map snd ss)), m_MaxNS = fold max (map snd ss) 0\<rparr>"

lemma i64_add_left: "i64 (i64 a + b) = i64 (a + b)"
  by (simp add: i64_def mod_simps algebra_simps)

lemma summary_snoc: "summary name (ss @ [s]) = bump (fst s) (snd s) (summary name ss)"
  by (simp add: summary_def bump_def i64_add_left max_def)

lemma summary_Nil: "summary name [] = fresh_metric name"
  by (simp add: summary_def fresh_metric_def i64_def)

lemma run_samples_snoc:
  "run_samples (es @ [e]) r = record_call (fst e) (fst (snd e)) (snd (snd e)) (run_samples es r)"
  by (simp add: run_samples_def split: prod.splits)

lemma record_call_open [simp]:
  "rc_closed (record_call op f t r) = rc_closed r"
  "length (rp_Metrics (rc_report (record_call op f t r))) = length (rp_Metrics (rc_report r))"
  by (simp_all add: record_call_def)

lemma run_samples_open [simp]:
  "rc_closed (run_samples es r) = rc_closed r"
  "length (rp_Metrics (rc_report (run_samples es r))) = length (rp_Metrics (rc_report r))"
  by (induction es rule: rev_induct) (simp_all add: run_samples_snoc, simp_all add: run_samples_def)

lemma record_call_nth:
  assumes "\<not> rc_closed r" and "length (rp_Metrics (rc_report r)) = 8" and "op < operationCount"
  shows "rp_Metrics (rc_report (record_call op' f t r)) ! unat op =
     (if op' = op then bump f t (rp_Metrics (rc_report r) ! unat op) else rp_Metrics (rc_report r) ! unat op)"
  using assms
  by (auto simp: record_call_def operationCount_def word_less_nat_alt nth_list_update word_unat_eq_iff)

lemma run_samples_nth:
  assumes "\<not> rc_closed r" and "length (rp_Metrics (rc_report r)) = 8" and "op < operationCount"
    and "rp_Metrics (rc_report r) ! unat op = fresh_metric name"
  shows "rp_Metrics (rc_report (run_samples es r)) ! unat op = summary name (samples_of op es)"
proof (induction es rule: rev_induct)
  case Nil
  then show ?case using assms(4) by (simp add: run_samples_def samples_of_def summary_Nil)
next
  case (snoc e es)
  show ?case
    unfolding run_samples_snoc
    by (subst record_call_nth) (use assms snoc in \<open>auto simp: samples_of_def summary_snoc\<close>)
qed

text \<open>
  The counters are exact: after any sequence of attempts on an open recorder the metric of each
  operation holds the number of its attempts and of its failures (in 64 bits), the sum of their
  durations (in \<open>int64\<close>) and the longest one, and keeps its fixed label.
\<close>

theorem recorder_counts:
  assumes "op < operationCount"
  shows "rp_Metrics (rc_report (run_samples es (fresh_recorder label path now))) ! unat op
    = summary (op_names ! unat op) (samples_of op es)"
proof (rule run_samples_nth)
  have "unat op < length op_names"
    using assms by (simp add: op_names_def operationCount_def word_less_nat_alt)
  then show "rp_Metrics (rc_report (fresh_recorder label path now)) ! unat op = fresh_metric (op_names ! unat op)"
    by (simp add: fresh_recorder_def)
qed (use assms in \<open>simp_all add: fresh_recorder_def op_names_def\<close>)

theorem recorder_counts_witness:
  "rp_Metrics (rc_report (run_samples [(0, True, 7), (1, False, 2), (0, False, 5)]
     (fresh_recorder ''ftp'' ''/r'' 0))) ! 0
   = \<lparr>m_Operation = ''logical.stat'', m_Calls = 2, m_Errors = 1, m_TotalNS = 12, m_MaxNS = 7\<rparr>"
  using recorder_counts [of 0 "[(0, True, 7), (1, False, 2), (0, False, 5)]" "''ftp''" "''/r''" 0]
  by (simp add: operationCount_def summary_def samples_of_def op_names_def i64_def)

subsection \<open>Closing\<close>

lemma close_closed: "rc_closed r \<Longrightarrow> recorder_Close enc now (Some r) fs = (rc_closeErr r, Some r, fs)"
  by (simp add: recorder_Close_def)

lemma close_result:
  assumes "recorder_Close enc now (Some r) fs = (e, ro, fs')"
  shows "\<exists>r'. ro = Some r' \<and> rc_closed r' \<and> rc_closeErr r' = e"
proof (cases "rc_closed r")
  case True
  with assms show ?thesis by (auto simp: recorder_Close_def)
next
  case False
  with assms show ?thesis
    by (auto simp: recorder_Close_def Let_def split: prod.splits sum.splits)
qed

lemma closed_frozen: "rc_closed r \<Longrightarrow> run_samples es r = r"
  by (induction es rule: rev_induct) (simp_all add: run_samples_snoc record_call_def, simp add: run_samples_def)

text \<open>
  The report is written once: after a close, whatever attempts finish late, the recorder is
  unchanged, and any further close returns the first close's error without touching the disk.
\<close>

theorem recorder_closes_once:
  assumes "recorder_Close enc now (Some r) fs = (e, Some r', fs')"
  shows "run_samples es r' = r' \<and> recorder_Close enc' now' (Some (run_samples es r')) fs2 = (e, Some r', fs2)"
  using close_result [OF assms] by (auto simp: closed_frozen close_closed)

definition demo_recorder :: recorder where
  "demo_recorder = fresh_recorder ''ftp'' ''/r'' 0"

definition full_disk :: lfs where
  "full_disk = \<lparr>fs_nodes = [(''/r'', Reg [] 0 False)], fs_cwd = ''/'',
     fs_faults = (\<lambda>op p. if op = OpWrite then Some (PathErr ENOSPC) else None)\<rparr>"

lemma demo_close:
  "recorder_Close (\<lambda>_. Inr [1]) 5 (Some demo_recorder) full_disk =
   (Some (PathErr ENOSPC),
    Some (demo_recorder\<lparr>rc_closed := True, rc_closeErr := Some (PathErr ENOSPC),
      rc_report := (rc_report demo_recorder)\<lparr>rp_ElapsedNS := 5\<rparr>\<rparr>), full_disk)"
  by (simp add: recorder_Close_def demo_recorder_def fresh_recorder_def full_disk_def file_WriteAt_def
      time_Sub_def min_i64_def max_i64_def Let_def)

theorem recorder_closes_once_witness:
  "\<exists>r'. recorder_Close (\<lambda>_. Inr []) 9 (Some (run_samples [(0, True, 7)] r')) full_disk
     = (Some (PathErr ENOSPC), Some r', full_disk)"
  using recorder_closes_once [OF demo_close] by blast

text \<open>
  A recorder exists only when the caller names a directory; then its report carries one of six
  fixed labels whatever text the caller passed, and its file is a new one: nothing that existed on the
  disk is changed.
\<close>

theorem diagnostics_open_safe:
  assumes "diagnostics_Open directory protocol rnd now fs = (Inr ro, fs')"
  shows "(directory = '''' \<longrightarrow> ro = None \<and> fs' = fs) \<and>
    (\<forall>r. ro = Some r \<longrightarrow>
       rp_Protocol (rc_report r) \<in> {''sftp'', ''webdav'', ''ftp'', ''explicit-ftps'', ''implicit-ftps'', ''unknown''}) \<and>
    (\<forall>p n. fs_get fs p = Some n \<longrightarrow> fs_get fs' p = Some n)"
proof (cases "directory = ''''")
  case True
  with assms show ?thesis by (auto simp: diagnostics_Open_def)
next
  case False
  with assms show ?thesis
    by (auto simp: diagnostics_Open_def os_MkdirAll_def os_CreateTemp_def Let_def fresh_recorder_def
        protocol_label_def fs_simps split: option.splits if_splits node.splits)
qed

theorem diagnostics_open_safe_witness:
  "\<exists>r fs'. diagnostics_Open ''/d'' ''https://user@host'' ''1'' 0 full_disk = (Inr (Some r), fs') \<and>
     rp_Protocol (rc_report r) \<in> {''sftp'', ''webdav'', ''ftp'', ''explicit-ftps'', ''implicit-ftps'', ''unknown''}"
proof -
  obtain r fs' where run: "diagnostics_Open ''/d'' ''https://user@host'' ''1'' 0 full_disk = (Inr (Some r), fs')"
    by (simp add: diagnostics_Open_def full_disk_def os_MkdirAll_def os_CreateTemp_def fs_get_def fs_set_def Let_def)
  from diagnostics_open_safe [OF run] run show ?thesis by blast
qed

end
