(* ===== verification/Cache_Store.thy ===== *)
theory Cache_Store
  imports Local_FS
begin

text \<open>
  \<^verbatim>\<open>internal/cache/store.go\<close>: the directory of staging files, the recovery metadata next to
  them, the quota, the retention and the export of preserved files, over the local file system of
  \<^theory_text>\<open>Local_FS\<close>. The JSON codec is a parameter; the random part of a temporary name and
  the clock are arguments.
\<close>

definition stagingPrefix :: string where "stagingPrefix = ''staging-''"
definition metadataSuffix :: string where "metadataSuffix = ''.recovery.json''"
definition MetadataVersion :: int where "MetadataVersion = 1"

type_synonym recovery_state = string

definition StatePreserved :: recovery_state where "StatePreserved = ''preserved''"
definition StateMissingMetadata :: recovery_state where "StateMissingMetadata = ''missing_metadata''"
definition StateMissingStaging :: recovery_state where "StateMissingStaging = ''missing_staging''"
definition StateInvalidMetadata :: recovery_state where "StateInvalidMetadata = ''invalid_metadata''"
definition StateUnsafeStaging :: recovery_state where "StateUnsafeStaging = ''unsafe_staging''"

lemmas state_defs = StatePreserved_def StateMissingMetadata_def StateMissingStaging_def
  StateInvalidMetadata_def StateUnsafeStaging_def

record recovery_metadata =
  rm_Version :: int
  rm_ProfileID :: string
  rm_ProfileName :: string
  rm_Protocol :: string
  rm_RemotePath :: string
  rm_StagingPath :: string
  rm_Size :: int
  rm_CreatedAt :: instant
  rm_UpdatedAt :: instant
  rm_PreservedAt :: instant
  rm_Reason :: string
  rm_LastError :: string
  rm_RecoveryState :: recovery_state

definition zero_metadata :: recovery_metadata where
  "zero_metadata = \<lparr>rm_Version = 0, rm_ProfileID = [], rm_ProfileName = [], rm_Protocol = [],
     rm_RemotePath = [], rm_StagingPath = [], rm_Size = 0, rm_CreatedAt = 0, rm_UpdatedAt = 0,
     rm_PreservedAt = 0, rm_Reason = [], rm_LastError = [], rm_RecoveryState = []\<rparr>"

record preservation =
  pv_ProfileID :: string
  pv_ProfileName :: string
  pv_Protocol :: string
  pv_RemotePath :: string
  pv_StagingPath :: string
  pv_CreatedAt :: instant
  pv_Reason :: string
  pv_LastError :: "err option"

record recovery_item =
  ri_Metadata :: recovery_metadata
  ri_MetadataPath :: string
  ri_Problem :: string

record profile_usage =
  pu_Items :: int
  pu_Bytes :: int

record usage =
  us_TotalBytes :: int
  us_RecoveryItems :: int
  us_RecoveryBytes :: int
  us_UnclassifiedItems :: int
  us_UnclassifiedBytes :: int
  us_Profiles :: "(string \<times> profile_usage) list"

record limits =
  lm_MaxFileBytes :: int
  lm_MaxTotalBytes :: int

record store =
  st_directory :: string
  st_limits :: limits

text \<open>The metadata's JSON: \<open>json.Encoder.Encode\<close> (with its newline) and \<open>json.Unmarshal\<close>.\<close>

record metadata_codec =
  mj_Encode :: "recovery_metadata \<Rightarrow> err + bytes"
  mj_Unmarshal :: "bytes \<Rightarrow> err + recovery_metadata"

subsection \<open>Opening the store\<close>

definition NewWithLimits ::
  "(err + string) \<Rightarrow> string \<Rightarrow> limits \<Rightarrow> lfs \<Rightarrow> (err + store) \<times> lfs" where
  "NewWithLimits userCacheDir directory lims fs =
     (case (if TrimSpace directory = ''''
            then (case userCacheDir of
                    Inl e \<Rightarrow> Inl (Wrapped ''user cache path'' e)
                  | Inr root \<Rightarrow> Inr (path_Join [root, ''DKDrive'', ''Cache'']))
            else Inr directory) of
        Inl e \<Rightarrow> (Inl e, fs)
      | Inr directory \<Rightarrow>
          (case filepath_Abs fs directory of
             Inl e \<Rightarrow> (Inl (Wrapped ''cache path'' e), fs)
           | Inr directory \<Rightarrow>
               (case os_MkdirAll directory fs of
                  (Some e, fs') \<Rightarrow> (Inl (Wrapped ''create cache folder'' e), fs')
                | (None, fs') \<Rightarrow> (Inr \<lparr>st_directory = directory, st_limits = lims\<rparr>, fs'))))"

definition New :: "(err + string) \<Rightarrow> string \<Rightarrow> lfs \<Rightarrow> (err + store) \<times> lfs" where
  "New userCacheDir directory fs =
     NewWithLimits userCacheDir directory \<lparr>lm_MaxFileBytes = 0, lm_MaxTotalBytes = 0\<rparr> fs"

subsection \<open>Paths inside the cache\<close>

definition safeStagingPath :: "store \<Rightarrow> lfs \<Rightarrow> string \<Rightarrow> err + string" where
  "safeStagingPath st fs value =
     (case filepath_Abs fs value of
        Inl e \<Rightarrow> Inl (Wrapped ''preserved cache path'' e)
      | Inr absolute \<Rightarrow>
          let relative = filepath_Rel (st_directory st) absolute
          in if relative = ''.'' \<or> filepath_IsAbs relative \<or> relative = ''..'' \<or> HasPrefix relative ''../'' \<or>
                path_Dir relative \<noteq> ''.'' \<or> \<not> HasPrefix (path_Base relative) ''staging-''
             then Inl (ErrNew ''staging path outside the cache root'')
             else Inr (path_Join [st_directory st, relative]))"

definition contains_path :: "store \<Rightarrow> string \<Rightarrow> bool" where
  "contains_path st value =
     (let relative = filepath_Rel (st_directory st) value
      in \<not> filepath_IsAbs relative \<and> relative \<noteq> ''..'' \<and> \<not> HasPrefix relative ''../'')"

definition unsafe_mode :: "finfo \<Rightarrow> bool" where
  "unsafe_mode info \<longleftrightarrow> mode_IsSymlink (fi_Mode info) \<or> \<not> mode_IsRegular (fi_Mode info)"

subsection \<open>Staging files and the quota\<close>

definition CreateStaging :: "store \<Rightarrow> string \<Rightarrow> instant \<Rightarrow> lfs \<Rightarrow> (err + string) \<times> lfs" where
  "CreateStaging st rnd now fs =
     (case os_CreateTemp (st_directory st) ''staging-'' '''' rnd now fs of
        (Inl e, fs') \<Rightarrow> (Inl (Wrapped ''create staging file'' e), fs')
      | (Inr p, fs') \<Rightarrow> (Inr p, fs'))"

fun sum_regular :: "string \<Rightarrow> lfs \<Rightarrow> (string \<times> node) list \<Rightarrow> int \<Rightarrow> err + int" where
  "sum_regular d fs [] acc = Inr acc"
| "sum_regular d fs (e # es) acc =
     (case entry_Info d e fs of
        Inl er \<Rightarrow> Inl (Wrapped ''cache entry size'' er)
      | Inr info \<Rightarrow> sum_regular d fs es (if unsafe_mode info then acc else i64 (acc + fi_Size info)))"

definition totalRegularBytes :: "store \<Rightarrow> lfs \<Rightarrow> err + int" where
  "totalRegularBytes st fs =
     (case os_ReadDir (st_directory st) fs of
        Inl e \<Rightarrow> Inl (Wrapped ''cache usage'' e)
      | Inr entries \<Rightarrow> sum_regular (st_directory st) fs entries 0)"

text \<open>
  \<open>LockResize\<close>: on None the caller holds \<open>resizeMutex\<close> until its write is done; on an error the
  mutex is free again.
\<close>

definition LockResize :: "store \<Rightarrow> string \<Rightarrow> int \<Rightarrow> lfs \<Rightarrow> err option" where
  "LockResize st stagingPath newSize fs =
     (if newSize < 0 then Some (ErrNew ''negative size'')
      else if lm_MaxFileBytes (st_limits st) > 0 \<and> newSize > lm_MaxFileBytes (st_limits st)
      then Some (Wrapped ''file limit exceeded'' (Sentinel ENOSPC))
      else case safeStagingPath st fs stagingPath of
             Inl e \<Rightarrow> Some e
           | Inr path \<Rightarrow>
               (case (case os_Lstat path fs of
                        Inr info \<Rightarrow> if unsafe_mode info then Inl (ErrNew ''not a regular file'')
                                   else Inr (fi_Size info)
                      | Inl e \<Rightarrow> if \<not> errors_Is e ErrNotExist then Inl (Wrapped ''cache file size'' e) else Inr 0) of
                  Inl e \<Rightarrow> Some e
                | Inr currentSize \<Rightarrow>
                    if lm_MaxTotalBytes (st_limits st) > 0 \<and> newSize > currentSize
                    then (case totalRegularBytes st fs of
                            Inl e \<Rightarrow> Some e
                          | Inr used \<Rightarrow>
                              let growth = newSize - currentSize
                              in if used > lm_MaxTotalBytes (st_limits st) - growth
                                 then Some (Wrapped ''total limit exceeded'' (Sentinel ENOSPC))
                                 else None)
                    else None))"

subsection \<open>Clearing\<close>

fun clear_loop :: "string \<Rightarrow> (string \<times> node) list \<Rightarrow> int \<Rightarrow> err option \<Rightarrow> lfs \<Rightarrow> (int \<times> err option) \<times> lfs" where
  "clear_loop d [] removed result fs = ((removed, result), fs)"
| "clear_loop d (e # es) removed result fs =
     (case os_RemoveAll (path_Join [d, fst e]) fs of
        (Some er, fs') \<Rightarrow> clear_loop d es removed (errors_Join [result, Some (Wrapped (fst e) er)]) fs'
      | (None, fs') \<Rightarrow> clear_loop d es (removed + 1) result fs')"

definition store_Clear :: "store \<Rightarrow> lfs \<Rightarrow> (int \<times> err option) \<times> lfs" where
  "store_Clear st fs =
     (case os_Lstat (st_directory st) fs of
        Inl e \<Rightarrow> ((0, Some (Wrapped ''cache folder'' e)), fs)
      | Inr info \<Rightarrow>
          if mode_IsSymlink (fi_Mode info) \<or> \<not> mode_IsDir (fi_Mode info)
          then ((0, Some (ErrNew ''cache path is not a plain folder'')), fs)
          else (case os_ReadDir (st_directory st) fs of
                  Inl e \<Rightarrow> ((0, Some (Wrapped ''read cache folder'' e)), fs)
                | Inr entries \<Rightarrow>
                    (case clear_loop (st_directory st) entries 0 None fs of
                       ((removed, result), fs') \<Rightarrow>
                         ((removed, map_option (Wrapped ''some entries remain'') result), fs'))))"

subsection \<open>Writing metadata\<close>

text \<open>
  The error and every state the disk goes through, oldest first. The deferred removal runs unless the
  rename succeeded.
\<close>

definition writeMetadataAtomic ::
  "metadata_codec \<Rightarrow> store \<Rightarrow> string \<Rightarrow> recovery_metadata \<Rightarrow> string \<Rightarrow> instant \<Rightarrow> lfs \<Rightarrow> err option \<times> lfs list" where
  "writeMetadataAtomic mj st destination metadata rnd now fs =
     (case os_CreateTemp (st_directory st) ''.recovery-metadata-'' ''.tmp'' rnd now fs of
        (Inl e, fs1) \<Rightarrow> (Some (Wrapped ''create metadata file'' e), [fs, fs1])
      | (Inr tmp, fs1) \<Rightarrow>
          (case (case mj_Encode mj metadata of
                   Inl e \<Rightarrow> (Some e, fs1)
                 | Inr doc \<Rightarrow> (case file_WriteAt tmp doc 0 now fs1 of ((n, e), fs') \<Rightarrow> (e, fs'))) of
             (Some e, fs2) \<Rightarrow> (Some (Wrapped ''write metadata'' e), [fs, fs1, fs2, snd (os_Remove tmp fs2)])
           | (None, fs2) \<Rightarrow>
               (case file_Sync tmp fs2 of
                  (Some e, fs3) \<Rightarrow> (Some (Wrapped ''sync metadata'' e), [fs, fs1, fs2, fs3, snd (os_Remove tmp fs3)])
                | (None, fs3) \<Rightarrow>
                    (case file_Close tmp fs3 of
                       Some e \<Rightarrow> (Some (Wrapped ''close metadata'' e), [fs, fs1, fs2, fs3, snd (os_Remove tmp fs3)])
                     | None \<Rightarrow>
                         (case os_Rename tmp destination fs3 of
                            (Some e, fs4) \<Rightarrow> (Some (Wrapped ''publish metadata'' e),
                                              [fs, fs1, fs2, fs3, fs4, snd (os_Remove tmp fs4)])
                          | (None, fs4) \<Rightarrow> (None, [fs, fs1, fs2, fs3, fs4]))))))"

definition store_Preserve ::
  "metadata_codec \<Rightarrow> store \<Rightarrow> preservation \<Rightarrow> string \<Rightarrow> instant \<Rightarrow> lfs \<Rightarrow> (err + recovery_item) \<times> lfs list" where
  "store_Preserve mj st v rnd now fs =
     (case safeStagingPath st fs (pv_StagingPath v) of
        Inl e \<Rightarrow> (Inl e, [fs])
      | Inr stagingPath \<Rightarrow>
          (case os_Lstat stagingPath fs of
             Inl e \<Rightarrow> (Inl (Wrapped ''preserved cache file'' e), [fs])
           | Inr info \<Rightarrow>
               if unsafe_mode info then (Inl (ErrNew ''not a regular file''), [fs])
               else
                 let createdAt = (if time_IsZero (pv_CreatedAt v) then fi_ModTime info else pv_CreatedAt v);
                     metadata = \<lparr>rm_Version = MetadataVersion, rm_ProfileID = pv_ProfileID v,
                       rm_ProfileName = pv_ProfileName v, rm_Protocol = pv_Protocol v,
                       rm_RemotePath = pv_RemotePath v, rm_StagingPath = stagingPath,
                       rm_Size = fi_Size info, rm_CreatedAt = createdAt, rm_UpdatedAt = fi_ModTime info,
                       rm_PreservedAt = now, rm_Reason = pv_Reason v,
                       rm_LastError = (case pv_LastError v of None \<Rightarrow> '''' | Some e \<Rightarrow> err_Error e),
                       rm_RecoveryState = StatePreserved\<rparr>;
                     metadataPath = stagingPath @ metadataSuffix
                 in (case writeMetadataAtomic mj st metadataPath metadata rnd now fs of
                       (Some e, sts) \<Rightarrow> (Inl e, sts)
                     | (None, sts) \<Rightarrow> (Inr \<lparr>ri_Metadata = metadata, ri_MetadataPath = metadataPath, ri_Problem = ''''\<rparr>, sts))))"

subsection \<open>Scanning\<close>

definition invalid_item :: "string \<Rightarrow> string \<Rightarrow> string \<Rightarrow> recovery_item" where
  "invalid_item metadataPath expectedStaging problem = \<lparr>
     ri_Metadata = zero_metadata\<lparr>rm_Version := MetadataVersion, rm_StagingPath := expectedStaging,
       rm_RecoveryState := StateInvalidMetadata\<rparr>,
     ri_MetadataPath = metadataPath, ri_Problem = problem\<rparr>"

definition scanMetadata :: "metadata_codec \<Rightarrow> store \<Rightarrow> string \<Rightarrow> string \<Rightarrow> lfs \<Rightarrow> recovery_item" where
  "scanMetadata mj st metadataPath expectedStaging fs =
     (case os_ReadFile metadataPath fs of
        Inl e \<Rightarrow> invalid_item metadataPath expectedStaging (err_Error e)
      | Inr data \<Rightarrow>
          (case mj_Unmarshal mj data of
             Inl e \<Rightarrow> invalid_item metadataPath expectedStaging (''metadata JSON: '' @ err_Error e)
           | Inr md \<Rightarrow>
               let actual = safeStagingPath st fs (rm_StagingPath md);
                   bad = \<lparr>ri_Metadata = md\<lparr>rm_StagingPath := expectedStaging, rm_RecoveryState := StateInvalidMetadata\<rparr>,
                          ri_MetadataPath = metadataPath, ri_Problem = ''''\<rparr>
               in case actual of
                    Inl e \<Rightarrow> bad\<lparr>ri_Problem := err_Error e\<rparr>
                  | Inr actualStaging \<Rightarrow>
                      if actualStaging \<noteq> expectedStaging then bad\<lparr>ri_Problem := ''staging path mismatch''\<rparr>
                      else if rm_Version md \<noteq> MetadataVersion then bad\<lparr>ri_Problem := ''unsupported version''\<rparr>
                      else if rm_RecoveryState md \<noteq> StatePreserved then bad\<lparr>ri_Problem := ''unsupported state''\<rparr>
                      else (case os_Lstat expectedStaging fs of
                              Inl e \<Rightarrow>
                                if os_IsNotExist e
                                then \<lparr>ri_Metadata = md\<lparr>rm_RecoveryState := StateMissingStaging\<rparr>,
                                       ri_MetadataPath = metadataPath, ri_Problem = ''staging file missing''\<rparr>
                                else \<lparr>ri_Metadata = md\<lparr>rm_RecoveryState := StateInvalidMetadata\<rparr>,
                                       ri_MetadataPath = metadataPath, ri_Problem = err_Error e\<rparr>
                            | Inr info \<Rightarrow>
                                if unsafe_mode info
                                then \<lparr>ri_Metadata = md\<lparr>rm_RecoveryState := StateUnsafeStaging\<rparr>,
                                       ri_MetadataPath = metadataPath, ri_Problem = ''not a regular file''\<rparr>
                                else \<lparr>ri_Metadata = md\<lparr>rm_Size := fi_Size info\<rparr>,
                                       ri_MetadataPath = metadataPath, ri_Problem = ''''\<rparr>)))"

definition is_metadata_entry :: "string \<times> node \<Rightarrow> bool" where
  "is_metadata_entry e \<longleftrightarrow> snd e \<noteq> DirNode \<and> HasSuffix (fst e) metadataSuffix"

definition is_staging_entry :: "string \<times> node \<Rightarrow> bool" where
  "is_staging_entry e \<longleftrightarrow> snd e \<noteq> DirNode \<and> HasPrefix (fst e) ''staging-'' \<and> \<not> HasSuffix (fst e) metadataSuffix"

definition expected_staging :: "store \<Rightarrow> string \<times> node \<Rightarrow> string" where
  "expected_staging st e = TrimSuffix (path_Join [st_directory st, fst e]) metadataSuffix"

text \<open>The item of a staging file no metadata names.\<close>

definition scan_staging :: "store \<Rightarrow> string \<times> node \<Rightarrow> lfs \<Rightarrow> recovery_item" where
  "scan_staging st e fs =
     (let stagingPath = path_Join [st_directory st, fst e];
          md = zero_metadata\<lparr>rm_Version := MetadataVersion, rm_StagingPath := stagingPath,
                 rm_RecoveryState := StateMissingMetadata\<rparr>;
          item = \<lparr>ri_Metadata = md, ri_MetadataPath = '''', ri_Problem = ''''\<rparr>
      in if mode_IsSymlink (fi_Mode (node_info (snd e)))
         then item\<lparr>ri_Metadata := md\<lparr>rm_RecoveryState := StateUnsafeStaging\<rparr>, ri_Problem := ''symbolic link''\<rparr>
         else (case entry_Info (st_directory st) e fs of
                 Inl er \<Rightarrow> item\<lparr>ri_Problem := err_Error er\<rparr>
               | Inr info \<Rightarrow> item\<lparr>ri_Metadata := md\<lparr>rm_Size := fi_Size info, rm_CreatedAt := fi_ModTime info,
                                                    rm_UpdatedAt := fi_ModTime info\<rparr>\<rparr>))"

definition store_Scan :: "metadata_codec \<Rightarrow> store \<Rightarrow> lfs \<Rightarrow> err + recovery_item list" where
  "store_Scan mj st fs =
     (case os_ReadDir (st_directory st) fs of
        Inl e \<Rightarrow> Inl (Wrapped ''scan cache folder'' e)
      | Inr entries \<Rightarrow>
          let metas = filter is_metadata_entry entries;
              seenStaging = map (expected_staging st) metas;
              rest = filter (\<lambda>e. path_Join [st_directory st, fst e] \<notin> set seenStaging)
                       (filter is_staging_entry entries)
          in Inr (map (\<lambda>e. scanMetadata mj st (path_Join [st_directory st, fst e]) (expected_staging st e) fs) metas
                  @ map (\<lambda>e. scan_staging st e fs) rest))"

subsection \<open>Usage\<close>

definition add_profile :: "string \<Rightarrow> int \<Rightarrow> (string \<times> profile_usage) list \<Rightarrow> (string \<times> profile_usage) list" where
  "add_profile pid n m =
     (let old = (case map_of m pid of Some u \<Rightarrow> u | None \<Rightarrow> \<lparr>pu_Items = 0, pu_Bytes = 0\<rparr>)
      in AList.update pid \<lparr>pu_Items = pu_Items old + 1, pu_Bytes = pu_Bytes old + n\<rparr> m)"

fun usage_items :: "store \<Rightarrow> lfs \<Rightarrow> recovery_item list \<Rightarrow> string list \<Rightarrow> usage \<Rightarrow> usage" where
  "usage_items st fs [] seen u = u"
| "usage_items st fs (item # items) seen u =
     (let missing = (rm_RecoveryState (ri_Metadata item) = StateMissingMetadata);
          u1 = u\<lparr>us_RecoveryItems := us_RecoveryItems u + 1,
                 us_UnclassifiedItems := us_UnclassifiedItems u + (if missing then 1 else 0)\<rparr>
      in case safeStagingPath st fs (rm_StagingPath (ri_Metadata item)) of
           Inl e \<Rightarrow> usage_items st fs items seen u1
         | Inr stagingPath \<Rightarrow>
             if stagingPath \<in> set seen then usage_items st fs items seen u1
             else (case os_Lstat stagingPath fs of
                     Inl e \<Rightarrow> usage_items st fs items seen u1
                   | Inr info \<Rightarrow>
                       if unsafe_mode info then usage_items st fs items seen u1
                       else usage_items st fs items (stagingPath # seen)
                              (u1\<lparr>us_RecoveryBytes := us_RecoveryBytes u1 + fi_Size info,
                                 us_UnclassifiedBytes := us_UnclassifiedBytes u1 + (if missing then fi_Size info else 0),
                                 us_Profiles := (if rm_ProfileID (ri_Metadata item) \<noteq> ''''
                                   then add_profile (rm_ProfileID (ri_Metadata item)) (fi_Size info) (us_Profiles u1)
                                   else us_Profiles u1)\<rparr>)))"

definition store_Usage :: "store \<Rightarrow> recovery_item list \<Rightarrow> lfs \<Rightarrow> err + usage" where
  "store_Usage st items fs =
     (case totalRegularBytes st fs of
        Inl e \<Rightarrow> Inl e
      | Inr acc \<Rightarrow>
          Inr (usage_items st fs items []
                \<lparr>us_TotalBytes = acc, us_RecoveryItems = 0, us_RecoveryBytes = 0,
                 us_UnclassifiedItems = 0, us_UnclassifiedBytes = 0, us_Profiles = []\<rparr>))"

subsection \<open>Export, retry and deletion\<close>

definition store_Export :: "store \<Rightarrow> recovery_item \<Rightarrow> string \<Rightarrow> instant \<Rightarrow> lfs \<Rightarrow> err option \<times> lfs" where
  "store_Export st item destination now fs =
     (let rs = rm_RecoveryState (ri_Metadata item)
      in if rs \<noteq> StatePreserved \<and> rs \<noteq> StateMissingMetadata then (Some (ErrNew ''export not allowed in this state''), fs)
      else case safeStagingPath st fs (rm_StagingPath (ri_Metadata item)) of
        Inl e \<Rightarrow> (Some e, fs)
      | Inr sourcePath \<Rightarrow>
     (case os_Lstat sourcePath fs of
        Inl e \<Rightarrow> (Some (Wrapped ''source'' e), fs)
      | Inr sourceInfo \<Rightarrow>
          if unsafe_mode sourceInfo then (Some (ErrNew ''source is not a regular file''), fs)
          else case filepath_Abs fs destination of
            Inl e \<Rightarrow> (Some (Wrapped ''destination'' e), fs)
          | Inr destinationPath \<Rightarrow>
              if contains_path st destinationPath then (Some (ErrNew ''destination inside the cache''), fs)
              else case (case os_Lstat destinationPath fs of
                           Inr info \<Rightarrow> if mode_IsSymlink (fi_Mode info) \<or> destinationPath = sourcePath
                                      then Some (ErrNew ''destination is the source or a link'') else None
                         | Inl e \<Rightarrow> if \<not> os_IsNotExist e then Some (Wrapped ''destination'' e) else None) of
                     Some e \<Rightarrow> (Some e, fs)
                   | None \<Rightarrow>
     (case os_Open sourcePath fs of
        Inl e \<Rightarrow> (Some (Wrapped ''open source'' e), fs)
      | Inr _ \<Rightarrow>
          (case os_OpenTrunc destinationPath now fs of
             (Inl e, fs1) \<Rightarrow> (Some (Wrapped ''create destination'' e), fs1)
           | (Inr opened, fs1) \<Rightarrow>
               let (copyErr, fs2) = (case os_ReadFile sourcePath fs1 of
                                       Inl e \<Rightarrow> (Some e, fs1)
                                     | Inr d \<Rightarrow> (case file_WriteAt opened d 0 now fs1 of ((n, e), fs') \<Rightarrow> (e, fs')));
                   (syncErr, fs3) = file_Sync opened fs2;
                   closeErr = file_Close opened fs3;
                   sourceCloseErr = file_Close sourcePath fs3
               in (map_option (Wrapped ''export failed'') (errors_Join [copyErr, syncErr, closeErr, sourceCloseErr]), fs3)))))"

definition OpenRecovery :: "store \<Rightarrow> recovery_item \<Rightarrow> lfs \<Rightarrow> err + string \<times> finfo" where
  "OpenRecovery st item fs =
     (if rm_RecoveryState (ri_Metadata item) \<noteq> StatePreserved then Inl (ErrNew ''retry not allowed in this state'')
      else case safeStagingPath st fs (rm_StagingPath (ri_Metadata item)) of
        Inl e \<Rightarrow> Inl e
      | Inr stagingPath \<Rightarrow>
          (case os_Lstat stagingPath fs of
             Inl e \<Rightarrow> Inl (Wrapped ''cache file'' e)
           | Inr info \<Rightarrow>
               if unsafe_mode info then Inl (ErrNew ''not a regular file'')
               else (case os_Open stagingPath fs of
                       Inl e \<Rightarrow> Inl (Wrapped ''open cache file'' e)
                     | Inr _ \<Rightarrow> Inr (stagingPath, info))))"

definition removeRecoveryFile :: "string \<Rightarrow> lfs \<Rightarrow> err option \<times> lfs" where
  "removeRecoveryFile filename fs =
     (case os_Lstat filename fs of
        Inl e \<Rightarrow> if os_IsNotExist e then (None, fs) else (Some e, fs)
      | Inr info \<Rightarrow>
          if mode_IsDir (fi_Mode info) then (Some (ErrNew ''a directory is not a recovery item''), fs)
          else os_Remove filename fs)"

definition deletable_states :: "recovery_state list" where
  "deletable_states = [StatePreserved, StateMissingMetadata, StateMissingStaging, StateInvalidMetadata, StateUnsafeStaging]"

definition store_Delete :: "store \<Rightarrow> recovery_item \<Rightarrow> lfs \<Rightarrow> err option \<times> lfs" where
  "store_Delete st item fs =
     (if rm_RecoveryState (ri_Metadata item) \<notin> set deletable_states
      then (Some (ErrNew ''state cannot be deleted''), fs)
      else case safeStagingPath st fs (rm_StagingPath (ri_Metadata item)) of
        Inl e \<Rightarrow> (Some e, fs)
      | Inr stagingPath \<Rightarrow>
          (case (if ri_MetadataPath item \<noteq> ''''
                 then (case filepath_Abs fs (ri_MetadataPath item) of
                         Inl e \<Rightarrow> Inl (Wrapped ''metadata path'' e)
                       | Inr p \<Rightarrow> if p \<noteq> stagingPath @ metadataSuffix
                                 then Inl (ErrNew ''staging and metadata paths differ'') else Inr p)
                 else Inr '''') of
             Inl e \<Rightarrow> (Some e, fs)
           | Inr metadataPath \<Rightarrow>
               (case removeRecoveryFile stagingPath fs of
                  (Some e, fs1) \<Rightarrow> (Some (Wrapped ''delete staging file'' e), fs1)
                | (None, fs1) \<Rightarrow>
                    if metadataPath \<noteq> ''''
                    then (case removeRecoveryFile metadataPath fs1 of
                            (Some e, fs2) \<Rightarrow> (Some (Wrapped ''delete metadata'' e), fs2)
                          | (None, fs2) \<Rightarrow> (None, fs2))
                    else (None, fs1))))"

subsection \<open>Retention\<close>

definition expired :: "instant \<Rightarrow> recovery_item \<Rightarrow> bool" where
  "expired cutoff item \<longleftrightarrow>
     \<not> (rm_RecoveryState (ri_Metadata item) \<noteq> StatePreserved \<or> time_IsZero (rm_PreservedAt (ri_Metadata item)) \<or>
        rm_PreservedAt (ri_Metadata item) > cutoff)"

fun prune_loop :: "store \<Rightarrow> instant \<Rightarrow> recovery_item list \<Rightarrow> int \<Rightarrow> err option \<Rightarrow> lfs \<Rightarrow> (int \<times> err option) \<times> lfs" where
  "prune_loop st cutoff [] removed result fs = ((removed, result), fs)"
| "prune_loop st cutoff (item # items) removed result fs =
     (if \<not> expired cutoff item then prune_loop st cutoff items removed result fs
      else case store_Delete st item fs of
        (Some e, fs') \<Rightarrow> prune_loop st cutoff items removed (errors_Join [result, Some e]) fs'
      | (None, fs') \<Rightarrow> prune_loop st cutoff items (removed + 1) result fs')"

definition PruneExpired :: "metadata_codec \<Rightarrow> store \<Rightarrow> int \<Rightarrow> instant \<Rightarrow> lfs \<Rightarrow> (int \<times> err option) \<times> lfs" where
  "PruneExpired mj st retentionDays now fs =
     (if retentionDays \<le> 0 then ((0, Some (ErrNew ''retention must be at least one day'')), fs)
      else case store_Scan mj st fs of
        Inl e \<Rightarrow> ((0, Some e), fs)
      | Inr items \<Rightarrow> prune_loop st (time_AddDate_days now (- retentionDays)) items 0 None fs)"

end
