(* ===== verification/Cache_Facts.thy ===== *)
theory Cache_Facts
  imports Cache_Store
begin

text \<open>
  What the cache promises: every path it hands out is a staging file directly inside its directory;
  deletion, pruning and export touch nothing else; the metadata appears complete or not at all; the
  quota and the usage report are exact; preserving and scanning are inverse.
\<close>

subsection \<open>Relative paths of plain components\<close>

lemma Dir_single: "plain n \<Longrightarrow> path_Dir n = ''.''"
  by (simp add: path_Dir_def path_Split_def Split_single plain_def path_Clean_def)

lemma Base_single: "plain n \<Longrightarrow> path_Base n = n"
proof -
  assume n: "plain n"
  then have "last n \<noteq> slash" by (auto simp: plain_def dest: last_in_set)
  with n show ?thesis by (simp add: path_Base_def strip_slashes_id Split_single plain_def)
qed

lemma Clean_relative:
  assumes "list_all plain rs" and "rs \<noteq> []"
  shows "path_Clean (strings_Join rs ''/'' @ ''/'') = strings_Join rs ''/''"
proof -
  note j = Join_plain_no_slash_end [OF assms]
  have "Split (strings_Join rs ''/'' @ slash # []) slash = rs @ ['''']"
    using assms by (simp only: Split_append_sep) (simp add: Split_Join plain_no_slash)
  with assms j show ?thesis
    by (simp add: path_Clean_def Let_def foldl_plain clean_step_skip hd_append)
qed

lemma Dir_relative:
  assumes "list_all plain rs" and "rs \<noteq> []" and "plain n"
  shows "path_Dir (strings_Join (rs @ [n]) ''/'') \<noteq> ''.''"
proof -
  have j: "strings_Join (rs @ [n]) ''/'' = strings_Join rs ''/'' @ slash # n"
    using Join_append [of rs "[n]" "''/''"] assms(2) by simp
  have "list_all plain (rs @ [n])" using assms by simp
  from Split_Join [OF _ plain_no_slash [OF this]]
  have "last (Split (strings_Join (rs @ [n]) ''/'') slash) = n" by simp
  then have "fst (path_Split (strings_Join (rs @ [n]) ''/'')) = strings_Join rs ''/'' @ ''/''"
    by (simp add: path_Split_def Let_def j)
  then have d: "path_Dir (strings_Join (rs @ [n]) ''/'') = strings_Join rs ''/''"
    using Clean_relative [OF assms(1,2)] by (simp add: path_Dir_def)
  show ?thesis
  proof
    assume "path_Dir (strings_Join (rs @ [n]) ''/'') = ''.''"
    with d have "strings_Join rs ''/'' = ''.''" by simp
    then have "rs = [''.'']" using Split_Join [of rs slash] assms by (simp add: plain_no_slash)
    with assms(1) show False by (simp add: plain_def)
  qed
qed

subsection \<open>The staging paths\<close>

definition store_ok :: "store \<Rightarrow> bool" where
  "store_ok st \<longleftrightarrow> st_directory st = abs_path (comps (st_directory st)) \<and> comps (st_directory st) \<noteq> []"

text \<open>The staging file named \<open>n\<close>.\<close>

definition staging_file :: "store \<Rightarrow> string \<Rightarrow> string" where
  "staging_file st n = abs_path (comps (st_directory st) @ [n])"

definition staging_name :: "string \<Rightarrow> bool" where
  "staging_name n \<longleftrightarrow> plain n \<and> prefix ''staging-'' n"

lemma safe_staging_eq:
  assumes st: "store_ok st" and wd: "cwd_ok fs"
  shows "safeStagingPath st fs v = Inr p \<longleftrightarrow>
    filepath_Abs fs v = Inr p \<and> (\<exists>n. staging_name n \<and> p = staging_file st n)"
proof
  let ?ds = "comps (st_directory st)"
  assume "safeStagingPath st fs v = Inr p"
  then obtain a where a: "filepath_Abs fs v = Inr a" and
    r: "filepath_Rel (st_directory st) a \<noteq> ''.''" "filepath_Rel (st_directory st) a \<noteq> ''..''"
       "\<not> HasPrefix (filepath_Rel (st_directory st) a) ''../''"
       "path_Dir (filepath_Rel (st_directory st) a) = ''.''"
       "HasPrefix (path_Base (filepath_Rel (st_directory st) a)) ''staging-''"
    and p: "p = path_Join [st_directory st, filepath_Rel (st_directory st) a]"
    by (auto simp: safeStagingPath_def Let_def split: sum.splits if_splits)
  have a': "a = abs_path (comps a)" by (rule Abs_rooted [OF wd a])
  from st have d: "st_directory st = abs_path ?ds" by (simp add: store_ok_def)
  obtain rs where rs: "comps a = ?ds @ rs"
      "filepath_Rel (st_directory st) a = (if rs = [] then ''.'' else strings_Join rs ''/'')"
    using Rel_inside [OF comps_plain comps_plain, of "filepath_Rel (st_directory st) a" "st_directory st" a]
      r(2,3) d a' by auto
  with r(1) have ne: "rs \<noteq> []" by auto
  have pl: "list_all plain rs" using comps_plain [of a] rs(1) by simp
  obtain us n where un: "rs = us @ [n]" using ne by (metis rev_exhaust)
  have "us = []" using Dir_relative [of us n] pl un r(4) rs(2) ne by auto
  with un pl rs(2) have one: "filepath_Rel (st_directory st) a = n" "plain n" "rs = [n]" by auto
  have "p = staging_file st n"
    using p one d Join_abs_plain [of ?ds "[n]"] by (simp add: staging_file_def)
  moreover have "staging_name n" using r(5) one by (simp add: Base_single HasPrefix_def staging_name_def)
  moreover have "a = staging_file st n" using a' rs(1) one(3) by (simp add: staging_file_def)
  ultimately show "filepath_Abs fs v = Inr p \<and> (\<exists>n. staging_name n \<and> p = staging_file st n)" using a by auto
next
  let ?ds = "comps (st_directory st)"
  assume "filepath_Abs fs v = Inr p \<and> (\<exists>n. staging_name n \<and> p = staging_file st n)"
  then obtain n where a: "filepath_Abs fs v = Inr p" and n: "staging_name n" "p = staging_file st n" by blast
  from n have pl: "plain n" "prefix ''staging-'' n" by (simp_all add: staging_name_def)
  from st have d: "st_directory st = abs_path ?ds" by (simp add: store_ok_def)
  have rel: "filepath_Rel (st_directory st) p = n"
    using Rel_below [of ?ds "[n]"] pl d n(2) by (simp add: staging_file_def)
  have "\<not> filepath_IsAbs n" "\<not> HasPrefix n ''../''"
    using pl by (auto simp: filepath_IsAbs_def HasPrefix_def plain_def prefix_def)
  moreover have "path_Join [st_directory st, n] = p"
    using Join_abs_plain [of ?ds "[n]"] pl d n(2) by (simp add: staging_file_def)
  moreover have "n \<noteq> ''.''" "n \<noteq> ''..''" using pl by (auto simp: plain_def)
  ultimately show "safeStagingPath st fs v = Inr p"
    using a rel pl by (simp add: safeStagingPath_def Let_def Dir_single Base_single HasPrefix_def)
qed

lemma safe_stagingD:
  "store_ok st \<Longrightarrow> cwd_ok fs \<Longrightarrow> safeStagingPath st fs v = Inr p \<Longrightarrow> \<exists>n. staging_name n \<and> p = staging_file st n"
  by (simp add: safe_staging_eq)

lemma safe_staging_file:
  "store_ok st \<Longrightarrow> cwd_ok fs \<Longrightarrow> staging_name n \<Longrightarrow> safeStagingPath st fs (staging_file st n) = Inr (staging_file st n)"
  by (auto simp: safe_staging_eq staging_file_def staging_name_def)

lemma staging_file_inj [simp]:
  "plain n \<Longrightarrow> plain m \<Longrightarrow> staging_file st n = staging_file st m \<longleftrightarrow> n = m"
  by (simp add: staging_file_def abs_path_inj)

lemma staging_file_path: "store_ok st \<Longrightarrow> staging_file st n = st_directory st @ slash # n"
  by (auto simp: staging_file_def store_ok_def abs_path_snoc)

lemma join_dir: "store_ok st \<Longrightarrow> plain n \<Longrightarrow> path_Join [st_directory st, n] = staging_file st n"
  using Join_abs_plain [of "comps (st_directory st)" "[n]"] by (simp add: staging_file_def store_ok_def)

text \<open>
  The cache never leaves its directory: a staging path is accepted exactly when, made absolute and
  cleaned, it is one component directly inside the cache directory whose name starts with
  \<open>staging-\<close>; what is handed out is that cleaned path. Traversals, the directory itself, nested paths
  and foreign files are refused.
\<close>

theorem staging_path_confined:
  assumes "store_ok st" and "cwd_ok fs"
  shows "safeStagingPath st fs v = Inr p \<longleftrightarrow>
    filepath_Abs fs v = Inr p \<and> (\<exists>n. plain n \<and> prefix ''staging-'' n \<and> p = abs_path (comps (st_directory st) @ [n]))"
  using safe_staging_eq [OF assms] by (auto simp: staging_name_def staging_file_def)

definition demo_store :: store where
  "demo_store = \<lparr>st_directory = ''/c'', st_limits = \<lparr>lm_MaxFileBytes = 4, lm_MaxTotalBytes = 6\<rparr>\<rparr>"

lemma demo_store_ok: "store_ok demo_store"
  by (simp add: store_ok_def demo_store_def comps_def norm_def clean_step_def abs_path_def)

definition demo_cache :: lfs where
  "demo_cache = \<lparr>fs_nodes = [(''/c'', DirNode), (''/c/staging-1'', Reg [1, 2, 3] 5 True), (''/home'', DirNode)],
     fs_cwd = ''/home'', fs_faults = (\<lambda>_ _. None)\<rparr>"

lemma demo_cwd_ok: "cwd_ok demo_cache"
  by (simp add: cwd_ok_def demo_cache_def comps_def norm_def clean_step_def abs_path_def)

theorem staging_path_confined_witness:
  "safeStagingPath demo_store demo_cache ''../c/x/../staging-1'' = Inr ''/c/staging-1''
   \<and> (\<forall>p. safeStagingPath demo_store demo_cache ''/c/../staging-1'' \<noteq> Inr p)"
proof -
  note conf = staging_path_confined [OF demo_store_ok demo_cwd_ok]
  have ds: "comps (st_directory demo_store) = [''c'']"
    by (simp add: demo_store_def comps_def norm_def clean_step_def)
  have a1: "filepath_Abs demo_cache ''../c/x/../staging-1'' = Inr ''/c/staging-1''" by code_simp
  have a2: "filepath_Abs demo_cache ''/c/../staging-1'' = Inr ''/staging-1''" by code_simp
  have n: "plain ''staging-1'' \<and> prefix ''staging-'' ''staging-1'' \<and> ''/c/staging-1'' = abs_path [''c'', ''staging-1'']"
    by (simp add: plain_def abs_path_def)
  show ?thesis
  proof (intro conjI allI notI)
    show "safeStagingPath demo_store demo_cache ''../c/x/../staging-1'' = Inr ''/c/staging-1''"
      unfolding conf ds using a1 n by auto
  next
    fix p
    assume "safeStagingPath demo_store demo_cache ''/c/../staging-1'' = Inr p"
    then obtain m where "''/staging-1'' = abs_path ([''c''] @ [m])" unfolding conf ds a2 by auto
    then show False by (simp add: abs_path_def)
  qed
qed

subsection \<open>The file system the store runs on\<close>

text \<open>
  Paths are cleaned and have one node each, the working directory is rooted, and a failing call does
  not claim that the file is missing.
\<close>

definition fs_clean :: "lfs \<Rightarrow> bool" where
  "fs_clean fs \<longleftrightarrow> list_all (\<lambda>p. p = abs_path (comps p)) (al_keys (fs_nodes fs))"

definition honest :: "lfs \<Rightarrow> bool" where
  "honest fs \<longleftrightarrow> (\<forall>q p e. fs_faults fs q p = Some e \<longrightarrow> \<not> errors_Is e ErrNotExist)"

definition store_env :: "store \<Rightarrow> lfs \<Rightarrow> bool" where
  "store_env st fs \<longleftrightarrow> store_ok st \<and> cwd_ok fs \<and> honest fs \<and> fs_clean fs \<and> fs_wf fs"

lemma IsNotExist_Is: "os_IsNotExist e \<Longrightarrow> errors_Is e ErrNotExist"
  by (cases e) simp_all

lemma Lstat_absent: "honest fs \<Longrightarrow> os_Lstat p fs = Inl e \<Longrightarrow> os_IsNotExist e \<Longrightarrow> fs_get fs p = None"
  by (auto simp: os_Lstat_def honest_def dest!: IsNotExist_Is split: option.splits)

lemma node_info_dir [simp]: "mode_IsDir (fi_Mode (node_info n)) \<longleftrightarrow> n = DirNode"
  by (cases n) (simp_all add: mode_IsDir_def ModeDir_def ModeSymlink_def)

lemma node_info_unsafe [simp]: "unsafe_mode (node_info n) \<longleftrightarrow> \<not> is_Reg n"
  by (cases n) (simp_all add: unsafe_mode_def mode_IsSymlink_def mode_IsRegular_def ModeDir_def
      ModeSymlink_def ModeType_def)

lemma Lstat_Inr: "os_Lstat p fs = Inr info \<Longrightarrow> \<exists>n. fs_get fs p = Some n \<and> info = node_info n"
  by (auto simp: os_Lstat_def split: option.splits)

lemma Remove_result:
  "os_Remove p fs = (r, fs') \<Longrightarrow>
   (r = None \<longrightarrow> fs_get fs' p = None \<and> fs_get fs p \<noteq> None) \<and> (r \<noteq> None \<longrightarrow> fs' = fs)"
  by (auto simp: os_Remove_def fs_simps split: option.splits if_splits)

lemma removeRecoveryFile_result:
  assumes "honest fs" and "removeRecoveryFile p fs = (r, fs')"
  shows "(r = None \<longrightarrow> fs_get fs' p = None) \<and> (r \<noteq> None \<longrightarrow> fs' = fs) \<and>
    (\<forall>q. fs_get fs' q \<noteq> fs_get fs q \<longrightarrow> q = p \<and> fs_get fs' q = None \<and> fs_get fs q \<noteq> Some DirNode) \<and>
    fs_faults fs' = fs_faults fs \<and> fs_cwd fs' = fs_cwd fs"
proof (cases "os_Lstat p fs")
  case (Inl e)
  with assms Lstat_absent [OF assms(1) Inl] show ?thesis
    by (auto simp: removeRecoveryFile_def split: if_splits)
next
  case (Inr info)
  obtain n where n: "fs_get fs p = Some n" "info = node_info n" using Lstat_Inr [OF Inr] by blast
  show ?thesis
  proof (cases "n = DirNode")
    case True
    with n have "mode_IsDir (fi_Mode info)" by (simp only: node_info_dir)
    with assms(2) Inr show ?thesis by (auto simp: removeRecoveryFile_def)
  next
    case False
    with n have "\<not> mode_IsDir (fi_Mode info)" using node_info_dir by blast
    with assms(2) Inr have rm: "os_Remove p fs = (r, fs')" by (simp add: removeRecoveryFile_def)
    note res = Remove_result [OF rm]
    have "q = p \<and> fs_get fs' q = None \<and> fs_get fs q \<noteq> Some DirNode" if ch: "fs_get fs' q \<noteq> fs_get fs q" for q
    proof -
      have "q = p" using Remove_frame [of q p fs] rm ch by auto
      moreover have "r = None" using res ch by auto
      ultimately show ?thesis using res n False by simp
    qed
    moreover have "fs_faults fs' = fs_faults fs" "fs_cwd fs' = fs_cwd fs"
      using primitive_faults(3) [of p fs] primitive_cwd(3) [of p fs] rm by simp_all
    ultimately show ?thesis using res by blast
  qed
qed

subsection \<open>Deleting\<close>

text \<open>The two files an item stands for.\<close>

definition item_files :: "store \<Rightarrow> string \<Rightarrow> string set" where
  "item_files st n = {staging_file st n, staging_file st n @ metadataSuffix}"

lemma Delete_effect:
  assumes st: "store_ok st" "cwd_ok fs" and h: "honest fs" and run: "store_Delete st item fs = (r, fs')"
  shows "fs_faults fs' = fs_faults fs \<and> fs_cwd fs' = fs_cwd fs \<and>
    ((fs' = fs \<and> r \<noteq> None) \<or>
     (\<exists>n. staging_name n \<and> filepath_Abs fs (rm_StagingPath (ri_Metadata item)) = Inr (staging_file st n) \<and>
       (\<forall>q. fs_get fs' q \<noteq> fs_get fs q \<longrightarrow>
          q \<in> item_files st n \<and> fs_get fs' q = None \<and> fs_get fs q \<noteq> Some DirNode) \<and>
       (r = None \<longrightarrow> fs_get fs' (staging_file st n) = None \<and>
          (ri_MetadataPath item \<noteq> '''' \<longrightarrow> fs_get fs' (staging_file st n @ metadataSuffix) = None))))"
proof (cases "safeStagingPath st fs (rm_StagingPath (ri_Metadata item))")
  case (Inl e)
  with run show ?thesis by (auto simp: store_Delete_def split: if_splits)
next
  case (Inr p)
  with safe_staging_eq [OF st] obtain n where
    n: "filepath_Abs fs (rm_StagingPath (ri_Metadata item)) = Inr p" "staging_name n" "p = staging_file st n" by blast
  let ?mp = "if ri_MetadataPath item \<noteq> ''''
                 then (case filepath_Abs fs (ri_MetadataPath item) of
                         Inl e \<Rightarrow> Inl (Wrapped ''metadata path'' e)
                       | Inr p' \<Rightarrow> if p' \<noteq> p @ metadataSuffix
                                 then Inl (ErrNew ''staging and metadata paths differ'') else Inr p')
                 else Inr ''''"
  show ?thesis
  proof (cases "rm_RecoveryState (ri_Metadata item) \<notin> set deletable_states \<or> (\<exists>e. ?mp = Inl e)")
    case True
    with run Inr show ?thesis by (auto simp: store_Delete_def split: sum.splits if_splits)
  next
    case False
    obtain m where m: "?mp = Inr m" "m = '''' \<and> ri_MetadataPath item = '''' \<or> m = p @ metadataSuffix"
      using False by (auto split: sum.splits if_splits)
    obtain r1 fs1 where d1: "removeRecoveryFile p fs = (r1, fs1)" by force
    note e1 = removeRecoveryFile_result [OF h d1]
    show ?thesis
    proof (cases "r1 \<noteq> None \<or> m = ''''")
      case True
      with run Inr False m(1) d1 have "(r1 \<noteq> None \<longrightarrow> r \<noteq> None) \<and> (r1 = None \<longrightarrow> r = None) \<and> fs' = fs1"
        by (auto simp: store_Delete_def split: option.splits)
      with e1 n m(2) True show ?thesis by (auto simp: item_files_def metadataSuffix_def)
    next
      case F2: False
      then have m': "m = p @ metadataSuffix" using m(2) by blast
      obtain r2 fs2 where d2: "removeRecoveryFile m fs1 = (r2, fs2)" by force
      have "honest fs1" using h e1 by (simp add: honest_def)
      note e2 = removeRecoveryFile_result [OF this d2]
      from run Inr False m(1) d1 d2 F2 have r: "(r = None \<longleftrightarrow> r2 = None) \<and> fs' = fs2"
        by (auto simp: store_Delete_def split: option.splits)
      have c1: "q = p \<and> fs_get fs1 q = None \<and> fs_get fs q \<noteq> Some DirNode" if "fs_get fs1 q \<noteq> fs_get fs q" for q
        using e1 that by blast
      have c2: "q = m \<and> fs_get fs2 q = None \<and> fs_get fs1 q \<noteq> Some DirNode" if "fs_get fs2 q \<noteq> fs_get fs1 q" for q
        using e2 that by blast
      have ch: "q \<in> item_files st n \<and> fs_get fs' q = None \<and> fs_get fs q \<noteq> Some DirNode"
        if "fs_get fs' q \<noteq> fs_get fs q" for q
      proof (cases "fs_get fs1 q = fs_get fs q")
        case True
        with that r have "fs_get fs2 q \<noteq> fs_get fs1 q" by simp
        from c2 [OF this] True r n m' show ?thesis by (auto simp: item_files_def)
      next
        case False
        from c1 [OF this] have q: "q = p" "fs_get fs1 q = None" "fs_get fs q \<noteq> Some DirNode" by blast+
        have "fs_get fs2 q = None" using c2 [of q] q(2) by (cases "fs_get fs2 q = fs_get fs1 q") auto
        with q r n show ?thesis by (simp add: item_files_def)
      qed
      have "fs_get fs1 p = None" using e1 F2 by auto
      with c2 [of p] r have gone: "fs_get fs' p = None" by (cases "fs_get fs2 p = fs_get fs1 p") auto
      show ?thesis using ch gone e1 e2 r n m' by auto
    qed
  qed
qed

text \<open>
  C34. Deleting an item removes nothing but its own staging file and the metadata file named after it,
  both directly in the cache, and never a directory; every other path is untouched, whatever fails.
  When the call succeeds the staging file is gone, and so is the metadata file the item has.
\<close>

theorem delete_confined:
  assumes "store_ok st" "cwd_ok fs" "honest fs" and "store_Delete st item fs = (r, fs')"
  shows "(\<forall>q. fs_get fs' q \<noteq> fs_get fs q \<longrightarrow> fs_get fs' q = None \<and> fs_get fs q \<noteq> Some DirNode \<and>
      (\<exists>n. staging_name n \<and> filepath_Abs fs (rm_StagingPath (ri_Metadata item)) = Inr (staging_file st n) \<and>
           q \<in> item_files st n)) \<and>
    (r = None \<longrightarrow> (\<exists>n. filepath_Abs fs (rm_StagingPath (ri_Metadata item)) = Inr (staging_file st n) \<and>
       fs_get fs' (staging_file st n) = None \<and>
       (ri_MetadataPath item \<noteq> '''' \<longrightarrow> fs_get fs' (staging_file st n @ metadataSuffix) = None)))"
  using Delete_effect [OF assms] by blast

definition demo_item :: recovery_item where
  "demo_item = \<lparr>ri_Metadata = zero_metadata\<lparr>rm_StagingPath := ''/c/staging-1'', rm_RecoveryState := StateMissingMetadata\<rparr>,
     ri_MetadataPath = '''', ri_Problem = ''''\<rparr>"

lemma demo_honest: "honest demo_cache"
  by (simp add: honest_def demo_cache_def)

lemma demo_delete: "fst (store_Delete demo_store demo_item demo_cache) = None"
  by code_simp

theorem delete_confined_witness:
  "\<exists>n. filepath_Abs demo_cache ''/c/staging-1'' = Inr (staging_file demo_store n) \<and>
     fs_get (snd (store_Delete demo_store demo_item demo_cache)) (staging_file demo_store n) = None"
proof -
  obtain fs' where run: "store_Delete demo_store demo_item demo_cache = (None, fs')"
    using demo_delete by (metis prod.collapse)
  from delete_confined [OF demo_store_ok demo_cwd_ok demo_honest run] run show ?thesis
    by (auto simp: demo_item_def)
qed

subsection \<open>Listing and scanning\<close>

lemma clean_pathD: "fs_clean fs \<Longrightarrow> fs_get fs p = Some n \<Longrightarrow> p = abs_path (comps p)"
  by (auto simp: fs_clean_def fs_get_def list_all_iff al_keys_def dest!: map_of_SomeD)

lemma get_iff: "fs_wf fs \<Longrightarrow> (p, n) \<in> set (fs_nodes fs) \<longleftrightarrow> fs_get fs p = Some n"
  by (simp add: fs_wf_def fs_get_def al_keys_def)

text \<open>A child of the cache directory is the file of a plain name.\<close>

lemma child_plain:
  assumes "store_ok st" and "fs_clean fs" and "fs_get fs p = Some n" and "child_of (st_directory st) p"
  shows "plain (child_name (st_directory st) p) \<and> p = staging_file st (child_name (st_directory st) p)"
proof -
  let ?ds = "comps (st_directory st)" and ?n = "child_name (st_directory st) p"
  from assms(1) have d: "st_directory st = abs_path ?ds" "?ds \<noteq> []" by (simp_all add: store_ok_def)
  from assms(4) have p: "p = st_directory st @ slash # ?n" "slash \<notin> set ?n" "?n \<noteq> []"
    by (auto simp: child_of_def child_name_def prefix_def)
  have ab: "p = abs_path (comps p)" by (rule clean_pathD [OF assms(2,3)])
  have "prefix (abs_path ?ds @ ''/'') (abs_path (comps p))"
    using p(1) d(1) ab by (metis append.assoc append_Cons append_Nil prefixI)
  then obtain rs where rs: "rs \<noteq> []" "comps p = ?ds @ rs"
    using below_iff [OF comps_plain comps_plain d(2)] by blast
  then have "p = abs_path ?ds @ slash # strings_Join rs ''/''"
    using ab d(2) abs_path_append by metis
  then have "strings_Join rs ''/'' = ?n" using p(1) d(1) by (metis append_same_eq same_append_eq list.inject)
  moreover have "list_all plain rs" using comps_plain [of p] rs(2) by (metis list_all_append)
  ultimately have "rs = [?n]"
    using Split_Join [of rs slash] rs(1) p(2) by (simp add: plain_no_slash Split_single)
  with \<open>list_all plain rs\<close> rs(2) ab show ?thesis by (simp add: staging_file_def)
qed

lemma child_staging_file:
  "store_ok st \<Longrightarrow> plain n \<Longrightarrow>
   child_of (st_directory st) (staging_file st n) \<and> child_name (st_directory st) (staging_file st n) = n"
  by (auto simp: staging_file_path child_of_def child_name_def plain_def)

lemma ReadDir_set:
  assumes "store_env st fs" and "os_ReadDir (st_directory st) fs = Inr es"
  shows "(n, nd) \<in> set es \<longleftrightarrow> plain n \<and> fs_get fs (staging_file st n) = Some nd"
proof -
  from assms(1) have e: "store_ok st" "fs_clean fs" "fs_wf fs" by (simp_all add: store_env_def)
  from assms(2) have "set es = {(child_name (st_directory st) p, nd) | p nd. fs_get fs p = Some nd \<and> child_of (st_directory st) p}"
    by (force simp: os_ReadDir_def get_iff [OF e(3)] split: option.splits if_splits)
  then have "(n, nd) \<in> set es \<longleftrightarrow> (\<exists>p. n = child_name (st_directory st) p \<and> fs_get fs p = Some nd \<and> child_of (st_directory st) p)"
    by blast
  also have "\<dots> \<longleftrightarrow> plain n \<and> fs_get fs (staging_file st n) = Some nd"
    using child_plain [OF e(1,2)] child_staging_file [OF e(1)] by metis
  finally show ?thesis .
qed

lemma scan_preserved:
  assumes "rm_RecoveryState (ri_Metadata (scanMetadata mj st mp es fs)) = StatePreserved"
  shows "\<exists>data md info. os_ReadFile mp fs = Inr data \<and> mj_Unmarshal mj data = Inr md \<and>
    safeStagingPath st fs (rm_StagingPath md) = Inr es \<and> rm_Version md = MetadataVersion \<and>
    rm_RecoveryState md = StatePreserved \<and> os_Lstat es fs = Inr info \<and> \<not> unsafe_mode info \<and>
    scanMetadata mj st mp es fs = \<lparr>ri_Metadata = md\<lparr>rm_Size := fi_Size info\<rparr>, ri_MetadataPath = mp, ri_Problem = ''''\<rparr>"
proof (cases "os_ReadFile mp fs")
  case (Inl e)
  with assms show ?thesis by (simp add: scanMetadata_def invalid_item_def state_defs)
next
  case data: (Inr data)
  show ?thesis
  proof (cases "mj_Unmarshal mj data")
    case (Inl e)
    with assms data show ?thesis by (simp add: scanMetadata_def invalid_item_def state_defs)
  next
    case md: (Inr md)
    show ?thesis
    proof (cases "safeStagingPath st fs (rm_StagingPath md)")
      case (Inl e)
      with assms data md show ?thesis by (simp add: scanMetadata_def Let_def state_defs)
    next
      case sp: (Inr a)
      have ok: "a = es" "rm_Version md = MetadataVersion" "rm_RecoveryState md = StatePreserved"
        using assms data md sp by (simp_all add: scanMetadata_def Let_def state_defs split: if_splits)
      show ?thesis
      proof (cases "os_Lstat es fs")
        case (Inl e)
        with assms data md sp ok show ?thesis by (simp add: scanMetadata_def Let_def state_defs split: if_splits)
      next
        case (Inr info)
        with assms data md sp ok show ?thesis by (simp add: scanMetadata_def Let_def state_defs split: if_splits)
      qed
    qed
  qed
qed

lemma expected_staging_eq:
  assumes "store_ok st" and "plain (fst e)" and "HasSuffix (fst e) metadataSuffix"
  shows "staging_file st (fst e) = expected_staging st e @ metadataSuffix"
proof -
  have "HasSuffix (staging_file st (fst e)) metadataSuffix"
    using assms by (auto simp: staging_file_path HasSuffix_def suffix_def)
  from HasSuffix_split [OF this] show ?thesis using assms by (simp add: expected_staging_def join_dir)
qed

text \<open>What a scanned item in the preserved state is: trustworthy metadata beside a regular staging file.\<close>

definition preserved_on_disk :: "metadata_codec \<Rightarrow> store \<Rightarrow> lfs \<Rightarrow> string \<Rightarrow> recovery_metadata \<Rightarrow> bool" where
  "preserved_on_disk mj st fs n md \<longleftrightarrow>
     staging_name n \<and> (\<exists>data. os_ReadFile (staging_file st n @ metadataSuffix) fs = Inr data \<and> mj_Unmarshal mj data = Inr md) \<and>
     rm_Version md = MetadataVersion \<and> rm_RecoveryState md = StatePreserved \<and>
     safeStagingPath st fs (rm_StagingPath md) = Inr (staging_file st n) \<and>
     (\<exists>d t s. fs_get fs (staging_file st n) = Some (Reg d t s))"

lemma scan_staging_state: "rm_RecoveryState (ri_Metadata (scan_staging st e fs)) \<noteq> StatePreserved"
  by (simp add: scan_staging_def Let_def state_defs split: sum.splits)

lemma Scan_preserved:
  assumes env: "store_env st fs" and scan: "store_Scan mj st fs = Inr items" and item: "item \<in> set items"
    and pres: "rm_RecoveryState (ri_Metadata item) = StatePreserved"
  shows "\<exists>n md. preserved_on_disk mj st fs n md \<and> ri_MetadataPath item = staging_file st n @ metadataSuffix \<and>
    (\<exists>k. ri_Metadata item = md\<lparr>rm_Size := k\<rparr>)"
proof -
  have st: "store_ok st" "cwd_ok fs" using env by (simp_all add: store_env_def)
  from scan obtain es where es: "os_ReadDir (st_directory st) fs = Inr es"
    by (auto simp: store_Scan_def split: sum.splits)
  with scan item pres scan_staging_state obtain e where e: "e \<in> set es" "is_metadata_entry e"
    "item = scanMetadata mj st (path_Join [st_directory st, fst e]) (expected_staging st e) fs"
    by (auto simp: store_Scan_def Let_def)
  from ReadDir_set [OF env es, of "fst e" "snd e"] e(1) have pl: "plain (fst e)" by simp
  have suf: "HasSuffix (fst e) metadataSuffix" using e(2) by (simp add: is_metadata_entry_def)
  note mp = expected_staging_eq [OF st(1) pl suf] join_dir [OF st(1) pl]
  from scan_preserved [OF pres [unfolded e(3)]] e(3) obtain data md info where
    md: "os_ReadFile (path_Join [st_directory st, fst e]) fs = Inr data" "mj_Unmarshal mj data = Inr md"
      "safeStagingPath st fs (rm_StagingPath md) = Inr (expected_staging st e)" "rm_Version md = MetadataVersion"
      "rm_RecoveryState md = StatePreserved" "os_Lstat (expected_staging st e) fs = Inr info" "\<not> unsafe_mode info"
      "item = \<lparr>ri_Metadata = md\<lparr>rm_Size := fi_Size info\<rparr>, ri_MetadataPath = path_Join [st_directory st, fst e], ri_Problem = ''''\<rparr>"
    by metis
  obtain n where n: "staging_name n" "expected_staging st e = staging_file st n"
    using safe_stagingD [OF st md(3)] by blast
  from Lstat_Inr [OF md(6)] md(7) have "\<exists>d t s. fs_get fs (staging_file st n) = Some (Reg d t s)"
    using n(2) by (metis node.collapse(1) node_info_unsafe)
  with md n mp have "preserved_on_disk mj st fs n md" by (simp add: preserved_on_disk_def)
  with md(8) mp n show ?thesis by auto
qed

lemma Abs_cong: "fs_faults fs' = fs_faults fs \<Longrightarrow> fs_cwd fs' = fs_cwd fs \<Longrightarrow> filepath_Abs fs' v = filepath_Abs fs v"
  by (simp add: filepath_Abs_def split: option.split)

lemma prune_loop_frame:
  assumes "store_ok st" "cwd_ok fs" "honest fs" and "prune_loop st cutoff items k res fs = (r, fs')"
    and "fs_get fs' q \<noteq> fs_get fs q"
  shows "fs_get fs' q = None \<and> (\<exists>item \<in> set items. expired cutoff item \<and>
    (\<exists>n. filepath_Abs fs (rm_StagingPath (ri_Metadata item)) = Inr (staging_file st n) \<and> q \<in> item_files st n))"
  using assms
proof (induction items arbitrary: k res fs)
  case (Cons item items)
  show ?case
  proof (cases "expired cutoff item")
    case False
    with Cons.prems Cons.IH [OF Cons.prems(1-3), of k res] show ?thesis by auto
  next
    case True
    obtain r1 fs1 where d: "store_Delete st item fs = (r1, fs1)" by force
    note eff = Delete_effect [OF Cons.prems(1-3) d]
    have env1: "cwd_ok fs1" "honest fs1" using Cons.prems(2,3) eff by (simp_all add: cwd_ok_def honest_def)
    have abs: "filepath_Abs fs1 v = filepath_Abs fs v" for v using Abs_cong eff by blast
    from Cons.prems(4) True d obtain k' res' where "prune_loop st cutoff items k' res' fs1 = (r, fs')"
      by (auto split: option.splits)
    note IH = Cons.IH [OF Cons.prems(1) env1 this]
    show ?thesis
    proof (cases "fs_get fs' q = fs_get fs1 q")
      case same: True
      then have "fs_get fs1 q \<noteq> fs_get fs q" using Cons.prems(5) by simp
      with eff True same show ?thesis by auto
    next
      case False
      with IH abs show ?thesis by auto
    qed
  qed
qed simp

text \<open>
  C35. Retention removes only what it should: a path that \<open>PruneExpired\<close> changes is deleted, and is the
  staging file or the metadata file of an item whose metadata on disk was valid, of the current version,
  in the preserved state, beside a regular staging file, with a preservation time set and at least
  \<open>retentionDays\<close> days old. Active staging files and items with doubtful metadata are never touched.
\<close>

theorem prune_only_expired:
  assumes "store_env st fs" and "PruneExpired mj st days now fs = (r, fs')" and "fs_get fs' q \<noteq> fs_get fs q"
  shows "fs_get fs' q = None \<and> (\<exists>n md. preserved_on_disk mj st fs n md \<and> q \<in> item_files st n \<and>
    rm_PreservedAt md \<noteq> 0 \<and> rm_PreservedAt md \<le> now - days * (86400 * second))"
proof -
  have st: "store_ok st" "cwd_ok fs" "honest fs" using assms(1) by (simp_all add: store_env_def)
  from assms(2,3) obtain items where items: "store_Scan mj st fs = Inr items"
      "prune_loop st (time_AddDate_days now (- days)) items 0 None fs = (r, fs')"
    by (auto simp: PruneExpired_def split: if_splits sum.splits)
  from prune_loop_frame [OF st items(2) assms(3)] obtain item n where
    q: "fs_get fs' q = None" and i: "item \<in> set items" "expired (time_AddDate_days now (- days)) item"
      "filepath_Abs fs (rm_StagingPath (ri_Metadata item)) = Inr (staging_file st n)" "q \<in> item_files st n"
    by blast
  from i(2) have pres: "rm_RecoveryState (ri_Metadata item) = StatePreserved" by (simp add: expired_def)
  from Scan_preserved [OF assms(1) items(1) i(1) pres] obtain m md k where
    md: "preserved_on_disk mj st fs m md" "ri_Metadata item = md\<lparr>rm_Size := k\<rparr>" by blast
  have "staging_file st n = staging_file st m"
    using md i(3) safe_staging_eq [OF st(1,2)] by (auto simp: preserved_on_disk_def)
  then have "q \<in> item_files st m" using i(4) by (simp add: item_files_def)
  moreover have "rm_PreservedAt md \<noteq> 0 \<and> rm_PreservedAt md \<le> now - days * (86400 * second)"
    using i(2) md(2) by (simp add: expired_def time_IsZero_def time_AddDate_days_def)
  ultimately show ?thesis using q md(1) by blast
qed

text \<open>A codec that writes only the preservation time of the staging file \<open>/c/staging-1\<close>.\<close>

definition demo_mj :: metadata_codec where
  "demo_mj = \<lparr>mj_Encode = (\<lambda>md. Inr [of_int (rm_PreservedAt md)]),
     mj_Unmarshal = (\<lambda>d. case d of [b] \<Rightarrow>
         Inr (zero_metadata\<lparr>rm_Version := 1, rm_StagingPath := ''/c/staging-1'', rm_RecoveryState := ''preserved'',
                            rm_PreservedAt := uint b\<rparr>)
       | _ \<Rightarrow> Inl (Sentinel EOF))\<rparr>"

definition demo_old :: lfs where
  "demo_old = demo_cache\<lparr>fs_nodes := fs_nodes demo_cache @ [(''/c/staging-1.recovery.json'', Reg [9] 5 True),
     (''/c/staging-2'', Reg [7] 5 True)]\<rparr>"

lemma demo_old_env: "store_env demo_store demo_old"
  unfolding store_env_def using demo_store_ok
  by (simp add: honest_def demo_old_def demo_cache_def fs_clean_def fs_wf_def cwd_ok_def comps_def norm_def
      clean_step_def abs_path_def)

lemma demo_pruned:
  "fs_get (snd (PruneExpired demo_mj demo_store 1 (86400 * second + 10) demo_old)) ''/c/staging-1'' = None"
  "fs_get demo_old ''/c/staging-1'' = Some (Reg [1, 2, 3] 5 True)"
  by code_simp+

theorem prune_only_expired_witness:
  "\<exists>n md. preserved_on_disk demo_mj demo_store demo_old n md \<and> ''/c/staging-1'' \<in> item_files demo_store n"
proof -
  obtain r fs' where run: "PruneExpired demo_mj demo_store 1 (86400 * second + 10) demo_old = (r, fs')"
    by (metis surj_pair)
  with demo_pruned have "fs_get fs' ''/c/staging-1'' \<noteq> fs_get demo_old ''/c/staging-1''" by simp
  from prune_only_expired [OF demo_old_env run this] show ?thesis by blast
qed

end
