(* ===== verification/Cache_Effects.thy ===== *)
theory Cache_Effects
  imports Cache_Facts "HOL-Library.Multiset"
begin

text \<open>
  Preserving, scanning back, retrying, exporting, and the sizes: the atomic metadata file, the round
  trip through the disk, the admission of a growth and the usage report.
\<close>

subsection \<open>Writing the metadata file\<close>

definition metadata_temp :: "store \<Rightarrow> string \<Rightarrow> string" where
  "metadata_temp st rnd = st_directory st @ ''/'' @ ''.recovery-metadata-'' @ rnd @ ''.tmp''"

lemma temp_not_staging:
  "store_ok st \<Longrightarrow> staging_name n \<Longrightarrow> metadata_temp st rnd \<noteq> staging_file st n @ x"
  by (auto simp: metadata_temp_def staging_file_path staging_name_def prefix_def)

lemma metadata_states:
  assumes run: "writeMetadataAtomic mj st dest md rnd now fs = (r, sts)"
    and dest: "metadata_temp st rnd \<noteq> dest"
  shows "(\<forall>s \<in> set sts. (\<forall>q. q \<noteq> metadata_temp st rnd \<longrightarrow> q \<noteq> dest \<longrightarrow> fs_get s q = fs_get fs q) \<and>
      (fs_get s dest = fs_get fs dest \<or> (\<exists>doc. mj_Encode mj md = Inr doc \<and> published dest doc s)) \<and>
      fs_faults s = fs_faults fs \<and> fs_cwd s = fs_cwd fs) \<and> sts \<noteq> [] \<and>
    (r = None \<longrightarrow> (\<exists>doc. mj_Encode mj md = Inr doc \<and> published dest doc (last sts))) \<and>
    (r \<noteq> None \<longrightarrow> fs_get (last sts) dest = fs_get fs dest)"
proof -
  let ?tmp = "metadata_temp st rnd"
  let ?same = "\<lambda>s. \<forall>q. q \<noteq> ?tmp \<longrightarrow> fs_get s q = fs_get fs q"
  let ?env = "\<lambda>s. fs_faults s = fs_faults fs \<and> fs_cwd s = fs_cwd fs"
  obtain t fs1 where ct: "os_CreateTemp (st_directory st) ''.recovery-metadata-'' ''.tmp'' rnd now fs = (t, fs1)" by force
  have 1: "?same fs1" "?env fs1" "t = Inr p \<Longrightarrow> p = ?tmp \<and> fs_get fs1 ?tmp = Some (Reg [] now False)" for p
    using ct by (auto simp: os_CreateTemp_def metadata_temp_def Let_def fs_simps split: option.splits if_splits)
  have rm: "?same s \<Longrightarrow> ?env s \<Longrightarrow> ?same (snd (os_Remove ?tmp s)) \<and> ?env (snd (os_Remove ?tmp s))" for s
    using Remove_frame [of _ ?tmp s] by simp
  have fin: ?thesis if "sts \<noteq> []" "r \<noteq> None" "\<And>s. s \<in> set sts \<Longrightarrow> ?same s \<and> ?env s"
  proof -
    have "last sts \<in> set sts" using that(1) by simp
    with that(3) dest have "fs_get (last sts) dest = fs_get fs dest" by auto
    with that dest show ?thesis by auto
  qed
  show ?thesis
  proof (cases t)
    case (Inl e)
    with run ct 1(1,2) dest show ?thesis by (auto simp: writeMetadataAtomic_def)
  next
    case t: (Inr p)
    with 1(3) have p: "p = ?tmp" "fs_get fs1 ?tmp = Some (Reg [] now False)" by auto
    show ?thesis
    proof (cases "mj_Encode mj md")
      case (Inl e)
      with run ct t p 1(1,2) rm [OF 1(1,2)] dest show ?thesis by (auto simp: writeMetadataAtomic_def)
    next
      case doc: (Inr doc)
      obtain n we fs2 where wr: "file_WriteAt ?tmp doc 0 now fs1 = ((n, we), fs2)" by (metis prod.exhaust)
      have 2: "?same fs2" "?env fs2"
        using WriteAt_frame [of _ ?tmp doc 0 now fs1] primitive_faults(1) [of ?tmp doc 0 now fs1]
          primitive_cwd(1) [of ?tmp doc 0 now fs1] wr 1(1,2) by simp_all
      obtain se fs3 where sy: "file_Sync ?tmp fs2 = (se, fs3)" by force
      have 3: "?same fs3" "?env fs3"
        using Sync_frame [of _ ?tmp fs2] primitive_faults(2) [of ?tmp fs2] primitive_cwd(2) [of ?tmp fs2] sy 2
        by simp_all
      show ?thesis
      proof (cases "we \<noteq> None \<or> se \<noteq> None \<or> file_Close ?tmp fs3 \<noteq> None")
        case True
        with run ct t p(1) doc wr sy have "r \<noteq> None \<and> sts \<noteq> [] \<and>
            set sts \<subseteq> {fs, fs1, fs2, fs3, snd (os_Remove ?tmp fs2), snd (os_Remove ?tmp fs3)}"
          by (cases we; cases se) (auto simp: writeMetadataAtomic_def split: option.splits)
        moreover have "?same s \<and> ?env s"
          if "s \<in> {fs, fs1, fs2, fs3, snd (os_Remove ?tmp fs2), snd (os_Remove ?tmp fs3)}" for s
          using that 1(1,2) 2 3 rm [OF 2] rm [OF 3] by blast
        ultimately show ?thesis by (intro fin) blast+
      next
        case False
        then have ok: "we = None" "se = None" "file_Close ?tmp fs3 = None" by simp_all
        obtain re fs4 where rn: "os_Rename ?tmp dest fs3 = (re, fs4)" by force
        have full: "\<exists>t1. fs_get fs3 ?tmp = Some (Reg doc t1 True)"
          using written_file [OF p(2)] wr sy ok by simp
        have 4: "\<forall>q. q \<noteq> ?tmp \<longrightarrow> q \<noteq> dest \<longrightarrow> fs_get fs4 q = fs_get fs q" "?env fs4"
          using Rename_frame [of _ ?tmp dest fs3] primitive_faults(5) [of ?tmp dest fs3]
            primitive_cwd(5) [of ?tmp dest fs3] rn 3 by simp_all
        show ?thesis
        proof (cases re)
          case None
          with rn full have pub: "published dest doc fs4" by (auto simp: published_def dest: renamed_file)
          have "sts = [fs, fs1, fs2, fs3, fs4]" "r = None"
            using run ct t p doc wr sy ok rn None by (simp_all add: writeMetadataAtomic_def)
          with 1(1,2) 2 3 4 pub doc dest show ?thesis by auto
        next
          case (Some e)
          with rn have "fs4 = fs3" by (auto dest: rename_failed)
          moreover have "sts = [fs, fs1, fs2, fs3, fs4, snd (os_Remove ?tmp fs4)]" "r \<noteq> None"
            using run ct t p doc wr sy ok rn Some by (auto simp: writeMetadataAtomic_def)
          ultimately show ?thesis using 1(1,2) 2 3 rm [OF 3] dest by auto
        qed
      qed
    qed
  qed
qed

subsection \<open>Preserving\<close>

lemma Preserve_states:
  assumes env: "store_ok st" "cwd_ok fs" and run: "store_Preserve mj st v rnd now fs = (x, sts)"
  shows "(x = x \<and> sts = [fs] \<and> (\<exists>e. x = Inl e)) \<or>
    (\<exists>n d t s md. staging_name n \<and> filepath_Abs fs (pv_StagingPath v) = Inr (staging_file st n) \<and>
      fs_get fs (staging_file st n) = Some (Reg d t s) \<and>
      rm_StagingPath md = staging_file st n \<and> rm_Version md = MetadataVersion \<and> rm_RecoveryState md = StatePreserved \<and>
      rm_Size md = int (length d) \<and> rm_RemotePath md = pv_RemotePath v \<and> rm_PreservedAt md = now \<and>
      (\<exists>r. writeMetadataAtomic mj st (staging_file st n @ metadataSuffix) md rnd now fs = (r, sts) \<and>
        x = (case r of None \<Rightarrow> Inr \<lparr>ri_Metadata = md, ri_MetadataPath = staging_file st n @ metadataSuffix, ri_Problem = ''''\<rparr>
             | Some e \<Rightarrow> Inl e)))"
proof (cases "safeStagingPath st fs (pv_StagingPath v)")
  case (Inl e)
  with run show ?thesis by (auto simp: store_Preserve_def)
next
  case sp: (Inr p)
  with safe_staging_eq [OF env] obtain n where n: "filepath_Abs fs (pv_StagingPath v) = Inr p" "staging_name n"
    "p = staging_file st n" by blast
  show ?thesis
  proof (cases "os_Lstat p fs")
    case (Inl e)
    with run sp show ?thesis by (auto simp: store_Preserve_def)
  next
    case ls: (Inr info)
    obtain nd where nd: "fs_get fs p = Some nd" "info = node_info nd" using Lstat_Inr [OF ls] by blast
    show ?thesis
    proof (cases "is_Reg nd")
      case False
      with nd have "unsafe_mode info" by simp
      with run sp ls show ?thesis by (auto simp: store_Preserve_def)
    next
      case True
      then obtain d t s where reg: "nd = Reg d t s" by (cases nd) auto
      with nd have info: "\<not> unsafe_mode info" "fi_Size info = int (length d)"
        using node_info_unsafe [of nd] by simp_all
      let ?md = "\<lparr>rm_Version = MetadataVersion, rm_ProfileID = pv_ProfileID v,
                       rm_ProfileName = pv_ProfileName v, rm_Protocol = pv_Protocol v,
                       rm_RemotePath = pv_RemotePath v, rm_StagingPath = p,
                       rm_Size = fi_Size info,
                       rm_CreatedAt = (if time_IsZero (pv_CreatedAt v) then fi_ModTime info else pv_CreatedAt v),
                       rm_UpdatedAt = fi_ModTime info,
                       rm_PreservedAt = now, rm_Reason = pv_Reason v,
                       rm_LastError = (case pv_LastError v of None \<Rightarrow> '''' | Some e \<Rightarrow> err_Error e),
                       rm_RecoveryState = StatePreserved\<rparr>"
      obtain r sts' where w: "writeMetadataAtomic mj st (p @ metadataSuffix) ?md rnd now fs = (r, sts')" by force
      have "sts = sts' \<and> x = (case r of None \<Rightarrow> Inr \<lparr>ri_Metadata = ?md, ri_MetadataPath = p @ metadataSuffix, ri_Problem = ''''\<rparr>
             | Some e \<Rightarrow> Inl e)"
        using run sp ls info(1) w by (auto simp: store_Preserve_def Let_def split: option.splits)
      with w n nd(1) reg info show ?thesis
        by (intro disjI2 exI [of _ n] exI [of _ d] exI [of _ t] exI [of _ s] exI [of _ ?md]) auto
    qed
  qed
qed

text \<open>
  C36. Preserving never risks the data: in every state the disk goes through, and so after a crash at any
  point, the staging file and every file other than the metadata and its temporary are unchanged, and
  the metadata file is the old one or the complete new document, synced. An item is returned exactly
  when the new document is in place.
\<close>

theorem preserve_atomic:
  assumes "store_ok st" "cwd_ok fs" and "store_Preserve mj st v rnd now fs = (x, sts)"
  shows "(\<forall>e. x = Inl e \<longrightarrow> (\<forall>n. staging_name n \<longrightarrow> fs_get (last sts) (staging_file st n @ metadataSuffix) =
        fs_get fs (staging_file st n @ metadataSuffix))) \<and>
    (\<exists>n md. (sts \<noteq> [fs] \<longrightarrow> filepath_Abs fs (pv_StagingPath v) = Inr (staging_file st n)) \<and> (\<forall>s \<in> set sts.
       (\<forall>q. q \<noteq> metadata_temp st rnd \<longrightarrow> q \<noteq> staging_file st n @ metadataSuffix \<longrightarrow> fs_get s q = fs_get fs q) \<and>
       (fs_get s (staging_file st n @ metadataSuffix) = fs_get fs (staging_file st n @ metadataSuffix) \<or>
        (\<exists>doc. mj_Encode mj md = Inr doc \<and> published (staging_file st n @ metadataSuffix) doc s))) \<and>
       (\<forall>item. x = Inr item \<longrightarrow> ri_Metadata item = md \<and> rm_StagingPath md = staging_file st n \<and>
          (\<exists>doc. mj_Encode mj md = Inr doc \<and> published (staging_file st n @ metadataSuffix) doc (last sts))))"
proof -
  from Preserve_states [OF assms] consider
      e where "sts = [fs]" "x = Inl e"
    | n md r where "staging_name n" "rm_StagingPath md = staging_file st n"
        "writeMetadataAtomic mj st (staging_file st n @ metadataSuffix) md rnd now fs = (r, sts)"
        "x = (case r of None \<Rightarrow> Inr \<lparr>ri_Metadata = md, ri_MetadataPath = staging_file st n @ metadataSuffix, ri_Problem = ''''\<rparr>
             | Some e \<Rightarrow> Inl e)" "filepath_Abs fs (pv_StagingPath v) = Inr (staging_file st n)" by blast
  then show ?thesis
  proof cases
    case 1
    then show ?thesis by auto
  next
    case 2
    note ms = metadata_states [OF 2(3) temp_not_staging [OF assms(1) 2(1)]]
    have other: "fs_get (last sts) (staging_file st m @ metadataSuffix) = fs_get fs (staging_file st m @ metadataSuffix)"
      if "x = Inl e" "staging_name m" for e m
    proof (cases "staging_file st m @ metadataSuffix = staging_file st n @ metadataSuffix")
      case True
      with that(1) 2(4) ms show ?thesis by (auto split: option.splits)
    next
      case False
      have "last sts \<in> set sts" using ms by simp
      with ms False temp_not_staging [OF assms(1) that(2), of rnd metadataSuffix] show ?thesis by metis
    qed
    show ?thesis
    proof (intro conjI allI impI exI [of _ n] exI [of _ md] ballI)
      show "fs_get (last sts) (staging_file st m @ metadataSuffix) = fs_get fs (staging_file st m @ metadataSuffix)"
        if "x = Inl e" "staging_name m" for e m by (rule other [OF that])
    qed (use ms 2 in \<open>auto split: option.splits\<close>)
  qed
qed

text \<open>A preservation on a small disk, with a codec for the one document it writes.\<close>

definition demo_preservation :: preservation where
  "demo_preservation = \<lparr>pv_ProfileID = ''p'', pv_ProfileName = ''nas'', pv_Protocol = ''ftp'', pv_RemotePath = ''/r'',
     pv_StagingPath = ''/c/staging-1'', pv_CreatedAt = 0, pv_Reason = ''upload_failed'', pv_LastError = None\<rparr>"

definition demo_md :: recovery_metadata where
  "demo_md = \<lparr>rm_Version = 1, rm_ProfileID = ''p'', rm_ProfileName = ''nas'', rm_Protocol = ''ftp'',
     rm_RemotePath = ''/r'', rm_StagingPath = ''/c/staging-1'', rm_Size = 3, rm_CreatedAt = 5, rm_UpdatedAt = 5,
     rm_PreservedAt = 9, rm_Reason = ''upload_failed'', rm_LastError = [], rm_RecoveryState = ''preserved''\<rparr>"

definition exact_mj :: metadata_codec where
  "exact_mj = \<lparr>mj_Encode = (\<lambda>md. if md = demo_md then Inr [1] else Inl (ErrNew ''unsupported'')),
     mj_Unmarshal = (\<lambda>d. if d = [1] then Inr demo_md else Inl (Sentinel EOF))\<rparr>"

definition demo_preserved :: "(err + recovery_item) \<times> lfs list" where
  "demo_preserved = store_Preserve exact_mj demo_store demo_preservation ''7'' 9 demo_cache"

lemma demo_preserved_item:
  "fst demo_preserved = Inr \<lparr>ri_Metadata = demo_md, ri_MetadataPath = ''/c/staging-1.recovery.json'', ri_Problem = ''''\<rparr>"
  by code_simp

lemma demo_preserved_run:
  "store_Preserve exact_mj demo_store demo_preservation ''7'' 9 demo_cache =
   (Inr \<lparr>ri_Metadata = demo_md, ri_MetadataPath = ''/c/staging-1.recovery.json'', ri_Problem = ''''\<rparr>, snd demo_preserved)"
  using demo_preserved_item by (metis demo_preserved_def prod.collapse)

theorem preserve_atomic_witness:
  "\<exists>n doc. rm_StagingPath demo_md = staging_file demo_store n \<and>
     published (staging_file demo_store n @ metadataSuffix) doc (last (snd demo_preserved))"
  using preserve_atomic [OF demo_store_ok demo_cwd_ok demo_preserved_run] by fastforce

lemma metadata_name: "staging_name n \<Longrightarrow> plain (n @ metadataSuffix)"
  by (auto simp: staging_name_def plain_def metadataSuffix_def)

lemma metadata_file: "store_ok st \<Longrightarrow> staging_file st n @ metadataSuffix = staging_file st (n @ metadataSuffix)"
  by (simp add: staging_file_path)

lemma listed:
  assumes "store_ok st" and "os_ReadDir (st_directory st) fs = Inr es" and "plain m"
    and "fs_get fs (staging_file st m) = Some nd"
  shows "(m, nd) \<in> set es"
proof -
  have "(staging_file st m, nd) \<in> set (fs_nodes fs)" using assms(4) by (auto simp: fs_get_def dest: map_of_SomeD)
  with child_staging_file [OF assms(1,3)] assms(2) show ?thesis
    by (force simp: os_ReadDir_def split: option.splits if_splits)
qed

text \<open>
  What is preserved is found again: after \<open>Preserve\<close> has returned an item, a scan that can read
  the directory, the metadata and the staging file returns that very item, and \<open>OpenRecovery\<close>
  hands out that staging file with its size (the JSON decoder inverting the encoder).
\<close>

theorem preserve_then_scan:
  assumes env: "store_ok st" "cwd_ok fs" and run: "store_Preserve mj st v rnd now fs = (Inr item, sts)"
    and codec: "\<And>md doc. mj_Encode mj md = Inr doc \<Longrightarrow> mj_Unmarshal mj doc = Inr md"
    and readable: "fs_faults fs OpRead (ri_MetadataPath item) = None"
      "fs_faults fs OpLstat (rm_StagingPath (ri_Metadata item)) = None"
      "fs_faults fs OpOpen (rm_StagingPath (ri_Metadata item)) = None"
    and scan: "store_Scan mj st (last sts) = Inr items"
  shows "item \<in> set items \<and> (\<exists>d t s. fs_get fs (rm_StagingPath (ri_Metadata item)) = Some (Reg d t s) \<and>
    OpenRecovery st item (last sts) = Inr (rm_StagingPath (ri_Metadata item), node_info (Reg d t s)))"
proof -
  let ?fs = "last sts"
  from Preserve_states [OF env run] obtain n d t s md where
    n: "staging_name n" "fs_get fs (staging_file st n) = Some (Reg d t s)" and
    md: "rm_StagingPath md = staging_file st n" "rm_Version md = MetadataVersion" "rm_RecoveryState md = StatePreserved"
      "rm_Size md = int (length d)" and
    w: "writeMetadataAtomic mj st (staging_file st n @ metadataSuffix) md rnd now fs = (None, sts)" and
    item: "item = \<lparr>ri_Metadata = md, ri_MetadataPath = staging_file st n @ metadataSuffix, ri_Problem = ''''\<rparr>"
    by (auto split: option.splits)
  let ?mp = "staging_file st n @ metadataSuffix"
  note ms = metadata_states [OF w temp_not_staging [OF env(1) n(1)]]
  have last: "?fs \<in> set sts" using ms by simp
  have ne: "staging_file st n \<noteq> ?mp" "staging_file st n \<noteq> metadata_temp st rnd"
    using temp_not_staging [OF env(1) n(1), of rnd "[]"] by (auto simp: metadataSuffix_def)
  have f: "fs_faults ?fs = fs_faults fs" "fs_cwd ?fs = fs_cwd fs" "fs_get ?fs (staging_file st n) = Some (Reg d t s)"
    using ms last ne n(2) by metis+
  obtain doc tt where doc: "mj_Encode mj md = Inr doc" "fs_get ?fs ?mp = Some (Reg doc tt True)"
    using ms by (auto simp: published_def)
  have wd: "cwd_ok ?fs" using env(2) f by (simp add: cwd_ok_def)
  have safe: "safeStagingPath st ?fs (rm_StagingPath md) = Inr (staging_file st n)"
    using safe_staging_file [OF env(1) wd n(1)] md(1) by simp
  have rd: "os_ReadFile ?mp ?fs = Inr doc"
    using doc(2) readable(1) f(1) item by (simp add: os_ReadFile_def resolve_def)
  have ls: "os_Lstat (staging_file st n) ?fs = Inr (node_info (Reg d t s))"
    using f readable(2) item md(1) by (simp add: os_Lstat_def)
  have reg: "\<not> unsafe_mode (node_info (Reg d t s))" "fi_Size (node_info (Reg d t s)) = rm_Size md"
    using node_info_unsafe [of "Reg d t s"] md(4) by simp_all
  have scanned: "scanMetadata mj st ?mp (staging_file st n) ?fs = item"
    using rd codec [OF doc(1)] safe ls reg md item by (simp add: scanMetadata_def Let_def)
  from scan obtain es where es: "os_ReadDir (st_directory st) ?fs = Inr es"
    by (auto simp: store_Scan_def split: sum.splits)
  let ?e = "(n @ metadataSuffix, Reg doc tt True)"
  have "?e \<in> set es"
    using listed [OF env(1) es metadata_name [OF n(1)]] doc(2) metadata_file [OF env(1), of n] by simp
  moreover have "is_metadata_entry ?e" by (simp add: is_metadata_entry_def HasSuffix_append)
  moreover have "path_Join [st_directory st, fst ?e] = ?mp"
    using join_dir [OF env(1) metadata_name [OF n(1)]] metadata_file [OF env(1), of n] by simp
  moreover have "expected_staging st ?e = staging_file st n"
    using expected_staging_eq [OF env(1), of ?e] metadata_name [OF n(1)] metadata_file [OF env(1), of n]
    by (simp add: HasSuffix_append)
  ultimately have "item \<in> set items" using scan es scanned
    by (force simp: store_Scan_def Let_def)
  moreover have "OpenRecovery st item ?fs = Inr (staging_file st n, node_info (Reg d t s))"
    using safe ls reg(1) md(1,3) item f readable(3) by (simp add: OpenRecovery_def os_Open_def resolve_def)
  ultimately show ?thesis using n(2) item md(1) by simp
qed

lemma exact_codec: "mj_Encode exact_mj md = Inr doc \<Longrightarrow> mj_Unmarshal exact_mj doc = Inr md"
  by (auto simp: exact_mj_def split: if_splits)

lemma demo_scan_ok: "is_ok (store_Scan exact_mj demo_store (last (snd demo_preserved)))"
  by code_simp

theorem preserve_then_scan_witness:
  "\<exists>items. store_Scan exact_mj demo_store (last (snd demo_preserved)) = Inr items \<and>
     \<lparr>ri_Metadata = demo_md, ri_MetadataPath = ''/c/staging-1.recovery.json'', ri_Problem = ''''\<rparr> \<in> set items"
proof -
  obtain items where scan: "store_Scan exact_mj demo_store (last (snd demo_preserved)) = Inr items"
    using demo_scan_ok by (auto simp: is_ok_iff)
  have "fs_faults demo_cache op p = None" for op p by (simp add: demo_cache_def)
  from preserve_then_scan [OF demo_store_ok demo_cwd_ok demo_preserved_run exact_codec this this this scan] scan
  show ?thesis by blast
qed

end
