(* ===== verification/Cache_Sizes.thy ===== *)
theory Cache_Sizes
  imports Cache_Effects
begin

text \<open>
  The quota, the usage report, the export and the retry of the cache: what a growth admitted by
  \<open>LockResize\<close> may do to the directory's total, and that the report counts every byte once.
\<close>

subsection \<open>The bytes in the cache directory\<close>

fun reg_size :: "node \<Rightarrow> int" where
  "reg_size (Reg d t s) = int (length d)"
| "reg_size n = 0"

definition weigh :: "('k \<times> 'v \<Rightarrow> int) \<Rightarrow> ('k \<times> 'v) list \<Rightarrow> int" where
  "weigh f m = sum_list (map f m)"

definition dir_bytes :: "store \<Rightarrow> lfs \<Rightarrow> int" where
  "dir_bytes st fs = weigh (\<lambda>(p, n). if child_of (st_directory st) p then reg_size n else 0) (fs_nodes fs)"

lemma reg_size_nonneg [simp]: "0 \<le> reg_size n"
  by (cases n) simp_all

lemma weigh_simps [simp]: "weigh f [] = 0" "weigh f (p # m) = f p + weigh f m"
  by (simp_all add: weigh_def)

lemma weigh_update:
  "weigh f (AList.update k v m) = weigh f m - (case map_of m k of None \<Rightarrow> 0 | Some w \<Rightarrow> f (k, w)) + f (k, v)"
  by (induction m) auto

lemma weigh_delete:
  "distinct (al_keys m) \<Longrightarrow>
   weigh f (AList.delete k m) = weigh f m - (case map_of m k of None \<Rightarrow> 0 | Some w \<Rightarrow> f (k, w))"
proof (induction m)
  case (Cons p m)
  obtain k' v where p: "p = (k', v)" by (cases p)
  show ?case
  proof (cases "k' = k")
    case True
    with Cons.prems p have "map_of m k = None" by (simp add: al_keys_def map_of_eq_None_iff)
    with True p show ?thesis by (simp add: delete_absent)
  next
    case False
    with Cons p show ?thesis by (simp add: al_keys_def)
  qed
qed simp

definition file_bytes :: "lfs \<Rightarrow> string \<Rightarrow> int" where
  "file_bytes fs p = (case fs_get fs p of Some n \<Rightarrow> reg_size n | None \<Rightarrow> 0)"

lemma file_bytes_nonneg [simp]: "0 \<le> file_bytes fs p"
  by (simp add: file_bytes_def split: option.splits)

lemma dir_bytes_set:
  "child_of (st_directory st) p \<Longrightarrow> dir_bytes st (fs_set p n fs) = dir_bytes st fs - file_bytes fs p + reg_size n"
  by (simp add: dir_bytes_def fs_set_def weigh_update file_bytes_def fs_get_def split: option.splits)

lemma dir_bytes_del:
  "fs_wf fs \<Longrightarrow> child_of (st_directory st) p \<Longrightarrow> dir_bytes st (fs_del p fs) = dir_bytes st fs - file_bytes fs p"
  by (simp add: dir_bytes_def fs_del_def weigh_delete fs_wf_def file_bytes_def fs_get_def split: option.splits)

lemma dir_bytes_nonneg: "0 \<le> dir_bytes st fs"
proof -
  have "0 \<le> weigh (\<lambda>(p, n). if child_of (st_directory st) p then reg_size n else 0) m" for m
    by (induction m) auto
  then show ?thesis by (simp add: dir_bytes_def)
qed

text \<open>Distinct files of the directory together weigh no more than the directory.\<close>

lemma distinct_files_le:
  "fs_wf fs \<Longrightarrow> distinct ps \<Longrightarrow> list_all (child_of (st_directory st)) ps \<Longrightarrow>
   sum_list (map (file_bytes fs) ps) \<le> dir_bytes st fs"
proof (induction ps arbitrary: fs)
  case Nil
  then show ?case by (simp add: dir_bytes_nonneg)
next
  case (Cons p ps)
  have "map (file_bytes (fs_del p fs)) ps = map (file_bytes fs) ps"
    using Cons.prems by (auto simp: file_bytes_def fs_get_del)
  with Cons.IH [of "fs_del p fs"] Cons.prems show ?case by (simp add: dir_bytes_del)
qed

lemma sum_regular_eq:
  "sum_regular d fs es acc = Inr t \<Longrightarrow> 0 \<le> acc \<Longrightarrow> acc + sum_list (map (reg_size \<circ> snd) es) \<le> max_i64 \<Longrightarrow>
   t = acc + sum_list (map (reg_size \<circ> snd) es)"
proof (induction es arbitrary: acc)
  case (Cons e es)
  have pos: "0 \<le> sum_list (map (reg_size \<circ> snd) es)" by (rule sum_list_nonneg) auto
  from Cons.prems(1) have info: "entry_Info d e fs = Inr (node_info (snd e))"
    by (auto simp: entry_Info_def split: option.splits)
  show ?case
  proof (cases "snd e")
    case (Reg dd tt ss)
    then have nu: "\<not> unsafe_mode (node_info (snd e))" "fi_Size (node_info (snd e)) = reg_size (snd e)"
      using node_info_unsafe [of "snd e"] by simp_all
    have "i64 (acc + reg_size (snd e)) = acc + reg_size (snd e)"
    proof (rule i64_between)
      have "0 \<le> acc + reg_size (snd e)" using Cons.prems(2) reg_size_nonneg [of "snd e"] by linarith
      then show "min_i64 \<le> acc + reg_size (snd e)" by (simp add: min_i64_def)
      show "acc + reg_size (snd e) \<le> max_i64" using Cons.prems(3) pos by (simp add: comp_def)
    qed
    with Cons.prems info nu Cons.IH [of "acc + reg_size (snd e)"] show ?thesis by (simp add: add.assoc)
  qed (use Cons.prems info node_info_unsafe [of "snd e"] Cons.IH [of acc] in auto)
qed simp

lemma sum_sorted_map:
  fixes f :: "'a \<Rightarrow> int"
  shows "sum_list (map f (sort_key k xs)) = sum_list (map f xs)"
  by (metis mset_map mset_sort sum_mset_sum_list)

lemma totalRegularBytes_eq:
  assumes "totalRegularBytes st fs = Inr t" and "dir_bytes st fs \<le> max_i64"
  shows "t = dir_bytes st fs"
proof -
  let ?ch = "filter (\<lambda>(p, n). child_of (st_directory st) p) (fs_nodes fs)"
  from assms(1) have s: "sum_regular (st_directory st) fs
      (sort_key fst (map (\<lambda>(p, n). (child_name (st_directory st) p, n)) ?ch)) 0 = Inr t"
    by (auto simp: totalRegularBytes_def os_ReadDir_def split: option.splits if_splits)
  have "sum_list (map (reg_size \<circ> snd) (map (\<lambda>(p, n). (child_name (st_directory st) p, n)) m))
        = sum_list (map (reg_size \<circ> snd) m)" for m
    by (induction m) auto
  moreover have "sum_list (map (reg_size \<circ> snd) (filter (\<lambda>(p, n). child_of (st_directory st) p) m)) =
      weigh (\<lambda>(p, n). if child_of (st_directory st) p then reg_size n else 0) m" for m
    by (induction m) auto
  ultimately have "sum_list (map (reg_size \<circ> snd)
      (sort_key fst (map (\<lambda>(p, n). (child_name (st_directory st) p, n)) ?ch))) = dir_bytes st fs"
    by (simp add: sum_sorted_map dir_bytes_def)
  with sum_regular_eq [OF s] assms(2) show ?thesis by simp
qed

subsection \<open>The quota\<close>

lemma Lstat_size:
  assumes "os_Lstat p fs = Inr info" and "\<not> unsafe_mode info"
  shows "fi_Size info = file_bytes fs p"
proof -
  obtain n where n: "fs_get fs p = Some n" "info = node_info n" using Lstat_Inr [OF assms(1)] by blast
  with assms(2) have "is_Reg n" by simp
  with n show ?thesis by (cases n) (simp_all add: file_bytes_def)
qed

lemma LockResize_admits:
  assumes h: "honest fs" and bound: "dir_bytes st fs \<le> max_i64"
    and ok: "LockResize st v size_new fs = None"
  shows "\<exists>p. safeStagingPath st fs v = Inr p \<and> 0 \<le> size_new \<and>
    (lm_MaxFileBytes (st_limits st) > 0 \<longrightarrow> size_new \<le> lm_MaxFileBytes (st_limits st)) \<and>
    (lm_MaxTotalBytes (st_limits st) > 0 \<longrightarrow> size_new > file_bytes fs p \<longrightarrow>
       dir_bytes st fs - file_bytes fs p + size_new \<le> lm_MaxTotalBytes (st_limits st)) \<and>
    (fs_get fs p = None \<or> (\<exists>d t s. fs_get fs p = Some (Reg d t s)))"
proof -
  from ok obtain p where p: "safeStagingPath st fs v = Inr p" and
    lim: "0 \<le> size_new" "lm_MaxFileBytes (st_limits st) > 0 \<longrightarrow> size_new \<le> lm_MaxFileBytes (st_limits st)"
    by (auto simp: LockResize_def split: if_splits sum.splits)
  show ?thesis
  proof (cases "os_Lstat p fs")
    case (Inl e)
    with ok p lim have "errors_Is e ErrNotExist" by (auto simp: LockResize_def split: if_splits)
    with Inl h have none: "fs_get fs p = None" by (auto simp: os_Lstat_def honest_def split: option.splits)
    then have z: "file_bytes fs p = 0" by (simp add: file_bytes_def)
    show ?thesis
    proof (cases "lm_MaxTotalBytes (st_limits st) > 0 \<and> size_new > 0")
      case True
      with ok p lim Inl \<open>errors_Is e ErrNotExist\<close> obtain u where
        "totalRegularBytes st fs = Inr u" "u \<le> lm_MaxTotalBytes (st_limits st) - size_new"
        by (auto simp: LockResize_def Let_def split: if_splits sum.splits)
      with totalRegularBytes_eq [OF _ bound] p lim none z show ?thesis by auto
    qed (use p lim none z in auto)
  next
    case (Inr info)
    with ok p lim have nu: "\<not> unsafe_mode info" by (auto simp: LockResize_def split: if_splits)
    note sz = Lstat_size [OF Inr nu]
    obtain n where n: "fs_get fs p = Some n" "info = node_info n" using Lstat_Inr [OF Inr] by blast
    with nu have reg: "\<exists>d t s. fs_get fs p = Some (Reg d t s)" by (metis node.collapse(1) node_info_unsafe)
    show ?thesis
    proof (cases "lm_MaxTotalBytes (st_limits st) > 0 \<and> size_new > fi_Size info")
      case True
      with ok p lim Inr nu obtain u where
        "totalRegularBytes st fs = Inr u" "u \<le> lm_MaxTotalBytes (st_limits st) - (size_new - fi_Size info)"
        by (auto simp: LockResize_def Let_def split: if_splits sum.splits)
      with totalRegularBytes_eq [OF _ bound] p lim reg sz show ?thesis by auto
    qed (use p lim reg sz in auto)
  qed
qed

text \<open>
  The quota holds: when \<open>LockResize\<close> admits a new size, the path is a staging file that is absent
  or regular, the size is within the file limit, and giving the file any content of that size (a growth)
  leaves the regular files of the cache directory within the total limit. (The bytes on disk are assumed
  to fit in an \<open>int64\<close>, in which the program sums them.)
\<close>

theorem quota_respected:
  assumes "store_ok st" "cwd_ok fs" "honest fs" and "dir_bytes st fs \<le> max_i64"
    and "LockResize st v size_new fs = None" and "int (length d) = size_new"
  shows "\<exists>n. staging_name n \<and> filepath_Abs fs v = Inr (staging_file st n) \<and>
    (fs_get fs (staging_file st n) = None \<or> (\<exists>d t s. fs_get fs (staging_file st n) = Some (Reg d t s))) \<and>
    (lm_MaxFileBytes (st_limits st) > 0 \<longrightarrow> size_new \<le> lm_MaxFileBytes (st_limits st)) \<and>
    (lm_MaxTotalBytes (st_limits st) > 0 \<longrightarrow> size_new > file_bytes fs (staging_file st n) \<longrightarrow>
       dir_bytes st (fs_set (staging_file st n) (Reg d t b) fs) \<le> lm_MaxTotalBytes (st_limits st))"
proof -
  from LockResize_admits [OF assms(3,4,5)] obtain p where
    p: "safeStagingPath st fs v = Inr p" and q: "(lm_MaxFileBytes (st_limits st) > 0 \<longrightarrow> size_new \<le> lm_MaxFileBytes (st_limits st)) \<and>
    (lm_MaxTotalBytes (st_limits st) > 0 \<longrightarrow> size_new > file_bytes fs p \<longrightarrow>
       dir_bytes st fs - file_bytes fs p + size_new \<le> lm_MaxTotalBytes (st_limits st)) \<and>
    (fs_get fs p = None \<or> (\<exists>d t s. fs_get fs p = Some (Reg d t s)))" by blast
  from p safe_staging_eq [OF assms(1,2)] obtain n where n: "filepath_Abs fs v = Inr p" "staging_name n" "p = staging_file st n"
    by blast
  have "child_of (st_directory st) p"
    using child_staging_file [OF assms(1), of n] n by (simp add: staging_name_def)
  then have "dir_bytes st (fs_set p (Reg d t b) fs) = dir_bytes st fs - file_bytes fs p + size_new"
    using assms(6) by (simp add: dir_bytes_set)
  with q n show ?thesis by auto
qed

lemma demo_lock: "LockResize demo_store ''/c/staging-2'' 3 demo_cache = None" "dir_bytes demo_store demo_cache \<le> max_i64"
  by code_simp+

theorem quota_respected_witness:
  "\<exists>n. staging_name n \<and> dir_bytes demo_store (fs_set (staging_file demo_store n) (Reg [0, 0, 0] 1 False) demo_cache) \<le> 6
     \<or> 3 \<le> file_bytes demo_cache (staging_file demo_store n)"
proof -
  have len: "int (length [0, 0, 0 :: 8 word]) = 3" by simp
  show ?thesis
    using quota_respected [OF demo_store_ok demo_cwd_ok demo_honest demo_lock(2) demo_lock(1) len, of 1 False]
    by (auto simp: demo_store_def not_less)
qed

subsection \<open>The usage report\<close>

definition usage_sane :: "lfs \<Rightarrow> string list \<Rightarrow> usage \<Rightarrow> bool" where
  "usage_sane fs seen u \<longleftrightarrow>
     us_RecoveryBytes u = sum_list (map (file_bytes fs) seen) \<and>
     0 \<le> us_UnclassifiedBytes u \<and> us_UnclassifiedBytes u \<le> us_RecoveryBytes u \<and>
     weigh (\<lambda>(pid, v). pu_Bytes v) (us_Profiles u) \<le> us_RecoveryBytes u"

lemma usage_items_spec:
  assumes st: "store_ok st" "cwd_ok fs"
    and "usage_sane fs seen u" and "distinct seen" and "list_all (child_of (st_directory st)) seen"
    and "u' = usage_items st fs items seen u"
  shows "us_TotalBytes u' = us_TotalBytes u \<and> us_RecoveryItems u' = us_RecoveryItems u + int (length items) \<and>
    (\<exists>seen'. usage_sane fs seen' u' \<and> distinct seen' \<and> list_all (child_of (st_directory st)) seen')"
  using assms(3-6)
proof (induction items arbitrary: seen u)
  case (Cons item items)
  let ?v = "rm_StagingPath (ri_Metadata item)"
  let ?missing = "rm_RecoveryState (ri_Metadata item) = StateMissingMetadata"
  define u1 where "u1 = u\<lparr>us_RecoveryItems := us_RecoveryItems u + 1,
      us_UnclassifiedItems := us_UnclassifiedItems u + (if ?missing then 1 else 0)\<rparr>"
  have u1: "usage_sane fs seen u1" "us_TotalBytes u1 = us_TotalBytes u" "us_RecoveryItems u1 = us_RecoveryItems u + 1"
    using Cons.prems(1) by (simp_all add: usage_sane_def u1_def)
  note IH1 = Cons.IH [OF u1(1) Cons.prems(2,3)]
  show ?case
  proof (cases "\<exists>p info. safeStagingPath st fs ?v = Inr p \<and> p \<notin> set seen \<and> os_Lstat p fs = Inr info \<and> \<not> unsafe_mode info")
    case False
    then have "u' = usage_items st fs items seen u1"
      using Cons.prems(4) by (auto simp: u1_def Let_def split: sum.splits)
    from IH1 [OF this] u1 show ?thesis by auto
  next
    case True
    then obtain p info where p: "safeStagingPath st fs ?v = Inr p" "p \<notin> set seen" "os_Lstat p fs = Inr info"
      "\<not> unsafe_mode info" by blast
    define u2 where "u2 = u1\<lparr>us_RecoveryBytes := us_RecoveryBytes u1 + fi_Size info,
        us_UnclassifiedBytes := us_UnclassifiedBytes u1 + (if ?missing then fi_Size info else 0),
        us_Profiles := (if rm_ProfileID (ri_Metadata item) \<noteq> ''''
          then add_profile (rm_ProfileID (ri_Metadata item)) (fi_Size info) (us_Profiles u1)
          else us_Profiles u1)\<rparr>"
    have run: "u' = usage_items st fs items (p # seen) u2"
      using Cons.prems(4) p by (simp add: u1_def u2_def Let_def)
    have sz: "fi_Size info = file_bytes fs p" by (rule Lstat_size [OF p(3,4)])
    have "weigh (\<lambda>(pid, v). pu_Bytes v) (add_profile pid k m) = weigh (\<lambda>(pid, v). pu_Bytes v) m + k" for pid k m
      by (simp add: add_profile_def Let_def weigh_update split: option.splits)
    moreover obtain b where b: "file_bytes fs p = b" "0 \<le> b" by simp
    ultimately have s2: "usage_sane fs (p # seen) u2"
      using u1(1) sz by (auto simp: usage_sane_def u2_def b(1) intro: add_increasing2 add_mono order_trans)
    obtain n where "staging_name n" "p = staging_file st n" using safe_stagingD [OF st p(1)] by blast
    then have "child_of (st_directory st) p" using child_staging_file [OF st(1), of n] by (simp add: staging_name_def)
    with Cons.IH [OF s2 _ _ run] Cons.prems(2,3) p(2) u1 show ?thesis by (simp add: u2_def)
  qed
qed auto

text \<open>
  The usage report is exact: the total is the size of the regular files in the cache directory, every
  item is counted, and the bytes of the items, each staging file counted once however often it is listed,
  stay within the total; the unclassified part and the sum over the profiles stay within the items' bytes.
\<close>

theorem usage_report_exact:
  assumes "store_env st fs" and "dir_bytes st fs \<le> max_i64" and "store_Usage st items fs = Inr u"
  shows "us_TotalBytes u = dir_bytes st fs \<and> us_RecoveryItems u = int (length items) \<and>
    0 \<le> us_UnclassifiedBytes u \<and> us_UnclassifiedBytes u \<le> us_RecoveryBytes u \<and>
    us_RecoveryBytes u \<le> us_TotalBytes u \<and>
    sum_list (map (\<lambda>(pid, v). pu_Bytes v) (us_Profiles u)) \<le> us_RecoveryBytes u"
proof -
  have env: "store_ok st" "cwd_ok fs" "fs_wf fs" using assms(1) by (simp_all add: store_env_def)
  from assms(3) obtain t where t: "totalRegularBytes st fs = Inr t" and
    u: "u = usage_items st fs items [] \<lparr>us_TotalBytes = t, us_RecoveryItems = 0, us_RecoveryBytes = 0,
                 us_UnclassifiedItems = 0, us_UnclassifiedBytes = 0, us_Profiles = []\<rparr>"
    by (auto simp: store_Usage_def split: sum.splits)
  have t': "t = dir_bytes st fs" by (rule totalRegularBytes_eq [OF t assms(2)])
  from usage_items_spec [OF env(1,2) _ _ _ u] obtain seen where
    s: "usage_sane fs seen u" "distinct seen" "list_all (child_of (st_directory st)) seen"
       "us_TotalBytes u = t" "us_RecoveryItems u = int (length items)"
    by (auto simp: usage_sane_def)
  with distinct_files_le [OF env(3) s(2,3)] t' show ?thesis by (simp add: usage_sane_def weigh_def)
qed

lemma demo_usage:
  "is_ok (store_Usage demo_store [demo_item, demo_item] demo_old)" "dir_bytes demo_store demo_old \<le> max_i64"
  by code_simp+

theorem usage_report_exact_witness:
  "\<exists>u. store_Usage demo_store [demo_item, demo_item] demo_old = Inr u \<and> us_RecoveryBytes u \<le> us_TotalBytes u
     \<and> us_RecoveryItems u = 2"
proof -
  obtain u where u: "store_Usage demo_store [demo_item, demo_item] demo_old = Inr u"
    using demo_usage(1) by (auto simp: is_ok_iff)
  from usage_report_exact [OF demo_old_env demo_usage(2) u] u show ?thesis by simp
qed

subsection \<open>Exporting\<close>

lemma contains_inside:
  "list_all plain ts \<Longrightarrow> store_ok st \<Longrightarrow> contains_path st (abs_path (comps (st_directory st) @ ts))"
proof -
  let ?ds = "comps (st_directory st)"
  assume ts: "list_all plain ts" and st: "store_ok st"
  then have d: "st_directory st = abs_path ?ds" by (simp add: store_ok_def)
  have all: "list_all plain (?ds @ ts)" using ts by simp
  show ?thesis
  proof (cases "ts = []")
    case True
    have "longest_common_prefix ?ds ?ds = ?ds" by (induction ?ds) (simp_all add: longest_common_prefix_max_prefix prefix_order.antisym longest_common_prefix_prefix1)
    with True d have "filepath_Rel (st_directory st) (abs_path (?ds @ ts)) = ''.''"
      by (simp add: filepath_Rel_def Let_def comps_abs_path)
    then show ?thesis by (simp add: contains_path_def Let_def filepath_IsAbs_def HasPrefix_def)
  next
    case False
    have rel: "filepath_Rel (st_directory st) (abs_path (?ds @ ts)) = strings_Join ts ''/''"
      using Rel_below [OF comps_plain ts False] d by metis
    have "\<not> filepath_IsAbs (strings_Join ts ''/'')"
      using Join_plain_no_slash_end [OF ts False] by (auto simp: filepath_IsAbs_def HasPrefix_def prefix_def)
    moreover have "strings_Join ts ''/'' \<noteq> ''..'' \<and> \<not> HasPrefix (strings_Join ts ''/'') ''../''"
    proof -
      have sp: "Split (strings_Join ts ''/'') slash = ts" using Split_Join [OF False plain_no_slash [OF ts]] .
      have "hd (Split (''..'' @ x) slash) = ''..''" if "x = [] \<or> hd x = slash" for x
        using that by (cases x) auto
      then have "hd ts = ''..''" if "strings_Join ts ''/'' = ''..'' \<or> HasPrefix (strings_Join ts ''/'') ''../''"
        using that sp by (auto simp: HasPrefix_def prefix_def)
      with ts False show ?thesis by (cases ts) (auto simp: plain_def)
    qed
    ultimately show ?thesis by (simp add: contains_path_def rel)
  qed
qed

text \<open>
  An export writes nowhere but to its destination, which is outside the cache and not a symbolic
  link: every other path is unchanged whatever fails, so no staging or metadata file is ever altered; and
  when it reports success the destination holds exactly the bytes of the staging file, synced.
\<close>

theorem export_exact:
  assumes "store_ok st" "cwd_ok fs" "honest fs" and "store_Export st item destination now fs = (r, fs')"
  shows "\<exists>dest. (filepath_Abs fs destination = Inr dest \<or> fs' = fs) \<and>
    (\<forall>q. fs_get fs' q \<noteq> fs_get fs q \<longrightarrow> q = dest \<and> \<not> contains_path st q) \<and>
    (\<forall>n. plain n \<longrightarrow> fs_get fs' (staging_file st n) = fs_get fs (staging_file st n)) \<and>
    (r = None \<longrightarrow> (\<exists>n d t s. staging_name n \<and> fs_get fs (staging_file st n) = Some (Reg d t s) \<and>
       filepath_Abs fs (rm_StagingPath (ri_Metadata item)) = Inr (staging_file st n) \<and> published dest d fs'))"
proof -
  have inside: "contains_path st (staging_file st n)" if "plain n" for n
    using contains_inside [of "[n]"] that assms(1) by (simp add: staging_file_def)
  show ?thesis
  proof (cases "fs' = fs \<and> r \<noteq> None")
    case True
    then show ?thesis by blast
  next
    case go: False
    let ?rs = "rm_RecoveryState (ri_Metadata item)"
    from go assms(4) obtain src info dest where
      state: "?rs = StatePreserved \<or> ?rs = StateMissingMetadata" and
      src: "safeStagingPath st fs (rm_StagingPath (ri_Metadata item)) = Inr src" "os_Lstat src fs = Inr info" "\<not> unsafe_mode info" and
      dest: "filepath_Abs fs destination = Inr dest" "\<not> contains_path st dest"
      by (auto simp: store_Export_def Let_def split: if_splits sum.splits)
    from safe_staging_eq [OF assms(1,2)] src(1) obtain n where
      n: "staging_name n" "src = staging_file st n" "filepath_Abs fs (rm_StagingPath (ri_Metadata item)) = Inr src" by blast
    obtain nd where nd: "fs_get fs src = Some nd" "info = node_info nd" using Lstat_Inr [OF src(2)] by blast
    with src(3) have "is_Reg nd" by simp
    with nd obtain d t s where reg: "fs_get fs src = Some (Reg d t s)" by (cases nd) auto
    have out: "dest \<noteq> src" using dest(2) inside n by (auto simp: staging_name_def)
    from go assms(4) state src dest have chk: "(case os_Lstat dest fs of Inr i \<Rightarrow> \<not> mode_IsSymlink (fi_Mode i) | Inl e \<Rightarrow> os_IsNotExist e)"
      and op: "os_Open src fs = Inr ()"
      by (auto simp: store_Export_def Let_def split: if_splits sum.splits)
    have nolink: "fs_get fs dest \<noteq> Some (Link tt)" for tt
    proof
      assume l: "fs_get fs dest = Some (Link tt)"
      show False
      proof (cases "os_Lstat dest fs")
        case (Inl e)
        with chk l Lstat_absent [OF assms(3) Inl] show False by simp
      next
        case (Inr i)
        with Lstat_Inr [OF Inr] l have "i = node_info (Link tt)" by simp
        with chk Inr show False by (simp add: mode_IsSymlink_def ModeSymlink_def)
      qed
    qed
    obtain x fs1 where ot: "os_OpenTrunc dest now fs = (x, fs1)" by force
    have 1: "fs_get fs1 q = fs_get fs q" if "q \<noteq> dest" for q
      using ot that nolink by (auto simp: os_OpenTrunc_def Let_def fs_simps split: option.splits node.splits)
    show ?thesis
    proof (cases x)
      case (Inl e)
      with go assms(4) state src dest chk op ot out have "fs' = fs1" "r \<noteq> None"
        by (auto simp: store_Export_def Let_def split: sum.splits)
      moreover have "fs1 = fs" using ot Inl by (auto simp: os_OpenTrunc_def Let_def split: option.splits node.splits)
      ultimately show ?thesis by blast
    next
      case (Inr o1)
      have o1: "o1 = dest" "fs_get fs1 dest = Some (Reg [] now False)" "fs_faults fs1 = fs_faults fs"
        using ot Inr nolink by (auto simp: os_OpenTrunc_def Let_def fs_simps split: option.splits node.splits)
      obtain ce fs2 where cp: "(case os_ReadFile src fs1 of Inl e \<Rightarrow> (Some e, fs1)
            | Inr d \<Rightarrow> (case file_WriteAt dest d 0 now fs1 of ((n, e), fs') \<Rightarrow> (e, fs'))) = (ce, fs2)" by force
      obtain se fs3 where sy: "file_Sync dest fs2 = (se, fs3)" by force
      have res: "fs' = fs3" "r = map_option (Wrapped ''export failed'') (errors_Join [ce, se, file_Close dest fs3, file_Close src fs3])"
        using assms(4) state src dest chk op ot Inr o1(1) out cp sy
        by (auto simp: store_Export_def Let_def split: sum.splits)
      have 2: "fs_get fs2 q = fs_get fs1 q" if "q \<noteq> dest" for q
        using cp WriteAt_frame [OF that] by (auto split: sum.splits prod.splits) (metis snd_conv)
      have 3: "fs_get fs3 q = fs_get fs2 q" if "q \<noteq> dest" for q
        using Sync_frame [OF that, of fs2] sy by simp
      have frame: "fs_get fs' q = fs_get fs q" if "q \<noteq> dest" for q using 1 2 3 that res by simp
      have pub: "published dest d fs'" if "r = None"
      proof -
        from that res(2) have ok: "ce = None" "se = None" by (simp_all add: errors_Join_None_iff)
        have rd: "os_ReadFile src fs1 = Inr d \<or> (\<exists>e. os_ReadFile src fs1 = Inl e)"
          using 1 [of src] out reg by (auto simp: os_ReadFile_def resolve_def split: option.splits)
        with cp ok obtain k where "file_WriteAt dest d 0 now fs1 = ((k, None), fs2)"
          by (auto split: prod.splits)
        from written_file [OF o1(2) this] sy ok res(1) show ?thesis by (simp add: published_def)
      qed
      have f2: "q = dest \<and> \<not> contains_path st q" if "fs_get fs' q \<noteq> fs_get fs q" for q
        using frame [of q] that dest(2) by blast
      have f3: "fs_get fs' (staging_file st m) = fs_get fs (staging_file st m)" if "plain m" for m
      proof (rule frame)
        show "staging_file st m \<noteq> dest" using inside [OF that] dest(2) by auto
      qed
      have f4: "\<exists>n d t s. staging_name n \<and> fs_get fs (staging_file st n) = Some (Reg d t s) \<and>
          filepath_Abs fs (rm_StagingPath (ri_Metadata item)) = Inr (staging_file st n) \<and> published dest d fs'" if "r = None"
        using pub [OF that] n reg by blast
      show ?thesis
      proof (rule exI [where x = dest], intro conjI)
        show "filepath_Abs fs destination = Inr dest \<or> fs' = fs" using dest(1) by (rule disjI1)
        show "\<forall>q. fs_get fs' q \<noteq> fs_get fs q \<longrightarrow> q = dest \<and> \<not> contains_path st q"
          by (intro allI impI) (rule f2)
        show "\<forall>n. plain n \<longrightarrow> fs_get fs' (staging_file st n) = fs_get fs (staging_file st n)"
          by (intro allI impI) (rule f3)
        show "r = None \<longrightarrow> (\<exists>n d t s. staging_name n \<and> fs_get fs (staging_file st n) = Some (Reg d t s) \<and>
          filepath_Abs fs (rm_StagingPath (ri_Metadata item)) = Inr (staging_file st n) \<and> published dest d fs')"
          by (intro impI) (rule f4)
      qed
    qed
  qed
qed

definition demo_export :: "err option \<times> lfs" where
  "demo_export = store_Export demo_store demo_item ''out'' 8 demo_cache"

lemma demo_exported: "fst demo_export = None" "filepath_Abs demo_cache ''out'' = Inr ''/home/out''"
    "filepath_Abs demo_cache ''/c/staging-1'' = Inr ''/c/staging-1''"
  by code_simp+

theorem export_exact_witness:
  "\<exists>dest n d. fs_get demo_cache (staging_file demo_store n) = Some (Reg d 5 True) \<and> published dest d (snd demo_export)"
proof -
  have run: "store_Export demo_store demo_item ''out'' 8 demo_cache = (None, snd demo_export)"
    using demo_exported(1) by (metis demo_export_def prod.collapse)
  from export_exact [OF demo_store_ok demo_cwd_ok demo_honest run] obtain dest n d t s where
    e: "fs_get demo_cache (staging_file demo_store n) = Some (Reg d t s)" "published dest d (snd demo_export)"
      "filepath_Abs demo_cache ''/c/staging-1'' = Inr (staging_file demo_store n)"
    by (auto simp: demo_item_def)
  have "fs_get demo_cache ''/c/staging-1'' = Some (Reg [1, 2, 3] 5 True)" by code_simp
  with e demo_exported(3) show ?thesis by auto
qed

subsection \<open>Clearing\<close>

lemma RemoveAll_result:
  "os_RemoveAll p fs = (r, fs') \<Longrightarrow> fs_faults fs' = fs_faults fs \<and>
   (r \<noteq> None \<longrightarrow> fs' = fs) \<and>
   (r = None \<longrightarrow> (\<forall>q. fs_get fs' q = (if q = p \<or> prefix (p @ ''/'') q then None else fs_get fs q)))"
proof -
  have "map_of (filter (\<lambda>(q, n). q \<noteq> p \<and> \<not> prefix (p @ ''/'') q) m) q =
      (if q = p \<or> prefix (p @ ''/'') q then None else map_of m q)" for m :: "(string \<times> node) list" and q
    by (induction m) auto
  then show "os_RemoveAll p fs = (r, fs') \<Longrightarrow> ?thesis"
    by (auto simp: os_RemoveAll_def fs_get_def split: option.splits)
qed

text \<open>A removed file stays removed and files outside the directory's entries are never touched.\<close>

lemma clear_loop_spec:
  "clear_loop d es k res fs = ((n, r), fs') \<Longrightarrow>
   (\<forall>q. fs_get fs' q \<noteq> fs_get fs q \<longrightarrow> fs_get fs' q = None \<and>
     (\<exists>e \<in> set es. q = path_Join [d, fst e] \<or> prefix (path_Join [d, fst e] @ ''/'') q)) \<and>
   (res \<noteq> None \<longrightarrow> r \<noteq> None) \<and>
   (r = None \<longrightarrow> n = k + int (length es) \<and> (\<forall>e \<in> set es. fs_get fs' (path_Join [d, fst e]) = None))"
proof (induction es arbitrary: k res fs)
  case (Cons e es)
  obtain r1 fs1 where rm: "os_RemoveAll (path_Join [d, fst e]) fs = (r1, fs1)" by force
  note e1 = RemoveAll_result [OF rm]
  show ?case
  proof (cases r1)
    case None
    with Cons.prems rm have run: "clear_loop d es (k + 1) res fs1 = ((n, r), fs')" by simp
    note IH = Cons.IH [OF run]
    have g: "fs_get fs1 p = (if p = path_Join [d, fst e] \<or> prefix (path_Join [d, fst e] @ ''/'') p then None else fs_get fs p)" for p
      using e1 None by blast
    have gone: "fs_get fs' (path_Join [d, fst e]) = None"
      using IH [THEN conjunct1, rule_format, of "path_Join [d, fst e]"] g [of "path_Join [d, fst e]"]
      by (cases "fs_get fs' (path_Join [d, fst e]) = None") auto
    have "fs_get fs' q = None \<and> (\<exists>e \<in> set (e # es). q = path_Join [d, fst e] \<or> prefix (path_Join [d, fst e] @ ''/'') q)"
      if "fs_get fs' q \<noteq> fs_get fs q" for q
      using IH [THEN conjunct1, rule_format, of q] g [of q] that by (cases "fs_get fs' q = fs_get fs1 q") (auto split: if_splits)
    with IH gone show ?thesis by auto
  next
    case (Some er)
    with Cons.prems rm have run: "clear_loop d es k (errors_Join [res, Some (Wrapped (fst e) er)]) fs1 = ((n, r), fs')" by simp
    note IH = Cons.IH [OF run]
    have "errors_Join [res, Some (Wrapped (fst e) er)] \<noteq> None" by (simp add: errors_Join_None_iff)
    with IH have "r \<noteq> None" by blast
    moreover have "fs1 = fs" using e1 Some by blast
    ultimately show ?thesis using IH by auto
  qed
qed auto

text \<open>
  Clearing empties the cache and only the cache: nothing outside the directory's entries changes and
  the directory itself stays; when it reports success every file that was directly in the directory is
  gone and the count is their number.
\<close>

theorem clear_confined:
  assumes "store_env st fs" and "store_Clear st fs = ((n, r), fs')"
  shows "(\<forall>q. fs_get fs' q \<noteq> fs_get fs q \<longrightarrow> fs_get fs' q = None \<and> prefix (st_directory st @ ''/'') q) \<and>
    (r = None \<longrightarrow> (\<forall>m. plain m \<longrightarrow> fs_get fs' (staging_file st m) = None) \<and>
       (\<exists>es. os_ReadDir (st_directory st) fs = Inr es \<and> n = int (length es)))"
proof -
  have st: "store_ok st" using assms(1) by (simp add: store_env_def)
  show ?thesis
  proof (cases "fs' = fs \<and> r \<noteq> None")
    case True
    then show ?thesis by auto
  next
    case False
    with assms(2) obtain es r' where es: "os_ReadDir (st_directory st) fs = Inr es"
      "clear_loop (st_directory st) es 0 None fs = ((n, r'), fs')" "r = None \<longleftrightarrow> r' = None"
      by (auto simp: store_Clear_def split: sum.splits if_splits prod.splits)
    note cl = clear_loop_spec [OF es(2)]
    have ch: "plain (fst e) \<and> path_Join [st_directory st, fst e] = staging_file st (fst e)" if "e \<in> set es" for e
      using ReadDir_set [OF assms(1) es(1), of "fst e" "snd e"] that join_dir [OF st, of "fst e"] by simp
    have 1: "fs_get fs' q = None \<and> prefix (st_directory st @ ''/'') q" if "fs_get fs' q \<noteq> fs_get fs q" for q
    proof -
      from cl that obtain e where e: "e \<in> set es" "fs_get fs' q = None"
        "q = path_Join [st_directory st, fst e] \<or> prefix (path_Join [st_directory st, fst e] @ ''/'') q" by blast
      have "prefix (st_directory st @ ''/'') (staging_file st (fst e))" by (simp add: staging_file_path [OF st])
      with e ch [OF e(1)] show ?thesis by (metis append_prefixD prefix_order.trans)
    qed
    have 2: "fs_get fs' (staging_file st m) = None" if "r = None" "plain m" for m
    proof (cases "fs_get fs (staging_file st m)")
      case None
      then show ?thesis using cl by (metis (no_types))
    next
      case (Some nd)
      with ReadDir_set [OF assms(1) es(1), of m nd] that(2) have "(m, nd) \<in> set es" by simp
      with cl es(3) that(1) ch [OF this] show ?thesis by force
    qed
    show ?thesis using 1 2 cl es by auto
  qed
qed

lemma demo_cleared: "snd (fst (store_Clear demo_store demo_old)) = None"
  by code_simp

theorem clear_confined_witness:
  "fs_get (snd (store_Clear demo_store demo_old)) (staging_file demo_store ''staging-2'') = None"
proof -
  obtain n fs' where run: "store_Clear demo_store demo_old = ((n, None), fs')"
    using demo_cleared by (metis prod.collapse)
  have "plain ''staging-2''" by code_simp
  with clear_confined [OF demo_old_env run] run show ?thesis by simp
qed

end
