(* ===== verification/Remote_Path.thy ===== *)
theory Remote_Path
  imports Vfs
begin

text \<open>
  How the three protocols turn a name of the mounted drive into a path on the server:
  \<^verbatim>\<open>normalizeRoot\<close> and \<^verbatim>\<open>remotePath\<close> of
  \<^verbatim>\<open>internal/protocol/ftp/backend.go\<close> and \<^verbatim>\<open>internal/protocol/sftp/backend.go\<close>,
  \<^verbatim>\<open>normalizeRoot\<close> and \<^verbatim>\<open>resourceURL\<close> of
  \<^verbatim>\<open>internal/protocol/webdav/backend.go\<close>. The locale \<open>path_mapper\<close> is the contract the
  rest of the program relies on; each protocol's function is an interpretation.
\<close>

definition has_dotdot :: "string \<Rightarrow> bool" where
  "has_dotdot normalized \<longleftrightarrow> list_ex (\<lambda>c. c = ''..'') (Split normalized slash)"

definition ftp_normalizeRoot :: "string \<Rightarrow> string" where
  "ftp_normalizeRoot root =
     (if TrimSpace root = '''' then ''/''
      else path_Clean (''/'' @ TrimPrefix (ReplaceBackslashes root) ''/''))"

definition sftp_normalizeRoot :: "string \<Rightarrow> string" where
  "sftp_normalizeRoot root =
     (if TrimSpace root = '''' then ''/''
      else path_Clean (''/'' @ TrimPrefix (ReplaceBackslashes root) ''/''))"

definition webdav_normalizeRoot :: "string \<Rightarrow> string" where
  "webdav_normalizeRoot root =
     (if TrimSpace root = '''' then ''/''
      else path_Clean (''/'' @ TrimPrefix (ReplaceBackslashes root) ''/''))"

definition ftp_remotePath :: "string \<Rightarrow> string \<Rightarrow> err + string" where
  "ftp_remotePath root name =
     (let normalized = ReplaceBackslashes name
      in if has_dotdot normalized then Inl (ErrNew ''parent traversal not allowed'')
         else let relative = TrimPrefix (path_Clean (''/'' @ normalized)) ''/''
              in Inr (path_Join [root, relative]))"

definition sftp_remotePath :: "string \<Rightarrow> string \<Rightarrow> err + string" where
  "sftp_remotePath root name =
     (let normalized = ReplaceBackslashes name
      in if has_dotdot normalized then Inl (ErrNew ''parent traversal not allowed'')
         else let relative = TrimPrefix (path_Clean (''/'' @ normalized)) ''/''
              in Inr (path_Join [root, relative]))"

text \<open>The path of the URL; its other parts are those of the base URL.\<close>

definition webdav_resourcePath :: "string \<Rightarrow> string \<Rightarrow> err + string" where
  "webdav_resourcePath basePath name =
     (let normalized = ReplaceBackslashes name
      in if has_dotdot normalized then Inl (ErrNew ''parent traversal not allowed'')
         else let relative = TrimPrefix (path_Clean (''/'' @ normalized)) ''/''
              in Inr (path_Join [basePath, relative]))"

subsection \<open>Components\<close>

definition rooted :: "string \<Rightarrow> bool" where
  "rooted r \<longleftrightarrow> r = abs_path (comps r)"

lemma rooted_Clean [simp]: "rooted (path_Clean (slash # s))"
  by (simp add: rooted_def path_Clean_rooted comps_abs_path)

lemma rooted_slash [simp]: "rooted ''/''"
  by (simp add: rooted_def comps_def norm_def abs_path_def clean_step_skip)

lemma normalizeRoot_rooted [simp]:
  "rooted (ftp_normalizeRoot r)" "rooted (sftp_normalizeRoot r)" "rooted (webdav_normalizeRoot r)"
  by (simp_all add: ftp_normalizeRoot_def sftp_normalizeRoot_def webdav_normalizeRoot_def)

lemma comps_TrimPrefix [path_simps]: "comps (TrimPrefix s ''/'') = comps s"
  by (cases s) (simp_all add: TrimPrefix_slash comps_slash)

lemma TrimPrefix_abs [path_simps]: "TrimPrefix (abs_path ps) ''/'' = strings_Join ps ''/''"
  by (simp add: abs_path_def TrimPrefix_slash)

text \<open>The name of a drive path: what a mapper may depend on.\<close>

definition name_comps :: "string \<Rightarrow> string list" where
  "name_comps name = comps (ReplaceBackslashes name)"

lemma name_comps_plain [simp]: "list_all plain (name_comps name)"
  by (simp add: name_comps_def)

text \<open>An answer is a refusal of a traversal, or the root, or a path below it.\<close>

definition stays_under :: "string \<Rightarrow> string \<Rightarrow> err + string \<Rightarrow> bool" where
  "stays_under root name r \<longleftrightarrow>
     (case r of
        Inl _ \<Rightarrow> has_dotdot (ReplaceBackslashes name)
      | Inr p \<Rightarrow> \<not> has_dotdot (ReplaceBackslashes name) \<and>
          (p = root \<or> (if root = ''/'' then prefix ''/'' p else prefix (root @ ''/'') p)))"

subsection \<open>The contract of a path mapper\<close>

locale path_mapper =
  fixes root :: string and rp :: "string \<Rightarrow> err + string"
  assumes root_rooted: "rooted root"
    and traversal: "has_dotdot (ReplaceBackslashes name) \<Longrightarrow> \<exists>e. rp name = Inl e"
    and mapped: "\<not> has_dotdot (ReplaceBackslashes name) \<Longrightarrow> rp name = Inr (abs_path (comps root @ name_comps name))"
begin

lemma accepted_iff: "(\<exists>p. rp name = Inr p) \<longleftrightarrow> \<not> has_dotdot (ReplaceBackslashes name)"
  using traversal [of name] mapped [of name] by (cases "rp name") auto

lemma image: "rp name = Inr p \<Longrightarrow> p = abs_path (comps root @ name_comps name)"
  using accepted_iff [of name] mapped [of name] by auto

lemma confined:
  assumes "rp name = Inr p"
  shows "p = root \<or> (if root = ''/'' then prefix ''/'' p else prefix (root @ ''/'') p)"
proof -
  note p = image [OF assms]
  have r: "root = abs_path (comps root)" using root_rooted by (simp add: rooted_def)
  show ?thesis
  proof (cases "name_comps name = []")
    case True
    with p r show ?thesis by simp
  next
    case False
    show ?thesis
    proof (cases "comps root = []")
      case True
      with r have "root = ''/''" by (simp add: abs_path_def)
      with p show ?thesis by (simp add: abs_path_def)
    next
      case ne: False
      have "prefix (abs_path (comps root) @ ''/'') p"
        unfolding p using below_iff [of "comps root" "comps root @ name_comps name"] ne False by auto
      moreover have "root \<noteq> ''/''" using r ne abs_path_inj [of "comps root" "[]"] by (auto simp: abs_path_def)
      ultimately show ?thesis using r by simp
    qed
  qed
qed

lemma stays: "stays_under root name (rp name)"
  using confined [of name] accepted_iff [of name] by (cases "rp name") (auto simp: stays_under_def)

lemma injective:
  "rp m = Inr p \<Longrightarrow> rp n = Inr q \<Longrightarrow> p = q \<longleftrightarrow> name_comps m = name_comps n"
  using image [of m p] image [of n q] abs_path_inj [of "comps root @ name_comps m" "comps root @ name_comps n"] by auto

lemma root_of_drive: "rp ''.'' = Inr root"
proof -
  have "\<not> has_dotdot (ReplaceBackslashes ''.'')" "name_comps ''.'' = []"
    by (simp_all add: has_dotdot_def ReplaceBackslashes_def name_comps_def comps_def norm_def clean_step_def)
  with mapped [of "''.''"] root_rooted show ?thesis by (simp add: rooted_def)
qed

end

lemma mapper_law:
  assumes "rooted root"
  shows "path_Join [root, TrimPrefix (path_Clean (slash # ReplaceBackslashes name)) ''/''] =
    abs_path (comps root @ name_comps name)"
proof -
  have "root = abs_path (comps root)" using assms by (simp add: rooted_def)
  then have "path_Join [root, strings_Join (name_comps name) ''/''] = abs_path (comps root @ name_comps name)"
    using Join_abs_plain [of "comps root" "name_comps name"] by simp
  then show ?thesis by (simp add: path_Clean_rooted TrimPrefix_abs name_comps_def)
qed

interpretation ftp: path_mapper "ftp_normalizeRoot r" "ftp_remotePath (ftp_normalizeRoot r)" for r
  by unfold_locales (simp_all add: ftp_remotePath_def Let_def mapper_law)

interpretation sftp: path_mapper "sftp_normalizeRoot r" "sftp_remotePath (sftp_normalizeRoot r)" for r
  by unfold_locales (simp_all add: sftp_remotePath_def Let_def mapper_law)

interpretation dav: path_mapper "webdav_normalizeRoot r" "webdav_resourcePath (webdav_normalizeRoot r)" for r
  by unfold_locales (simp_all add: webdav_resourcePath_def Let_def mapper_law)

text \<open>
  C29. No name of the drive reaches outside the configured remote root, over any of the three protocols: a
  name with a \<open>..\<close> component (after \<open>\\<close> is read as \<open>/\<close>) is refused; any other is sent as the
  root itself or a path below it.
\<close>

theorem remote_root_confined:
  "stays_under (ftp_normalizeRoot r) name (ftp_remotePath (ftp_normalizeRoot r) name) \<and>
   stays_under (sftp_normalizeRoot r) name (sftp_remotePath (sftp_normalizeRoot r) name) \<and>
   stays_under (webdav_normalizeRoot r) name (webdav_resourcePath (webdav_normalizeRoot r) name)"
  by (intro conjI ftp.stays sftp.stays dav.stays)

end
