(* ===== verification/Ftp_Backend.thy ===== *)
theory Ftp_Backend
  imports Remote_Path Local_FS
begin

text \<open>
  \<^verbatim>\<open>internal/protocol/ftp/backend.go\<close>. The FTP client library and the server behind it are a
  parameter: a record of calls on a server state \<open>'s\<close> and a connection \<open>'c\<close>. The backend's mutex
  is the field \<open>fw_held\<close>: an operation starts with the mutex free (the caller waits otherwise) and
  takes it; only a successful \<open>OpenRead\<close> returns with it held, until its reader is closed. The
  metadata recorder wraps some calls; by \<^theory_text>\<open>Diagnostics\<close> it changes no result and is left out.
\<close>

datatype ftp_entry_type = EntryTypeFile | EntryTypeFolder | EntryTypeLink

record ftp_entry =
  fe_Name :: string
  fe_Type :: ftp_entry_type
  fe_Size :: "64 word"
  fe_Time :: instant

datatype tls_mode = TLSNone | TLSExplicit | TLSImplicit | TLSOther string

text \<open>The fields of \<open>tls.Config\<close> the program sets.\<close>

record tls_config =
  tls_ServerName :: string
  tls_InsecureSkipVerify :: bool

record ftp_config =
  fc_Host :: string
  fc_Port :: "16 word"
  fc_Username :: string
  fc_Password :: string
  fc_Root :: string
  fc_TLSMode :: tls_mode
  fc_TLSConfig :: "tls_config option"

record ('c, 's, 'd) ftp_lib =
  fl_Dial :: "string \<Rightarrow> 16 word \<Rightarrow> (tls_mode \<times> tls_config) option \<Rightarrow> 's \<Rightarrow> (err + 'c) \<times> 's"
  fl_Login :: "'c \<Rightarrow> string \<Rightarrow> string \<Rightarrow> 's \<Rightarrow> err option \<times> 's"
  fl_ChangeDir :: "'c \<Rightarrow> string \<Rightarrow> 's \<Rightarrow> err option \<times> 's"
  fl_CurrentDir :: "'c \<Rightarrow> 's \<Rightarrow> (err + string) \<times> 's"
  fl_Quit :: "'c \<Rightarrow> 's \<Rightarrow> err option \<times> 's"
  fl_NoOp :: "'c \<Rightarrow> 's \<Rightarrow> err option \<times> 's"
  fl_GetEntry :: "'c \<Rightarrow> string \<Rightarrow> 's \<Rightarrow> (err + ftp_entry) \<times> 's"
  fl_List :: "'c \<Rightarrow> string \<Rightarrow> 's \<Rightarrow> (err + ftp_entry list) \<times> 's"
  fl_Retr :: "'c \<Rightarrow> string \<Rightarrow> 's \<Rightarrow> (err + 'd) \<times> 's"
  fl_ReadAll :: "'d \<Rightarrow> 's \<Rightarrow> (bytes \<times> err option) \<times> 's"
  fl_RespClose :: "'d \<Rightarrow> 's \<Rightarrow> err option \<times> 's"
  fl_Stor :: "'c \<Rightarrow> string \<Rightarrow> bytes \<Rightarrow> 's \<Rightarrow> err option \<times> 's"
  fl_MakeDir :: "'c \<Rightarrow> string \<Rightarrow> 's \<Rightarrow> err option \<times> 's"
  fl_RemoveDir :: "'c \<Rightarrow> string \<Rightarrow> 's \<Rightarrow> err option \<times> 's"
  fl_Delete :: "'c \<Rightarrow> string \<Rightarrow> 's \<Rightarrow> err option \<times> 's"
  fl_Rename :: "'c \<Rightarrow> string \<Rightarrow> string \<Rightarrow> 's \<Rightarrow> err option \<times> 's"
  fl_IsSetTimeSupported :: "'c \<Rightarrow> 's \<Rightarrow> bool"
  fl_SetTime :: "'c \<Rightarrow> string \<Rightarrow> instant \<Rightarrow> 's \<Rightarrow> err option \<times> 's"

record upload_handle =
  uh_remote :: string
  uh_path :: string
  uh_append :: bool
  uh_dirty :: bool
  uh_closed :: bool

text \<open>\<open>lockedReadCloser\<close>: the response, whether its \<open>sync.Once\<close> has run, and the error kept.\<close>

record 'd locked_reader =
  lr_response :: 'd
  lr_once :: bool
  lr_err :: "err option"

text \<open>
  The world of one backend: the connection, the flags, the mutex, the server, the local temporary
  files, the write handles and readers, and what the system draws next (temporary names, the clock).
\<close>

record ('c, 's, 'd) ftp_world =
  fw_client :: 'c
  fw_needsProbe :: bool
  fw_closed :: bool
  fw_held :: bool
  fw_server :: 's
  fw_fs :: lfs
  fw_handles :: "upload_handle list"
  fw_readers :: "'d locked_reader list"
  fw_tempdir :: string
  fw_rnd :: string
  fw_now :: instant

subsection \<open>Configuration and connection\<close>

definition ftp_validateConfig :: "ftp_config \<Rightarrow> err option" where
  "ftp_validateConfig c =
     (if TrimSpace (fc_Host c) = '''' then Some (ErrNew ''host required'')
      else if fc_Port c = 0 then Some (ErrNew ''port must be at least 1'')
      else if TrimSpace (fc_Username c) = '''' then Some (ErrNew ''user required'')
      else if fc_Password c = '''' then Some (ErrNew ''password required'')
      else if fc_TLSMode c \<noteq> TLSNone \<and> fc_TLSMode c \<noteq> TLSExplicit \<and> fc_TLSMode c \<noteq> TLSImplicit
      then Some (ErrNew ''unsupported TLS mode'')
      else if fc_TLSMode c \<noteq> TLSNone \<and> fc_TLSConfig c = None then Some (ErrNew ''TLS configuration required'')
      else None)"

text \<open>
  The TLS option \<open>connect\<close> passes to the dialer: the certificate is checked against the host unless
  the configuration names another server.
\<close>

definition ftp_tls_option :: "ftp_config \<Rightarrow> (tls_mode \<times> tls_config) option" where
  "ftp_tls_option config =
     (if fc_TLSMode config = TLSNone then None
      else map_option (\<lambda>t. (if fc_TLSMode config = TLSExplicit then TLSExplicit else TLSImplicit,
                             if tls_ServerName t = '''' then t\<lparr>tls_ServerName := fc_Host config\<rparr> else t))
             (fc_TLSConfig config))"

text \<open>\<open>connect\<close>: a client logged in at the start directory, and that directory; else it has quit.\<close>

definition ftp_connect :: "('c, 's, 'd) ftp_lib \<Rightarrow> ftp_config \<Rightarrow> 's \<Rightarrow> (err + 'c \<times> string) \<times> 's" where
  "ftp_connect lib config s =
     (case fl_Dial lib (fc_Host config) (fc_Port config) (ftp_tls_option config) s of
        (Inl e, s1) \<Rightarrow> (Inl (Wrapped ''FTP connect'' e), s1)
      | (Inr client, s1) \<Rightarrow>
          (case fl_Login lib client (fc_Username config) (fc_Password config) s1 of
             (Some e, s2) \<Rightarrow> (Inl (Wrapped ''FTP login'' e), snd (fl_Quit lib client s2))
           | (None, s2) \<Rightarrow>
               (case fl_ChangeDir lib client (ftp_normalizeRoot (fc_Root config)) s2 of
                  (Some e, s3) \<Rightarrow> (Inl (Wrapped ''FTP start path'' e), snd (fl_Quit lib client s3))
                | (None, s3) \<Rightarrow>
                    (case fl_CurrentDir lib client s3 of
                       (Inl e, s4) \<Rightarrow> (Inl (Wrapped ''FTP start path'' e), snd (fl_Quit lib client s4))
                     | (Inr root, s4) \<Rightarrow> (Inr (client, ftp_normalizeRoot root), s4)))))"

definition ftp_New ::
  "('c, 's, 'd) ftp_lib \<Rightarrow> ftp_config \<Rightarrow> 's \<Rightarrow> (err + 'c \<times> string) \<times> 's" where
  "ftp_New lib config s =
     (case ftp_validateConfig config of Some e \<Rightarrow> (Inl e, s) | None \<Rightarrow> ftp_connect lib config s)"

definition ftp_isConnectionError :: "err \<Rightarrow> bool" where
  "ftp_isConnectionError e =
     (case as_Reply e of
        Some code \<Rightarrow> code = 421
      | None \<Rightarrow>
          errors_Is e EOF \<or> errors_Is e ErrUnexpectedEOF \<or> errors_Is e NetErrClosed \<or> as_NetError e \<or>
          list_ex (Contains (ToLower (err_Error e)))
            [''broken pipe'', ''connection aborted'', ''connection reset'', ''forcibly closed'',
             ''use of closed network connection''])"

text \<open>A backend is its configuration, its root, and the client library.\<close>

record ('c, 's, 'd) ftp_backend =
  fb_lib :: "('c, 's, 'd) ftp_lib"
  fb_config :: ftp_config
  fb_root :: string

definition ftp_reconnectLocked ::
  "('c, 's, 'd) ftp_backend \<Rightarrow> ctx \<Rightarrow> ('c, 's, 'd) ftp_world \<Rightarrow> err option \<times> ('c, 's, 'd) ftp_world" where
  "ftp_reconnectLocked B x w =
     (let w = w\<lparr>fw_needsProbe := True\<rparr>
      in case x of
           Some e \<Rightarrow> (Some e, w)
         | None \<Rightarrow>
             (case ftp_connect (fb_lib B) (fb_config B) (fw_server w) of
                (Inl e, s) \<Rightarrow> (Some (Wrapped ''FTP reconnect'' e), w\<lparr>fw_server := s\<rparr>)
              | (Inr (client, root), s) \<Rightarrow>
                  if root \<noteq> fb_root B
                  then (Some (ErrNew ''start path changed after reconnect''),
                        w\<lparr>fw_server := snd (fl_Quit (fb_lib B) client s)\<rparr>)
                  else (None, w\<lparr>fw_client := client, fw_needsProbe := False,
                                fw_server := snd (fl_Quit (fb_lib B) (fw_client w) s)\<rparr>)))"

text \<open>\<open>lock\<close>: on an error the mutex is free again.\<close>

definition ftp_lock ::
  "('c, 's, 'd) ftp_backend \<Rightarrow> ctx \<Rightarrow> ('c, 's, 'd) ftp_world \<Rightarrow> err option \<times> ('c, 's, 'd) ftp_world" where
  "ftp_lock B x w =
     (case x of
        Some e \<Rightarrow> (Some e, w)
      | None \<Rightarrow>
          if fw_closed w then (Some (Sentinel NetErrClosed), w)
          else if fw_needsProbe w
          then (case fl_NoOp (fb_lib B) (fw_client w) (fw_server w) of
                  (Some e, s) \<Rightarrow>
                    let w1 = w\<lparr>fw_server := s\<rparr>
                    in if \<not> ftp_isConnectionError e then (Some (Wrapped ''FTP probe'' e), w1)
                       else (case ftp_reconnectLocked B x w1 of
                               (Some e', w2) \<Rightarrow> (Some e', w2)
                             | (None, w2) \<Rightarrow> (None, w2\<lparr>fw_needsProbe := False, fw_held := True\<rparr>))
                | (None, s) \<Rightarrow> (None, w\<lparr>fw_server := s, fw_needsProbe := False, fw_held := True\<rparr>))
          else (None, w\<lparr>fw_held := True\<rparr>))"

definition ftp_unlock :: "('c, 's, 'd) ftp_world \<Rightarrow> ('c, 's, 'd) ftp_world" where
  "ftp_unlock w = w\<lparr>fw_held := False\<rparr>"

text \<open>One call of the client library on the current connection.\<close>

definition on_client ::
  "('c \<Rightarrow> 's \<Rightarrow> 'a \<times> 's) \<Rightarrow> ('c, 's, 'd) ftp_world \<Rightarrow> 'a \<times> ('c, 's, 'd) ftp_world" where
  "on_client f w = (case f (fw_client w) (fw_server w) of (r, s) \<Rightarrow> (r, w\<lparr>fw_server := s\<rparr>))"

subsection \<open>Reading\<close>

definition entryFromFTP :: "ftp_entry \<Rightarrow> entry" where
  "entryFromFTP e = \<lparr>e_Name = fe_Name e,
     e_Size = (if uint (fe_Size e) > max_i64 then max_i64 else uint (fe_Size e)),
     e_Mode = (case fe_Type e of EntryTypeFolder \<Rightarrow> ModeDir OR 0x1ED
               | EntryTypeLink \<Rightarrow> ModeSymlink OR 0x1FF | EntryTypeFile \<Rightarrow> 0x1A4),
     e_ModTime = fe_Time e\<rparr>"

text \<open>
  \<open>Stat\<close> after the lock: the root is answered without the server; a lost connection is replaced
  once; a server without a single-entry query is asked for the parent's listing.
\<close>

definition ftp_stat_list ::
  "('c, 's, 'd) ftp_backend \<Rightarrow> ctx \<Rightarrow> string \<Rightarrow> err \<Rightarrow> ('c, 's, 'd) ftp_world \<Rightarrow> (err + entry) \<times> ('c, 's, 'd) ftp_world" where
  "ftp_stat_list B x remote statErr w =
     (case on_client (\<lambda>c. fl_List (fb_lib B) c (path_Dir remote)) w of
        (r, w1) \<Rightarrow>
          let w1 = w1\<lparr>fw_needsProbe := True\<rparr>;
              retried = (case r of
                 Inl e \<Rightarrow> if ftp_isConnectionError e
                   then (case ftp_reconnectLocked B x w1 of
                           (Some e', w2) \<Rightarrow> (Inl (e', False), w2)
                         | (None, w2) \<Rightarrow>
                             (case on_client (\<lambda>c. fl_List (fb_lib B) c (path_Dir remote)) w2 of
                                (r', w3) \<Rightarrow> (map_sum (\<lambda>e. (e, True)) id r', w3\<lparr>fw_needsProbe := True\<rparr>)))
                   else (Inl (e, True), w1)
               | Inr items \<Rightarrow> (Inr items, w1))
          in (case retried of
                (Inl (e, wrap), w2) \<Rightarrow>
                  (Inl (if wrap then Wrapped ''FTP path query'' (the (errors_Join [Some statErr, Some e])) else e), w2)
              | (Inr items, w2) \<Rightarrow>
                  (case filter (\<lambda>i. fe_Name i = path_Base remote) items of
                     i # _ \<Rightarrow> (Inr (entryFromFTP i), w2)
                   | [] \<Rightarrow> (Inl (Sentinel ErrNotExist), w2))))"

definition ftp_stat_locked ::
  "('c, 's, 'd) ftp_backend \<Rightarrow> ctx \<Rightarrow> string \<Rightarrow> ('c, 's, 'd) ftp_world \<Rightarrow> (err + entry) \<times> ('c, 's, 'd) ftp_world" where
  "ftp_stat_locked B x remote w =
     (if remote = fb_root B
      then (Inr \<lparr>e_Name = path_Base (fb_root B), e_Size = 0, e_Mode = ModeDir OR 0x1ED, e_ModTime = 0\<rparr>, w)
      else case on_client (\<lambda>c. fl_GetEntry (fb_lib B) c remote) w of
             (r, w1) \<Rightarrow>
               (case (case r of
                        Inl e \<Rightarrow> if ftp_isConnectionError e
                          then (case ftp_reconnectLocked B x w1 of
                                  (Some e', w2) \<Rightarrow> (Inl e', w2)
                                | (None, w2) \<Rightarrow> (case on_client (\<lambda>c. fl_GetEntry (fb_lib B) c remote) w2 of
                                                  (r', w3) \<Rightarrow> (Inr r', w3)))
                          else (Inr r, w1)
                      | Inr i \<Rightarrow> (Inr r, w1)) of
                  (Inl e, w2) \<Rightarrow> (Inl e, w2)
                | (Inr (Inr i), w2) \<Rightarrow> (Inr (entryFromFTP i), w2)
                | (Inr (Inl statErr), w2) \<Rightarrow>
                    if ftp_isConnectionError statErr
                    then (Inl (Wrapped ''FTP path query'' statErr), w2\<lparr>fw_needsProbe := True\<rparr>)
                    else ftp_stat_list B x remote statErr w2))"

definition ftp_Stat ::
  "('c, 's, 'd) ftp_backend \<Rightarrow> ctx \<Rightarrow> string \<Rightarrow> ('c, 's, 'd) ftp_world \<Rightarrow> (err + entry) \<times> ('c, 's, 'd) ftp_world" where
  "ftp_Stat B x name w =
     (case ftp_remotePath (fb_root B) name of
        Inl e \<Rightarrow> (Inl e, w)
      | Inr remote \<Rightarrow>
          (case ftp_lock B x w of
             (Some e, w1) \<Rightarrow> (Inl e, w1)
           | (None, w1) \<Rightarrow> map_prod id ftp_unlock (ftp_stat_locked B x remote w1)))"

definition ftp_readdir_locked ::
  "('c, 's, 'd) ftp_backend \<Rightarrow> ctx \<Rightarrow> string \<Rightarrow> ('c, 's, 'd) ftp_world \<Rightarrow> (err + entry list) \<times> ('c, 's, 'd) ftp_world" where
  "ftp_readdir_locked B x remote w =
     (case on_client (\<lambda>c. fl_List (fb_lib B) c remote) w of
        (r, w1) \<Rightarrow>
          let w1 = w1\<lparr>fw_needsProbe := True\<rparr>;
              answer = (\<lambda>r. case r of
                 Inl e \<Rightarrow> Inl (Wrapped ''FTP directory query'' e)
               | Inr items \<Rightarrow> Inr (map entryFromFTP (filter (\<lambda>i. fe_Name i \<noteq> ''.'' \<and> fe_Name i \<noteq> ''..'') items)))
          in case r of
               Inl e \<Rightarrow>
                 if ftp_isConnectionError e
                 then (case ftp_reconnectLocked B x w1 of
                         (Some e', w2) \<Rightarrow> (Inl e', w2)
                       | (None, w2) \<Rightarrow> (case on_client (\<lambda>c. fl_List (fb_lib B) c remote) w2 of
                                         (r', w3) \<Rightarrow> (answer r', w3\<lparr>fw_needsProbe := True\<rparr>)))
                 else (answer r, w1)
             | Inr items \<Rightarrow> (answer r, w1))"

definition ftp_ReadDir ::
  "('c, 's, 'd) ftp_backend \<Rightarrow> ctx \<Rightarrow> string \<Rightarrow> ('c, 's, 'd) ftp_world \<Rightarrow> (err + entry list) \<times> ('c, 's, 'd) ftp_world" where
  "ftp_ReadDir B x name w =
     (case ftp_remotePath (fb_root B) name of
        Inl e \<Rightarrow> (Inl e, w)
      | Inr remote \<Rightarrow>
          (case ftp_lock B x w of
             (Some e, w1) \<Rightarrow> (Inl e, w1)
           | (None, w1) \<Rightarrow> map_prod id ftp_unlock (ftp_readdir_locked B x remote w1)))"

text \<open>\<open>OpenRead\<close> keeps the mutex for its reader; the reader's first \<open>Close\<close> releases it.\<close>

definition new_reader :: "'d \<Rightarrow> ('c, 's, 'd) ftp_world \<Rightarrow> (err + nat) \<times> ('c, 's, 'd) ftp_world" where
  "new_reader d w = (Inr (length (fw_readers w)),
     w\<lparr>fw_readers := fw_readers w @ [\<lparr>lr_response = d, lr_once = False, lr_err = None\<rparr>]\<rparr>)"

definition ftp_OpenRead ::
  "('c, 's, 'd) ftp_backend \<Rightarrow> ctx \<Rightarrow> string \<Rightarrow> ('c, 's, 'd) ftp_world \<Rightarrow> (err + nat) \<times> ('c, 's, 'd) ftp_world" where
  "ftp_OpenRead B x name w =
     (case ftp_remotePath (fb_root B) name of
        Inl e \<Rightarrow> (Inl e, w)
      | Inr remote \<Rightarrow>
          (case ftp_lock B x w of
             (Some e, w1) \<Rightarrow> (Inl e, w1)
           | (None, w1) \<Rightarrow>
               (case on_client (\<lambda>c. fl_Retr (fb_lib B) c remote) w1 of
                  (Inr d, w2) \<Rightarrow> new_reader d w2
                | (Inl e, w2) \<Rightarrow>
                    let failed = (\<lambda>e w. (Inl (Wrapped ''FTP read'' e), ftp_unlock (w\<lparr>fw_needsProbe := ftp_isConnectionError e\<rparr>)))
                    in if ftp_isConnectionError e
                       then (case ftp_reconnectLocked B x w2 of
                               (Some e', w3) \<Rightarrow> (Inl e', ftp_unlock w3)
                             | (None, w3) \<Rightarrow>
                                 (case on_client (\<lambda>c. fl_Retr (fb_lib B) c remote) w3 of
                                    (Inr d, w4) \<Rightarrow> new_reader d w4
                                  | (Inl e', w4) \<Rightarrow> failed e' w4))
                       else failed e w2)))"

definition ftp_reader_ReadAll ::
  "('c, 's, 'd) ftp_backend \<Rightarrow> nat \<Rightarrow> ('c, 's, 'd) ftp_world \<Rightarrow> (bytes \<times> err option) \<times> ('c, 's, 'd) ftp_world" where
  "ftp_reader_ReadAll B i w =
     (case fl_ReadAll (fb_lib B) (lr_response (fw_readers w ! i)) (fw_server w) of
        (r, s) \<Rightarrow> (r, w\<lparr>fw_server := s\<rparr>))"

definition ftp_reader_Close ::
  "('c, 's, 'd) ftp_backend \<Rightarrow> nat \<Rightarrow> ('c, 's, 'd) ftp_world \<Rightarrow> err option \<times> ('c, 's, 'd) ftp_world" where
  "ftp_reader_Close B i w =
     (let r = fw_readers w ! i
      in if lr_once r then (lr_err r, w)
         else case fl_RespClose (fb_lib B) (lr_response r) (fw_server w) of
                (e, s) \<Rightarrow> (e, ftp_unlock (w\<lparr>fw_server := s, fw_needsProbe := True,
                                fw_readers := (fw_readers w)[i := r\<lparr>lr_once := True, lr_err := e\<rparr>]\<rparr>)))"

subsection \<open>Mutations\<close>

definition ftp_withClient ::
  "('c, 's, 'd) ftp_backend \<Rightarrow> ctx \<Rightarrow> string \<Rightarrow> ('c \<Rightarrow> 's \<Rightarrow> err option \<times> 's) \<Rightarrow> ('c, 's, 'd) ftp_world
     \<Rightarrow> err option \<times> ('c, 's, 'd) ftp_world" where
  "ftp_withClient B x operation action w =
     (case ftp_lock B x w of
        (Some e, w1) \<Rightarrow> (Some e, w1)
      | (None, w1) \<Rightarrow>
          (case on_client action w1 of
             (None, w2) \<Rightarrow> (None, ftp_unlock w2)
           | (Some e, w2) \<Rightarrow>
               (Some (Wrapped (''FTP '' @ operation) e),
                ftp_unlock (if ftp_isConnectionError e then w2\<lparr>fw_needsProbe := True\<rparr> else w2))))"

definition ftp_Mkdir where
  "ftp_Mkdir B x name w =
     (case ftp_remotePath (fb_root B) name of
        Inl e \<Rightarrow> (Some e, w)
      | Inr remote \<Rightarrow> ftp_withClient B x ''mkdir'' (\<lambda>c. fl_MakeDir (fb_lib B) c remote) w)"

definition ftp_Remove where
  "ftp_Remove B x name directory w =
     (case ftp_remotePath (fb_root B) name of
        Inl e \<Rightarrow> (Some e, w)
      | Inr remote \<Rightarrow> ftp_withClient B x ''remove''
          (\<lambda>c. if directory then fl_RemoveDir (fb_lib B) c remote else fl_Delete (fb_lib B) c remote) w)"

definition ftp_Rename where
  "ftp_Rename B x oldName newName w =
     (case ftp_remotePath (fb_root B) oldName of
        Inl e \<Rightarrow> (Some e, w)
      | Inr oldRemote \<Rightarrow>
          (case ftp_remotePath (fb_root B) newName of
             Inl e \<Rightarrow> (Some e, w)
           | Inr newRemote \<Rightarrow> ftp_withClient B x ''rename'' (\<lambda>c. fl_Rename (fb_lib B) c oldRemote newRemote) w))"

definition ftp_SetModTime where
  "ftp_SetModTime B x name t w =
     (case ftp_remotePath (fb_root B) name of
        Inl e \<Rightarrow> (Some e, w)
      | Inr remote \<Rightarrow> ftp_withClient B x ''set time''
          (\<lambda>c s. if \<not> fl_IsSetTimeSupported (fb_lib B) c s then (Some (Sentinel ErrUnsupported), s)
                 else fl_SetTime (fb_lib B) c remote t s) w)"

definition ftp_SetReadOnly :: "ctx \<Rightarrow> string \<Rightarrow> bool \<Rightarrow> 'w \<Rightarrow> err option \<times> 'w" where
  "ftp_SetReadOnly x name ro w = (Some (Sentinel ErrUnsupported), w)"

definition ftp_Close ::
  "('c, 's, 'd) ftp_backend \<Rightarrow> ('c, 's, 'd) ftp_world \<Rightarrow> err option \<times> ('c, 's, 'd) ftp_world" where
  "ftp_Close B w =
     (if fw_closed w then (None, w)
      else on_client (fl_Quit (fb_lib B)) (w\<lparr>fw_closed := True\<rparr>))"

subsection \<open>Writing through a temporary file\<close>

definition with_fs :: "(lfs \<Rightarrow> 'a \<times> lfs) \<Rightarrow> ('c, 's, 'd) ftp_world \<Rightarrow> 'a \<times> ('c, 's, 'd) ftp_world" where
  "with_fs f w = (case f (fw_fs w) of (r, fs) \<Rightarrow> (r, w\<lparr>fw_fs := fs\<rparr>))"

definition new_handle :: "upload_handle \<Rightarrow> ('c, 's, 'd) ftp_world \<Rightarrow> (err + nat) \<times> ('c, 's, 'd) ftp_world" where
  "new_handle h w = (Inr (length (fw_handles w)), w\<lparr>fw_handles := fw_handles w @ [h]\<rparr>)"

text \<open>The deferred clean-up of a failed \<open>OpenWrite\<close>.\<close>

definition drop_temp :: "string \<Rightarrow> ('c, 's, 'd) ftp_world \<Rightarrow> ('c, 's, 'd) ftp_world" where
  "drop_temp p w = w\<lparr>fw_fs := snd (os_Remove p (fw_fs w))\<rparr>"

definition ftp_OpenWrite ::
  "('c, 's, 'd) ftp_backend \<Rightarrow> ctx \<Rightarrow> string \<Rightarrow> write_options \<Rightarrow> ('c, 's, 'd) ftp_world
     \<Rightarrow> (err + nat) \<times> ('c, 's, 'd) ftp_world" where
  "ftp_OpenWrite B x name opt w =
     (case ftp_remotePath (fb_root B) name of
        Inl e \<Rightarrow> (Inl e, w)
      | Inr remote \<Rightarrow>
     (case with_fs (os_CreateTemp (fw_tempdir w) ''dkdrive-ftp-'' '''' (fw_rnd w) (fw_now w)) w of
        (Inl e, w1) \<Rightarrow> (Inl (Wrapped ''FTP temporary file'' e), w1)
      | (Inr tmp, w1) \<Rightarrow>
          let h = \<lparr>uh_remote = remote, uh_path = tmp, uh_append = wo_Append opt, uh_dirty = wo_Truncate opt, uh_closed = False\<rparr>
          in if \<not> wo_Truncate opt
             then (case ftp_OpenRead B x name w1 of
                     (Inr d, w2) \<Rightarrow>
                       (case ftp_reader_ReadAll B d w2 of
                          ((data, readErr), w2) \<Rightarrow>
                            (case with_fs (file_WriteAt tmp data 0 (fw_now w2)) w2 of
                               ((n, writeErr), w3) \<Rightarrow>
                                 (case ftp_reader_Close B d w3 of
                                    (closeErr, w4) \<Rightarrow>
                                      (case errors_Join [if writeErr \<noteq> None then writeErr else readErr, closeErr] of
                                         Some e \<Rightarrow> (Inl (Wrapped ''FTP existing file'' e), drop_temp tmp w4)
                                       | None \<Rightarrow> new_handle h w4))))
                   | (Inl e, w2) \<Rightarrow>
                       if \<not> wo_Create opt \<or> \<not> errors_Is e ErrNotExist then (Inl e, drop_temp tmp w2)
                       else new_handle (h\<lparr>uh_dirty := True\<rparr>) w2)
             else if \<not> wo_Create opt
             then (case ftp_Stat B x name w1 of
                     (Inl e, w2) \<Rightarrow> (Inl e, drop_temp tmp w2)
                   | (Inr _, w2) \<Rightarrow> new_handle h w2)
             else new_handle h w1))"

definition upd_handle :: "nat \<Rightarrow> (upload_handle \<Rightarrow> upload_handle) \<Rightarrow> ('c, 's, 'd) ftp_world \<Rightarrow> ('c, 's, 'd) ftp_world" where
  "upd_handle i f w = w\<lparr>fw_handles := (fw_handles w)[i := f (fw_handles w ! i)]\<rparr>"

definition ftp_handle_WriteAt ::
  "nat \<Rightarrow> bytes \<Rightarrow> int \<Rightarrow> ('c, 's, 'd) ftp_world \<Rightarrow> (nat \<times> err option) \<times> ('c, 's, 'd) ftp_world" where
  "ftp_handle_WriteAt i data offset w =
     (let h = fw_handles w ! i
      in if uh_closed h then ((0, Some (Sentinel ErrClosed)), w)
         else case (if uh_append h then file_Size (uh_path h) (fw_fs w)
                    else if offset < 0 then Inl (PathErr ErrInvalid) else Inr (nat offset)) of
                Inl e \<Rightarrow> ((0, Some e), w)
              | Inr off \<Rightarrow>
                  (case with_fs (file_WriteAt (uh_path h) data off (fw_now w)) w of
                     ((written, e), w1) \<Rightarrow>
                       ((written, e), if written > 0 then upd_handle i (\<lambda>h. h\<lparr>uh_dirty := True\<rparr>) w1 else w1)))"

definition ftp_handle_syncLocked ::
  "('c, 's, 'd) ftp_backend \<Rightarrow> nat \<Rightarrow> ('c, 's, 'd) ftp_world \<Rightarrow> err option \<times> ('c, 's, 'd) ftp_world" where
  "ftp_handle_syncLocked B i w =
     (let h = fw_handles w ! i
      in if uh_closed h then (Some (Sentinel ErrClosed), w)
         else case with_fs (file_Sync (uh_path h)) w of
                (Some e, w1) \<Rightarrow> (Some e, w1)
              | (None, w1) \<Rightarrow>
                  if \<not> uh_dirty h then (None, w1)
                  else (case file_Size (uh_path h) (fw_fs w1) of
                          Inl e \<Rightarrow> (Some e, w1)
                        | Inr n \<Rightarrow>
                            (case ftp_lock B None w1 of
                               (Some e, w2) \<Rightarrow> (Some e, w2)
                             | (None, w2) \<Rightarrow>
                                 (case on_client (\<lambda>c. fl_Stor (fb_lib B) c (uh_remote h)
                                         (case fs_get (fw_fs w2) (uh_path h) of Some (Reg d t s) \<Rightarrow> take n d | _ \<Rightarrow> [])) w2 of
                                    (r, w3) \<Rightarrow>
                                      let w4 = ftp_unlock (w3\<lparr>fw_needsProbe := True\<rparr>)
                                      in case r of
                                           Some e \<Rightarrow> (Some (Wrapped ''FTP upload'' e), w4)
                                         | None \<Rightarrow> (None, upd_handle i (\<lambda>h. h\<lparr>uh_dirty := False\<rparr>) w4)))))"

definition ftp_handle_Sync where
  "ftp_handle_Sync B i w = ftp_handle_syncLocked B i w"

definition ftp_handle_Close ::
  "('c, 's, 'd) ftp_backend \<Rightarrow> nat \<Rightarrow> ('c, 's, 'd) ftp_world \<Rightarrow> err option \<times> ('c, 's, 'd) ftp_world" where
  "ftp_handle_Close B i w =
     (let h = fw_handles w ! i
      in if uh_closed h then (Some (Sentinel ErrClosed), w)
         else case ftp_handle_syncLocked B i w of
                (syncErr, w1) \<Rightarrow>
                  let w2 = upd_handle i (\<lambda>h. h\<lparr>uh_closed := True\<rparr>) w1;
                      closeErr = file_Close (uh_path h) (fw_fs w2)
                  in (case with_fs (os_Remove (uh_path h)) w2 of
                        (removeErr, w3) \<Rightarrow> (errors_Join [syncErr, closeErr, removeErr], w3)))"

definition ftp_backend_ops ::
  "('c, 's, 'd) ftp_backend \<Rightarrow> (('c, 's, 'd) ftp_world, nat, nat) backend" where
  "ftp_backend_ops B = \<lparr>
     b_Stat = ftp_Stat B, b_ReadDir = ftp_ReadDir B, b_OpenRead = ftp_OpenRead B, b_OpenWrite = ftp_OpenWrite B,
     b_Mkdir = ftp_Mkdir B, b_Remove = ftp_Remove B, b_Rename = ftp_Rename B, b_SetModTime = ftp_SetModTime B,
     b_SetReadOnly = ftp_SetReadOnly, b_Close = ftp_Close B,
     r_ReadAll = ftp_reader_ReadAll B,
     r_Close = ftp_reader_Close B,
     h_WriteAt = ftp_handle_WriteAt, h_Sync = ftp_handle_Sync B, h_Close = ftp_handle_Close B\<rparr>"

end
