(* ===== verification/Vfs_Writer.thy ===== *)
theory Vfs_Writer
  imports Vfs
begin

text \<open>
  The contract between a protocol backend and its clients that upload whole files (the mount and the
  recovery): what a write handle opened with \<open>Create\<close> and \<open>Truncate\<close> promises. \<open>staged w h c\<close>
  says that the open handle has collected the bytes \<open>c\<close>, \<open>pending w h\<close> that they are not yet on the
  server, \<open>target w h\<close> where they go; \<open>acked w p c w'\<close> says that between \<open>w\<close> and \<open>w'\<close> the
  server acknowledged an upload of exactly \<open>c\<close> to \<open>p\<close>, \<open>quiet w w'\<close> that it was not called at
  all. The interpretations are in the theories of the protocols.
\<close>

definition fresh_write :: "filemode \<Rightarrow> write_options" where
  "fresh_write m = \<lparr>wo_Create = True, wo_Truncate = True, wo_Append = False, wo_Mode = m\<rparr>"

locale staged_writer =
  fixes b :: "('w, 'r, 'h) backend"
    and staged :: "'w \<Rightarrow> 'h \<Rightarrow> bytes \<Rightarrow> bool"
    and pending :: "'w \<Rightarrow> 'h \<Rightarrow> bool"
    and target :: "'w \<Rightarrow> 'h \<Rightarrow> string"
    and mapname :: "string \<Rightarrow> err + string"
    and acked :: "'w \<Rightarrow> string \<Rightarrow> bytes \<Rightarrow> 'w \<Rightarrow> bool"
    and quiet :: "'w \<Rightarrow> 'w \<Rightarrow> bool"
  assumes open_fresh:
      "b_OpenWrite b x n (fresh_write m) w = (Inr h, w') \<Longrightarrow>
       staged w' h [] \<and> pending w' h \<and> mapname n = Inr (target w' h) \<and> quiet w w'"
    and open_fails: "b_OpenWrite b x n (fresh_write m) w = (Inl e, w') \<Longrightarrow> quiet w w'"
    and write_next:
      "h_WriteAt b h d (int (length c)) w = ((k, r), w') \<Longrightarrow> staged w h c \<Longrightarrow> pending w h \<Longrightarrow>
       quiet w w' \<and> pending w' h \<and> target w' h = target w h \<and>
       (r = None \<longrightarrow> k = length d \<and> staged w' h (c @ d)) \<and> (r \<noteq> None \<longrightarrow> staged w' h c)"
    and sync_publishes:
      "h_Sync b h w = (None, w') \<Longrightarrow> staged w h c \<Longrightarrow> pending w h \<Longrightarrow>
       staged w' h c \<and> \<not> pending w' h \<and> acked w (target w h) c w'"
    and close_settled: "h_Close b h w = (r, w') \<Longrightarrow> staged w h c \<Longrightarrow> \<not> pending w h \<Longrightarrow> quiet w w'"
    and close_publishes:
      "h_Close b h w = (None, w') \<Longrightarrow> staged w h c \<Longrightarrow> pending w h \<Longrightarrow> acked w (target w h) c w'"
    and quiet_refl: "quiet w w"
    and quiet_trans: "quiet w w' \<Longrightarrow> quiet w' w'' \<Longrightarrow> quiet w w''"
    and acked_quiet: "acked w p c w' \<Longrightarrow> quiet w' w'' \<Longrightarrow> acked w p c w''"
    and quiet_acked: "quiet w w' \<Longrightarrow> acked w' p c w'' \<Longrightarrow> acked w p c w''"

end
