(* ===== verification/Ftp_Facts.thy ===== *)
theory Ftp_Facts
  imports Ftp_Backend Vfs_Writer
begin

text \<open>
  What the FTP backend promises: its write handle fulfils the writer contract, its mutex is released on
  every path, a closed backend never calls the server, and a mutation is never sent twice.
\<close>

subsection \<open>The write handle fulfils the contract\<close>

definition ftp_staged :: "('c, 's, 'd) ftp_world \<Rightarrow> nat \<Rightarrow> bytes \<Rightarrow> bool" where
  "ftp_staged w i c \<longleftrightarrow> i < length (fw_handles w) \<and> \<not> uh_closed (fw_handles w ! i) \<and> \<not> uh_append (fw_handles w ! i) \<and>
     (\<exists>t s. fs_get (fw_fs w) (uh_path (fw_handles w ! i)) = Some (Reg c t s))"

definition ftp_pending :: "('c, 's, 'd) ftp_world \<Rightarrow> nat \<Rightarrow> bool" where
  "ftp_pending w i \<longleftrightarrow> uh_dirty (fw_handles w ! i)"

definition ftp_target :: "('c, 's, 'd) ftp_world \<Rightarrow> nat \<Rightarrow> string" where
  "ftp_target w i = uh_remote (fw_handles w ! i)"

text \<open>The server answered a STOR of exactly these bytes with success, and has not been called since.\<close>

definition ftp_acked ::
  "('c, 's, 'd) ftp_backend \<Rightarrow> ('c, 's, 'd) ftp_world \<Rightarrow> string \<Rightarrow> bytes \<Rightarrow> ('c, 's, 'd) ftp_world \<Rightarrow> bool" where
  "ftp_acked B w p c w' \<longleftrightarrow> (\<exists>client s. fl_Stor (fb_lib B) client p c s = (None, fw_server w'))"

definition ftp_quiet :: "('c, 's, 'd) ftp_world \<Rightarrow> ('c, 's, 'd) ftp_world \<Rightarrow> bool" where
  "ftp_quiet w w' \<longleftrightarrow> fw_server w' = fw_server w"

lemma lock_keeps:
  "ftp_lock B x w = (r, w') \<Longrightarrow>
   fw_fs w' = fw_fs w \<and> fw_handles w' = fw_handles w \<and> fw_closed w' = fw_closed w \<and>
   fw_tempdir w' = fw_tempdir w \<and> fw_readers w' = fw_readers w \<and> fw_rnd w' = fw_rnd w \<and> fw_now w' = fw_now w"
  by (auto simp: ftp_lock_def ftp_reconnectLocked_def Let_def split: option.splits if_splits prod.splits sum.splits)

lemma sync_locked_spec:
  assumes "ftp_handle_syncLocked B i w = (r, w')" and "ftp_staged w i c"
  shows "fw_handles w' = (fw_handles w)[i := (fw_handles w ! i)\<lparr>uh_dirty := uh_dirty (fw_handles w ! i) \<and> r \<noteq> None\<rparr>] \<and>
    (\<exists>t s. fs_get (fw_fs w') (uh_path (fw_handles w ! i)) = Some (Reg c t s)) \<and>
    (\<not> uh_dirty (fw_handles w ! i) \<longrightarrow> fw_server w' = fw_server w) \<and>
    (uh_dirty (fw_handles w ! i) \<longrightarrow> r = None \<longrightarrow> ftp_acked B w (uh_remote (fw_handles w ! i)) c w')"
proof -
  let ?h = "fw_handles w ! i"
  from assms(2) obtain t s where i: "i < length (fw_handles w)" "\<not> uh_closed ?h"
    and f: "fs_get (fw_fs w) (uh_path ?h) = Some (Reg c t s)" by (auto simp: ftp_staged_def)
  obtain se fs1 where sy: "file_Sync (uh_path ?h) (fw_fs w) = (se, fs1)" by force
  have f1: "\<exists>t s. fs_get fs1 (uh_path ?h) = Some (Reg c t s)"
    using sy f by (auto simp: file_Sync_def fs_simps split: option.splits)
  have self: "(fw_handles w)[i := ?h\<lparr>uh_dirty := uh_dirty ?h\<rparr>] = fw_handles w" by simp
  have self_clean: "\<not> uh_dirty ?h \<Longrightarrow> (fw_handles w)[i := ?h\<lparr>uh_dirty := False\<rparr>] = fw_handles w"
    and self_dirty: "uh_dirty ?h \<Longrightarrow> (fw_handles w)[i := ?h\<lparr>uh_dirty := True\<rparr>] = fw_handles w"
    using self by (metis (full_types))+
  show ?thesis
  proof (cases "se \<noteq> None \<or> \<not> uh_dirty ?h")
    case True
    with assms(1) i sy have "w' = w\<lparr>fw_fs := fs1\<rparr>" "r = se"
      by (auto simp: ftp_handle_syncLocked_def with_fs_def Let_def split: option.splits)
    with True f1 show ?thesis by (cases "uh_dirty ?h") (auto simp: self_clean self_dirty)
  next
    case False
    show ?thesis
    proof (cases "file_Size (uh_path ?h) fs1")
      case (Inl e)
      with assms(1) i sy False have "w' = w\<lparr>fw_fs := fs1\<rparr>" "r = Some e"
        by (auto simp: ftp_handle_syncLocked_def with_fs_def Let_def)
      with False f1 self_dirty show ?thesis by auto
    next
      case (Inr n)
      with f1 have n: "n = length c" by (auto simp: file_Size_def split: option.splits)
      obtain le w2 where lk: "ftp_lock B None (w\<lparr>fw_fs := fs1\<rparr>) = (le, w2)" by force
      note k = lock_keeps [OF lk]
      show ?thesis
      proof (cases le)
        case (Some e)
        with assms(1) i sy False Inr lk have "w' = w2" "r = Some e"
          by (auto simp: ftp_handle_syncLocked_def with_fs_def Let_def)
        with False f1 k self_dirty show ?thesis by auto
      next
        case None
        obtain re s3 where st: "fl_Stor (fb_lib B) (fw_client w2) (uh_remote ?h) c (fw_server w2) = (re, s3)" by force
        have body: "(case fs_get (fw_fs w2) (uh_path ?h) of Some (Reg d t s) \<Rightarrow> take n d | _ \<Rightarrow> []) = c"
          using f1 k n by auto
        show ?thesis
        proof (cases re)
          case (Some e)
          with assms(1) i sy False Inr lk None st body
          have "r = Some (Wrapped ''FTP upload'' e)" "w' = ftp_unlock ((w2\<lparr>fw_server := s3\<rparr>)\<lparr>fw_needsProbe := True\<rparr>)"
            by (auto simp: ftp_handle_syncLocked_def with_fs_def on_client_def Let_def)
          with False f1 k self_dirty show ?thesis by (auto simp: ftp_unlock_def)
        next
          case re: None
          with assms(1) i sy False Inr lk None st body
          have "r = None" "w' = upd_handle i (\<lambda>h. h\<lparr>uh_dirty := False\<rparr>)
              (ftp_unlock ((w2\<lparr>fw_server := s3\<rparr>)\<lparr>fw_needsProbe := True\<rparr>))"
            by (auto simp: ftp_handle_syncLocked_def with_fs_def on_client_def Let_def)
          with False f1 k st re show ?thesis by (auto simp: ftp_unlock_def upd_handle_def ftp_acked_def)
        qed
      qed
    qed
  qed
qed

lemma ftp_open_fresh:
  assumes "ftp_OpenWrite B x n (fresh_write m) w = (r, w')"
  shows "fw_server w' = fw_server w \<and> (\<forall>h. r = Inr h \<longrightarrow> ftp_staged w' h [] \<and> ftp_pending w' h \<and>
     ftp_remotePath (fb_root B) n = Inr (ftp_target w' h))"
  using assms
  by (auto simp: ftp_OpenWrite_def fresh_write_def with_fs_def os_CreateTemp_def new_handle_def ftp_staged_def
      ftp_pending_def ftp_target_def Let_def fs_simps split: sum.splits option.splits if_splits)

lemma ftp_write_next:
  assumes "ftp_handle_WriteAt i d (int (length c)) w = ((k, r), w')" and "ftp_staged w i c" and "ftp_pending w i"
  shows "fw_server w' = fw_server w \<and> ftp_pending w' i \<and> ftp_target w' i = ftp_target w i \<and>
    (r = None \<longrightarrow> k = length d \<and> ftp_staged w' i (c @ d)) \<and> (r \<noteq> None \<longrightarrow> ftp_staged w' i c)"
proof -
  from assms(2) obtain t s where i: "i < length (fw_handles w)" "\<not> uh_closed (fw_handles w ! i)" "\<not> uh_append (fw_handles w ! i)"
    and f: "fs_get (fw_fs w) (uh_path (fw_handles w ! i)) = Some (Reg c t s)" by (auto simp: ftp_staged_def)
  show ?thesis
  proof (cases "fs_faults (fw_fs w) OpWrite (uh_path (fw_handles w ! i))")
    case (Some e)
    with assms i f show ?thesis
      by (auto simp: ftp_handle_WriteAt_def with_fs_def file_WriteAt_def Let_def ftp_staged_def ftp_pending_def ftp_target_def)
  next
    case None
    with assms i f show ?thesis
      by (auto simp: ftp_handle_WriteAt_def with_fs_def file_WriteAt_def Let_def ftp_staged_def ftp_pending_def ftp_target_def
          upd_handle_def write_at_append fs_simps split: if_splits)
  qed
qed

lemma ftp_close_spec:
  assumes "ftp_handle_Close B i w = (r, w')" and "ftp_staged w i c"
  shows "(\<not> ftp_pending w i \<longrightarrow> fw_server w' = fw_server w) \<and>
    (r = None \<longrightarrow> ftp_pending w i \<longrightarrow> ftp_acked B w (ftp_target w i) c w')"
proof -
  obtain se w1 where sy: "ftp_handle_syncLocked B i w = (se, w1)" by force
  note sp = sync_locked_spec [OF sy assms(2)]
  have "\<not> uh_closed (fw_handles w ! i)" using assms(2) by (simp add: ftp_staged_def)
  with assms(1) sy have "fw_server w' = fw_server w1" "r = None \<longrightarrow> se = None"
    by (auto simp: ftp_handle_Close_def Let_def with_fs_def upd_handle_def errors_Join_None_iff split: prod.splits)
  with sp show ?thesis by (auto simp: ftp_pending_def ftp_target_def ftp_acked_def)
qed

interpretation ftp_writer: staged_writer "ftp_backend_ops B" ftp_staged ftp_pending ftp_target
  "ftp_remotePath (fb_root B)" "ftp_acked B" ftp_quiet for B
proof
  fix x n m w h w'
  assume "b_OpenWrite (ftp_backend_ops B) x n (fresh_write m) w = (Inr h, w')"
  then show "ftp_staged w' h [] \<and> ftp_pending w' h \<and> ftp_remotePath (fb_root B) n = Inr (ftp_target w' h) \<and> ftp_quiet w w'"
    using ftp_open_fresh [of B x n m w "Inr h" w'] by (simp add: ftp_backend_ops_def ftp_quiet_def)
next
  fix x n m w e w'
  assume "b_OpenWrite (ftp_backend_ops B) x n (fresh_write m) w = (Inl e, w')"
  then show "ftp_quiet w w'"
    using ftp_open_fresh [of B x n m w "Inl e" w'] by (simp add: ftp_backend_ops_def ftp_quiet_def)
next
  fix h d c w k r w'
  assume "h_WriteAt (ftp_backend_ops B) h d (int (length c)) w = ((k, r), w')" "ftp_staged w h c" "ftp_pending w h"
  then show "ftp_quiet w w' \<and> ftp_pending w' h \<and> ftp_target w' h = ftp_target w h \<and>
       (r = None \<longrightarrow> k = length d \<and> ftp_staged w' h (c @ d)) \<and> (r \<noteq> None \<longrightarrow> ftp_staged w' h c)"
    using ftp_write_next [of h d c w k r w'] by (simp add: ftp_backend_ops_def ftp_quiet_def)
next
  fix h w w' c
  assume a: "h_Sync (ftp_backend_ops B) h w = (None, w')" "ftp_staged w h c" "ftp_pending w h"
  then have sy: "ftp_handle_syncLocked B h w = (None, w')" by (simp add: ftp_backend_ops_def ftp_handle_Sync_def)
  from sync_locked_spec [OF sy a(2)] a(2,3)
  show "ftp_staged w' h c \<and> \<not> ftp_pending w' h \<and> ftp_acked B w (ftp_target w h) c w'"
    by (auto simp: ftp_staged_def ftp_pending_def ftp_target_def)
next
  fix h w e w' c
  assume "h_Close (ftp_backend_ops B) h w = (e, w')" "ftp_staged w h c" "\<not> ftp_pending w h"
  then show "ftp_quiet w w'" using ftp_close_spec [of B h w e w' c] by (simp add: ftp_backend_ops_def ftp_quiet_def)
next
  fix h w w' c
  assume "h_Close (ftp_backend_ops B) h w = (None, w')" "ftp_staged w h c" "ftp_pending w h"
  then show "ftp_acked B w (ftp_target w h) c w'"
    using ftp_close_spec [of B h w None w' c] by (simp add: ftp_backend_ops_def)
qed (auto simp: ftp_quiet_def ftp_acked_def)

end
