(* ===== verification/Ftp_Safety.thy ===== *)
theory Ftp_Safety
  imports Ftp_Facts
begin

text \<open>
  Safety of the FTP backend over any client library: which mutating commands reach the server, who
  holds the mutex, and what a closed backend may still do.
\<close>

subsection \<open>The commands that reach the server\<close>

text \<open>The library with a log of its mutating calls, in the order they are made.\<close>

datatype ftp_mutation =
    MakeDirCall string | RemoveDirCall string | DeleteCall string | RenameCall string string
  | SetTimeCall string instant | StorCall string bytes

definition logged_lib :: "('c, 's, 'd) ftp_lib \<Rightarrow> ('c, 's \<times> ftp_mutation list, 'd) ftp_lib" where
  "logged_lib L = \<lparr>
     fl_Dial = (\<lambda>h p t. silent_call (fl_Dial L h p t)),
     fl_Login = (\<lambda>c u pw. silent_call (fl_Login L c u pw)),
     fl_ChangeDir = (\<lambda>c d. silent_call (fl_ChangeDir L c d)),
     fl_CurrentDir = (\<lambda>c. silent_call (fl_CurrentDir L c)),
     fl_Quit = (\<lambda>c. silent_call (fl_Quit L c)),
     fl_NoOp = (\<lambda>c. silent_call (fl_NoOp L c)),
     fl_GetEntry = (\<lambda>c p. silent_call (fl_GetEntry L c p)),
     fl_List = (\<lambda>c p. silent_call (fl_List L c p)),
     fl_Retr = (\<lambda>c p. silent_call (fl_Retr L c p)),
     fl_ReadAll = (\<lambda>d. silent_call (fl_ReadAll L d)),
     fl_RespClose = (\<lambda>d. silent_call (fl_RespClose L d)),
     fl_Stor = (\<lambda>c p b. noted_call (StorCall p b) (fl_Stor L c p b)),
     fl_MakeDir = (\<lambda>c p. noted_call (MakeDirCall p) (fl_MakeDir L c p)),
     fl_RemoveDir = (\<lambda>c p. noted_call (RemoveDirCall p) (fl_RemoveDir L c p)),
     fl_Delete = (\<lambda>c p. noted_call (DeleteCall p) (fl_Delete L c p)),
     fl_Rename = (\<lambda>c p q. noted_call (RenameCall p q) (fl_Rename L c p q)),
     fl_IsSetTimeSupported = (\<lambda>c s. fl_IsSetTimeSupported L c (fst s)),
     fl_SetTime = (\<lambda>c p t. noted_call (SetTimeCall p t) (fl_SetTime L c p t))\<rparr>"

definition logged_backend :: "('c, 's, 'd) ftp_backend \<Rightarrow> ('c, 's \<times> ftp_mutation list, 'd) ftp_backend" where
  "logged_backend B = \<lparr>fb_lib = logged_lib (fb_lib B), fb_config = fb_config B, fb_root = fb_root B\<rparr>"

abbreviation ftp_log :: "('c, 's \<times> ftp_mutation list, 'd) ftp_world \<Rightarrow> ftp_mutation list" where
  "ftp_log w \<equiv> snd (fw_server w)"

text \<open>The command a call of the interface stands for.\<close>

fun ftp_command :: "string \<Rightarrow> vfs_call \<Rightarrow> ftp_mutation option" where
  "ftp_command root (CMkdir n) = Some (MakeDirCall (projr (ftp_remotePath root n)))"
| "ftp_command root (CRemove n d) =
     Some ((if d then RemoveDirCall else DeleteCall) (projr (ftp_remotePath root n)))"
| "ftp_command root (CRename m n) = Some (RenameCall (projr (ftp_remotePath root m)) (projr (ftp_remotePath root n)))"
| "ftp_command root (CSetModTime n t) = Some (SetTimeCall (projr (ftp_remotePath root n)) t)"
| "ftp_command root _ = None"

lemma logged_fields [simp]:
  "fb_lib (logged_backend B) = logged_lib (fb_lib B)" "fb_root (logged_backend B) = fb_root B"
  "fb_config (logged_backend B) = fb_config B"
  by (simp_all add: logged_backend_def)

lemma connect_log: "ftp_connect (logged_lib L) c s = (r, s') \<Longrightarrow> snd s' = snd s"
  by (auto simp: ftp_connect_def logged_lib_def dest!: silent_callD split: prod.splits sum.splits option.splits)

lemma reconnect_log: "ftp_reconnectLocked (logged_backend B) x w = (r, w') \<Longrightarrow> ftp_log w' = ftp_log w"
  by (auto simp: ftp_reconnectLocked_def Let_def logged_lib_def dest!: connect_log [of _ _ _ _, unfolded logged_lib_def]
      split: option.splits prod.splits sum.splits if_splits)

lemma lock_log: "ftp_lock (logged_backend B) x w = (r, w') \<Longrightarrow> ftp_log w' = ftp_log w"
  by (auto simp: ftp_lock_def Let_def logged_lib_def dest!: silent_callD reconnect_log
      split: option.splits prod.splits if_splits)


lemma on_client_silent: "on_client (\<lambda>c. silent_call (f c)) w = (r, w') \<Longrightarrow> ftp_log w' = ftp_log w"
  by (auto simp: on_client_def dest!: silent_callD split: prod.splits)

lemma on_client_noted: "on_client (\<lambda>c. noted_call m (f c)) w = (r, w') \<Longrightarrow> ftp_log w' = ftp_log w @ [m]"
  by (auto simp: on_client_def dest!: noted_callD split: prod.splits)

lemma unlock_fields [simp]:
  "fw_server (ftp_unlock w) = fw_server w" "fw_closed (ftp_unlock w) = fw_closed w"
  "fw_readers (ftp_unlock w) = fw_readers w" "\<not> fw_held (ftp_unlock w)"
  "fw_handles (ftp_unlock w) = fw_handles w" "fw_fs (ftp_unlock w) = fw_fs w"
  by (simp_all add: ftp_unlock_def)

text \<open>Reading calls make no mutating command.\<close>

lemmas log_rules = reconnect_log lock_log on_client_silent

lemma unlockedD: "map_prod id ftp_unlock (f w) = (r, w') \<Longrightarrow> \<exists>w0. f w = (r, w0) \<and> w' = ftp_unlock w0"
  by (cases "f w") auto

lemma stat_list_log: "ftp_stat_list (logged_backend B) x p e w = (r, w') \<Longrightarrow> ftp_log w' = ftp_log w"
  by (auto simp: ftp_stat_list_def Let_def logged_lib_def map_sum_def dest!: log_rules
      split: prod.splits sum.splits option.splits if_splits list.splits)

lemma stat_locked_log: "ftp_stat_locked (logged_backend B) x p w = (r, w') \<Longrightarrow> ftp_log w' = ftp_log w"
  by (auto simp: ftp_stat_locked_def Let_def logged_lib_def dest!: log_rules stat_list_log
      split: prod.splits sum.splits option.splits if_splits)

lemma Stat_log: "ftp_Stat (logged_backend B) x n w = (r, w') \<Longrightarrow> ftp_log w' = ftp_log w"
  by (auto simp: ftp_Stat_def dest!: lock_log unlockedD stat_locked_log split: prod.splits sum.splits option.splits)

lemma readdir_locked_log: "ftp_readdir_locked (logged_backend B) x p w = (r, w') \<Longrightarrow> ftp_log w' = ftp_log w"
  by (auto simp: ftp_readdir_locked_def Let_def logged_lib_def dest!: log_rules
      split: prod.splits sum.splits option.splits if_splits)

lemma ReadDir_log: "ftp_ReadDir (logged_backend B) x n w = (r, w') \<Longrightarrow> ftp_log w' = ftp_log w"
  by (auto simp: ftp_ReadDir_def dest!: lock_log unlockedD readdir_locked_log split: prod.splits sum.splits option.splits)

lemma OpenRead_log: "ftp_OpenRead (logged_backend B) x n w = (r, w') \<Longrightarrow> ftp_log w' = ftp_log w"
  by (auto simp: ftp_OpenRead_def Let_def logged_lib_def new_reader_def dest!: log_rules
      split: prod.splits sum.splits option.splits if_splits)

lemma ReadAll_log: "ftp_reader_ReadAll (logged_backend B) i w = (r, w') \<Longrightarrow> ftp_log w' = ftp_log w"
  by (auto simp: ftp_reader_ReadAll_def logged_lib_def dest!: silent_callD split: prod.splits)

lemma reader_Close_log: "ftp_reader_Close (logged_backend B) i w = (r, w') \<Longrightarrow> ftp_log w' = ftp_log w"
  by (auto simp: ftp_reader_Close_def Let_def logged_lib_def dest!: silent_callD split: prod.splits if_splits)

lemma with_fs_server: "with_fs f w = (r, w') \<Longrightarrow> fw_server w' = fw_server w"
  by (auto simp: with_fs_def split: prod.splits)

lemma OpenWrite_log: "ftp_OpenWrite (logged_backend B) x n opt w = (r, w') \<Longrightarrow> ftp_log w' = ftp_log w"
  by (auto simp: ftp_OpenWrite_def Let_def new_handle_def drop_temp_def
      dest!: with_fs_server OpenRead_log ReadAll_log reader_Close_log Stat_log
      split: prod.splits sum.splits option.splits if_splits)

text \<open>A mutating call makes its command at most once, and exactly once when it succeeds.\<close>

lemma withClient_log:
  assumes "ftp_withClient (logged_backend B) x op (\<lambda>c. noted_call m (f c)) w = (r, w')"
  shows "ftp_log w' = ftp_log w \<or> ftp_log w' = ftp_log w @ [m]" and "r = None \<Longrightarrow> ftp_log w' = ftp_log w @ [m]"
  using assms
  by (auto simp: ftp_withClient_def dest!: lock_log on_client_noted split: prod.splits option.splits if_splits)

lemma settime_log:
  assumes "ftp_withClient (logged_backend B) x op
      (\<lambda>c s. if \<not> supp c (fst s) then (Some e, s) else noted_call m (f c) s) w = (r, w')"
  shows "ftp_log w' = ftp_log w \<or> ftp_log w' = ftp_log w @ [m]" and "r = None \<Longrightarrow> ftp_log w' = ftp_log w @ [m]"
  using assms
  by (auto simp: ftp_withClient_def on_client_def dest!: lock_log noted_callD split: prod.splits option.splits if_splits)

lemma call_log:
  assumes "vfs_run (ftp_backend_ops (logged_backend B)) x c w = (r, w')"
  shows "(ftp_log w' = ftp_log w \<or> (\<exists>m. ftp_command (fb_root B) c = Some m \<and> ftp_log w' = ftp_log w @ [m])) \<and>
     (r = None \<longrightarrow> ftp_log w' = ftp_log w @ (case ftp_command (fb_root B) c of None \<Rightarrow> [] | Some m \<Rightarrow> [m]))"
proof (cases c)
  case (CStat n)
  with assms show ?thesis
    by (cases "ftp_Stat (logged_backend B) x n w") (auto simp: ftp_backend_ops_def dest: Stat_log)
next
  case (CReadDir n)
  with assms show ?thesis
    by (cases "ftp_ReadDir (logged_backend B) x n w") (auto simp: ftp_backend_ops_def dest: ReadDir_log)
next
  case (COpenRead n)
  with assms show ?thesis
    by (cases "ftp_OpenRead (logged_backend B) x n w") (auto simp: ftp_backend_ops_def dest: OpenRead_log)
next
  case (COpenWrite n opt)
  with assms show ?thesis
    by (cases "ftp_OpenWrite (logged_backend B) x n opt w") (auto simp: ftp_backend_ops_def dest: OpenWrite_log)
next
  case (CMkdir n)
  with assms show ?thesis
    by (auto simp: ftp_backend_ops_def ftp_Mkdir_def logged_lib_def dest: withClient_log split: sum.splits)
next
  case (CRemove n d)
  with assms show ?thesis
    by (cases d) (auto simp: ftp_backend_ops_def ftp_Remove_def logged_lib_def dest: withClient_log split: sum.splits)
next
  case (CRename m n)
  with assms show ?thesis
    by (auto simp: ftp_backend_ops_def ftp_Rename_def logged_lib_def dest: withClient_log split: sum.splits)
next
  case (CSetModTime n t)
  with assms show ?thesis
    by (auto simp: ftp_backend_ops_def ftp_SetModTime_def logged_lib_def cong: if_cong dest: settime_log split: sum.splits)
next
  case (CSetReadOnly n b)
  with assms show ?thesis by (auto simp: ftp_backend_ops_def ftp_SetReadOnly_def)
qed

lemma sync_log:
  assumes "ftp_handle_syncLocked (logged_backend B) i w = (r, w')"
  shows "ftp_log w' = ftp_log w \<or> (\<exists>d. uh_dirty (fw_handles w ! i) \<and>
           ftp_log w' = ftp_log w @ [StorCall (uh_remote (fw_handles w ! i)) d])"
  using assms
  by (auto simp: ftp_handle_syncLocked_def Let_def logged_lib_def upd_handle_def
      dest!: with_fs_server lock_log on_client_noted split: prod.splits sum.splits option.splits if_splits)


lemma calls_log:
  "\<exists>ms. ftp_log (vfs_runs (ftp_backend_ops (logged_backend B)) x cs w) = ftp_log w @ ms \<and>
        subseq ms (List.map_filter (ftp_command (fb_root B)) cs)"
proof (induction cs arbitrary: w)
  case Nil
  show ?case by (simp add: map_filter_simps)
next
  case (Cons c cs)
  let ?ops = "ftp_backend_ops (logged_backend B)"
  obtain r w1 where run: "vfs_run ?ops x c w = (r, w1)" by force
  from Cons.IH [of w1] obtain ms where ms: "ftp_log (vfs_runs ?ops x cs w1) = ftp_log w1 @ ms"
    "subseq ms (List.map_filter (ftp_command (fb_root B)) cs)" by blast
  from call_log [OF run] consider "ftp_log w1 = ftp_log w"
    | m where "ftp_command (fb_root B) c = Some m" "ftp_log w1 = ftp_log w @ [m]" by blast
  then show ?case
  proof cases
    case 1
    with ms run show ?thesis by (auto simp: map_filter_simps split: option.splits)
  next
    case 2
    with ms run show ?thesis by (auto simp: map_filter_simps intro!: exI [of _ "m # ms"])
  qed
qed

text \<open>A small server: files and their bytes, every command answered, no modification times.\<close>

definition demo_ftp :: "(nat, (string \<times> bytes) list, bytes) ftp_lib" where
  "demo_ftp = \<lparr>
     fl_Dial = (\<lambda>h p t s. (Inr 0, s)), fl_Login = (\<lambda>c u pw s. (None, s)), fl_ChangeDir = (\<lambda>c d s. (None, s)),
     fl_CurrentDir = (\<lambda>c s. (Inr ''/'', s)), fl_Quit = (\<lambda>c s. (None, s)), fl_NoOp = (\<lambda>c s. (None, s)),
     fl_GetEntry = (\<lambda>c p s. case map_of s p of
        None \<Rightarrow> (Inl (Reply 550 ''no such file''), s)
      | Some d \<Rightarrow> (Inr \<lparr>fe_Name = path_Base p, fe_Type = EntryTypeFile, fe_Size = of_nat (length d), fe_Time = 0\<rparr>, s)),
     fl_List = (\<lambda>c p s. (Inr [], s)),
     fl_Retr = (\<lambda>c p s. case map_of s p of None \<Rightarrow> (Inl (Reply 550 ''no such file''), s) | Some d \<Rightarrow> (Inr d, s)),
     fl_ReadAll = (\<lambda>d s. ((d, None), s)), fl_RespClose = (\<lambda>d s. (None, s)),
     fl_Stor = (\<lambda>c p b s. (None, AList.update p b s)),
     fl_MakeDir = (\<lambda>c p s. (None, s)), fl_RemoveDir = (\<lambda>c p s. (None, s)),
     fl_Delete = (\<lambda>c p s. (None, AList.delete p s)),
     fl_Rename = (\<lambda>c p q s. (Some (Sentinel EOF), s)),
     fl_IsSetTimeSupported = (\<lambda>c s. False), fl_SetTime = (\<lambda>c p t s. (None, s))\<rparr>"

definition demo_ftp_config :: ftp_config where
  "demo_ftp_config = \<lparr>fc_Host = ''h'', fc_Port = 21, fc_Username = ''u'', fc_Password = ''p'', fc_Root = ''/'',
     fc_TLSMode = TLSNone, fc_TLSConfig = None\<rparr>"

definition demo_ftp_backend :: "(nat, (string \<times> bytes) list, bytes) ftp_backend" where
  "demo_ftp_backend = \<lparr>fb_lib = demo_ftp, fb_config = demo_ftp_config, fb_root = ''/''\<rparr>"

definition demo_ftp_world :: "'s \<Rightarrow> (nat, 's, bytes) ftp_world" where
  "demo_ftp_world s = \<lparr>fw_client = 0, fw_needsProbe = False, fw_closed = False, fw_held = False, fw_server = s,
     fw_fs = \<lparr>fs_nodes = [], fs_cwd = ''/'', fs_faults = (\<lambda>_ _. None)\<rparr>, fw_handles = [], fw_readers = [],
     fw_tempdir = ''/tmp'', fw_rnd = ''1'', fw_now = 7\<rparr>"



subsection \<open>The mutex\<close>

text \<open>
  What the goroutines using one backend can do. A call, a \<open>Sync\<close> or a \<open>Close\<close> starts once the mutex
  is free; a reader's own methods and a temporary file need no mutex; the clock, the server and the names
  the system draws change on their own.
\<close>

inductive ftp_step :: "('c, 's, 'd) ftp_backend \<Rightarrow> ('c, 's, 'd) ftp_world \<Rightarrow> ('c, 's, 'd) ftp_world \<Rightarrow> bool" for B where
  fs_call: "\<not> fw_held w \<Longrightarrow> vfs_run (ftp_backend_ops B) x c w = (r, w') \<Longrightarrow> ftp_step B w w'"
| fs_close: "\<not> fw_held w \<Longrightarrow> ftp_Close B w = (r, w') \<Longrightarrow> ftp_step B w w'"
| fs_read: "i < length (fw_readers w) \<Longrightarrow> ftp_reader_ReadAll B i w = (a, w') \<Longrightarrow> ftp_step B w w'"
| fs_reader_close: "i < length (fw_readers w) \<Longrightarrow> ftp_reader_Close B i w = (r, w') \<Longrightarrow> ftp_step B w w'"
| fs_write: "i < length (fw_handles w) \<Longrightarrow> ftp_handle_WriteAt i d off w = (a, w') \<Longrightarrow> ftp_step B w w'"
| fs_sync: "\<not> fw_held w \<Longrightarrow> i < length (fw_handles w) \<Longrightarrow> ftp_handle_Sync B i w = (r, w') \<Longrightarrow> ftp_step B w w'"
| fs_handle_close:
    "\<not> fw_held w \<Longrightarrow> i < length (fw_handles w) \<Longrightarrow> ftp_handle_Close B i w = (r, w') \<Longrightarrow> ftp_step B w w'"
| fs_environment: "ftp_step B w (w\<lparr>fw_server := s, fw_rnd := rnd, fw_now := t\<rparr>)"

inductive ftp_reachable :: "('c, 's, 'd) ftp_backend \<Rightarrow> ('c, 's, 'd) ftp_world \<Rightarrow> bool" for B where
  fr_init: "\<not> fw_held w \<Longrightarrow> fw_readers w = [] \<Longrightarrow> fw_handles w = [] \<Longrightarrow> ftp_reachable B w"
| fr_step: "ftp_reachable B w \<Longrightarrow> ftp_step B w w' \<Longrightarrow> ftp_reachable B w'"

text \<open>The readers still open, and the invariant: the mutex is held exactly by the one open reader.\<close>

definition open_readers :: "('c, 's, 'd) ftp_world \<Rightarrow> nat" where
  "open_readers w = length (filter (\<lambda>r. \<not> lr_once r) (fw_readers w))"

definition mutex_ok :: "('c, 's, 'd) ftp_world \<Rightarrow> bool" where
  "mutex_ok w \<longleftrightarrow> open_readers w = (if fw_held w then 1 else 0)"

lemma reconnect_keeps:
  "ftp_reconnectLocked B x w = (r, w') \<Longrightarrow>
   fw_held w' = fw_held w \<and> fw_readers w' = fw_readers w \<and> fw_closed w' = fw_closed w \<and> fw_handles w' = fw_handles w"
  by (auto simp: ftp_reconnectLocked_def Let_def split: option.splits prod.splits sum.splits if_splits)

lemma lock_mutex:
  "ftp_lock B x w = (r, w') \<Longrightarrow>
   fw_readers w' = fw_readers w \<and> fw_held w' = (r = None \<or> fw_held w) \<and> (r = None \<longrightarrow> \<not> fw_closed w)"
  by (auto simp: ftp_lock_def Let_def dest!: reconnect_keeps split: option.splits prod.splits if_splits)

lemma on_client_keeps:
  "on_client f w = (r, w') \<Longrightarrow>
   fw_held w' = fw_held w \<and> fw_readers w' = fw_readers w \<and> fw_closed w' = fw_closed w \<and> fw_handles w' = fw_handles w"
  by (auto simp: on_client_def split: prod.splits)

lemma with_fs_keeps:
  "with_fs f w = (r, w') \<Longrightarrow> fw_held w' = fw_held w \<and> fw_readers w' = fw_readers w \<and> fw_closed w' = fw_closed w"
  by (auto simp: with_fs_def split: prod.splits)

lemma stat_list_keeps: "ftp_stat_list B x p e w = (r, w') \<Longrightarrow> fw_readers w' = fw_readers w"
  by (auto simp: ftp_stat_list_def Let_def map_sum_def dest!: reconnect_keeps on_client_keeps
      split: prod.splits sum.splits option.splits if_splits list.splits)

lemma stat_locked_keeps: "ftp_stat_locked B x p w = (r, w') \<Longrightarrow> fw_readers w' = fw_readers w"
  by (auto simp: ftp_stat_locked_def Let_def dest!: reconnect_keeps on_client_keeps stat_list_keeps
      split: prod.splits sum.splits option.splits if_splits)

lemma readdir_locked_keeps: "ftp_readdir_locked B x p w = (r, w') \<Longrightarrow> fw_readers w' = fw_readers w"
  by (auto simp: ftp_readdir_locked_def Let_def dest!: reconnect_keeps on_client_keeps
      split: prod.splits sum.splits option.splits if_splits)

lemma Stat_mutex: "ftp_Stat B x n w = (r, w') \<Longrightarrow> \<not> fw_held w \<Longrightarrow> \<not> fw_held w' \<and> fw_readers w' = fw_readers w"
  by (auto simp: ftp_Stat_def dest!: lock_mutex unlockedD stat_locked_keeps split: prod.splits sum.splits option.splits)

lemma ReadDir_mutex: "ftp_ReadDir B x n w = (r, w') \<Longrightarrow> \<not> fw_held w \<Longrightarrow> \<not> fw_held w' \<and> fw_readers w' = fw_readers w"
  by (auto simp: ftp_ReadDir_def dest!: lock_mutex unlockedD readdir_locked_keeps split: prod.splits sum.splits option.splits)

lemma withClient_mutex:
  "ftp_withClient B x op f w = (r, w') \<Longrightarrow> \<not> fw_held w \<Longrightarrow> \<not> fw_held w' \<and> fw_readers w' = fw_readers w"
  by (auto simp: ftp_withClient_def dest!: lock_mutex on_client_keeps split: prod.splits option.splits if_splits)

text \<open>A successful \<open>OpenRead\<close> returns with the mutex held and one more open reader.\<close>

lemma OpenRead_mutex:
  "ftp_OpenRead B x n w = (r, w') \<Longrightarrow> \<not> fw_held w \<Longrightarrow>
   (case r of Inl e \<Rightarrow> \<not> fw_held w' \<and> fw_readers w' = fw_readers w
    | Inr i \<Rightarrow> fw_held w' \<and> i = length (fw_readers w) \<and>
        (\<exists>d. fw_readers w' = fw_readers w @ [\<lparr>lr_response = d, lr_once = False, lr_err = None\<rparr>]))"
  by (auto simp: ftp_OpenRead_def Let_def new_reader_def dest!: lock_mutex reconnect_keeps on_client_keeps
      split: prod.splits sum.splits option.splits if_splits)

lemma ReadAll_keeps:
  "ftp_reader_ReadAll B i w = (a, w') \<Longrightarrow> fw_held w' = fw_held w \<and> fw_readers w' = fw_readers w \<and> fw_closed w' = fw_closed w"
  by (auto simp: ftp_reader_ReadAll_def split: prod.splits)


lemma open_readers_snoc:
  "fw_readers w' = fw_readers w @ [r] \<Longrightarrow> open_readers w' = open_readers w + (if lr_once r then 0 else 1)"
  by (simp add: open_readers_def)

lemma open_readers_cong: "fw_readers w' = fw_readers w \<Longrightarrow> open_readers w' = open_readers w"
  by (simp add: open_readers_def)

lemma filter_closed_one:
  "i < length xs \<Longrightarrow> P (xs ! i) \<Longrightarrow> \<not> P y \<Longrightarrow> length (filter P (xs[i := y])) = length (filter P xs) - 1"
proof (induction xs arbitrary: i)
  case (Cons x xs)
  show ?case
  proof (cases i)
    case 0
    with Cons.prems show ?thesis by simp
  next
    case (Suc j)
    with Cons.prems have j: "j < length xs" "P (xs ! j)" by simp_all
    then have "0 < length (filter P xs)" by (meson filter_False length_greater_0_conv filter_empty_conv nth_mem)
    with Cons.IH [OF j Cons.prems(3)] Suc show ?thesis by auto
  qed
qed simp

text \<open>Only the first \<open>Close\<close> of a reader releases the mutex.\<close>

lemma reader_Close_mutex:
  assumes "ftp_reader_Close B i w = (r, w')" and "i < length (fw_readers w)" and "mutex_ok w"
  shows "mutex_ok w' \<and> fw_closed w' = fw_closed w \<and>
    (if lr_once (fw_readers w ! i) then w' = w else fw_held w \<and> \<not> fw_held w')"
proof (cases "lr_once (fw_readers w ! i)")
  case True
  with assms show ?thesis by (simp add: ftp_reader_Close_def Let_def)
next
  case False
  have "fw_readers w ! i \<in> set (filter (\<lambda>r. \<not> lr_once r) (fw_readers w))" using assms(2) False by simp
  then have "open_readers w \<noteq> 0" by (auto simp: open_readers_def filter_empty_conv)
  with assms(3) have one: "fw_held w" "open_readers w = 1" by (auto simp: mutex_ok_def split: if_splits)
  obtain e s where cl: "fl_RespClose (fb_lib B) (lr_response (fw_readers w ! i)) (fw_server w) = (e, s)" by force
  with False assms(1) have w': "w' = ftp_unlock (w\<lparr>fw_server := s, fw_needsProbe := True,
      fw_readers := (fw_readers w)[i := (fw_readers w ! i)\<lparr>lr_once := True, lr_err := e\<rparr>]\<rparr>)"
    by (auto simp: ftp_reader_Close_def Let_def)
  have "open_readers w' = open_readers w - 1" unfolding open_readers_def w'
    using filter_closed_one [OF assms(2), of "\<lambda>r. \<not> lr_once r"] False by simp
  with one False show ?thesis by (simp add: mutex_ok_def w')
qed

lemma OpenWrite_mutex:
  assumes "ftp_OpenWrite B x n opt w = (r, w')" and "\<not> fw_held w" and "mutex_ok w"
  shows "\<not> fw_held w' \<and> mutex_ok w'"
proof -
  let ?ok = "\<lambda>v. \<not> fw_held v \<and> mutex_ok v"
  have keep: "?ok v'" if "?ok v" "fw_held v' = fw_held v" "fw_readers v' = fw_readers v"
    for v v' :: "('a, 'b, 'c) ftp_world"
    using that by (simp add: mutex_ok_def open_readers_def)
  have drop: "?ok (drop_temp p v)" if "?ok v" for p and v :: "('a, 'b, 'c) ftp_world"
    by (rule keep [OF that]) (simp_all add: drop_temp_def)
  have hand: "new_handle h v = (s, v') \<Longrightarrow> ?ok v \<Longrightarrow> ?ok v'" for h s and v v' :: "('a, 'b, 'c) ftp_world"
    by (auto simp: new_handle_def mutex_ok_def open_readers_def)
  have fsk: "with_fs f v = (s, v') \<Longrightarrow> ?ok v \<Longrightarrow> ?ok v'" for f :: "lfs \<Rightarrow> 'e \<times> lfs" and s and v v' :: "('a, 'b, 'c) ftp_world"
    by (auto simp: mutex_ok_def open_readers_def dest!: with_fs_keeps)
  have stt: "ftp_Stat B x n v = (s, v') \<Longrightarrow> ?ok v \<Longrightarrow> ?ok v'" for s v v'
    by (auto simp: mutex_ok_def open_readers_def dest!: Stat_mutex)
  have rdf: "ftp_OpenRead B x n v = (Inl e, v') \<Longrightarrow> ?ok v \<Longrightarrow> ?ok v'" for e v v'
    by (auto simp: mutex_ok_def open_readers_def dest!: OpenRead_mutex)
  have rdc: "?ok v3" if "ftp_OpenRead B x n v = (Inr d, v1)" "ftp_reader_ReadAll B d v1 = (a, v2)"
    "with_fs f v2 = (s, v2')" "ftp_reader_Close B d v2' = (e, v3)" "?ok v" for v d v1 a v2 f s v2' e v3
  proof -
    from OpenRead_mutex [OF that(1)] that(5) obtain q where o: "fw_held v1" "d = length (fw_readers v)"
      "fw_readers v1 = fw_readers v @ [\<lparr>lr_response = q, lr_once = False, lr_err = None\<rparr>]" by auto
    have "mutex_ok v1" using o that(5) by (simp add: mutex_ok_def open_readers_snoc)
    with ReadAll_keeps [OF that(2)] with_fs_keeps [OF that(3)] have v2: "mutex_ok v2'" "fw_readers v2' = fw_readers v1"
      by (simp_all add: mutex_ok_def open_readers_def)
    from reader_Close_mutex [OF that(4) _ v2(1)] v2(2) o(2,3) show "?ok v3" by simp
  qed
  from assms show ?thesis
    by (auto simp: ftp_OpenWrite_def Let_def intro!: drop dest: fsk hand stt rdf rdc
        split: prod.splits sum.splits option.splits if_splits)
qed


lemma sync_mutex:
  "ftp_handle_syncLocked B i w = (r, w') \<Longrightarrow> \<not> fw_held w \<Longrightarrow> \<not> fw_held w' \<and> fw_readers w' = fw_readers w"
  by (auto simp: ftp_handle_syncLocked_def Let_def upd_handle_def dest!: with_fs_keeps lock_mutex on_client_keeps
      split: prod.splits sum.splits option.splits if_splits)

lemma handle_Close_mutex:
  "ftp_handle_Close B i w = (r, w') \<Longrightarrow> \<not> fw_held w \<Longrightarrow> \<not> fw_held w' \<and> fw_readers w' = fw_readers w"
  by (auto simp: ftp_handle_Close_def Let_def upd_handle_def dest!: with_fs_keeps sync_mutex split: prod.splits if_splits)

lemma WriteAt_mutex:
  "ftp_handle_WriteAt i d off w = (a, w') \<Longrightarrow> fw_held w' = fw_held w \<and> fw_readers w' = fw_readers w"
  by (auto simp: ftp_handle_WriteAt_def Let_def upd_handle_def dest!: with_fs_keeps split: prod.splits sum.splits if_splits)

lemma call_mutex:
  assumes "vfs_run (ftp_backend_ops B) x c w = (r, w')" and "\<not> fw_held w" and "mutex_ok w"
  shows "mutex_ok w'"
proof -
  have same: "mutex_ok w'" if "\<not> fw_held w' \<and> fw_readers w' = fw_readers w"
    using that assms(2,3) by (simp add: mutex_ok_def open_readers_def)
  note wc = same [OF withClient_mutex [OF _ assms(2)]]
  show ?thesis
  proof (cases c)
    case (CStat n)
    with assms same show ?thesis
      by (cases "ftp_Stat B x n w") (auto simp: ftp_backend_ops_def dest: Stat_mutex)
  next
    case (CReadDir n)
    with assms same show ?thesis
      by (cases "ftp_ReadDir B x n w") (auto simp: ftp_backend_ops_def dest: ReadDir_mutex)
  next
    case (COpenRead n)
    obtain s where s: "ftp_OpenRead B x n w = (s, w')" using assms(1) COpenRead
      by (cases "ftp_OpenRead B x n w") (auto simp: ftp_backend_ops_def)
    from OpenRead_mutex [OF s assms(2)] assms(2,3) same show ?thesis
      by (auto simp: mutex_ok_def open_readers_snoc split: sum.splits)
  next
    case (COpenWrite n opt)
    with assms show ?thesis
      by (cases "ftp_OpenWrite B x n opt w") (auto simp: ftp_backend_ops_def dest: OpenWrite_mutex)
  next
    case (CMkdir n)
    with assms wc show ?thesis by (auto simp: ftp_backend_ops_def ftp_Mkdir_def split: sum.splits)
  next
    case (CRemove n d)
    with assms wc show ?thesis by (auto simp: ftp_backend_ops_def ftp_Remove_def split: sum.splits)
  next
    case (CRename m n)
    with assms wc show ?thesis by (auto simp: ftp_backend_ops_def ftp_Rename_def split: sum.splits)
  next
    case (CSetModTime n t)
    with assms wc show ?thesis by (auto simp: ftp_backend_ops_def ftp_SetModTime_def split: sum.splits)
  next
    case (CSetReadOnly n b)
    with assms show ?thesis by (auto simp: ftp_backend_ops_def ftp_SetReadOnly_def)
  qed
qed

lemma reachable_mutex: "ftp_reachable B w \<Longrightarrow> mutex_ok w"
proof (induction rule: ftp_reachable.induct)
  case (fr_init w)
  then show ?case by (simp add: mutex_ok_def open_readers_def)
next
  case (fr_step w w')
  have same: "mutex_ok w'" if "fw_held w' = fw_held w" "fw_readers w' = fw_readers w"
    using that fr_step.IH by (simp add: mutex_ok_def open_readers_def)
  from fr_step.hyps(2) show ?case
  proof cases
    case (fs_call x c r)
    then show ?thesis using call_mutex fr_step.IH by blast
  next
    case (fs_close r)
    then show ?thesis by (intro same) (auto simp: ftp_Close_def dest: on_client_keeps split: if_splits)
  next
    case (fs_read i a)
    then show ?thesis by (intro same) (auto dest: ReadAll_keeps)
  next
    case (fs_reader_close i r)
    then show ?thesis using reader_Close_mutex fr_step.IH by blast
  next
    case (fs_write i d off a)
    then show ?thesis by (intro same) (auto dest: WriteAt_mutex)
  next
    case (fs_sync i r)
    then show ?thesis by (intro same) (auto simp: ftp_handle_Sync_def dest: sync_mutex)
  next
    case (fs_handle_close i r)
    then show ?thesis by (intro same) (auto dest: handle_Close_mutex)
  next
    case (fs_environment s rnd t)
    then show ?thesis by (intro same) simp_all
  qed
qed

text \<open>
  In every state the goroutines using an FTP backend can reach, the mutex is held exactly when one
  reader is open, and then by that one reader alone: every other operation gave it back on every path,
  errors and reconnections included. So a backend is never stuck: closing the open reader frees the
  mutex, and closing a reader a second time changes nothing (it neither frees a mutex another reader
  holds nor unlocks a free one).
\<close>

theorem ftp_mutex_accounted:
  assumes "ftp_reachable B w" and "i < length (fw_readers w)" and "ftp_reader_Close B i w = (r, w')"
  shows "open_readers w = (if fw_held w then 1 else 0) \<and>
    (if lr_once (fw_readers w ! i) then w' = w \<and> r = lr_err (fw_readers w ! i) else fw_held w \<and> \<not> fw_held w')"
proof -
  have "mutex_ok w" using assms(1) by (rule reachable_mutex)
  moreover from reader_Close_mutex [OF assms(3,2) this]
  have "if lr_once (fw_readers w ! i) then w' = w else fw_held w \<and> \<not> fw_held w'" by blast
  moreover have "lr_once (fw_readers w ! i) \<Longrightarrow> r = lr_err (fw_readers w ! i)"
    using assms(3) by (auto simp: ftp_reader_Close_def Let_def)
  ultimately show ?thesis unfolding mutex_ok_def by meson
qed

theorem ftp_mutex_accounted_witness:
  "\<exists>w w'. ftp_reachable demo_ftp_backend w \<and> fw_held w \<and>
      ftp_reader_Close demo_ftp_backend 0 w = (None, w') \<and> open_readers w = 1 \<and> \<not> fw_held w'"
proof -
  let ?w0 = "demo_ftp_world [(''/a'', [1, 2])]"
  have p: "ftp_remotePath ''/'' ''a'' = Inr ''/a''" by code_simp
  obtain r0 w where run: "vfs_run (ftp_backend_ops demo_ftp_backend) None (COpenRead ''a'') ?w0 = (r0, w)" by force
  have w: "fw_readers w = [\<lparr>lr_response = [1, 2], lr_once = False, lr_err = None\<rparr>]" "fw_held w"
    using run p by (auto simp: ftp_backend_ops_def ftp_OpenRead_def demo_ftp_backend_def demo_ftp_def ftp_lock_def
        on_client_def new_reader_def demo_ftp_world_def)
  obtain r w' where cl: "ftp_reader_Close demo_ftp_backend 0 w = (r, w')" by force
  have r: "r = None" using cl w by (auto simp: ftp_reader_Close_def demo_ftp_backend_def demo_ftp_def)
  have "ftp_reachable demo_ftp_backend ?w0" by (rule fr_init) (simp_all add: demo_ftp_world_def)
  moreover have "ftp_step demo_ftp_backend ?w0 w" using fs_call [OF _ run] by (simp add: demo_ftp_world_def)
  ultimately have rc: "ftp_reachable demo_ftp_backend w" by (rule fr_step)
  from ftp_mutex_accounted [OF rc _ cl] w r rc cl show ?thesis by auto
qed


subsection \<open>A closed backend\<close>

definition closed_error :: "ctx \<Rightarrow> err" where
  "closed_error x = (case x of Some e \<Rightarrow> e | None \<Rightarrow> Sentinel NetErrClosed)"

definition closed_answer :: "('c, 's, 'd) ftp_backend \<Rightarrow> ctx \<Rightarrow> string \<Rightarrow> err" where
  "closed_answer B x n = (case ftp_remotePath (fb_root B) n of Inl e \<Rightarrow> e | Inr p \<Rightarrow> closed_error x)"

lemma lock_closed: "fw_closed w \<Longrightarrow> ftp_lock B x w = (Some (closed_error x), w)"
  by (simp add: ftp_lock_def closed_error_def split: option.splits)

lemma withClient_closed: "ftp_withClient B x op f w = (r, w') \<Longrightarrow> fw_closed w \<Longrightarrow> w' = w \<and> r \<noteq> None"
  by (auto simp: ftp_withClient_def lock_closed)

lemma Stat_closed: "fw_closed w \<Longrightarrow> ftp_Stat B x n w = (Inl (closed_answer B x n), w)"
  by (simp add: ftp_Stat_def lock_closed closed_answer_def split: sum.splits)

lemma ReadDir_closed: "fw_closed w \<Longrightarrow> ftp_ReadDir B x n w = (Inl (closed_answer B x n), w)"
  by (simp add: ftp_ReadDir_def lock_closed closed_answer_def split: sum.splits)

lemma OpenRead_closed: "fw_closed w \<Longrightarrow> ftp_OpenRead B x n w = (Inl (closed_answer B x n), w)"
  by (simp add: ftp_OpenRead_def lock_closed closed_answer_def split: sum.splits)

lemma OpenWrite_closed:
  assumes "ftp_OpenWrite B x n opt w = (r, w')" and cl: "fw_closed w"
  shows "fw_server w' = fw_server w \<and> fw_closed w'"
proof (cases "ftp_remotePath (fb_root B) n")
  case (Inl e)
  with assms show ?thesis by (simp add: ftp_OpenWrite_def)
next
  case (Inr p)
  obtain t w1 where ct: "with_fs (os_CreateTemp (fw_tempdir w) ''dkdrive-ftp-'' '''' (fw_rnd w) (fw_now w)) w = (t, w1)"
    by force
  then have k: "fw_closed w1" "fw_server w1 = fw_server w" using cl by (auto simp: with_fs_def split: prod.splits)
  note closed = OpenRead_closed [OF k(1)] Stat_closed [OF k(1)]
  show ?thesis
    using assms(1) Inr ct k
    by (cases t) (auto simp: ftp_OpenWrite_def closed Let_def new_handle_def drop_temp_def split: if_splits)
qed

lemma sync_closed:
  "fw_closed w \<Longrightarrow> ftp_handle_syncLocked B i w = (r, w') \<Longrightarrow>
   fw_server w' = fw_server w \<and> fw_closed w' \<and> (uh_dirty (fw_handles w ! i) \<longrightarrow> r \<noteq> None)"
  by (auto simp: ftp_handle_syncLocked_def Let_def with_fs_def lock_closed split: prod.splits sum.splits option.splits if_splits)

text \<open>
  After \<open>Close\<close> an FTP backend never talks to the server again: every call but the opening of a
  handle fails, opening one reaches no server, and synchronising or closing a handle that still has
  unsent data reports an error instead of losing it silently. Closing twice calls \<open>QUIT\<close> once.
\<close>

theorem ftp_closed_silent:
  assumes "ftp_Close B w0 = (e, w)" and "vfs_run (ftp_backend_ops B) x c w = (r, w1)"
    and "ftp_handle_syncLocked B i w = (s, w2)"
  shows "fw_server w1 = fw_server w \<and> fw_server w2 = fw_server w \<and> fw_closed w1 \<and> fw_closed w2 \<and>
    ((\<forall>n opt. c \<noteq> COpenWrite n opt) \<longrightarrow> r \<noteq> None) \<and> (uh_dirty (fw_handles w ! i) \<longrightarrow> s \<noteq> None) \<and>
    ftp_Close B w = (None, w)"
proof -
  have cl: "fw_closed w" using assms(1) by (auto simp: ftp_Close_def dest: on_client_keeps split: if_splits)
  have "fw_server w1 = fw_server w \<and> fw_closed w1 \<and> ((\<forall>n opt. c \<noteq> COpenWrite n opt) \<longrightarrow> r \<noteq> None)"
  proof (cases c)
    case (COpenWrite n opt)
    with assms(2) cl show ?thesis
      by (cases "ftp_OpenWrite B x n opt w") (auto simp: ftp_backend_ops_def dest: OpenWrite_closed)
  qed (use assms(2) cl in \<open>auto simp: ftp_backend_ops_def ftp_Mkdir_def ftp_Remove_def ftp_Rename_def ftp_SetModTime_def
        ftp_SetReadOnly_def Stat_closed ReadDir_closed OpenRead_closed split: sum.splits dest!: withClient_closed\<close>)
  with sync_closed [OF cl assms(3)] cl show ?thesis by (simp add: ftp_Close_def)
qed


theorem ftp_closed_silent_witness:
  "\<exists>w w1 e. ftp_Close demo_ftp_backend (demo_ftp_world []) = (None, w) \<and>
      vfs_run (ftp_backend_ops demo_ftp_backend) None (CMkdir ''a'') w = (Some e, w1) \<and> fw_server w1 = []"
proof -
  obtain e w where cl: "ftp_Close demo_ftp_backend (demo_ftp_world []) = (e, w)" by force
  then have e: "e = None" "fw_server w = []"
    by (auto simp: ftp_Close_def on_client_def demo_ftp_backend_def demo_ftp_def demo_ftp_world_def)
  obtain r w1 where run: "vfs_run (ftp_backend_ops demo_ftp_backend) None (CMkdir ''a'') w = (r, w1)" by force
  obtain s w2 where sy: "ftp_handle_syncLocked demo_ftp_backend 0 w = (s, w2)" by force
  from ftp_closed_silent [OF cl run sy] e run cl show ?thesis by auto
qed

end
