(* ===== verification/Go_Strconv.thy ===== *)
theory Go_Strconv
  imports Go_Errors
begin

text \<open>
  Go's \<open>strconv\<close> as far as the program uses it: decimal text of integers and back, with the
  refusals of texts that are no number or do not fit the width asked for.
\<close>

text \<open>\<open>strconv.Itoa\<close> of a natural number.\<close>

fun itoa :: "nat \<Rightarrow> string" where
  "itoa n = (if n < 10 then [char_of (48 + n)] else itoa (n div 10) @ [char_of (48 + n mod 10)])"

declare itoa.simps [simp del]

definition digit_value :: "char \<Rightarrow> int option" where
  "digit_value c = (let n = of_char c :: int in if 48 \<le> n \<and> n \<le> 57 then Some (n - 48) else None)"

fun parse_digits :: "string \<Rightarrow> int \<Rightarrow> int option" where
  "parse_digits [] acc = Some acc"
| "parse_digits (c # s) acc =
     (case digit_value c of None \<Rightarrow> None | Some d \<Rightarrow> parse_digits s (acc * 10 + d))"

text \<open>\<open>strconv.ParseInt(s, 10, bits)\<close> for the range \<open>fits\<close> of the width.\<close>

definition ParseInt :: "(int \<Rightarrow> bool) \<Rightarrow> string \<Rightarrow> err + int" where
  "ParseInt fits s =
     (let (sign, ds) = (case s of [] \<Rightarrow> (1, []) | c # r \<Rightarrow> if c = CHR ''-'' then (- 1, r) else if c = CHR ''+'' then (1, r) else (1, s))
      in if ds = [] then Inl (ErrNew ''invalid syntax'')
         else case parse_digits ds 0 of
                None \<Rightarrow> Inl (ErrNew ''invalid syntax'')
              | Some n \<Rightarrow> if fits (sign * n) then Inr (sign * n) else Inl (ErrNew ''value out of range''))"

definition in_i32 :: "int \<Rightarrow> bool" where
  "in_i32 x \<longleftrightarrow> - (2 ^ 31) \<le> x \<and> x < 2 ^ 31"

definition ParseInt64 :: "string \<Rightarrow> err + int" where "ParseInt64 = ParseInt in_i64"
definition ParseInt32 :: "string \<Rightarrow> err + int" where "ParseInt32 = ParseInt in_i32"

text \<open>\<open>strconv.ParseUint(s, 10, 16)\<close> takes no sign.\<close>

definition ParseUint16 :: "string \<Rightarrow> err + int" where
  "ParseUint16 s =
     (if s = [] then Inl (ErrNew ''invalid syntax'')
      else case parse_digits s 0 of
             None \<Rightarrow> Inl (ErrNew ''invalid syntax'')
           | Some n \<Rightarrow> if n < 2 ^ 16 then Inr n else Inl (ErrNew ''value out of range''))"

lemma ParseInt_range: "ParseInt fits s = Inr n \<Longrightarrow> fits n"
  by (auto simp: ParseInt_def Let_def split: list.splits if_splits option.splits)

lemmas ParseInt64_range = ParseInt_range [of in_i64, folded ParseInt64_def]
lemmas ParseInt32_range = ParseInt_range [of in_i32, folded ParseInt32_def]

lemma digit_value_char: "n < 10 \<Longrightarrow> digit_value (char_of (48 + n)) = Some (int n)"
proof -
  assume "n < 10"
  then have "of_char (char_of (48 + n) :: char) = (48 + n :: nat)" by simp
  then have "(of_char (char_of (48 + n) :: char) :: int) = int (48 + n)" by (metis of_nat_of_char)
  with \<open>n < 10\<close> show ?thesis by (simp add: digit_value_def)
qed

lemma parse_digits_append:
  "parse_digits (s @ t) acc = (case parse_digits s acc of None \<Rightarrow> None | Some a \<Rightarrow> parse_digits t a)"
  by (induction s arbitrary: acc) (auto split: option.splits)

lemma parse_itoa_acc: "\<exists>k. \<forall>acc. parse_digits (itoa n) acc = Some (acc * 10 ^ k + int n)"
proof (induction n rule: itoa.induct)
  case (1 n)
  show ?case
  proof (cases "n < 10")
    case True
    then show ?thesis by (intro exI [of _ 1]) (subst itoa.simps, simp add: digit_value_char)
  next
    case False
    with 1 obtain k where k: "\<And>acc. parse_digits (itoa (n div 10)) acc = Some (acc * 10 ^ k + int (n div 10))" by blast
    have "int (n div 10) * 10 + int (n mod 10) = int n" by (metis mult.commute of_nat_add of_nat_mult of_nat_numeral mult_div_mod_eq)
    with False show ?thesis
      by (intro exI [of _ "Suc k"])
         (subst itoa.simps, simp add: parse_digits_append k digit_value_char algebra_simps)
  qed
qed

lemma parse_itoa: "parse_digits (itoa n) 0 = Some (int n)"
  using parse_itoa_acc [of n] by auto

lemma itoa_ne [simp]: "itoa n \<noteq> []"
  by (subst itoa.simps) simp

lemma itoa_digits: "c \<in> set (itoa n) \<Longrightarrow> digit_value c \<noteq> None"
proof (induction n rule: itoa.induct)
  case (1 n)
  then show ?case by (subst (asm) (2) itoa.simps) (auto split: if_splits simp: digit_value_char)
qed

lemma ParseUint16_itoa: "n < 2 ^ 16 \<Longrightarrow> ParseUint16 (itoa n) = Inr (int n)"
  by (simp add: ParseUint16_def parse_itoa)

end
