(* ===== verification/Webdav_Backend.thy ===== *)
theory Webdav_Backend
  imports Remote_Path Local_FS Go_Strconv
begin

text \<open>
  \<^verbatim>\<open>internal/protocol/webdav/backend.go\<close>. The HTTP client with the server behind it is a
  parameter: a record of calls on a server state \<open>'s\<close> and response bodies \<open>'d\<close>, together with
  the library parsers the backend applies to what a server sends (XML documents, media types, HTTP dates,
  references). The local temporary files of the write handles are in the world of one backend.
\<close>

subsection \<open>Requests and responses\<close>

record dav_url =
  du_Scheme :: string
  du_Host :: string
  du_Path :: string

record http_request =
  hq_Method :: string
  hq_URL :: dav_url
  hq_Auth :: "string \<times> string"
  hq_Headers :: "(string \<times> string) list"
  hq_Body :: bytes

record 'd http_response =
  hr_StatusCode :: int
  hr_Status :: string
  hr_Header :: "(string \<times> string) list"
  hr_Body :: 'd

record dav_property =
  dp_Collection :: bool
  dp_ContentLength :: string
  dp_LastModified :: string

record dav_response =
  dr_Href :: string
  dr_Propstats :: "(string \<times> dav_property) list"

text \<open>\<open>davEntry\<close> embeds a \<open>vfs.Entry\<close>.\<close>

record dav_entry =
  de_Entry :: entry
  de_hrefPath :: string

record ('s, 'd) dav_lib =
  dl_Do :: "ctx \<Rightarrow> http_request \<Rightarrow> 's \<Rightarrow> (err + 'd http_response) \<times> 's"
  dl_ReadBody :: "'d \<Rightarrow> 's \<Rightarrow> (bytes \<times> err option) \<times> 's"
  dl_CloseBody :: "'d \<Rightarrow> 's \<Rightarrow> err option \<times> 's"
  dl_CloseIdle :: "'s \<Rightarrow> 's"
  dl_NewRequest :: "string \<Rightarrow> dav_url \<Rightarrow> err option"
  dl_URLString :: "dav_url \<Rightarrow> string"
  dl_Multistatus :: "bytes \<Rightarrow> err + dav_response list"
  dl_LockHref :: "bytes \<Rightarrow> err + string"
  dl_MediaType :: "string \<Rightarrow> err + string"
  dl_ResolveHref :: "dav_url \<Rightarrow> string \<Rightarrow> err + string"
  dl_ParseTime :: "string \<Rightarrow> err + instant"

record ('s, 'd) dav_config =
  dc_Scheme :: string
  dc_Host :: string
  dc_Port :: "16 word"
  dc_Username :: string
  dc_Password :: string
  dc_Root :: string
  dc_HTTPClient :: "('s, 'd) dav_lib option"
  dc_InsecureSkipTLSVerify :: bool

record ('s, 'd) dav_backend =
  db_client :: "('s, 'd) dav_lib"
  db_baseURL :: dav_url
  db_username :: string
  db_password :: string

record put_handle =
  ph_resource :: dav_url
  ph_path :: string
  ph_append :: bool
  ph_dirty :: bool
  ph_closed :: bool

record 's dav_world =
  dw_server :: 's
  dw_fs :: lfs
  dw_handles :: "put_handle list"
  dw_tempdir :: string
  dw_rnd :: string
  dw_now :: instant

text \<open>Bytes and characters; header lookups (\<open>Get\<close> is the first value, \<open>Values\<close> all of them).\<close>

definition bytes_of :: "string \<Rightarrow> bytes" where
  "bytes_of s = map (\<lambda>c. word_of_nat (of_char c)) s"

definition string_of :: "bytes \<Rightarrow> string" where
  "string_of b = map (\<lambda>x. char_of (unat x)) b"

definition header_values :: "(string \<times> string) list \<Rightarrow> string \<Rightarrow> string list" where
  "header_values h k = map snd (filter (\<lambda>(k', v). k' = k) h)"

definition header_get :: "(string \<times> string) list \<Rightarrow> string \<Rightarrow> string" where
  "header_get h k = (case header_values h k of [] \<Rightarrow> '''' | v # _ \<Rightarrow> v)"

definition strings_Trim :: "string \<Rightarrow> char list \<Rightarrow> string" where
  "strings_Trim s cs = rev (dropWhile (\<lambda>c. c \<in> set cs) (rev (dropWhile (\<lambda>c. c \<in> set cs) s)))"

definition JoinHostPort :: "string \<Rightarrow> string \<Rightarrow> string" where
  "JoinHostPort host port =
     (if CHR '':'' \<in> set host then ''['' @ host @ '']:'' @ port else host @ '':'' @ port)"

definition newline :: string where "newline = [CHR 0x0A]"

definition propfindBody :: string where
  "propfindBody = strings_Join
     [''<?xml version=\"1.0\" encoding=\"utf-8\"?>'', ''<d:propfind xmlns:d=\"DAV:\">'', ''  <d:prop>'',
      ''    <d:resourcetype/>'', ''    <d:getcontentlength/>'', ''    <d:getlastmodified/>'', ''  </d:prop>'',
      ''</d:propfind>''] newline"

definition lockBody :: string where
  "lockBody = strings_Join
     [''<?xml version=\"1.0\" encoding=\"utf-8\"?>'', ''<d:lockinfo xmlns:d=\"DAV:\">'',
      ''  <d:lockscope><d:exclusive/></d:lockscope>'', ''  <d:locktype><d:write/></d:locktype>'',
      ''  <d:owner><d:href>DK-Drive</d:href></d:owner>'', ''</d:lockinfo>''] newline"

definition dav_validateConfig :: "('s, 'd) dav_config \<Rightarrow> err option" where
  "dav_validateConfig c =
     (if dc_Scheme c \<noteq> ''http'' \<and> dc_Scheme c \<noteq> ''https'' then Some (ErrNew ''scheme must be http or https'')
      else if TrimSpace (dc_Host c) = '''' then Some (ErrNew ''host required'')
      else if dc_Port c = 0 then Some (ErrNew ''port must be at least 1'')
      else if TrimSpace (dc_Username c) = '''' then Some (ErrNew ''user required'')
      else if dc_Password c = '''' then Some (ErrNew ''password required'')
      else None)"

definition resourceURL :: "('s, 'd) dav_backend \<Rightarrow> string \<Rightarrow> err + dav_url" where
  "resourceURL B name =
     (case webdav_resourcePath (du_Path (db_baseURL B)) name of
        Inl e \<Rightarrow> Inl e | Inr p \<Rightarrow> Inr ((db_baseURL B)\<lparr>du_Path := p\<rparr>))"

definition newRequest ::
  "('s, 'd) dav_backend \<Rightarrow> string \<Rightarrow> dav_url \<Rightarrow> (string \<times> string) list \<Rightarrow> bytes \<Rightarrow> err + http_request" where
  "newRequest B method resource headers body =
     (case dl_NewRequest (db_client B) method resource of
        Some e \<Rightarrow> Inl e
      | None \<Rightarrow> Inr \<lparr>hq_Method = method, hq_URL = resource, hq_Auth = (db_username B, db_password B),
                      hq_Headers = (''User-Agent'', ''DK-Drive/0.3'') # headers, hq_Body = body\<rparr>)"

text \<open>One call of the client on the server.\<close>

definition on_server :: "('s \<Rightarrow> 'a \<times> 's) \<Rightarrow> 's dav_world \<Rightarrow> 'a \<times> 's dav_world" where
  "on_server f w = (case f (dw_server w) of (r, s) \<Rightarrow> (r, w\<lparr>dw_server := s\<rparr>))"

text \<open>The deferred \<open>response.Body.Close()\<close>, whose error is dropped.\<close>

definition closing :: "('s, 'd) dav_backend \<Rightarrow> 'd http_response \<Rightarrow> 'a \<times> 's dav_world \<Rightarrow> 'a \<times> 's dav_world" where
  "closing B resp rw = (fst rw, snd (on_server (dl_CloseBody (db_client B) (hr_Body resp)) (snd rw)))"

subsection \<open>Responses that are not a success\<close>

definition responseBodyIsHTML :: "('s, 'd) dav_lib \<Rightarrow> string \<Rightarrow> string \<Rightarrow> bool" where
  "responseBodyIsHTML L contentType body =
     ((case dl_MediaType L contentType of
         Inr m \<Rightarrow> m = ''text/html'' \<or> m = ''application/xhtml+xml'' | Inl _ \<Rightarrow> False) \<or>
      (let lower = ToLower (TrimSpace body)
       in HasPrefix lower ''<!doctype html'' \<or> HasPrefix lower ''<html''))"

definition status_error :: "int \<Rightarrow> string \<Rightarrow> err" where
  "status_error code message =
     (if code = 404 then Wrapped message (Sentinel ErrNotExist)
      else if code = 401 \<or> code = 403 \<or> code = 423 then Wrapped message (Sentinel ErrPermission)
      else if code = 405 \<or> code = 501 then Wrapped message (Sentinel ErrUnsupported)
      else ErrNew message)"

definition responseError ::
  "('s, 'd) dav_backend \<Rightarrow> string \<Rightarrow> 'd http_response \<Rightarrow> 's dav_world \<Rightarrow> err \<times> 's dav_world" where
  "responseError B method resp w =
     (case on_server (dl_ReadBody (db_client B) (hr_Body resp)) w of
        ((body, _), w1) \<Rightarrow>
          let detail = TrimSpace (string_of (take 4096 body));
              detail = (if responseBodyIsHTML (db_client B) (header_get (hr_Header resp) ''Content-Type'') detail then '''' else detail);
              message = ''WebDAV '' @ method @ '' response: '' @ hr_Status resp;
              message = (if detail \<noteq> '''' then message @ '': '' @ detail else message)
          in (status_error (hr_StatusCode resp) message, w1))"

definition unsupported :: "string \<Rightarrow> err" where
  "unsupported operation = Wrapped (''WebDAV '' @ operation) (Sentinel ErrUnsupported)"

definition dav_do ::
  "('s, 'd) dav_backend \<Rightarrow> ctx \<Rightarrow> http_request \<Rightarrow> int list \<Rightarrow> 's dav_world \<Rightarrow> err option \<times> 's dav_world" where
  "dav_do B x request statuses w =
     (case on_server (dl_Do (db_client B) x request) w of
        (Inl e, w1) \<Rightarrow> (Some (Wrapped (''WebDAV '' @ hq_Method request @ '' request'') e), w1)
      | (Inr resp, w1) \<Rightarrow>
          closing B resp
            (if hr_StatusCode resp \<in> set statuses then (None, w1)
             else map_prod Some id (responseError B (hq_Method request) resp w1)))"

definition dav_execute ::
  "('s, 'd) dav_backend \<Rightarrow> ctx \<Rightarrow> string \<Rightarrow> dav_url \<Rightarrow> (string \<times> string) list \<Rightarrow> bytes \<Rightarrow> int list
     \<Rightarrow> 's dav_world \<Rightarrow> err option \<times> 's dav_world" where
  "dav_execute B x method resource headers body statuses w =
     (case newRequest B method resource headers body of
        Inl e \<Rightarrow> (Some (Wrapped (''WebDAV '' @ method @ '' request'') e), w)
      | Inr request \<Rightarrow> dav_do B x request statuses w)"

subsection \<open>Properties of resources\<close>

definition entryFromResponse :: "('s, 'd) dav_lib \<Rightarrow> dav_url \<Rightarrow> dav_response \<Rightarrow> err + dav_entry" where
  "entryFromResponse L resource response =
     (case filter (\<lambda>(status, prop). Contains status '' 200 '') (dr_Propstats response) of
        [] \<Rightarrow> Inl (ErrNew ''no successful propstat'')
      | (_, prop) # _ \<Rightarrow>
          (case dl_ResolveHref L resource (dr_Href response) of
             Inl e \<Rightarrow> Inl (Wrapped ''WebDAV response path'' e)
           | Inr href \<Rightarrow>
               let hrefPath = path_Clean href;
                   name = path_Base (TrimSuffix hrefPath ''/'');
                   mode = (if dp_Collection prop then ModeDir OR 0x1ED else 0x1A4)
               in (case (if dp_ContentLength prop = '''' then Inr 0 else ParseInt64 (TrimSpace (dp_ContentLength prop))) of
                     Inl e \<Rightarrow> Inl (Wrapped ''WebDAV file size'' e)
                   | Inr n \<Rightarrow>
                       (case (if dp_LastModified prop = '''' then Inr 0 else dl_ParseTime L (TrimSpace (dp_LastModified prop))) of
                          Inl e \<Rightarrow> Inl (Wrapped ''WebDAV modification time'' e)
                        | Inr t \<Rightarrow> Inr \<lparr>de_Entry = \<lparr>e_Name = name, e_Size = n, e_Mode = mode, e_ModTime = t\<rparr>,
                                         de_hrefPath = hrefPath\<rparr>))))"

fun entries_of :: "('s, 'd) dav_lib \<Rightarrow> dav_url \<Rightarrow> dav_response list \<Rightarrow> err + dav_entry list" where
  "entries_of L resource [] = Inr []"
| "entries_of L resource (item # items) =
     (case entryFromResponse L resource item of
        Inl e \<Rightarrow> Inl e
      | Inr e \<Rightarrow> (case entries_of L resource items of Inl er \<Rightarrow> Inl er | Inr es \<Rightarrow> Inr (e # es)))"

definition requestProperties ::
  "('s, 'd) dav_backend \<Rightarrow> ctx \<Rightarrow> dav_url \<Rightarrow> string \<Rightarrow> 's dav_world \<Rightarrow> (err + dav_entry list) \<times> 's dav_world" where
  "requestProperties B x resource depth w =
     (case newRequest B ''PROPFIND'' resource
             [(''Depth'', depth), (''Content-Type'', ''application/xml; charset=utf-8'')] (bytes_of propfindBody) of
        Inl e \<Rightarrow> (Inl (Wrapped ''WebDAV PROPFIND request'' e), w)
      | Inr request \<Rightarrow>
          (case on_server (dl_Do (db_client B) x request) w of
             (Inl e, w1) \<Rightarrow> (Inl (Wrapped ''WebDAV PROPFIND request'' e), w1)
           | (Inr resp, w1) \<Rightarrow>
               closing B resp
                 (if hr_StatusCode resp \<noteq> 207 then map_prod Inl id (responseError B ''PROPFIND'' resp w1)
                  else case on_server (dl_ReadBody (db_client B) (hr_Body resp)) w1 of
                         ((body, Some e), w2) \<Rightarrow> (Inl (Wrapped ''WebDAV PROPFIND response'' e), w2)
                       | ((body, None), w2) \<Rightarrow>
                           (case dl_Multistatus (db_client B) body of
                              Inl e \<Rightarrow> (Inl (Wrapped ''WebDAV PROPFIND response'' e), w2)
                            | Inr items \<Rightarrow> (entries_of (db_client B) resource items, w2)))))"

definition propfind ::
  "('s, 'd) dav_backend \<Rightarrow> ctx \<Rightarrow> string \<Rightarrow> string \<Rightarrow> 's dav_world \<Rightarrow> (err + entry list) \<times> 's dav_world" where
  "propfind B x name depth w =
     (case resourceURL B name of
        Inl e \<Rightarrow> (Inl e, w)
      | Inr resource \<Rightarrow>
          (case requestProperties B x resource depth w of
             (Inl e, w1) \<Rightarrow> (Inl e, w1) | (Inr items, w1) \<Rightarrow> (Inr (map de_Entry items), w1)))"

definition dav_Stat ::
  "('s, 'd) dav_backend \<Rightarrow> ctx \<Rightarrow> string \<Rightarrow> 's dav_world \<Rightarrow> (err + entry) \<times> 's dav_world" where
  "dav_Stat B x name w =
     (case propfind B x name ''0'' w of
        (Inl e, w1) \<Rightarrow> (Inl e, w1)
      | (Inr [en], w1) \<Rightarrow> (Inr en, w1)
      | (Inr _, w1) \<Rightarrow> (Inl (ErrNew ''PROPFIND returned another number of entries''), w1))"

definition dav_ReadDir ::
  "('s, 'd) dav_backend \<Rightarrow> ctx \<Rightarrow> string \<Rightarrow> 's dav_world \<Rightarrow> (err + entry list) \<times> 's dav_world" where
  "dav_ReadDir B x name w =
     (case resourceURL B name of
        Inl e \<Rightarrow> (Inl e, w)
      | Inr resource \<Rightarrow>
          (case requestProperties B x resource ''1'' w of
             (Inl e, w1) \<Rightarrow> (Inl e, w1)
           | (Inr items, w1) \<Rightarrow>
               (Inr (map de_Entry (filter (\<lambda>i. path_Clean (de_hrefPath i) \<noteq> path_Clean (du_Path resource)) items)), w1)))"

text \<open>\<open>New\<close>; \<open>env\<close> gives the default client, with or without certificate verification.\<close>

definition dav_New ::
  "(bool \<Rightarrow> ('s, 'd) dav_lib) \<Rightarrow> ('s, 'd) dav_config \<Rightarrow> ctx \<Rightarrow> 's dav_world \<Rightarrow> (err + ('s, 'd) dav_backend) \<times> 's dav_world" where
  "dav_New env config x w =
     (case dav_validateConfig config of
        Some e \<Rightarrow> (Inl e, w)
      | None \<Rightarrow>
          let client = (case dc_HTTPClient config of Some c \<Rightarrow> c | None \<Rightarrow> env (dc_InsecureSkipTLSVerify config));
              B = \<lparr>db_client = client,
                   db_baseURL = \<lparr>du_Scheme = ToLower (dc_Scheme config),
                                 du_Host = JoinHostPort (dc_Host config) (itoa (unat (dc_Port config))),
                                 du_Path = webdav_normalizeRoot (dc_Root config)\<rparr>,
                   db_username = dc_Username config, db_password = dc_Password config\<rparr>
          in (case propfind B x ''.'' ''0'' w of
                (Inl e, w1) \<Rightarrow> (Inl (Wrapped ''WebDAV start path'' e), w1)
              | (Inr entries, w1) \<Rightarrow>
                  if length entries \<noteq> 1 \<or> \<not> entry_IsDir (hd entries)
                  then (Inl (ErrNew ''WebDAV start path is not a folder''), w1)
                  else (Inr B, w1)))"


subsection \<open>Capabilities and locks\<close>

record capabilities =
  cap_DAVClasses :: "string list"
  cap_Methods :: "string set"

definition header_items :: "'d http_response \<Rightarrow> string \<Rightarrow> string list" where
  "header_items resp k =
     filter (\<lambda>i. i \<noteq> '''') (map TrimSpace (concat (map (\<lambda>v. Split v CHR '','') (header_values (hr_Header resp) k))))"

definition Capabilities ::
  "('s, 'd) dav_backend \<Rightarrow> ctx \<Rightarrow> 's dav_world \<Rightarrow> (err + capabilities) \<times> 's dav_world" where
  "Capabilities B x w =
     (case newRequest B ''OPTIONS'' (db_baseURL B) [] [] of
        Inl e \<Rightarrow> (Inl (Wrapped ''WebDAV OPTIONS request'' e), w)
      | Inr request \<Rightarrow>
          (case on_server (dl_Do (db_client B) x request) w of
             (Inl e, w1) \<Rightarrow> (Inl (Wrapped ''WebDAV OPTIONS request'' e), w1)
           | (Inr resp, w1) \<Rightarrow>
               closing B resp
                 (if hr_StatusCode resp < 200 \<or> hr_StatusCode resp \<ge> 300
                  then map_prod Inl id (responseError B ''OPTIONS'' resp w1)
                  else (Inr \<lparr>cap_DAVClasses = header_items resp ''DAV'',
                             cap_Methods = set (map ToUpper (header_items resp ''Allow''))\<rparr>, w1))))"

definition normalizeLockToken :: "string \<Rightarrow> string" where
  "normalizeLockToken token = TrimSpace (strings_Trim (TrimSpace token) ''<>'')"

definition dav_Lock ::
  "('s, 'd) dav_backend \<Rightarrow> ctx \<Rightarrow> string \<Rightarrow> duration \<Rightarrow> 's dav_world \<Rightarrow> (err + string) \<times> 's dav_world" where
  "dav_Lock B x name timeout w =
     (case resourceURL B name of
        Inl e \<Rightarrow> (Inl e, w)
      | Inr resource \<Rightarrow>
          let seconds = (if timeout div second < 1 then 60 else timeout div second)
          in (case newRequest B ''LOCK'' resource
                     [(''Content-Type'', ''application/xml; charset=utf-8''), (''Depth'', ''0''),
                      (''Timeout'', ''Second-'' @ itoa (nat seconds))] (bytes_of lockBody) of
                Inl e \<Rightarrow> (Inl (Wrapped ''WebDAV LOCK request'' e), w)
              | Inr request \<Rightarrow>
                  (case on_server (dl_Do (db_client B) x request) w of
                     (Inl e, w1) \<Rightarrow> (Inl (Wrapped ''WebDAV LOCK request'' e), w1)
                   | (Inr resp, w1) \<Rightarrow>
                       closing B resp
                         (if hr_StatusCode resp \<noteq> 200 \<and> hr_StatusCode resp \<noteq> 201
                          then map_prod Inl id (responseError B ''LOCK'' resp w1)
                          else
                            let token = normalizeLockToken (header_get (hr_Header resp) ''Lock-Token'');
                                finish = (\<lambda>token. if token = '''' then Inl (ErrNew ''no lock token'') else Inr token)
                            in if token \<noteq> '''' then (finish token, w1)
                               else (case on_server (dl_ReadBody (db_client B) (hr_Body resp)) w1 of
                                       ((body, Some e), w2) \<Rightarrow> (Inl (Wrapped ''WebDAV LOCK response'' e), w2)
                                     | ((body, None), w2) \<Rightarrow>
                                         (case dl_LockHref (db_client B) body of
                                            Inl e \<Rightarrow> (Inl (Wrapped ''WebDAV LOCK response'' e), w2)
                                          | Inr href \<Rightarrow> (finish (normalizeLockToken href), w2)))))))"

definition dav_Unlock ::
  "('s, 'd) dav_backend \<Rightarrow> ctx \<Rightarrow> string \<Rightarrow> string \<Rightarrow> 's dav_world \<Rightarrow> err option \<times> 's dav_world" where
  "dav_Unlock B x name token w =
     (case resourceURL B name of
        Inl e \<Rightarrow> (Some e, w)
      | Inr resource \<Rightarrow>
          let token = normalizeLockToken token
          in if token = '''' then (Some (ErrNew ''lock token required''), w)
             else (case newRequest B ''UNLOCK'' resource [(''Lock-Token'', ''<'' @ token @ ''>'')] [] of
                     Inl e \<Rightarrow> (Some (Wrapped ''WebDAV UNLOCK request'' e), w)
                   | Inr request \<Rightarrow> dav_do B x request [200, 204] w))"

subsection \<open>Reading and mutations\<close>

definition dav_OpenRead ::
  "('s, 'd) dav_backend \<Rightarrow> ctx \<Rightarrow> string \<Rightarrow> 's dav_world \<Rightarrow> (err + 'd) \<times> 's dav_world" where
  "dav_OpenRead B x name w =
     (case resourceURL B name of
        Inl e \<Rightarrow> (Inl e, w)
      | Inr resource \<Rightarrow>
          (case newRequest B ''GET'' resource [] [] of
             Inl e \<Rightarrow> (Inl (Wrapped ''WebDAV GET request'' e), w)
           | Inr request \<Rightarrow>
               (case on_server (dl_Do (db_client B) x request) w of
                  (Inl e, w1) \<Rightarrow> (Inl (Wrapped ''WebDAV GET request'' e), w1)
                | (Inr resp, w1) \<Rightarrow>
                    if hr_StatusCode resp < 200 \<or> hr_StatusCode resp \<ge> 300
                    then closing B resp (map_prod Inl id (responseError B ''GET'' resp w1))
                    else (Inr (hr_Body resp), w1))))"

definition dav_Mkdir where
  "dav_Mkdir B x name w =
     (case resourceURL B name of
        Inl e \<Rightarrow> (Some e, w) | Inr resource \<Rightarrow> dav_execute B x ''MKCOL'' resource [] [] [201] w)"

definition dav_Remove :: "('s, 'd) dav_backend \<Rightarrow> ctx \<Rightarrow> string \<Rightarrow> bool \<Rightarrow> 's dav_world \<Rightarrow> err option \<times> 's dav_world" where
  "dav_Remove B x name directory w =
     (case resourceURL B name of
        Inl e \<Rightarrow> (Some e, w) | Inr resource \<Rightarrow> dav_execute B x ''DELETE'' resource [] [] [200, 204] w)"

definition dav_Rename where
  "dav_Rename B x oldName newName w =
     (case resourceURL B oldName of
        Inl e \<Rightarrow> (Some e, w)
      | Inr source \<Rightarrow>
          (case resourceURL B newName of
             Inl e \<Rightarrow> (Some e, w)
           | Inr destination \<Rightarrow>
               dav_execute B x ''MOVE'' source
                 [(''Destination'', dl_URLString (db_client B) destination), (''Overwrite'', ''F'')] [] [201, 204] w))"

definition dav_SetModTime :: "ctx \<Rightarrow> string \<Rightarrow> instant \<Rightarrow> 'w \<Rightarrow> err option \<times> 'w" where
  "dav_SetModTime x name t w = (Some (unsupported ''set time''), w)"

definition dav_SetReadOnly :: "ctx \<Rightarrow> string \<Rightarrow> bool \<Rightarrow> 'w \<Rightarrow> err option \<times> 'w" where
  "dav_SetReadOnly x name ro w = (Some (unsupported ''set read-only''), w)"

definition dav_Close :: "('s, 'd) dav_backend \<Rightarrow> 's dav_world \<Rightarrow> err option \<times> 's dav_world" where
  "dav_Close B w = (None, w\<lparr>dw_server := dl_CloseIdle (db_client B) (dw_server w)\<rparr>)"

subsection \<open>Writing through a temporary file\<close>

definition dav_fs :: "(lfs \<Rightarrow> 'a \<times> lfs) \<Rightarrow> 's dav_world \<Rightarrow> 'a \<times> 's dav_world" where
  "dav_fs f w = (case f (dw_fs w) of (r, fs) \<Rightarrow> (r, w\<lparr>dw_fs := fs\<rparr>))"

definition new_put :: "put_handle \<Rightarrow> 's dav_world \<Rightarrow> (err + nat) \<times> 's dav_world" where
  "new_put h w = (Inr (length (dw_handles w)), w\<lparr>dw_handles := dw_handles w @ [h]\<rparr>)"

definition upd_put :: "nat \<Rightarrow> (put_handle \<Rightarrow> put_handle) \<Rightarrow> 's dav_world \<Rightarrow> 's dav_world" where
  "upd_put i f w = w\<lparr>dw_handles := (dw_handles w)[i := f (dw_handles w ! i)]\<rparr>"

definition dav_drop_temp :: "string \<Rightarrow> 's dav_world \<Rightarrow> 's dav_world" where
  "dav_drop_temp p w = w\<lparr>dw_fs := snd (os_Remove p (dw_fs w))\<rparr>"

definition dav_OpenWrite ::
  "('s, 'd) dav_backend \<Rightarrow> ctx \<Rightarrow> string \<Rightarrow> write_options \<Rightarrow> 's dav_world \<Rightarrow> (err + nat) \<times> 's dav_world" where
  "dav_OpenWrite B x name opt w =
     (case resourceURL B name of
        Inl e \<Rightarrow> (Inl e, w)
      | Inr resource \<Rightarrow>
     (case dav_fs (os_CreateTemp (dw_tempdir w) ''dkdrive-webdav-'' '''' (dw_rnd w) (dw_now w)) w of
        (Inl e, w1) \<Rightarrow> (Inl (Wrapped ''WebDAV temporary file'' e), w1)
      | (Inr tmp, w1) \<Rightarrow>
          let h = \<lparr>ph_resource = resource, ph_path = tmp, ph_append = wo_Append opt, ph_dirty = wo_Truncate opt, ph_closed = False\<rparr>
          in if \<not> wo_Truncate opt
             then (case dav_OpenRead B x name w1 of
                     (Inr d, w2) \<Rightarrow>
                       (case on_server (dl_ReadBody (db_client B) d) w2 of
                          ((data, readErr), w2) \<Rightarrow>
                            (case dav_fs (file_WriteAt tmp data 0 (dw_now w2)) w2 of
                               ((n, writeErr), w3) \<Rightarrow>
                                 (case on_server (dl_CloseBody (db_client B) d) w3 of
                                    (closeErr, w4) \<Rightarrow>
                                      (case errors_Join [if writeErr \<noteq> None then writeErr else readErr, closeErr] of
                                         Some e \<Rightarrow> (Inl (Wrapped ''WebDAV existing file'' e), dav_drop_temp tmp w4)
                                       | None \<Rightarrow> new_put h w4))))
                   | (Inl e, w2) \<Rightarrow>
                       if \<not> wo_Create opt \<or> \<not> errors_Is e ErrNotExist then (Inl e, dav_drop_temp tmp w2)
                       else new_put (h\<lparr>ph_dirty := True\<rparr>) w2)
             else if \<not> wo_Create opt
             then (case dav_Stat B x name w1 of
                     (Inl e, w2) \<Rightarrow> (Inl e, dav_drop_temp tmp w2)
                   | (Inr _, w2) \<Rightarrow> new_put h w2)
             else new_put h w1))"

definition put_WriteAt ::
  "nat \<Rightarrow> bytes \<Rightarrow> int \<Rightarrow> 's dav_world \<Rightarrow> (nat \<times> err option) \<times> 's dav_world" where
  "put_WriteAt i data offset w =
     (let h = dw_handles w ! i
      in if ph_closed h then ((0, Some (Sentinel ErrClosed)), w)
         else case (if ph_append h then file_Size (ph_path h) (dw_fs w)
                    else if offset < 0 then Inl (PathErr ErrInvalid) else Inr (nat offset)) of
                Inl e \<Rightarrow> ((0, Some e), w)
              | Inr off \<Rightarrow>
                  (case dav_fs (file_WriteAt (ph_path h) data off (dw_now w)) w of
                     ((written, e), w1) \<Rightarrow>
                       ((written, e), if written > 0 then upd_put i (\<lambda>h. h\<lparr>ph_dirty := True\<rparr>) w1 else w1)))"

definition put_syncLocked ::
  "('s, 'd) dav_backend \<Rightarrow> nat \<Rightarrow> 's dav_world \<Rightarrow> err option \<times> 's dav_world" where
  "put_syncLocked B i w =
     (let h = dw_handles w ! i
      in if ph_closed h then (Some (Sentinel ErrClosed), w)
         else case dav_fs (file_Sync (ph_path h)) w of
                (Some e, w1) \<Rightarrow> (Some e, w1)
              | (None, w1) \<Rightarrow>
                  if \<not> ph_dirty h then (None, w1)
                  else (case file_Size (ph_path h) (dw_fs w1) of
                          Inl e \<Rightarrow> (Some e, w1)
                        | Inr n \<Rightarrow>
                            (case newRequest B ''PUT'' (ph_resource h) []
                                    (case fs_get (dw_fs w1) (ph_path h) of Some (Reg d t s) \<Rightarrow> take n d | _ \<Rightarrow> []) of
                               Inl e \<Rightarrow> (Some (Wrapped ''WebDAV PUT request'' e), w1)
                             | Inr request \<Rightarrow>
                                 (case dav_do B None request [200, 201, 204] w1 of
                                    (Some e, w2) \<Rightarrow> (Some e, w2)
                                  | (None, w2) \<Rightarrow> (None, upd_put i (\<lambda>h. h\<lparr>ph_dirty := False\<rparr>) w2)))))"

definition put_Sync where
  "put_Sync B i w = put_syncLocked B i w"

definition put_Close :: "('s, 'd) dav_backend \<Rightarrow> nat \<Rightarrow> 's dav_world \<Rightarrow> err option \<times> 's dav_world" where
  "put_Close B i w =
     (let h = dw_handles w ! i
      in if ph_closed h then (Some (Sentinel ErrClosed), w)
         else case put_syncLocked B i w of
                (syncErr, w1) \<Rightarrow>
                  let w2 = upd_put i (\<lambda>h. h\<lparr>ph_closed := True\<rparr>) w1;
                      closeErr = file_Close (ph_path h) (dw_fs w2)
                  in (case dav_fs (os_Remove (ph_path h)) w2 of
                        (removeErr, w3) \<Rightarrow> (errors_Join [syncErr, closeErr, removeErr], w3)))"

definition dav_backend_ops :: "('s, 'd) dav_backend \<Rightarrow> ('s dav_world, 'd, nat) backend" where
  "dav_backend_ops B = \<lparr>
     b_Stat = dav_Stat B, b_ReadDir = dav_ReadDir B, b_OpenRead = dav_OpenRead B, b_OpenWrite = dav_OpenWrite B,
     b_Mkdir = dav_Mkdir B, b_Remove = dav_Remove B, b_Rename = dav_Rename B, b_SetModTime = dav_SetModTime,
     b_SetReadOnly = dav_SetReadOnly, b_Close = dav_Close B,
     r_ReadAll = (\<lambda>d. on_server (dl_ReadBody (db_client B) d)), r_Close = (\<lambda>d. on_server (dl_CloseBody (db_client B) d)),
     h_WriteAt = put_WriteAt, h_Sync = put_Sync B, h_Close = put_Close B\<rparr>"

end
