(* ===== verification/Webdav_Facts.thy ===== *)
theory Webdav_Facts
  imports Webdav_Backend Vfs_Writer
begin

text \<open>
  What the WebDAV backend promises: its write handle fulfils the writer contract, every response body is
  closed, and a failing status becomes the error its callers test for.
\<close>

subsection \<open>The write handle fulfils the contract\<close>

definition dav_staged :: "'s dav_world \<Rightarrow> nat \<Rightarrow> bytes \<Rightarrow> bool" where
  "dav_staged w i c \<longleftrightarrow> i < length (dw_handles w) \<and> \<not> ph_closed (dw_handles w ! i) \<and> \<not> ph_append (dw_handles w ! i) \<and>
     (\<exists>t s. fs_get (dw_fs w) (ph_path (dw_handles w ! i)) = Some (Reg c t s))"

definition dav_pending :: "'s dav_world \<Rightarrow> nat \<Rightarrow> bool" where
  "dav_pending w i \<longleftrightarrow> ph_dirty (dw_handles w ! i)"

definition dav_target :: "'s dav_world \<Rightarrow> nat \<Rightarrow> string" where
  "dav_target w i = du_Path (ph_resource (dw_handles w ! i))"

text \<open>The server answered a PUT of exactly these bytes with success; only the answer's body was closed since.\<close>

definition dav_acked ::
  "('s, 'd) dav_backend \<Rightarrow> 's dav_world \<Rightarrow> string \<Rightarrow> bytes \<Rightarrow> 's dav_world \<Rightarrow> bool" where
  "dav_acked B w p c w' \<longleftrightarrow> (\<exists>x req resp s1 s2.
     hq_Method req = ''PUT'' \<and> du_Path (hq_URL req) = p \<and> hq_Body req = c \<and>
     dl_Do (db_client B) x req s1 = (Inr resp, s2) \<and> hr_StatusCode resp \<in> {200, 201, 204} \<and>
     dw_server w' = snd (dl_CloseBody (db_client B) (hr_Body resp) s2))"

definition dav_quiet :: "'s dav_world \<Rightarrow> 's dav_world \<Rightarrow> bool" where
  "dav_quiet w w' \<longleftrightarrow> dw_server w' = dw_server w"

lemma dav_ackedI:
  "hq_Method req = ''PUT'' \<Longrightarrow> du_Path (hq_URL req) = p \<Longrightarrow> hq_Body req = c \<Longrightarrow>
   dl_Do (db_client B) x req s1 = (Inr resp, s2) \<Longrightarrow> hr_StatusCode resp \<in> {200, 201, 204} \<Longrightarrow>
   dw_server w' = snd (dl_CloseBody (db_client B) (hr_Body resp) s2) \<Longrightarrow> dav_acked B w p c w'"
  unfolding dav_acked_def by blast

lemma on_server_keeps:
  "on_server f w = (r, w') \<Longrightarrow> dw_fs w' = dw_fs w \<and> dw_handles w' = dw_handles w \<and> f (dw_server w) = (r, dw_server w')"
  by (auto simp: on_server_def split: prod.splits)

lemma responseError_keeps:
  "responseError B m resp w = (e, w') \<Longrightarrow> dw_fs w' = dw_fs w \<and> dw_handles w' = dw_handles w"
  by (auto simp: responseError_def Let_def dest!: on_server_keeps split: prod.splits)

lemma closing_eq: "closing B resp rw = (r, w') \<Longrightarrow>
    r = fst rw \<and> on_server (dl_CloseBody (db_client B) (hr_Body resp)) (snd rw) = (fst (on_server (dl_CloseBody (db_client B) (hr_Body resp)) (snd rw)), w')"
  by (auto simp: closing_def)

lemma do_keeps:
  assumes "dav_do B x req sts w = (r, w')"
  shows "dw_fs w' = dw_fs w \<and> dw_handles w' = dw_handles w \<and>
    (r = None \<longrightarrow> (\<exists>resp s2. dl_Do (db_client B) x req (dw_server w) = (Inr resp, s2) \<and> hr_StatusCode resp \<in> set sts \<and>
       dw_server w' = snd (dl_CloseBody (db_client B) (hr_Body resp) s2)))"
proof -
  obtain a w1 where d: "on_server (dl_Do (db_client B) x req) w = (a, w1)" by force
  note k = on_server_keeps [OF d]
  show ?thesis
  proof (cases a)
    case (Inl e)
    with assms d k show ?thesis by (auto simp: dav_do_def)
  next
    case (Inr resp)
    show ?thesis
    proof (cases "hr_StatusCode resp \<in> set sts")
      case True
      with assms d Inr have cl: "closing B resp (None, w1) = (r, w')" by (simp add: dav_do_def)
      from closing_eq [OF cl] have "r = None" "on_server (dl_CloseBody (db_client B) (hr_Body resp)) w1 =
        (fst (on_server (dl_CloseBody (db_client B) (hr_Body resp)) w1), w')" by simp_all
      with on_server_keeps [OF this(2)] k Inr True show ?thesis by (metis snd_conv)
    next
      case False
      obtain e w2 where re: "responseError B (hq_Method req) resp w1 = (e, w2)" by force
      with assms d Inr False have cl: "closing B resp (Some e, w2) = (r, w')" by (simp add: dav_do_def)
      from closing_eq [OF cl] have "r \<noteq> None" "on_server (dl_CloseBody (db_client B) (hr_Body resp)) w2 =
        (fst (on_server (dl_CloseBody (db_client B) (hr_Body resp)) w2), w')" by simp_all
      with on_server_keeps [OF this(2)] k responseError_keeps [OF re] show ?thesis by auto
    qed
  qed
qed

lemma put_sync_spec:
  assumes "put_syncLocked B i w = (r, w')" and "dav_staged w i c"
  shows "dw_handles w' = (dw_handles w)[i := (dw_handles w ! i)\<lparr>ph_dirty := ph_dirty (dw_handles w ! i) \<and> r \<noteq> None\<rparr>] \<and>
    (\<exists>t s. fs_get (dw_fs w') (ph_path (dw_handles w ! i)) = Some (Reg c t s)) \<and>
    (\<not> ph_dirty (dw_handles w ! i) \<longrightarrow> dw_server w' = dw_server w) \<and>
    (ph_dirty (dw_handles w ! i) \<longrightarrow> r = None \<longrightarrow> dav_acked B w (du_Path (ph_resource (dw_handles w ! i))) c w')"
proof -
  let ?h = "dw_handles w ! i"
  from assms(2) obtain t s where i: "i < length (dw_handles w)" "\<not> ph_closed ?h"
    and f: "fs_get (dw_fs w) (ph_path ?h) = Some (Reg c t s)" by (auto simp: dav_staged_def)
  obtain se fs1 where sy: "file_Sync (ph_path ?h) (dw_fs w) = (se, fs1)" by force
  have f1: "\<exists>t s. fs_get fs1 (ph_path ?h) = Some (Reg c t s)"
    using sy f by (auto simp: file_Sync_def fs_simps split: option.splits)
  have self: "(dw_handles w)[i := ?h\<lparr>ph_dirty := ph_dirty ?h\<rparr>] = dw_handles w" by simp
  have self_clean: "\<not> ph_dirty ?h \<Longrightarrow> (dw_handles w)[i := ?h\<lparr>ph_dirty := False\<rparr>] = dw_handles w"
    and self_dirty: "ph_dirty ?h \<Longrightarrow> (dw_handles w)[i := ?h\<lparr>ph_dirty := True\<rparr>] = dw_handles w"
    using self by (metis (full_types))+
  show ?thesis
  proof (cases "se \<noteq> None \<or> \<not> ph_dirty ?h")
    case True
    with assms(1) i sy have "w' = w\<lparr>dw_fs := fs1\<rparr>" "r = se"
      by (auto simp: put_syncLocked_def dav_fs_def Let_def split: option.splits)
    with True f1 show ?thesis by (cases "ph_dirty ?h") (auto simp: self_clean self_dirty)
  next
    case dirty: False
    show ?thesis
    proof (cases "file_Size (ph_path ?h) fs1")
      case (Inl e)
      with assms(1) i sy dirty have "w' = w\<lparr>dw_fs := fs1\<rparr>" "r = Some e"
        by (auto simp: put_syncLocked_def dav_fs_def Let_def)
      with dirty f1 self_dirty show ?thesis by auto
    next
      case (Inr n)
      with f1 have n: "n = length c" by (auto simp: file_Size_def split: option.splits)
      have body: "(case fs_get fs1 (ph_path ?h) of Some (Reg d t s) \<Rightarrow> take n d | _ \<Rightarrow> []) = c" using f1 n by auto
      show ?thesis
      proof (cases "newRequest B ''PUT'' (ph_resource ?h) [] c")
        case nr: (Inl e)
        with assms(1) i sy dirty Inr body have "w' = w\<lparr>dw_fs := fs1\<rparr>" "r \<noteq> None"
          by (auto simp: put_syncLocked_def dav_fs_def Let_def)
        with dirty f1 self_dirty show ?thesis by auto
      next
        case nr: (Inr req)
        then have rq: "hq_Method req = ''PUT''" "hq_URL req = ph_resource ?h" "hq_Body req = c"
          by (auto simp: newRequest_def split: option.splits)
        obtain de w2 where d: "dav_do B None req [200, 201, 204] (w\<lparr>dw_fs := fs1\<rparr>) = (de, w2)" by force
        note k = do_keeps [OF d]
        show ?thesis
        proof (cases de)
          case (Some e)
          with assms(1) i sy dirty Inr body nr d have "w' = w2" "r = Some e"
            by (auto simp: put_syncLocked_def dav_fs_def Let_def)
          with dirty f1 k self_dirty show ?thesis by auto
        next
          case None
          with assms(1) i sy dirty Inr body nr d have "r = None" "w' = upd_put i (\<lambda>h. h\<lparr>ph_dirty := False\<rparr>) w2"
            by (auto simp: put_syncLocked_def dav_fs_def Let_def)
          moreover have "dav_acked B w (du_Path (ph_resource ?h)) c w2"
            using k None rq dav_ackedI [of req _ _ B None "dw_server w"] by auto
          ultimately show ?thesis using dirty f1 k by (auto simp: upd_put_def dav_acked_def)
        qed
      qed
    qed
  qed
qed

lemma dav_open_fresh:
  assumes "dav_OpenWrite B x n (fresh_write m) w = (r, w')"
  shows "dw_server w' = dw_server w \<and> (\<forall>h. r = Inr h \<longrightarrow> dav_staged w' h [] \<and> dav_pending w' h \<and>
     webdav_resourcePath (du_Path (db_baseURL B)) n = Inr (dav_target w' h))"
  using assms
  by (auto simp: dav_OpenWrite_def fresh_write_def dav_fs_def os_CreateTemp_def new_put_def dav_staged_def resourceURL_def
      dav_pending_def dav_target_def Let_def fs_simps split: sum.splits option.splits if_splits)

lemma dav_write_next:
  assumes "put_WriteAt i d (int (length c)) w = ((k, r), w')" and "dav_staged w i c" and "dav_pending w i"
  shows "dw_server w' = dw_server w \<and> dav_pending w' i \<and> dav_target w' i = dav_target w i \<and>
    (r = None \<longrightarrow> k = length d \<and> dav_staged w' i (c @ d)) \<and> (r \<noteq> None \<longrightarrow> dav_staged w' i c)"
proof -
  from assms(2) obtain t s where i: "i < length (dw_handles w)" "\<not> ph_closed (dw_handles w ! i)" "\<not> ph_append (dw_handles w ! i)"
    and f: "fs_get (dw_fs w) (ph_path (dw_handles w ! i)) = Some (Reg c t s)" by (auto simp: dav_staged_def)
  show ?thesis
  proof (cases "fs_faults (dw_fs w) OpWrite (ph_path (dw_handles w ! i))")
    case (Some e)
    with assms i f show ?thesis
      by (auto simp: put_WriteAt_def dav_fs_def file_WriteAt_def Let_def dav_staged_def dav_pending_def dav_target_def)
  next
    case None
    with assms i f show ?thesis
      by (auto simp: put_WriteAt_def dav_fs_def file_WriteAt_def Let_def dav_staged_def dav_pending_def dav_target_def
          upd_put_def write_at_append fs_simps split: if_splits)
  qed
qed

lemma dav_close_spec:
  assumes "put_Close B i w = (r, w')" and "dav_staged w i c"
  shows "(\<not> dav_pending w i \<longrightarrow> dw_server w' = dw_server w) \<and>
    (r = None \<longrightarrow> dav_pending w i \<longrightarrow> dav_acked B w (dav_target w i) c w')"
proof -
  obtain se w1 where sy: "put_syncLocked B i w = (se, w1)" by force
  note sp = put_sync_spec [OF sy assms(2)]
  have "\<not> ph_closed (dw_handles w ! i)" using assms(2) by (simp add: dav_staged_def)
  with assms(1) sy have "dw_server w' = dw_server w1" "r = None \<longrightarrow> se = None"
    by (auto simp: put_Close_def Let_def dav_fs_def upd_put_def errors_Join_None_iff split: prod.splits)
  with sp show ?thesis by (auto simp: dav_pending_def dav_target_def dav_acked_def)
qed

interpretation dav_writer: staged_writer "dav_backend_ops B" dav_staged dav_pending dav_target
  "webdav_resourcePath (du_Path (db_baseURL B))" "dav_acked B" dav_quiet for B
proof
  fix x n m w h w'
  assume "b_OpenWrite (dav_backend_ops B) x n (fresh_write m) w = (Inr h, w')"
  then show "dav_staged w' h [] \<and> dav_pending w' h \<and>
      webdav_resourcePath (du_Path (db_baseURL B)) n = Inr (dav_target w' h) \<and> dav_quiet w w'"
    using dav_open_fresh [of B x n m w "Inr h" w'] by (simp add: dav_backend_ops_def dav_quiet_def)
next
  fix x n m w e w'
  assume "b_OpenWrite (dav_backend_ops B) x n (fresh_write m) w = (Inl e, w')"
  then show "dav_quiet w w'"
    using dav_open_fresh [of B x n m w "Inl e" w'] by (simp add: dav_backend_ops_def dav_quiet_def)
next
  fix h d c w k r w'
  assume "h_WriteAt (dav_backend_ops B) h d (int (length c)) w = ((k, r), w')" "dav_staged w h c" "dav_pending w h"
  then show "dav_quiet w w' \<and> dav_pending w' h \<and> dav_target w' h = dav_target w h \<and>
       (r = None \<longrightarrow> k = length d \<and> dav_staged w' h (c @ d)) \<and> (r \<noteq> None \<longrightarrow> dav_staged w' h c)"
    using dav_write_next [of h d c w k r w'] by (simp add: dav_backend_ops_def dav_quiet_def)
next
  fix h w w' c
  assume a: "h_Sync (dav_backend_ops B) h w = (None, w')" "dav_staged w h c" "dav_pending w h"
  then have sy: "put_syncLocked B h w = (None, w')" by (simp add: dav_backend_ops_def put_Sync_def)
  from put_sync_spec [OF sy a(2)] a(2,3)
  show "dav_staged w' h c \<and> \<not> dav_pending w' h \<and> dav_acked B w (dav_target w h) c w'"
    by (auto simp: dav_staged_def dav_pending_def dav_target_def)
next
  fix h w e w' c
  assume "h_Close (dav_backend_ops B) h w = (e, w')" "dav_staged w h c" "\<not> dav_pending w h"
  then show "dav_quiet w w'" using dav_close_spec [of B h w e w' c] by (simp add: dav_backend_ops_def dav_quiet_def)
next
  fix h w w' c
  assume "h_Close (dav_backend_ops B) h w = (None, w')" "dav_staged w h c" "dav_pending w h"
  then show "dav_acked B w (dav_target w h) c w'"
    using dav_close_spec [of B h w None w' c] by (simp add: dav_backend_ops_def)
qed (auto simp: dav_quiet_def dav_acked_def)


subsection \<open>Response bodies\<close>

text \<open>The client library with a count of the response bodies it handed out and that are not closed yet.\<close>

definition ledger_lib :: "('s, 'd) dav_lib \<Rightarrow> ('s \<times> int, 'd) dav_lib" where
  "ledger_lib L = \<lparr>
     dl_Do = (\<lambda>x r. counted_call (case_sum (\<lambda>_. 0) (\<lambda>_. 1)) (dl_Do L x r)),
     dl_ReadBody = (\<lambda>d. counted_call (\<lambda>_. 0) (dl_ReadBody L d)),
     dl_CloseBody = (\<lambda>d. counted_call (\<lambda>_. - 1) (dl_CloseBody L d)),
     dl_CloseIdle = (\<lambda>s. (dl_CloseIdle L (fst s), snd s)),
     dl_NewRequest = dl_NewRequest L, dl_URLString = dl_URLString L, dl_Multistatus = dl_Multistatus L,
     dl_LockHref = dl_LockHref L, dl_MediaType = dl_MediaType L, dl_ResolveHref = dl_ResolveHref L,
     dl_ParseTime = dl_ParseTime L\<rparr>"

definition ledger_backend :: "('s, 'd) dav_backend \<Rightarrow> ('s \<times> int, 'd) dav_backend" where
  "ledger_backend B = \<lparr>db_client = ledger_lib (db_client B), db_baseURL = db_baseURL B,
     db_username = db_username B, db_password = db_password B\<rparr>"

abbreviation open_bodies :: "('s \<times> int) dav_world \<Rightarrow> int" where
  "open_bodies w \<equiv> snd (dw_server w)"

lemma ledger_client [simp]: "db_client (ledger_backend B) = ledger_lib (db_client B)"
  by (simp add: ledger_backend_def)

lemma ledger_Do: "on_server (dl_Do (ledger_lib L) x q) w = (r, w') \<Longrightarrow>
    open_bodies w' = open_bodies w + (case r of Inl e \<Rightarrow> 0 | Inr resp \<Rightarrow> 1)"
  by (auto simp: on_server_def ledger_lib_def dest!: counted_callD split: prod.splits sum.splits)

lemma ledger_Read: "on_server (dl_ReadBody (ledger_lib L) d) w = (r, w') \<Longrightarrow> open_bodies w' = open_bodies w"
  by (auto simp: on_server_def ledger_lib_def dest!: counted_callD split: prod.splits)

lemma ledger_Close: "on_server (dl_CloseBody (ledger_lib L) d) w = (r, w') \<Longrightarrow> open_bodies w' = open_bodies w - 1"
  by (auto simp: on_server_def ledger_lib_def dest!: counted_callD split: prod.splits)

lemma ledger_closing:
  assumes "closing (ledger_backend B) resp rw = (r, w')"
  shows "r = fst rw \<and> open_bodies w' = open_bodies (snd rw) - 1"
proof -
  note c = closing_eq [OF assms]
  from c show ?thesis using ledger_Close [OF conjunct2 [OF c, unfolded ledger_client]] by simp
qed

lemma ledger_error: "responseError (ledger_backend B) m resp w = (e, w') \<Longrightarrow> open_bodies w' = open_bodies w"
  by (auto simp: responseError_def Let_def dest!: ledger_Read split: prod.splits)

lemma ledger_error_snd [simp]: "open_bodies (snd (responseError (ledger_backend B) m resp w)) = open_bodies w"
  by (rule ledger_error) (rule prod.collapse [symmetric])

lemmas ledger_rules = ledger_Do ledger_Read ledger_Close ledger_closing ledger_error

lemma ledger_do: "dav_do (ledger_backend B) x q sts w = (r, w') \<Longrightarrow> open_bodies w' = open_bodies w"
  by (auto simp: dav_do_def dest!: ledger_rules split: prod.splits sum.splits if_splits)

lemma ledger_execute: "dav_execute (ledger_backend B) x m u h b sts w = (r, w') \<Longrightarrow> open_bodies w' = open_bodies w"
  by (auto simp: dav_execute_def dest!: ledger_do split: sum.splits)

lemma ledger_properties: "requestProperties (ledger_backend B) x u dep w = (r, w') \<Longrightarrow> open_bodies w' = open_bodies w"
  by (auto simp: requestProperties_def dest!: ledger_rules split: prod.splits sum.splits option.splits if_splits)

lemma ledger_Stat: "dav_Stat (ledger_backend B) x n w = (r, w') \<Longrightarrow> open_bodies w' = open_bodies w"
  by (auto simp: dav_Stat_def propfind_def dest!: ledger_properties split: prod.splits sum.splits list.splits)

lemma ledger_ReadDir: "dav_ReadDir (ledger_backend B) x n w = (r, w') \<Longrightarrow> open_bodies w' = open_bodies w"
  by (auto simp: dav_ReadDir_def dest!: ledger_properties split: prod.splits sum.splits)

lemma ledger_OpenRead:
  "dav_OpenRead (ledger_backend B) x n w = (r, w') \<Longrightarrow>
   open_bodies w' = open_bodies w + (case r of Inl e \<Rightarrow> 0 | Inr d \<Rightarrow> 1)"
  by (auto simp: dav_OpenRead_def dest!: ledger_rules split: prod.splits sum.splits if_splits)

lemma dav_fs_server: "dav_fs f w = (r, w') \<Longrightarrow> dw_server w' = dw_server w"
  by (auto simp: dav_fs_def split: prod.splits)

lemma ledger_OpenWrite: "dav_OpenWrite (ledger_backend B) x n opt w = (r, w') \<Longrightarrow> open_bodies w' = open_bodies w"
  by (auto simp: dav_OpenWrite_def Let_def new_put_def dav_drop_temp_def
      dest!: dav_fs_server ledger_OpenRead ledger_Read ledger_Close ledger_Stat
      split: prod.splits sum.splits option.splits if_splits)

lemma ledger_put_sync: "put_syncLocked (ledger_backend B) i w = (r, w') \<Longrightarrow> open_bodies w' = open_bodies w"
  by (auto simp: put_syncLocked_def Let_def upd_put_def dest!: dav_fs_server ledger_do
      split: prod.splits sum.splits option.splits if_splits)

lemma ledger_put_Close: "put_Close (ledger_backend B) i w = (r, w') \<Longrightarrow> open_bodies w' = open_bodies w"
  by (auto simp: put_Close_def Let_def upd_put_def dest!: dav_fs_server ledger_put_sync split: prod.splits if_splits)

lemma ledger_others:
  "Capabilities (ledger_backend B) x w = (a, w') \<Longrightarrow> open_bodies w' = open_bodies w"
  "dav_Lock (ledger_backend B) x n t w = (l, w') \<Longrightarrow> open_bodies w' = open_bodies w"
  "dav_Unlock (ledger_backend B) x n tok w = (u, w') \<Longrightarrow> open_bodies w' = open_bodies w"
  by (auto simp: Capabilities_def dav_Lock_def dav_Unlock_def Let_def dest!: ledger_rules ledger_do
      split: prod.splits sum.splits option.splits if_splits)

lemma ledger_call:
  assumes "vfs_run (dav_backend_ops (ledger_backend B)) x c w = (r, w')"
  shows "open_bodies w' = open_bodies w + (if (\<exists>n. c = COpenRead n) \<and> r = None then 1 else 0)"
proof (cases c)
  case (CStat n)
  with assms show ?thesis
    by (cases "dav_Stat (ledger_backend B) x n w") (auto simp: dav_backend_ops_def dest: ledger_Stat)
next
  case (CReadDir n)
  with assms show ?thesis
    by (cases "dav_ReadDir (ledger_backend B) x n w") (auto simp: dav_backend_ops_def dest: ledger_ReadDir)
next
  case (COpenRead n)
  with assms show ?thesis
    by (cases "dav_OpenRead (ledger_backend B) x n w") (auto simp: dav_backend_ops_def dest: ledger_OpenRead split: sum.splits)
next
  case (COpenWrite n opt)
  with assms show ?thesis
    by (cases "dav_OpenWrite (ledger_backend B) x n opt w") (auto simp: dav_backend_ops_def dest: ledger_OpenWrite)
qed (use assms in \<open>auto simp: dav_backend_ops_def dav_Mkdir_def dav_Remove_def dav_Rename_def dav_SetModTime_def
       dav_SetReadOnly_def dest!: ledger_execute split: sum.splits\<close>)


text \<open>
  The WebDAV backend leaks no connection: over every call, on every path, as many response bodies are
  closed as were received, except that a successful \<open>OpenRead\<close> hands exactly one to its caller.
\<close>

theorem webdav_bodies_closed:
  "open_bodies (snd (vfs_run (dav_backend_ops (ledger_backend B)) x c w)) = open_bodies w +
     (if (\<exists>n. c = COpenRead n) \<and> fst (vfs_run (dav_backend_ops (ledger_backend B)) x c w) = None then 1 else 0) \<and>
   open_bodies (snd (put_syncLocked (ledger_backend B) i w)) = open_bodies w \<and>
   open_bodies (snd (put_Close (ledger_backend B) i w)) = open_bodies w \<and>
   open_bodies (snd (Capabilities (ledger_backend B) x w)) = open_bodies w \<and>
   open_bodies (snd (dav_Lock (ledger_backend B) x n t w)) = open_bodies w \<and>
   open_bodies (snd (dav_Unlock (ledger_backend B) x n token w)) = open_bodies w"
  using ledger_call [OF prod.collapse [symmetric]] ledger_put_sync [OF prod.collapse [symmetric]]
    ledger_put_Close [OF prod.collapse [symmetric]] ledger_others [OF prod.collapse [symmetric]] by metis

subsection \<open>Statuses and errors\<close>

lemma status_error_Is:
  "errors_Is (status_error code m) ErrNotExist \<longleftrightarrow> code = 404"
  "errors_Is (status_error code m) ErrPermission \<longleftrightarrow> code \<in> {401, 403, 423}"
  "errors_Is (status_error code m) ErrUnsupported \<longleftrightarrow> code \<in> {405, 501}"
  by (auto simp: status_error_def sentinel_is_def)

lemma responseError_result:
  "\<exists>m. fst (responseError B method resp w) = status_error (hr_StatusCode resp) m \<and>
    (\<forall>body re s. dl_ReadBody (db_client B) (hr_Body resp) (dw_server w) = ((body, re), s) \<longrightarrow>
      responseBodyIsHTML (db_client B) (header_get (hr_Header resp) ''Content-Type'') (TrimSpace (string_of (take 4096 body))) \<longrightarrow>
      m = ''WebDAV '' @ method @ '' response: '' @ hr_Status resp)"
  by (auto simp: responseError_def on_server_def Let_def split: prod.splits)

text \<open>
  How the WebDAV backend answers a status: a mutation succeeds exactly on the statuses its method
  accepts; otherwise the error is the one its callers test for, missing on 404, permission on 401, 403 and
  423, unsupported on 405 and 501, and none of these on any other status. The HTML page of a login portal
  or proxy never becomes part of the message.
\<close>

theorem webdav_status_errors:
  assumes "dl_Do (db_client B) x request (dw_server w) = (Inr resp, s1)" and "dav_do B x request statuses w = (r, w')"
  shows "(r = None \<longleftrightarrow> hr_StatusCode resp \<in> set statuses) \<and>
    (\<forall>e. r = Some e \<longrightarrow>
      (errors_Is e ErrNotExist \<longleftrightarrow> hr_StatusCode resp = 404) \<and>
      (errors_Is e ErrPermission \<longleftrightarrow> hr_StatusCode resp \<in> {401, 403, 423}) \<and>
      (errors_Is e ErrUnsupported \<longleftrightarrow> hr_StatusCode resp \<in> {405, 501}) \<and>
      (\<forall>body re s2. dl_ReadBody (db_client B) (hr_Body resp) s1 = ((body, re), s2) \<longrightarrow>
        responseBodyIsHTML (db_client B) (header_get (hr_Header resp) ''Content-Type'') (TrimSpace (string_of (take 4096 body))) \<longrightarrow>
        e = status_error (hr_StatusCode resp) (''WebDAV '' @ hq_Method request @ '' response: '' @ hr_Status resp)))"
proof (cases "hr_StatusCode resp \<in> set statuses")
  case True
  with assms show ?thesis by (auto simp: dav_do_def on_server_def closing_def)
next
  case False
  let ?w1 = "w\<lparr>dw_server := s1\<rparr>"
  from False assms have r: "r = Some (fst (responseError B (hq_Method request) resp ?w1))"
    by (auto simp: dav_do_def on_server_def closing_def)
  from responseError_result [of B "hq_Method request" resp ?w1] r False show ?thesis by (auto simp: status_error_Is)
qed

text \<open>A client whose server refuses every request with a login page.\<close>

definition portal_client :: "(unit, unit) dav_lib" where
  "portal_client = \<lparr>
     dl_Do = (\<lambda>x q s. (Inr \<lparr>hr_StatusCode = 403, hr_Status = ''403 Forbidden'', hr_Header = [], hr_Body = ()\<rparr>, s)),
     dl_ReadBody = (\<lambda>d s. ((bytes_of ''<html>login'', None), s)), dl_CloseBody = (\<lambda>d s. (None, s)),
     dl_CloseIdle = id, dl_NewRequest = (\<lambda>m u. None), dl_URLString = du_Path, dl_Multistatus = (\<lambda>b. Inr []),
     dl_LockHref = (\<lambda>b. Inr ''''), dl_MediaType = (\<lambda>s. Inl (ErrNew ''no media type'')),
     dl_ResolveHref = (\<lambda>u h. Inr h), dl_ParseTime = (\<lambda>s. Inr 0)\<rparr>"

definition portal_backend :: "(unit, unit) dav_backend" where
  "portal_backend = \<lparr>db_client = portal_client, db_baseURL = \<lparr>du_Scheme = ''https'', du_Host = ''h:443'', du_Path = ''/''\<rparr>,
     db_username = ''u'', db_password = ''p''\<rparr>"

definition demo_dav_world :: "'s \<Rightarrow> 's dav_world" where
  "demo_dav_world s = \<lparr>dw_server = s, dw_fs = \<lparr>fs_nodes = [], fs_cwd = ''/'', fs_faults = (\<lambda>_ _. None)\<rparr>, dw_handles = [],
     dw_tempdir = ''/tmp'', dw_rnd = ''1'', dw_now = 7\<rparr>"

definition demo_delete_request :: http_request where
  "demo_delete_request = \<lparr>hq_Method = ''DELETE'', hq_URL = db_baseURL portal_backend, hq_Auth = (''u'', ''p''), hq_Headers = [], hq_Body = []\<rparr>"

theorem webdav_status_errors_witness:
  "fst (dav_do portal_backend None demo_delete_request [200, 204] (demo_dav_world ())) =
     Some (Wrapped ''WebDAV DELETE response: 403 Forbidden'' (Sentinel ErrPermission))"
proof -
  obtain r w' where run: "dav_do portal_backend None demo_delete_request [200, 204] (demo_dav_world ()) = (r, w')" by force
  let ?resp = "\<lparr>hr_StatusCode = 403, hr_Status = ''403 Forbidden'', hr_Header = [], hr_Body = ()\<rparr>"
  have d: "dl_Do (db_client portal_backend) None demo_delete_request (dw_server (demo_dav_world ())) = (Inr ?resp, ())"
    by (simp add: portal_backend_def portal_client_def)
  have b: "dl_ReadBody (db_client portal_backend) (hr_Body ?resp) () = ((bytes_of ''<html>login'', None), ())"
    by (simp add: portal_backend_def portal_client_def)
  have h: "responseBodyIsHTML (db_client portal_backend) (header_get (hr_Header ?resp) ''Content-Type'')
      (TrimSpace (string_of (take 4096 (bytes_of ''<html>login''))))"
    by code_simp
  from webdav_status_errors [OF d run] have no: "r \<noteq> None" by simp
  then obtain e where e: "r = Some e" by blast
  with webdav_status_errors [OF d run] b h
  have "e = status_error 403 (''WebDAV '' @ hq_Method demo_delete_request @ '' response: '' @ ''403 Forbidden'')" by simp
  with e run show ?thesis by (simp add: status_error_def demo_delete_request_def)
qed

subsection \<open>Listings\<close>

text \<open>A typed entry: a 64-bit size and one of the modes the backends build.\<close>

definition dav_entry_typed :: "entry \<Rightarrow> bool" where
  "dav_entry_typed e \<longleftrightarrow> in_i64 (e_Size e) \<and> e_Mode e \<in> {ModeDir OR 0x1ED, 0x1A4}"

lemma entryFromResponse_typed: "entryFromResponse L u r = Inr d \<Longrightarrow> dav_entry_typed (de_Entry d)"
  by (auto simp: entryFromResponse_def dav_entry_typed_def Let_def in_i64_def min_i64_def max_i64_def
      dest!: ParseInt64_range split: list.splits sum.splits if_splits)

lemma entries_of_typed: "entries_of L u items = Inr es \<Longrightarrow> list_all (dav_entry_typed \<circ> de_Entry) es"
  by (induction items arbitrary: es) (auto dest: entryFromResponse_typed split: sum.splits)

lemma requestProperties_typed:
  "requestProperties B x u d w = (Inr es, w') \<Longrightarrow> list_all (dav_entry_typed \<circ> de_Entry) es"
  by (auto simp: requestProperties_def closing_def dest!: entries_of_typed [OF sym] entries_of_typed
      split: sum.splits prod.splits option.splits if_splits)

lemma dav_Stat_typed: "dav_Stat B x n w = (Inr e, w') \<Longrightarrow> dav_entry_typed e"
  by (auto simp: dav_Stat_def propfind_def list_all_iff dest!: requestProperties_typed
      split: sum.splits prod.splits list.splits)

lemma dav_ReadDir_typed: "dav_ReadDir B x n w = (Inr es, w') \<Longrightarrow> list_all dav_entry_typed es"
  by (auto simp: dav_ReadDir_def list_all_iff dest!: requestProperties_typed split: sum.splits prod.splits)

end
