(* ===== verification/Sftp_Backend.thy ===== *)
theory Sftp_Backend
  imports Remote_Path Local_FS
begin

text \<open>
  \<^verbatim>\<open>internal/protocol/sftp/backend.go\<close> and \<^verbatim>\<open>auth.go\<close>. The network, the SSH
  and SFTP clients and the server are a parameter: a record of calls on a server state \<open>'s\<close>, with
  network connections \<open>'n\<close>, SSH clients \<open>'k\<close>, SFTP clients \<open>'c\<close>, remote files \<open>'h\<close>,
  signers \<open>'g\<close> and host key callbacks \<open>'v\<close>. Unlike the other two backends, a write handle is a
  file of the server: nothing is staged.
\<close>

record sftp_info =
  si_Name :: string
  si_Size :: int
  si_Mode :: filemode
  si_ModTime :: instant

datatype 'g auth_method = PasswordAuth string | PublicKeysAuth 'g

record ('g, 'v) ssh_config =
  sc_User :: string
  sc_Auth :: "'g auth_method list"
  sc_HostKeyCallback :: "'v option"

record ('n, 'k, 'c, 'h, 'g, 'v, 's) sftp_lib =
  sl_Dial :: "string \<Rightarrow> 16 word \<Rightarrow> 's \<Rightarrow> (err + 'n) \<times> 's"
  sl_SetDeadline :: "'n \<Rightarrow> bool \<Rightarrow> 's \<Rightarrow> err option \<times> 's"
  sl_CloseConn :: "'n \<Rightarrow> 's \<Rightarrow> 's"
  sl_Handshake :: "'n \<Rightarrow> ('g, 'v) ssh_config \<Rightarrow> 's \<Rightarrow> (err + 'k) \<times> 's"
  sl_CloseSSH :: "'k \<Rightarrow> 's \<Rightarrow> err option \<times> 's"
  sl_NewClient :: "'k \<Rightarrow> 's \<Rightarrow> (err + 'c) \<times> 's"
  sl_CloseClient :: "'c \<Rightarrow> 's \<Rightarrow> err option \<times> 's"
  sl_Stat :: "'c \<Rightarrow> string \<Rightarrow> 's \<Rightarrow> (err + sftp_info) \<times> 's"
  sl_ReadDir :: "'c \<Rightarrow> string \<Rightarrow> 's \<Rightarrow> (err + sftp_info list) \<times> 's"
  sl_Open :: "'c \<Rightarrow> string \<Rightarrow> 's \<Rightarrow> (err + 'h) \<times> 's"
  sl_OpenFile :: "'c \<Rightarrow> string \<Rightarrow> int \<Rightarrow> 's \<Rightarrow> (err + 'h) \<times> 's"
  sl_Mkdir :: "'c \<Rightarrow> string \<Rightarrow> 's \<Rightarrow> err option \<times> 's"
  sl_RemoveDirectory :: "'c \<Rightarrow> string \<Rightarrow> 's \<Rightarrow> err option \<times> 's"
  sl_Remove :: "'c \<Rightarrow> string \<Rightarrow> 's \<Rightarrow> err option \<times> 's"
  sl_Rename :: "'c \<Rightarrow> string \<Rightarrow> string \<Rightarrow> 's \<Rightarrow> err option \<times> 's"
  sl_Chtimes :: "'c \<Rightarrow> string \<Rightarrow> instant \<Rightarrow> instant \<Rightarrow> 's \<Rightarrow> err option \<times> 's"
  sl_Chmod :: "'c \<Rightarrow> string \<Rightarrow> filemode \<Rightarrow> 's \<Rightarrow> err option \<times> 's"
  sl_ReadAll :: "'h \<Rightarrow> 's \<Rightarrow> (bytes \<times> err option) \<times> 's"
  sl_WriteAt :: "'h \<Rightarrow> bytes \<Rightarrow> int \<Rightarrow> 's \<Rightarrow> (nat \<times> err option) \<times> 's"
  sl_Sync :: "'h \<Rightarrow> 's \<Rightarrow> err option \<times> 's"
  sl_Close :: "'h \<Rightarrow> 's \<Rightarrow> err option \<times> 's"

record ('g, 'v) sftp_config =
  sf_Host :: string
  sf_Port :: "16 word"
  sf_Username :: string
  sf_Password :: string
  sf_Signer :: "'g option"
  sf_Root :: string
  sf_HostKeyCallback :: "'v option"

text \<open>What never changes of a backend, and its state; the mutexes make each section below atomic.\<close>

record ('n, 'k, 'c, 'h, 'g, 'v, 's) sftp_backend =
  sb_lib :: "('n, 'k, 'c, 'h, 'g, 'v, 's) sftp_lib"
  sb_config :: "('g, 'v) sftp_config"
  sb_root :: string

record ('k, 'c, 's) sftp_world =
  sw_client :: 'c
  sw_sshClient :: 'k
  sw_generation :: "64 word"
  sw_closed :: bool
  sw_server :: 's

subsection \<open>Connecting\<close>

definition sftp_validateConfig :: "('g, 'v) sftp_config \<Rightarrow> err option" where
  "sftp_validateConfig c =
     (if TrimSpace (sf_Host c) = '''' then Some (ErrNew ''host required'')
      else if sf_Port c = 0 then Some (ErrNew ''port must be at least 1'')
      else if TrimSpace (sf_Username c) = '''' then Some (ErrNew ''user required'')
      else if (sf_Password c = '''') = (sf_Signer c = None) then Some (ErrNew ''password or private key required'')
      else if sf_HostKeyCallback c = None then Some (ErrNew ''host key verification required'')
      else None)"

definition authenticationMethods :: "('g, 'v) sftp_config \<Rightarrow> 'g auth_method list" where
  "authenticationMethods c =
     (case sf_Signer c of Some g \<Rightarrow> [PublicKeysAuth g] | None \<Rightarrow> [PasswordAuth (sf_Password c)])"

definition sftp_connect ::
  "('n, 'k, 'c, 'h, 'g, 'v, 's) sftp_lib \<Rightarrow> ('g, 'v) sftp_config \<Rightarrow> 's \<Rightarrow> (err + 'c \<times> 'k \<times> string) \<times> 's" where
  "sftp_connect L config s =
     (case sl_Dial L (sf_Host config) (sf_Port config) s of
        (Inl e, s1) \<Rightarrow> (Inl (Wrapped ''SFTP connect'' e), s1)
      | (Inr conn, s1) \<Rightarrow>
     (case sl_SetDeadline L conn True s1 of
        (Some e, s2) \<Rightarrow> (Inl (Wrapped ''SFTP deadline'' e), sl_CloseConn L conn s2)
      | (None, s2) \<Rightarrow>
     (case sl_Handshake L conn \<lparr>sc_User = sf_Username config, sc_Auth = authenticationMethods config,
                                sc_HostKeyCallback = sf_HostKeyCallback config\<rparr> s2 of
        (Inl e, s3) \<Rightarrow> (Inl (Wrapped ''SSH authentication'' e), sl_CloseConn L conn s3)
      | (Inr ssh, s3) \<Rightarrow>
     (case sl_SetDeadline L conn False s3 of
        (Some e, s4) \<Rightarrow> (Inl (Wrapped ''SFTP deadline'' e), snd (sl_CloseSSH L ssh s4))
      | (None, s4) \<Rightarrow>
     (case sl_NewClient L ssh s4 of
        (Inl e, s5) \<Rightarrow> (Inl (Wrapped ''SFTP session'' e), snd (sl_CloseSSH L ssh s5))
      | (Inr client, s5) \<Rightarrow>
          let root = sftp_normalizeRoot (sf_Root config);
              drop = (\<lambda>s. snd (sl_CloseSSH L ssh (snd (sl_CloseClient L client s))))
          in (case sl_Stat L client root s5 of
                (Inl e, s6) \<Rightarrow> (Inl (Wrapped ''SFTP start path'' e), drop s6)
              | (Inr info, s6) \<Rightarrow>
                  if \<not> mode_IsDir (si_Mode info) then (Inl (ErrNew ''SFTP start path is not a folder''), drop s6)
                  else (Inr (client, ssh, root), s6)))))))"

definition sftp_New ::
  "('n, 'k, 'c, 'h, 'g, 'v, 's) sftp_lib \<Rightarrow> ('g, 'v) sftp_config \<Rightarrow> 's
     \<Rightarrow> (err + ('n, 'k, 'c, 'h, 'g, 'v, 's) sftp_backend \<times> ('k, 'c, 's) sftp_world) \<times> 's" where
  "sftp_New L config s =
     (case sftp_validateConfig config of
        Some e \<Rightarrow> (Inl e, s)
      | None \<Rightarrow>
          (case sftp_connect L config s of
             (Inl e, s1) \<Rightarrow> (Inl e, s1)
           | (Inr (client, ssh, root), s1) \<Rightarrow>
               (Inr (\<lparr>sb_lib = L, sb_config = config, sb_root = root\<rparr>,
                     \<lparr>sw_client = client, sw_sshClient = ssh, sw_generation = 0, sw_closed = False, sw_server = s1\<rparr>), s1)))"

definition sftp_isConnectionError :: "err \<Rightarrow> bool" where
  "sftp_isConnectionError e \<longleftrightarrow>
     errors_Is e EOF \<or> errors_Is e ErrUnexpectedEOF \<or> errors_Is e NetErrClosed \<or> as_NetError e \<or>
     list_ex (Contains (ToLower (err_Error e)))
       [''broken pipe'', ''connection aborted'', ''connection lost'', ''connection reset'', ''ssh: disconnect'',
        ''use of closed network connection'']"

text \<open>\<open>session\<close> and \<open>reconnect\<close>: the sections under the mutex.\<close>

definition sftp_session :: "('k, 'c, 's) sftp_world \<Rightarrow> err + 'c \<times> 64 word" where
  "sftp_session w = (if sw_closed w then Inl (Sentinel NetErrClosed) else Inr (sw_client w, sw_generation w))"

definition sftp_reconnect ::
  "('n, 'k, 'c, 'h, 'g, 'v, 's) sftp_backend \<Rightarrow> 64 word \<Rightarrow> ('k, 'c, 's) sftp_world
     \<Rightarrow> (err + 'c) \<times> ('k, 'c, 's) sftp_world" where
  "sftp_reconnect B failed w =
     (if sw_closed w then (Inl (Sentinel NetErrClosed), w)
      else if sw_generation w \<noteq> failed then (Inr (sw_client w), w)
      else case sftp_connect (sb_lib B) (sb_config B) (sw_server w) of
             (Inl e, s) \<Rightarrow> (Inl (Wrapped ''SFTP reconnect'' e), w\<lparr>sw_server := s\<rparr>)
           | (Inr (client, ssh, _), s) \<Rightarrow>
               (Inr client,
                w\<lparr>sw_client := client, sw_sshClient := ssh, sw_generation := sw_generation w + 1,
                  sw_server := snd (sl_CloseSSH (sb_lib B) (sw_sshClient w)
                                     (snd (sl_CloseClient (sb_lib B) (sw_client w) s)))\<rparr>))"

definition sftp_call :: "('s \<Rightarrow> 'a \<times> 's) \<Rightarrow> ('k, 'c, 's) sftp_world \<Rightarrow> 'a \<times> ('k, 'c, 's) sftp_world" where
  "sftp_call f w = (case f (sw_server w) of (r, s) \<Rightarrow> (r, w\<lparr>sw_server := s\<rparr>))"

text \<open>
  \<open>withReconnect\<close> without interference by other goroutines; the sections it is made of are
  interleaved freely in \<^theory_text>\<open>Sftp_Facts\<close>.
\<close>

definition withReconnect ::
  "('n, 'k, 'c, 'h, 'g, 'v, 's) sftp_backend \<Rightarrow> ('c \<Rightarrow> 's \<Rightarrow> (err + 'a) \<times> 's) \<Rightarrow> ('k, 'c, 's) sftp_world
     \<Rightarrow> (err + 'a) \<times> ('k, 'c, 's) sftp_world" where
  "withReconnect B operation w =
     (case sftp_session w of
        Inl e \<Rightarrow> (Inl e, w)
      | Inr (client, generation) \<Rightarrow>
          (case sftp_call (operation client) w of
             (Inr a, w1) \<Rightarrow> (Inr a, w1)
           | (Inl e, w1) \<Rightarrow>
               if \<not> sftp_isConnectionError e then (Inl e, w1)
               else (case sftp_reconnect B generation w1 of
                       (Inl e', w2) \<Rightarrow> (Inl e', w2)
                     | (Inr client', w2) \<Rightarrow> sftp_call (operation client') w2)))"

text \<open>A call that returns only an error, as one with a result of type \<open>struct{}\<close>.\<close>

definition as_unit :: "('s \<Rightarrow> err option \<times> 's) \<Rightarrow> 's \<Rightarrow> (err + unit) \<times> 's" where
  "as_unit f s = (case f s of (Some e, t) \<Rightarrow> (Inl e, t) | (None, t) \<Rightarrow> (Inr (), t))"

definition only_error :: "(err + 'a) \<times> 'w \<Rightarrow> err option \<times> 'w" where
  "only_error r = (case r of (Inl e, w) \<Rightarrow> (Some e, w) | (Inr _, w) \<Rightarrow> (None, w))"

subsection \<open>Operations\<close>

definition entryFromInfo :: "sftp_info \<Rightarrow> entry" where
  "entryFromInfo i = \<lparr>e_Name = si_Name i, e_Size = si_Size i, e_Mode = si_Mode i, e_ModTime = si_ModTime i\<rparr>"

definition sftp_Stat where
  "sftp_Stat B x name w =
     (case x of Some e \<Rightarrow> (Inl e, w) | None \<Rightarrow>
        (case sftp_remotePath (sb_root B) name of
           Inl e \<Rightarrow> (Inl e, w)
         | Inr remote \<Rightarrow> map_prod (map_sum (\<lambda>e. e) entryFromInfo) (\<lambda>w. w)
             (withReconnect B (\<lambda>c. sl_Stat (sb_lib B) c remote) w)))"

definition sftp_ReadDir where
  "sftp_ReadDir B x name w =
     (case x of Some e \<Rightarrow> (Inl e, w) | None \<Rightarrow>
        (case sftp_remotePath (sb_root B) name of
           Inl e \<Rightarrow> (Inl e, w)
         | Inr remote \<Rightarrow> map_prod (map_sum (\<lambda>e. e) (map entryFromInfo)) (\<lambda>w. w)
             (withReconnect B (\<lambda>c. sl_ReadDir (sb_lib B) c remote) w)))"

definition sftp_OpenRead where
  "sftp_OpenRead B x name w =
     (case x of Some e \<Rightarrow> (Inl e, w) | None \<Rightarrow>
        (case sftp_remotePath (sb_root B) name of
           Inl e \<Rightarrow> (Inl e, w)
         | Inr remote \<Rightarrow> withReconnect B (\<lambda>c. sl_Open (sb_lib B) c remote) w))"

text \<open>The values of \<open>os.O_WRONLY\<close>, \<open>O_CREATE\<close>, \<open>O_TRUNC\<close> and \<open>O_APPEND\<close>, which do not overlap.\<close>

definition sftp_flags :: "write_options \<Rightarrow> int" where
  "sftp_flags opt = 1 + (if wo_Create opt then 0x40 else 0) + (if wo_Truncate opt then 0x200 else 0) +
     (if wo_Append opt then 0x400 else 0)"

definition sftp_OpenWrite where
  "sftp_OpenWrite B x name opt w =
     (case x of Some e \<Rightarrow> (Inl e, w) | None \<Rightarrow>
        (case sftp_remotePath (sb_root B) name of
           Inl e \<Rightarrow> (Inl e, w)
         | Inr remote \<Rightarrow> withReconnect B (\<lambda>c. sl_OpenFile (sb_lib B) c remote (sftp_flags opt)) w))"

definition sftp_mutate where
  "sftp_mutate B x name operation w =
     (case x of Some e \<Rightarrow> (Some e, w) | None \<Rightarrow>
        (case sftp_remotePath (sb_root B) name of
           Inl e \<Rightarrow> (Some e, w)
         | Inr remote \<Rightarrow> only_error (withReconnect B (\<lambda>c. as_unit (operation c remote)) w)))"

definition sftp_Mkdir where
  "sftp_Mkdir B x name w = sftp_mutate B x name (sl_Mkdir (sb_lib B)) w"

definition sftp_Remove where
  "sftp_Remove B x name directory w =
     sftp_mutate B x name (if directory then sl_RemoveDirectory (sb_lib B) else sl_Remove (sb_lib B)) w"

definition sftp_Rename where
  "sftp_Rename B x oldName newName w =
     (case x of Some e \<Rightarrow> (Some e, w) | None \<Rightarrow>
        (case sftp_remotePath (sb_root B) oldName of
           Inl e \<Rightarrow> (Some e, w)
         | Inr oldRemote \<Rightarrow>
             (case sftp_remotePath (sb_root B) newName of
                Inl e \<Rightarrow> (Some e, w)
              | Inr newRemote \<Rightarrow>
                  only_error (withReconnect B (\<lambda>c. as_unit (sl_Rename (sb_lib B) c oldRemote newRemote)) w))))"

definition sftp_SetModTime where
  "sftp_SetModTime B x name t w = sftp_mutate B x name (\<lambda>c p. sl_Chtimes (sb_lib B) c p t t) w"

definition modeWithReadOnly :: "filemode \<Rightarrow> bool \<Rightarrow> filemode" where
  "modeWithReadOnly mode readOnly =
     (let mode = mode AND ModePerm in if readOnly then mode AND NOT 0x92 else mode OR 0x80)"

definition sftp_SetReadOnly where
  "sftp_SetReadOnly B x name readOnly w =
     sftp_mutate B x name
       (\<lambda>c p s. case sl_Stat (sb_lib B) c p s of
                  (Inl e, s1) \<Rightarrow> (Some e, s1)
                | (Inr info, s1) \<Rightarrow> sl_Chmod (sb_lib B) c p (modeWithReadOnly (si_Mode info) readOnly) s1) w"

definition sftp_Close where
  "sftp_Close B w =
     (if sw_closed w then (None, w)
      else case sl_CloseClient (sb_lib B) (sw_client w) (sw_server w) of
             (e1, s1) \<Rightarrow>
               (case sl_CloseSSH (sb_lib B) (sw_sshClient w) s1 of
                  (e2, s2) \<Rightarrow> (errors_Join [e1, e2], w\<lparr>sw_closed := True, sw_server := s2\<rparr>)))"

definition sftp_backend_ops ::
  "('n, 'k, 'c, 'h, 'g, 'v, 's) sftp_backend \<Rightarrow> (('k, 'c, 's) sftp_world, 'h, 'h) backend" where
  "sftp_backend_ops B = \<lparr>
     b_Stat = sftp_Stat B, b_ReadDir = sftp_ReadDir B, b_OpenRead = sftp_OpenRead B, b_OpenWrite = sftp_OpenWrite B,
     b_Mkdir = sftp_Mkdir B, b_Remove = sftp_Remove B, b_Rename = sftp_Rename B, b_SetModTime = sftp_SetModTime B,
     b_SetReadOnly = sftp_SetReadOnly B, b_Close = sftp_Close B,
     r_ReadAll = (\<lambda>h. sftp_call (sl_ReadAll (sb_lib B) h)), r_Close = (\<lambda>h. sftp_call (sl_Close (sb_lib B) h)),
     h_WriteAt = (\<lambda>h d off. sftp_call (sl_WriteAt (sb_lib B) h d off)),
     h_Sync = (\<lambda>h. sftp_call (sl_Sync (sb_lib B) h)), h_Close = (\<lambda>h. sftp_call (sl_Close (sb_lib B) h))\<rparr>"

subsection \<open>Private keys\<close>

definition LoadPrivateKey ::
  "(bytes \<Rightarrow> err + 'g) \<Rightarrow> (bytes \<Rightarrow> bytes \<Rightarrow> err + 'g) \<Rightarrow> string \<Rightarrow> bytes \<Rightarrow> lfs \<Rightarrow> err + 'g" where
  "LoadPrivateKey parse parseWith filename passphrase fs =
     (case os_ReadFile filename fs of
        Inl e \<Rightarrow> Inl (Wrapped ''read private key'' e)
      | Inr key \<Rightarrow>
          (case (if passphrase = [] then parse key else parseWith key passphrase) of
             Inl e \<Rightarrow> Inl (Wrapped ''parse private key'' e)
           | Inr signer \<Rightarrow> Inr signer))"

end
