(* ===== verification/Sftp_Facts.thy ===== *)
theory Sftp_Facts
  imports Sftp_Backend
begin

text \<open>
  Safety of the SFTP backend over any client library, with its goroutines interleaved: connections are
  neither leaked nor closed twice, one lost connection is replaced once, and how often a command can
  reach the server.
\<close>

subsection \<open>Connections\<close>

text \<open>
  The library with a ledger of what is open: every network connection, SSH client and SFTP client has a weight
  of its own, which is added when it is opened and taken off when it is closed; a handshake that succeeds hands
  the network connection over to the SSH client. A weight that is 1 for one of them and 0 for all others counts
  how often exactly that one is open.
\<close>

definition weighed_lib ::
  "('n \<Rightarrow> int) \<Rightarrow> ('k \<Rightarrow> int) \<Rightarrow> ('c \<Rightarrow> int) \<Rightarrow> ('n, 'k, 'c, 'h, 'g, 'v, 's) sftp_lib
     \<Rightarrow> ('n, 'k, 'c, 'h, 'g, 'v, 's \<times> int) sftp_lib" where
  "weighed_lib wn wk wc L = \<lparr>
     sl_Dial = (\<lambda>h p. counted_call (case_sum (\<lambda>_. 0) wn) (sl_Dial L h p)),
     sl_SetDeadline = (\<lambda>n d. silent_call (sl_SetDeadline L n d)),
     sl_CloseConn = (\<lambda>n s. (sl_CloseConn L n (fst s), snd s - wn n)),
     sl_Handshake = (\<lambda>n c. counted_call (case_sum (\<lambda>_. 0) (\<lambda>k. wk k - wn n)) (sl_Handshake L n c)),
     sl_CloseSSH = (\<lambda>k. counted_call (\<lambda>_. - wk k) (sl_CloseSSH L k)),
     sl_NewClient = (\<lambda>k. counted_call (case_sum (\<lambda>_. 0) wc) (sl_NewClient L k)),
     sl_CloseClient = (\<lambda>c. counted_call (\<lambda>_. - wc c) (sl_CloseClient L c)),
     sl_Stat = (\<lambda>c p. silent_call (sl_Stat L c p)), sl_ReadDir = (\<lambda>c p. silent_call (sl_ReadDir L c p)),
     sl_Open = (\<lambda>c p. silent_call (sl_Open L c p)), sl_OpenFile = (\<lambda>c p f. silent_call (sl_OpenFile L c p f)),
     sl_Mkdir = (\<lambda>c p. silent_call (sl_Mkdir L c p)), sl_RemoveDirectory = (\<lambda>c p. silent_call (sl_RemoveDirectory L c p)),
     sl_Remove = (\<lambda>c p. silent_call (sl_Remove L c p)), sl_Rename = (\<lambda>c p q. silent_call (sl_Rename L c p q)),
     sl_Chtimes = (\<lambda>c p t u. silent_call (sl_Chtimes L c p t u)), sl_Chmod = (\<lambda>c p m. silent_call (sl_Chmod L c p m)),
     sl_ReadAll = (\<lambda>h. silent_call (sl_ReadAll L h)), sl_WriteAt = (\<lambda>h d off. silent_call (sl_WriteAt L h d off)),
     sl_Sync = (\<lambda>h. silent_call (sl_Sync L h)), sl_Close = (\<lambda>h. silent_call (sl_Close L h))\<rparr>"

abbreviation sftp_balance :: "('k, 'c, 's \<times> 'm) sftp_world \<Rightarrow> 'm" where
  "sftp_balance w \<equiv> snd (sw_server w)"

lemma counted_snd [simp]: "snd (snd (counted_call cost f s)) = snd s + cost (fst (counted_call cost f s))"
  by (simp add: counted_call_def split: prod.splits)

lemma connect_balance:
  "sftp_connect (weighed_lib wn wk wc L) config s = (r, s') \<Longrightarrow>
   snd s' = snd s + (case r of Inl e \<Rightarrow> 0 | Inr (client, ssh, _) \<Rightarrow> wc client + wk ssh)"
  by (auto simp: sftp_connect_def weighed_lib_def Let_def dest!: silent_callD counted_callD
      split: prod.splits sum.splits option.splits if_splits)

text \<open>
  What the goroutines using one backend do, section by section: a call on the server through any client
  they hold, \<open>reconnect\<close> for any generation, and \<open>Close\<close>. \<open>session\<close> only reads.
\<close>

inductive sftp_file_call :: "('n, 'k, 'c, 'h, 'g, 'v, 's) sftp_lib \<Rightarrow> ('s \<Rightarrow> 's) \<Rightarrow> bool" for L where
  "sftp_file_call L (\<lambda>s. snd (sl_Stat L c p s))"
| "sftp_file_call L (\<lambda>s. snd (sl_ReadDir L c p s))"
| "sftp_file_call L (\<lambda>s. snd (sl_Open L c p s))"
| "sftp_file_call L (\<lambda>s. snd (sl_OpenFile L c p f s))"
| "sftp_file_call L (\<lambda>s. snd (sl_Mkdir L c p s))"
| "sftp_file_call L (\<lambda>s. snd (sl_RemoveDirectory L c p s))"
| "sftp_file_call L (\<lambda>s. snd (sl_Remove L c p s))"
| "sftp_file_call L (\<lambda>s. snd (sl_Rename L c p q s))"
| "sftp_file_call L (\<lambda>s. snd (sl_Chtimes L c p t u s))"
| "sftp_file_call L (\<lambda>s. snd (sl_Chmod L c p m s))"
| "sftp_file_call L (\<lambda>s. snd (sl_ReadAll L h s))"
| "sftp_file_call L (\<lambda>s. snd (sl_WriteAt L h d off s))"
| "sftp_file_call L (\<lambda>s. snd (sl_Sync L h s))"
| "sftp_file_call L (\<lambda>s. snd (sl_Close L h s))"

inductive sftp_step ::
  "('n, 'k, 'c, 'h, 'g, 'v, 's) sftp_backend \<Rightarrow> ('k, 'c, 's) sftp_world \<Rightarrow> ('k, 'c, 's) sftp_world \<Rightarrow> bool" for B where
  ss_call: "sftp_file_call (sb_lib B) f \<Longrightarrow> sftp_step B w (w\<lparr>sw_server := f (sw_server w)\<rparr>)"
| ss_reconnect: "sftp_reconnect B g w = (r, w') \<Longrightarrow> sftp_step B w w'"
| ss_close: "sftp_Close B w = (r, w') \<Longrightarrow> sftp_step B w w'"

inductive_cases sftp_file_callE: "sftp_file_call L f"

text \<open>A whole operation without interference is a run of these sections.\<close>

lemma sftp_call_step:
  "sftp_call f w = (r, w') \<Longrightarrow> sftp_file_call (sb_lib B) (\<lambda>s. snd (f s)) \<Longrightarrow> (sftp_step B)\<^sup>*\<^sup>* w w'"
  using ss_call [of B "\<lambda>s. snd (f s)" w] by (auto simp: sftp_call_def split: prod.splits)

lemma withReconnect_steps:
  assumes "withReconnect B operation w = (r, w')"
    and op: "\<And>c w r w'. sftp_call (operation c) w = (r, w') \<Longrightarrow> (sftp_step B)\<^sup>*\<^sup>* w w'"
  shows "(sftp_step B)\<^sup>*\<^sup>* w w'"
proof (cases "sftp_session w")
  case (Inl e)
  with assms(1) show ?thesis by (simp add: withReconnect_def)
next
  case (Inr cg)
  obtain c g where cg: "cg = (c, g)" by force
  obtain a w1 where o1: "sftp_call (operation c) w = (a, w1)" by force
  obtain c' w2 where rc: "sftp_reconnect B g w1 = (c', w2)" by force
  note s1 = op [OF o1] and s2 = ss_reconnect [OF rc]
  show ?thesis
  proof (cases "(\<exists>e. a = Inl e \<and> sftp_isConnectionError e) \<and> (\<exists>c2. c' = Inr c2)")
    case False
    then have "w' = w1 \<or> w' = w2" using assms(1) Inr cg o1 rc
      by (auto simp: withReconnect_def split: sum.splits if_splits)
    with s1 s2 show ?thesis by (auto intro: rtranclp.rtrancl_into_rtrancl)
  next
    case True
    then obtain c2 where c2: "c' = Inr c2" by blast
    with True have "sftp_call (operation c2) w2 = (r, w')" using assms(1) Inr cg o1 rc by (auto simp: withReconnect_def)
    from op [OF this] s1 s2 show ?thesis by (meson rtranclp.rtrancl_into_rtrancl rtranclp_trans)
  qed
qed

lemma sftp_file_call_balance: "sftp_file_call (weighed_lib wn wk wc L) f \<Longrightarrow> snd (f s) = snd s"
  by (erule sftp_file_callE) (simp_all add: weighed_lib_def)

definition balanced :: "('k \<Rightarrow> int) \<Rightarrow> ('c \<Rightarrow> int) \<Rightarrow> ('k, 'c, 's \<times> int) sftp_world \<Rightarrow> bool" where
  "balanced wk wc w \<longleftrightarrow> sftp_balance w = (if sw_closed w then 0 else wc (sw_client w) + wk (sw_sshClient w))"

lemma reconnect_balance:
  assumes "sftp_reconnect B g w = (r, w')" and "sb_lib B = weighed_lib wn wk wc L" and "balanced wk wc w"
  shows "balanced wk wc w'"
  using assms
  by (auto simp: sftp_reconnect_def balanced_def dest!: connect_balance split: prod.splits sum.splits if_splits)
     (auto simp: weighed_lib_def)

lemma step_balance:
  assumes "sftp_step B w w'" and "sb_lib B = weighed_lib wn wk wc L" and "balanced wk wc w"
  shows "balanced wk wc w'"
  using assms(1)
proof cases
  case (ss_call f)
  with assms show ?thesis using sftp_file_call_balance [of wn wk wc L f "sw_server w"] by (simp add: balanced_def)
next
  case (ss_reconnect g r)
  with assms show ?thesis using reconnect_balance by blast
next
  case (ss_close r)
  with assms show ?thesis
    by (auto simp: sftp_Close_def balanced_def weighed_lib_def dest!: counted_callD split: prod.splits if_splits)
qed

lemma steps_balance:
  "(sftp_step B)\<^sup>*\<^sup>* w w' \<Longrightarrow> sb_lib B = weighed_lib wn wk wc L \<Longrightarrow> balanced wk wc w \<Longrightarrow> balanced wk wc w'"
  by (induction rule: rtranclp_induct) (auto intro: step_balance)


text \<open>A small server on which everything succeeds, and a configuration it accepts.\<close>

definition demo_sftp :: "(unit, nat, nat, nat, unit, unit, nat) sftp_lib" where
  "demo_sftp = \<lparr>
     sl_Dial = (\<lambda>h p s. (Inr (), s)), sl_SetDeadline = (\<lambda>n d s. (None, s)), sl_CloseConn = (\<lambda>n s. s),
     sl_Handshake = (\<lambda>n c s. (Inr 0, s)), sl_CloseSSH = (\<lambda>k s. (None, s)),
     sl_NewClient = (\<lambda>k s. (Inr s, Suc s)), sl_CloseClient = (\<lambda>c s. (None, s)),
     sl_Stat = (\<lambda>c p s. (Inr \<lparr>si_Name = p, si_Size = 0, si_Mode = ModeDir OR 0x1ED, si_ModTime = 0\<rparr>, s)),
     sl_ReadDir = (\<lambda>c p s. (Inr [], s)), sl_Open = (\<lambda>c p s. (Inr 0, s)), sl_OpenFile = (\<lambda>c p f s. (Inr 0, s)),
     sl_Mkdir = (\<lambda>c p s. (if c = 0 then Some (Sentinel EOF) else None, s)),
     sl_RemoveDirectory = (\<lambda>c p s. (None, s)), sl_Remove = (\<lambda>c p s. (None, s)), sl_Rename = (\<lambda>c p q s. (None, s)),
     sl_Chtimes = (\<lambda>c p t u s. (None, s)), sl_Chmod = (\<lambda>c p m s. (None, s)),
     sl_ReadAll = (\<lambda>h s. (([], None), s)), sl_WriteAt = (\<lambda>h d off s. ((length d, None), s)),
     sl_Sync = (\<lambda>h s. (None, s)), sl_Close = (\<lambda>h s. (None, s))\<rparr>"

definition demo_sftp_config :: "(unit, unit) sftp_config" where
  "demo_sftp_config = \<lparr>sf_Host = ''h'', sf_Port = 22, sf_Username = ''u'', sf_Password = ''p'', sf_Signer = None,
     sf_Root = ''/'', sf_HostKeyCallback = Some ()\<rparr>"

text \<open>
  C28. The SFTP backend neither leaks a connection nor closes one twice, however its goroutines
  interleave: a failed start leaves no network connection, SSH client or SFTP client open, and from a successful
  one on exactly the SFTP client and the SSH client in use are open, each of them once, until \<open>Close\<close>, and
  nothing after it. (The weights are arbitrary, so each connection is accounted for by itself: a replaced one
  is closed, the new one is not.)
\<close>

theorem sftp_connections_accounted:
  assumes "sftp_New (weighed_lib wn wk wc L) config (s, 0) = (r, s')"
  shows "(case r of
      Inl e \<Rightarrow> snd s' = 0
    | Inr (B, w) \<Rightarrow> \<forall>w'. (sftp_step B)\<^sup>*\<^sup>* w w' \<longrightarrow>
        sftp_balance w' = (if sw_closed w' then 0 else wc (sw_client w') + wk (sw_sshClient w')))"
proof (cases r)
  case (Inl e)
  with assms show ?thesis by (auto simp: sftp_New_def dest!: connect_balance split: option.splits prod.splits sum.splits)
next
  case (Inr Bw)
  obtain B w where bw: "Bw = (B, w)" by force
  have B: "sb_lib B = weighed_lib wn wk wc L" "balanced wk wc w"
    using assms Inr bw
    by (auto simp: sftp_New_def balanced_def dest!: connect_balance split: option.splits prod.splits sum.splits)
  show ?thesis using steps_balance [OF _ B] Inr bw by (auto simp: balanced_def)
qed

lemma demo_config [simp]:
  "sf_Host demo_sftp_config = ''h''" "sf_Port demo_sftp_config = 22" "sf_Username demo_sftp_config = ''u''"
  "sf_Root demo_sftp_config = ''/''" "sf_HostKeyCallback demo_sftp_config = Some ()"
  by (simp_all add: demo_sftp_config_def)

lemma demo_root: "sftp_normalizeRoot ''/'' = ''/''" "sftp_remotePath ''/'' ''a'' = Inr ''/a''"
  "mode_IsDir (ModeDir OR 0x1ED)" "sftp_validateConfig demo_sftp_config = None"
  by code_simp+

theorem sftp_connections_accounted_witness:
  "\<exists>B w w'. sftp_New (weighed_lib (\<lambda>_. 1) (\<lambda>_. 0) (\<lambda>c. if c = 0 then 1 else 0) demo_sftp) demo_sftp_config (0, 0) = (Inr (B, w), (1, 1)) \<and>
      sftp_reconnect B 0 w = (Inr 1, w') \<and> sw_client w = 0 \<and> sftp_balance w' = 0"
proof -
  let ?L = "weighed_lib (\<lambda>_. 1) (\<lambda>_. 0) (\<lambda>c. if c = 0 then 1 else 0) demo_sftp"
  obtain r s' where new: "sftp_New ?L demo_sftp_config (0, 0) = (r, s')" by (metis surj_pair)
  obtain B w where r: "r = Inr (B, w)" "s' = (1, 1)" "sw_closed w = False" "sw_generation w = 0" "sw_client w = 0"
      "sw_server w = (1, 1)"
      "sb_lib B = ?L" "sb_config B = demo_sftp_config"
    using new by (auto simp: sftp_New_def demo_root sftp_connect_def weighed_lib_def demo_sftp_def silent_call_def
        counted_call_def Let_def)
  obtain x w' where rc: "sftp_reconnect B 0 w = (x, w')" by force
  have x: "x = Inr 1" "\<not> sw_closed w'" "sw_client w' = 1" using rc r
    by (auto simp: sftp_reconnect_def sftp_connect_def weighed_lib_def demo_sftp_def silent_call_def
        counted_call_def Let_def demo_root split: prod.splits)
  have "(sftp_step B)\<^sup>*\<^sup>* w w'" using ss_reconnect [OF rc] by blast
  with sftp_connections_accounted [OF new] r(1) x have "sftp_balance w' = 0" by simp
  with new r x rc show ?thesis by blast
qed

subsection \<open>Replacing a lost connection\<close>

lemma generation_succ: "(g :: 64 word) + 1 \<noteq> g"
  by simp

text \<open>
  A connection that several goroutines saw fail is replaced once: \<open>reconnect\<close> for an older
  generation opens nothing and hands out the current client; a successful replacement moves to the next
  generation, so that the same failure cannot replace it again; a failed one leaves the backend as it was;
  and a closed backend is never reconnected.
\<close>

theorem sftp_reconnect_once:
  assumes "sftp_reconnect B g w = (r, w1)"
  shows "(sw_closed w \<or> sw_generation w \<noteq> g \<longrightarrow> w1 = w) \<and>
    (\<forall>c. r = Inr c \<longrightarrow> c = sw_client w1 \<and> sw_generation w1 \<noteq> g \<and> \<not> sw_closed w1 \<and>
       sftp_reconnect B g w1 = (Inr c, w1)) \<and>
    (\<forall>e. r = Inl e \<longrightarrow> w1 = w\<lparr>sw_server := sw_server w1\<rparr> \<and> (sw_closed w \<longrightarrow> e = Sentinel NetErrClosed))"
  using assms
  by (auto simp: sftp_reconnect_def split: if_splits prod.splits sum.splits)

definition demo_sftp_backend :: "(unit, nat, nat, nat, unit, unit, nat) sftp_backend" where
  "demo_sftp_backend = \<lparr>sb_lib = demo_sftp, sb_config = demo_sftp_config, sb_root = ''/''\<rparr>"

definition demo_sftp_world :: "'s \<Rightarrow> (nat, nat, 's) sftp_world" where
  "demo_sftp_world s = \<lparr>sw_client = 0, sw_sshClient = 0, sw_generation = 0, sw_closed = False, sw_server = s\<rparr>"

theorem sftp_reconnect_once_witness:
  "\<exists>w1. sftp_reconnect demo_sftp_backend 0 (demo_sftp_world 5) = (Inr 5, w1) \<and>
        sftp_reconnect demo_sftp_backend 0 w1 = (Inr 5, w1)"
proof -
  obtain r w1 where rc: "sftp_reconnect demo_sftp_backend 0 (demo_sftp_world 5) = (r, w1)" by force
  then have "r = Inr 5"
    by (auto simp: sftp_reconnect_def demo_sftp_backend_def demo_sftp_world_def sftp_connect_def demo_sftp_def Let_def
        demo_root)
  with sftp_reconnect_once [OF rc] rc show ?thesis by blast
qed

subsection \<open>The commands that reach the server\<close>

datatype sftp_mutation =
    SMkdir string | SRmdir string | SRemove string | SRename string string | SChtimes string instant
  | SChmod string filemode | SOpenFile string int

definition sftp_logged ::
  "('n, 'k, 'c, 'h, 'g, 'v, 's) sftp_lib \<Rightarrow> ('n, 'k, 'c, 'h, 'g, 'v, 's \<times> sftp_mutation list) sftp_lib" where
  "sftp_logged L = \<lparr>
     sl_Dial = (\<lambda>h p. silent_call (sl_Dial L h p)), sl_SetDeadline = (\<lambda>n d. silent_call (sl_SetDeadline L n d)),
     sl_CloseConn = (\<lambda>n s. (sl_CloseConn L n (fst s), snd s)),
     sl_Handshake = (\<lambda>n c. silent_call (sl_Handshake L n c)), sl_CloseSSH = (\<lambda>k. silent_call (sl_CloseSSH L k)),
     sl_NewClient = (\<lambda>k. silent_call (sl_NewClient L k)), sl_CloseClient = (\<lambda>c. silent_call (sl_CloseClient L c)),
     sl_Stat = (\<lambda>c p. silent_call (sl_Stat L c p)), sl_ReadDir = (\<lambda>c p. silent_call (sl_ReadDir L c p)),
     sl_Open = (\<lambda>c p. silent_call (sl_Open L c p)),
     sl_OpenFile = (\<lambda>c p f. noted_call (SOpenFile p f) (sl_OpenFile L c p f)),
     sl_Mkdir = (\<lambda>c p. noted_call (SMkdir p) (sl_Mkdir L c p)),
     sl_RemoveDirectory = (\<lambda>c p. noted_call (SRmdir p) (sl_RemoveDirectory L c p)),
     sl_Remove = (\<lambda>c p. noted_call (SRemove p) (sl_Remove L c p)),
     sl_Rename = (\<lambda>c p q. noted_call (SRename p q) (sl_Rename L c p q)),
     sl_Chtimes = (\<lambda>c p t u. noted_call (SChtimes p t) (sl_Chtimes L c p t u)),
     sl_Chmod = (\<lambda>c p m. noted_call (SChmod p m) (sl_Chmod L c p m)),
     sl_ReadAll = (\<lambda>h. silent_call (sl_ReadAll L h)), sl_WriteAt = (\<lambda>h d off. silent_call (sl_WriteAt L h d off)),
     sl_Sync = (\<lambda>h. silent_call (sl_Sync L h)), sl_Close = (\<lambda>h. silent_call (sl_Close L h))\<rparr>"

text \<open>The commands a call may make.\<close>

fun sftp_command :: "string \<Rightarrow> vfs_call \<Rightarrow> sftp_mutation \<Rightarrow> bool" where
  "sftp_command root (COpenWrite n opt) m = (m = SOpenFile (projr (sftp_remotePath root n)) (sftp_flags opt))"
| "sftp_command root (CMkdir n) m = (m = SMkdir (projr (sftp_remotePath root n)))"
| "sftp_command root (CRemove n d) m = (m = (if d then SRmdir else SRemove) (projr (sftp_remotePath root n)))"
| "sftp_command root (CRename o_name n) m =
     (m = SRename (projr (sftp_remotePath root o_name)) (projr (sftp_remotePath root n)))"
| "sftp_command root (CSetModTime n t) m = (m = SChtimes (projr (sftp_remotePath root n)) t)"
| "sftp_command root (CSetReadOnly n b) m = (\<exists>mode. m = SChmod (projr (sftp_remotePath root n)) mode)"
| "sftp_command root _ m = False"


text \<open>
  One operation of \<open>withReconnect\<close>: a command of this kind per call of the server, so at most two,
  and at most one unless the connection was replaced in between.
\<close>

definition at_most_one :: "('m \<Rightarrow> bool) \<Rightarrow> ('s \<times> 'm list \<Rightarrow> 'a \<times> 's \<times> 'm list) \<Rightarrow> bool" where
  "at_most_one P f \<longleftrightarrow> (\<forall>s. \<exists>ms. snd (snd (f s)) = snd s @ ms \<and> length ms \<le> 1 \<and> list_all P ms)"

lemma as_unit_snd [simp]: "snd (as_unit h s) = snd (h s)"
  by (simp add: as_unit_def split: prod.splits option.splits)

lemma at_most_one_silent: "at_most_one P (silent_call f)"
  by (simp add: at_most_one_def)

lemma at_most_one_noted: "P m \<Longrightarrow> at_most_one P (noted_call m g)"
  by (auto simp: at_most_one_def intro!: exI [of _ "[m]"])

lemma at_most_one_unit: "at_most_one P (as_unit h) = at_most_one P h"
  by (simp add: at_most_one_def)

lemma at_most_one_then:
  fixes f :: "'s \<Rightarrow> (err + 'i) \<times> 's" and m :: "'i \<Rightarrow> 'm"
  shows "(\<And>i. P (m i)) \<Longrightarrow>
   at_most_one P (\<lambda>s. case silent_call f s of (Inl e, s1) \<Rightarrow> (Some e, s1) | (Inr i, s1) \<Rightarrow> noted_call (m i) (g i) s1)"
  unfolding at_most_one_def
proof
  fix s :: "'s \<times> 'm list"
  assume P: "\<And>i. P (m i)"
  obtain r s1 where s1: "silent_call f s = (r, s1)" by (metis surj_pair)
  note k = silent_callD [OF s1]
  show "\<exists>ms. snd (snd (case silent_call f s of (Inl e, s1) \<Rightarrow> (Some e, s1) | (Inr i, s1) \<Rightarrow> noted_call (m i) (g i) s1)) =
      snd s @ ms \<and> length ms \<le> 1 \<and> list_all P ms"
  proof (cases r)
    case (Inl e)
    with s1 k show ?thesis by simp
  next
    case (Inr i)
    with s1 k P show ?thesis by (intro exI [of _ "[m i]"]) simp
  qed
qed

lemma at_most_one_call:
  assumes "sftp_call f w = (r, w')" and "at_most_one P f"
  shows "\<exists>ms. sftp_balance w' = sftp_balance w @ ms \<and> length ms \<le> 1 \<and> list_all P ms \<and> sw_generation w' = sw_generation w"
proof -
  from assms(2) obtain ms where ms: "snd (snd (f (sw_server w))) = snd (sw_server w) @ ms" "length ms \<le> 1" "list_all P ms"
    unfolding at_most_one_def by blast
  have "w' = w\<lparr>sw_server := snd (f (sw_server w))\<rparr>" using assms(1) by (auto simp: sftp_call_def split: prod.splits)
  with ms show ?thesis by auto
qed

lemma connect_silent: "sftp_connect (sftp_logged L) config s = (r, s') \<Longrightarrow> snd s' = snd s"
  by (auto simp: sftp_connect_def sftp_logged_def Let_def dest!: silent_callD
      split: prod.splits sum.splits option.splits if_splits)

lemma reconnect_silent:
  assumes "sftp_reconnect B g w = (r, w')" and "sb_lib B = sftp_logged L"
  shows "sftp_balance w' = sftp_balance w \<and> (\<forall>c. r = Inr c \<longrightarrow> \<not> sw_closed w \<longrightarrow> sw_generation w = g \<longrightarrow> sw_generation w' \<noteq> sw_generation w)"
  using assms
  by (auto simp: sftp_reconnect_def dest!: connect_silent split: prod.splits sum.splits if_splits)
     (auto simp: sftp_logged_def)

lemma withReconnect_log:
  assumes run: "withReconnect B operation w = (r, w')" and L: "sb_lib B = sftp_logged L"
    and op: "\<And>c. at_most_one P (operation c)"
  shows "\<exists>ms. sftp_balance w' = sftp_balance w @ ms \<and> length ms \<le> 2 \<and> list_all P ms \<and>
    (sw_generation w' = sw_generation w \<longrightarrow> length ms \<le> 1)"
proof (cases "sw_closed w")
  case True
  with run show ?thesis by (auto simp: withReconnect_def sftp_session_def)
next
  case open_: False
  obtain a w1 where o1: "sftp_call (operation (sw_client w)) w = (a, w1)" by force
  from at_most_one_call [OF o1 op] obtain m1 where
    m1: "sftp_balance w1 = sftp_balance w @ m1" "length m1 \<le> 1" "list_all P m1" "sw_generation w1 = sw_generation w" by blast
  have cl: "sw_closed w1 = sw_closed w" using o1 by (auto simp: sftp_call_def split: prod.splits)
  obtain c w2 where rc: "sftp_reconnect B (sw_generation w) w1 = (c, w2)" by force
  note sil = reconnect_silent [OF rc L]
  show ?thesis
  proof (cases "(\<exists>e. a = Inl e \<and> sftp_isConnectionError e) \<and> (\<exists>c2. c = Inr c2)")
    case False
    then have "w' = w1 \<or> w' = w2" using run open_ o1 rc
      by (auto simp: withReconnect_def sftp_session_def split: sum.splits if_splits)
    then have "sftp_balance w' = sftp_balance w @ m1" using m1(1) sil by auto
    with m1 show ?thesis by (intro exI [of _ m1]) simp
  next
    case True
    then obtain c2 where c2: "c = Inr c2" by blast
    with True have o2: "sftp_call (operation c2) w2 = (r, w')" using run open_ o1 rc
      by (auto simp: withReconnect_def sftp_session_def)
    from at_most_one_call [OF o2 op] obtain m2 where
      m2: "sftp_balance w' = sftp_balance w2 @ m2" "length m2 \<le> 1" "list_all P m2" "sw_generation w' = sw_generation w2" by blast
    have "sw_generation w2 \<noteq> sw_generation w" using sil c2 m1(4) cl open_ by auto
    with m1 m2 sil show ?thesis by (intro exI [of _ "m1 @ m2"]) auto
  qed
qed

lemma map_prod_pairD: "map_prod f (\<lambda>w. w) p = (r, w') \<Longrightarrow> \<exists>a. p = (a, w')"
  by (cases p) auto

lemma map_prod_idD: "map_prod f id p = (r, w') \<Longrightarrow> \<exists>a. p = (a, w')"
  by (cases p) auto

lemma only_errorD: "only_error p = (r, w') \<Longrightarrow> \<exists>a. p = (a, w') \<and> (r = None \<longleftrightarrow> (\<exists>b. a = Inr b))"
  by (cases p) (auto simp: only_error_def split: sum.splits)

lemma call_runs:
  fixes B :: "('n, 'k, 'c, 'h, 'g, 'v, 's \<times> sftp_mutation list) sftp_backend"
  assumes "vfs_run (sftp_backend_ops B) x c w = (r, w')" and L: "sb_lib B = sftp_logged L"
  shows "\<exists>ms. sftp_balance w' = sftp_balance w @ ms \<and> length ms \<le> 2 \<and> list_all (sftp_command (sb_root B) c) ms \<and>
    (sw_generation w' = sw_generation w \<longrightarrow> length ms \<le> 1)"
proof -
  let ?P = "sftp_command (sb_root B) c"
  note ones = at_most_one_silent at_most_one_noted at_most_one_unit at_most_one_then
  note ops = sftp_backend_ops_def L sftp_logged_def
  consider (stay) "w' = w" | (run) operation a where "withReconnect B operation w = (a :: err + 'h, w')" "\<And>c. at_most_one ?P (operation c)"
    | (bytes) operation a where "withReconnect B operation w = (a :: err + sftp_info, w')" "\<And>c. at_most_one ?P (operation c)"
    | (many) operation a where "withReconnect B operation w = (a :: err + sftp_info list, w')" "\<And>c. at_most_one ?P (operation c)"
    | (unit) operation a where "withReconnect B operation w = (a :: err + unit, w')" "\<And>c. at_most_one ?P (operation c)"
  proof (cases c)
    case (CStat n)
    with assms(1) that(1) that(3) [of "\<lambda>c. sl_Stat (sb_lib B) c (projr (sftp_remotePath (sb_root B) n))"] show ?thesis
      by (auto simp: ops sftp_Stat_def ones dest!: map_prod_idD map_prod_pairD split: option.splits sum.splits)
  next
    case (CReadDir n)
    with assms(1) that(1) that(4) [of "\<lambda>c. sl_ReadDir (sb_lib B) c (projr (sftp_remotePath (sb_root B) n))"] show ?thesis
      by (auto simp: ops sftp_ReadDir_def ones dest!: map_prod_idD map_prod_pairD split: option.splits sum.splits)
  next
    case (COpenRead n)
    with assms(1) that(1) that(2) [of "\<lambda>c. sl_Open (sb_lib B) c (projr (sftp_remotePath (sb_root B) n))"] show ?thesis
      by (auto simp: ops sftp_OpenRead_def ones map_prod_def split: option.splits sum.splits prod.splits)
  next
    case (COpenWrite n opt)
    with assms(1) that(1) that(2) [of "\<lambda>c. sl_OpenFile (sb_lib B) c (projr (sftp_remotePath (sb_root B) n)) (sftp_flags opt)"]
    show ?thesis
      by (auto simp: ops sftp_OpenWrite_def ones map_prod_def split: option.splits sum.splits prod.splits)
  next
    case (CMkdir n)
    with assms(1) that(1) that(5) [of "\<lambda>c. as_unit (sl_Mkdir (sb_lib B) c (projr (sftp_remotePath (sb_root B) n)))"] show ?thesis
      by (auto simp: ops sftp_Mkdir_def sftp_mutate_def ones dest!: only_errorD split: option.splits sum.splits)
  next
    case (CRemove n d)
    with assms(1) that(1) that(5) [of "\<lambda>c. as_unit ((if d then sl_RemoveDirectory (sb_lib B) else sl_Remove (sb_lib B)) c
        (projr (sftp_remotePath (sb_root B) n)))"] show ?thesis
      by (cases d) (auto simp: ops sftp_Remove_def sftp_mutate_def ones dest!: only_errorD split: option.splits sum.splits)
  next
    case (CRename m n)
    with assms(1) that(1) that(5) [of "\<lambda>c. as_unit (sl_Rename (sb_lib B) c (projr (sftp_remotePath (sb_root B) m))
        (projr (sftp_remotePath (sb_root B) n)))"] show ?thesis
      by (auto simp: ops sftp_Rename_def ones dest!: only_errorD split: option.splits sum.splits)
  next
    case (CSetModTime n t)
    with assms(1) that(1) that(5) [of "\<lambda>c. as_unit (sl_Chtimes (sb_lib B) c (projr (sftp_remotePath (sb_root B) n)) t t)"] show ?thesis
      by (auto simp: ops sftp_SetModTime_def sftp_mutate_def ones dest!: only_errorD split: option.splits sum.splits)
  next
    case (CSetReadOnly n b)
    let ?op = "\<lambda>p c s. case sl_Stat (sb_lib B) c p s of
        (Inl e, s1) \<Rightarrow> (Some e, s1)
      | (Inr info, s1) \<Rightarrow> sl_Chmod (sb_lib B) c p (modeWithReadOnly (si_Mode info) b) s1"
    show ?thesis
    proof (cases "x = None \<and> (\<exists>p. sftp_remotePath (sb_root B) n = Inr p)")
      case False
      with assms(1) CSetReadOnly that(1) show ?thesis
        by (auto simp: sftp_backend_ops_def sftp_SetReadOnly_def sftp_mutate_def split: option.splits sum.splits)
    next
      case True
      then obtain p where p: "x = None" "sftp_remotePath (sb_root B) n = Inr p" by blast
      then obtain a where run: "withReconnect B (\<lambda>c. as_unit (?op p c)) w = (a, w')" using assms(1) CSetReadOnly
        by (auto simp: sftp_backend_ops_def sftp_SetReadOnly_def sftp_mutate_def dest!: only_errorD)
      have "at_most_one ?P (as_unit (?op p c))" for c
      proof -
        have "?op p c = (\<lambda>s. case silent_call (sl_Stat L c p) s of (Inl e, s1) \<Rightarrow> (Some e, s1)
            | (Inr i, s1) \<Rightarrow> noted_call (SChmod p (modeWithReadOnly (si_Mode i) b))
                (sl_Chmod L c p (modeWithReadOnly (si_Mode i) b)) s1)"
          by (rule ext) (simp add: L sftp_logged_def split: prod.splits sum.splits)
        then show ?thesis unfolding at_most_one_unit by (simp only:) (rule at_most_one_then, simp add: CSetReadOnly p)
      qed
      with run show ?thesis by (rule that(5))
    qed
  qed
  then show ?thesis
  proof cases
    case stay
    then show ?thesis by auto
  qed (rule withReconnect_log [OF _ L]; assumption)+
qed


text \<open>
  How often a call of the SFTP backend reaches the server: at most twice, with no command but its own
  and on the path below the root that its name maps to; the second time only after its connection was
  lost and replaced. Unlike the FTP backend, this one therefore does repeat a mutation whose reply was
  lost (the witness creates a folder twice).
\<close>

theorem sftp_commands_bounded:
  assumes "vfs_run (sftp_backend_ops B) x c w = (r, w')" and "sb_lib B = sftp_logged L"
  shows "\<exists>ms. sftp_balance w' = sftp_balance w @ ms \<and> length ms \<le> 2 \<and> list_all (sftp_command (sb_root B) c) ms \<and>
    (sw_generation w' = sw_generation w \<longrightarrow> length ms \<le> 1)"
  using assms by (rule call_runs)

definition logged_demo :: "(unit, nat, nat, nat, unit, unit, nat \<times> sftp_mutation list) sftp_backend" where
  "logged_demo = \<lparr>sb_lib = sftp_logged demo_sftp, sb_config = demo_sftp_config, sb_root = ''/''\<rparr>"

theorem sftp_commands_bounded_witness:
  "\<exists>w'. vfs_run (sftp_backend_ops logged_demo) None (CMkdir ''a'') (demo_sftp_world (5, [])) = (None, w') \<and>
        sftp_balance w' = [SMkdir ''/a'', SMkdir ''/a''] \<and> list_all (sftp_command ''/'' (CMkdir ''a'')) (sftp_balance w')"
proof -
  let ?w = "demo_sftp_world (5 :: nat, [] :: sftp_mutation list)"
  obtain r w' where run: "vfs_run (sftp_backend_ops logged_demo) None (CMkdir ''a'') ?w = (r, w')" by (metis surj_pair)
  have r: "r = None" "sftp_balance w' = [SMkdir ''/a'', SMkdir ''/a'']"
    using run
    by (auto simp: sftp_backend_ops_def logged_demo_def sftp_Mkdir_def sftp_mutate_def demo_root withReconnect_def
        sftp_session_def demo_sftp_world_def sftp_call_def as_unit_def sftp_logged_def demo_sftp_def noted_call_def
        silent_call_def only_error_def sftp_isConnectionError_def sftp_reconnect_def sftp_connect_def Let_def sentinel_is_def)
  have L: "sb_lib logged_demo = sftp_logged demo_sftp" by (simp add: logged_demo_def)
  from sftp_commands_bounded [OF run L] r have "list_all (sftp_command ''/'' (CMkdir ''a'')) (sftp_balance w')"
    by (auto simp: demo_sftp_world_def logged_demo_def)
  with run r show ?thesis by blast
qed

subsection \<open>The read-only attribute\<close>

lemma modeWithReadOnly_bits:
  "modeWithReadOnly m True AND 0x92 = 0" "modeWithReadOnly m False AND 0x80 = 0x80"
  "modeWithReadOnly m ro AND NOT 0x92 = m AND 0x1FF AND NOT 0x92"
  by (cases ro; simp add: modeWithReadOnly_def ModePerm_def and.assoc bit.conj_disj_distrib2)+

end
