(* ===== verification/Recovery_Path.thy ===== *)
theory Recovery_Path
  imports Remote_Path
begin

text \<open>
  The path of a file between the mounted drive, the recovery metadata and the retry:
  \<open>cleanMountPath\<close> and \<open>recoveryRemotePath\<close> of
  \<^verbatim>\<open>internal/mount/gofs_windows.go\<close>; \<open>RelativePath\<close>, \<open>cleanAbsolute\<close> and
  \<open>AlternatePath\<close> of \<^verbatim>\<open>internal/recovery/retry.go\<close>.
\<close>

definition cleanMountPath :: "string \<Rightarrow> string" where
  "cleanMountPath name =
     (let name = TrimPrefix (path_Clean (''/'' @ ReplaceBackslashes name)) ''/''
      in if name = '''' then ''.'' else name)"

definition recoveryRemotePath :: "string \<Rightarrow> string \<Rightarrow> string" where
  "recoveryRemotePath root name = path_Join [''/'', TrimPrefix root ''/'', cleanMountPath name]"

definition cleanAbsolute :: "string \<Rightarrow> string" where
  "cleanAbsolute v = path_Clean (''/'' @ TrimPrefix (ReplaceBackslashes v) ''/'')"

definition RelativePath :: "string \<Rightarrow> string \<Rightarrow> err + string" where
  "RelativePath profileRoot preservedPath =
     (let root = cleanAbsolute profileRoot; preserved = cleanAbsolute preservedPath
      in if preserved = ''/'' then Inl (ErrNew ''not a file'')
         else if root \<noteq> ''/'' \<and> preserved \<noteq> root \<and> \<not> HasPrefix preserved (root @ ''/'')
         then Inl (ErrNew ''outside the profile root'')
         else let relative = TrimPrefix (TrimPrefix preserved root) ''/''
              in if relative = '''' \<or> relative = ''.'' then Inl (ErrNew ''not a file'') else Inr relative)"

text \<open>The stamp is \<open>at.Format("20060102-150405")\<close>.\<close>

definition AlternatePath :: "string \<Rightarrow> string \<Rightarrow> string" where
  "AlternatePath remotePath stamp =
     (let remotePath = ReplaceBackslashes remotePath;
          (directory, filename) = path_Split remotePath;
          extension = path_Ext filename;
          base = TrimSuffix filename extension;
          base = (if base = '''' then ''recovered'' else base)
      in path_Join [directory, base @ ''.recovered-'' @ stamp @ extension])"

subsection \<open>What they compute\<close>

lemma cleanMountPath_eq: "cleanMountPath n = (if name_comps n = [] then ''.'' else strings_Join (name_comps n) ''/'')"
proof -
  have "TrimPrefix (path_Clean (slash # ReplaceBackslashes n)) ''/'' = strings_Join (name_comps n) ''/''"
    by (simp add: path_Clean_rooted TrimPrefix_abs name_comps_def)
  then show ?thesis
    using Join_plain_no_slash_end(1) [OF name_comps_plain, of n] by (simp add: cleanMountPath_def Let_def)
qed

lemma cleanAbsolute_eq: "cleanAbsolute v = abs_path (name_comps v)"
  by (simp add: cleanAbsolute_def path_Clean_rooted comps_TrimPrefix name_comps_def)

text \<open>Components only hold characters of the string they come from.\<close>

lemma clean_step_subset: "set (clean_step True st p) \<subseteq> insert p (set st)"
  by (auto simp: clean_step_def dest: in_set_butlastD)

lemma norm_subset: "set (norm cs) \<subseteq> set cs"
proof -
  have "set (foldl (clean_step True) st cs) \<subseteq> set st \<union> set cs" for st
  proof (induction cs arbitrary: st)
    case (Cons c cs)
    from Cons [of "clean_step True st c"] clean_step_subset [of st c] show ?case by auto
  qed simp
  from this [of "[]"] show ?thesis by (simp add: norm_def)
qed

lemma Split_subset: "p \<in> set (Split s sep) \<Longrightarrow> set p \<subseteq> set s"
  by (induction s arbitrary: p) (force split: list.splits if_splits)+

lemma comps_chars: "p \<in> set (comps s) \<Longrightarrow> set p \<subseteq> set s"
  using norm_subset [of "Split s slash"] Split_subset unfolding comps_def by blast

lemma Join_chars: "set (strings_Join ps sep) \<subseteq> (\<Union>p \<in> set ps. set p) \<union> set sep"
  by (induction ps sep rule: strings_Join.induct) auto

lemma name_comps_no_backslash: "p \<in> set (name_comps n) \<Longrightarrow> backslash \<notin> set p"
  using comps_chars [of p "ReplaceBackslashes n"] by (auto simp: name_comps_def)

lemma name_comps_abs_path:
  assumes "list_all plain ps" and "\<forall>p \<in> set ps. backslash \<notin> set p"
  shows "name_comps (abs_path ps) = ps"
proof -
  have "backslash \<notin> set (abs_path ps)"
    using assms(2) Join_chars [of ps "''/''"] by (auto simp: abs_path_def)
  with assms(1) show ?thesis by (simp add: name_comps_def Replace_id comps_abs_path)
qed

lemma name_comps_Join:
  assumes "list_all plain ps" and "\<forall>p \<in> set ps. backslash \<notin> set p"
  shows "name_comps (strings_Join ps ''/'') = ps"
proof -
  have "backslash \<notin> set (strings_Join ps ''/'')"
    using assms(2) Join_chars [of ps "''/''"] by auto
  with assms(1) show ?thesis by (simp add: name_comps_def Replace_id comps_Join)
qed

lemma recoveryRemotePath_eq: "recoveryRemotePath root name = abs_path (comps root @ name_comps name)"
proof -
  let ?t = "TrimPrefix root ''/''" and ?c = "cleanMountPath name"
  have "path_Join [''/'', ?t, ?c] = path_Clean (slash # (slash # ?t) @ slash # ?c)"
    by (simp add: path_Join_def)
  also have "\<dots> = abs_path (norm (comps ?t @ Split ?c slash))"
    by (simp only: path_Clean_rooted comps_append_slash comps_slash)
  also have "norm (comps ?t @ Split ?c slash) = comps root @ name_comps name"
  proof (cases "name_comps name = []")
    case True
    then show ?thesis
      using norm_plain_id [OF comps_plain, of root]
      by (simp add: cleanMountPath_eq comps_TrimPrefix norm_def clean_step_skip)
  next
    case False
    have "Split ?c slash = name_comps name"
      using Split_Join [OF False plain_no_slash [OF name_comps_plain]] False by (simp add: cleanMountPath_eq)
    then show ?thesis
      by (simp add: comps_TrimPrefix norm_append_plain norm_plain_id [OF comps_plain])
  qed
  finally show ?thesis by (simp add: recoveryRemotePath_def)
qed

lemma RelativePath_eq:
  "RelativePath r p =
    (let rs = name_comps r; ps = name_comps p
     in if ps = [] then Inl (ErrNew ''not a file'')
        else if \<not> prefix rs ps then Inl (ErrNew ''outside the profile root'')
        else if ps = rs then Inl (ErrNew ''not a file'')
        else Inr (strings_Join (drop (length rs) ps) ''/''))"
proof -
  let ?rs = "name_comps r" and ?ps = "name_comps p"
  have root: "abs_path qs = ''/'' \<longleftrightarrow> qs = []" if "list_all plain qs" for qs
    using abs_path_inj [OF that, of "[]"] by (simp add: abs_path_def)
  show ?thesis
  proof (cases "?ps = []")
    case True
    then show ?thesis by (simp add: RelativePath_def cleanAbsolute_eq root Let_def)
  next
    case ps: False
    show ?thesis
    proof (cases "prefix ?rs ?ps")
      case False
      then have "?rs \<noteq> []" "?ps \<noteq> ?rs" by auto
      moreover have "\<not> HasPrefix (abs_path ?ps) (abs_path ?rs @ ''/'')"
        using below_iff [of ?rs ?ps] False \<open>?rs \<noteq> []\<close> by (auto simp: HasPrefix_def)
      ultimately show ?thesis using ps False
        by (simp add: RelativePath_def cleanAbsolute_eq root Let_def abs_path_inj)
    next
      case True
      then obtain qs where qs: "?ps = ?rs @ qs" by (auto simp: prefix_def)
      have pl: "list_all plain qs" using name_comps_plain [of p] qs by simp
      have rel: "TrimPrefix (TrimPrefix (abs_path ?ps) (abs_path ?rs)) ''/'' = strings_Join qs ''/''"
      proof (cases "?rs = []")
        case True
        then show ?thesis
          using qs ps Join_plain_no_slash_end(3) [OF pl]
          by (cases "strings_Join qs ''/''") (auto simp: TrimPrefix_abs TrimPrefix_slash abs_path_def)
      next
        case False
        then show ?thesis using qs
          by (cases "qs = []") (simp_all add: abs_path_append TrimPrefix_append TrimPrefix_slash TrimPrefix_append [of _ "[]", simplified])
      qed
      have below: "\<not> (?rs \<noteq> [] \<and> ?ps \<noteq> ?rs \<and> \<not> HasPrefix (abs_path ?ps) (abs_path ?rs @ ''/''))"
      proof
        assume a: "?rs \<noteq> [] \<and> ?ps \<noteq> ?rs \<and> \<not> HasPrefix (abs_path ?ps) (abs_path ?rs @ ''/'')"
        with qs have "qs \<noteq> []" by auto
        with below_iff [OF name_comps_plain name_comps_plain, of r p] a qs
        have "prefix (abs_path ?rs @ ''/'') (abs_path ?ps)" by blast
        with a show False by (simp add: HasPrefix_def)
      qed
      have "strings_Join qs ''/'' = '''' \<or> strings_Join qs ''/'' = ''.'' \<longleftrightarrow> qs = []"
      proof -
        have "strings_Join qs ''/'' \<noteq> ''.''" if "qs \<noteq> []"
        proof
          assume "strings_Join qs ''/'' = ''.''"
          with Split_Join [OF that plain_no_slash [OF pl]] have "qs = [''.'']" by simp
          with pl show False by (simp add: plain_def)
        qed
        with Join_plain_no_slash_end(1) [OF pl] show ?thesis by auto
      qed
      moreover have "qs = [] \<longleftrightarrow> ?ps = ?rs" "qs = drop (length ?rs) ?ps" using qs by auto
      ultimately have "strings_Join (drop (length ?rs) ?ps) ''/'' = '''' \<or>
          strings_Join (drop (length ?rs) ?ps) ''/'' = ''.'' \<longleftrightarrow> ?ps = ?rs"
        "TrimPrefix (TrimPrefix (abs_path ?ps) (abs_path ?rs)) ''/'' = strings_Join (drop (length ?rs) ?ps) ''/''"
        using rel by simp_all
      moreover have "\<not> (abs_path ?rs \<noteq> ''/'' \<and> abs_path ?ps \<noteq> abs_path ?rs \<and>
          \<not> HasPrefix (abs_path ?ps) (abs_path ?rs @ ''/''))"
        using below by (simp add: root abs_path_inj)
      moreover have "abs_path ?ps \<noteq> ''/''" using ps by (simp add: root)
      ultimately show ?thesis using ps True
        unfolding RelativePath_def cleanAbsolute_eq Let_def by (simp only: if_False if_True not_True_eq_False)
    qed
  qed
qed

text \<open>
  A retry goes to the file the failed upload was meant for: the path that the mount stores in the
  recovery metadata (for a profile root written with slashes) leads \<open>RelativePath\<close> back to a name
  that every protocol maps to the same remote path as the name of the mounted drive.
\<close>

theorem recovery_path_roundtrip:
  assumes "backslash \<notin> set root" and "name_comps name \<noteq> []"
  shows "RelativePath root (recoveryRemotePath root name) = Inr (cleanMountPath name) \<and>
    ftp_remotePath (ftp_normalizeRoot root) (cleanMountPath name) =
      Inr (abs_path (comps (ftp_normalizeRoot root) @ name_comps name)) \<and>
    sftp_remotePath (sftp_normalizeRoot root) (cleanMountPath name) =
      Inr (abs_path (comps (sftp_normalizeRoot root) @ name_comps name)) \<and>
    webdav_resourcePath (webdav_normalizeRoot root) (cleanMountPath name) =
      Inr (abs_path (comps (webdav_normalizeRoot root) @ name_comps name))"
proof -
  have nb: "\<forall>p \<in> set (comps root @ name_comps name). backslash \<notin> set p"
    using assms(1) comps_chars name_comps_no_backslash by fastforce
  have 1: "name_comps (recoveryRemotePath root name) = comps root @ name_comps name"
    unfolding recoveryRemotePath_eq by (rule name_comps_abs_path) (use nb in auto)
  have 2: "name_comps root = comps root" using assms(1) by (simp add: name_comps_def Replace_id)
  have c: "cleanMountPath name = strings_Join (name_comps name) ''/''" using assms(2) by (simp add: cleanMountPath_eq)
  have "backslash \<notin> set (cleanMountPath name)"
    using c nb Join_chars [of "name_comps name" "''/''"] by auto
  then have rep: "ReplaceBackslashes (cleanMountPath name) = cleanMountPath name" by (rule Replace_id)
  have nd: "\<not> has_dotdot (ReplaceBackslashes (cleanMountPath name))"
    using name_comps_plain [of name] assms(2) unfolding rep
    by (auto simp: c has_dotdot_def Split_Join plain_no_slash list_ex_iff list_all_iff plain_def)
  have nc: "name_comps (strings_Join (name_comps name) ''/'') = name_comps name"
    by (rule name_comps_Join) (use nb in auto)
  show ?thesis
    using ftp.mapped [OF nd, of root] sftp.mapped [OF nd, of root] dav.mapped [OF nd, of root] assms(2)
    by (simp add: RelativePath_eq 1 2 Let_def c nc)
qed

theorem recovery_path_roundtrip_witness:
  "RelativePath ''/data/'' (recoveryRemotePath ''/data/'' [CHR ''d'', backslash, CHR ''f'']) = Inr ''d/f''"
proof -
  have "cleanMountPath [CHR ''d'', backslash, CHR ''f''] = ''d/f''" by code_simp
  moreover have "backslash \<notin> set ''/data/''" "name_comps [CHR ''d'', backslash, CHR ''f''] \<noteq> []" by code_simp+
  ultimately show ?thesis using recovery_path_roundtrip by metis
qed

text \<open>
  A root that mixes backslashes with \<open>..\<close> is read differently by the two sides: the preserved path is
  then reported outside the profile's own root.
\<close>

lemma recovery_root_backslash:
  "RelativePath [CHR ''a'', backslash, CHR ''b'', slash, CHR ''.'', CHR ''.'']
     (recoveryRemotePath [CHR ''a'', backslash, CHR ''b'', slash, CHR ''.'', CHR ''.''] ''f'')
   = Inl (ErrNew ''outside the profile root'')"
  by code_simp

end
