(* ===== verification/Recovery.thy ===== *)
theory Recovery
  imports Recovery_Path Cache_Store Vfs_Writer
begin

text \<open>
  \<^verbatim>\<open>internal/recovery/retry.go\<close>: comparing a preserved file with the remote one, and publishing
  it. The local files are those of the cache store; the backend is any record of operations.
\<close>

definition timestampTolerance :: duration where "timestampTolerance = 2 * second"

datatype remote_state = RemoteMissing | RemoteSame | RemoteConflict

text \<open>The negation is that of \<open>int64\<close>, so the smallest duration stays negative.\<close>

definition withinTolerance :: "instant \<Rightarrow> instant \<Rightarrow> bool" where
  "withinTolerance left right =
     (let difference = time_Sub left right;
          difference = (if difference < 0 then i64 (- difference) else difference)
      in difference \<le> timestampTolerance)"

definition Inspect ::
  "store \<Rightarrow> recovery_item \<Rightarrow> lfs \<Rightarrow> ('w, 'r, 'h) backend \<Rightarrow> ctx \<Rightarrow> string \<Rightarrow> 'w
     \<Rightarrow> (remote_state \<times> entry \<times> err option) \<times> 'w" where
  "Inspect st item fs b x remotePath w =
     (case OpenRecovery st item fs of
        Inl e \<Rightarrow> ((RemoteConflict, zero_entry, Some e), w)
      | Inr (file, localInfo) \<Rightarrow>
          (case file_Close file fs of
             Some e \<Rightarrow> ((RemoteConflict, zero_entry, Some (Wrapped ''close cache file'' e)), w)
           | None \<Rightarrow>
               (case b_Stat b x remotePath w of
                  (Inl e, w1) \<Rightarrow>
                    if errors_Is e ErrNotExist then ((RemoteMissing, zero_entry, None), w1)
                    else ((RemoteConflict, zero_entry, Some (Wrapped ''remote file'' e)), w1)
                | (Inr en, w1) \<Rightarrow>
                    if entry_IsDir en then ((RemoteConflict, en, Some (ErrNew ''folder at the remote path'')), w1)
                    else
                      let localTime = rm_UpdatedAt (ri_Metadata item);
                          localTime = (if time_IsZero localTime then fi_ModTime localInfo else localTime)
                      in if e_Size en = fi_Size localInfo \<and> \<not> time_IsZero localTime \<and>
                            \<not> time_IsZero (e_ModTime en) \<and> withinTolerance localTime (e_ModTime en)
                         then ((RemoteSame, en, None), w1)
                         else ((RemoteConflict, en, None), w1))))"

subsection \<open>Uploading\<close>

definition chunk_size :: nat where "chunk_size = 256 * 1024"

text \<open>
  The copy loop of \<open>Upload\<close>: the first error, before the writer is closed. Every round that goes on
  has read a full chunk, so the distance to the end shrinks.
\<close>

function upload_chunks ::
  "('w, 'r, 'h) backend \<Rightarrow> 'h \<Rightarrow> string \<Rightarrow> nat \<Rightarrow> lfs \<Rightarrow> nat \<Rightarrow> 'w \<Rightarrow> err option \<times> 'w" where
  "upload_chunks b h file n fs off w =
     (if off < n
      then let want = min chunk_size (n - off)
           in case file_ReadAt file want off fs of
                (data, readErr) \<Rightarrow>
                  if (\<exists>e \<in> set_option readErr. errors_Is e EOF) \<and> length data \<noteq> want
                  then (Some (Wrapped ''read cache'' (Sentinel ErrUnexpectedEOF)), w)
                  else case readErr of
                         Some e \<Rightarrow> (Some (Wrapped ''read cache'' e), w)
                       | None \<Rightarrow>
                           (case h_WriteAt b h data (int off) w of
                              ((written, Some e), w1) \<Rightarrow> (Some (Wrapped ''remote write'' e), w1)
                            | ((written, None), w1) \<Rightarrow>
                                if written \<noteq> length data then (Some (Sentinel ErrShortWrite), w1)
                                else upload_chunks b h file n fs (off + length data) w1)
      else (None, w))"
  by pat_completeness auto
termination
  by (relation "measure (\<lambda>(b, h, p, n, fs, off, w). n - off)")
     (auto dest!: ReadAt_full [OF sym] simp: chunk_size_def)

declare upload_chunks.simps [simp del]

definition syncAndClose :: "('w, 'r, 'h) backend \<Rightarrow> 'h \<Rightarrow> 'w \<Rightarrow> err option \<times> 'w" where
  "syncAndClose b h w =
     (case h_Sync b h w of
        (syncErr, w1) \<Rightarrow>
          (case h_Close b h w1 of
             (closeErr, w2) \<Rightarrow>
               (errors_Join [syncErr,
                  case (syncErr, closeErr) of
                    (Some s, Some c) \<Rightarrow> if err_Error s = err_Error c then None else closeErr
                  | _ \<Rightarrow> closeErr], w2)))"

definition Upload ::
  "store \<Rightarrow> recovery_item \<Rightarrow> lfs \<Rightarrow> ('w, 'r, 'h) backend \<Rightarrow> ctx \<Rightarrow> string \<Rightarrow> 'w
     \<Rightarrow> (entry \<times> err option) \<times> 'w" where
  "Upload st item fs b x remotePath w =
     (case OpenRecovery st item fs of
        Inl e \<Rightarrow> ((zero_entry, Some e), w)
      | Inr (file, info) \<Rightarrow>
          (case b_OpenWrite b x remotePath (fresh_write (fi_Mode info)) w of
             (Inl e, w1) \<Rightarrow> ((zero_entry, Some (Wrapped ''start of the retry'' e)), w1)
           | (Inr writer, w1) \<Rightarrow>
               (case upload_chunks b writer file (nat (fi_Size info)) fs 0 w1 of
                  (Some e, w2) \<Rightarrow>
                    (case h_Close b writer w2 of
                       (closeErr, w3) \<Rightarrow> ((zero_entry, errors_Join [Some e, closeErr]), w3))
                | (None, w2) \<Rightarrow>
                    (case syncAndClose b writer w2 of
                       (Some e, w3) \<Rightarrow> ((zero_entry, Some (Wrapped ''publish the retry'' e)), w3)
                     | (None, w3) \<Rightarrow>
                         (case b_Stat b x remotePath w3 of
                            (Inl e, w4) \<Rightarrow> ((zero_entry, Some (Wrapped ''check of the retry'' e)), w4)
                          | (Inr en, w4) \<Rightarrow>
                              if entry_IsDir en \<or> e_Size en \<noteq> fi_Size info
                              then ((en, Some (ErrNew ''size of the retry differs'')), w4)
                              else ((en, None), w4))))))"

end
