(* ===== verification/Recovery_Facts.thy ===== *)
theory Recovery_Facts
  imports Recovery Cache_Facts
begin

text \<open>
  What the comparison and the retry promise: when a remote file counts as the same, and that a retry that
  reports success has published exactly the preserved bytes, over any backend whose writers keep the
  contract of \<^theory_text>\<open>Vfs_Writer\<close>.
\<close>

subsection \<open>The comparison\<close>

lemma withinTolerance_iff:
  "withinTolerance a b \<longleftrightarrow> \<bar>a - b\<bar> \<le> 2 * second \<or> a - b \<le> min_i64"
proof -
  have neg: "i64 (- d) = (if d = min_i64 then min_i64 else - d)" if "min_i64 \<le> d" "d < 0" for d
    using that by (auto simp: i64_def min_i64_def)
  consider "a - b \<le> min_i64" | "min_i64 < a - b" "a - b < 0" | "0 \<le> a - b" "a - b \<le> max_i64" | "max_i64 < a - b" by linarith
  then show ?thesis
  proof cases
    case 1
    then have "time_Sub a b = min_i64" by (simp add: time_Sub_def min_i64_def max_i64_def)
    with 1 show ?thesis by (simp add: withinTolerance_def Let_def neg) (simp add: timestampTolerance_def second_def min_i64_def)
  next
    case 2
    then have "time_Sub a b = a - b" by (simp add: time_Sub_def min_i64_def max_i64_def)
    with 2 neg [of "a - b"] show ?thesis by (auto simp: withinTolerance_def Let_def timestampTolerance_def)
  next
    case 3
    then have "time_Sub a b = a - b" by (simp add: time_Sub_def min_i64_def max_i64_def)
    with 3 show ?thesis by (auto simp: withinTolerance_def Let_def timestampTolerance_def min_i64_def)
  next
    case 4
    then have "time_Sub a b = max_i64" by (simp add: time_Sub_def min_i64_def max_i64_def)
    with 4 show ?thesis
      by (auto simp: withinTolerance_def Let_def timestampTolerance_def min_i64_def max_i64_def second_def)
  qed
qed

lemma OpenRecovery_file:
  assumes "OpenRecovery st item fs = Inr (p, info)"
  shows "\<exists>d t s. fs_get fs p = Some (Reg d t s) \<and> info = node_info (Reg d t s) \<and>
    safeStagingPath st fs (rm_StagingPath (ri_Metadata item)) = Inr p"
proof -
  from assms obtain q where q: "safeStagingPath st fs (rm_StagingPath (ri_Metadata item)) = Inr q"
    and l: "os_Lstat q fs = Inr info" "\<not> unsafe_mode info" "q = p"
    by (auto simp: OpenRecovery_def split: if_splits sum.splits)
  then obtain n where n: "fs_get fs p = Some n" "info = node_info n"
    by (auto simp: os_Lstat_def split: option.splits)
  with l(2) q l(3) show ?thesis
    by (cases n) (auto simp: unsafe_mode_def mode_IsSymlink_def mode_IsRegular_def ModeSymlink_def ModeType_def ModeDir_def)
qed

text \<open>
  What the comparison before a retry decides. The remote file counts as the same exactly when the
  server has a file of the same size and a known modification time that differs from the preserved one
  by at most two seconds, or lies so far after it (292 years) that the negated difference overflows;
  it counts as missing exactly when the server says so; everything else, every error included, is a
  conflict.
\<close>

theorem inspect_decides:
  assumes "OpenRecovery st item fs = Inr (p, info)" and "file_Close p fs = None"
    and "Inspect st item fs b x remote w = ((state, en, e), w')"
    and "b_Stat b x remote w = (answer, w1)"
    and "pt = (if time_IsZero (rm_UpdatedAt (ri_Metadata item)) then fi_ModTime info else rm_UpdatedAt (ri_Metadata item))"
  shows "w' = w1 \<and>
    (state = RemoteMissing \<longleftrightarrow> (\<exists>se. answer = Inl se \<and> errors_Is se ErrNotExist)) \<and>
    (state = RemoteSame \<longleftrightarrow> (\<exists>r. answer = Inr r \<and> \<not> entry_IsDir r \<and> e_Size r = fi_Size info \<and>
       pt \<noteq> 0 \<and> e_ModTime r \<noteq> 0 \<and> (\<bar>pt - e_ModTime r\<bar> \<le> 2 * second \<or> pt - e_ModTime r \<le> min_i64))) \<and>
    (e \<noteq> None \<longrightarrow> state = RemoteConflict) \<and> (\<forall>r. answer = Inr r \<longrightarrow> en = r)"
  using assms
  by (auto simp: Inspect_def Let_def withinTolerance_iff time_IsZero_def split: sum.splits if_splits)

definition demo_preserved_entry :: recovery_item where
  "demo_preserved_entry = \<lparr>ri_Metadata = zero_metadata\<lparr>rm_StagingPath := ''/c/staging-1'', rm_RecoveryState := StatePreserved\<rparr>,
     ri_MetadataPath = ''/c/staging-1.recovery.json'', ri_Problem = ''''\<rparr>"

lemma demo_open_recovery:
  "OpenRecovery demo_store demo_preserved_entry demo_cache = Inr (''/c/staging-1'', node_info (Reg [1, 2, 3] 5 True))"
  "file_Close ''/c/staging-1'' demo_cache = None"
  by code_simp+

theorem inspect_decides_witness:
  "fst (fst (Inspect demo_store demo_preserved_entry demo_cache counting_backend None ''/r'' 0)) = RemoteConflict"
proof -
  obtain state en e w' where run: "Inspect demo_store demo_preserved_entry demo_cache counting_backend None ''/r'' 0 = ((state, en, e), w')"
    by (metis surj_pair)
  have answer: "b_Stat counting_backend None ''/r'' 0 = (Inr zero_entry, 1)" by (simp add: counting_backend_def)
  from inspect_decides [OF demo_open_recovery run answer refl] have "state \<noteq> RemoteMissing" "state \<noteq> RemoteSame"
    by (auto simp: zero_entry_def)
  then show ?thesis using run by (cases state) auto
qed

subsection \<open>The retry\<close>

lemma syncAndClose_None:
  "syncAndClose b h w = (None, w') \<Longrightarrow> \<exists>w1. h_Sync b h w = (None, w1) \<and> h_Close b h w1 = (None, w')"
  by (auto simp: syncAndClose_def errors_Join_None_iff split: prod.splits option.splits if_splits)

context staged_writer
begin

text \<open>The copy loop stages a prefix of the file, all of it when it reports no error, and publishes nothing.\<close>

lemma upload_chunks_staged:
  assumes "upload_chunks b h p n fs off w = (r, w')" and f: "fs_get fs p = Some (Reg d t s)"
    and "staged w h (take off d)" and "pending w h" and "off \<le> n" and n: "n \<le> length d"
  shows "quiet w w' \<and> pending w' h \<and> target w' h = target w h \<and>
    (r = None \<longrightarrow> staged w' h (take n d)) \<and> (r \<noteq> None \<longrightarrow> (\<exists>k < n. staged w' h (take k d)))"
  using assms(1,3-5)
proof (induction "n - off" arbitrary: off w rule: less_induct)
  case less
  note step = upload_chunks.simps [of b h p n fs off w]
  show ?case
  proof (cases "off < n")
    case False
    with less.prems show ?thesis by (simp add: step quiet_refl)
  next
    case True
    let ?want = "min chunk_size (n - off)"
    obtain data re where rd: "file_ReadAt p ?want off fs = (data, re)" by force
    show ?thesis
    proof (cases re)
      case (Some e)
      with less.prems True rd have "w' = w" "r \<noteq> None" by (auto simp: step Let_def split: if_splits)
      with less.prems True show ?thesis by (auto simp: quiet_refl)
    next
      case None
      have data: "data = take ?want (drop off d)" using ReadAt_data [OF _ f] rd None by blast
      have len: "length data = ?want" using ReadAt_full rd None by blast
      obtain k we w1 where wr: "h_WriteAt b h data (int off) w = ((k, we), w1)" by (metis surj_pair)
      have off: "length (take off d) = off" using less.prems(4) n by simp
      from write_next [of h data "take off d", unfolded off, OF wr less.prems(2,3)]
      have k: "quiet w w1" "pending w1 h" "target w1 h = target w h" "we \<noteq> None \<Longrightarrow> staged w1 h (take off d)"
        "we = None \<Longrightarrow> k = length data \<and> staged w1 h (take (off + length data) d)"
        using data len by (auto simp: take_add)
      show ?thesis
      proof (cases we)
        case (Some e)
        with less.prems True rd None wr have "w' = w1" "r \<noteq> None" by (auto simp: step Let_def)
        with k Some True show ?thesis by auto
      next
        case we: None
        with less.prems True rd None wr k have rest: "upload_chunks b h p n fs (off + length data) w1 = (r, w')"
          by (simp add: step Let_def)
        have "0 < length data" "length data \<le> n - off" unfolding len using True by (simp_all add: chunk_size_def)
        then have "n - (off + length data) < n - off" "off + length data \<le> n" by linarith+
        from less.hyps [OF this(1) rest _ k(2) this(2)] k(1,3) k(5) [OF we] quiet_trans [OF k(1)] show ?thesis by simp
      qed
    qed
  qed
qed

text \<open>A retry that reports success: the server acknowledged exactly the bytes of the preserved file.\<close>

lemma Upload_exact:
  assumes "Upload st item fs b x remote w = ((en, None), w')"
  shows "\<exists>p d t s q w1. safeStagingPath st fs (rm_StagingPath (ri_Metadata item)) = Inr p \<and>
    fs_get fs p = Some (Reg d t s) \<and> mapname remote = Inr q \<and> acked w q d w1 \<and>
    b_Stat b x remote w1 = (Inr en, w') \<and> \<not> entry_IsDir en \<and> e_Size en = int (length d)"
proof -
  from assms obtain p info where o: "OpenRecovery st item fs = Inr (p, info)"
    by (auto simp: Upload_def split: sum.splits prod.splits)
  from OpenRecovery_file [OF o] obtain d t s where f: "fs_get fs p = Some (Reg d t s)" "info = node_info (Reg d t s)"
    "safeStagingPath st fs (rm_StagingPath (ri_Metadata item)) = Inr p" by blast
  from assms o obtain h w1 where ow: "b_OpenWrite b x remote (fresh_write (fi_Mode info)) w = (Inr h, w1)"
    by (auto simp: Upload_def split: sum.splits prod.splits)
  note fresh = open_fresh [OF ow]
  from assms o ow f(2) obtain w2 w3 where
    up: "upload_chunks b h p (length d) fs 0 w1 = (None, w2)" and sc: "syncAndClose b h w2 = (None, w3)" and
    st: "b_Stat b x remote w3 = (Inr en, w')" "\<not> entry_IsDir en" "e_Size en = int (length d)"
    by (auto simp: Upload_def errors_Join_None_iff split: sum.splits prod.splits option.splits if_splits)
  from upload_chunks_staged [OF up f(1)] fresh
  have c: "quiet w w2" "pending w2 h" "target w2 h = target w1 h" "staged w2 h d" using quiet_trans by auto
  from syncAndClose_None [OF sc] obtain wy where sy: "h_Sync b h w2 = (None, wy)" and cl: "h_Close b h wy = (None, w3)" by blast
  from sync_publishes [OF sy c(4,2)] have y: "staged wy h d" "\<not> pending wy h" "acked w2 (target w2 h) d wy" by auto
  from close_settled [OF cl y(1,2)] have "quiet wy w3" .
  with y(3) c(1) have "acked w (target w2 h) d w3" using acked_quiet quiet_acked by blast
  with f st fresh c(3) show ?thesis by auto
qed

text \<open>
  A copy that fails half-way and whose writer then closes without an error has published the part
  copied so far.
\<close>

lemma failed_copy_publishes_prefix:
  assumes "b_OpenWrite b x remote (fresh_write m) w = (Inr h, w1)"
    and "upload_chunks b h p n fs 0 w1 = (Some e, w2)" and "h_Close b h w2 = (None, w3)"
    and "fs_get fs p = Some (Reg d t s)" and "n \<le> length d"
  shows "\<exists>k < n. \<exists>q. mapname remote = Inr q \<and> acked w q (take k d) w3"
proof -
  note fresh = open_fresh [OF assms(1)]
  from upload_chunks_staged [OF assms(2,4)] fresh assms(5) obtain k where
    k: "quiet w1 w2" "pending w2 h" "target w2 h = target w1 h" "k < n" "staged w2 h (take k d)" by auto
  from close_publishes [OF assms(3) k(5,2)] have "acked w2 (target w2 h) (take k d) w3" .
  with k fresh show ?thesis using quiet_acked quiet_trans by metis
qed

end

end
