(* ===== verification/Connection_Backend.thy ===== *)
theory Connection_Backend
  imports Config Diagnostics Ftp_Facts Webdav_Facts Sftp_Facts
begin

text \<open>
  \<^verbatim>\<open>internal/connection/backend.go\<close> and \<^verbatim>\<open>mount_windows.go\<close>: from a
  profile and its secrets to the configuration of a protocol backend, the backend, and the mounted session.
  What lies outside (the client libraries, the home folder, the known hosts parser, the key parsers) is
  in one record. The first property observes the calls on the client libraries, the second counts the open backends.
\<close>

record ('g, 'v) key_env =
  ke_UserHomeDir :: "err + string"
  ke_knownhosts :: "string \<Rightarrow> lfs \<Rightarrow> err + 'v"
  ke_ParsePrivateKey :: "bytes \<Rightarrow> err + 'g"
  ke_ParsePrivateKeyWith :: "bytes \<Rightarrow> bytes \<Rightarrow> err + 'g"

record ('n, 'k, 'c, 'h, 'g, 'v, 's, 'd, 'f, 'q) conn_env =
  ce_sftp :: "('n, 'k, 'c, 'h, 'g, 'v, 's) sftp_lib"
  ce_dav :: "bool \<Rightarrow> ('s, 'd) dav_lib"
  ce_ftp :: "('f, 's, 'q) ftp_lib"
  ce_keys :: "('g, 'v) key_env"

datatype ('g, 'v, 's, 'd) backend_config =
    SftpConfig "('g, 'v) sftp_config"
  | DavConfig "('s, 'd) dav_config"
  | FtpConfig ftp_config

text \<open>The backend and, where it has one, its state.\<close>

datatype ('n, 'k, 'c, 'h, 'g, 'v, 's, 'd, 'f) opened =
    OpenedSFTP "('n, 'k, 'c, 'h, 'g, 'v, 's) sftp_backend" "('k, 'c, 's) sftp_world"
  | OpenedDAV "('s, 'd) dav_backend"
  | OpenedFTP ftp_config 'f string

definition sftp_config_of ::
  "('g, 'v) key_env \<Rightarrow> profile \<Rightarrow> secrets \<Rightarrow> lfs \<Rightarrow> err + ('g, 'v) sftp_config" where
  "sftp_config_of env p s fs =
     (case (if p_KnownHosts p = ''''
            then (case ke_UserHomeDir env of
                    Inl e \<Rightarrow> Inl e | Inr home \<Rightarrow> Inr (path_Join [home, ''.ssh'', ''known_hosts'']))
            else Inr (p_KnownHosts p)) of
        Inl e \<Rightarrow> Inl e
      | Inr filename \<Rightarrow>
          (case ke_knownhosts env filename fs of
             Inl _ \<Rightarrow> Inl (ErrNew ''check the known_hosts file'')
           | Inr callback \<Rightarrow>
               let c = \<lparr>sf_Host = p_Host p, sf_Port = p_Port p, sf_Username = p_Username p, sf_Password = '''',
                        sf_Signer = None, sf_Root = p_RemotePath p, sf_HostKeyCallback = Some callback\<rparr>
               in if p_AuthMethod p = AuthPrivateKey
                  then (case LoadPrivateKey (ke_ParsePrivateKey env) (ke_ParsePrivateKeyWith env) (p_PrivateKey p)
                               (bytes_of (sec_Passphrase s)) fs of
                          Inl e \<Rightarrow> Inl e
                        | Inr signer \<Rightarrow> Inr (c\<lparr>sf_Signer := Some signer\<rparr>))
                  else Inr (c\<lparr>sf_Password := sec_Password s\<rparr>)))"

definition dav_config_of :: "profile \<Rightarrow> secrets \<Rightarrow> ('s, 'd) dav_config" where
  "dav_config_of p s = \<lparr>
     dc_Scheme = (if p_WebDAVScheme p = '''' then ''https'' else p_WebDAVScheme p),
     dc_Host = p_Host p, dc_Port = p_Port p, dc_Username = p_Username p, dc_Password = sec_Password s,
     dc_Root = p_RemotePath p, dc_HTTPClient = None, dc_InsecureSkipTLSVerify = p_InsecureSkipTLSVerify p\<rparr>"

definition ftp_config_of :: "profile \<Rightarrow> secrets \<Rightarrow> ftp_config" where
  "ftp_config_of p s =
     (let c = \<lparr>fc_Host = p_Host p, fc_Port = p_Port p, fc_Username = p_Username p, fc_Password = sec_Password s,
               fc_Root = p_RemotePath p, fc_TLSMode = TLSNone, fc_TLSConfig = None\<rparr>
      in if p_Protocol p = ProtocolFTPS
         then c\<lparr>fc_TLSMode := (if p_FTPSMode p = ''implicit-ftps'' then TLSImplicit else TLSExplicit),
                fc_TLSConfig := Some \<lparr>tls_ServerName = '''', tls_InsecureSkipVerify = p_InsecureSkipTLSVerify p\<rparr>\<rparr>
         else c)"

definition backend_config_of ::
  "('g, 'v) key_env \<Rightarrow> profile \<Rightarrow> secrets \<Rightarrow> lfs
     \<Rightarrow> err + ('g, 'v, 's, 'd) backend_config" where
  "backend_config_of env p s fs =
     (case Profile_Validate p of
        Some e \<Rightarrow> Inl e
      | None \<Rightarrow>
          if p_AuthMethod p = AuthPassword \<and> sec_Password s = '''' then Inl (ErrNew ''enter the password'')
          else if p_Protocol p = ProtocolSFTP then map_sum (\<lambda>e. e) SftpConfig (sftp_config_of env p s fs)
          else if p_Protocol p = ProtocolWebDAV then Inr (DavConfig (dav_config_of p s))
          else if p_Protocol p = ProtocolFTP \<or> p_Protocol p = ProtocolFTPS then Inr (FtpConfig (ftp_config_of p s))
          else Inl (ErrNew ''unsupported protocol''))"

definition openBackend ::
  "('n, 'k, 'c, 'h, 'g, 'v, 's, 'd, 'f, 'q) conn_env \<Rightarrow> ctx \<Rightarrow> profile \<Rightarrow> secrets \<Rightarrow> 's dav_world
     \<Rightarrow> (err + ('n, 'k, 'c, 'h, 'g, 'v, 's, 'd, 'f) opened) \<times> 's dav_world" where
  "openBackend env x p s w =
     (case backend_config_of (ce_keys env) p s (dw_fs w) of
        Inl e \<Rightarrow> (Inl e, w)
      | Inr (SftpConfig c) \<Rightarrow>
          (case sftp_New (ce_sftp env) c (dw_server w) of
             (Inl e, srv) \<Rightarrow> (Inl e, w\<lparr>dw_server := srv\<rparr>)
           | (Inr (b, bw), srv) \<Rightarrow> (Inr (OpenedSFTP b bw), w\<lparr>dw_server := srv\<rparr>))
      | Inr (DavConfig c) \<Rightarrow>
          (case dav_New (ce_dav env) c x w of
             (Inl e, w1) \<Rightarrow> (Inl e, w1) | (Inr b, w1) \<Rightarrow> (Inr (OpenedDAV b), w1))
      | Inr (FtpConfig c) \<Rightarrow>
          (case ftp_New (ce_ftp env) c (dw_server w) of
             (Inl e, srv) \<Rightarrow> (Inl e, w\<lparr>dw_server := srv\<rparr>)
           | (Inr (client, root), srv) \<Rightarrow> (Inr (OpenedFTP c client root), w\<lparr>dw_server := srv\<rparr>)))"

definition diagnostics_protocol :: "profile \<Rightarrow> string" where
  "diagnostics_protocol p =
     (if p_Protocol p = ProtocolFTPS
      then (if p_FTPSMode p = ''implicit-ftps'' then ''implicit-ftps'' else ''explicit-ftps'')
      else p_Protocol p)"

text \<open>
  \<open>openConnectionBackend\<close>: the backend, whether its metadata is cached, and the recorder; \<open>directory\<close>
  is the value of the variable \<open>DKDRIVE_DIAGNOSTICS\<close>.
\<close>

definition openConnectionBackend ::
  "('n, 'k, 'c, 'h, 'g, 'v, 's, 'd, 'f, 'q) conn_env \<Rightarrow> (report \<Rightarrow> err + bytes) \<Rightarrow> string \<Rightarrow> ctx \<Rightarrow> profile \<Rightarrow> secrets \<Rightarrow> bool
     \<Rightarrow> 's dav_world \<Rightarrow> (err + ('n, 'k, 'c, 'h, 'g, 'v, 's, 'd, 'f) opened \<times> bool \<times> recorder option) \<times> 's dav_world" where
  "openConnectionBackend env enc directory x p s cacheMetadata w =
     (case dav_fs (diagnostics_Open directory (diagnostics_protocol p) (dw_rnd w) (dw_now w)) w of
        (Inl _, w1) \<Rightarrow> (Inl (ErrNew ''diagnostics folder''), w1)
      | (Inr recorder, w1) \<Rightarrow>
          (case openBackend env x p s w1 of
             (Inl e, w2) \<Rightarrow>
               (case recorder_Close enc (dw_now w2) recorder (dw_fs w2) of
                  (_, _, fs) \<Rightarrow> (Inl e, w2\<lparr>dw_fs := fs\<rparr>))
           | (Inr b, w2) \<Rightarrow> (Inr (b, cacheMetadata, recorder), w2)))"

definition OpenBackend where
  "OpenBackend env enc directory x p s w = openConnectionBackend env enc directory x p s False w"

subsection \<open>Mounting\<close>

text \<open>
  \<open>MountWithCacheLimits\<close>, over the calls it makes: the drives in use as a bit mask, the WinFsp runtime,
  opening and closing a backend, the context's state when it is asked again, and starting the session.
\<close>

record ('w, 'b, 'z) mount_env =
  me_GetLogicalDrives :: "'w \<Rightarrow> (err + 32 word) \<times> 'w"
  me_LoadWinFSP :: "'w \<Rightarrow> err option \<times> 'w"
  me_open :: "'w \<Rightarrow> (err + 'b) \<times> 'w"
  me_ctxErr :: "'w \<Rightarrow> err option"
  me_close :: "'b \<Rightarrow> 'w \<Rightarrow> 'w"
  me_StartSession :: "'b \<Rightarrow> string \<Rightarrow> bool \<Rightarrow> 'w \<Rightarrow> (err + 'z) \<times> 'w"

definition drive_bit :: "string \<Rightarrow> nat" where
  "drive_bit letter = of_char (hd letter) - 65"

definition MountWithCacheLimits :: "('w, 'b, 'z) mount_env \<Rightarrow> profile \<Rightarrow> 'w \<Rightarrow> (err + 'z) \<times> 'w" where
  "MountWithCacheLimits env p w =
     (case Profile_Validate p of
        Some e \<Rightarrow> (Inl e, w)
      | None \<Rightarrow>
     (case me_GetLogicalDrives env w of
        (Inl e, w1) \<Rightarrow> (Inl e, w1)
      | (Inr drives, w1) \<Rightarrow>
          let letter = ToUpper (p_DriveLetter p)
          in if bit drives (drive_bit letter) then (Inl (ErrNew ''drive in use''), w1)
             else
     (case me_LoadWinFSP env w1 of
        (Some e, w2) \<Rightarrow> (Inl (Wrapped ''WinFsp runtime'' e), w2)
      | (None, w2) \<Rightarrow>
     (case me_open env w2 of
        (Inl e, w3) \<Rightarrow> (Inl e, w3)
      | (Inr b, w3) \<Rightarrow>
          (case me_ctxErr env w3 of
             Some e \<Rightarrow> (Inl e, me_close env b w3)
           | None \<Rightarrow>
               (case me_StartSession env b letter (p_Protocol p = ProtocolSFTP) w3 of
                  (Inl e, w4) \<Rightarrow> (Inl e, me_close env b w4)
                | (Inr z, w4) \<Rightarrow> (Inr z, w4)))))))"


subsection \<open>What a profile turns into\<close>

lemma profile_parts:
  assumes "Profile_Validate p = None"
  shows "TrimSpace (p_Host p) \<noteq> ''''" "p_Port p \<noteq> 0" "TrimSpace (p_Username p) \<noteq> ''''"
    "p_AuthMethod p = AuthPassword \<or> p_AuthMethod p = AuthPrivateKey \<and> p_Protocol p = ProtocolSFTP"
    "p_Protocol p = ProtocolWebDAV \<Longrightarrow> p_WebDAVScheme p \<in> {'''', ''http'', ''https''}"
    "p_InsecureSkipTLSVerify p \<Longrightarrow> p_Protocol p = ProtocolFTPS \<or> p_Protocol p = ProtocolWebDAV \<and> p_WebDAVScheme p \<noteq> ''http''"
  using assms by (auto simp: Profile_Validate_def Let_def AuthPassword_def AuthPrivateKey_def ProtocolSFTP_def ProtocolWebDAV_def
      ProtocolFTP_def ProtocolFTPS_def split: if_splits)

lemmas protocol_names = ProtocolSFTP_def ProtocolWebDAV_def ProtocolFTP_def ProtocolFTPS_def AuthPassword_def AuthPrivateKey_def

definition known_hosts_file ::
  "('g, 'v) key_env \<Rightarrow> profile \<Rightarrow> string \<Rightarrow> bool" where
  "known_hosts_file env p f \<longleftrightarrow>
     (if p_KnownHosts p = '''' then (\<exists>home. ke_UserHomeDir env = Inr home \<and> f = path_Join [home, ''.ssh'', ''known_hosts''])
      else f = p_KnownHosts p)"

lemma sftp_config_secure:
  assumes "sftp_config_of env p s fs = Inr c" and "Profile_Validate p = None"
    and "p_AuthMethod p = AuthPassword \<Longrightarrow> sec_Password s \<noteq> ''''"
  shows "sftp_validateConfig c = None \<and>
    (\<exists>f v. known_hosts_file env p f \<and> ke_knownhosts env f fs = Inr v \<and> sf_HostKeyCallback c = Some v) \<and>
    (sf_Password c \<noteq> '''' \<longleftrightarrow> p_AuthMethod p = AuthPassword)"
proof -
  from assms(1) obtain f v where v: "known_hosts_file env p f" "ke_knownhosts env f fs = Inr v" "sf_HostKeyCallback c = Some v"
    by (auto simp: sftp_config_of_def known_hosts_file_def Let_def split: if_splits sum.splits)
  have "AuthPassword \<noteq> AuthPrivateKey" by (simp add: protocol_names)
  with assms profile_parts(4) [OF assms(2)]
  have "if p_AuthMethod p = AuthPassword then sf_Password c \<noteq> '''' \<and> sf_Signer c = None
        else sf_Password c = '''' \<and> sf_Signer c \<noteq> None"
    and "sf_Host c = p_Host p" "sf_Port c = p_Port p" "sf_Username c = p_Username p"
    by (auto simp: sftp_config_of_def Let_def split: if_splits sum.splits)
  with v profile_parts [OF assms(2)] show ?thesis by (auto simp: sftp_validateConfig_def split: if_splits)
qed

text \<open>
  A configuration made from an accepted profile is one its protocol accepts. The host key is always checked over
  SFTP; WebDAV is encrypted unless the profile says \<open>http\<close>; FTPS always is, and plain FTP never claims to be; and the
  certificate check is skipped only when the profile says so.
\<close>

lemma backend_config_secure:
  assumes "backend_config_of env p s fs = Inr cfg"
  shows "(case cfg of
      SftpConfig c \<Rightarrow> p_Protocol p = ProtocolSFTP \<and> sftp_validateConfig c = None \<and>
        (\<exists>f v. known_hosts_file env p f \<and> ke_knownhosts env f fs = Inr v \<and> sf_HostKeyCallback c = Some v) \<and>
        (sf_Password c \<noteq> '''' \<longleftrightarrow> p_AuthMethod p = AuthPassword)
    | DavConfig c \<Rightarrow> p_Protocol p = ProtocolWebDAV \<and> dav_validateConfig c = None \<and>
        (dc_Scheme c = ''https'' \<or> p_WebDAVScheme p = ''http'') \<and>
        (dc_InsecureSkipTLSVerify c \<longleftrightarrow> p_InsecureSkipTLSVerify p) \<and> (dc_InsecureSkipTLSVerify c \<longrightarrow> dc_Scheme c = ''https'')
    | FtpConfig c \<Rightarrow> p_Protocol p \<in> {ProtocolFTP, ProtocolFTPS} \<and> ftp_validateConfig c = None \<and>
        (case ftp_tls_option c of
           None \<Rightarrow> p_Protocol p = ProtocolFTP
         | Some (mode, tls) \<Rightarrow> p_Protocol p = ProtocolFTPS \<and> tls_ServerName tls = p_Host p \<and>
             (mode = TLSImplicit \<longleftrightarrow> p_FTPSMode p = ''implicit-ftps'') \<and>
             (tls_InsecureSkipVerify tls \<longleftrightarrow> p_InsecureSkipTLSVerify p)))"
proof -
  from assms have ok: "Profile_Validate p = None" and pw: "p_AuthMethod p = AuthPassword \<Longrightarrow> sec_Password s \<noteq> ''''"
    by (auto simp: backend_config_of_def split: option.splits if_splits)
  note parts = profile_parts [OF ok]
  show ?thesis
  proof (cases "p_Protocol p = ProtocolSFTP")
    case True
    with assms ok obtain c where "cfg = SftpConfig c" "sftp_config_of env p s fs = Inr c"
      by (cases "sftp_config_of env p s fs") (auto simp: backend_config_of_def split: option.splits if_splits)
    with sftp_config_secure [OF _ ok pw] True show ?thesis by simp
  next
    case no_sftp: False
    with parts(4) pw have pw: "sec_Password s \<noteq> ''''" by blast
    show ?thesis
    proof (cases "p_Protocol p = ProtocolWebDAV")
      case True
      with assms ok no_sftp have cfg: "cfg = DavConfig (dav_config_of p s)"
        by (auto simp: backend_config_of_def split: if_splits)
      have "ProtocolWebDAV \<noteq> ProtocolFTPS" by (simp add: protocol_names)
      with cfg True parts pw show ?thesis by (auto simp: dav_config_of_def dav_validateConfig_def)
    next
      case False
      with assms ok no_sftp have cfg: "cfg = FtpConfig (ftp_config_of p s)" "p_Protocol p \<in> {ProtocolFTP, ProtocolFTPS}"
        by (auto simp: backend_config_of_def split: if_splits)
      have "ProtocolFTP \<noteq> ProtocolFTPS" by (simp add: protocol_names)
      with cfg parts pw show ?thesis
        by (auto simp: ftp_config_of_def ftp_validateConfig_def ftp_tls_option_def Let_def)
    qed
  qed
qed

definition demo_keys :: "(unit, unit) key_env" where
  "demo_keys = \<lparr>ke_UserHomeDir = Inr ''/home/u'', ke_knownhosts = (\<lambda>f fs. Inr ()),
     ke_ParsePrivateKey = (\<lambda>b. Inr ()), ke_ParsePrivateKeyWith = (\<lambda>b p. Inr ())\<rparr>"


subsection \<open>What goes over the wire\<close>

text \<open>
  The client libraries with a log of the calls that open a connection or send a request: the SFTP address and the SSH
  handshake, every HTTP request (with whether its client skips the certificate check), and the FTP address with its
  TLS option.
\<close>

datatype ('g, 'v) wire =
    SshDial string "16 word"
  | SshAuth "('g, 'v) ssh_config"
  | HttpCall bool http_request
  | FtpDial string "16 word" "(tls_mode \<times> tls_config) option"

definition tapped_sftp ::
  "('n, 'k, 'c, 'h, 'g, 'v, 's) sftp_lib \<Rightarrow> ('n, 'k, 'c, 'h, 'g, 'v, 's \<times> ('g, 'v) wire list) sftp_lib" where
  "tapped_sftp L = \<lparr>
     sl_Dial = (\<lambda>h p. noted_call (SshDial h p) (sl_Dial L h p)),
     sl_SetDeadline = (\<lambda>n d. silent_call (sl_SetDeadline L n d)),
     sl_CloseConn = (\<lambda>n s. (sl_CloseConn L n (fst s), snd s)),
     sl_Handshake = (\<lambda>n c. noted_call (SshAuth c) (sl_Handshake L n c)),
     sl_CloseSSH = (\<lambda>k. silent_call (sl_CloseSSH L k)),
     sl_NewClient = (\<lambda>k. silent_call (sl_NewClient L k)), sl_CloseClient = (\<lambda>c. silent_call (sl_CloseClient L c)),
     sl_Stat = (\<lambda>c p. silent_call (sl_Stat L c p)), sl_ReadDir = (\<lambda>c p. silent_call (sl_ReadDir L c p)),
     sl_Open = (\<lambda>c p. silent_call (sl_Open L c p)), sl_OpenFile = (\<lambda>c p f. silent_call (sl_OpenFile L c p f)),
     sl_Mkdir = (\<lambda>c p. silent_call (sl_Mkdir L c p)), sl_RemoveDirectory = (\<lambda>c p. silent_call (sl_RemoveDirectory L c p)),
     sl_Remove = (\<lambda>c p. silent_call (sl_Remove L c p)), sl_Rename = (\<lambda>c p q. silent_call (sl_Rename L c p q)),
     sl_Chtimes = (\<lambda>c p t u. silent_call (sl_Chtimes L c p t u)), sl_Chmod = (\<lambda>c p m. silent_call (sl_Chmod L c p m)),
     sl_ReadAll = (\<lambda>h. silent_call (sl_ReadAll L h)), sl_WriteAt = (\<lambda>h d off. silent_call (sl_WriteAt L h d off)),
     sl_Sync = (\<lambda>h. silent_call (sl_Sync L h)), sl_Close = (\<lambda>h. silent_call (sl_Close L h))\<rparr>"

definition tapped_dav :: "(bool \<Rightarrow> ('s, 'd) dav_lib) \<Rightarrow> bool \<Rightarrow> ('s \<times> ('g, 'v) wire list, 'd) dav_lib" where
  "tapped_dav env insecure = (let L = env insecure in \<lparr>
     dl_Do = (\<lambda>x q. noted_call (HttpCall insecure q) (dl_Do L x q)),
     dl_ReadBody = (\<lambda>d. silent_call (dl_ReadBody L d)), dl_CloseBody = (\<lambda>d. silent_call (dl_CloseBody L d)),
     dl_CloseIdle = (\<lambda>s. (dl_CloseIdle L (fst s), snd s)),
     dl_NewRequest = dl_NewRequest L, dl_URLString = dl_URLString L, dl_Multistatus = dl_Multistatus L,
     dl_LockHref = dl_LockHref L, dl_MediaType = dl_MediaType L, dl_ResolveHref = dl_ResolveHref L,
     dl_ParseTime = dl_ParseTime L\<rparr>)"

definition tapped_ftp :: "('c, 's, 'd) ftp_lib \<Rightarrow> ('c, 's \<times> ('g, 'v) wire list, 'd) ftp_lib" where
  "tapped_ftp L = \<lparr>
     fl_Dial = (\<lambda>h p t. noted_call (FtpDial h p t) (fl_Dial L h p t)),
     fl_Login = (\<lambda>c u pw. silent_call (fl_Login L c u pw)), fl_ChangeDir = (\<lambda>c d. silent_call (fl_ChangeDir L c d)),
     fl_CurrentDir = (\<lambda>c. silent_call (fl_CurrentDir L c)), fl_Quit = (\<lambda>c. silent_call (fl_Quit L c)),
     fl_NoOp = (\<lambda>c. silent_call (fl_NoOp L c)), fl_GetEntry = (\<lambda>c p. silent_call (fl_GetEntry L c p)),
     fl_List = (\<lambda>c p. silent_call (fl_List L c p)), fl_Retr = (\<lambda>c p. silent_call (fl_Retr L c p)),
     fl_ReadAll = (\<lambda>d. silent_call (fl_ReadAll L d)), fl_RespClose = (\<lambda>d. silent_call (fl_RespClose L d)),
     fl_Stor = (\<lambda>c p b. silent_call (fl_Stor L c p b)), fl_MakeDir = (\<lambda>c p. silent_call (fl_MakeDir L c p)),
     fl_RemoveDir = (\<lambda>c p. silent_call (fl_RemoveDir L c p)), fl_Delete = (\<lambda>c p. silent_call (fl_Delete L c p)),
     fl_Rename = (\<lambda>c p q. silent_call (fl_Rename L c p q)),
     fl_IsSetTimeSupported = (\<lambda>c s. fl_IsSetTimeSupported L c (fst s)),
     fl_SetTime = (\<lambda>c p t. silent_call (fl_SetTime L c p t))\<rparr>"

definition tapped ::
  "('n, 'k, 'c, 'h, 'g, 'v, 's, 'd, 'f, 'q) conn_env
     \<Rightarrow> ('n, 'k, 'c, 'h, 'g, 'v, 's \<times> ('g, 'v) wire list, 'd, 'f, 'q) conn_env" where
  "tapped env = \<lparr>ce_sftp = tapped_sftp (ce_sftp env), ce_dav = tapped_dav (ce_dav env), ce_ftp = tapped_ftp (ce_ftp env),
     ce_keys = ce_keys env\<rparr>"

text \<open>What may go over the wire for a profile and its secrets, with the local files \<open>fs\<close>.\<close>

definition secure_url :: "profile \<Rightarrow> dav_url \<Rightarrow> bool" where
  "secure_url p u \<longleftrightarrow> (du_Scheme u = ''https'' \<or> du_Scheme u = ''http'' \<and> p_WebDAVScheme p = ''http'' \<and> \<not> p_InsecureSkipTLSVerify p) \<and>
     du_Host u = JoinHostPort (p_Host p) (itoa (unat (p_Port p)))"

fun secure_wire :: "('g, 'v) key_env \<Rightarrow> profile \<Rightarrow> secrets \<Rightarrow> lfs \<Rightarrow> ('g, 'v) wire \<Rightarrow> bool" where
  "secure_wire ks p s fs (SshDial host port) \<longleftrightarrow> p_Protocol p = ProtocolSFTP \<and> host = p_Host p \<and> port = p_Port p"
| "secure_wire ks p s fs (SshAuth c) \<longleftrightarrow> p_Protocol p = ProtocolSFTP \<and> sc_User c = p_Username p \<and>
     (\<exists>f v. known_hosts_file ks p f \<and> ke_knownhosts ks f fs = Inr v \<and> sc_HostKeyCallback c = Some v) \<and>
     (if p_AuthMethod p = AuthPassword then sc_Auth c = [PasswordAuth (sec_Password s)]
      else \<exists>g. LoadPrivateKey (ke_ParsePrivateKey ks) (ke_ParsePrivateKeyWith ks) (p_PrivateKey p)
             (bytes_of (sec_Passphrase s)) fs = Inr g \<and> sc_Auth c = [PublicKeysAuth g])"
| "secure_wire ks p s fs (HttpCall insecure q) \<longleftrightarrow> p_Protocol p = ProtocolWebDAV \<and> secure_url p (hq_URL q) \<and>
     hq_Auth q = (p_Username p, sec_Password s) \<and> (insecure \<longleftrightarrow> p_InsecureSkipTLSVerify p)"
| "secure_wire ks p s fs (FtpDial host port option) \<longleftrightarrow> host = p_Host p \<and> port = p_Port p \<and>
     (case option of
        None \<Rightarrow> p_Protocol p = ProtocolFTP
      | Some (mode, tls) \<Rightarrow> p_Protocol p = ProtocolFTPS \<and> tls_ServerName tls = p_Host p \<and>
          (mode = TLSImplicit \<longleftrightarrow> p_FTPSMode p = ''implicit-ftps'') \<and>
          (tls_InsecureSkipVerify tls \<longleftrightarrow> p_InsecureSkipTLSVerify p))"

lemma sftp_connect_wires:
  assumes "sftp_connect (tapped_sftp L) c t = (r, t')"
  shows "(snd t' = snd t @ [SshDial (sf_Host c) (sf_Port c)] \<and> \<not> is_ok r) \<or>
    snd t' = snd t @ [SshDial (sf_Host c) (sf_Port c), SshAuth \<lparr>sc_User = sf_Username c, sc_Auth = authenticationMethods c,
      sc_HostKeyCallback = sf_HostKeyCallback c\<rparr>]"
  using assms
  by (auto simp: sftp_connect_def tapped_sftp_def Let_def dest!: silent_callD noted_callD
      split: prod.splits sum.splits option.splits if_splits)

lemma ftp_connect_wires:
  "ftp_connect (tapped_ftp L) c t = (r, t') \<Longrightarrow> snd t' = snd t @ [FtpDial (fc_Host c) (fc_Port c) (ftp_tls_option c)]"
  by (auto simp: ftp_connect_def tapped_ftp_def dest!: silent_callD noted_callD split: prod.splits sum.splits option.splits)

text \<open>Over WebDAV the only wires are requests of the backend's client, to its resources.\<close>

lemma on_server_wires: "on_server f w = (r, w') \<Longrightarrow> f (dw_server w) = (r, dw_server w')"
  by (auto simp: on_server_def split: prod.splits)

lemma closing_wires:
  assumes "db_client B = tapped_dav D i" and "closing B resp rw = (r, w')"
  shows "r = fst rw \<and> snd (dw_server w') = snd (dw_server (snd rw))"
proof -
  obtain a v where "on_server (dl_CloseBody (db_client B) (hr_Body resp)) (snd rw) = (a, v)" by force
  with assms show ?thesis by (auto simp: closing_def tapped_dav_def Let_def dest!: on_server_wires silent_callD)
qed

lemma responseError_wires:
  "db_client B = tapped_dav D i \<Longrightarrow> responseError B m resp w = (e, w') \<Longrightarrow> snd (dw_server w') = snd (dw_server w)"
  by (auto simp: responseError_def tapped_dav_def Let_def dest!: on_server_wires silent_callD split: prod.splits)

lemma requestProperties_wires:
  assumes "db_client B = tapped_dav D i" and "requestProperties B x u d w = (r, w')"
  shows "snd (dw_server w') = snd (dw_server w) \<and> \<not> is_ok r \<or>
    (\<exists>q. hq_URL q = u \<and> hq_Auth q = (db_username B, db_password B) \<and>
       snd (dw_server w') = snd (dw_server w) @ [HttpCall i q])"
proof (cases "newRequest B ''PROPFIND'' u [(''Depth'', d), (''Content-Type'', ''application/xml; charset=utf-8'')] (bytes_of propfindBody)")
  case (Inl e)
  with assms(2) show ?thesis by (auto simp: requestProperties_def)
next
  case (Inr q)
  then have q: "hq_URL q = u" "hq_Auth q = (db_username B, db_password B)" by (auto simp: newRequest_def split: option.splits)
  obtain a w1 where d: "on_server (dl_Do (db_client B) x q) w = (a, w1)" by force
  have w1: "snd (dw_server w1) = snd (dw_server w) @ [HttpCall i q]"
    using on_server_wires [OF d] noted_callD by (fastforce simp: assms(1) tapped_dav_def Let_def)
  have "snd (dw_server w') = snd (dw_server w1)"
  proof (cases a)
    case (Inl e)
    with assms(2) Inr d show ?thesis by (simp add: requestProperties_def)
  next
    case resp: (Inr resp)
    obtain body re w2 where rb: "on_server (dl_ReadBody (db_client B) (hr_Body resp)) w1 = ((body, re), w2)" by (metis surj_pair)
    have w2: "snd (dw_server w2) = snd (dw_server w1)"
      using on_server_wires [OF rb] silent_callD by (fastforce simp: assms(1) tapped_dav_def Let_def)
    obtain e w3 where er: "responseError B ''PROPFIND'' resp w1 = (e, w3)" by force
    from assms(2) Inr d resp rb er show ?thesis
      by (auto simp: requestProperties_def w2 responseError_wires [OF assms(1) er] dest!: closing_wires [OF assms(1)]
          split: if_splits option.splits sum.splits)
  qed
  with w1 q show ?thesis by auto
qed

lemma propfind_wires:
  assumes "db_client B = tapped_dav D i" and "propfind B x n d w = (r, w')"
  shows "snd (dw_server w') = snd (dw_server w) \<and> \<not> is_ok r \<or>
    (\<exists>q. resourceURL B n = Inr (hq_URL q) \<and> hq_Auth q = (db_username B, db_password B) \<and>
       snd (dw_server w') = snd (dw_server w) @ [HttpCall i q])"
  using assms(2)
  by (auto simp: propfind_def split: sum.splits prod.splits dest!: requestProperties_wires [OF assms(1)])

lemma resource_secure: "resourceURL B n = Inr u \<Longrightarrow> du_Scheme u = du_Scheme (db_baseURL B) \<and> du_Host u = du_Host (db_baseURL B)"
  by (auto simp: resourceURL_def split: sum.splits)

lemma sftp_config_auth:
  assumes "sftp_config_of ks p s fs = Inr c"
  shows "sf_Host c = p_Host p \<and> sf_Port c = p_Port p \<and> sf_Username c = p_Username p \<and>
    (if p_AuthMethod p = AuthPrivateKey
     then \<exists>g. LoadPrivateKey (ke_ParsePrivateKey ks) (ke_ParsePrivateKeyWith ks) (p_PrivateKey p) (bytes_of (sec_Passphrase s)) fs = Inr g \<and>
       authenticationMethods c = [PublicKeysAuth g]
     else authenticationMethods c = [PasswordAuth (sec_Password s)])"
  using assms by (auto simp: sftp_config_of_def authenticationMethods_def Let_def split: if_splits sum.splits)


text \<open>An SFTP profile, a server that accepts the connection, and no other server.\<close>

definition offline_ftp :: "(unit, nat, unit) ftp_lib" where
  "offline_ftp = (let none = Some (ErrNew ''offline'') in \<lparr>
     fl_Dial = (\<lambda>h p t s. (Inl (ErrNew ''offline''), s)), fl_Login = (\<lambda>c u pw s. (none, s)), fl_ChangeDir = (\<lambda>c d s. (none, s)),
     fl_CurrentDir = (\<lambda>c s. (Inl (ErrNew ''offline''), s)), fl_Quit = (\<lambda>c s. (none, s)), fl_NoOp = (\<lambda>c s. (none, s)),
     fl_GetEntry = (\<lambda>c p s. (Inl (ErrNew ''offline''), s)), fl_List = (\<lambda>c p s. (Inl (ErrNew ''offline''), s)),
     fl_Retr = (\<lambda>c p s. (Inl (ErrNew ''offline''), s)), fl_ReadAll = (\<lambda>d s. (([], none), s)), fl_RespClose = (\<lambda>d s. (none, s)),
     fl_Stor = (\<lambda>c p b s. (none, s)), fl_MakeDir = (\<lambda>c p s. (none, s)), fl_RemoveDir = (\<lambda>c p s. (none, s)),
     fl_Delete = (\<lambda>c p s. (none, s)), fl_Rename = (\<lambda>c p q s. (none, s)), fl_IsSetTimeSupported = (\<lambda>c s. False),
     fl_SetTime = (\<lambda>c p t s. (none, s))\<rparr>)"

definition offline_dav :: "(nat, unit) dav_lib" where
  "offline_dav = \<lparr>dl_Do = (\<lambda>x q s. (Inl (ErrNew ''offline''), s)), dl_ReadBody = (\<lambda>d s. (([], None), s)),
     dl_CloseBody = (\<lambda>d s. (None, s)), dl_CloseIdle = (\<lambda>s. s), dl_NewRequest = (\<lambda>m u. None), dl_URLString = du_Path,
     dl_Multistatus = (\<lambda>b. Inr []), dl_LockHref = (\<lambda>b. Inl (Sentinel EOF)), dl_MediaType = Inr, dl_ResolveHref = (\<lambda>u h. Inr h),
     dl_ParseTime = (\<lambda>t. Inl (Sentinel EOF))\<rparr>"

definition demo_conn_env :: "(unit, nat, nat, nat, unit, unit, nat, unit, unit, unit) conn_env" where
  "demo_conn_env = \<lparr>ce_sftp = demo_sftp, ce_dav = (\<lambda>_. offline_dav), ce_ftp = offline_ftp, ce_keys = demo_keys\<rparr>"

definition sftp_profile :: profile where
  "sftp_profile = sample_profile\<lparr>p_Protocol := ProtocolSFTP, p_FTPSMode := '''', p_InsecureSkipTLSVerify := False\<rparr>"

definition conn_world :: "(nat \<times> (unit, unit) wire list) dav_world" where
  "conn_world = demo_dav_world (0, [])"

lemma demo_opens: "is_ok (fst (openBackend (tapped demo_conn_env) None sftp_profile demo_secrets conn_world))"
  by code_simp


subsection \<open>Mounting leaks no connection\<close>

text \<open>The calls of the mount with a count of the backends opened and not closed.\<close>

definition counted_env :: "('w, 'b, 'z) mount_env \<Rightarrow> ('w \<times> int, 'b, 'z) mount_env" where
  "counted_env env = \<lparr>
     me_GetLogicalDrives = silent_call (me_GetLogicalDrives env), me_LoadWinFSP = silent_call (me_LoadWinFSP env),
     me_open = counted_call (case_sum (\<lambda>_. 0) (\<lambda>_. 1)) (me_open env), me_ctxErr = (\<lambda>w. me_ctxErr env (fst w)),
     me_close = (\<lambda>b w. (me_close env b (fst w), snd w - 1)),
     me_StartSession = (\<lambda>b l m. silent_call (me_StartSession env b l m))\<rparr>"

text \<open>
  C32. Whatever fails while a profile is mounted (the profile, the drive, the runtime, the connection, a
  cancelled context, the session), no open backend is left behind; a mounted session owns exactly one.
\<close>

theorem mount_leaks_nothing:
  "snd (snd (MountWithCacheLimits (counted_env env) p w)) =
     snd w + (case fst (MountWithCacheLimits (counted_env env) p w) of Inl e \<Rightarrow> 0 | Inr z \<Rightarrow> 1)"
proof -
  obtain r w' where run: "MountWithCacheLimits (counted_env env) p w = (r, w')" by (metis surj_pair)
  then have "snd w' = snd w + (case r of Inl e \<Rightarrow> 0 | Inr z \<Rightarrow> 1)"
    by (auto simp: MountWithCacheLimits_def counted_env_def Let_def dest!: silent_callD counted_callD
        split: option.splits prod.splits sum.splits if_splits)
  with run show ?thesis by simp
qed

end
