(* ===== verification/Mount_FS.thy ===== *)
theory Mount_FS
  imports Recovery_Path Cache_Store Vfs_Writer
begin

text \<open>
  \<^verbatim>\<open>internal/mount/gofs_windows.go\<close>: the mounted drive as a file system of staged files.
  Every open file has its bytes in a staging file of the cache; a \<open>Sync\<close> or \<open>Close\<close> uploads it. The
  open files and directories are lists, a handle is an index; \<open>mw_open\<close> is the map \<open>openFiles\<close>
  (whose \<open>Range\<close> visits its keys in some order: here, the order of the list). Every method runs under
  the file's mutex, and \<open>LockResize\<close> keeps the quota's until the write is done, so that each is atomic.
\<close>

record staged_file =
  stf_name :: string
  stf_path :: string
  stf_pos :: nat
  stf_mode :: filemode
  stf_modTime :: instant
  stf_dirty :: bool
  stf_writePermitted :: bool
  stf_appendMode :: bool
  stf_requestedTime :: instant
  stf_createdAt :: instant
  stf_closed :: bool

record directory_file =
  dif_name :: string
  dif_entries :: "entry list option"
  dif_offset :: nat
  dif_closed :: bool

record recovery_context =
  rx_ProfileID :: string
  rx_ProfileName :: string
  rx_Protocol :: string
  rx_RemotePath :: string

record ('w, 'r, 'h) gofs =
  gf_backend :: "('w, 'r, 'h) backend"
  gf_readOnly :: bool
  gf_store :: store
  gf_codec :: metadata_codec
  gf_recovery :: recovery_context

record 'w mount_world =
  mw_remote :: 'w
  mw_fs :: lfs
  mw_staged :: "staged_file list"
  mw_dirs :: "directory_file list"
  mw_open :: "nat list"
  mw_rnd :: string
  mw_now :: instant

text \<open>A call of the backend, with the fresh context of \<open>operationContext\<close>; a call on local files.\<close>

definition remote_call :: "('w \<Rightarrow> 'a \<times> 'w) \<Rightarrow> 'w mount_world \<Rightarrow> 'a \<times> 'w mount_world" where
  "remote_call f w = (case f (mw_remote w) of (r, s) \<Rightarrow> (r, w\<lparr>mw_remote := s\<rparr>))"

definition local_call :: "(lfs \<Rightarrow> 'a \<times> lfs) \<Rightarrow> 'w mount_world \<Rightarrow> 'a \<times> 'w mount_world" where
  "local_call f w = (case f (mw_fs w) of (r, fs) \<Rightarrow> (r, w\<lparr>mw_fs := fs\<rparr>))"

definition upd_staged :: "nat \<Rightarrow> (staged_file \<Rightarrow> staged_file) \<Rightarrow> 'w mount_world \<Rightarrow> 'w mount_world" where
  "upd_staged i f w = w\<lparr>mw_staged := (mw_staged w)[i := f (mw_staged w ! i)]\<rparr>"

definition operationContext :: ctx where "operationContext = None"

text \<open>\<open>File.Stat\<close> of an open local file.\<close>

definition file_Stat :: "string \<Rightarrow> lfs \<Rightarrow> err + finfo" where
  "file_Stat p fs =
     (case fs_faults fs OpInfo p of
        Some e \<Rightarrow> Inl e
      | None \<Rightarrow> (case fs_get fs p of Some (Reg d t s) \<Rightarrow> Inr (node_info (Reg d t s)) | _ \<Rightarrow> Inl (PathErr ErrClosed)))"

definition mountBoundaryError :: "err \<Rightarrow> err" where
  "mountBoundaryError e =
     (if errors_Is e ENOSPC then the (errors_Join [Some (Sentinel STATUS_DISK_FULL), Some e]) else e)"

subsection \<open>Uploading\<close>

definition mount_chunk :: nat where "mount_chunk = 256 * 1024"

text \<open>
  The copy loop of \<open>upload\<close>. It ignores \<open>io.EOF\<close>, so that nothing in the loop itself makes it end
  if the file were shorter than its size says; not returning is \<open>None\<close>.
\<close>

partial_function (option) mount_chunks ::
  "('w, 'r, 'h) backend \<Rightarrow> 'h \<Rightarrow> string \<Rightarrow> nat \<Rightarrow> lfs \<Rightarrow> nat \<Rightarrow> 'w \<Rightarrow> (err option \<times> 'w) option" where
  "mount_chunks b h p n fs off w =
     (if off < n
      then let want = min mount_chunk (n - off); rd = file_ReadAt p want off fs; data = fst rd
           in if snd rd \<noteq> None \<and> \<not> errors_Is (the (snd rd)) EOF then Some (snd rd, w)
              else let wr = h_WriteAt b h data (int off) w
                   in if snd (fst wr) \<noteq> None then Some (snd (fst wr), snd wr)
                      else if fst (fst wr) \<noteq> length data then Some (Some (Sentinel ErrShortWrite), snd wr)
                      else mount_chunks b h p n fs (off + length data) (snd wr)
      else Some (None, w))"

definition mount_upload ::
  "('w, 'r, 'h) backend \<Rightarrow> string \<Rightarrow> string \<Rightarrow> lfs \<Rightarrow> 'w \<Rightarrow> (err option \<times> 'w) option" where
  "mount_upload b name p fs w =
     (case file_Stat p fs of
        Inl e \<Rightarrow> Some (Some e, w)
      | Inr info \<Rightarrow>
          (case b_OpenWrite b operationContext name (fresh_write (fi_Mode info)) w of
             (Inl e, w1) \<Rightarrow> Some (Some e, w1)
           | (Inr writer, w1) \<Rightarrow>
               (case mount_chunks b writer p (nat (fi_Size info)) fs 0 w1 of
                  None \<Rightarrow> None
                | Some (writeErr, w2) \<Rightarrow>
                    (case (if writeErr = None then h_Sync b writer w2 else (writeErr, w2)) of
                       (writeErr, w3) \<Rightarrow>
                         (case h_Close b writer w3 of
                            (closeErr, w4) \<Rightarrow> Some (errors_Join [writeErr, closeErr], w4))))))"

text \<open>
  The size comes from the same file, which nothing else changes under the mutex, so that every upload
  returns (lemma \<open>mount_upload_returns\<close>); its value is the one below.
\<close>

definition upload ::
  "('w, 'r, 'h) gofs \<Rightarrow> string \<Rightarrow> string \<Rightarrow> 'w mount_world \<Rightarrow> err option \<times> 'w mount_world" where
  "upload g name p w = remote_call (\<lambda>r. the (mount_upload (gf_backend g) name p (mw_fs w) r)) w"

subsection \<open>Staged files\<close>

definition setBackendModTime where
  "setBackendModTime g name t w = remote_call (b_SetModTime (gf_backend g) operationContext name t) w"

definition markDirty :: "staged_file \<Rightarrow> staged_file" where
  "markDirty f = (if stf_writePermitted f then f\<lparr>stf_dirty := True, stf_requestedTime := 0\<rparr> else f)"

definition staged_syncLocked :: "('w, 'r, 'h) gofs \<Rightarrow> nat \<Rightarrow> 'w mount_world \<Rightarrow> err option \<times> 'w mount_world" where
  "staged_syncLocked g i w =
     (let f = mw_staged w ! i
      in if stf_closed f then (Some (Sentinel ErrClosed), w)
         else case local_call (file_Sync (stf_path f)) w of
                (Some e, w1) \<Rightarrow> (Some e, w1)
              | (None, w1) \<Rightarrow>
                  if \<not> stf_dirty f then (None, w1)
                  else (case upload g (stf_name f) (stf_path f) w1 of
                          (Some e, w2) \<Rightarrow> (Some e, w2)
                        | (None, w2) \<Rightarrow>
                            (case (if stf_requestedTime f \<noteq> 0 then setBackendModTime g (stf_name f) (stf_requestedTime f) w2
                                   else (None, w2)) of
                               (Some e, w3) \<Rightarrow> (Some e, w3)
                             | (None, w3) \<Rightarrow>
                                 (None, upd_staged i (\<lambda>f. f\<lparr>stf_dirty := False,
                                          stf_modTime := (if stf_requestedTime f = 0 then mw_now w3 else stf_requestedTime f)\<rparr>) w3))))"

definition staged_Sync where
  "staged_Sync g i w = staged_syncLocked g i w"

definition preserveLocked ::
  "('w, 'r, 'h) gofs \<Rightarrow> nat \<Rightarrow> string \<Rightarrow> err option \<Rightarrow> 'w mount_world \<Rightarrow> err option \<times> 'w mount_world" where
  "preserveLocked g i reason cause w =
     (let f = mw_staged w ! i; r = gf_recovery g
      in case store_Preserve (gf_codec g) (gf_store g)
                \<lparr>pv_ProfileID = rx_ProfileID r, pv_ProfileName = rx_ProfileName r, pv_Protocol = rx_Protocol r,
                 pv_RemotePath = recoveryRemotePath (rx_RemotePath r) (stf_name f), pv_StagingPath = stf_path f,
                 pv_CreatedAt = stf_createdAt f, pv_Reason = reason, pv_LastError = cause\<rparr> (mw_rnd w) (mw_now w) (mw_fs w) of
           (res, sts) \<Rightarrow> (case_sum Some (\<lambda>_. None) res, w\<lparr>mw_fs := last sts\<rparr>))"

definition forget_open :: "nat \<Rightarrow> 'w mount_world \<Rightarrow> 'w mount_world" where
  "forget_open i w = w\<lparr>mw_open := filter (\<lambda>j. j \<noteq> i) (mw_open w)\<rparr>"

definition staged_Close :: "('w, 'r, 'h) gofs \<Rightarrow> nat \<Rightarrow> 'w mount_world \<Rightarrow> err option \<times> 'w mount_world" where
  "staged_Close g i w =
     (let f = mw_staged w ! i
      in if stf_closed f then (Some (Sentinel ErrClosed), w)
         else case staged_syncLocked g i w of
                (syncErr, w1) \<Rightarrow>
                  let w2 = upd_staged i (\<lambda>f. f\<lparr>stf_closed := True\<rparr>) w1;
                      closeErr = file_Close (stf_path f) (mw_fs w2);
                      w3 = forget_open i w2
                  in if syncErr = None
                     then (case local_call (os_Remove (stf_path f)) w3 of
                             (removeErr, w4) \<Rightarrow> (errors_Join [closeErr, removeErr], w4))
                     else (case preserveLocked g i ''upload_failed'' syncErr w3 of
                             (preserveErr, w4) \<Rightarrow> (errors_Join [syncErr, closeErr, preserveErr], w4)))"

definition closePreserving :: "('w, 'r, 'h) gofs \<Rightarrow> nat \<Rightarrow> 'w mount_world \<Rightarrow> err option \<times> 'w mount_world" where
  "closePreserving g i w =
     (let f = mw_staged w ! i
      in if stf_closed f then (None, w)
         else case local_call (file_Sync (stf_path f)) w of
                (syncErr, w1) \<Rightarrow>
                  let w2 = upd_staged i (\<lambda>f. f\<lparr>stf_closed := True\<rparr>) w1;
                      closeErr = file_Close (stf_path f) (mw_fs w2);
                      w3 = forget_open i w2;
                      cause = errors_Join [syncErr, closeErr]
                  in (case preserveLocked g i ''force_disconnect'' cause w3 of
                        (preserveErr, w4) \<Rightarrow> (errors_Join [cause, preserveErr], w4)))"

text \<open>
  The positioned and the sequential write of an \<open>*os.File\<close>: an end beyond the largest offset is an
  error of the system; a file opened with \<open>O_APPEND\<close> refuses \<open>WriteAt\<close> and writes at its end.
\<close>

definition os_pwrite :: "string \<Rightarrow> bytes \<Rightarrow> nat \<Rightarrow> instant \<Rightarrow> lfs \<Rightarrow> (nat \<times> err option) \<times> lfs" where
  "os_pwrite p data off now fs =
     (if int off + int (length data) > max_i64 then ((0, Some (PathErr ErrInvalid)), fs)
      else file_WriteAt p data off now fs)"

definition staged_Write :: "('w, 'r, 'h) gofs \<Rightarrow> nat \<Rightarrow> bytes \<Rightarrow> 'w mount_world \<Rightarrow> (nat \<times> err option) \<times> 'w mount_world" where
  "staged_Write g i buffer w =
     (let f = mw_staged w ! i
      in case (if stf_closed f then Inl (PathErr ErrClosed) else file_Stat (stf_path f) (mw_fs w)) of
           Inl e \<Rightarrow> ((0, Some e), w)
         | Inr info \<Rightarrow>
             let newSize = (if stf_appendMode f then i64 (fi_Size info + int (length buffer))
                            else max (fi_Size info) (i64 (int (stf_pos f) + int (length buffer))));
                 at = (if stf_appendMode f then nat (fi_Size info) else stf_pos f)
             in (case LockResize (gf_store g) (stf_path f) newSize (mw_fs w) of
                   Some e \<Rightarrow> ((0, Some (mountBoundaryError e)), w)
                 | None \<Rightarrow>
                     (case local_call (os_pwrite (stf_path f) buffer at (mw_now w)) (upd_staged i markDirty w) of
                        ((n, e), w1) \<Rightarrow> ((n, e), if n > 0 then upd_staged i (\<lambda>f. f\<lparr>stf_pos := at + n\<rparr>) w1 else w1))))"

definition staged_WriteAt ::
  "('w, 'r, 'h) gofs \<Rightarrow> nat \<Rightarrow> bytes \<Rightarrow> int \<Rightarrow> 'w mount_world \<Rightarrow> (nat \<times> err option) \<times> 'w mount_world" where
  "staged_WriteAt g i buffer offset w =
     (let f = mw_staged w ! i
      in if offset < 0 then ((0, Some (Sentinel ErrInvalid)), w)
         else case (if stf_closed f then Inl (PathErr ErrClosed) else file_Stat (stf_path f) (mw_fs w)) of
                Inl e \<Rightarrow> ((0, Some e), w)
              | Inr info \<Rightarrow>
                  let newSize = max (fi_Size info) (i64 (offset + int (length buffer)))
                  in (case LockResize (gf_store g) (stf_path f) newSize (mw_fs w) of
                        Some e \<Rightarrow> ((0, Some (mountBoundaryError e)), w)
                      | None \<Rightarrow>
                          if stf_appendMode f then ((0, Some (ErrNew ''invalid use of WriteAt on file opened with O_APPEND'')), upd_staged i markDirty w)
                          else local_call (os_pwrite (stf_path f) buffer (nat offset) (mw_now w)) (upd_staged i markDirty w)))"

definition staged_Truncate :: "('w, 'r, 'h) gofs \<Rightarrow> nat \<Rightarrow> int \<Rightarrow> 'w mount_world \<Rightarrow> err option \<times> 'w mount_world" where
  "staged_Truncate g i n w =
     (let f = mw_staged w ! i
      in case LockResize (gf_store g) (stf_path f) n (mw_fs w) of
           Some e \<Rightarrow> (Some (mountBoundaryError e), w)
         | None \<Rightarrow>
             let w1 = upd_staged i markDirty w
             in if stf_closed f then (Some (PathErr ErrClosed), w1)
                else local_call (file_Truncate (stf_path f) (nat n) (mw_now w)) w1)"

text \<open>\<open>stagedInfo\<close>: name, size, mode and time.\<close>

definition staged_Stat :: "nat \<Rightarrow> 'w mount_world \<Rightarrow> err + entry" where
  "staged_Stat i w =
     (let f = mw_staged w ! i
      in case (if stf_closed f then Inl (PathErr ErrClosed) else file_Stat (stf_path f) (mw_fs w)) of
           Inl e \<Rightarrow> Inl e
         | Inr info \<Rightarrow>
             Inr \<lparr>e_Name = path_Base (stf_name f), e_Size = fi_Size info,
                  e_Mode = (if stf_mode f = 0 then fi_Mode info else stf_mode f),
                  e_ModTime = (if time_IsZero (stf_modTime f) \<or> stf_dirty f then fi_ModTime info else stf_modTime f)\<rparr>)"

definition staged_Readdir :: "err + entry list" where
  "staged_Readdir = Inl (PathErr ENOTDIR)"

definition staged_setModTime :: "nat \<Rightarrow> instant \<Rightarrow> 'w mount_world \<Rightarrow> err option \<times> 'w mount_world" where
  "staged_setModTime i t w =
     (let f = mw_staged w ! i
      in if stf_closed f then (Some (Sentinel ErrClosed), w)
         else case local_call (os_Chtimes (stf_path f) t) w of
                (Some e, w1) \<Rightarrow> (Some e, w1)
              | (None, w1) \<Rightarrow> (None, upd_staged i (\<lambda>f. f\<lparr>stf_modTime := t, stf_requestedTime := t\<rparr>) w1))"

end
