(* ===== verification/Mount_Ops.thy ===== *)
theory Mount_Ops
  imports Mount_FS
begin

text \<open>
  \<^verbatim>\<open>internal/mount/gofs_windows.go\<close>: the methods of \<open>goFileSystem\<close> and the open directories.
  A file handle of \<^verbatim>\<open>gofs\<close> is a staged file or a directory, by its index in the world. The flags
  are Go's \<open>os.O_*\<close> numbers on Windows.
\<close>

type_synonym oflag = "32 word"

definition O_WRONLY :: oflag where "O_WRONLY = 0x1"
definition O_RDWR :: oflag where "O_RDWR = 0x2"
definition O_CREATE :: oflag where "O_CREATE = 0x40"
definition O_EXCL :: oflag where "O_EXCL = 0x80"
definition O_TRUNC :: oflag where "O_TRUNC = 0x200"
definition O_APPEND :: oflag where "O_APPEND = 0x400"

definition has_flag :: "oflag \<Rightarrow> oflag \<Rightarrow> bool" where
  "has_flag flag bits \<longleftrightarrow> flag AND bits \<noteq> 0"

datatype gofs_file = Staged nat | Directory nat

subsection \<open>Lookups\<close>

text \<open>The \<open>Range\<close> of \<open>stat\<close>: pending writes of open files with this name, up to the first error.\<close>

fun sync_range :: "('w, 'r, 'h) gofs \<Rightarrow> string \<Rightarrow> nat list \<Rightarrow> 'w mount_world \<Rightarrow> err option \<times> 'w mount_world" where
  "sync_range g name [] w = (None, w)"
| "sync_range g name (i # is) w =
     (let f = mw_staged w ! i
      in if stf_name f \<noteq> name then sync_range g name is w
         else case (if \<not> stf_closed f \<and> stf_dirty f then staged_syncLocked g i w else (None, w)) of
                (Some e, w1) \<Rightarrow> (Some e, w1)
              | (None, w1) \<Rightarrow> sync_range g name is w1)"

definition gofs_stat :: "('w, 'r, 'h) gofs \<Rightarrow> string \<Rightarrow> 'w mount_world \<Rightarrow> (err + entry) \<times> 'w mount_world" where
  "gofs_stat g name w =
     (case sync_range g name (mw_open w) w of
        (Some e, w1) \<Rightarrow> (Inl e, w1)
      | (None, w1) \<Rightarrow> remote_call (b_Stat (gf_backend g) operationContext name) w1)"

text \<open>The methods of \<open>entryInfo\<close> are the fields of the entry.\<close>

definition gofs_Stat :: "('w, 'r, 'h) gofs \<Rightarrow> string \<Rightarrow> 'w mount_world \<Rightarrow> (err + entry) \<times> 'w mount_world" where
  "gofs_Stat g name w =
     (case gofs_stat g (cleanMountPath name) w of
        (Inl e, w1) \<Rightarrow> (Inl (if errors_Is e ErrNotExist then Sentinel ErrNotExist else e), w1)
      | (Inr en, w1) \<Rightarrow> (Inr en, w1))"

subsection \<open>Changes of the tree\<close>

definition gofs_Mkdir where
  "gofs_Mkdir g name w = remote_call (b_Mkdir (gf_backend g) operationContext (cleanMountPath name)) w"

definition gofs_Rename where
  "gofs_Rename g source target w =
     remote_call (b_Rename (gf_backend g) operationContext (cleanMountPath source) (cleanMountPath target)) w"

definition gofs_Remove :: "('w, 'r, 'h) gofs \<Rightarrow> string \<Rightarrow> 'w mount_world \<Rightarrow> err option \<times> 'w mount_world" where
  "gofs_Remove g name w =
     (let name = cleanMountPath name
      in case gofs_stat g name w of
           (Inl e, w1) \<Rightarrow> (Some e, w1)
         | (Inr en, w1) \<Rightarrow> remote_call (b_Remove (gf_backend g) operationContext name (entry_IsDir en)) w1)"

fun mtime_range :: "string \<Rightarrow> instant \<Rightarrow> nat list \<Rightarrow> err option \<Rightarrow> 'w mount_world \<Rightarrow> err option \<times> 'w mount_world" where
  "mtime_range name t [] updateErr w = (updateErr, w)"
| "mtime_range name t (i # is) updateErr w =
     (if stf_name (mw_staged w ! i) = name
      then case staged_setModTime i t w of
             (e, w1) \<Rightarrow> mtime_range name t is (if updateErr = None then e else updateErr) w1
      else mtime_range name t is updateErr w)"

definition gofs_setModTime :: "('w, 'r, 'h) gofs \<Rightarrow> string \<Rightarrow> instant \<Rightarrow> 'w mount_world \<Rightarrow> err option \<times> 'w mount_world" where
  "gofs_setModTime g name t w =
     (case remote_call (b_SetModTime (gf_backend g) operationContext name t) w of
        (Some e, w1) \<Rightarrow> (Some e, w1)
      | (None, w1) \<Rightarrow> mtime_range name t (mw_open w1) None w1)"

subsection \<open>Opening\<close>

text \<open>
  \<open>os.OpenFile\<close> on the staging file, without \<open>O_CREATE\<close> but with \<open>O_TRUNC\<close> (the download), and with
  \<open>O_RDWR\<close>, \<open>O_CREATE\<close> and perhaps \<open>O_TRUNC\<close> (the handle).
\<close>

definition os_TruncExisting :: "string \<Rightarrow> instant \<Rightarrow> lfs \<Rightarrow> (err + string) \<times> lfs" where
  "os_TruncExisting p now fs =
     (if fs_faults fs OpCreate p = None \<and> fs_get fs p = None then (Inl (PathErr ENOENT), fs) else os_OpenTrunc p now fs)"

definition os_OpenFile :: "string \<Rightarrow> bool \<Rightarrow> instant \<Rightarrow> lfs \<Rightarrow> (err + string) \<times> lfs" where
  "os_OpenFile p trunc now fs =
     (if trunc then os_OpenTrunc p now fs
      else case fs_faults fs OpOpen p of
             Some e \<Rightarrow> (Inl e, fs)
           | None \<Rightarrow> (case fs_get fs p of
                        None \<Rightarrow> (Inr p, fs_set p (Reg [] now False) fs)
                      | Some (Reg d t s) \<Rightarrow> (Inr p, fs)
                      | Some DirNode \<Rightarrow> (Inl (PathErr EISDIR), fs)
                      | Some _ \<Rightarrow> (Inl (PathErr EIO), fs)))"

text \<open>
  \<open>io.Copy\<close> writes what the reader gives before its error, so that a failed write comes first. (A
  reader is a value here: what is left in it after a failed write is not counted.)
\<close>

definition download :: "('w, 'r, 'h) gofs \<Rightarrow> string \<Rightarrow> string \<Rightarrow> 'w mount_world \<Rightarrow> err option \<times> 'w mount_world" where
  "download g name destination w =
     (case remote_call (b_OpenRead (gf_backend g) operationContext name) w of
        (Inl e, w1) \<Rightarrow> (Some e, w1)
      | (Inr reader, w1) \<Rightarrow>
          (case local_call (os_TruncExisting destination (mw_now w1)) w1 of
             (Inl e, w2) \<Rightarrow> (case remote_call (r_Close (gf_backend g) reader) w2 of (_, w3) \<Rightarrow> (Some e, w3))
           | (Inr q, w2) \<Rightarrow>
               (case remote_call (r_ReadAll (gf_backend g) reader) w2 of
                  ((data, readErr), w3) \<Rightarrow>
                    (case local_call (file_WriteAt q data 0 (mw_now w3)) w3 of
                       ((_, writeErr), w4) \<Rightarrow>
                         let copyErr = (if data \<noteq> [] \<and> writeErr \<noteq> None then writeErr else readErr);
                             closeErr = file_Close q (mw_fs w4)
                         in (case remote_call (r_Close (gf_backend g) reader) w4 of
                               (readerErr, w5) \<Rightarrow> (errors_Join [copyErr, closeErr, readerErr], w5))))))"

text \<open>The deferred removal, whose error is dropped.\<close>

definition discard_temporary :: "string \<Rightarrow> 'w mount_world \<Rightarrow> 'w mount_world" where
  "discard_temporary p w = snd (local_call (os_Remove p) w)"

definition open_staged ::
  "('w, 'r, 'h) gofs \<Rightarrow> string \<Rightarrow> oflag \<Rightarrow> entry option \<Rightarrow> 'w mount_world \<Rightarrow> (err + gofs_file) \<times> 'w mount_world" where
  "open_staged g name flag existing w =
     (let en = (case existing of Some en \<Rightarrow> en | None \<Rightarrow> zero_entry)
      in case local_call (CreateStaging (gf_store g) (mw_rnd w) (mw_now w)) w of
           (Inl e, w1) \<Rightarrow> (Inl e, w1)
         | (Inr tmp, w1) \<Rightarrow>
             (case file_Close tmp (mw_fs w1) of
                Some e \<Rightarrow> (Inl e, discard_temporary tmp w1)
              | None \<Rightarrow>
                  (case (if existing \<noteq> None \<and> \<not> has_flag flag O_TRUNC
                         then case LockResize (gf_store g) tmp (e_Size en) (mw_fs w1) of
                                Some e \<Rightarrow> (Some (mountBoundaryError e), w1)
                              | None \<Rightarrow> download g name tmp w1
                         else (None, w1)) of
                     (Some e, w2) \<Rightarrow> (Inl e, discard_temporary tmp w2)
                   | (None, w2) \<Rightarrow>
                       (case local_call (os_OpenFile tmp (has_flag flag O_TRUNC) (mw_now w2)) w2 of
                          (Inl e, w3) \<Rightarrow> (Inl e, discard_temporary tmp w3)
                        | (Inr _, w3) \<Rightarrow>
                            (Inr (Staged (length (mw_staged w3))),
                             w3\<lparr>mw_staged := mw_staged w3 @
                                  [\<lparr>stf_name = name, stf_path = tmp, stf_pos = 0, stf_mode = e_Mode en,
                                    stf_modTime = e_ModTime en, stf_dirty = (existing = None \<or> has_flag flag O_TRUNC),
                                    stf_writePermitted = has_flag flag (O_WRONLY OR O_RDWR),
                                    stf_appendMode = has_flag flag O_APPEND, stf_requestedTime = 0,
                                    stf_createdAt = mw_now w3, stf_closed = False\<rparr>],
                                mw_open := mw_open w3 @ [length (mw_staged w3)]\<rparr>)))))"

definition gofs_OpenFile ::
  "('w, 'r, 'h) gofs \<Rightarrow> string \<Rightarrow> oflag \<Rightarrow> 'w mount_world \<Rightarrow> (err + gofs_file) \<times> 'w mount_world" where
  "gofs_OpenFile g name flag w =
     (if gf_readOnly g \<and> has_flag flag (O_WRONLY OR O_RDWR OR O_CREATE OR O_TRUNC OR O_APPEND) then (Inl ErrReadOnly, w)
      else let name = cleanMountPath name
           in case gofs_stat g name w of
                (Inr en, w1) \<Rightarrow>
                  if entry_IsDir en
                  then if has_flag flag (O_WRONLY OR O_RDWR OR O_TRUNC OR O_APPEND) then (Inl (Sentinel EISDIR), w1)
                       else (Inr (Directory (length (mw_dirs w1))),
                             w1\<lparr>mw_dirs := mw_dirs w1 @ [\<lparr>dif_name = name, dif_entries = None, dif_offset = 0, dif_closed = False\<rparr>]\<rparr>)
                  else if has_flag flag O_CREATE \<and> has_flag flag O_EXCL then (Inl (Sentinel ErrExist), w1)
                  else open_staged g name flag (Some en) w1
              | (Inl e, w1) \<Rightarrow>
                  if \<not> errors_Is e ErrNotExist then (Inl e, w1)
                  else if \<not> has_flag flag O_CREATE then (Inl (Sentinel ErrNotExist), w1)
                  else open_staged g name flag None w1)"

subsection \<open>Directories\<close>

definition directory_data_error :: err where
  "directory_data_error = Sentinel EISDIR"

definition upd_dir :: "nat \<Rightarrow> (directory_file \<Rightarrow> directory_file) \<Rightarrow> 'w mount_world \<Rightarrow> 'w mount_world" where
  "upd_dir i f w = w\<lparr>mw_dirs := (mw_dirs w)[i := f (mw_dirs w ! i)]\<rparr>"

definition directory_Close :: "nat \<Rightarrow> 'w mount_world \<Rightarrow> err option \<times> 'w mount_world" where
  "directory_Close i w =
     (if dif_closed (mw_dirs w ! i) then (Some (Sentinel ErrClosed), w) else (None, upd_dir i (\<lambda>f. f\<lparr>dif_closed := True\<rparr>) w))"

definition directory_Stat :: "('w, 'r, 'h) gofs \<Rightarrow> nat \<Rightarrow> 'w mount_world \<Rightarrow> (err + entry) \<times> 'w mount_world" where
  "directory_Stat g i w =
     (if dif_closed (mw_dirs w ! i) then (Inl (Sentinel ErrClosed), w) else gofs_Stat g (dif_name (mw_dirs w ! i)) w)"

definition directory_chunk :: "int \<Rightarrow> entry list \<Rightarrow> nat \<Rightarrow> (err + entry list) \<times> nat" where
  "directory_chunk count es off =
     (if count \<le> 0 then (Inr (drop off es), length es)
      else if off \<ge> length es then (Inl (Sentinel EOF), off)
      else let end = i64 (int off + count); end = (if end > int (length es) then int (length es) else end)
           in if end < int off then (Inl (ErrNew ''panic: slice bounds out of range''), off)
              else (Inr (take (nat end - off) (drop off es)), nat end))"

definition directory_Readdir :: "('w, 'r, 'h) gofs \<Rightarrow> nat \<Rightarrow> int \<Rightarrow> 'w mount_world \<Rightarrow> (err + entry list) \<times> 'w mount_world" where
  "directory_Readdir g i count w =
     (let f = mw_dirs w ! i
      in if dif_closed f then (Inl (Sentinel ErrClosed), w)
         else case (case dif_entries f of
                      Some es \<Rightarrow> (Inr es, w)
                    | None \<Rightarrow> remote_call (b_ReadDir (gf_backend g) operationContext (dif_name f)) w) of
                (Inl e, w1) \<Rightarrow> (Inl e, w1)
              | (Inr es, w1) \<Rightarrow>
                  (case directory_chunk count es (dif_offset f) of
                     (r, off) \<Rightarrow> (r, upd_dir i (\<lambda>f. f\<lparr>dif_entries := Some es, dif_offset := off\<rparr>) w1)))"

end
