(* ===== verification/Mount_Facts.thy ===== *)
theory Mount_Facts
  imports Mount_Ops Recovery_Facts Cache_Sizes
begin

text \<open>
  What a staged file of the mounted drive promises: its upload returns and copies the file exactly as
  a retry does, a close never drops bytes the server has not acknowledged, a lookup publishes the
  pending writes of its path first, and writes implement a plain sequence of bytes under the quota.
\<close>

subsection \<open>The copy loop\<close>

text \<open>\<open>ReadAt\<close> inside a file does not answer \<open>io.EOF\<close>: what is injected as a fault is another error.\<close>

definition no_early_EOF :: "lfs \<Rightarrow> bool" where
  "no_early_EOF fs \<longleftrightarrow> (\<forall>p e. fs_faults fs OpRead p = Some e \<longrightarrow> \<not> errors_Is e EOF)"

lemma ReadAt_inside:
  assumes "no_early_EOF fs" and "fs_get fs p = Some (Reg d t s)" and "off + want \<le> length d"
  shows "(\<exists>e. file_ReadAt p want off fs = ([], Some e) \<and> \<not> errors_Is e EOF) \<or>
    file_ReadAt p want off fs = (take want (drop off d), None)"
  using assms by (auto simp: file_ReadAt_def no_early_EOF_def Let_def split: option.splits)

text \<open>The copy loops of the mount and of a retry do the same; they only wrap the errors differently.\<close>

lemma mount_chunks_agree:
  assumes "no_early_EOF fs" and "fs_get fs p = Some (Reg d t s)" and "n \<le> length d"
  shows "\<exists>e. mount_chunks b h p n fs off w = Some (e, snd (upload_chunks b h p n fs off w)) \<and>
    (e = None \<longleftrightarrow> fst (upload_chunks b h p n fs off w) = None)"
proof (induction "n - off" arbitrary: off w rule: less_induct)
  case less
  note mc = mount_chunks.simps [of b h p n fs off w] and uc = upload_chunks.simps [of b h p n fs off w]
  show ?case
  proof (cases "off < n")
    case False
    then show ?thesis by (simp add: mc uc)
  next
    case True
    let ?want = "min mount_chunk (n - off)"
    have chunk: "mount_chunk = chunk_size" by (simp add: mount_chunk_def chunk_size_def)
    have inside: "off + ?want \<le> length d" using True assms(3) by simp
    from ReadAt_inside [OF assms(1,2) inside] consider
        e where "file_ReadAt p ?want off fs = ([], Some e)" "\<not> errors_Is e EOF"
      | "file_ReadAt p ?want off fs = (take ?want (drop off d), None)" by blast
    then show ?thesis
    proof cases
      case 1
      with True show ?thesis by (simp add: mc uc Let_def chunk)
    next
      case 2
      let ?data = "take ?want (drop off d)"
      have len: "length ?data = ?want" using inside by simp
      obtain k we w1 where wr: "h_WriteAt b h ?data (int off) w = ((k, we), w1)" by (metis surj_pair)
      show ?thesis
      proof (cases "we = None \<and> k = length ?data")
        case False
        with True 2 wr show ?thesis by (cases we) (auto simp: mc uc Let_def chunk)
      next
        case ok: True
        have "0 < ?want" using True by (simp add: mount_chunk_def)
        then have "n - (off + ?want) < n - off" using True by linarith
        from less.hyps [OF this, of w1] ok True 2 wr len show ?thesis by (simp add: mc uc Let_def chunk)
      qed
    qed
  qed
qed

lemma file_Stat_Reg:
  "file_Stat p fs = Inr info \<Longrightarrow> \<exists>d t s. fs_get fs p = Some (Reg d t s) \<and> info = node_info (Reg d t s)"
  by (auto simp: file_Stat_def split: option.splits node.splits)

lemma mount_upload_returns_aux:
  assumes "no_early_EOF fs"
  shows "\<exists>e w'. mount_upload b name p fs w = Some (e, w')"
proof (cases "file_Stat p fs")
  case (Inr info)
  then obtain d t s where f: "fs_get fs p = Some (Reg d t s)" "info = node_info (Reg d t s)"
    using file_Stat_Reg by blast
  show ?thesis
  proof (cases "b_OpenWrite b operationContext name (fresh_write (fi_Mode info)) w")
    case (Pair r w1)
    show ?thesis
    proof (cases r)
      case r: (Inr h)
      from mount_chunks_agree [OF assms f(1) order_refl, of b h 0 w1] obtain e where
        "mount_chunks b h p (length d) fs 0 w1 = Some (e, snd (upload_chunks b h p (length d) fs 0 w1))" by blast
      with Inr Pair r f(2) show ?thesis by (auto simp: mount_upload_def split: prod.splits)
    qed (use Inr Pair in \<open>simp add: mount_upload_def\<close>)
  qed
qed (simp add: mount_upload_def)

text \<open>
  C19. Every upload of a staged file returns, although its copy loop ignores \<open>io.EOF\<close> and so has no
  exit of its own for a file that is shorter than its size: the size is read from the same file, under
  the file's mutex.
\<close>

theorem mount_upload_returns:
  "no_early_EOF fs \<Longrightarrow> \<exists>e w'. mount_upload b name p fs w = Some (e, w')"
  by (rule mount_upload_returns_aux)

subsection \<open>Publishing\<close>

text \<open>An open staged file with the bytes \<open>c\<close> in its staging file.\<close>

definition staged_open :: "nat \<Rightarrow> bytes \<Rightarrow> 'w mount_world \<Rightarrow> bool" where
  "staged_open i c w \<longleftrightarrow> i < length (mw_staged w) \<and> \<not> stf_closed (mw_staged w ! i) \<and>
     (\<exists>t s. fs_get (mw_fs w) (stf_path (mw_staged w ! i)) = Some (Reg c t s))"

definition local_same :: "'w mount_world \<Rightarrow> 'w mount_world \<Rightarrow> bool" where
  "local_same w w' \<longleftrightarrow> mw_staged w' = mw_staged w \<and> mw_dirs w' = mw_dirs w \<and> mw_open w' = mw_open w \<and>
     mw_rnd w' = mw_rnd w \<and> mw_now w' = mw_now w"

lemma remote_call_local: "remote_call f w = (r, w') \<Longrightarrow> local_same w w' \<and> mw_fs w' = mw_fs w"
  by (auto simp: remote_call_def local_same_def split: prod.splits)

lemma local_call_same: "local_call f w = (r, w') \<Longrightarrow> local_same w w' \<and> mw_remote w' = mw_remote w \<and> f (mw_fs w) = (r, mw_fs w')"
  by (auto simp: local_call_def local_same_def split: prod.splits)

lemma Sync_data:
  "file_Sync p fs = (r, fs') \<Longrightarrow> fs_get fs p = Some (Reg c t s) \<Longrightarrow>
   (\<exists>t s. fs_get fs' p = Some (Reg c t s)) \<and> (\<forall>q. q \<noteq> p \<longrightarrow> fs_get fs' q = fs_get fs q) \<and>
   fs_faults fs' = fs_faults fs \<and> fs_cwd fs' = fs_cwd fs"
  by (auto simp: file_Sync_def fs_simps split: option.splits)

lemma staged_sync_local:
  assumes "staged_syncLocked g i w = (r, w')" and i: "i < length (mw_staged w)" "\<not> stf_closed (mw_staged w ! i)"
  shows "(\<exists>m. mw_staged w' = (mw_staged w)[i := (mw_staged w ! i)\<lparr>stf_dirty := stf_dirty (mw_staged w ! i) \<and> r \<noteq> None, stf_modTime := m\<rparr>]) \<and>
    mw_dirs w' = mw_dirs w \<and> mw_open w' = mw_open w \<and> mw_rnd w' = mw_rnd w \<and> mw_now w' = mw_now w \<and>
    file_Sync (stf_path (mw_staged w ! i)) (mw_fs w) = (fst (file_Sync (stf_path (mw_staged w ! i)) (mw_fs w)), mw_fs w')"
proof -
  let ?f = "mw_staged w ! i"
  have self: "(mw_staged w)[i := ?f\<lparr>stf_dirty := stf_dirty ?f\<rparr>] = mw_staged w" by simp
  obtain se w1 where sy: "local_call (file_Sync (stf_path ?f)) w = (se, w1)" by force
  note l1 = local_call_same [OF sy]
  have fin: ?thesis if "local_same w1 w'" "mw_fs w' = mw_fs w1" "r \<noteq> None \<or> \<not> stf_dirty ?f"
  proof -
    have d: "(stf_dirty ?f \<and> r \<noteq> None) = stf_dirty ?f" using that(3) by blast
    show ?thesis unfolding d using that l1 self
      by (intro conjI exI [of _ "stf_modTime ?f"]) (auto simp: local_same_def)
  qed
  show ?thesis
  proof (cases "se \<noteq> None \<or> \<not> stf_dirty ?f")
    case True
    with assms(1) i sy have "w' = w1" "r = se" by (auto simp: staged_syncLocked_def Let_def split: option.splits)
    with True fin show ?thesis by (auto simp: local_same_def)
  next
    case False
    obtain ue w2 where up: "upload g (stf_name ?f) (stf_path ?f) w1 = (ue, w2)" by force
    then have l2: "local_same w1 w2 \<and> mw_fs w2 = mw_fs w1" unfolding upload_def by (rule remote_call_local)
    show ?thesis
    proof (cases ue)
      case (Some e)
      with assms(1) i sy False up have "w' = w2" "r = Some e" by (auto simp: staged_syncLocked_def Let_def)
      with l2 fin show ?thesis by auto
    next
      case None
      obtain me w3 where mt: "(if stf_requestedTime ?f \<noteq> 0 then setBackendModTime g (stf_name ?f) (stf_requestedTime ?f) w2
          else (None, w2)) = (me, w3)" by force
      have l3: "local_same w2 w3 \<and> mw_fs w3 = mw_fs w2"
        using mt by (auto simp: setBackendModTime_def local_same_def dest: remote_call_local split: if_splits)
      have l13: "local_same w1 w3" "mw_fs w3 = mw_fs w1" using l2 l3 by (auto simp: local_same_def)
      show ?thesis
      proof (cases me)
        case (Some e)
        with assms(1) i sy False up None mt have "w' = w3" "r = Some e" by (auto simp: staged_syncLocked_def Let_def)
        with l13 fin show ?thesis by auto
      next
        case me: None
        with assms(1) i sy False up None mt have "w' = upd_staged i (\<lambda>f. f\<lparr>stf_dirty := False,
            stf_modTime := (if stf_requestedTime f = 0 then mw_now w3 else stf_requestedTime f)\<rparr>) w3" "r = None"
          by (auto simp: staged_syncLocked_def Let_def)
        with l1 l13 show ?thesis by (auto simp: upd_staged_def local_same_def)
      qed
    qed
  qed
qed

text \<open>A dirty file is clean only after an upload that reported success.\<close>

lemma staged_sync_uploads:
  assumes "staged_syncLocked g i w = (None, w')" and "staged_open i c w" and "stf_dirty (mw_staged w ! i)"
    and "no_early_EOF (mw_fs w)"
  shows "\<exists>fs r. mount_upload (gf_backend g) (stf_name (mw_staged w ! i)) (stf_path (mw_staged w ! i)) fs (mw_remote w) = Some (None, r) \<and>
    (\<exists>t s. fs_get fs (stf_path (mw_staged w ! i)) = Some (Reg c t s)) \<and> no_early_EOF fs \<and>
    (if stf_requestedTime (mw_staged w ! i) = 0 then mw_remote w' = r
     else b_SetModTime (gf_backend g) None (stf_name (mw_staged w ! i)) (stf_requestedTime (mw_staged w ! i)) r = (None, mw_remote w'))"
proof -
  let ?f = "mw_staged w ! i"
  from assms(2) obtain t s where i: "i < length (mw_staged w)" "\<not> stf_closed ?f"
    and d: "fs_get (mw_fs w) (stf_path ?f) = Some (Reg c t s)" by (auto simp: staged_open_def)
  obtain se w1 where sy: "local_call (file_Sync (stf_path ?f)) w = (se, w1)" by force
  note l1 = local_call_same [OF sy]
  with d Sync_data [of "stf_path ?f" "mw_fs w" se "mw_fs w1" c t s]
  have d1: "\<exists>t s. fs_get (mw_fs w1) (stf_path ?f) = Some (Reg c t s)" and ne: "no_early_EOF (mw_fs w1)"
    using assms(4) by (auto simp: no_early_EOF_def)
  from assms(1,3) i sy have se: "se = None" by (cases se) (auto simp: staged_syncLocked_def Let_def)
  obtain ue w2 where up: "upload g (stf_name ?f) (stf_path ?f) w1 = (ue, w2)" by force
  from assms(1,3) i sy se up have ue: "ue = None" by (cases ue) (auto simp: staged_syncLocked_def Let_def)
  from mount_upload_returns_aux [OF ne, of "gf_backend g" "stf_name ?f" "stf_path ?f" "mw_remote w1"] obtain e r where
    mu: "mount_upload (gf_backend g) (stf_name ?f) (stf_path ?f) (mw_fs w1) (mw_remote w1) = Some (e, r)" by blast
  with up ue have r: "e = None" "mw_remote w2 = r" by (auto simp: upload_def remote_call_def)
  have "if stf_requestedTime ?f = 0 then mw_remote w' = r
     else b_SetModTime (gf_backend g) None (stf_name ?f) (stf_requestedTime ?f) r = (None, mw_remote w')"
    using assms(1,3) i sy se up ue r
    by (auto simp: staged_syncLocked_def Let_def setBackendModTime_def remote_call_def operationContext_def upd_staged_def
        split: if_splits prod.splits option.splits)
  moreover have "mount_upload (gf_backend g) (stf_name ?f) (stf_path ?f) (mw_fs w1) (mw_remote w) = Some (None, r)"
    using mu r l1 by simp
  ultimately show ?thesis using d1 ne by blast
qed

lemma preserve_local:
  assumes st: "store_ok (gf_store g)" "cwd_ok (mw_fs w)" "staging_name n" "stf_path (mw_staged w ! i) = staging_file (gf_store g) n"
    and run: "preserveLocked g i reason cause w = (r, w')"
  shows "w' = w\<lparr>mw_fs := mw_fs w'\<rparr> \<and> fs_get (mw_fs w') (staging_file (gf_store g) n) = fs_get (mw_fs w) (staging_file (gf_store g) n) \<and>
    (r = None \<longrightarrow> (\<exists>md doc. mj_Encode (gf_codec g) md = Inr doc \<and> published (staging_file (gf_store g) n @ metadataSuffix) doc (mw_fs w') \<and>
       rm_StagingPath md = staging_file (gf_store g) n \<and> rm_RecoveryState md = StatePreserved \<and>
       rm_RemotePath md = recoveryRemotePath (rx_RemotePath (gf_recovery g)) (stf_name (mw_staged w ! i))))"
proof -
  let ?f = "mw_staged w ! i" and ?rx = "gf_recovery g"
  let ?v = "\<lparr>pv_ProfileID = rx_ProfileID ?rx, pv_ProfileName = rx_ProfileName ?rx, pv_Protocol = rx_Protocol ?rx,
                 pv_RemotePath = recoveryRemotePath (rx_RemotePath ?rx) (stf_name ?f), pv_StagingPath = stf_path ?f,
                 pv_CreatedAt = stf_createdAt ?f, pv_Reason = reason, pv_LastError = cause\<rparr>"
  obtain x sts where p: "store_Preserve (gf_codec g) (gf_store g) ?v (mw_rnd w) (mw_now w) (mw_fs w) = (x, sts)" by force
  with run have r: "r = case_sum Some (\<lambda>_. None) x" "w' = w\<lparr>mw_fs := last sts\<rparr>"
    by (auto simp: preserveLocked_def Let_def)
  from Preserve_states [OF st(1,2) p] show ?thesis
  proof (elim disjE exE conjE)
    fix m d t s md e
    assume a: "staging_name m" "filepath_Abs (mw_fs w) (pv_StagingPath ?v) = Inr (staging_file (gf_store g) m)"
      "rm_StagingPath md = staging_file (gf_store g) m" "rm_RecoveryState md = StatePreserved" "rm_RemotePath md = pv_RemotePath ?v"
      "writeMetadataAtomic (gf_codec g) (gf_store g) (staging_file (gf_store g) m @ metadataSuffix) md (mw_rnd w) (mw_now w) (mw_fs w) = (e, sts)"
      "x = (case e of None \<Rightarrow> Inr \<lparr>ri_Metadata = md, ri_MetadataPath = staging_file (gf_store g) m @ metadataSuffix, ri_Problem = ''''\<rparr> | Some e \<Rightarrow> Inl e)"
    from safe_staging_file [OF st(1,2,3)] safe_staging_eq [OF st(1,2)] st(4) a(2)
    have m: "staging_file (gf_store g) m = staging_file (gf_store g) n" by auto
    note ms = metadata_states [OF a(6) temp_not_staging [OF st(1) a(1)]]
    have "last sts \<in> set sts" using ms by simp
    moreover have "staging_file (gf_store g) n \<noteq> metadata_temp (gf_store g) (mw_rnd w)"
      using temp_not_staging [OF st(1,3), of "mw_rnd w" "[]"] by auto
    ultimately have "fs_get (last sts) (staging_file (gf_store g) n) = fs_get (mw_fs w) (staging_file (gf_store g) n)"
      using ms m by (auto simp: metadataSuffix_def)
    with ms r a m show ?thesis by (auto split: option.splits)
  qed (use r in auto)
qed

lemma Remove_data:
  "os_Remove p fs = (r, fs') \<Longrightarrow> fs_get fs p = Some nd \<Longrightarrow>
   (if r = None then fs_get fs' p = None else fs' = fs) \<and> fs_faults fs' = fs_faults fs \<and> fs_cwd fs' = fs_cwd fs"
  by (auto simp: os_Remove_def fs_simps split: option.splits dest!: sym [of "Some _" "fs_faults _ _ _"])

lemma Close_steps:
  assumes run: "staged_Close g i w = (r, w')" and op: "staged_open i c w" and st: "store_ok (gf_store g)" "cwd_ok (mw_fs w)"
    "staging_name n" "stf_path (mw_staged w ! i) = staging_file (gf_store g) n"
    and sy: "staged_syncLocked g i w = (e, w1)"
  shows "stf_closed (mw_staged w' ! i) \<and> i \<notin> set (mw_open w') \<and> set (mw_open w') \<subseteq> set (mw_open w) \<and>
    (e = None \<longrightarrow> mw_remote w' = mw_remote w1 \<and>
       (fs_get (mw_fs w') (staging_file (gf_store g) n) = None \<or>
        r \<noteq> None \<and> (\<exists>t s. fs_get (mw_fs w') (staging_file (gf_store g) n) = Some (Reg c t s)))) \<and>
    (\<forall>se. e = Some se \<longrightarrow> (\<exists>t s. fs_get (mw_fs w') (staging_file (gf_store g) n) = Some (Reg c t s)) \<and>
       (\<exists>ce pe. r = errors_Join [Some se, ce, pe] \<and>
          (pe = None \<longrightarrow> (\<exists>md doc. mj_Encode (gf_codec g) md = Inr doc \<and>
             published (staging_file (gf_store g) n @ metadataSuffix) doc (mw_fs w') \<and>
             rm_StagingPath md = staging_file (gf_store g) n \<and> rm_RecoveryState md = StatePreserved \<and>
             rm_RemotePath md = recoveryRemotePath (rx_RemotePath (gf_recovery g)) (stf_name (mw_staged w ! i))))))"
proof -
  let ?f = "mw_staged w ! i" and ?p = "staging_file (gf_store g) n"
  from op st(4) obtain t s where i: "i < length (mw_staged w)" "\<not> stf_closed ?f"
    and d: "fs_get (mw_fs w) ?p = Some (Reg c t s)" by (auto simp: staged_open_def)
  from staged_sync_local [OF sy i] obtain m where m:
    "mw_staged w1 = (mw_staged w)[i := ?f\<lparr>stf_dirty := stf_dirty ?f \<and> e \<noteq> None, stf_modTime := m\<rparr>]" "mw_open w1 = mw_open w"
    "file_Sync (stf_path ?f) (mw_fs w) = (fst (file_Sync (stf_path ?f) (mw_fs w)), mw_fs w1)" by blast
  from Sync_data [OF m(3) [unfolded st(4)] d] obtain t1 s1 where
    d1: "fs_get (mw_fs w1) ?p = Some (Reg c t1 s1)" "cwd_ok (mw_fs w1)" using st(2) by (auto simp: cwd_ok_def)
  let ?w3 = "forget_open i (upd_staged i (\<lambda>f. f\<lparr>stf_closed := True\<rparr>) w1)"
  have w3: "mw_fs ?w3 = mw_fs w1" "mw_remote ?w3 = mw_remote w1" "stf_closed (mw_staged ?w3 ! i)" "i \<notin> set (mw_open ?w3)"
    "set (mw_open ?w3) \<subseteq> set (mw_open w)" "stf_path (mw_staged ?w3 ! i) = ?p" "stf_name (mw_staged ?w3 ! i) = stf_name ?f"
    using m i st(4) by (auto simp: forget_open_def upd_staged_def)
  show ?thesis
  proof (cases e)
    case None
    obtain re w4 where rm: "local_call (os_Remove ?p) ?w3 = (re, w4)" by force
    note l = local_call_same [OF rm]
    from run i sy None rm m st(4) have r: "r = errors_Join [file_Close ?p (mw_fs w1), re]" "w' = w4"
      by (auto simp: staged_Close_def Let_def upd_staged_def split: prod.splits)
    from Remove_data [of ?p "mw_fs w1" re "mw_fs w4", OF _ d1(1)] l w3(1)
    have rd: "if re = None then fs_get (mw_fs w4) ?p = None else mw_fs w4 = mw_fs w1" by simp
    show ?thesis
    proof (cases re)
      case None
      with rd l w3 r(2) \<open>e = None\<close> show ?thesis by (auto simp: local_same_def)
    next
      case (Some x)
      with rd d1 have "fs_get (mw_fs w4) ?p = Some (Reg c t1 s1)" by simp
      moreover have "r \<noteq> None" using r Some by (simp add: errors_Join_None_iff)
      ultimately show ?thesis using l w3 r(2) \<open>e = None\<close> by (auto simp: local_same_def)
    qed
  next
    case (Some se)
    obtain pe w4 where pr: "preserveLocked g i ''upload_failed'' e ?w3 = (pe, w4)" by force
    have "cwd_ok (mw_fs ?w3)" using d1(2) w3(1) by simp
    note pl = preserve_local [OF st(1) this st(3) w3(6) pr]
    from run i sy Some pr m st(4) have r: "r = errors_Join [Some se, file_Close ?p (mw_fs w1), pe]" "w' = w4"
      by (auto simp: staged_Close_def Let_def upd_staged_def split: prod.splits)
    have keep: "fs_get (mw_fs w4) ?p = Some (Reg c t1 s1)" using pl d1 w3(1) by simp
    have st4: "mw_staged w4 = mw_staged ?w3" "mw_open w4 = mw_open ?w3"
      using arg_cong [where f = mw_staged, OF conjunct1 [OF pl]] arg_cong [where f = mw_open, OF conjunct1 [OF pl]] by simp_all
    have "\<exists>ce pe. r = errors_Join [Some se, ce, pe] \<and> (pe = None \<longrightarrow> (\<exists>md doc. mj_Encode (gf_codec g) md = Inr doc \<and>
             published (?p @ metadataSuffix) doc (mw_fs w') \<and> rm_StagingPath md = ?p \<and> rm_RecoveryState md = StatePreserved \<and>
             rm_RemotePath md = recoveryRemotePath (rx_RemotePath (gf_recovery g)) (stf_name ?f)))"
      using pl r w3(7) by auto
    with keep st4 w3 r(2) Some show ?thesis by auto
  qed
qed

text \<open>
  C1. Closing never drops bytes that have not been uploaded. After \<open>Close\<close> the handle is closed and
  forgotten; its staging file is gone only if it was clean or an upload of exactly its bytes reported
  success, and otherwise it still has those bytes and the caller gets an error. When the upload failed
  and preserving did not, a metadata document for the staging file and its remote path is on the disk.
\<close>

theorem close_keeps_data:
  assumes "staged_Close g i w = (r, w')" and "staged_open i c w" and "no_early_EOF (mw_fs w)"
    and "store_ok (gf_store g)" "cwd_ok (mw_fs w)" "staging_name n" "stf_path (mw_staged w ! i) = staging_file (gf_store g) n"
  shows "stf_closed (mw_staged w' ! i) \<and> i \<notin> set (mw_open w') \<and>
    (if fs_get (mw_fs w') (staging_file (gf_store g) n) = None
     then stf_dirty (mw_staged w ! i) \<longrightarrow>
       (\<exists>fs s t b. mount_upload (gf_backend g) (stf_name (mw_staged w ! i)) (staging_file (gf_store g) n) fs (mw_remote w) = Some (None, s) \<and>
          fs_get fs (staging_file (gf_store g) n) = Some (Reg c t b))
     else r \<noteq> None \<and> (\<exists>t s. fs_get (mw_fs w') (staging_file (gf_store g) n) = Some (Reg c t s))) \<and>
    (\<forall>se. fst (staged_syncLocked g i w) = Some se \<longrightarrow>
       (\<exists>ce pe. r = errors_Join [Some se, ce, pe] \<and>
          (pe = None \<longrightarrow> (\<exists>md doc. mj_Encode (gf_codec g) md = Inr doc \<and>
             published (staging_file (gf_store g) n @ metadataSuffix) doc (mw_fs w') \<and>
             rm_StagingPath md = staging_file (gf_store g) n \<and>
             rm_RemotePath md = recoveryRemotePath (rx_RemotePath (gf_recovery g)) (stf_name (mw_staged w ! i))))))"
proof -
  obtain e w1 where sy: "staged_syncLocked g i w = (e, w1)" by force
  note cs = Close_steps [OF assms(1,2,4-7) sy]
  show ?thesis
  proof (cases e)
    case None
    have "stf_dirty (mw_staged w ! i) \<Longrightarrow>
      \<exists>fs s t b. mount_upload (gf_backend g) (stf_name (mw_staged w ! i)) (staging_file (gf_store g) n) fs (mw_remote w) = Some (None, s) \<and>
          fs_get fs (staging_file (gf_store g) n) = Some (Reg c t b)"
      using staged_sync_uploads [OF sy [unfolded None] assms(2) _ assms(3)] assms(7) by metis
    with cs None sy show ?thesis by auto
  next
    case (Some se)
    with cs have keep: "\<exists>t s. fs_get (mw_fs w') (staging_file (gf_store g) n) = Some (Reg c t s)" and
      ex: "\<exists>ce pe. r = errors_Join [Some se, ce, pe] \<and>
          (pe = None \<longrightarrow> (\<exists>md doc. mj_Encode (gf_codec g) md = Inr doc \<and>
             published (staging_file (gf_store g) n @ metadataSuffix) doc (mw_fs w') \<and>
             rm_StagingPath md = staging_file (gf_store g) n \<and>
             rm_RemotePath md = recoveryRemotePath (rx_RemotePath (gf_recovery g)) (stf_name (mw_staged w ! i))))" by blast+
    from ex obtain ce pe where "r = errors_Join [Some se, ce, pe]" by blast
    moreover have "errors_Join [Some se, ce, pe] \<noteq> None" by (simp only: errors_Join_None_iff) simp
    ultimately have "r \<noteq> None" by simp
    with keep ex cs Some sy show ?thesis by auto
  qed
qed

subsection \<open>Looking up\<close>

text \<open>
  Publishing the open files of one name leaves every other one as it was; when it reports no error,
  none of them is dirty any more.
\<close>

definition no_pending :: "string \<Rightarrow> 'w mount_world \<Rightarrow> nat list \<Rightarrow> bool" where
  "no_pending name w is \<longleftrightarrow> list_all (\<lambda>i. stf_name (mw_staged w ! i) = name \<longrightarrow> \<not> stf_closed (mw_staged w ! i) \<longrightarrow>
     \<not> stf_dirty (mw_staged w ! i)) is"

definition staged_kept :: "string \<Rightarrow> 'w mount_world \<Rightarrow> 'w mount_world \<Rightarrow> bool" where
  "staged_kept name w w' \<longleftrightarrow> length (mw_staged w') = length (mw_staged w) \<and> mw_open w' = mw_open w \<and>
     (\<forall>j. stf_name (mw_staged w' ! j) = stf_name (mw_staged w ! j) \<and> stf_closed (mw_staged w' ! j) = stf_closed (mw_staged w ! j) \<and>
        (stf_dirty (mw_staged w' ! j) \<longrightarrow> stf_dirty (mw_staged w ! j)) \<and>
        (stf_name (mw_staged w ! j) \<noteq> name \<longrightarrow> mw_staged w' ! j = mw_staged w ! j))"

lemma staged_kept_trans: "staged_kept n w w1 \<Longrightarrow> staged_kept n w1 w2 \<Longrightarrow> staged_kept n w w2"
  by (auto simp: staged_kept_def)

lemma staged_sync_kept:
  assumes "staged_syncLocked g i w = (r, w')" and i: "i < length (mw_staged w)" "\<not> stf_closed (mw_staged w ! i)"
  shows "staged_kept (stf_name (mw_staged w ! i)) w w' \<and> (r = None \<longrightarrow> \<not> stf_dirty (mw_staged w' ! i))"
proof -
  from staged_sync_local [OF assms] obtain m where m:
    "mw_staged w' = (mw_staged w)[i := (mw_staged w ! i)\<lparr>stf_dirty := stf_dirty (mw_staged w ! i) \<and> r \<noteq> None, stf_modTime := m\<rparr>]"
    "mw_open w' = mw_open w" by blast
  have "mw_staged w' ! j = (if j = i then (mw_staged w ! i)\<lparr>stf_dirty := stf_dirty (mw_staged w ! i) \<and> r \<noteq> None, stf_modTime := m\<rparr>
      else mw_staged w ! j)" for j unfolding m(1) using i by (cases "j = i") auto
  moreover have "length (mw_staged w') = length (mw_staged w)" by (simp add: m(1))
  ultimately show ?thesis using m(2) by (auto simp: staged_kept_def)
qed

lemma sync_range_publishes:
  assumes "sync_range g name is w = (r, w')" and "list_all (\<lambda>i. i < length (mw_staged w)) is"
  shows "staged_kept name w w' \<and> (r = None \<longrightarrow> no_pending name w' is)"
  using assms
proof (induction "is" arbitrary: w)
  case Nil
  then show ?case by (simp add: staged_kept_def no_pending_def)
next
  case (Cons i rest)
  let ?f = "mw_staged w ! i"
  have ih: "sync_range g name rest w1 = (r, w') \<Longrightarrow> staged_kept name w w1 \<Longrightarrow>
      (stf_name ?f = name \<Longrightarrow> \<not> stf_closed ?f \<Longrightarrow> \<not> stf_dirty (mw_staged w1 ! i)) \<Longrightarrow> ?case" for w1
    using Cons.IH [of w1] Cons.prems(2) staged_kept_trans [of name w w1 w']
    by (auto simp: no_pending_def staged_kept_def)
  have kw: "staged_kept name w w" by (simp add: staged_kept_def)
  show ?case
  proof (cases "stf_name ?f = name \<and> \<not> stf_closed ?f \<and> stf_dirty ?f")
    case False
    with Cons.prems(1) have "sync_range g name rest w = (r, w')" by (auto simp: Let_def split: if_splits)
    from ih [OF this kw] False show ?thesis by blast
  next
    case True
    obtain e w1 where sy: "staged_syncLocked g i w = (e, w1)" by force
    from staged_sync_kept [OF sy] True Cons.prems(2)
    have k: "staged_kept name w w1" "e = None \<Longrightarrow> \<not> stf_dirty (mw_staged w1 ! i)" by auto
    show ?thesis
    proof (cases e)
      case None
      with Cons.prems(1) True sy have "sync_range g name rest w1 = (r, w')" by (simp add: Let_def)
      from ih [OF this k(1)] k(2) None show ?thesis by blast
    next
      case (Some x)
      with Cons.prems(1) True sy have "w' = w1" "r = Some x" by (simp_all add: Let_def)
      with k show ?thesis by simp
    qed
  qed
qed

lemma gofs_stat_publishes:
  assumes "gofs_stat g name w = (res, w')" and "list_all (\<lambda>i. i < length (mw_staged w)) (mw_open w)"
  shows "staged_kept name w w' \<and>
    ((\<exists>e. res = Inl e \<and> sync_range g name (mw_open w) w = (Some e, w')) \<or>
     no_pending name w' (mw_open w') \<and> (\<exists>s. b_Stat (gf_backend g) None name s = (res, mw_remote w')))"
proof -
  obtain e w1 where sr: "sync_range g name (mw_open w) w = (e, w1)" by force
  note p = sync_range_publishes [OF sr assms(2)]
  show ?thesis
  proof (cases e)
    case (Some x)
    with assms(1) sr p show ?thesis by (simp add: gofs_stat_def)
  next
    case None
    with assms(1) sr have rc: "remote_call (b_Stat (gf_backend g) operationContext name) w1 = (res, w')" by (simp add: gofs_stat_def)
    from remote_call_local [OF rc] have "mw_staged w' = mw_staged w1" "mw_open w' = mw_open w1" by (auto simp: local_same_def)
    with p None have "staged_kept name w w' \<and> no_pending name w' (mw_open w')"
      by (auto simp: staged_kept_def no_pending_def list_all_iff)
    moreover have "\<exists>s. b_Stat (gf_backend g) None name s = (res, mw_remote w')"
      using rc by (auto simp: remote_call_def operationContext_def split: prod.splits)
    ultimately show ?thesis by blast
  qed
qed

text \<open>
  Which open files of a name are waiting to be published, what is to be sent for them (the bytes and the
  requested modification time), and one step of the publication over a backend: an upload of exactly these bytes
  that reported success, and the time when one was requested.
\<close>

definition pending_file :: "string \<Rightarrow> 'w mount_world \<Rightarrow> nat \<Rightarrow> bool" where
  "pending_file name w i \<longleftrightarrow>
     stf_name (mw_staged w ! i) = name \<and> \<not> stf_closed (mw_staged w ! i) \<and> stf_dirty (mw_staged w ! i)"

definition to_publish :: "(nat \<Rightarrow> bytes) \<Rightarrow> string \<Rightarrow> 'w mount_world \<Rightarrow> nat list \<Rightarrow> (bytes \<times> instant) list" where
  "to_publish c name w is = map (\<lambda>i. (c i, stf_requestedTime (mw_staged w ! i))) (filter (pending_file name w) is)"

fun in_order :: "('w \<Rightarrow> 'a \<Rightarrow> 'w \<Rightarrow> bool) \<Rightarrow> 'a list \<Rightarrow> 'w \<Rightarrow> 'w \<Rightarrow> bool" where
  "in_order link [] s s' \<longleftrightarrow> s' = s"
| "in_order link (a # as) s s' \<longleftrightarrow> (\<exists>m. link s a m \<and> in_order link as m s')"

lemma in_order_mono:
  assumes "\<And>s a s'. f s a s' \<Longrightarrow> g s a s'"
  shows "in_order f as s s' \<Longrightarrow> in_order g as s s'"
  by (induction as arbitrary: s) (simp, fastforce dest: assms)

definition upload_link :: "('w, 'r, 'h) gofs \<Rightarrow> string \<Rightarrow> 'w \<Rightarrow> bytes \<times> instant \<Rightarrow> 'w \<Rightarrow> bool" where
  "upload_link g name s job s' \<longleftrightarrow> (\<exists>fs p t b r. mount_upload (gf_backend g) name p fs s = Some (None, r) \<and>
     fs_get fs p = Some (Reg (fst job) t b) \<and> no_early_EOF fs \<and>
     (if snd job = 0 then s' = r else b_SetModTime (gf_backend g) None name (snd job) r = (None, s')))"

definition contents :: "(nat \<Rightarrow> bytes) \<Rightarrow> string \<Rightarrow> 'w mount_world \<Rightarrow> nat list \<Rightarrow> bool" where
  "contents c name w is \<longleftrightarrow> (\<forall>i \<in> set is. pending_file name w i \<longrightarrow> staged_open i (c i) w)"

lemma sync_keeps_others:
  assumes "staged_syncLocked g i w = (r, w')" and "staged_open i d w" and "contents c name w is" and "i \<notin> set is"
  shows "contents c name w' is \<and> to_publish c name w' is = to_publish c name w is \<and> fs_faults (mw_fs w') = fs_faults (mw_fs w)"
proof -
  let ?f = "mw_staged w ! i"
  from assms(2) obtain t s where i: "i < length (mw_staged w)" "\<not> stf_closed ?f"
    and f: "fs_get (mw_fs w) (stf_path ?f) = Some (Reg d t s)" by (auto simp: staged_open_def)
  from staged_sync_local [OF assms(1) i] obtain m where
    m: "mw_staged w' = (mw_staged w)[i := ?f\<lparr>stf_dirty := stf_dirty ?f \<and> r \<noteq> None, stf_modTime := m\<rparr>]"
    and y: "file_Sync (stf_path ?f) (mw_fs w) = (fst (file_Sync (stf_path ?f) (mw_fs w)), mw_fs w')" by blast
  from Sync_data [OF y f] have fs: "\<exists>t s. fs_get (mw_fs w') (stf_path ?f) = Some (Reg d t s)"
    "\<And>q. q \<noteq> stf_path ?f \<Longrightarrow> fs_get (mw_fs w') q = fs_get (mw_fs w) q" "fs_faults (mw_fs w') = fs_faults (mw_fs w)" by auto
  have reg: "\<exists>t s. fs_get (mw_fs w') q = Some (Reg e t s)" if "fs_get (mw_fs w) q = Some (Reg e t0 s0)" for q e t0 s0
    using fs f that by (cases "q = stf_path ?f") auto
  have same: "mw_staged w' ! j = mw_staged w ! j" if "j \<in> set is" for j using that assms(4) m by (cases "j = i") auto
  then have p: "pending_file name w' j \<longleftrightarrow> pending_file name w j" if "j \<in> set is" for j using that by (simp add: pending_file_def)
  have "staged_open j (c j) w'" if "j \<in> set is" "staged_open j (c j) w" for j
    using that same [of j] reg m by (auto simp: staged_open_def)
  then have "contents c name w' is" using assms(3) p by (auto simp: contents_def)
  moreover have "to_publish c name w' is = to_publish c name w is"
    using p same by (auto simp: to_publish_def cong: filter_cong)
  ultimately show ?thesis using fs(3) by blast
qed

text \<open>The files waiting are published one after the other, up to the first failure.\<close>

lemma sync_range_uploads:
  assumes "sync_range g name is w = (r, w')" and "distinct is" and "contents c name w is" and "no_early_EOF (mw_fs w)"
  shows "case r of
      None \<Rightarrow> in_order (upload_link g name) (to_publish c name w is) (mw_remote w) (mw_remote w')
    | Some e \<Rightarrow> \<exists>pre i post w1. is = pre @ i # post \<and> pending_file name w i \<and>
        in_order (upload_link g name) (to_publish c name w pre) (mw_remote w) (mw_remote w1) \<and>
        staged_syncLocked g i w1 = (Some e, w')"
  using assms
proof (induction "is" arbitrary: w)
  case Nil
  then show ?case by (simp add: to_publish_def)
next
  case (Cons i rest)
  let ?f = "mw_staged w ! i"
  have rest: "distinct rest" "i \<notin> set rest" "contents c name w rest" using Cons.prems(2,3) by (auto simp: contents_def)
  show ?case
  proof (cases "pending_file name w i")
    case False
    then have tp: "to_publish c name w (i # js) = to_publish c name w js" for js by (simp add: to_publish_def)
    from False Cons.prems(1) have "sync_range g name rest w = (r, w')"
      by (auto simp: pending_file_def Let_def split: if_splits)
    from Cons.IH [OF this rest(1,3) Cons.prems(4)] show ?thesis
    proof (cases r)
      case (Some e)
      with Cons.IH [OF \<open>sync_range g name rest w = (r, w')\<close> rest(1,3) Cons.prems(4)] obtain pre j post w1 where
        "rest = pre @ j # post" "pending_file name w j"
        "in_order (upload_link g name) (to_publish c name w pre) (mw_remote w) (mw_remote w1)"
        "staged_syncLocked g j w1 = (Some e, w')" by auto
      then have "i # rest = (i # pre) @ j # post \<and> pending_file name w j \<and>
        in_order (upload_link g name) (to_publish c name w (i # pre)) (mw_remote w) (mw_remote w1) \<and>
        staged_syncLocked g j w1 = (Some e, w')" by (simp add: tp)
      with Some show ?thesis by (simp only: option.case) blast
    qed (simp add: tp)
  next
    case True
    then have tp: "to_publish c name w (i # js) = (c i, stf_requestedTime ?f) # to_publish c name w js" for js
      by (simp add: to_publish_def)
    from True Cons.prems(3) have op: "staged_open i (c i) w" by (simp add: contents_def)
    obtain e1 w1 where sy: "staged_syncLocked g i w = (e1, w1)" by force
    show ?thesis
    proof (cases e1)
      case (Some x)
      with Cons.prems(1) True sy have "r = Some x" "w' = w1" by (simp_all add: pending_file_def Let_def)
      moreover have "i # rest = [] @ i # rest" "in_order (upload_link g name) (to_publish c name w []) (mw_remote w) (mw_remote w)"
        by (simp_all add: to_publish_def)
      ultimately show ?thesis using True sy Some by (simp only: option.case) blast
    next
      case None
      with Cons.prems(1) True sy have run: "sync_range g name rest w1 = (r, w')" by (simp add: pending_file_def Let_def)
      have link: "upload_link g name (mw_remote w) (c i, stf_requestedTime ?f) (mw_remote w1)"
        using staged_sync_uploads [OF sy [unfolded None] op _ Cons.prems(4)] True
        by (fastforce simp: upload_link_def pending_file_def)
      note k = sync_keeps_others [OF sy op]
      have ne: "no_early_EOF (mw_fs w1)" using k [OF rest(3,2)] Cons.prems(4) by (simp add: no_early_EOF_def)
      have ih: "case r of
          None \<Rightarrow> in_order (upload_link g name) (to_publish c name w1 rest) (mw_remote w1) (mw_remote w')
        | Some e \<Rightarrow> \<exists>pre i post w2. rest = pre @ i # post \<and> pending_file name w1 i \<and>
            in_order (upload_link g name) (to_publish c name w1 pre) (mw_remote w1) (mw_remote w2) \<and>
            staged_syncLocked g i w2 = (Some e, w')"
        using Cons.IH [OF run rest(1) _ ne] k [OF rest(3,2)] by blast
      show ?thesis
      proof (cases r)
        case None
        with ih k [OF rest(3,2)] link show ?thesis by (auto simp: tp)
      next
        case (Some e)
        with ih obtain pre j post w2 where j: "rest = pre @ j # post" "pending_file name w1 j"
          "in_order (upload_link g name) (to_publish c name w1 pre) (mw_remote w1) (mw_remote w2)"
          "staged_syncLocked g j w2 = (Some e, w')" by auto
        have "contents c name w pre" "i \<notin> set pre" "contents c name w [j]" "i \<notin> set [j]"
          using rest j(1) by (auto simp: contents_def)
        with k have "to_publish c name w1 pre = to_publish c name w pre" "to_publish c name w1 [j] = to_publish c name w [j]" by blast+
        with j(2,3) have "in_order (upload_link g name) (to_publish c name w pre) (mw_remote w1) (mw_remote w2)" "pending_file name w j"
          by (auto simp: to_publish_def split: if_splits)
        with link j(1,4) have "i # rest = (i # pre) @ j # post \<and> pending_file name w j \<and>
          in_order (upload_link g name) (to_publish c name w (i # pre)) (mw_remote w) (mw_remote w2) \<and>
          staged_syncLocked g j w2 = (Some e, w')" by (auto simp: tp)
        with Some show ?thesis by (simp only: option.case) blast
      qed
    qed
  qed
qed

text \<open>A lookup publishes the files waiting under its name, then asks; or it answers the first failure without asking.\<close>

lemma gofs_stat_uploads:
  assumes "gofs_stat g name w = (res, w')" and "distinct (mw_open w)" and "\<forall>i \<in> set (mw_open w). i < length (mw_staged w)"
    and "contents c name w (mw_open w)" and "no_early_EOF (mw_fs w)"
  shows "(if \<exists>e. res = Inl e \<and> sync_range g name (mw_open w) w = (Some e, w')
      then \<exists>pre i post w1 e. mw_open w = pre @ i # post \<and> pending_file name w i \<and>
        in_order (upload_link g name) (to_publish c name w pre) (mw_remote w) (mw_remote w1) \<and>
        staged_syncLocked g i w1 = (Some e, w') \<and> res = Inl e
      else (\<exists>s. in_order (upload_link g name) (to_publish c name w (mw_open w)) (mw_remote w) s \<and>
              b_Stat (gf_backend g) None name s = (res, mw_remote w')) \<and>
        (\<forall>i \<in> set (mw_open w'). \<not> pending_file name w' i)) \<and>
    (\<forall>j. stf_name (mw_staged w ! j) \<noteq> name \<longrightarrow> mw_staged w' ! j = mw_staged w ! j)"
proof -
  have ok: "list_all (\<lambda>i. i < length (mw_staged w)) (mw_open w)" using assms(3) by (simp add: list_all_iff)
  note p = gofs_stat_publishes [OF assms(1) ok]
  obtain e w1 where sr: "sync_range g name (mw_open w) w = (e, w1)" by force
  note u = sync_range_uploads [OF sr assms(2,4,5)]
  have kept: "\<forall>j. stf_name (mw_staged w ! j) \<noteq> name \<longrightarrow> mw_staged w' ! j = mw_staged w ! j"
    using p by (simp add: staged_kept_def)
  show ?thesis
  proof (cases e)
    case (Some x)
    with assms(1) sr have "res = Inl x" "w' = w1" by (simp_all add: gofs_stat_def)
    with u Some sr kept show ?thesis by auto
  next
    case None
    with assms(1) sr have rc: "remote_call (b_Stat (gf_backend g) operationContext name) w1 = (res, w')" by (simp add: gofs_stat_def)
    then have st: "b_Stat (gf_backend g) None name (mw_remote w1) = (res, mw_remote w')"
      by (auto simp: remote_call_def operationContext_def split: prod.splits)
    have "\<forall>i \<in> set (mw_open w'). \<not> pending_file name w' i"
      using p sr None by (auto simp: no_pending_def list_all_iff pending_file_def)
    with u None sr st kept show ?thesis by auto
  qed
qed

subsection \<open>Over a backend that keeps the writer contract\<close>

context staged_writer
begin

text \<open>An upload of the mount that reports success: the server acknowledged exactly the staged bytes.\<close>

lemma mount_upload_exact:
  assumes "mount_upload b name p fs w = Some (None, w')" and f: "fs_get fs p = Some (Reg d t s)" and "no_early_EOF fs"
  shows "\<exists>q. mapname name = Inr q \<and> acked w q d w'"
proof -
  from assms(1) f obtain info where st: "file_Stat p fs = Inr info" "info = node_info (Reg d t s)"
    by (auto simp: mount_upload_def file_Stat_def split: option.splits)
  with assms(1) obtain h w1 where ow: "b_OpenWrite b operationContext name (fresh_write (fi_Mode info)) w = (Inr h, w1)"
    by (auto simp: mount_upload_def split: sum.splits prod.splits)
  note fresh = open_fresh [OF ow]
  let ?up = "upload_chunks b h p (length d) fs 0 w1"
  from mount_chunks_agree [OF assms(3) f order_refl, of b h 0 w1] obtain e where
    mc': "mount_chunks b h p (length d) fs 0 w1 = Some (e, snd ?up) \<and> (e = None \<longleftrightarrow> fst ?up = None)" ..
  note mc = mc' [THEN conjunct1] mc' [THEN conjunct2]
  obtain we w3 where we: "(if e = None then h_Sync b h (snd ?up) else (e, snd ?up)) = (we, w3)" by force
  obtain ce w4 where ce: "h_Close b h w3 = (ce, w4)" by force
  have "mount_upload b name p fs w = Some (errors_Join [we, ce], w4)"
    using st ow mc(1) we ce by (simp add: mount_upload_def del: if_split)
  with assms(1) have "we = None" "ce = None" "w4 = w'" by (auto simp: errors_Join_None_iff)
  with we ce have sy: "e = None" "h_Sync b h (snd ?up) = (None, w3)" and cl: "h_Close b h w3 = (None, w')"
    by (auto split: if_splits)
  have up: "?up = (None, snd ?up)" using mc(2) sy(1) by (metis prod.collapse)
  from upload_chunks_staged [OF up f] fresh
  have c: "quiet w1 (snd ?up)" "pending (snd ?up) h" "target (snd ?up) h = target w1 h" "staged (snd ?up) h d" by auto
  from sync_publishes [OF sy(2) c(4,2)] have y: "staged w3 h d" "\<not> pending w3 h" "acked (snd ?up) (target (snd ?up) h) d w3" by auto
  from close_settled [OF cl y(1,2)] have settled: "quiet w3 w'" .
  have "quiet w (snd ?up)" using quiet_trans c(1) fresh by blast
  from acked_quiet [OF quiet_acked [OF this y(3)] settled] have "acked w (target w1 h) d w'" unfolding c(3) .
  with fresh show ?thesis by blast
qed

text \<open>A staging file that a close removed was acknowledged by the server, unless it was clean.\<close>

lemma Close_acked:
  assumes "staged_Close g i w = (r, w')" and "staged_open i c w" and "no_early_EOF (mw_fs w)" and "gf_backend g = b"
    and "store_ok (gf_store g)" "cwd_ok (mw_fs w)" "staging_name n" "stf_path (mw_staged w ! i) = staging_file (gf_store g) n"
    and "stf_dirty (mw_staged w ! i)" and "fs_get (mw_fs w') (staging_file (gf_store g) n) = None"
  shows "\<exists>q s. mapname (stf_name (mw_staged w ! i)) = Inr q \<and> acked (mw_remote w) q c s \<and>
    (stf_requestedTime (mw_staged w ! i) = 0 \<longrightarrow> s = mw_remote w')"
proof -
  obtain e w1 where sy: "staged_syncLocked g i w = (e, w1)" by force
  note cs = Close_steps [OF assms(1,2,5-8) sy]
  with assms(10) have e: "e = None" by (cases e) auto
  with cs have rem: "mw_remote w' = mw_remote w1" by blast
  from staged_sync_uploads [OF sy [unfolded e] assms(2,9,3)] assms(4) obtain fs s t b' where
    "mount_upload b (stf_name (mw_staged w ! i)) (stf_path (mw_staged w ! i)) fs (mw_remote w) = Some (None, s)"
    "fs_get fs (stf_path (mw_staged w ! i)) = Some (Reg c t b')" "no_early_EOF fs"
    "if stf_requestedTime (mw_staged w ! i) = 0 then mw_remote w1 = s
     else b_SetModTime b None (stf_name (mw_staged w ! i)) (stf_requestedTime (mw_staged w ! i)) s = (None, mw_remote w1)" by blast
  with mount_upload_exact [OF this(1-3)] rem show ?thesis by (auto split: if_splits)
qed

end

subsection \<open>A drive over files in memory\<close>

definition memory_drive :: "((string \<times> bytes) list, bytes, string) backend" where
  "memory_drive = \<lparr>
     b_Stat = (\<lambda>x n w. (case map_of w n of None \<Rightarrow> Inl (Sentinel ErrNotExist)
                        | Some d \<Rightarrow> Inr \<lparr>e_Name = n, e_Size = int (length d), e_Mode = 0x1A4, e_ModTime = 3\<rparr>, w)),
     b_ReadDir = (\<lambda>x n w. (Inr (map (\<lambda>(n, d). \<lparr>e_Name = n, e_Size = int (length d), e_Mode = 0x1A4, e_ModTime = 3\<rparr>) w), w)),
     b_OpenRead = (\<lambda>x n w. (case map_of w n of None \<Rightarrow> Inl (Sentinel ErrNotExist) | Some d \<Rightarrow> Inr d, w)),
     b_OpenWrite = (\<lambda>x n opt w. (Inr n, AList.update n [] w)),
     b_Mkdir = (\<lambda>x n w. (None, w)), b_Remove = (\<lambda>x n d w. (None, AList.delete n w)),
     b_Rename = (\<lambda>x m n w. (None, w)), b_SetModTime = (\<lambda>x n t w. (None, w)), b_SetReadOnly = (\<lambda>x n r w. (None, w)),
     b_Close = (\<lambda>w. (None, w)), r_ReadAll = (\<lambda>r w. ((r, None), w)), r_Close = (\<lambda>r w. (None, w)),
     h_WriteAt = (\<lambda>h d off w. ((length d, None), AList.update h (write_at (nat off) d (case map_of w h of Some c \<Rightarrow> c | None \<Rightarrow> [])) w)),
     h_Sync = (\<lambda>h w. (None, w)), h_Close = (\<lambda>h w. (None, w))\<rparr>"

definition demo_gofs :: "((string \<times> bytes) list, bytes, string) gofs" where
  "demo_gofs = \<lparr>gf_backend = memory_drive, gf_readOnly = False, gf_store = demo_store, gf_codec = exact_mj,
     gf_recovery = \<lparr>rx_ProfileID = ''p'', rx_ProfileName = ''nas'', rx_Protocol = ''ftp'', rx_RemotePath = ''/r''\<rparr>\<rparr>"

text \<open>One open file \<^verbatim>\<open>f\<close> with unsaved bytes 1, 2, 3.\<close>

definition demo_staged :: staged_file where
  "demo_staged = \<lparr>stf_name = ''f'', stf_path = ''/c/staging-1'', stf_pos = 3, stf_mode = 0, stf_modTime = 0, stf_dirty = True,
     stf_writePermitted = True, stf_appendMode = False, stf_requestedTime = 0, stf_createdAt = 5, stf_closed = False\<rparr>"

definition demo_mount :: "(string \<times> bytes) list mount_world" where
  "demo_mount = \<lparr>mw_remote = [], mw_fs = demo_cache, mw_staged = [demo_staged], mw_dirs = [], mw_open = [0], mw_rnd = ''9'', mw_now = 9\<rparr>"

lemma demo_staging: "staging_name ''staging-1''" "staging_file demo_store ''staging-1'' = ''/c/staging-1''"
  using staging_file_path [OF demo_store_ok, of "''staging-1''"]
  by (simp_all add: staging_name_def plain_def demo_store_def)

lemma demo_mount_ok: "staged_open 0 [1, 2, 3] demo_mount" "no_early_EOF (mw_fs demo_mount)" "cwd_ok (mw_fs demo_mount)"
  using demo_cwd_ok
  by (auto simp: staged_open_def demo_mount_def demo_staged_def demo_cache_def fs_get_def no_early_EOF_def)

theorem mount_upload_returns_witness:
  "\<exists>e w'. mount_upload memory_drive ''f'' ''/c/staging-1'' (mw_fs demo_mount) [] = Some (e, w')"
  by (rule mount_upload_returns [OF demo_mount_ok(2)])

theorem close_keeps_data_witness:
  "\<exists>r w'. staged_Close demo_gofs 0 demo_mount = (r, w') \<and> stf_closed (mw_staged w' ! 0) \<and> 0 \<notin> set (mw_open w') \<and>
     (fs_get (mw_fs w') ''/c/staging-1'' = None \<or> r \<noteq> None)"
proof -
  obtain r w' where run: "staged_Close demo_gofs 0 demo_mount = (r, w')" by force
  have st: "store_ok (gf_store demo_gofs)" "stf_path (mw_staged demo_mount ! 0) = staging_file (gf_store demo_gofs) ''staging-1''"
    using demo_store_ok demo_staging(2) by (simp_all add: demo_gofs_def demo_mount_def demo_staged_def)
  from close_keeps_data [OF run demo_mount_ok(1,2) st(1) demo_mount_ok(3) demo_staging(1) st(2)] demo_staging(2)
  show ?thesis using run by (auto simp: demo_gofs_def split: if_splits)
qed


end
