(* ===== verification/Mount_Session.thy ===== *)
theory Mount_Session
  imports Mount_Facts
begin

text \<open>
  \<^verbatim>\<open>internal/mount/session_windows.go\<close>: the guard around the file system, which counts the open
  handles and remembers failed closes, and the session of the GUI that is detached safely or by force.
  All of it runs under the mutexes of the session and the guard, so each method is atomic.
  \<open>trackedFile\<close> pointers are indices; the map \<open>files\<close> is the list of its keys in the order its
  \<open>range\<close> visits them. \<^verbatim>\<open>go-winfsp\<close> (the options, the mount, \<open>Unmount\<close>) is not part of the repository: its calls are
  parameters, and a mounted file system is a boolean.
\<close>

record tracked =
  tf_file :: gofs_file
  tf_closed :: bool

record 'w guard =
  gu_mount :: "'w mount_world"
  gu_tracked :: "tracked list"
  gu_files :: "nat list"
  gu_open :: int
  gu_stopping :: bool
  gu_closeErr :: "err option"
  gu_cache :: string

definition on_mount :: "('w mount_world \<Rightarrow> 'a \<times> 'w mount_world) \<Rightarrow> 'w guard \<Rightarrow> 'a \<times> 'w guard" where
  "on_mount f s = (case f (gu_mount s) of (r, w) \<Rightarrow> (r, s\<lparr>gu_mount := w\<rparr>))"

text \<open>\<open>f.closed = true; g.open--; delete(g.files, f)\<close>.\<close>

definition forget_tracked :: "nat \<Rightarrow> 'w guard \<Rightarrow> 'w guard" where
  "forget_tracked k s = s\<lparr>gu_tracked := (gu_tracked s)[k := (gu_tracked s ! k)\<lparr>tf_closed := True\<rparr>],
     gu_open := gu_open s - 1, gu_files := filter (\<lambda>j. j \<noteq> k) (gu_files s)\<rparr>"

subsection \<open>The file system under the guard\<close>

definition guard_OpenFile :: "('w, 'r, 'h) gofs \<Rightarrow> string \<Rightarrow> oflag \<Rightarrow> 'w guard \<Rightarrow> (err + nat) \<times> 'w guard" where
  "guard_OpenFile g n flag s =
     (if gu_stopping s then (Inl (Sentinel ErrClosed), s)
      else case on_mount (gofs_OpenFile g n flag) s of
             (Inl e, s1) \<Rightarrow> (Inl e, s1)
           | (Inr fl, s1) \<Rightarrow>
               let k = length (gu_tracked s1)
               in (Inr k, s1\<lparr>gu_open := gu_open s1 + 1, gu_tracked := gu_tracked s1 @ [\<lparr>tf_file = fl, tf_closed = False\<rparr>],
                             gu_files := gu_files s1 @ [k]\<rparr>))"

definition guard_Stat :: "('w, 'r, 'h) gofs \<Rightarrow> string \<Rightarrow> 'w guard \<Rightarrow> (err + entry) \<times> 'w guard" where
  "guard_Stat g n s = (if gu_stopping s then (Inl (Sentinel ErrClosed), s) else on_mount (gofs_Stat g n) s)"

definition guard_Mkdir :: "('w, 'r, 'h) gofs \<Rightarrow> string \<Rightarrow> 'w guard \<Rightarrow> err option \<times> 'w guard" where
  "guard_Mkdir g n s = (if gu_stopping s then (Some (Sentinel ErrClosed), s) else on_mount (gofs_Mkdir g n) s)"

definition guard_Rename :: "('w, 'r, 'h) gofs \<Rightarrow> string \<Rightarrow> string \<Rightarrow> 'w guard \<Rightarrow> err option \<times> 'w guard" where
  "guard_Rename g a b s = (if gu_stopping s then (Some (Sentinel ErrClosed), s) else on_mount (gofs_Rename g a b) s)"

definition guard_Remove :: "('w, 'r, 'h) gofs \<Rightarrow> string \<Rightarrow> 'w guard \<Rightarrow> err option \<times> 'w guard" where
  "guard_Remove g n s = (if gu_stopping s then (Some (Sentinel ErrClosed), s) else on_mount (gofs_Remove g n) s)"

definition tracked_Close :: "('w, 'r, 'h) gofs \<Rightarrow> nat \<Rightarrow> 'w guard \<Rightarrow> err option \<times> 'w guard" where
  "tracked_Close g k s =
     (let f = gu_tracked s ! k
      in if tf_closed f then (Some (Sentinel ErrClosed), s)
         else case (case tf_file f of
                      Staged i \<Rightarrow> map_prod (map_option (Wrapped ''temporary file'')) id (on_mount (staged_Close g i) s)
                    | Directory i \<Rightarrow> on_mount (directory_Close i) s) of
                (e, s1) \<Rightarrow>
                  let s2 = forget_tracked k s1
                  in (e, s2\<lparr>gu_closeErr := errors_Join [gu_closeErr s2, e]\<rparr>))"

subsection \<open>Detaching\<close>

fun force_loop :: "('w, 'r, 'h) gofs \<Rightarrow> nat list \<Rightarrow> err option \<Rightarrow> 'w guard \<Rightarrow> err option \<times> 'w guard" where
  "force_loop g [] result s = (result, s)"
| "force_loop g (k # ks) result s =
     (case (case tf_file (gu_tracked s ! k) of
              Staged i \<Rightarrow> map_prod (map_option (Wrapped ''temporary file'')) id (on_mount (closePreserving g i) s)
            | Directory i \<Rightarrow> on_mount (directory_Close i) s) of
        (e, s1) \<Rightarrow> force_loop g ks (errors_Join [result, e]) (forget_tracked k s1))"

definition forceStop :: "('w, 'r, 'h) gofs \<Rightarrow> 'w guard \<Rightarrow> err option \<times> 'w guard" where
  "forceStop g s =
     (case force_loop g (gu_files s) None (s\<lparr>gu_stopping := True\<rparr>) of
        (result, s1) \<Rightarrow> (errors_Join [gu_closeErr s1, result], s1))"

fun directory_loop :: "nat list \<Rightarrow> err option \<Rightarrow> 'w guard \<Rightarrow> err option \<times> 'w guard" where
  "directory_loop [] directoryErr s = (directoryErr, s)"
| "directory_loop (k # ks) directoryErr s =
     (case tf_file (gu_tracked s ! k) of
        Staged i \<Rightarrow> directory_loop ks directoryErr s
      | Directory i \<Rightarrow>
          (case on_mount (directory_Close i) s of
             (e, s1) \<Rightarrow> directory_loop ks (errors_Join [directoryErr, e]) (forget_tracked k s1)))"

definition prepareStop :: "'w guard \<Rightarrow> err option \<times> 'w guard" where
  "prepareStop s =
     (case directory_loop (gu_files s) None s of
        (Some e, s1) \<Rightarrow> (Some (Wrapped ''close of folder handles'' e), s1)
      | (None, s1) \<Rightarrow>
          if gu_open s1 \<noteq> 0 then (Some (ErrNew ''open file handles''), s1)
          else case gu_closeErr s1 of
                 Some e \<Rightarrow> (Some (Wrapped ''failed closes or uploads'' e), s1)
               | None \<Rightarrow> (None, s1\<lparr>gu_stopping := True\<rparr>))"

record 'w session =
  ss_mounted :: bool
  ss_guard :: "'w guard"

definition backend_close :: "('w, 'r, 'h) backend \<Rightarrow> 'w guard \<Rightarrow> 'w guard" where
  "backend_close b s = snd (on_mount (remote_call (b_Close b)) s)"

definition Session_Close :: "('w, 'r, 'h) backend \<Rightarrow> 'w session \<Rightarrow> err option \<times> 'w session" where
  "Session_Close b z =
     (if \<not> ss_mounted z then (None, z)
      else case prepareStop (ss_guard z) of
             (Some e, s) \<Rightarrow> (Some e, z\<lparr>ss_guard := s\<rparr>)
           | (None, s) \<Rightarrow> (None, z\<lparr>ss_mounted := False, ss_guard := backend_close b s\<rparr>))"

definition ForceClose ::
  "('w, 'r, 'h) backend \<Rightarrow> ('w, 'r, 'h) gofs \<Rightarrow> 'w session \<Rightarrow> (string \<times> err option) \<times> 'w session" where
  "ForceClose b g z =
     (if \<not> ss_mounted z then (('''', None), z)
      else case forceStop g (ss_guard z) of
             (warning, s) \<Rightarrow>
               let message = ''preserved in: '' @ gu_cache s;
                   message = (case warning of None \<Rightarrow> message | Some e \<Rightarrow> message @ ''; warning: '' @ err_Error e)
               in ((message, None), z\<lparr>ss_mounted := False, ss_guard := backend_close b s\<rparr>))"

subsection \<open>Starting\<close>

record mount_options =
  mo_DriveLetter :: string
  mo_VolumeName :: string
  mo_ReadOnly :: bool
  mo_ProfileID :: string
  mo_ProfileName :: string
  mo_Protocol :: string
  mo_RemotePath :: string
  mo_CacheLimits :: limits

text \<open>The calls of \<^verbatim>\<open>go-winfsp\<close>: the options (with the read-only mode), the label, the metadata layer, the mount.\<close>

record winfsp_env =
  wf_NewOptions :: "bool \<Rightarrow> err option"
  wf_SetVolumeLabel :: "string \<Rightarrow> err option"
  wf_NewMetadata :: "bool \<Rightarrow> err option"
  wf_Mount :: "string \<Rightarrow> err option"

definition new_gofs :: "('w, 'r, 'h) backend \<Rightarrow> bool \<Rightarrow> store \<Rightarrow> metadata_codec \<Rightarrow> ('w, 'r, 'h) gofs" where
  "new_gofs b readOnly st mj = \<lparr>gf_backend = b, gf_readOnly = readOnly, gf_store = st, gf_codec = mj,
     gf_recovery = \<lparr>rx_ProfileID = '''', rx_ProfileName = '''', rx_Protocol = '''', rx_RemotePath = ''''\<rparr>\<rparr>"

definition StartSession ::
  "winfsp_env \<Rightarrow> (err + string) \<Rightarrow> metadata_codec \<Rightarrow> ('w, 'r, 'h) backend \<Rightarrow> mount_options \<Rightarrow> bool \<Rightarrow> 'w mount_world
     \<Rightarrow> (err + ('w, 'r, 'h) gofs \<times> 'w session) \<times> 'w mount_world" where
  "StartSession env userCacheDir mj b opt metadata w =
     (case local_call (NewWithLimits userCacheDir '''' (mo_CacheLimits opt)) w of
        (Inl e, w1) \<Rightarrow> (Inl e, w1)
      | (Inr st, w1) \<Rightarrow>
          let delegate = (if mo_ReadOnly opt then NewReadOnlyBackend b else b);
              raw = (new_gofs delegate (mo_ReadOnly opt) st mj)\<lparr>gf_recovery :=
                       \<lparr>rx_ProfileID = mo_ProfileID opt, rx_ProfileName = mo_ProfileName opt,
                        rx_Protocol = mo_Protocol opt, rx_RemotePath = mo_RemotePath opt\<rparr>\<rparr>;
              guard = \<lparr>gu_mount = w1, gu_tracked = [], gu_files = [], gu_open = 0, gu_stopping = False,
                       gu_closeErr = None, gu_cache = st_directory st\<rparr>
          in (case wf_NewOptions env (mo_ReadOnly opt) of
                Some e \<Rightarrow> (Inl e, w1)
              | None \<Rightarrow>
                  (case (if mo_VolumeName opt \<noteq> '''' then wf_SetVolumeLabel env (mo_VolumeName opt) else None) of
                     Some e \<Rightarrow> (Inl e, w1)
                   | None \<Rightarrow>
                       (case (if metadata then wf_NewMetadata env (mo_ReadOnly opt) else None) of
                          Some e \<Rightarrow> (Inl e, w1)
                        | None \<Rightarrow>
                            (case wf_Mount env (ToUpper (mo_DriveLetter opt) @ '':'') of
                               Some e \<Rightarrow> (Inl e, w1)
                             | None \<Rightarrow> (Inr (raw, \<lparr>ss_mounted = True, ss_guard = guard\<rparr>), w1))))))"

end
