(* ===== verification/Mount_Bytes.thy ===== *)
theory Mount_Bytes
  imports Mount_Facts
begin

text \<open>
  An open staged file as a plain sequence of bytes: writes and truncations refine one, under the quota of
  the cache; and an open directory as a list that is handed out once.
\<close>

subsection \<open>Writing as a sequence of bytes\<close>

text \<open>
  What the drive promises of an open file: bytes and a position, with writes that extend with zeros and
  appends that go to the end.
\<close>

record byte_file =
  bf_data :: bytes
  bf_pos :: nat

datatype data_op = DWrite bytes | DWriteAt bytes int | DTruncate int

fun byte_op :: "bool \<Rightarrow> data_op \<Rightarrow> byte_file \<Rightarrow> byte_file" where
  "byte_op app (DWrite d) f =
     (let at = if app then length (bf_data f) else bf_pos f
      in if d = [] then f else \<lparr>bf_data = write_at at d (bf_data f), bf_pos = at + length d\<rparr>)"
| "byte_op app (DWriteAt d off) f = (if d = [] then f else f\<lparr>bf_data := write_at (nat off) d (bf_data f)\<rparr>)"
| "byte_op app (DTruncate n) f =
     f\<lparr>bf_data := take (nat n) (bf_data f) @ replicate (nat n - length (bf_data f)) 0\<rparr>"

fun staged_op :: "('w, 'r, 'h) gofs \<Rightarrow> nat \<Rightarrow> data_op \<Rightarrow> 'w mount_world \<Rightarrow> err option \<times> 'w mount_world" where
  "staged_op g i (DWrite d) w = map_prod snd id (staged_Write g i d w)"
| "staged_op g i (DWriteAt d off) w = map_prod snd id (staged_WriteAt g i d off w)"
| "staged_op g i (DTruncate n) w = staged_Truncate g i n w"

text \<open>The size the quota is asked for.\<close>

fun asked_size :: "bool \<Rightarrow> data_op \<Rightarrow> byte_file \<Rightarrow> int" where
  "asked_size app (DWrite d) f =
     (if app then int (length (bf_data f) + length d) else max (int (length (bf_data f))) (int (bf_pos f + length d)))"
| "asked_size app (DWriteAt d off) f = max (int (length (bf_data f))) (off + int (length d))"
| "asked_size app (DTruncate n) f = n"

definition byte_view :: "nat \<Rightarrow> byte_file \<Rightarrow> 'w mount_world \<Rightarrow> bool" where
  "byte_view i f w \<longleftrightarrow> staged_open i (bf_data f) w \<and> stf_pos (mw_staged w ! i) = bf_pos f"

text \<open>Everything but the bytes, the position and the dirty mark of the one file.\<close>

definition others_kept :: "nat \<Rightarrow> 'w mount_world \<Rightarrow> 'w mount_world \<Rightarrow> bool" where
  "others_kept i w w' \<longleftrightarrow> mw_remote w' = mw_remote w \<and> mw_open w' = mw_open w \<and> mw_dirs w' = mw_dirs w \<and>
     length (mw_staged w') = length (mw_staged w) \<and> (\<forall>j. j \<noteq> i \<longrightarrow> mw_staged w' ! j = mw_staged w ! j) \<and>
     (\<forall>q. q \<noteq> stf_path (mw_staged w ! i) \<longrightarrow> fs_get (mw_fs w') q = fs_get (mw_fs w) q) \<and>
     stf_name (mw_staged w' ! i) = stf_name (mw_staged w ! i) \<and> stf_path (mw_staged w' ! i) = stf_path (mw_staged w ! i) \<and>
     stf_appendMode (mw_staged w' ! i) = stf_appendMode (mw_staged w ! i) \<and>
     stf_writePermitted (mw_staged w' ! i) = stf_writePermitted (mw_staged w ! i)"

lemma others_kept_refl: "others_kept i w w"
  by (simp add: others_kept_def)

lemma others_kept_trans: "others_kept i w w1 \<Longrightarrow> others_kept i w1 w2 \<Longrightarrow> others_kept i w w2"
  by (auto simp: others_kept_def)

lemma markDirty_fields [simp]:
  "stf_name (markDirty f) = stf_name f" "stf_path (markDirty f) = stf_path f" "stf_pos (markDirty f) = stf_pos f"
  "stf_closed (markDirty f) = stf_closed f" "stf_appendMode (markDirty f) = stf_appendMode f"
  "stf_writePermitted (markDirty f) = stf_writePermitted f"
  "stf_dirty (markDirty f) \<longleftrightarrow> stf_dirty f \<or> stf_writePermitted f"
  by (simp_all add: markDirty_def)

text \<open>The two primitives on a regular file.\<close>

lemma pwrite_data:
  assumes "os_pwrite p d off now fs = ((k, e), fs')" and "fs_get fs p = Some (Reg c t s)"
  shows "(\<exists>t s. fs_get fs' p = Some (Reg (if e = None \<and> d \<noteq> [] then write_at off d c else c) t s)) \<and>
    (\<forall>q. q \<noteq> p \<longrightarrow> fs_get fs' q = fs_get fs q) \<and> k = (if e = None then length d else 0) \<and>
    (e = None \<longrightarrow> int off + int (length d) \<le> max_i64) \<and> fs_faults fs' = fs_faults fs \<and> fs_cwd fs' = fs_cwd fs \<and>
    (fs' = fs \<or> (\<exists>t s. fs' = fs_set p (Reg (if e = None \<and> d \<noteq> [] then write_at off d c else c) t s) fs))"
  using assms by (auto simp: os_pwrite_def file_WriteAt_def fs_simps split: if_splits option.splits
      dest!: sym [of "Some _" "fs_faults _ _ _"])

lemma truncate_data:
  assumes "file_Truncate p n now fs = (e, fs')" and "fs_get fs p = Some (Reg c t s)"
  shows "(\<exists>t s. fs_get fs' p = Some (Reg (if e = None then take n c @ replicate (n - length c) 0 else c) t s)) \<and>
    (\<forall>q. q \<noteq> p \<longrightarrow> fs_get fs' q = fs_get fs q) \<and> fs_faults fs' = fs_faults fs \<and> fs_cwd fs' = fs_cwd fs \<and>
    (fs' = fs \<or> (\<exists>t s. fs' = fs_set p (Reg (if e = None then take n c @ replicate (n - length c) 0 else c) t s) fs))"
  using assms by (auto simp: file_Truncate_def fs_simps split: option.splits dest!: sym [of "Some _" "fs_faults _ _ _"])

lemma file_Stat_open: "fs_get fs p = Some (Reg c t s) \<Longrightarrow> file_Stat p fs = Inr info \<Longrightarrow> fi_Size info = int (length c)"
  by (auto simp: file_Stat_def split: option.splits)

lemma marked_call:
  assumes "local_call f (upd_staged i markDirty w) = (r, w1)" and "i < length (mw_staged w)"
  shows "mw_staged w1 = (mw_staged w)[i := markDirty (mw_staged w ! i)] \<and> f (mw_fs w) = (r, mw_fs w1) \<and>
    mw_remote w1 = mw_remote w \<and> mw_open w1 = mw_open w \<and> mw_dirs w1 = mw_dirs w"
  using assms by (auto simp: local_call_def upd_staged_def split: prod.splits)

text \<open>How an operation that got its lock leaves the world.\<close>

lemma op_view:
  assumes v: "byte_view i f w" and st: "mw_staged w' = (mw_staged w)[i := (markDirty (mw_staged w ! i))\<lparr>stf_pos := bf_pos f'\<rparr>]"
    and w: "mw_remote w' = mw_remote w" "mw_open w' = mw_open w" "mw_dirs w' = mw_dirs w"
    and d: "\<exists>t s. fs_get (mw_fs w') (stf_path (mw_staged w ! i)) = Some (Reg (bf_data f') t s)"
    and q: "\<forall>q. q \<noteq> stf_path (mw_staged w ! i) \<longrightarrow> fs_get (mw_fs w') q = fs_get (mw_fs w) q"
  shows "byte_view i f' w' \<and> others_kept i w w' \<and> (stf_writePermitted (mw_staged w ! i) \<longrightarrow> stf_dirty (mw_staged w' ! i)) \<and>
    (stf_dirty (mw_staged w ! i) \<longrightarrow> stf_dirty (mw_staged w' ! i))"
proof -
  have i: "i < length (mw_staged w)" using v by (simp add: byte_view_def staged_open_def)
  have "mw_staged w' ! i = (markDirty (mw_staged w ! i))\<lparr>stf_pos := bf_pos f'\<rparr>" "length (mw_staged w') = length (mw_staged w)"
    "\<And>j. j \<noteq> i \<Longrightarrow> mw_staged w' ! j = mw_staged w ! j" unfolding st using i by auto
  with v w d q i show ?thesis by (auto simp: byte_view_def staged_open_def others_kept_def)
qed

definition op_result where
  "op_result g i op f e w w' \<longleftrightarrow>
     (let app = stf_appendMode (mw_staged w ! i); f' = (if e = None then byte_op app op f else f)
      in byte_view i f' w' \<and> others_kept i w w' \<and>
         (bf_data f' \<noteq> bf_data f \<longrightarrow> stf_writePermitted (mw_staged w ! i) \<longrightarrow> stf_dirty (mw_staged w' ! i)) \<and>
         (stf_dirty (mw_staged w ! i) \<longrightarrow> stf_dirty (mw_staged w' ! i)) \<and>
         (e = None \<longrightarrow> LockResize (gf_store g) (stf_path (mw_staged w ! i)) (asked_size app op f) (mw_fs w) = None \<and>
            int (length (bf_data f')) \<le> asked_size app op f) \<and>
         fs_faults (mw_fs w') = fs_faults (mw_fs w) \<and> fs_cwd (mw_fs w') = fs_cwd (mw_fs w) \<and>
         (mw_fs w' = mw_fs w \<or> (\<exists>t s. mw_fs w' = fs_set (stf_path (mw_staged w ! i)) (Reg (bf_data f') t s) (mw_fs w))))"

lemma op_refused: "byte_view i f w \<Longrightarrow> op_result g i op f (Some e) w w"
  by (simp add: op_result_def others_kept_refl)

lemma Write_result:
  assumes run: "staged_op g i (DWrite d) w = (e, w')" and v: "byte_view i f w"
  shows "op_result g i (DWrite d) f e w w'"
proof -
  let ?f = "mw_staged w ! i"
  from v obtain t s where i: "i < length (mw_staged w)" "\<not> stf_closed ?f" "stf_pos ?f = bf_pos f"
    and data: "fs_get (mw_fs w) (stf_path ?f) = Some (Reg (bf_data f) t s)" by (auto simp: byte_view_def staged_open_def)
  show ?thesis
  proof (cases "file_Stat (stf_path ?f) (mw_fs w)")
    case (Inl x)
    with run i v show ?thesis by (auto simp: staged_Write_def Let_def intro: op_refused)
  next
    case (Inr info)
    have size: "fi_Size info = int (length (bf_data f))" by (rule file_Stat_open [OF data Inr])
    let ?at = "if stf_appendMode ?f then length (bf_data f) else bf_pos f"
    let ?n = "if stf_appendMode ?f then i64 (int (length (bf_data f)) + int (length d))
              else max (int (length (bf_data f))) (i64 (int (bf_pos f) + int (length d)))"
    show ?thesis
    proof (cases "LockResize (gf_store g) (stf_path ?f) ?n (mw_fs w)")
      case (Some x)
      with run i Inr size v show ?thesis by (auto simp: staged_Write_def Let_def intro: op_refused cong: if_cong)
    next
      case lock: None
      obtain k x w1 where wr: "local_call (os_pwrite (stf_path ?f) d ?at (mw_now w)) (upd_staged i markDirty w) = ((k, x), w1)"
        by (metis surj_pair)
      note m = marked_call [OF wr i(1)]
      from pwrite_data [OF _ data] m have p: "\<exists>t s. fs_get (mw_fs w1) (stf_path ?f) = Some (Reg (if x = None \<and> d \<noteq> [] then write_at ?at d (bf_data f) else bf_data f) t s)"
        "\<forall>q. q \<noteq> stf_path ?f \<longrightarrow> fs_get (mw_fs w1) q = fs_get (mw_fs w) q" "k = (if x = None then length d else 0)"
        "x = None \<longrightarrow> int ?at + int (length d) \<le> max_i64" "fs_faults (mw_fs w1) = fs_faults (mw_fs w)" "fs_cwd (mw_fs w1) = fs_cwd (mw_fs w)"
        "mw_fs w1 = mw_fs w \<or> (\<exists>t s. mw_fs w1 = fs_set (stf_path ?f) (Reg (if x = None \<and> d \<noteq> [] then write_at ?at d (bf_data f) else bf_data f) t s) (mw_fs w))"
        by blast+
      have now: "mw_now (upd_staged i markDirty w) = mw_now w" by (simp add: upd_staged_def)
      from run i Inr size lock wr have e: "e = x" "w' = (if k > 0 then upd_staged i (\<lambda>f. f\<lparr>stf_pos := ?at + k\<rparr>) w1 else w1)"
        by (auto simp: staged_Write_def Let_def cong: if_cong)
      let ?f' = "if e = None then byte_op (stf_appendMode ?f) (DWrite d) f else f"
      have pos: "stf_pos (markDirty ?f) = bf_pos f" using i(3) by simp
      have st: "mw_staged w' = (mw_staged w)[i := (markDirty ?f)\<lparr>stf_pos := bf_pos ?f'\<rparr>]"
      proof (cases "k > 0")
        case True
        then have "x = None" "d \<noteq> []" using p(3) by (auto split: if_splits)
        with True p(3) m i e show ?thesis by (simp add: upd_staged_def Let_def)
      next
        case False
        then have "bf_pos ?f' = bf_pos f" using p(3) e by (auto split: if_splits)
        moreover have "(markDirty ?f)\<lparr>stf_pos := bf_pos f\<rparr> = markDirty ?f" using pos by (metis staged_file.surjective staged_file.update_convs(3))
        ultimately show ?thesis using False m e by simp
      qed
      have w': "mw_fs w' = mw_fs w1" "mw_remote w' = mw_remote w" "mw_open w' = mw_open w" "mw_dirs w' = mw_dirs w"
        using m e by (auto simp: upd_staged_def)
      have data': "\<exists>t s. fs_get (mw_fs w') (stf_path ?f) = Some (Reg (bf_data ?f') t s)"
        using p(1) e w'(1) by (auto simp: Let_def split: if_splits)
      note o = op_view [OF v st w'(2,3,4) data' p(2) [folded w'(1)]]
      have n: "?n = asked_size (stf_appendMode ?f) (DWrite d) f" if "e = None"
        using p(4) e that by (auto simp: i64_between min_i64_def)
      have "LockResize (gf_store g) (stf_path ?f) (asked_size (stf_appendMode ?f) (DWrite d) f) (mw_fs w) = None" if "e = None"
        using lock by (simp only: n [OF that])
      moreover have "e = None \<Longrightarrow> int (length (bf_data ?f')) \<le> asked_size (stf_appendMode ?f) (DWrite d) f"
        by (auto simp: Let_def length_write_at)
      moreover have "mw_fs w' = mw_fs w \<or> (\<exists>t s. mw_fs w' = fs_set (stf_path ?f) (Reg (bf_data ?f') t s) (mw_fs w))"
        using p(7) e w'(1) by (auto simp: Let_def split: if_splits)
      ultimately show ?thesis using o p(5,6) w'(1) by (simp add: op_result_def Let_def del: byte_op.simps asked_size.simps)
    qed
  qed
qed

lemma WriteAt_result:
  assumes run: "staged_op g i (DWriteAt d off) w = (e, w')" and v: "byte_view i f w"
  shows "op_result g i (DWriteAt d off) f e w w'"
proof -
  let ?f = "mw_staged w ! i"
  from v obtain t s where i: "i < length (mw_staged w)" "\<not> stf_closed ?f" "stf_pos ?f = bf_pos f"
    and data: "fs_get (mw_fs w) (stf_path ?f) = Some (Reg (bf_data f) t s)" by (auto simp: byte_view_def staged_open_def)
  have pos: "(markDirty ?f)\<lparr>stf_pos := bf_pos f\<rparr> = markDirty ?f"
    using i(3) by (metis markDirty_fields(3) staged_file.surjective staged_file.update_convs(3))
  show ?thesis
  proof (cases "off < 0 \<or> \<not> is_ok (file_Stat (stf_path ?f) (mw_fs w))")
    case True
    with run i v show ?thesis
      by (cases "off < 0") (auto simp: staged_WriteAt_def Let_def intro: op_refused split: sum.splits)
  next
    case False
    then obtain info where off: "0 \<le> off" and info: "file_Stat (stf_path ?f) (mw_fs w) = Inr info"
      by (cases "file_Stat (stf_path ?f) (mw_fs w)") auto
    have size: "fi_Size info = int (length (bf_data f))" by (rule file_Stat_open [OF data info])
    let ?n = "max (int (length (bf_data f))) (i64 (off + int (length d)))"
    show ?thesis
    proof (cases "LockResize (gf_store g) (stf_path ?f) ?n (mw_fs w)")
      case (Some x)
      with run i off info size v show ?thesis by (auto simp: staged_WriteAt_def Let_def intro: op_refused)
    next
      case lock: None
      show ?thesis
      proof (cases "stf_appendMode ?f")
        case True
        let ?w = "upd_staged i markDirty w"
        from run i off info size lock True have e: "e \<noteq> None" "w' = ?w" by (auto simp: staged_WriteAt_def Let_def)
        have st: "mw_staged ?w = (mw_staged w)[i := (markDirty ?f)\<lparr>stf_pos := bf_pos f\<rparr>]"
          unfolding pos by (simp add: upd_staged_def)
        from op_view [OF v st] data have "byte_view i f ?w \<and> others_kept i w ?w \<and> (stf_dirty ?f \<longrightarrow> stf_dirty (mw_staged ?w ! i))"
          by (simp add: upd_staged_def)
        moreover obtain y where "e = Some y" using e(1) by blast
        ultimately show ?thesis using e(2) by (simp add: op_result_def Let_def upd_staged_def)
      next
        case app: False
        obtain k x w1 where wr: "local_call (os_pwrite (stf_path ?f) d (nat off) (mw_now w)) (upd_staged i markDirty w) = ((k, x), w1)"
          by (metis surj_pair)
        note m = marked_call [OF wr i(1)]
        from pwrite_data [OF _ data] m have p: "\<exists>t s. fs_get (mw_fs w1) (stf_path ?f) = Some (Reg (if x = None \<and> d \<noteq> [] then write_at (nat off) d (bf_data f) else bf_data f) t s)"
          "\<forall>q. q \<noteq> stf_path ?f \<longrightarrow> fs_get (mw_fs w1) q = fs_get (mw_fs w) q"
          "x = None \<longrightarrow> int (nat off) + int (length d) \<le> max_i64" "fs_faults (mw_fs w1) = fs_faults (mw_fs w)" "fs_cwd (mw_fs w1) = fs_cwd (mw_fs w)"
          "mw_fs w1 = mw_fs w \<or> (\<exists>t s. mw_fs w1 = fs_set (stf_path ?f) (Reg (if x = None \<and> d \<noteq> [] then write_at (nat off) d (bf_data f) else bf_data f) t s) (mw_fs w))"
          by blast+
        from run i off info size lock wr app have e: "e = x" "w' = w1" by (auto simp: staged_WriteAt_def Let_def)
        let ?f' = "if e = None then byte_op (stf_appendMode ?f) (DWriteAt d off) f else f"
        have st: "mw_staged w' = (mw_staged w)[i := (markDirty ?f)\<lparr>stf_pos := bf_pos ?f'\<rparr>]" using m e pos by (simp add: split: if_splits)
        have data': "\<exists>t s. fs_get (mw_fs w') (stf_path ?f) = Some (Reg (bf_data ?f') t s)"
          using p(1) e by (auto split: if_splits)
        note o = op_view [OF v st _ _ _ data']
        have n: "?n = asked_size (stf_appendMode ?f) (DWriteAt d off) f" if "e = None"
          using p(3) e that off by (auto simp: i64_between min_i64_def)
        have "LockResize (gf_store g) (stf_path ?f) (asked_size (stf_appendMode ?f) (DWriteAt d off) f) (mw_fs w) = None" if "e = None"
          using lock by (simp only: n [OF that])
        moreover have "e = None \<Longrightarrow> int (length (bf_data ?f')) \<le> asked_size (stf_appendMode ?f) (DWriteAt d off) f"
          using off by (auto simp: length_write_at)
        moreover have "mw_fs w' = mw_fs w \<or> (\<exists>t s. mw_fs w' = fs_set (stf_path ?f) (Reg (bf_data ?f') t s) (mw_fs w))"
          using p(6) e by (auto split: if_splits)
        ultimately show ?thesis using o p(2,4,5) e(2) m by (simp add: op_result_def Let_def del: byte_op.simps asked_size.simps)
      qed
    qed
  qed
qed

lemma Truncate_result:
  assumes run: "staged_op g i (DTruncate n) w = (e, w')" and v: "byte_view i f w"
  shows "op_result g i (DTruncate n) f e w w'"
proof -
  let ?f = "mw_staged w ! i"
  from v obtain t s where i: "i < length (mw_staged w)" "\<not> stf_closed ?f" "stf_pos ?f = bf_pos f"
    and data: "fs_get (mw_fs w) (stf_path ?f) = Some (Reg (bf_data f) t s)" by (auto simp: byte_view_def staged_open_def)
  have pos: "(markDirty ?f)\<lparr>stf_pos := bf_pos f\<rparr> = markDirty ?f"
    using i(3) by (metis markDirty_fields(3) staged_file.surjective staged_file.update_convs(3))
  show ?thesis
  proof (cases "LockResize (gf_store g) (stf_path ?f) n (mw_fs w)")
    case (Some x)
    with run v show ?thesis by (auto simp: staged_Truncate_def Let_def intro: op_refused)
  next
    case lock: None
    then have n: "0 \<le> n" by (auto simp: LockResize_def split: if_splits)
    obtain x w1 where tr: "local_call (file_Truncate (stf_path ?f) (nat n) (mw_now w)) (upd_staged i markDirty w) = (x, w1)" by force
    note m = marked_call [OF tr i(1)]
    from truncate_data [OF _ data] m have p: "\<exists>t s. fs_get (mw_fs w1) (stf_path ?f) = Some (Reg (if x = None then take (nat n) (bf_data f) @ replicate (nat n - length (bf_data f)) 0 else bf_data f) t s)"
      "\<forall>q. q \<noteq> stf_path ?f \<longrightarrow> fs_get (mw_fs w1) q = fs_get (mw_fs w) q" "fs_faults (mw_fs w1) = fs_faults (mw_fs w)" "fs_cwd (mw_fs w1) = fs_cwd (mw_fs w)"
      "mw_fs w1 = mw_fs w \<or> (\<exists>t s. mw_fs w1 = fs_set (stf_path ?f) (Reg (if x = None then take (nat n) (bf_data f) @ replicate (nat n - length (bf_data f)) 0 else bf_data f) t s) (mw_fs w))"
      by blast+
    have e: "e = x" "w' = w1" using run i lock tr by (auto simp: staged_Truncate_def Let_def)
    let ?f' = "if e = None then byte_op (stf_appendMode ?f) (DTruncate n) f else f"
    have st: "mw_staged w' = (mw_staged w)[i := (markDirty ?f)\<lparr>stf_pos := bf_pos ?f'\<rparr>]" using m e pos by (simp split: if_splits)
    have data': "\<exists>t s. fs_get (mw_fs w') (stf_path ?f) = Some (Reg (bf_data ?f') t s)" using p(1) e by (auto split: if_splits)
    note o = op_view [OF v st _ _ _ data']
    have "e = None \<Longrightarrow> int (length (bf_data ?f')) \<le> asked_size (stf_appendMode ?f) (DTruncate n) f" using n by simp
    moreover have "LockResize (gf_store g) (stf_path ?f) (asked_size (stf_appendMode ?f) (DTruncate n) f) (mw_fs w) = None"
      using lock by simp
    moreover have "mw_fs w' = mw_fs w \<or> (\<exists>t s. mw_fs w' = fs_set (stf_path ?f) (Reg (bf_data ?f') t s) (mw_fs w))"
      using p(5) e by (auto split: if_splits)
    ultimately show ?thesis using o p(2,3,4) e(2) m by (simp add: op_result_def Let_def del: byte_op.simps asked_size.simps)
  qed
qed

lemma staged_op_result: "staged_op g i op w = (e, w') \<Longrightarrow> byte_view i f w \<Longrightarrow> op_result g i op f e w w'"
  by (cases op) (simp_all only: Write_result WriteAt_result Truncate_result)

text \<open>A run of operations on one handle, with the answers.\<close>

fun staged_run :: "('w, 'r, 'h) gofs \<Rightarrow> nat \<Rightarrow> data_op list \<Rightarrow> 'w mount_world \<Rightarrow> err option list \<times> 'w mount_world" where
  "staged_run g i [] w = ([], w)"
| "staged_run g i (op # ops) w =
     (case staged_op g i op w of
        (e, w1) \<Rightarrow> (case staged_run g i ops w1 of (es, w2) \<Rightarrow> (e # es, w2)))"

fun byte_run :: "bool \<Rightarrow> data_op list \<Rightarrow> err option list \<Rightarrow> byte_file \<Rightarrow> byte_file" where
  "byte_run app (op # ops) (e # es) f = byte_run app ops es (if e = None then byte_op app op f else f)"
| "byte_run app _ _ f = f"

lemma staged_run_view:
  "staged_run g i ops w = (es, w') \<Longrightarrow> byte_view i f w \<Longrightarrow>
   byte_view i (byte_run (stf_appendMode (mw_staged w ! i)) ops es f) w' \<and> others_kept i w w' \<and>
   (stf_dirty (mw_staged w ! i) \<longrightarrow> stf_dirty (mw_staged w' ! i)) \<and>
   (bf_data (byte_run (stf_appendMode (mw_staged w ! i)) ops es f) \<noteq> bf_data f \<longrightarrow>
      stf_writePermitted (mw_staged w ! i) \<longrightarrow> stf_dirty (mw_staged w' ! i))"
proof (induction ops arbitrary: w es f)
  case Nil
  then show ?case by (simp add: others_kept_refl)
next
  case (Cons op ops)
  obtain e w1 where o: "staged_op g i op w = (e, w1)" by force
  obtain es1 w2 where r: "staged_run g i ops w1 = (es1, w2)" by force
  from Cons.prems(1) o r have es: "es = e # es1" and w2: "w2 = w'" by simp_all
  let ?app = "stf_appendMode (mw_staged w ! i)"
  let ?f1 = "if e = None then byte_op ?app op f else f"
  from staged_op_result [OF o Cons.prems(2)] have
    1: "byte_view i ?f1 w1" "others_kept i w w1" "stf_dirty (mw_staged w ! i) \<longrightarrow> stf_dirty (mw_staged w1 ! i)"
       "bf_data ?f1 \<noteq> bf_data f \<longrightarrow> stf_writePermitted (mw_staged w ! i) \<longrightarrow> stf_dirty (mw_staged w1 ! i)"
    by (simp_all add: op_result_def Let_def del: byte_op.simps)
  from 1(2) have same: "stf_appendMode (mw_staged w1 ! i) = ?app"
    "stf_writePermitted (mw_staged w1 ! i) = stf_writePermitted (mw_staged w ! i)" by (simp_all add: others_kept_def)
  from Cons.IH [OF r [unfolded w2] 1(1), unfolded same] have
    2: "byte_view i (byte_run ?app ops es1 ?f1) w'" "others_kept i w1 w'" "stf_dirty (mw_staged w1 ! i) \<longrightarrow> stf_dirty (mw_staged w' ! i)"
       "bf_data (byte_run ?app ops es1 ?f1) \<noteq> bf_data ?f1 \<longrightarrow> stf_writePermitted (mw_staged w ! i) \<longrightarrow> stf_dirty (mw_staged w' ! i)"
    by blast+
  have run: "byte_run ?app (op # ops) es f = byte_run ?app ops es1 ?f1" by (simp add: es)
  show ?case unfolding run using 1(3,4) 2 others_kept_trans [OF 1(2) 2(2)]
    by (cases "bf_data ?f1 = bf_data f") auto
qed

text \<open>
  C4. A staged file is a plain file of bytes. However writes, positioned writes and truncations follow
  each other on a handle, and whichever of them fail, the staging file afterwards has the bytes, and
  the handle the position, of running on a byte sequence just those that were answered without an
  error; nothing else in the mount changes; and a handle opened for writing whose bytes changed is
  dirty, so that they will be uploaded.
\<close>

theorem staged_file_refines:
  assumes "staged_run g i ops w = (es, w')" and "byte_view i f w"
    and "f' = byte_run (stf_appendMode (mw_staged w ! i)) ops es f"
  shows "byte_view i f' w' \<and> others_kept i w w' \<and>
    (bf_data f' \<noteq> bf_data f \<longrightarrow> stf_writePermitted (mw_staged w ! i) \<longrightarrow> stf_dirty (mw_staged w' ! i))"
  using staged_run_view [OF assms(1,2)] assms(3) by blast

subsection \<open>The quota\<close>

lemma admitted_op:
  assumes run: "staged_op g i op w = (None, w')" and v: "byte_view i f w" and f': "f' = byte_op (stf_appendMode (mw_staged w ! i)) op f"
    and env: "store_ok (gf_store g)" "cwd_ok (mw_fs w)" "honest (mw_fs w)" "dir_bytes (gf_store g) (mw_fs w) \<le> max_i64"
    and n: "staging_name n" "stf_path (mw_staged w ! i) = staging_file (gf_store g) n"
  shows "(lm_MaxFileBytes (st_limits (gf_store g)) > 0 \<longrightarrow> int (length (bf_data f')) \<le> lm_MaxFileBytes (st_limits (gf_store g))) \<and>
    (lm_MaxTotalBytes (st_limits (gf_store g)) > 0 \<longrightarrow> length (bf_data f') > length (bf_data f) \<longrightarrow>
       dir_bytes (gf_store g) (mw_fs w') \<le> lm_MaxTotalBytes (st_limits (gf_store g)))"
proof -
  let ?st = "gf_store g" and ?p = "staging_file (gf_store g) n"
  from staged_op_result [OF run v] f' have
    lk: "LockResize ?st ?p (asked_size (stf_appendMode (mw_staged w ! i)) op f) (mw_fs w) = None"
    and len: "int (length (bf_data f')) \<le> asked_size (stf_appendMode (mw_staged w ! i)) op f"
    and disk: "mw_fs w' = mw_fs w \<or> (\<exists>t s. mw_fs w' = fs_set ?p (Reg (bf_data f') t s) (mw_fs w))" and v': "byte_view i f' w'"
    and sp: "stf_path (mw_staged w' ! i) = ?p"
    by (simp_all add: op_result_def others_kept_def Let_def n(2) del: byte_op.simps asked_size.simps)
  from LockResize_admits [OF env(3,4) lk] safe_staging_file [OF env(1,2) n(1)] obtain lim:
    "lm_MaxFileBytes (st_limits ?st) > 0 \<longrightarrow> asked_size (stf_appendMode (mw_staged w ! i)) op f \<le> lm_MaxFileBytes (st_limits ?st)"
    "lm_MaxTotalBytes (st_limits ?st) > 0 \<longrightarrow> asked_size (stf_appendMode (mw_staged w ! i)) op f > file_bytes (mw_fs w) ?p \<longrightarrow>
       dir_bytes ?st (mw_fs w) - file_bytes (mw_fs w) ?p + asked_size (stf_appendMode (mw_staged w ! i)) op f \<le> lm_MaxTotalBytes (st_limits ?st)"
    by auto
  have fb: "file_bytes (mw_fs w) ?p = int (length (bf_data f))" "file_bytes (mw_fs w') ?p = int (length (bf_data f'))"
    using v v' n(2) sp by (auto simp: byte_view_def staged_open_def file_bytes_def)
  have "child_of (st_directory ?st) ?p" using child_staging_file [OF env(1), of n] n(1) by (simp add: staging_name_def)
  then have "length (bf_data f') > length (bf_data f) \<Longrightarrow>
      dir_bytes ?st (mw_fs w') = dir_bytes ?st (mw_fs w) - file_bytes (mw_fs w) ?p + int (length (bf_data f'))"
    using disk fb by (auto simp: dir_bytes_set)
  with lim len fb show ?thesis by auto
qed

text \<open>
  C9. The drive keeps the quota of the cache. After any write or truncation that succeeds, the file is
  within the limit for one file, and if it grew, the regular files of the cache directory together are
  within the total limit. (The bytes on the disk are assumed to fit in the \<open>int64\<close> that sums them.)
\<close>

theorem drive_quota_kept:
  assumes "staged_op g i op w = (None, w')" and "byte_view i f w" and "f' = byte_op (stf_appendMode (mw_staged w ! i)) op f"
    and "store_ok (gf_store g)" "cwd_ok (mw_fs w)" "honest (mw_fs w)" "dir_bytes (gf_store g) (mw_fs w) \<le> max_i64"
    and "staging_name n" "stf_path (mw_staged w ! i) = staging_file (gf_store g) n"
  shows "byte_view i f' w' \<and>
    (lm_MaxFileBytes (st_limits (gf_store g)) > 0 \<longrightarrow> int (length (bf_data f')) \<le> lm_MaxFileBytes (st_limits (gf_store g))) \<and>
    (lm_MaxTotalBytes (st_limits (gf_store g)) > 0 \<longrightarrow> length (bf_data f') > length (bf_data f) \<longrightarrow>
       dir_bytes (gf_store g) (mw_fs w') \<le> lm_MaxTotalBytes (st_limits (gf_store g)))"
  using admitted_op [OF assms] staged_op_result [OF assms(1,2)] assms(3) by (simp add: op_result_def Let_def)

fun offset_ok :: "data_op \<Rightarrow> bool" where
  "offset_ok (DWriteAt d off) \<longleftrightarrow> 0 \<le> off"
| "offset_ok _ \<longleftrightarrow> True"

lemma mountBoundaryError_full:
  "errors_Is e ENOSPC \<Longrightarrow> errors_Is (mountBoundaryError e) ENOSPC \<and> errors_Is (mountBoundaryError e) STATUS_DISK_FULL"
  by (simp add: mountBoundaryError_def errors_Join_two sentinel_is_def)

text \<open>
  A write or truncation past the limit for one file is refused before it touches anything, and with
  an error that a Go caller recognises as \<open>ENOSPC\<close> and WinFsp as \<open>STATUS_DISK_FULL\<close>.
\<close>

theorem drive_quota_refusal:
  assumes "byte_view i f w" and "asked_size (stf_appendMode (mw_staged w ! i)) op f > lm_MaxFileBytes (st_limits (gf_store g))"
    and "asked_size (stf_appendMode (mw_staged w ! i)) op f \<le> max_i64" and "lm_MaxFileBytes (st_limits (gf_store g)) > 0"
    and "offset_ok op" and "fs_faults (mw_fs w) OpInfo (stf_path (mw_staged w ! i)) = None"
  shows "\<exists>e. staged_op g i op w = (Some e, w) \<and> errors_Is e ENOSPC \<and> errors_Is e STATUS_DISK_FULL"
proof -
  let ?f = "mw_staged w ! i" and ?e = "Wrapped ''file limit exceeded'' (Sentinel ENOSPC)"
  from assms(1) obtain t s where i: "\<not> stf_closed ?f" "stf_pos ?f = bf_pos f"
    and data: "fs_get (mw_fs w) (stf_path ?f) = Some (Reg (bf_data f) t s)" by (auto simp: byte_view_def staged_open_def)
  from data assms(6) have info: "file_Stat (stf_path ?f) (mw_fs w) = Inr (node_info (Reg (bf_data f) t s))"
    by (simp add: file_Stat_def)
  have lk: "LockResize (gf_store g) (stf_path ?f) k (mw_fs w) = Some ?e" if "k = asked_size (stf_appendMode ?f) op f" for k
    using that assms(2,4) by (simp add: LockResize_def)
  have "staged_op g i op w = (Some (mountBoundaryError ?e), w)"
  proof (cases op)
    case (DWrite d)
    have "(if stf_appendMode ?f then i64 (int (length (bf_data f)) + int (length d))
        else max (int (length (bf_data f))) (i64 (int (bf_pos f) + int (length d)))) = asked_size (stf_appendMode ?f) op f"
      using assms(3) DWrite by (auto simp: i64_between min_i64_def)
    from lk [OF this] show ?thesis using DWrite i info by (simp add: staged_Write_def Let_def cong: if_cong)
  next
    case (DWriteAt d off)
    have "max (int (length (bf_data f))) (i64 (off + int (length d))) = asked_size (stf_appendMode ?f) op f"
      using assms(3,5) DWriteAt by (auto simp: i64_between min_i64_def)
    from lk [OF this] show ?thesis using DWriteAt assms(5) i info by (simp add: staged_WriteAt_def Let_def)
  next
    case (DTruncate k)
    with lk [of k] show ?thesis by (simp add: staged_Truncate_def Let_def)
  qed
  moreover have "errors_Is ?e ENOSPC" by (simp add: sentinel_is_def)
  ultimately show ?thesis using mountBoundaryError_full by blast
qed

subsection \<open>Directory listings\<close>

text \<open>A run of \<open>Readdir\<close> calls: the entries of the calls that answered some, in order.\<close>

fun readdir_run :: "('w, 'r, 'h) gofs \<Rightarrow> nat \<Rightarrow> int list \<Rightarrow> 'w mount_world \<Rightarrow> entry list \<times> 'w mount_world" where
  "readdir_run g i [] w = ([], w)"
| "readdir_run g i (c # cs) w =
     (case directory_Readdir g i c w of
        (r, w1) \<Rightarrow> (case readdir_run g i cs w1 of (es, w2) \<Rightarrow> (case_sum (\<lambda>_. []) id r @ es, w2)))"

lemma directory_chunk_slice:
  assumes "directory_chunk cnt es off = (r, off')" and "off \<le> length es"
  shows "case_sum (\<lambda>_. []) id r = take (off' - off) (drop off es) \<and> off \<le> off' \<and> off' \<le> length es"
  using assms by (auto simp: directory_chunk_def Let_def split: if_splits)

text \<open>The answer to one call, as long as the offset does not overflow.\<close>

definition next_entries :: "int \<Rightarrow> entry list \<Rightarrow> nat \<Rightarrow> err + entry list" where
  "next_entries cnt es off =
     (if cnt \<le> 0 then Inr (drop off es)
      else if off = length es then Inl (Sentinel EOF) else Inr (take (nat cnt) (drop off es)))"

lemma directory_chunk_exact:
  assumes "off \<le> length es" and "cnt + int (length es) \<le> max_i64"
  shows "fst (directory_chunk cnt es off) = next_entries cnt es off"
proof (cases "cnt \<le> 0 \<or> off = length es")
  case True
  then show ?thesis by (auto simp: directory_chunk_def next_entries_def)
next
  case False
  then have "i64 (int off + cnt) = int off + cnt" using assms by (intro i64_id) (simp add: in_i64_def min_i64_def max_i64_def)
  moreover have "take (length es - off) (drop off es) = take (nat cnt) (drop off es)" if "int (length es) < int off + cnt"
    using that by simp
  moreover have "nat (int off + cnt) - off = nat cnt" using False by simp
  ultimately show ?thesis using False assms(1) by (auto simp: directory_chunk_def next_entries_def Let_def)
qed

definition listing :: "nat \<Rightarrow> entry list \<Rightarrow> nat \<Rightarrow> 'w mount_world \<Rightarrow> bool" where
  "listing i es off w \<longleftrightarrow> i < length (mw_dirs w) \<and> \<not> dif_closed (mw_dirs w ! i) \<and>
     dif_entries (mw_dirs w ! i) = Some es \<and> dif_offset (mw_dirs w ! i) = off \<and> off \<le> length es"

lemma Readdir_listing:
  assumes "directory_Readdir g i cnt w = (r, w')" and "listing i es off w"
  shows "\<exists>off'. directory_chunk cnt es off = (r, off') \<and> listing i es off' w' \<and> mw_remote w' = mw_remote w"
proof -
  obtain x off' where c: "directory_chunk cnt es off = (x, off')" by force
  with assms directory_chunk_slice [OF c] show ?thesis
    by (auto simp: listing_def directory_Readdir_def Let_def upd_dir_def)
qed

lemma readdir_run_listing:
  "readdir_run g i cs w = (got, w') \<Longrightarrow> listing i es off w \<Longrightarrow>
   \<exists>off'. got = take (off' - off) (drop off es) \<and> off \<le> off' \<and> listing i es off' w' \<and> mw_remote w' = mw_remote w"
proof (induction cs arbitrary: w off got)
  case Nil
  then show ?case by (auto simp: listing_def)
next
  case (Cons c cs)
  obtain r w1 where d: "directory_Readdir g i c w = (r, w1)" by force
  obtain got1 w2 where run: "readdir_run g i cs w1 = (got1, w2)" by force
  from Cons.prems(1) d run have g: "got = case_sum (\<lambda>_. []) id r @ got1" and w2: "w2 = w'" by simp_all
  from Readdir_listing [OF d Cons.prems(2)] obtain off1 where
    1: "directory_chunk c es off = (r, off1)" "listing i es off1 w1" "mw_remote w1 = mw_remote w" by blast
  have le: "off \<le> length es" using Cons.prems(2) by (simp add: listing_def)
  note sl = directory_chunk_slice [OF 1(1) le]
  from Cons.IH [OF run [unfolded w2] 1(2)] obtain off2 where
    2: "got1 = take (off2 - off1) (drop off1 es)" "off1 \<le> off2" "listing i es off2 w'" "mw_remote w' = mw_remote w1" by blast
  have "got = take (off2 - off) (drop off es)"
    using g sl 2(1,2) take_add [of "off1 - off" "off2 - off1" "drop off es"] by simp
  with sl 2 1(3) show ?case by auto
qed


subsection \<open>Examples\<close>

definition demo_file :: byte_file where
  "demo_file = \<lparr>bf_data = [1, 2, 3], bf_pos = 3\<rparr>"

lemma demo_view: "byte_view 0 demo_file demo_mount"
  using demo_mount_ok(1) by (simp add: byte_view_def demo_file_def demo_mount_def demo_staged_def)

lemma demo_app: "\<not> stf_appendMode (mw_staged demo_mount ! 0)" "stf_path (mw_staged demo_mount ! 0) = ''/c/staging-1''"
  "gf_store demo_gofs = demo_store" "mw_fs demo_mount = demo_cache"
  by (simp_all add: demo_mount_def demo_staged_def demo_gofs_def)

lemma demo_overwrite: "fst (staged_run demo_gofs 0 [DWriteAt [9] 1, DTruncate 5, DTruncate 2] demo_mount) = [None, Some (mountBoundaryError (Wrapped ''file limit exceeded'' (Sentinel ENOSPC))), None]"
  by code_simp

theorem staged_file_refines_witness:
  "byte_view 0 \<lparr>bf_data = [1, 9], bf_pos = 3\<rparr> (snd (staged_run demo_gofs 0 [DWriteAt [9] 1, DTruncate 5, DTruncate 2] demo_mount))"
proof -
  let ?ops = "[DWriteAt [9] 1, DTruncate 5, DTruncate 2]"
  obtain es w' where run: "staged_run demo_gofs 0 ?ops demo_mount = (es, w')" by force
  with demo_overwrite have es: "es = [None, Some (mountBoundaryError (Wrapped ''file limit exceeded'' (Sentinel ENOSPC))), None]" by simp
  have "byte_run (stf_appendMode (mw_staged demo_mount ! 0)) ?ops es demo_file = \<lparr>bf_data = [1, 9], bf_pos = 3\<rparr>"
    by (simp add: es demo_file_def write_at_def)
  with staged_file_refines [OF run demo_view refl] run show ?thesis by simp
qed

lemma demo_grow: "fst (staged_op demo_gofs 0 (DTruncate 4) demo_mount) = None" by code_simp

theorem drive_quota_kept_witness:
  "dir_bytes demo_store (mw_fs (snd (staged_op demo_gofs 0 (DTruncate 4) demo_mount))) \<le> 6"
proof -
  obtain e w' where run: "staged_op demo_gofs 0 (DTruncate 4) demo_mount = (e, w')" by force
  with demo_grow have e: "e = None" by simp
  have env: "store_ok (gf_store demo_gofs)" "cwd_ok (mw_fs demo_mount)" "honest (mw_fs demo_mount)"
    "dir_bytes (gf_store demo_gofs) (mw_fs demo_mount) \<le> max_i64" "stf_path (mw_staged demo_mount ! 0) = staging_file (gf_store demo_gofs) ''staging-1''"
    using demo_store_ok demo_cwd_ok demo_honest demo_lock(2) demo_staging(2) by (simp_all add: demo_app)
  from drive_quota_kept [OF run [unfolded e] demo_view refl env(1,2,3,4) demo_staging(1) env(5)] run show ?thesis
    by (auto simp: demo_app demo_file_def demo_store_def)
qed

theorem drive_quota_refusal_witness:
  "\<exists>e. staged_op demo_gofs 0 (DTruncate 5) demo_mount = (Some e, demo_mount) \<and> errors_Is e ENOSPC \<and> errors_Is e STATUS_DISK_FULL"
  by (rule drive_quota_refusal [OF demo_view]) (simp_all add: demo_app demo_store_def demo_cache_def max_i64_def)

definition demo_directory :: "(string \<times> bytes) list mount_world" where
  "demo_directory = demo_mount\<lparr>mw_dirs := [\<lparr>dif_name = ''.'', dif_entries = Some [zero_entry, zero_entry\<lparr>e_Size := 1\<rparr>, zero_entry],
     dif_offset = 0, dif_closed = False\<rparr>]\<rparr>"


end
