(* ===== verification/Session_Facts.thy ===== *)
theory Session_Facts
  imports Mount_Session Mount_Bytes
begin

text \<open>
  What the guard and the session promise: the count of open handles is the number of tracked files, a safe
  detach happens only with every staged file closed and no failed close ever, and a forced one always
  completes and keeps the staging files.
\<close>

subsection \<open>Which handles are open\<close>

definition closed_map :: "'w mount_world \<Rightarrow> bool list" where
  "closed_map w = map stf_closed (mw_staged w)"

definition shape_same :: "'w mount_world \<Rightarrow> 'w mount_world \<Rightarrow> bool" where
  "shape_same w w' \<longleftrightarrow> closed_map w' = closed_map w \<and> length (mw_dirs w') = length (mw_dirs w)"

lemma shape_refl [simp]: "shape_same w w"
  by (simp add: shape_same_def)

lemma shape_trans [trans]: "shape_same w w1 \<Longrightarrow> shape_same w1 w2 \<Longrightarrow> shape_same w w2"
  by (simp add: shape_same_def)

lemma local_same_shape: "local_same w w' \<Longrightarrow> shape_same w w'"
  by (simp add: local_same_def shape_same_def closed_map_def)

lemma remote_shape: "remote_call f w = (r, w') \<Longrightarrow> shape_same w w'"
  by (rule local_same_shape) (simp add: remote_call_local)

lemma local_shape: "local_call f w = (r, w') \<Longrightarrow> shape_same w w'"
  by (rule local_same_shape) (simp add: local_call_same)

lemma map_update_same: "f x = f (xs ! i) \<Longrightarrow> map f (xs[i := x]) = map f xs"
proof (cases "i < length xs")
  case True
  assume "f x = f (xs ! i)"
  then have "map f (xs[i := x]) = (map f xs)[i := map f xs ! i]" using True by (simp add: map_update)
  then show ?thesis by simp
qed (simp add: list_update_beyond)

lemma upd_shape: "(\<And>f. stf_closed (u f) = stf_closed f) \<Longrightarrow> shape_same w (upd_staged i u w)"
  by (simp add: shape_same_def closed_map_def upd_staged_def map_update_same)

lemma dir_shape: "shape_same w (upd_dir i u w)"
  by (simp add: shape_same_def closed_map_def upd_dir_def)

lemma sync_shape: "staged_syncLocked g i w = (r, w') \<Longrightarrow> shape_same w w'"
proof -
  assume run: "staged_syncLocked g i w = (r, w')"
  show ?thesis
  proof (cases "stf_closed (mw_staged w ! i) \<or> i \<ge> length (mw_staged w)")
    case False
    with staged_sync_local [OF run] obtain m where
      "mw_staged w' = (mw_staged w)[i := (mw_staged w ! i)\<lparr>stf_dirty := stf_dirty (mw_staged w ! i) \<and> r \<noteq> None, stf_modTime := m\<rparr>]"
      "mw_dirs w' = mw_dirs w" by auto
    with False show ?thesis
      by (simp add: shape_same_def closed_map_def map_update_same)
  next
    case True
    obtain se w1 where sy: "local_call (file_Sync (stf_path (mw_staged w ! i))) w = (se, w1)" by force
    obtain ue w2 where up: "upload g (stf_name (mw_staged w ! i)) (stf_path (mw_staged w ! i)) w1 = (ue, w2)" by force
    obtain me w3 where mt: "(if stf_requestedTime (mw_staged w ! i) \<noteq> 0 then
        setBackendModTime g (stf_name (mw_staged w ! i)) (stf_requestedTime (mw_staged w ! i)) w2 else (None, w2)) = (me, w3)" by force
    have 1: "shape_same w w1" using sy by (rule local_shape)
    have 2: "shape_same w1 w2" using up unfolding upload_def by (rule remote_shape)
    have 3: "shape_same w2 w3" using mt by (auto simp: setBackendModTime_def intro: remote_shape split: if_splits)
    have 4: "shape_same w3 (upd_staged i (\<lambda>f. f\<lparr>stf_dirty := False, stf_modTime := (if stf_requestedTime f = 0 then mw_now w3 else stf_requestedTime f)\<rparr>) w3)"
      by (rule upd_shape) simp
    have "w' = w \<or> w' = w1 \<or> w' = w2 \<or> w' = w3 \<or>
        w' = upd_staged i (\<lambda>f. f\<lparr>stf_dirty := False, stf_modTime := (if stf_requestedTime f = 0 then mw_now w3 else stf_requestedTime f)\<rparr>) w3"
      using run sy up mt by (simp add: staged_syncLocked_def Let_def split: option.splits if_splits)
    with 1 2 3 4 show ?thesis by (meson shape_refl shape_trans)
  qed
qed

lemma range_shape: "sync_range g name is w = (r, w') \<Longrightarrow> shape_same w w'"
proof (induction "is" arbitrary: w)
  case (Cons i rest)
  obtain e w1 where sy: "staged_syncLocked g i w = (e, w1)" by force
  note 1 = sync_shape [OF sy]
  from Cons.prems sy have "sync_range g name rest w = (r, w') \<or> sync_range g name rest w1 = (r, w') \<or> w' = w1"
    by (auto simp: Let_def split: if_splits option.splits)
  with Cons.IH [of w] Cons.IH [of w1] 1 show ?case using shape_trans by blast
qed simp

lemma stat_shape: "gofs_stat g name w = (r, w') \<Longrightarrow> shape_same w w'"
  by (auto simp: gofs_stat_def dest!: range_shape remote_shape split: prod.splits option.splits intro: shape_trans)

lemma mtime_shape: "mtime_range name t is e w = (r, w') \<Longrightarrow> shape_same w w'"
proof (induction "is" arbitrary: w e)
  case (Cons i rest)
  obtain x w1 where st: "staged_setModTime i t w = (x, w1)" by force
  have "shape_same w w1"
    using st by (auto simp: staged_setModTime_def Let_def split: if_splits prod.splits option.splits
        intro: shape_trans [OF local_shape upd_shape] local_shape)
  with Cons.IH Cons.prems st show ?case by (auto split: if_splits intro: shape_trans)
qed simp

lemma op_shape: "staged_op g i op w = (r, w') \<Longrightarrow> shape_same w w'"
proof -
  assume run: "staged_op g i op w = (r, w')"
  have m: "shape_same w (upd_staged i markDirty w)" by (rule upd_shape) simp
  have l: "shape_same w w1" if "local_call f (upd_staged i markDirty w) = (x, w1)" for f :: "lfs \<Rightarrow> 'x \<times> lfs" and x w1
    using m local_shape [OF that] by (rule shape_trans)
  have p: "shape_same w (upd_staged i (\<lambda>f. f\<lparr>stf_pos := k\<rparr>) w1)" if "shape_same w w1" for k w1
    using that by (rule shape_trans) (simp add: upd_shape)
  have q: "shape_same w w1" if "map_prod snd id (local_call f (upd_staged i markDirty w)) = (x, w1)"
    for f :: "lfs \<Rightarrow> (nat \<times> err option) \<times> lfs" and x w1
    using that l by (cases "local_call f (upd_staged i markDirty w)") auto
  from run show ?thesis
    by (cases op) (auto dest!: q simp: staged_Write_def staged_WriteAt_def staged_Truncate_def Let_def
        split: if_splits sum.splits option.splits prod.splits intro: p m l)
qed

text \<open>Closing marks the one handle; opening adds one open handle or one directory.\<close>

lemma forget_shape: "shape_same w (forget_open i w)"
  by (simp add: shape_same_def closed_map_def forget_open_def)

lemma preserve_shape: "preserveLocked g i reason cause w = (r, w') \<Longrightarrow> shape_same w w'"
  by (auto simp: preserveLocked_def Let_def shape_same_def closed_map_def split: prod.splits)

lemma mark_closed: "closed_map (upd_staged i (\<lambda>f. f\<lparr>stf_closed := True\<rparr>) w) = (closed_map w)[i := True]"
  "mw_dirs (upd_staged i (\<lambda>f. f\<lparr>stf_closed := True\<rparr>) w) = mw_dirs w"
  by (simp_all add: closed_map_def upd_staged_def map_update)

definition closes :: "nat \<Rightarrow> 'w mount_world \<Rightarrow> 'w mount_world \<Rightarrow> bool" where
  "closes i w w' \<longleftrightarrow> closed_map w' = (closed_map w)[i := True] \<and> length (mw_dirs w') = length (mw_dirs w)"

lemma closesI: "shape_same w w1 \<Longrightarrow> shape_same (forget_open i (upd_staged i (\<lambda>f. f\<lparr>stf_closed := True\<rparr>) w1)) w' \<Longrightarrow> closes i w w'"
  using forget_shape [of "upd_staged i (\<lambda>f. f\<lparr>stf_closed := True\<rparr>) w1" i]
  by (simp add: closes_def shape_same_def mark_closed)

lemma closed_closes: "i < length (mw_staged w) \<Longrightarrow> stf_closed (mw_staged w ! i) \<Longrightarrow> closes i w w"
  using list_update_same_conv [of i "map stf_closed (mw_staged w)" True] by (simp add: closes_def closed_map_def)

lemma Close_closes: "staged_Close g i w = (r, w') \<Longrightarrow> i < length (mw_staged w) \<Longrightarrow> closes i w w'"
proof -
  assume run: "staged_Close g i w = (r, w')" and i: "i < length (mw_staged w)"
  show ?thesis
  proof (cases "stf_closed (mw_staged w ! i)")
    case True
    with run i show ?thesis by (simp add: staged_Close_def Let_def closed_closes)
  next
    case False
    obtain e w1 where sy: "staged_syncLocked g i w = (e, w1)" by force
    from run False sy show ?thesis
      by (auto simp: staged_Close_def Let_def split: if_splits prod.splits
          intro!: closesI [OF sync_shape [OF sy]] dest: local_shape preserve_shape)
  qed
qed

lemma closePreserving_closes: "closePreserving g i w = (r, w') \<Longrightarrow> i < length (mw_staged w) \<Longrightarrow> closes i w w'"
proof -
  assume run: "closePreserving g i w = (r, w')" and i: "i < length (mw_staged w)"
  show ?thesis
  proof (cases "stf_closed (mw_staged w ! i)")
    case True
    with run i show ?thesis by (simp add: closePreserving_def Let_def closed_closes)
  next
    case False
    obtain e w1 where sy: "local_call (file_Sync (stf_path (mw_staged w ! i))) w = (e, w1)" by force
    from run False sy show ?thesis
      by (auto simp: closePreserving_def Let_def split: if_splits prod.splits
          intro!: closesI [OF local_shape [OF sy]] dest: preserve_shape)
  qed
qed

lemma directory_Close_shape: "directory_Close i w = (r, w') \<Longrightarrow> shape_same w w'"
  by (auto simp: directory_Close_def dir_shape split: if_splits)

lemma download_shape: "download g n p w = (r, w') \<Longrightarrow> shape_same w w'"
  by (auto simp: download_def Let_def dest!: remote_shape local_shape split: sum.splits prod.splits) (meson shape_trans)+

lemma discard_shape: "shape_same w (discard_temporary p w)"
  unfolding discard_temporary_def by (rule local_shape) (rule surjective_pairing)

text \<open>What \<open>OpenFile\<close> may add.\<close>

definition opens :: "'w mount_world \<Rightarrow> err + gofs_file \<Rightarrow> 'w mount_world \<Rightarrow> bool" where
  "opens w r w' \<longleftrightarrow>
     (case r of
        Inl e \<Rightarrow> shape_same w w'
      | Inr (Staged i) \<Rightarrow> i = length (mw_staged w) \<and> closed_map w' = closed_map w @ [False] \<and> length (mw_dirs w') = length (mw_dirs w)
      | Inr (Directory i) \<Rightarrow> i = length (mw_dirs w) \<and> closed_map w' = closed_map w \<and> length (mw_dirs w') = Suc (length (mw_dirs w)))"

lemma opens_after: "shape_same w w1 \<Longrightarrow> opens w1 r w' \<Longrightarrow> opens w r w'"
  by (auto simp: opens_def shape_same_def closed_map_def split: sum.splits gofs_file.splits) (metis length_map)+

lemma opens_Inl: "shape_same w w' \<Longrightarrow> opens w (Inl e) w'"
  by (simp add: opens_def)

lemma open_staged_opens: "open_staged g n flag en w = (r, w') \<Longrightarrow> opens w r w'"
proof -
  assume run: "open_staged g n flag en w = (r, w')"
  obtain t w1 where cs: "local_call (CreateStaging (gf_store g) (mw_rnd w) (mw_now w)) w = (t, w1)" by force
  note 1 = local_shape [OF cs]
  show ?thesis
  proof (cases t)
    case (Inl e)
    with run cs 1 show ?thesis by (auto simp: open_staged_def Let_def intro: opens_Inl)
  next
    case (Inr tmp)
    show ?thesis
    proof (cases "file_Close tmp (mw_fs w1)")
      case (Some e)
      with run cs Inr 1 show ?thesis by (auto simp: open_staged_def Let_def intro: opens_Inl shape_trans discard_shape)
    next
      case None
      obtain d w2 where dl: "(if en \<noteq> None \<and> \<not> has_flag flag O_TRUNC
          then case LockResize (gf_store g) tmp (e_Size (case en of Some en \<Rightarrow> en | None \<Rightarrow> zero_entry)) (mw_fs w1) of
                 Some e \<Rightarrow> (Some (mountBoundaryError e), w1) | None \<Rightarrow> download g n tmp w1
          else (None, w1)) = (d, w2)" by (metis surj_pair)
      have "shape_same w1 w2" using dl by (auto dest: download_shape split: if_splits option.splits)
      with 1 have 2: "shape_same w w2" by (rule shape_trans)
      obtain o' w3 where op: "local_call (os_OpenFile tmp (has_flag flag O_TRUNC) (mw_now w2)) w2 = (o', w3)" by force
      have 3: "shape_same w w3" using 2 local_shape [OF op] by (rule shape_trans)
      have disc: "shape_same w2 (discard_temporary tmp w2)" "shape_same w3 (discard_temporary tmp w3)" by (rule discard_shape)+
      from run cs Inr None dl op have
        "(\<exists>e. r = Inl e \<and> (w' = discard_temporary tmp w2 \<or> w' = discard_temporary tmp w3)) \<or>
         (\<exists>x. \<not> stf_closed x \<and> r = Inr (Staged (length (mw_staged w3))) \<and> mw_staged w' = mw_staged w3 @ [x] \<and> mw_dirs w' = mw_dirs w3)"
        unfolding open_staged_def Let_def by (auto split: option.splits sum.splits simp del: if_split)
      then show ?thesis
      proof (elim disjE exE conjE)
        fix x assume "\<not> stf_closed x" "r = Inr (Staged (length (mw_staged w3)))" "mw_staged w' = mw_staged w3 @ [x]" "mw_dirs w' = mw_dirs w3"
        then have "opens w3 r w'" by (simp add: opens_def closed_map_def)
        with 3 show ?thesis by (rule opens_after)
      qed (use 2 3 disc in \<open>auto intro: opens_Inl shape_trans\<close>)
    qed
  qed
qed

lemma OpenFile_opens: "gofs_OpenFile g n flag w = (r, w') \<Longrightarrow> opens w r w'"
proof -
  assume run: "gofs_OpenFile g n flag w = (r, w')"
  show ?thesis
  proof (cases "gf_readOnly g \<and> has_flag flag (O_WRONLY OR O_RDWR OR O_CREATE OR O_TRUNC OR O_APPEND)")
    case True
    with run show ?thesis by (auto simp: gofs_OpenFile_def opens_def)
  next
    case False
    obtain a w1 where st: "gofs_stat g (cleanMountPath n) w = (a, w1)" by force
    note 1 = stat_shape [OF st]
    have "opens w1 r w'"
      using run False st by (auto simp: gofs_OpenFile_def Let_def opens_def closed_map_def [symmetric] split: sum.splits if_splits
          dest: open_staged_opens) (auto simp: closed_map_def)
    with 1 show ?thesis by (rule opens_after)
  qed
qed

subsection \<open>The guard\<close>

definition file_known :: "gofs_file \<Rightarrow> 'w mount_world \<Rightarrow> bool" where
  "file_known fl w \<longleftrightarrow> (case fl of Staged i \<Rightarrow> i < length (mw_staged w) | Directory i \<Rightarrow> i < length (mw_dirs w))"

definition guard_inv :: "'w guard \<Rightarrow> bool" where
  "guard_inv s \<longleftrightarrow> gu_open s = int (length (gu_files s)) \<and> distinct (gu_files s) \<and>
     (\<forall>k. k \<in> set (gu_files s) \<longleftrightarrow> k < length (gu_tracked s) \<and> \<not> tf_closed (gu_tracked s ! k)) \<and>
     (\<forall>k < length (gu_tracked s). file_known (tf_file (gu_tracked s ! k)) (gu_mount s)) \<and>
     (\<forall>i < length (closed_map (gu_mount s)). \<not> closed_map (gu_mount s) ! i \<longrightarrow>
        (\<exists>k \<in> set (gu_files s). tf_file (gu_tracked s ! k) = Staged i))"

lemma guard_inv_flags [simp]:
  "guard_inv (s\<lparr>gu_stopping := b\<rparr>) = guard_inv s" "guard_inv (s\<lparr>gu_closeErr := e\<rparr>) = guard_inv s"
  by (simp_all add: guard_inv_def)

lemma forget_tracked_fields [simp]:
  "gu_stopping (forget_tracked k s) = gu_stopping s" "gu_closeErr (forget_tracked k s) = gu_closeErr s"
  "gu_mount (forget_tracked k s) = gu_mount s" "gu_cache (forget_tracked k s) = gu_cache s"
  by (simp_all add: forget_tracked_def)

lemma known_shape: "shape_same w w' \<Longrightarrow> file_known fl w' = file_known fl w"
  by (auto simp: file_known_def shape_same_def closed_map_def dest: arg_cong [where f = length] split: gofs_file.splits)

lemma known_closes: "closes i w w' \<Longrightarrow> file_known fl w' = file_known fl w"
  by (auto simp: file_known_def closes_def closed_map_def dest!: arg_cong [where f = length] split: gofs_file.splits)

lemma inv_shape: "guard_inv s \<Longrightarrow> shape_same (gu_mount s) w \<Longrightarrow> guard_inv (s\<lparr>gu_mount := w\<rparr>)"
  using known_shape [of "gu_mount s" w] by (simp add: guard_inv_def) (simp add: shape_same_def)

lemma inv_on_mount:
  "guard_inv s \<Longrightarrow> on_mount f s = (r, s') \<Longrightarrow> (\<And>w'. f (gu_mount s) = (r, w') \<Longrightarrow> shape_same (gu_mount s) w') \<Longrightarrow> guard_inv s'"
  by (auto simp: on_mount_def inv_shape split: prod.splits)

text \<open>Taking one open handle out, after its file was closed.\<close>

lemma unset_other: "\<not> xs[x := True] ! i \<Longrightarrow> i < length xs \<Longrightarrow> \<not> xs ! i \<and> x \<noteq> i"
  by (cases "x = i") auto

lemma inv_forget:
  assumes inv: "guard_inv s" and k: "k \<in> set (gu_files s)"
    and cl: "case tf_file (gu_tracked s ! k) of Staged i \<Rightarrow> closes i (gu_mount s) w | Directory i \<Rightarrow> shape_same (gu_mount s) w"
  shows "guard_inv (forget_tracked k (s\<lparr>gu_mount := w\<rparr>))"
proof -
  let ?f = "tf_file (gu_tracked s ! k)" and ?s = "forget_tracked k (s\<lparr>gu_mount := w\<rparr>)"
  have klen: "k < length (gu_tracked s)" using inv k by (simp add: guard_inv_def)
  have nth: "gu_tracked ?s ! j = (if j = k then (gu_tracked s ! k)\<lparr>tf_closed := True\<rparr> else gu_tracked s ! j)"
    "length (gu_tracked ?s) = length (gu_tracked s)" for j
    using klen by (auto simp: forget_tracked_def)
  have fs: "gu_files ?s = filter (\<lambda>j. j \<noteq> k) (gu_files s)" "gu_mount ?s = w" by (simp_all add: forget_tracked_def)
  have dist: "distinct (gu_files s)" and count: "gu_open s = int (length (gu_files s))" using inv by (simp_all add: guard_inv_def)
  from dist have "filter (\<lambda>j. j \<noteq> k) (gu_files s) = remove1 k (gu_files s)"
    by (simp add: distinct_remove1_removeAll removeAll_filter_not_eq neq_commute)
  then have one: "length (filter (\<lambda>j. j \<noteq> k) (gu_files s)) = length (gu_files s) - 1" using k by (simp add: length_remove1)
  have pos: "0 < length (gu_files s)" using k by (cases "gu_files s") auto
  have "int (length (gu_files s) - 1) = int (length (gu_files s)) - 1" using pos by linarith
  then have open': "gu_open ?s = int (length (gu_files ?s))" using count one by (simp add: forget_tracked_def)
  have known: "file_known fl w = file_known fl (gu_mount s)" for fl
    using cl by (auto simp: known_shape known_closes split: gofs_file.splits)
  have held: "\<exists>j \<in> set (gu_files ?s). tf_file (gu_tracked ?s ! j) = Staged i"
    if i: "i < length (closed_map w)" "\<not> closed_map w ! i" for i
  proof -
    have i0: "i < length (closed_map (gu_mount s)) \<and> \<not> closed_map (gu_mount s) ! i \<and> ?f \<noteq> Staged i"
    proof (cases ?f)
      case (Staged x)
      with cl have "closed_map w = (closed_map (gu_mount s))[x := True]" by (simp add: closes_def)
      with i unset_other [of "closed_map (gu_mount s)" x i] Staged show ?thesis by simp
    next
      case (Directory x)
      with cl i show ?thesis by (simp add: shape_same_def)
    qed
    from inv i0 obtain j where j: "j \<in> set (gu_files s)" "tf_file (gu_tracked s ! j) = Staged i"
      unfolding guard_inv_def by blast
    with i0 have "j \<noteq> k" by auto
    with j show ?thesis using nth fs by auto
  qed
  have mem: "j \<in> set (gu_files ?s) \<longleftrightarrow> j < length (gu_tracked ?s) \<and> \<not> tf_closed (gu_tracked ?s ! j)" for j
    using inv nth fs by (auto simp: guard_inv_def)
  have kn: "\<forall>j < length (gu_tracked ?s). file_known (tf_file (gu_tracked ?s ! j)) (gu_mount ?s)"
    using inv nth fs known by (auto simp: guard_inv_def)
  show ?thesis unfolding guard_inv_def using open' dist mem kn held fs by auto
qed

text \<open>One tracked file closed, as a close, a safe or a forced detach does it.\<close>

lemma inv_add:
  assumes inv: "guard_inv s" and o: "opens (gu_mount s) (Inr fl) w"
  shows "guard_inv (s\<lparr>gu_mount := w, gu_open := gu_open s + 1, gu_tracked := gu_tracked s @ [\<lparr>tf_file = fl, tf_closed = False\<rparr>],
     gu_files := gu_files s @ [length (gu_tracked s)]\<rparr>)" (is "guard_inv ?s")
proof -
  have nth: "gu_tracked ?s ! j = (if j < length (gu_tracked s) then gu_tracked s ! j else \<lparr>tf_file = fl, tf_closed = False\<rparr>)"
    if "j < Suc (length (gu_tracked s))" for j using that by (simp add: nth_append)
  have len: "length (mw_staged w) = length (closed_map w)" "length (mw_staged (gu_mount s)) = length (closed_map (gu_mount s))"
    by (simp_all add: closed_map_def)
  have known: "file_known x (gu_mount s) \<Longrightarrow> file_known x w" and new: "file_known fl w" for x
    using o len by (auto simp: file_known_def opens_def split: gofs_file.splits)
  have new_file: "length (gu_tracked s) \<notin> set (gu_files s)" using inv by (auto simp: guard_inv_def)
  have held: "\<exists>j \<in> set (gu_files ?s). tf_file (gu_tracked ?s ! j) = Staged i"
    if i: "i < length (closed_map w)" "\<not> closed_map w ! i" for i
  proof (cases "i < length (closed_map (gu_mount s))")
    case True
    with i o have "\<not> closed_map (gu_mount s) ! i" by (auto simp: opens_def nth_append split: gofs_file.splits)
    with True inv obtain j where j: "j \<in> set (gu_files s)" "tf_file (gu_tracked s ! j) = Staged i" unfolding guard_inv_def by blast
    then have "j < length (gu_tracked s)" using inv by (simp add: guard_inv_def)
    with j nth [of j] show ?thesis by (intro bexI [of _ j]) simp_all
  next
    case False
    with i o len have "fl = Staged i" by (auto simp: opens_def split: gofs_file.splits)
    then show ?thesis using nth [of "length (gu_tracked s)"] by auto
  qed
  have mem: "j \<in> set (gu_files ?s) \<longleftrightarrow> j < length (gu_tracked ?s) \<and> \<not> tf_closed (gu_tracked ?s ! j)" for j
    using inv by (auto simp: guard_inv_def nth_append less_Suc_eq)
  have kn: "\<forall>j < length (gu_tracked ?s). file_known (tf_file (gu_tracked ?s ! j)) w"
    using inv known new by (auto simp: guard_inv_def nth_append less_Suc_eq)
  show ?thesis unfolding guard_inv_def using inv mem kn held new_file by (simp add: guard_inv_def)
qed

lemma OpenFile_inv: "guard_OpenFile g n flag s = (r, s') \<Longrightarrow> guard_inv s \<Longrightarrow> guard_inv s'"
proof -
  assume run: "guard_OpenFile g n flag s = (r, s')" and inv: "guard_inv s"
  obtain x w where o: "gofs_OpenFile g n flag (gu_mount s) = (x, w)" by force
  note op = OpenFile_opens [OF o]
  show ?thesis
  proof (cases x)
    case (Inl e)
    with run o op inv show ?thesis by (auto simp: guard_OpenFile_def on_mount_def opens_def inv_shape split: if_splits)
  next
    case (Inr fl)
    with run o inv_add [OF inv op [unfolded Inr]] inv show ?thesis
      by (auto simp: guard_OpenFile_def on_mount_def Let_def split: if_splits)
  qed
qed

text \<open>Closing one open handle, through whichever of the two closes of a staged file.\<close>

definition close_call :: "(nat \<Rightarrow> 'w mount_world \<Rightarrow> err option \<times> 'w mount_world) \<Rightarrow> bool" where
  "close_call c \<longleftrightarrow> (\<forall>i w r w'. c i w = (r, w') \<longrightarrow> i < length (mw_staged w) \<longrightarrow> closes i w w')"

lemma close_calls: "close_call (staged_Close g)" "close_call (closePreserving g)"
  by (simp_all add: close_call_def Close_closes closePreserving_closes)

lemma close_one_inv:
  assumes inv: "guard_inv s" and k: "k \<in> set (gu_files s)" and c: "close_call c"
    and run: "(case tf_file (gu_tracked s ! k) of
              Staged i \<Rightarrow> map_prod m id (on_mount (c i) s) | Directory i \<Rightarrow> on_mount (directory_Close i) s) = (e, s1)"
  shows "guard_inv (forget_tracked k s1) \<and> gu_files (forget_tracked k s1) = filter (\<lambda>j. j \<noteq> k) (gu_files s) \<and>
    gu_stopping s1 = gu_stopping s \<and> gu_closeErr s1 = gu_closeErr s \<and> gu_tracked s1 = gu_tracked s \<and>
    length (closed_map (gu_mount s1)) = length (closed_map (gu_mount s)) \<and>
    (case tf_file (gu_tracked s ! k) of Staged j \<Rightarrow> (\<exists>r. c j (gu_mount s) = (r, gu_mount s1)) | Directory j \<Rightarrow> shape_same (gu_mount s) (gu_mount s1))"
proof -
  let ?f = "tf_file (gu_tracked s ! k)"
  have kl: "file_known ?f (gu_mount s)" using inv k by (simp add: guard_inv_def)
  have s1: "s1 = s\<lparr>gu_mount := gu_mount s1\<rparr>" using run by (auto simp: on_mount_def split: gofs_file.splits prod.splits)
  have cl: "case ?f of Staged i \<Rightarrow> closes i (gu_mount s) (gu_mount s1) \<and> (\<exists>r. c i (gu_mount s) = (r, gu_mount s1))
      | Directory i \<Rightarrow> shape_same (gu_mount s) (gu_mount s1)"
    using run c kl by (auto simp: on_mount_def close_call_def file_known_def dest: directory_Close_shape
        split: gofs_file.splits prod.splits)
  then have "case ?f of Staged i \<Rightarrow> closes i (gu_mount s) (gu_mount s1) | Directory i \<Rightarrow> shape_same (gu_mount s) (gu_mount s1)"
    by (auto split: gofs_file.splits)
  from inv_forget [OF inv k this] s1 have "guard_inv (forget_tracked k s1)" by simp
  moreover have "gu_files s1 = gu_files s" "gu_stopping s1 = gu_stopping s" "gu_closeErr s1 = gu_closeErr s" "gu_tracked s1 = gu_tracked s"
    by (subst s1, simp)+
  ultimately show ?thesis using cl
    by (auto simp: forget_tracked_def closes_def shape_same_def split: gofs_file.splits)
qed

lemma force_loop_inv:
  assumes "force_loop g ks e s = (r, s')" and "guard_inv s" and "set ks \<subseteq> set (gu_files s)" and "distinct ks"
  shows "guard_inv s' \<and> gu_files s' = filter (\<lambda>k. k \<notin> set ks) (gu_files s) \<and> gu_stopping s' = gu_stopping s \<and>
    gu_closeErr s' = gu_closeErr s"
  using assms
proof (induction ks arbitrary: e s)
  case (Cons k ks)
  obtain x s1 where run: "(case tf_file (gu_tracked s ! k) of
              Staged i \<Rightarrow> map_prod (map_option (Wrapped ''temporary file'')) id (on_mount (closePreserving g i) s)
            | Directory i \<Rightarrow> on_mount (directory_Close i) s) = (x, s1)" by force
  from Cons.prems(3) have k: "k \<in> set (gu_files s)" by simp
  note one = close_one_inv [OF Cons.prems(2) k close_calls(2) run]
  let ?s = "forget_tracked k s1"
  from Cons.prems(1) run have rest: "force_loop g ks (errors_Join [e, x]) ?s = (r, s')" by simp
  have "set ks \<subseteq> set (gu_files ?s)" "distinct ks" using Cons.prems(3,4) one by auto
  note ih = Cons.IH [OF rest conjunct1 [OF one] this]
  have fl: "gu_files ?s = filter (\<lambda>j. j \<noteq> k) (gu_files s)" using one by blast
  have "gu_files s' = filter (\<lambda>j. j \<notin> set (k # ks)) (gu_files s)"
    using ih unfolding fl by (auto intro!: filter_cong)
  moreover have "gu_stopping ?s = gu_stopping s" "gu_closeErr ?s = gu_closeErr s" using one by auto
  ultimately show ?case using ih by auto
qed (simp add: filter_id_conv)

lemma forceStop_inv:
  assumes "forceStop g s = (r, s')" and "guard_inv s"
  shows "guard_inv s' \<and> gu_files s' = [] \<and> gu_stopping s' \<and> gu_closeErr s' = gu_closeErr s"
proof -
  obtain x s1 where l: "force_loop g (gu_files s) None (s\<lparr>gu_stopping := True\<rparr>) = (x, s1)" by force
  have inv: "guard_inv (s\<lparr>gu_stopping := True\<rparr>)" using assms(2) by simp
  have "distinct (gu_files s)" using assms(2) by (simp add: guard_inv_def)
  from force_loop_inv [OF l inv _ this] have "guard_inv s1 \<and> gu_files s1 = [] \<and> gu_stopping s1 \<and> gu_closeErr s1 = gu_closeErr s" by simp
  with assms(1) l show ?thesis by (simp add: forceStop_def)
qed

lemma directory_Close_disk: "directory_Close i w = (r, w') \<Longrightarrow> mw_fs w' = mw_fs w \<and> mw_remote w' = mw_remote w \<and> mw_staged w' = mw_staged w"
  by (auto simp: directory_Close_def upd_dir_def split: if_splits)

definition is_staged :: "'w guard \<Rightarrow> nat \<Rightarrow> bool" where
  "is_staged s k \<longleftrightarrow> (case tf_file (gu_tracked s ! k) of Staged i \<Rightarrow> True | Directory i \<Rightarrow> False)"

lemma directory_loop_inv:
  assumes "directory_loop ks e s = (r, s')" and "guard_inv s" and "set ks \<subseteq> set (gu_files s)" and "distinct ks"
  shows "guard_inv s' \<and> gu_files s' = filter (\<lambda>k. k \<notin> set ks \<or> is_staged s k) (gu_files s) \<and> gu_stopping s' = gu_stopping s \<and>
    gu_closeErr s' = gu_closeErr s \<and> mw_fs (gu_mount s') = mw_fs (gu_mount s) \<and> mw_remote (gu_mount s') = mw_remote (gu_mount s) \<and>
    mw_staged (gu_mount s') = mw_staged (gu_mount s)"
  using assms
proof (induction ks arbitrary: e s)
  case (Cons k ks)
  from Cons.prems(3) have k: "k \<in> set (gu_files s)" by simp
  have klen: "k < length (gu_tracked s)" using Cons.prems(2) k by (simp add: guard_inv_def)
  show ?case
  proof (cases "tf_file (gu_tracked s ! k)")
    case (Staged i)
    with Cons.prems(1) have "directory_loop ks e s = (r, s')" by simp
    from Cons.IH [OF this Cons.prems(2)] Cons.prems(3,4) Staged show ?thesis
      by (auto simp: is_staged_def intro!: filter_cong)
  next
    case (Directory i)
    obtain x s1 where run: "on_mount (directory_Close i) s = (x, s1)" by force
    then have case_run: "(case tf_file (gu_tracked s ! k) of
        Staged i \<Rightarrow> map_prod id id (on_mount (staged_Close undefined i) s) | Directory i \<Rightarrow> on_mount (directory_Close i) s) = (x, s1)"
      using Directory by simp
    note one = close_one_inv [OF Cons.prems(2) k close_calls(1) case_run]
    have disk: "mw_fs (gu_mount s1) = mw_fs (gu_mount s)" "mw_remote (gu_mount s1) = mw_remote (gu_mount s)"
      "mw_staged (gu_mount s1) = mw_staged (gu_mount s)"
      using run by (auto simp: on_mount_def dest: directory_Close_disk split: prod.splits)
    let ?s = "forget_tracked k s1"
    from Cons.prems(1) run Directory have rest: "directory_loop ks (errors_Join [e, x]) ?s = (r, s')" by simp
    have sub: "set ks \<subseteq> set (gu_files ?s)" "distinct ks" using Cons.prems(3,4) one by auto
    have st: "is_staged ?s j = is_staged s j" for j
      using one klen by (cases "j = k") (auto simp: is_staged_def forget_tracked_def)
    have nk: "\<not> is_staged s k" using Directory by (simp add: is_staged_def)
    note ih = Cons.IH [OF rest conjunct1 [OF one] sub]
    have fl: "gu_files ?s = filter (\<lambda>j. j \<noteq> k) (gu_files s)" using one by blast
    have "gu_files s' = filter (\<lambda>j. j \<notin> set (k # ks) \<or> is_staged s j) (gu_files s)"
      using ih nk unfolding fl st by (auto intro!: filter_cong)
    moreover have "gu_stopping ?s = gu_stopping s" "gu_closeErr ?s = gu_closeErr s" "gu_mount ?s = gu_mount s1"
      using one by auto
    ultimately show ?thesis using ih disk by auto
  qed
qed (simp add: filter_id_conv)

lemma prepareStop_inv:
  assumes "prepareStop s = (r, s')" and "guard_inv s"
  shows "guard_inv s' \<and> gu_closeErr s' = gu_closeErr s \<and> mw_fs (gu_mount s') = mw_fs (gu_mount s) \<and>
    mw_remote (gu_mount s') = mw_remote (gu_mount s) \<and> mw_staged (gu_mount s') = mw_staged (gu_mount s) \<and>
    (r = None \<longrightarrow> gu_files s' = [] \<and> gu_closeErr s = None \<and> gu_stopping s') \<and> (r \<noteq> None \<longrightarrow> gu_stopping s' = gu_stopping s)"
proof -
  obtain x s1 where l: "directory_loop (gu_files s) None s = (x, s1)" by force
  have "distinct (gu_files s)" using assms(2) by (simp add: guard_inv_def)
  note d = directory_loop_inv [OF l assms(2) order_refl this]
  have "gu_open s1 = 0 \<Longrightarrow> gu_files s1 = []" using d unfolding guard_inv_def by auto
  with assms(1) l d show ?thesis by (auto simp: prepareStop_def split: option.splits if_splits)
qed

lemma all_closed: "guard_inv s \<Longrightarrow> gu_files s = [] \<Longrightarrow> i < length (mw_staged (gu_mount s)) \<Longrightarrow> stf_closed (mw_staged (gu_mount s) ! i)"
  by (auto simp: guard_inv_def closed_map_def)

lemma tracked_Close_inv:
  assumes "tracked_Close g k s = (r, s')" and "guard_inv s" and "k < length (gu_tracked s)"
  shows "guard_inv s' \<and> (gu_closeErr s \<noteq> None \<longrightarrow> gu_closeErr s' \<noteq> None) \<and>
    (r \<noteq> None \<longrightarrow> \<not> tf_closed (gu_tracked s ! k) \<longrightarrow> gu_closeErr s' \<noteq> None)"
proof (cases "tf_closed (gu_tracked s ! k)")
  case True
  with assms show ?thesis by (simp add: tracked_Close_def Let_def)
next
  case False
  then have k: "k \<in> set (gu_files s)" using assms(2,3) by (simp add: guard_inv_def)
  obtain x s1 where run: "(case tf_file (gu_tracked s ! k) of
              Staged i \<Rightarrow> map_prod (map_option (Wrapped ''temporary file'')) id (on_mount (staged_Close g i) s)
            | Directory i \<Rightarrow> on_mount (directory_Close i) s) = (x, s1)" by force
  note one = close_one_inv [OF assms(2) k close_calls(1) run]
  from assms(1) False run have r: "r = x" "s' = (forget_tracked k s1)\<lparr>gu_closeErr := errors_Join [gu_closeErr (forget_tracked k s1), x]\<rparr>"
    by (auto simp: tracked_Close_def Let_def simp del: split_paired_All)
  have "guard_inv s'" using one r(2) by simp
  moreover have "gu_closeErr s' = errors_Join [gu_closeErr s, x]" using one r by (simp add: forget_tracked_def)
  moreover have "errors_Join [gu_closeErr s, x] = None \<longleftrightarrow> gu_closeErr s = None \<and> x = None" by (simp add: errors_Join_None_iff)
  ultimately show ?thesis using r(1) by simp
qed

subsection \<open>A mounted session\<close>

text \<open>
  What can happen to a guard between the mount and the detach: the calls of WinFsp on the guarded file
  system, on the handles it gave out, and of the metadata layer on the file system below it, attempts
  to detach safely, and the clock and the random names moving on. The label is the error of a close that
  really closed.
\<close>

inductive guard_step :: "('w, 'r, 'h) gofs \<Rightarrow> 'w guard \<Rightarrow> err option \<Rightarrow> 'w guard \<Rightarrow> bool" for g where
  gs_open: "guard_OpenFile g n flag s = (r, s') \<Longrightarrow> guard_step g s None s'"
| gs_stat: "guard_Stat g n s = (a, s') \<Longrightarrow> guard_step g s None s'"
| gs_mkdir: "guard_Mkdir g n s = (e, s') \<Longrightarrow> guard_step g s None s'"
| gs_rename: "guard_Rename g m n s = (e, s') \<Longrightarrow> guard_step g s None s'"
| gs_remove: "guard_Remove g n s = (e, s') \<Longrightarrow> guard_step g s None s'"
| gs_data: "on_mount (staged_op g i op) s = (e, s') \<Longrightarrow> guard_step g s None s'"
| gs_sync: "on_mount (staged_Sync g i) s = (e, s') \<Longrightarrow> guard_step g s None s'"
| gs_readdir: "on_mount (directory_Readdir g i cnt) s = (a, s') \<Longrightarrow> guard_step g s None s'"
| gs_mtime: "on_mount (gofs_setModTime g n t) s = (e, s') \<Longrightarrow> guard_step g s None s'"
| gs_close: "tracked_Close g k s = (e, s') \<Longrightarrow> k < length (gu_tracked s) \<Longrightarrow>
    guard_step g s (if tf_closed (gu_tracked s ! k) then None else e) s'"
| gs_detach: "prepareStop s = (e, s') \<Longrightarrow> guard_step g s None s'"
| gs_tick: "guard_step g s None (s\<lparr>gu_mount := (gu_mount s)\<lparr>mw_rnd := rnd, mw_now := now\<rparr>\<rparr>)"

inductive guard_runs :: "('w, 'r, 'h) gofs \<Rightarrow> 'w guard \<Rightarrow> err option list \<Rightarrow> 'w guard \<Rightarrow> bool" for g s where
  gr_start: "guard_runs g s [] s"
| gr_step: "guard_runs g s es s1 \<Longrightarrow> guard_step g s1 e s2 \<Longrightarrow> guard_runs g s (es @ [e]) s2"

lemma on_mount_guard: "on_mount f s = (r, s') \<Longrightarrow> gu_closeErr s' = gu_closeErr s \<and> gu_stopping s' = gu_stopping s"
  by (auto simp: on_mount_def split: prod.splits)

lemma Sync_shape: "staged_Sync g i w = (r, w') \<Longrightarrow> shape_same w w'"
  unfolding staged_Sync_def by (rule sync_shape)

lemma Mkdir_shape: "gofs_Mkdir g n w = (r, w') \<Longrightarrow> shape_same w w'"
  unfolding gofs_Mkdir_def by (rule remote_shape)

lemma Rename_shape: "gofs_Rename g m n w = (r, w') \<Longrightarrow> shape_same w w'"
  unfolding gofs_Rename_def by (rule remote_shape)

lemma Remove_shape: "gofs_Remove g n w = (r, w') \<Longrightarrow> shape_same w w'"
  by (auto simp: gofs_Remove_def Let_def dest!: stat_shape remote_shape split: prod.splits sum.splits intro: shape_trans)

lemma Stat_shape: "gofs_Stat g n w = (r, w') \<Longrightarrow> shape_same w w'"
  by (auto simp: gofs_Stat_def dest!: stat_shape split: prod.splits sum.splits)

lemma setModTime_shape: "gofs_setModTime g n t w = (r, w') \<Longrightarrow> shape_same w w'"
  by (auto simp: gofs_setModTime_def dest!: mtime_shape remote_shape split: prod.splits option.splits intro: shape_trans)

lemma Readdir_shape: "directory_Readdir g i c w = (r, w') \<Longrightarrow> shape_same w w'"
  by (auto simp: directory_Readdir_def Let_def dest!: remote_shape split: prod.splits option.splits sum.splits if_splits
      intro: shape_trans dir_shape)

lemma OpenFile_closeErr: "guard_OpenFile g n flag s = (r, s') \<Longrightarrow> gu_closeErr s' = gu_closeErr s"
  by (auto simp: guard_OpenFile_def Let_def dest: on_mount_guard split: if_splits prod.splits sum.splits)

lemma guard_step_inv:
  "guard_step g s e s' \<Longrightarrow> guard_inv s \<Longrightarrow>
   guard_inv s' \<and> (gu_closeErr s \<noteq> None \<longrightarrow> gu_closeErr s' \<noteq> None) \<and> (e \<noteq> None \<longrightarrow> gu_closeErr s' \<noteq> None)"
proof (induction rule: guard_step.cases)
  case (gs_open n flag s r s')
  then show ?case using OpenFile_inv [of g n flag s r s'] OpenFile_closeErr [of g n flag s r s'] by simp
next
  case (gs_stat n s a s')
  then show ?case by (auto simp: guard_Stat_def dest: on_mount_guard split: if_splits intro: inv_on_mount Stat_shape)
next
  case (gs_mkdir n s x s')
  then show ?case by (auto simp: guard_Mkdir_def dest: on_mount_guard split: if_splits intro: inv_on_mount Mkdir_shape)
next
  case (gs_rename m n s x s')
  then show ?case by (auto simp: guard_Rename_def dest: on_mount_guard split: if_splits intro: inv_on_mount Rename_shape)
next
  case (gs_remove n s x s')
  then show ?case by (auto simp: guard_Remove_def dest: on_mount_guard split: if_splits intro: inv_on_mount Remove_shape)
next
  case (gs_data i op s x s')
  then show ?case by (auto dest: on_mount_guard intro: inv_on_mount op_shape)
next
  case (gs_sync i s x s')
  then show ?case by (auto dest: on_mount_guard intro: inv_on_mount Sync_shape)
next
  case (gs_readdir i cnt s a s')
  then show ?case by (auto dest: on_mount_guard intro: inv_on_mount Readdir_shape)
next
  case (gs_mtime n t s x s')
  then show ?case by (auto dest: on_mount_guard intro: inv_on_mount setModTime_shape)
next
  case (gs_close k s x s')
  then show ?case using tracked_Close_inv [of g k s x s'] by (auto split: if_splits)
next
  case (gs_detach s x s')
  then show ?case using prepareStop_inv [of s x s'] by auto
next
  case (gs_tick s rnd now)
  then show ?case by (auto intro!: inv_shape simp: shape_same_def closed_map_def)
qed

definition guard_fresh :: "'w guard \<Rightarrow> bool" where
  "guard_fresh s \<longleftrightarrow> gu_tracked s = [] \<and> gu_files s = [] \<and> gu_open s = 0 \<and> mw_staged (gu_mount s) = []"

lemma fresh_inv: "guard_fresh s \<Longrightarrow> guard_inv s"
  by (simp add: guard_fresh_def guard_inv_def closed_map_def)

lemma guard_runs_inv:
  "guard_runs g s0 es s \<Longrightarrow> guard_inv s0 \<Longrightarrow> guard_inv s \<and> ((\<exists>e \<in> set es. e \<noteq> None) \<longrightarrow> gu_closeErr s \<noteq> None)"
proof (induction rule: guard_runs.induct)
  case (gr_step es s1 e s2)
  with guard_step_inv [OF gr_step(2)] show ?case by auto
qed simp

lemma StartSession_fresh:
  "StartSession env cd mj b opt md w = (Inr (g, z), w') \<Longrightarrow> mw_staged w = [] \<Longrightarrow> guard_fresh (ss_guard z) \<and> ss_mounted z"
  by (auto simp: StartSession_def Let_def guard_fresh_def local_same_def dest: local_call_same
      split: prod.splits sum.splits option.splits if_splits)

text \<open>
  C2. The count of open handles is right, and a drive is detached only when nothing can be lost. From
  the start of a session, through any calls on the drive and any attempts to detach it, the guard's
  counter is the number of handles that are not closed; and when the safe detach succeeds, every staged
  file has been closed and no close of the whole session ever failed. (What a close that does not fail
  has done is \<open>close_keeps_data\<close>.) A refused detach leaves the drive mounted and the staged files and the
  disk as they are.
\<close>

theorem detach_only_when_saved:
  assumes "StartSession env cd mj b opt md w0 = (Inr (g, z0), w1)" and "mw_staged w0 = []"
    and "guard_runs g (ss_guard z0) es s" and "Session_Close b0 \<lparr>ss_mounted = True, ss_guard = s\<rparr> = (r, z)"
  shows "gu_open s = int (card {k. k < length (gu_tracked s) \<and> \<not> tf_closed (gu_tracked s ! k)}) \<and>
    (r = None \<longrightarrow> \<not> ss_mounted z \<and> list_all (\<lambda>e. e = None) es \<and> gu_open (ss_guard z) = 0 \<and>
       list_all stf_closed (mw_staged (gu_mount (ss_guard z)))) \<and>
    (r \<noteq> None \<longrightarrow> ss_mounted z \<and> mw_staged (gu_mount (ss_guard z)) = mw_staged (gu_mount s) \<and>
       mw_fs (gu_mount (ss_guard z)) = mw_fs (gu_mount s) \<and> mw_remote (gu_mount (ss_guard z)) = mw_remote (gu_mount s))"
proof -
  from StartSession_fresh [OF assms(1,2)] guard_runs_inv [OF assms(3)] fresh_inv have
    inv: "guard_inv s" and errs: "(\<exists>e \<in> set es. e \<noteq> None) \<longrightarrow> gu_closeErr s \<noteq> None" by blast+
  have "{k. k < length (gu_tracked s) \<and> \<not> tf_closed (gu_tracked s ! k)} = set (gu_files s)"
    using inv by (auto simp: guard_inv_def)
  then have count: "gu_open s = int (card {k. k < length (gu_tracked s) \<and> \<not> tf_closed (gu_tracked s ! k)})"
    using inv by (simp add: guard_inv_def distinct_card)
  obtain e s' where p: "prepareStop s = (e, s')" by force
  note ps = prepareStop_inv [OF p inv]
  show ?thesis
  proof (cases e)
    case (Some x)
    with assms(4) p ps count show ?thesis by (auto simp: Session_Close_def)
  next
    case None
    with assms(4) p have r: "r = None" "z = \<lparr>ss_mounted = False, ss_guard = backend_close b0 s'\<rparr>" by (auto simp: Session_Close_def)
    have bc: "mw_staged (gu_mount (backend_close b0 s')) = mw_staged (gu_mount s')" "gu_open (backend_close b0 s') = gu_open s'"
      by (auto simp: backend_close_def on_mount_def remote_call_def split: prod.splits)
    have "gu_files s' = []" "guard_inv s'" using ps None by blast+
    then have "gu_open s' = 0" "list_all stf_closed (mw_staged (gu_mount s'))"
      using all_closed [of s'] by (auto simp: guard_inv_def list_all_length)
    with r bc count errs ps None show ?thesis by (auto simp: list_all_iff)
  qed
qed

subsection \<open>Detaching by force\<close>

definition disk_has :: "store \<Rightarrow> string \<Rightarrow> bytes \<Rightarrow> 'w mount_world \<Rightarrow> bool" where
  "disk_has st n c w \<longleftrightarrow> cwd_ok (mw_fs w) \<and> (\<exists>t s. fs_get (mw_fs w) (staging_file st n) = Some (Reg c t s))"

text \<open>The names \<open>CreateTemp\<close> gives to staging files do not end like a metadata file.\<close>

definition data_name :: "string \<Rightarrow> bool" where
  "data_name n \<longleftrightarrow> staging_name n \<and> \<not> suffix metadataSuffix n"

lemma preserve_frame:
  assumes st: "store_ok (gf_store g)" "data_name n" "disk_has (gf_store g) n c w"
    and run: "preserveLocked g i reason cause w = (r, w')"
  shows "disk_has (gf_store g) n c w' \<and> mw_remote w' = mw_remote w"
proof -
  let ?f = "mw_staged w ! i" and ?rx = "gf_recovery g" and ?st = "gf_store g"
  let ?v = "\<lparr>pv_ProfileID = rx_ProfileID ?rx, pv_ProfileName = rx_ProfileName ?rx, pv_Protocol = rx_Protocol ?rx,
                 pv_RemotePath = recoveryRemotePath (rx_RemotePath ?rx) (stf_name ?f), pv_StagingPath = stf_path ?f,
                 pv_CreatedAt = stf_createdAt ?f, pv_Reason = reason, pv_LastError = cause\<rparr>"
  obtain x sts where p: "store_Preserve (gf_codec g) ?st ?v (mw_rnd w) (mw_now w) (mw_fs w) = (x, sts)" by force
  with run have r: "w' = w\<lparr>mw_fs := last sts\<rparr>" by (auto simp: preserveLocked_def Let_def)
  have wd: "cwd_ok (mw_fs w)" using st(3) by (simp add: disk_has_def)
  from Preserve_states [OF st(1) wd p] show ?thesis
  proof (elim disjE exE conjE)
    fix m d t s md e
    assume a: "staging_name m"
      "writeMetadataAtomic (gf_codec g) ?st (staging_file ?st m @ metadataSuffix) md (mw_rnd w) (mw_now w) (mw_fs w) = (e, sts)"
    note ms = metadata_states [OF a(2) temp_not_staging [OF st(1) a(1)]]
    have "last sts \<in> set sts" using ms by simp
    moreover have "staging_file ?st n \<noteq> metadata_temp ?st (mw_rnd w)"
      using temp_not_staging [OF st(1), of n "mw_rnd w" "[]"] st(2) by (auto simp: data_name_def)
    moreover have "staging_file ?st n \<noteq> staging_file ?st m @ metadataSuffix"
      unfolding metadata_file [OF st(1)] using st(2) a(1) metadata_name [OF a(1)]
      by (auto simp: data_name_def suffix_def staging_name_def)
    ultimately show ?thesis using ms st(3) r by (auto simp: disk_has_def cwd_ok_def)
  qed (use r st(3) in auto)
qed

lemma local_Sync_keeps:
  assumes "local_call (file_Sync p) w = (r, w')" and "disk_has st n c w"
  shows "disk_has st n c w' \<and> mw_remote w' = mw_remote w"
  using assms by (auto simp: local_call_def disk_has_def cwd_ok_def file_Sync_def fs_simps split: option.splits node.splits prod.splits)

lemma closePreserving_keeps:
  assumes "closePreserving g i w = (r, w')" and "store_ok (gf_store g)" "data_name n" "disk_has (gf_store g) n c w"
  shows "disk_has (gf_store g) n c w' \<and> mw_remote w' = mw_remote w"
proof (cases "stf_closed (mw_staged w ! i)")
  case True
  with assms show ?thesis by (simp add: closePreserving_def Let_def)
next
  case False
  obtain e w1 where sy: "local_call (file_Sync (stf_path (mw_staged w ! i))) w = (e, w1)" by force
  note 1 = local_Sync_keeps [OF sy assms(4)]
  let ?w3 = "forget_open i (upd_staged i (\<lambda>f. f\<lparr>stf_closed := True\<rparr>) w1)"
  have 3: "disk_has (gf_store g) n c ?w3" "mw_remote ?w3 = mw_remote w"
    using 1 by (simp_all add: disk_has_def forget_open_def upd_staged_def)
  let ?cause = "errors_Join [e, file_Close (stf_path (mw_staged w ! i)) (mw_fs (upd_staged i (\<lambda>f. f\<lparr>stf_closed := True\<rparr>) w1))]"
  obtain pe w4 where pr: "preserveLocked g i ''force_disconnect'' ?cause ?w3 = (pe, w4)" by force
  from preserve_frame [OF assms(2,3) 3(1) pr] 3(2) have "disk_has (gf_store g) n c w4 \<and> mw_remote w4 = mw_remote w" by simp
  moreover from assms(1) False sy pr have "w' = w4" by (simp add: closePreserving_def Let_def)
  ultimately show ?thesis by simp
qed

lemma force_loop_keeps:
  assumes "force_loop g ks e s = (r, s')" and "store_ok (gf_store g)" "data_name n" "disk_has (gf_store g) n c (gu_mount s)"
  shows "disk_has (gf_store g) n c (gu_mount s')"
  using assms(1,4)
proof (induction ks arbitrary: e s)
  case (Cons k ks)
  obtain x s1 where run: "(case tf_file (gu_tracked s ! k) of
              Staged i \<Rightarrow> map_prod (map_option (Wrapped ''temporary file'')) id (on_mount (closePreserving g i) s)
            | Directory i \<Rightarrow> on_mount (directory_Close i) s) = (x, s1)" by force
  with Cons.prems have rest: "force_loop g ks (errors_Join [e, x]) (forget_tracked k s1) = (r, s')" by simp
  have "disk_has (gf_store g) n c (gu_mount s1)"
    using run Cons.prems(2) closePreserving_keeps [OF _ assms(2,3)]
    by (auto simp: on_mount_def disk_has_def dest: directory_Close_disk split: gofs_file.splits prod.splits)
  with Cons.IH [OF rest] show ?case by simp
qed simp

lemma closePreserving_remote: "closePreserving g i w = (r, w') \<Longrightarrow> mw_remote w' = mw_remote w"
  by (auto simp: closePreserving_def Let_def preserveLocked_def forget_open_def upd_staged_def dest: local_call_same
      split: if_splits prod.splits)

lemma force_loop_remote: "force_loop g ks e s = (r, s') \<Longrightarrow> mw_remote (gu_mount s') = mw_remote (gu_mount s)"
proof (induction ks arbitrary: e s)
  case (Cons k ks)
  obtain x s1 where run: "(case tf_file (gu_tracked s ! k) of
              Staged i \<Rightarrow> map_prod (map_option (Wrapped ''temporary file'')) id (on_mount (closePreserving g i) s)
            | Directory i \<Rightarrow> on_mount (directory_Close i) s) = (x, s1)" by force
  then have "mw_remote (gu_mount s1) = mw_remote (gu_mount s)"
    by (auto simp: on_mount_def dest: directory_Close_disk closePreserving_remote split: gofs_file.splits prod.splits)
  with Cons.IH [of "errors_Join [e, x]" "forget_tracked k s1"] Cons.prems run show ?case by simp
qed simp

text \<open>
  C3. A forced detach always completes, and costs no byte that reached the drive. Whatever fails on the
  way, it reports no error, the drive is unmounted, every handle and every staged file is closed and
  later calls are refused; the only call of the server is the final \<open>Close\<close>, so that nothing is published
  behind the user's back; and every staging file still has exactly the bytes it had.
\<close>

theorem force_detach_completes:
  assumes "StartSession env cd mj b opt md w0 = (Inr (g, z0), w1)" and "mw_staged w0 = []"
    and "guard_runs g (ss_guard z0) es s" and "ForceClose b0 g \<lparr>ss_mounted = True, ss_guard = s\<rparr> = ((msg, e), z)"
    and "store_ok (gf_store g)"
  shows "e = None \<and> \<not> ss_mounted z \<and> gu_open (ss_guard z) = 0 \<and> list_all stf_closed (mw_staged (gu_mount (ss_guard z))) \<and>
    guard_OpenFile g n flag (ss_guard z) = (Inl (Sentinel ErrClosed), ss_guard z) \<and>
    snd (b_Close b0 (mw_remote (gu_mount s))) = mw_remote (gu_mount (ss_guard z)) \<and>
    (data_name d \<longrightarrow> disk_has (gf_store g) d c (gu_mount s) \<longrightarrow> disk_has (gf_store g) d c (gu_mount (ss_guard z)))"
proof -
  from StartSession_fresh [OF assms(1,2)] guard_runs_inv [OF assms(3)] fresh_inv have inv: "guard_inv s" by blast
  obtain x s' where f: "forceStop g s = (x, s')" by force
  note fi = forceStop_inv [OF f inv]
  from assms(4) f have z: "e = None" "z = \<lparr>ss_mounted = False, ss_guard = backend_close b0 s'\<rparr>"
    by (auto simp: ForceClose_def Let_def)
  have bc: "mw_staged (gu_mount (backend_close b0 s')) = mw_staged (gu_mount s')" "gu_open (backend_close b0 s') = gu_open s'"
    "gu_stopping (backend_close b0 s') = gu_stopping s'" "mw_fs (gu_mount (backend_close b0 s')) = mw_fs (gu_mount s')"
    "mw_remote (gu_mount (backend_close b0 s')) = snd (b_Close b0 (mw_remote (gu_mount s')))"
    by (auto simp: backend_close_def on_mount_def remote_call_def split: prod.splits)
  obtain y where l: "force_loop g (gu_files s) None (s\<lparr>gu_stopping := True\<rparr>) = (y, s')"
    using f by (auto simp: forceStop_def split: prod.splits)
  have rem: "mw_remote (gu_mount s') = mw_remote (gu_mount s)" using force_loop_remote [OF l] by simp
  have disk: "data_name d \<Longrightarrow> disk_has (gf_store g) d c (gu_mount s) \<Longrightarrow> disk_has (gf_store g) d c (gu_mount s')"
    using force_loop_keeps [OF l assms(5)] by simp
  have "gu_open s' = 0" "list_all stf_closed (mw_staged (gu_mount s'))"
    using all_closed [of s'] fi by (auto simp: guard_inv_def list_all_length)
  with z bc fi rem disk show ?thesis by (simp add: guard_OpenFile_def disk_has_def)
qed

subsection \<open>A session\<close>

definition demo_winfsp :: winfsp_env where
  "demo_winfsp = \<lparr>wf_NewOptions = (\<lambda>r. None), wf_SetVolumeLabel = (\<lambda>l. None), wf_NewMetadata = (\<lambda>r. None), wf_Mount = (\<lambda>d. None)\<rparr>"

definition demo_options :: mount_options where
  "demo_options = \<lparr>mo_DriveLetter = ''z'', mo_VolumeName = ''nas'', mo_ReadOnly = False, mo_ProfileID = ''p'', mo_ProfileName = ''nas'',
     mo_Protocol = ''ftp'', mo_RemotePath = ''/r'', mo_CacheLimits = \<lparr>lm_MaxFileBytes = 0, lm_MaxTotalBytes = 0\<rparr>\<rparr>"

definition demo_blank :: "(string \<times> bytes) list mount_world" where
  "demo_blank = \<lparr>mw_remote = [(''f'', [1])], mw_fs = demo_cache, mw_staged = [], mw_dirs = [], mw_open = [], mw_rnd = ''5'', mw_now = 9\<rparr>"

lemma demo_start: "(case fst (StartSession demo_winfsp (Inr ''/u'') exact_mj memory_drive demo_options True demo_blank) of
    Inl e \<Rightarrow> False | Inr (g, z) \<Rightarrow> st_directory (gf_store g) = ''/u/DKDrive/Cache'')"
  by code_simp

lemma demo_session:
  obtains g z0 w1 where "StartSession demo_winfsp (Inr ''/u'') exact_mj memory_drive demo_options True demo_blank = (Inr (g, z0), w1)"
    "st_directory (gf_store g) = ''/u/DKDrive/Cache''" "mw_staged demo_blank = []"
proof -
  obtain r w1 where "StartSession demo_winfsp (Inr ''/u'') exact_mj memory_drive demo_options True demo_blank = (r, w1)" by force
  with demo_start that show ?thesis by (cases r) (auto simp: demo_blank_def)
qed

theorem detach_only_when_saved_witness:
  "\<exists>s z r. Session_Close memory_drive \<lparr>ss_mounted = True, ss_guard = s\<rparr> = (r, z) \<and>
     gu_open s = int (card {k. k < length (gu_tracked s) \<and> \<not> tf_closed (gu_tracked s ! k)}) \<and> (ss_mounted z \<longleftrightarrow> r \<noteq> None)"
proof -
  obtain g z0 w1 where st: "StartSession demo_winfsp (Inr ''/u'') exact_mj memory_drive demo_options True demo_blank = (Inr (g, z0), w1)"
    "mw_staged demo_blank = []" by (rule demo_session)
  obtain o1 s1 where op: "guard_OpenFile g ''f'' O_RDWR (ss_guard z0) = (o1, s1)" by force
  have run: "guard_runs g (ss_guard z0) ([] @ [None]) s1" by (rule gr_step [OF gr_start gs_open [OF op]])
  obtain r z where cl: "Session_Close memory_drive \<lparr>ss_mounted = True, ss_guard = s1\<rparr> = (r, z)" by force
  from detach_only_when_saved [OF st run cl] cl show ?thesis by blast
qed

theorem force_detach_completes_witness:
  "\<exists>s z msg g. ForceClose memory_drive g \<lparr>ss_mounted = True, ss_guard = s\<rparr> = ((msg, None), z) \<and> \<not> ss_mounted z \<and>
     gu_open (ss_guard z) = 0 \<and> guard_OpenFile g ''f'' O_RDWR (ss_guard z) = (Inl (Sentinel ErrClosed), ss_guard z)"
proof -
  obtain g z0 w1 where st: "StartSession demo_winfsp (Inr ''/u'') exact_mj memory_drive demo_options True demo_blank = (Inr (g, z0), w1)"
    "st_directory (gf_store g) = ''/u/DKDrive/Cache''" "mw_staged demo_blank = []" by (rule demo_session)
  obtain o1 s1 where op: "guard_OpenFile g ''f'' O_RDWR (ss_guard z0) = (o1, s1)" by force
  have run: "guard_runs g (ss_guard z0) ([] @ [None]) s1" by (rule gr_step [OF gr_start gs_open [OF op]])
  obtain msg e z where cl: "ForceClose memory_drive g \<lparr>ss_mounted = True, ss_guard = s1\<rparr> = ((msg, e), z)" by (metis surj_pair)
  have ok: "store_ok (gf_store g)"
    by (simp add: store_ok_def st(2) comps_def norm_def clean_step_def abs_path_def)
  from force_detach_completes [OF st(1,3) run cl ok] cl show ?thesis by blast
qed

end
