(* ===== verification/Go_Trim.thy ===== *)
theory Go_Trim
  imports DK_Prelude
begin

text \<open>
  Facts on \<open>strings.TrimSpace\<close>: it is idempotent, and leaves a text alone that begins and ends in
  visible ASCII characters; and on the upper case of ASCII.
\<close>

lemma space_len_0: "(\<forall>w \<in> set seqs. \<not> prefix w s) \<Longrightarrow> space_len seqs s = 0"
  by (simp add: space_len_def filter_empty_conv)

lemma space_len_0D:
  assumes "space_len seqs s = 0" and "[] \<notin> set seqs" and "w \<in> set seqs"
  shows "\<not> prefix w s"
proof
  assume "prefix w s"
  with assms(3) have "w \<in> set (filter (\<lambda>w. prefix w s) seqs)" by simp
  then obtain v vs where v: "filter (\<lambda>w. prefix w s) seqs = v # vs" by (cases "filter (\<lambda>w. prefix w s) seqs") auto
  then have "v \<in> set seqs" using filter_is_subset [of "\<lambda>w. prefix w s" seqs] by auto
  with assms(1,2) v show False by (cases v) (auto simp: space_len_def)
qed

lemma trim_front_stop: "space_len seqs s = 0 \<Longrightarrow> trim_front seqs s = s"
  by (subst trim_front.simps) simp

lemma trim_front_done: "space_len seqs (trim_front seqs s) = 0 \<or> trim_front seqs s = []"
proof (induction seqs s rule: trim_front.induct)
  case (1 seqs s)
  show ?case
  proof (cases "0 < space_len seqs s \<and> s \<noteq> []")
    case True
    then have "trim_front seqs s = trim_front seqs (drop (space_len seqs s) s)" by (subst trim_front.simps) simp
    with 1 True show ?thesis by simp
  next
    case False
    then have "trim_front seqs s = s" by (subst trim_front.simps) auto
    with False show ?thesis by auto
  qed
qed

lemma trim_front_suffix: "\<exists>k. trim_front seqs s = drop k s"
proof (induction seqs s rule: trim_front.induct)
  case (1 seqs s)
  show ?case
  proof (cases "0 < space_len seqs s \<and> s \<noteq> []")
    case True
    with 1 obtain k where "trim_front seqs (drop (space_len seqs s) s) = drop k (drop (space_len seqs s) s)" by blast
    with True show ?thesis by (subst trim_front.simps) auto
  next
    case False
    then have "trim_front seqs s = s" by (subst trim_front.simps) auto
    then show ?thesis by (intro exI [of _ 0]) simp
  qed
qed

lemma trim_front_Nil [simp]: "trim_front seqs [] = []"
  by (subst trim_front.simps) simp

lemma trim_front_idem [simp]: "trim_front seqs (trim_front seqs s) = trim_front seqs s"
  using trim_front_done [of seqs s] trim_front_stop by auto

lemma space_seqs_ne: "[] \<notin> set space_seqs" "[] \<notin> set (map rev space_seqs)"
  by (simp_all add: space_seqs_def)

lemma space_len_prefix:
  assumes "space_len seqs s = 0" and "[] \<notin> set seqs" and "prefix t s"
  shows "space_len seqs t = 0"
proof (rule space_len_0, intro ballI notI)
  fix w assume "w \<in> set seqs" "prefix w t"
  with space_len_0D [OF assms(1,2)] assms(3) show False using prefix_order.trans by blast
qed

lemma TrimSpace_idem [simp]: "TrimSpace (TrimSpace s) = TrimSpace s"
proof -
  let ?rs = "map rev space_seqs"
  let ?a = "trim_front space_seqs s"
  let ?b = "trim_front ?rs (rev ?a)"
  obtain k where "?b = drop k (rev ?a)" using trim_front_suffix by blast
  then have "prefix (rev ?b) ?a" by (simp add: rev_drop take_is_prefix)
  moreover have "space_len space_seqs ?a = 0 \<or> ?a = []" by (rule trim_front_done)
  ultimately have "space_len space_seqs (rev ?b) = 0 \<or> rev ?b = []"
    using space_len_prefix [OF _ space_seqs_ne(1)] by auto
  then have "trim_front space_seqs (rev ?b) = rev ?b" by (auto simp: trim_front_stop)
  then show ?thesis by (simp add: TrimSpace_def)
qed

definition visible :: "char \<Rightarrow> bool" where
  "visible c \<longleftrightarrow> 33 \<le> (of_char c :: nat) \<and> (of_char c :: nat) < 128"

lemma space_ends: "w \<in> set space_seqs \<Longrightarrow> \<not> visible (hd w) \<and> \<not> visible (last w)"
proof -
  have "list_all (\<lambda>w. \<not> visible (hd w) \<and> \<not> visible (last w)) space_seqs"
    by (simp add: space_seqs_def visible_def)
  then show "w \<in> set space_seqs \<Longrightarrow> ?thesis" by (simp add: list_all_iff)
qed

lemma prefix_hd: "prefix w s \<Longrightarrow> w \<noteq> [] \<Longrightarrow> hd s = hd w"
  by (cases w) (auto simp: prefix_def)

lemma TrimSpace_visible:
  assumes "s \<noteq> [] \<Longrightarrow> visible (hd s)" and "s \<noteq> [] \<Longrightarrow> visible (last s)"
  shows "TrimSpace s = s"
proof (cases "s = []")
  case False
  have "\<not> prefix w s" if "w \<in> set space_seqs" for w
    using space_ends [OF that] prefix_hd [of w s] assms(1) [OF False] space_seqs_ne that by metis
  then have f: "trim_front space_seqs s = s" by (intro trim_front_stop space_len_0) blast
  have "\<not> prefix (rev w) (rev s)" if "w \<in> set space_seqs" for w
    using space_ends [OF that] prefix_hd [of "rev w" "rev s"] assms(2) [OF False] space_seqs_ne that False
    by (metis hd_rev rev_is_Nil_conv)
  then have "trim_front (map rev space_seqs) (rev s) = rev s" by (intro trim_front_stop space_len_0) auto
  with f show ?thesis by (simp add: TrimSpace_def)
qed (simp add: TrimSpace_def)

lemma TrimSpace_all_visible: "list_all visible s \<Longrightarrow> TrimSpace s = s"
  by (intro TrimSpace_visible) (auto simp: list_all_iff)

text \<open>For evaluation: a text that begins and ends with visible characters needs no trimming.\<close>

lemma visible_bits [code]:
  "visible (Char b0 b1 b2 b3 b4 b5 b6 b7) \<longleftrightarrow> \<not> b7 \<and> (b6 \<or> b5 \<and> (b0 \<or> b1 \<or> b2 \<or> b3 \<or> b4))"
  by (cases b0; cases b1; cases b2; cases b3; cases b4; cases b5; cases b6; cases b7) (simp_all add: visible_def of_char_def)

lemma TrimSpace_fast [code]:
  "TrimSpace s =
     (if s = [] \<or> visible (hd s) \<and> visible (last s) then s
      else rev (trim_front (map rev space_seqs) (rev (trim_front space_seqs s))))"
proof (cases "s = [] \<or> visible (hd s) \<and> visible (last s)")
  case True
  then show ?thesis using TrimSpace_visible [of s] by auto
next
  case False
  then show ?thesis by (simp only: TrimSpace_def if_False)
qed

lemma char_upper_idem [simp]: "char_upper (char_upper c) = char_upper c"
proof -
  have "(of_char (char_of (of_char c - 32 :: nat) :: char) :: nat) = of_char c - 32"
    if "(of_char c :: nat) \<le> 122" using that by simp
  then show ?thesis by (auto simp: char_upper_def Let_def)
qed

lemma ToUpper_idem [simp]: "ToUpper (ToUpper s) = ToUpper s"
  by (simp add: ToUpper_def)

lemma length_ToUpper [simp]: "length (ToUpper s) = length s"
  by (simp add: ToUpper_def)

end
