(* ===== verification/Desktop_Rules.thy ===== *)
theory Desktop_Rules
  imports Connection Cache_Store Go_Trim
begin

text \<open>
  The decisions of \<^verbatim>\<open>internal/desktop/window_windows.go\<close> and
  \<^verbatim>\<open>recovery_windows.go\<close> that are functions of their arguments: drive letters, the
  protocol box of the profile editor, which buttons are enabled, the labels of the list and of the tray,
  the layout of the window, and what may be done with a preserved file. Korean labels are replaced by
  ASCII tags; no decision reads them.
\<close>

unbundle bit_operations_syntax

subsection \<open>Drive letters\<close>

definition normalizedDriveLetter :: "string \<Rightarrow> string" where
  "normalizedDriveLetter value = ToUpper (TrimSuffix (TrimSpace value) '':'')"

definition driveLetterMask :: "string \<Rightarrow> 32 word" where
  "driveLetterMask letter =
     (let letter = normalizedDriveLetter letter
      in if length letter \<noteq> 1 \<or> hd letter < CHR ''A'' \<or> hd letter > CHR ''Z'' then 0
         else push_bit (of_char (hd letter) - 65) 1)"

definition drive_alphabet :: "string list" where
  "drive_alphabet = map (\<lambda>n. [char_of (n :: nat)]) [65..<91]"

text \<open>The letters reserved by the other profiles, and that of the selected one.\<close>

definition reserved_letters :: "saved_profile list \<Rightarrow> int \<Rightarrow> string list" where
  "reserved_letters profiles selected =
     map (\<lambda>i. normalizedDriveLetter (p_DriveLetter (sp_Profile (profiles ! i))))
       (filter (\<lambda>i. int i \<noteq> selected) [0..<length profiles])"

definition current_letter :: "saved_profile list \<Rightarrow> int \<Rightarrow> string" where
  "current_letter profiles selected =
     (if 0 \<le> selected \<and> selected < int (length profiles)
      then normalizedDriveLetter (p_DriveLetter (sp_Profile (profiles ! nat selected))) else '''')"

definition availableDriveLetters :: "saved_profile list \<Rightarrow> int \<Rightarrow> 32 word \<Rightarrow> string list" where
  "availableDriveLetters profiles selected used =
     filter (\<lambda>letter. letter \<notin> set (reserved_letters profiles selected) \<and>
                \<not> (used AND driveLetterMask letter \<noteq> 0 \<and> letter \<noteq> current_letter profiles selected))
       drive_alphabet"

definition validateDriveAssignment :: "string \<Rightarrow> string \<Rightarrow> saved_profile list \<Rightarrow> 32 word \<Rightarrow> err option" where
  "validateDriveAssignment letter currentID profiles used =
     (let letter = normalizedDriveLetter letter
      in if list_ex (\<lambda>saved. sp_ID saved \<noteq> currentID \<and>
                        normalizedDriveLetter (p_DriveLetter (sp_Profile saved)) = letter) profiles
         then Some (ErrNew ''drive letter of another profile'')
         else if used AND driveLetterMask letter \<noteq> 0 then Some (ErrNew ''drive letter in use by Windows'')
         else None)"

text \<open>
  \<open>refreshDriveOptions\<close>: the letters offered and the entry preselected: the current letter, else X,
  else the first; \<open>used\<close> is 0 when Windows does not answer.
\<close>

definition last_index :: "string \<Rightarrow> string list \<Rightarrow> nat option" where
  "last_index x xs = (case filter (\<lambda>i. xs ! i = x) [0..<length xs] of [] \<Rightarrow> None | is \<Rightarrow> Some (last is))"

definition first_index :: "string \<Rightarrow> string list \<Rightarrow> nat option" where
  "first_index x xs = (case filter (\<lambda>i. xs ! i = x) [0..<length xs] of [] \<Rightarrow> None | i # _ \<Rightarrow> Some i)"

definition drive_options :: "saved_profile list \<Rightarrow> int \<Rightarrow> err + 32 word \<Rightarrow> string \<Rightarrow> string list \<times> nat option" where
  "drive_options profiles selected logical current =
     (let used = (case logical of Inl _ \<Rightarrow> 0 | Inr m \<Rightarrow> m);
          letters = availableDriveLetters profiles selected used
      in (letters,
          case last_index (normalizedDriveLetter current) letters of
            Some i \<Rightarrow> Some i
          | None \<Rightarrow> (case first_index ''X'' letters of
                       Some i \<Rightarrow> Some i
                     | None \<Rightarrow> if letters \<noteq> [] then Some 0 else None)))"

subsection \<open>Protocols in the editor\<close>

record protocol_controls =
  pc_sftp :: bool
  pc_tls :: bool
  pc_password :: bool
  pc_passphrase :: bool

definition protocolControls :: "int \<Rightarrow> bool \<Rightarrow> protocol_controls" where
  "protocolControls index hasPrivateKey =
     (let sftp = (index = 0)
      in \<lparr>pc_sftp = sftp, pc_tls = (index = 1 \<or> index = 4 \<or> index = 5),
          pc_password = (\<not> sftp \<or> \<not> hasPrivateKey), pc_passphrase = (sftp \<and> hasPrivateKey)\<rparr>)"

definition protocolIndex :: "profile \<Rightarrow> int" where
  "protocolIndex p =
     (if p_Protocol p = ProtocolSFTP then 0
      else if p_Protocol p = ProtocolWebDAV then (if p_WebDAVScheme p = ''http'' then 2 else 1)
      else if p_Protocol p = ProtocolFTP then 3
      else if p_Protocol p = ProtocolFTPS then (if p_FTPSMode p = ''implicit-ftps'' then 5 else 4)
      else 0)"

definition profileProtocolName :: "profile \<Rightarrow> string" where
  "profileProtocolName p =
     (if p_Protocol p = ProtocolSFTP then ''SFTP''
      else if p_Protocol p = ProtocolWebDAV
      then (if p_WebDAVScheme p = ''http'' then ''WebDAV HTTP'' else ''WebDAV HTTPS'')
      else if p_Protocol p = ProtocolFTP then ''FTP''
      else if p_Protocol p = ProtocolFTPS
      then (if p_FTPSMode p = ''implicit-ftps'' then ''Implicit FTPS'' else ''Explicit FTPS'')
      else ''unknown'')"

definition default_ports :: "string list" where
  "default_ports = [''22'', ''443'', ''80'', ''21'', ''21'', ''990'']"

subsection \<open>The list of profiles and its buttons\<close>

definition connectionInactive :: "cstate \<Rightarrow> bool" where
  "connectionInactive state \<longleftrightarrow> state = NotConnected \<or> state = Errored"

record list_row =
  lr_drive :: string
  lr_name :: string
  lr_protocol :: string
  lr_state :: cstate

definition profileListRows :: "saved_profile list \<Rightarrow> (string \<Rightarrow> cstate) \<Rightarrow> list_row list" where
  "profileListRows profiles state =
     map (\<lambda>saved. \<lparr>lr_drive = normalizedDriveLetter (p_DriveLetter (sp_Profile saved)) @ '':'',
                    lr_name = p_Name (sp_Profile saved), lr_protocol = profileProtocolName (sp_Profile saved),
                    lr_state = state (sp_ID saved)\<rparr>) profiles"

record button_state =
  bs_save :: bool
  bs_delete :: bool
  bs_connect :: bool
  bs_disconnect :: bool
  bs_connectAll :: bool
  bs_disconnectAll :: bool

definition profileButtons :: "int \<Rightarrow> bool \<Rightarrow> cstate list \<Rightarrow> button_state" where
  "profileButtons selected dirty states =
     (let result = \<lparr>bs_save = dirty, bs_delete = False, bs_connect = False, bs_disconnect = False,
                    bs_connectAll = list_ex connectionInactive states,
                    bs_disconnectAll = list_ex (\<lambda>s. \<not> connectionInactive s) states\<rparr>
      in if selected < 0 \<or> selected \<ge> int (length states) then result
         else if connectionInactive (states ! nat selected) then result\<lparr>bs_delete := True, bs_connect := True\<rparr>
         else result\<lparr>bs_disconnect := True\<rparr>)"

definition trayProfileLabel :: "saved_profile \<Rightarrow> cstate \<Rightarrow> string" where
  "trayProfileLabel saved state =
     ''['' @ (if state = Connected then ''O'' else ''X'') @ ''] '' @
     normalizedDriveLetter (p_DriveLetter (sp_Profile saved)) @ '': '' @ p_Name (sp_Profile saved)"

definition trayTooltip :: "saved_profile list \<Rightarrow> (string \<Rightarrow> cstate) \<Rightarrow> string" where
  "trayTooltip profiles state =
     (let letters = sort (map (\<lambda>saved. normalizedDriveLetter (p_DriveLetter (sp_Profile saved)))
                       (filter (\<lambda>saved. state (sp_ID saved) = Connected) profiles))
      in if letters = [] then ''DK-Drive'' else ''DK-Drive ['' @ strings_Join letters '' '' @ '']'')"

subsection \<open>Keyboard and layout\<close>

datatype keyboard_command = KeyboardNone | KeyboardSelectAll | KeyboardSave | KeyboardCancelEdit

definition keyboardCommandFor :: "nat \<Rightarrow> bool \<Rightarrow> bool \<Rightarrow> keyboard_command" where
  "keyboardCommandFor key controlDown dirty =
     (if controlDown \<and> key = 65 then KeyboardSelectAll
      else if dirty \<and> controlDown \<and> key = 83 then KeyboardSave
      else if dirty \<and> key = 0x1b then KeyboardCancelEdit
      else KeyboardNone)"

definition allowProfileChange :: "bool \<Rightarrow> nat \<Rightarrow> ('w \<Rightarrow> bool \<times> 'w) \<Rightarrow> 'w \<Rightarrow> bool \<times> 'w" where
  "allowProfileChange dirty choice save w =
     (if \<not> dirty then (True, w)
      else if choice = 6 then save w
      else if choice = 7 then (True, w)
      else (False, w))"

type_synonym layout_rule = "8 word"

definition layoutMoveX :: layout_rule where "layoutMoveX = 1"
definition layoutMoveY :: layout_rule where "layoutMoveY = 2"
definition layoutGrowX :: layout_rule where "layoutGrowX = 4"
definition layoutGrowY :: layout_rule where "layoutGrowY = 8"

record rect =
  rc_Left :: "32 word"
  rc_Top :: "32 word"
  rc_Right :: "32 word"
  rc_Bottom :: "32 word"

definition resizeBounds :: "rect \<Rightarrow> layout_rule \<Rightarrow> 32 word \<Rightarrow> 32 word \<Rightarrow> rect" where
  "resizeBounds bounds rule deltaX deltaY =
     (let r1 = (if rule AND layoutMoveX \<noteq> 0
                then bounds\<lparr>rc_Left := rc_Left bounds + deltaX, rc_Right := rc_Right bounds + deltaX\<rparr> else bounds);
          r2 = (if rule AND layoutMoveY \<noteq> 0
                then r1\<lparr>rc_Top := rc_Top r1 + deltaY, rc_Bottom := rc_Bottom r1 + deltaY\<rparr> else r1);
          r3 = (if rule AND layoutGrowX \<noteq> 0 then r2\<lparr>rc_Right := rc_Right r2 + deltaX\<rparr> else r2)
      in if rule AND layoutGrowY \<noteq> 0 then r3\<lparr>rc_Bottom := rc_Bottom r3 + deltaY\<rparr> else r3)"

definition idList :: int where "idList = 100"

definition layoutRuleFor :: "string \<Rightarrow> int \<Rightarrow> int \<Rightarrow> int \<Rightarrow> int \<Rightarrow> layout_rule" where
  "layoutRuleFor cls x y width cid =
     (if cid = idList then layoutGrowX OR layoutGrowY
      else if cls = ''EDIT'' \<and> y = 540 then layoutMoveY OR layoutGrowX
      else if y \<ge> 352 then layoutMoveY
      else 0)"

subsection \<open>Preserved files in the cache window\<close>

definition recoveryRetryable :: "recovery_item \<Rightarrow> saved_profile list \<Rightarrow> bool" where
  "recoveryRetryable item profiles \<longleftrightarrow>
     rm_RecoveryState (ri_Metadata item) = StatePreserved \<and> rm_RemotePath (ri_Metadata item) \<noteq> '''' \<and>
     profiles \<noteq> []"

definition recoveryExportable :: "recovery_item \<Rightarrow> bool" where
  "recoveryExportable item \<longleftrightarrow>
     rm_RecoveryState (ri_Metadata item) = StatePreserved \<or>
     rm_RecoveryState (ri_Metadata item) = StateMissingMetadata"

definition recoveryDeletable :: "recovery_item \<Rightarrow> bool" where
  "recoveryDeletable item \<longleftrightarrow>
     rm_RecoveryState (ri_Metadata item) \<in>
       set [StatePreserved, StateMissingMetadata, StateMissingStaging, StateInvalidMetadata, StateUnsafeStaging]"

text \<open>The profile a retry uses: the one selected in the main window, else the item's own.\<close>

definition retryProfile :: "saved_profile list \<Rightarrow> int \<Rightarrow> recovery_item \<Rightarrow> err + saved_profile" where
  "retryProfile profiles selected item =
     (if 0 \<le> selected \<and> selected < int (length profiles) then Inr (profiles ! nat selected)
      else case find (\<lambda>p. sp_ID p = rm_ProfileID (ri_Metadata item)) profiles of
             Some p \<Rightarrow> Inr p
           | None \<Rightarrow> Inl (ErrNew ''select a profile for the retry''))"

text \<open>
  \<open>recoverySuggestedName\<close>: a file name Windows accepts. The name is UTF-8, of which only single bytes
  below 0x80 are replaced.
\<close>

definition unsafe_name_char :: "char \<Rightarrow> bool" where
  "unsafe_name_char c \<longleftrightarrow> c \<in> set ''<>:\"/|?*'' \<or> c = backslash \<or> (of_char c :: nat) < 32"

definition trim_right :: "char list \<Rightarrow> string \<Rightarrow> string" where
  "trim_right cutset s = rev (dropWhile (\<lambda>c. c \<in> set cutset) (rev s))"

definition fallback_name :: string where "fallback_name = ''DK-Drive recovered file.bin''"

definition recoverySuggestedName :: "recovery_item \<Rightarrow> string" where
  "recoverySuggestedName item =
     (let name = path_Base (ReplaceBackslashes (rm_RemotePath (ri_Metadata item)));
          name = (if name = ''.'' \<or> name = ''/'' \<or> name = '''' then fallback_name else name);
          name = map (\<lambda>c. if unsafe_name_char c then CHR ''_'' else c) name;
          name = trim_right ''. '' name
      in if name = '''' then fallback_name else name)"

subsection \<open>Facts on drive letters\<close>

lemma alphabet_iff: "[c] \<in> set drive_alphabet \<longleftrightarrow> 65 \<le> (of_char c :: nat) \<and> (of_char c :: nat) \<le> 90"
proof
  assume "[c] \<in> set drive_alphabet"
  then obtain n :: nat where "65 \<le> n" "n < 91" "c = char_of n" by (auto simp: drive_alphabet_def)
  then show "65 \<le> (of_char c :: nat) \<and> (of_char c :: nat) \<le> 90" by simp
next
  assume "65 \<le> (of_char c :: nat) \<and> (of_char c :: nat) \<le> 90"
  then have "(\<lambda>n. [char_of (n :: nat)]) (of_char c) \<in> set drive_alphabet"
    unfolding drive_alphabet_def set_map by (intro imageI) (simp only: set_upt atLeastLessThan_iff, simp)
  then show "[c] \<in> set drive_alphabet" by simp
qed

lemma alphabet_single: "l \<in> set drive_alphabet \<Longrightarrow> \<exists>c. l = [c]"
  by (auto simp: drive_alphabet_def)

lemma letter_normalized:
  assumes "isASCIILetter c"
  shows "normalizedDriveLetter [c] = [char_upper c]" and "[char_upper c] \<in> set drive_alphabet"
proof -
  have n: "65 \<le> (of_char c :: nat) \<and> (of_char c :: nat) \<le> 90 \<or> 97 \<le> (of_char c :: nat) \<and> (of_char c :: nat) \<le> 122"
    using assms by (simp add: isASCIILetter_def Let_def)
  then have "visible c" by (auto simp: visible_def)
  then have "TrimSpace [c] = [c]" by (intro TrimSpace_all_visible) simp
  moreover have "c \<noteq> CHR '':''" using n by auto
  then have "\<not> suffix '':'' [c]" by (auto simp: suffix_def Cons_eq_append_conv)
  ultimately show "normalizedDriveLetter [c] = [char_upper c]"
    by (simp add: normalizedDriveLetter_def TrimSuffix_def HasSuffix_def ToUpper_def)
  show "[char_upper c] \<in> set drive_alphabet"
    using n by (auto simp: alphabet_iff char_upper_def Let_def)
qed

lemma valid_letter:
  assumes "profile_ok p"
  shows "normalizedDriveLetter (p_DriveLetter p) = ToUpper (p_DriveLetter p)"
    and "ToUpper (p_DriveLetter p) \<in> set drive_alphabet"
proof -
  from assms obtain c where c: "p_DriveLetter p = [c]" "isASCIILetter c" by (auto simp: profile_ok_def)
  then show "normalizedDriveLetter (p_DriveLetter p) = ToUpper (p_DriveLetter p)"
    "ToUpper (p_DriveLetter p) \<in> set drive_alphabet"
    using letter_normalized by (simp_all add: ToUpper_def)
qed

lemma alphabetD:
  assumes "l \<in> set drive_alphabet"
  shows "normalizedDriveLetter l = l" and "length l = 1"
proof -
  from assms alphabet_single obtain c where c: "l = [c]" by blast
  with assms have n: "65 \<le> (of_char c :: nat) \<and> (of_char c :: nat) \<le> 90" by (simp add: alphabet_iff)
  then have "isASCIILetter c" "char_upper c = c" by (auto simp: isASCIILetter_def char_upper_def Let_def)
  with c letter_normalized(1) show "normalizedDriveLetter l = l" "length l = 1" by simp_all
qed

lemma last_index_SomeD: "last_index x xs = Some i \<Longrightarrow> i < length xs \<and> xs ! i = x"
proof -
  assume "last_index x xs = Some i"
  then have "filter (\<lambda>i. xs ! i = x) [0..<length xs] \<noteq> []" "i = last (filter (\<lambda>i. xs ! i = x) [0..<length xs])"
    by (auto simp: last_index_def split: list.splits)
  then have "i \<in> set (filter (\<lambda>i. xs ! i = x) [0..<length xs])" using last_in_set by metis
  then show ?thesis by auto
qed

lemma last_index_present: "x \<in> set xs \<Longrightarrow> \<exists>i. last_index x xs = Some i"
proof -
  assume "x \<in> set xs"
  then obtain i where "i < length xs" "xs ! i = x" by (auto simp: in_set_conv_nth)
  then have "i \<in> set (filter (\<lambda>i. xs ! i = x) [0..<length xs])" by simp
  then have "filter (\<lambda>i. xs ! i = x) [0..<length xs] \<noteq> []" by (metis list.distinct(1) list.set_cases)
  then show ?thesis by (simp add: last_index_def split: list.splits)
qed

text \<open>The identifier \<open>save\<close> gives to the check: that of the selected profile, or none.\<close>

definition current_id :: "saved_profile list \<Rightarrow> int \<Rightarrow> string" where
  "current_id profiles selected = (if selected \<ge> 0 then sp_ID (profiles ! nat selected) else '''')"

lemma reserved_iff:
  assumes "distinct (map sp_ID profiles)" and "list_all (\<lambda>p. sp_ID p \<noteq> []) profiles"
    and "selected < int (length profiles)"
  shows "letter \<in> set (reserved_letters profiles selected) \<longleftrightarrow>
    list_ex (\<lambda>saved. sp_ID saved \<noteq> current_id profiles selected \<and>
                normalizedDriveLetter (p_DriveLetter (sp_Profile saved)) = letter) profiles"
proof -
  have "sp_ID (profiles ! i) \<noteq> current_id profiles selected \<longleftrightarrow> int i \<noteq> selected" if "i < length profiles" for i
  proof (cases "selected \<ge> 0")
    case True
    then have "nat selected < length profiles" using assms(3) by linarith
    with True that nth_eq_iff_index_eq [OF assms(1), of i "nat selected"] show ?thesis
      by (auto simp: current_id_def)
  next
    case False
    with assms(2) that show ?thesis by (auto simp: current_id_def list_all_length)
  qed
  then show ?thesis by (auto simp: reserved_letters_def list_ex_length)
qed

text \<open>The letter of a saved profile.\<close>

definition letter_of :: "saved_profile \<Rightarrow> string" where
  "letter_of saved = ToUpper (p_DriveLetter (sp_Profile saved))"

lemma alphabet_letter: "n < 26 \<Longrightarrow> [char_of (65 + n :: nat)] \<in> set drive_alphabet"
proof -
  have a: "drive_alphabet = map (\<lambda>i. [char_of (65 + i :: nat)]) [0..<26]" by code_simp
  show "n < 26 \<Longrightarrow> ?thesis" unfolding a by auto
qed

lemma mask_bit_free:
  assumes "n < 26"
  shows "used AND driveLetterMask [char_of (65 + n :: nat)] = 0 \<longleftrightarrow> \<not> bit used n"
proof -
  have l: "[char_of (65 + n :: nat)] \<in> set drive_alphabet" by (rule alphabet_letter [OF assms])
  have "driveLetterMask [char_of (65 + n :: nat)] = push_bit n 1"
  proof -
    have v: "(of_char (char_of (65 + n) :: char) :: nat) = 65 + n" using assms by simp
    then have "\<not> char_of (65 + n) < CHR ''A''" "\<not> char_of (65 + n) > CHR ''Z''"
      using assms by (simp_all add: less_char_def)
    with v show ?thesis by (simp add: driveLetterMask_def alphabetD(1) [OF l])
  qed
  then show ?thesis using assms by (simp add: push_bit_eq_mult and_exp_eq_0_iff_not_bit)
qed

text \<open>
  C17. Which drive letters the editor offers and which the save accepts. A letter A to Z is accepted exactly
  when no other profile has it and Windows is not using it, and it is offered exactly in these cases and, for the
  letter of the profile being edited, also while Windows is using it (as it is while the profile is connected).
\<close>

theorem drive_letters_agree:
  assumes "settings_ok s" and "selected < int (length (s_Profiles s))" and "n < 26"
  shows "let letter = [char_of (65 + n :: nat)]; ps = s_Profiles s;
      others = {letter_of (ps ! j) | j. j < length ps \<and> int j \<noteq> selected};
      own = (if 0 \<le> selected then {letter_of (ps ! nat selected)} else {})
    in (letter \<in> set (availableDriveLetters ps selected used) \<longleftrightarrow> letter \<notin> others \<and> (bit used n \<longrightarrow> letter \<in> own)) \<and>
       (validateDriveAssignment letter (current_id ps selected) ps used = None \<longleftrightarrow> letter \<notin> others \<and> \<not> bit used n)"
proof -
  let ?l = "[char_of (65 + n :: nat)]" and ?ps = "s_Profiles s"
  have ids: "distinct (map sp_ID ?ps)" "list_all (\<lambda>p. sp_ID p \<noteq> []) ?ps"
    using assms(1) by (auto simp: settings_ok_def list_all_iff)
  have l: "?l \<in> set drive_alphabet" by (rule alphabet_letter [OF assms(3)])
  have mask: "used AND driveLetterMask ?l = 0 \<longleftrightarrow> \<not> bit used n" by (rule mask_bit_free [OF assms(3)])
  have ok: "profile_ok (sp_Profile q)" if "q \<in> set ?ps" for q
    using assms(1) that by (auto simp: settings_ok_def list_all_iff)
  have norm: "normalizedDriveLetter (p_DriveLetter (sp_Profile (?ps ! j))) = letter_of (?ps ! j)" if "j < length ?ps" for j
    using valid_letter(1) [OF ok, OF nth_mem [OF that]] by (simp add: letter_of_def)
  have others: "?l \<in> set (reserved_letters ?ps selected) \<longleftrightarrow> (\<exists>j. ?l = letter_of (?ps ! j) \<and> j < length ?ps \<and> int j \<noteq> selected)"
    using norm by (auto simp: reserved_letters_def)
  have own: "?l = current_letter ?ps selected \<longleftrightarrow> 0 \<le> selected \<and> ?l = letter_of (?ps ! nat selected)"
    using assms(2) norm [of "nat selected"] by (auto simp: current_letter_def)
  show ?thesis
    using reserved_iff [OF ids assms(2), of ?l] alphabetD(1) [OF l] l mask others own
    by (auto simp: validateDriveAssignment_def availableDriveLetters_def Let_def)
qed

theorem drive_letters_agree_witness:
  "''D'' \<in> set (availableDriveLetters [] (- 1) 4) \<and> ''C'' \<notin> set (availableDriveLetters [] (- 1) 4) \<and>
   validateDriveAssignment ''C'' (current_id [] (- 1)) [] 4 \<noteq> None"
proof -
  have "settings_ok DefaultSettings" by (simp add: settings_ok_def DefaultSettings_def)
  moreover have "bit (4 :: 32 word) 2" "\<not> bit (4 :: 32 word) 3" by (simp_all add: bit_numeral_rec)
  moreover have "char_of (67 :: nat) = CHR ''C''" "char_of (68 :: nat) = CHR ''D''" by code_simp+
  ultimately show ?thesis
    using drive_letters_agree [of DefaultSettings "- 1" 3 4] drive_letters_agree [of DefaultSettings "- 1" 2 4]
    unfolding Let_def by (simp add: DefaultSettings_def)
qed

text \<open>The letter of the profile being edited is offered, and preselected, whoever uses it.\<close>

lemma drive_options_current:
  assumes "settings_ok s" and "0 \<le> i" and "i < int (length (s_Profiles s))"
  shows "case drive_options (s_Profiles s) i logical (p_DriveLetter (sp_Profile (s_Profiles s ! nat i))) of
    (letters, k) \<Rightarrow> \<exists>n. k = Some n \<and> n < length letters \<and>
      letters ! n = ToUpper (p_DriveLetter (sp_Profile (s_Profiles s ! nat i)))"
proof -
  let ?ps = "s_Profiles s" and ?p = "sp_Profile (s_Profiles s ! nat i)"
  let ?used = "case logical of Inl _ \<Rightarrow> 0 | Inr m \<Rightarrow> m"
  have n: "nat i < length ?ps" using assms(2,3) by linarith
  have ok: "profile_ok (sp_Profile q)" if "q \<in> set ?ps" for q
    using assms(1) that by (auto simp: settings_ok_def list_all_iff)
  note p = valid_letter [OF ok, OF nth_mem [OF n]]
  have "ToUpper (p_DriveLetter ?p) \<notin> set (reserved_letters ?ps i)"
  proof
    assume "ToUpper (p_DriveLetter ?p) \<in> set (reserved_letters ?ps i)"
    then obtain j where j: "j < length ?ps" "int j \<noteq> i"
      "ToUpper (p_DriveLetter ?p) = normalizedDriveLetter (p_DriveLetter (sp_Profile (?ps ! j)))"
      by (auto simp: reserved_letters_def)
    with valid_letter(1) [OF ok, OF nth_mem [OF j(1)]] assms(1) n
      nth_eq_iff_index_eq [of "map (\<lambda>p. ToUpper (p_DriveLetter (sp_Profile p))) ?ps" "nat i" j]
    show False using assms(2) by (auto simp: settings_ok_def)
  qed
  with p assms(2,3) have "ToUpper (p_DriveLetter ?p) \<in> set (availableDriveLetters ?ps i ?used)"
    by (simp add: availableDriveLetters_def current_letter_def)
  from last_index_present [OF this] obtain k
    where "last_index (ToUpper (p_DriveLetter ?p)) (availableDriveLetters ?ps i ?used) = Some k" by blast
  with last_index_SomeD [OF this] p(1) show ?thesis by (simp add: drive_options_def Let_def)
qed

subsection \<open>Names and labels\<close>

lemma trim_right_last: "trim_right cs s \<noteq> [] \<Longrightarrow> last (trim_right cs s) \<notin> set cs"
  unfolding trim_right_def by (metis hd_dropWhile last_rev rev_is_Nil_conv)

lemma trim_right_subset: "set (trim_right cs s) \<subseteq> set s"
  unfolding trim_right_def using set_dropWhileD by fastforce

text \<open>
  The name suggested for exporting a preserved file is never empty, holds no separator, no reserved
  punctuation and no control byte, and does not end in a dot or a space, whatever remote path the
  metadata records.
\<close>

theorem suggested_name_safe:
  "let name = recoverySuggestedName item
   in name \<noteq> [] \<and> list_all (\<lambda>c. \<not> unsafe_name_char c) name \<and> last name \<notin> {CHR ''.'', CHR '' ''}"
proof -
  let ?base = "path_Base (ReplaceBackslashes (rm_RemotePath (ri_Metadata item)))"
  let ?safe = "\<lambda>name. trim_right ''. '' (map (\<lambda>c. if unsafe_name_char c then CHR ''_'' else c) name)"
  have us: "\<not> unsafe_name_char CHR ''_''" by code_simp
  have fb: "\<not> unsafe_name_char c" if "c \<in> set fallback_name" for c
  proof -
    have "list_all (\<lambda>c. \<not> unsafe_name_char c) fallback_name" by code_simp
    with that show ?thesis by (simp add: list_all_iff)
  qed
  have "\<not> unsafe_name_char c" if "c \<in> set (?safe n)" for c n
    using that us trim_right_subset by fastforce
  moreover have "last (?safe n) \<notin> {CHR ''.'', CHR '' ''}" if "?safe n \<noteq> []" for n
    using trim_right_last [OF that] by simp
  moreover have "last fallback_name \<notin> {CHR ''.'', CHR '' ''}" "fallback_name \<noteq> []"
    by (simp_all add: fallback_name_def)
  ultimately show ?thesis using fb by (simp add: recoverySuggestedName_def Let_def list_all_iff)
qed

lemma Join_length: "(\<forall>l \<in> set ls. length l = 1) \<Longrightarrow> ls \<noteq> [] \<Longrightarrow> length (strings_Join ls '' '') = 2 * length ls - 1"
proof (induction ls)
  case (Cons l ls)
  then show ?case by (cases "ls = []") (auto simp: Join_Cons Suc_diff_Suc)
qed simp

text \<open>
  The tooltip of the tray icon never outgrows the 128 units of its buffer, terminator included: with
  valid settings it names each connected drive once, at most 26 of them.
\<close>

theorem tray_tooltip_fits:
  assumes "settings_ok s"
  shows "length (trayTooltip (s_Profiles s) state) < 128"
proof -
  let ?f = "\<lambda>saved. normalizedDriveLetter (p_DriveLetter (sp_Profile saved))"
  let ?on = "filter (\<lambda>saved. state (sp_ID saved) = Connected) (s_Profiles s)"
  have ok: "profile_ok (sp_Profile q)" if "q \<in> set (s_Profiles s)" for q
    using assms that by (auto simp: settings_ok_def list_all_iff)
  have letters: "?f q = ToUpper (p_DriveLetter (sp_Profile q))" "?f q \<in> set drive_alphabet"
    if "q \<in> set (s_Profiles s)" for q using valid_letter [OF ok [OF that]] by simp_all
  have same: "map ?f (s_Profiles s) = map (\<lambda>p. ToUpper (p_DriveLetter (sp_Profile p))) (s_Profiles s)"
    using letters(1) by simp
  have "distinct (map ?f (s_Profiles s))" unfolding same using assms by (simp add: settings_ok_def)
  then have d: "distinct (map ?f ?on)" by (simp add: distinct_map_filter)
  have "set (map ?f ?on) \<subseteq> set drive_alphabet" using letters(2) by auto
  from card_mono [OF _ this] have "length (map ?f ?on) \<le> card (set drive_alphabet)"
    by (simp only: distinct_card [OF d] finite_set simp_thms)
  also have "\<dots> \<le> length drive_alphabet" by (rule card_length)
  finally have le: "length ?on \<le> 26" by (simp add: drive_alphabet_def)
  have one: "\<forall>l \<in> set (sort (map ?f ?on)). length l = 1"
    using letters(2) alphabetD(2) by auto
  show ?thesis
    using le Join_length [OF one] by (auto simp: trayTooltip_def Let_def)
qed

theorem tray_tooltip_fits_witness: "length (trayTooltip (s_Profiles DefaultSettings) (\<lambda>_. Connected)) < 128"
  by (rule tray_tooltip_fits) (simp add: settings_ok_def DefaultSettings_def)

end
