(* ===== verification/Startup.thy ===== *)
theory Startup
  imports Go_Errors
begin

text \<open>
  \<^verbatim>\<open>internal/desktop/startup_windows.go\<close>: the command registered to run at login. The
  registry is the value \<open>DKDrive\<close> of one key and the errors its calls may give; what
  \<open>filepath.IsAbs\<close> accepts on Windows and the path of the executable are parameters.
\<close>

record registry =
  rg_key :: bool
  rg_value :: "string option"
  rg_openErr :: "err option"
  rg_readErr :: "err option"
  rg_writeErr :: "err option"

text \<open>Runes of UTF-8 as Go decodes them: a malformed byte is one rune by itself.\<close>

definition byte_in :: "char \<Rightarrow> nat \<Rightarrow> nat \<Rightarrow> bool" where
  "byte_in c lo hi \<longleftrightarrow> lo \<le> of_char c \<and> of_char c \<le> hi"

definition is_cont :: "char \<Rightarrow> bool" where "is_cont c \<longleftrightarrow> byte_in c 0x80 0xBF"

fun rune_width :: "string \<Rightarrow> nat" where
  "rune_width (a # b # c # d # s) =
     (if byte_in a 0xC2 0xDF \<and> is_cont b then 2
      else if (byte_in a 0xE1 0xEC \<or> byte_in a 0xEE 0xEF) \<and> is_cont b \<and> is_cont c then 3
      else if byte_in a 0xE0 0xE0 \<and> byte_in b 0xA0 0xBF \<and> is_cont c then 3
      else if byte_in a 0xED 0xED \<and> byte_in b 0x80 0x9F \<and> is_cont c then 3
      else if byte_in a 0xF0 0xF0 \<and> byte_in b 0x90 0xBF \<and> is_cont c \<and> is_cont d then 4
      else if byte_in a 0xF1 0xF3 \<and> is_cont b \<and> is_cont c \<and> is_cont d then 4
      else if byte_in a 0xF4 0xF4 \<and> byte_in b 0x80 0x8F \<and> is_cont c \<and> is_cont d then 4
      else 1)"
| "rune_width [a, b, c] =
     (if byte_in a 0xC2 0xDF \<and> is_cont b then 2
      else if (byte_in a 0xE1 0xEC \<or> byte_in a 0xEE 0xEF) \<and> is_cont b \<and> is_cont c then 3
      else if byte_in a 0xE0 0xE0 \<and> byte_in b 0xA0 0xBF \<and> is_cont c then 3
      else if byte_in a 0xED 0xED \<and> byte_in b 0x80 0x9F \<and> is_cont c then 3
      else 1)"
| "rune_width [a, b] = (if byte_in a 0xC2 0xDF \<and> is_cont b then 2 else 1)"
| "rune_width s = 1"

lemma rune_width_pos [simp]: "0 < rune_width s"
  by (induction s rule: rune_width.induct) simp_all

text \<open>\<open>len(utf16.Encode([]rune(s)))\<close>: a rune of four bytes is a surrogate pair.\<close>

function utf16_len :: "string \<Rightarrow> nat" where
  "utf16_len [] = 0"
| "utf16_len (c # s) =
     (if rune_width (c # s) = 4 then 2 else 1) + utf16_len (drop (rune_width (c # s)) (c # s))"
  by pat_completeness auto
termination
proof (relation "measure length")
  fix c :: char and s
  have "0 < rune_width (c # s)" by (rule rune_width_pos)
  then show "(drop (rune_width (c # s)) (c # s), c # s) \<in> measure length"
    by (simp only: in_measure length_drop length_Cons)
qed simp

declare utf16_len.simps(2) [simp del]

definition startupCommand :: "(string \<Rightarrow> bool) \<Rightarrow> string \<Rightarrow> err + string" where
  "startupCommand isAbs exe =
     (if \<not> isAbs exe \<or> list_ex (\<lambda>c. c \<in> {CHR 0x22, CHR 0x0D, CHR 0x0A, CHR 0x00}) exe
      then Inl (ErrNew ''bad path of the executable'')
      else let s = [CHR 0x22] @ exe @ [CHR 0x22] @ '' --tray''
           in if utf16_len s > 260 then Inl (ErrNew ''path too long'') else Inr s)"

text \<open>\<open>registry.OpenKey\<close> of the \<open>Run\<close> key; a missing key is the error \<open>registry.ErrNotExist\<close>.\<close>

definition registry_OpenKey :: "registry \<Rightarrow> err option" where
  "registry_OpenKey rg =
     (case rg_openErr rg of
        Some e \<Rightarrow> Some e
      | None \<Rightarrow> if rg_key rg then None else Some (Sentinel ErrNotExist))"

definition startupEnabled :: "registry \<Rightarrow> bool \<times> err option" where
  "startupEnabled rg =
     (case registry_OpenKey rg of
        Some e \<Rightarrow> if errors_Is e ErrNotExist then (False, None) else (False, Some e)
      | None \<Rightarrow>
          (case (case rg_readErr rg of
                   Some e \<Rightarrow> Inl e
                 | None \<Rightarrow> (case rg_value rg of None \<Rightarrow> Inl (Sentinel ErrNotExist) | Some v \<Rightarrow> Inr v)) of
             Inl e \<Rightarrow> if errors_Is e ErrNotExist then (False, None) else (False, Some e)
           | Inr value \<Rightarrow> (value \<noteq> '''', None)))"

definition setStartup :: "(string \<Rightarrow> bool) \<Rightarrow> err + string \<Rightarrow> bool \<Rightarrow> registry \<Rightarrow> err option \<times> registry" where
  "setStartup isAbs executable enabled rg =
     (if \<not> enabled
      then (case registry_OpenKey rg of
              Some e \<Rightarrow> (if errors_Is e ErrNotExist then None else Some e, rg)
            | None \<Rightarrow>
                (case (case rg_writeErr rg of
                         Some e \<Rightarrow> Some e
                       | None \<Rightarrow> if rg_value rg = None then Some (Sentinel ErrNotExist) else None) of
                   Some e \<Rightarrow> (if errors_Is e ErrNotExist then None else Some e, rg)
                 | None \<Rightarrow> (None, rg\<lparr>rg_value := None\<rparr>)))
      else case executable of
        Inl e \<Rightarrow> (Some e, rg)
      | Inr exe \<Rightarrow>
          (case startupCommand isAbs exe of
             Inl e \<Rightarrow> (Some e, rg)
           | Inr value \<Rightarrow>
               (case rg_openErr rg of
                  Some e \<Rightarrow> (Some e, rg)
                | None \<Rightarrow>
                    (case rg_writeErr rg of
                       Some e \<Rightarrow> (Some e, rg\<lparr>rg_key := True\<rparr>)
                     | None \<Rightarrow> (None, rg\<lparr>rg_key := True, rg_value := Some value\<rparr>)))))"

text \<open>
  The command line as Windows splits it: what stands between the first two quotation marks is the
  program, the rest its arguments.
\<close>

definition quoted_program :: "string \<Rightarrow> (string \<times> string) option" where
  "quoted_program s =
     (case s of
        c # r \<Rightarrow> if c = CHR 0x22 \<and> CHR 0x22 \<in> set r
                 then Some (takeWhile (\<lambda>c. c \<noteq> CHR 0x22) r, tl (dropWhile (\<lambda>c. c \<noteq> CHR 0x22) r)) else None
      | [] \<Rightarrow> None)"

lemma quoted_command: "startupCommand isAbs exe = Inr v \<Longrightarrow> quoted_program v = Some (exe, '' --tray'') \<and> utf16_len v \<le> 260"
proof -
  assume "startupCommand isAbs exe = Inr v"
  then have v: "v = [CHR 0x22] @ exe @ [CHR 0x22] @ '' --tray''" "utf16_len v \<le> 260"
    and q: "\<forall>c \<in> set exe. c \<noteq> CHR 0x22"
    by (auto simp: startupCommand_def Let_def list_ex_iff split: if_splits)
  then have "takeWhile (\<lambda>c. c \<noteq> CHR 0x22) (exe @ [CHR 0x22] @ '' --tray'') = exe"
    "dropWhile (\<lambda>c. c \<noteq> CHR 0x22) (exe @ [CHR 0x22] @ '' --tray'') = CHR 0x22 # '' --tray''"
    by (simp_all add: takeWhile_append dropWhile_append)
  with v show ?thesis by (simp add: quoted_program_def)
qed

text \<open>
  C18. Switching the start at login on and reading it back agree: after a success the registered command
  runs exactly the program's own path with the argument \<open>--tray\<close> and fits the 260 units Windows allows, and
  the program reports itself enabled; after a success of switching it off it reports itself disabled; a
  failure changes no registered command.
\<close>

theorem startup_roundtrip:
  assumes "setStartup isAbs executable enabled rg = (r, rg')" and "rg_readErr rg = None"
    and "\<And>e. rg_openErr rg = Some e \<or> rg_writeErr rg = Some e \<Longrightarrow> \<not> errors_Is e ErrNotExist"
  shows "case r of
      Some e \<Rightarrow> rg_value rg' = rg_value rg
    | None \<Rightarrow> startupEnabled rg' = (enabled, None) \<and>
        (enabled \<longrightarrow> (\<exists>exe v. executable = Inr exe \<and> rg_value rg' = Some v \<and>
           quoted_program v = Some (exe, '' --tray'') \<and> utf16_len v \<le> 260))"
proof (cases enabled)
  case True
  show ?thesis
  proof (cases r)
    case None
    with assms True obtain exe v where v: "executable = Inr exe" "startupCommand isAbs exe = Inr v"
      "rg' = rg\<lparr>rg_key := True, rg_value := Some v\<rparr>" "rg_openErr rg = None"
      by (auto simp: setStartup_def split: sum.splits option.splits)
    note q = quoted_command [OF v(2)]
    then have "v \<noteq> ''''" by (auto simp: quoted_program_def)
    with v assms(2) have "startupEnabled rg' = (True, None)"
      by (simp add: startupEnabled_def registry_OpenKey_def)
    with None True v q show ?thesis by simp
  next
    case (Some e)
    with assms True show ?thesis by (auto simp: setStartup_def split: sum.splits option.splits)
  qed
next
  case False
  with assms show ?thesis
    by (auto simp: setStartup_def startupEnabled_def registry_OpenKey_def sentinel_is_def
        split: option.splits if_splits dest!: sym [of "Some _" "rg_openErr _"])
qed

definition demo_registry :: registry where
  "demo_registry = \<lparr>rg_key = False, rg_value = None, rg_openErr = None, rg_readErr = None, rg_writeErr = None\<rparr>"

theorem startup_roundtrip_witness:
  "case setStartup (\<lambda>_. True) (Inr ''C:/a b/dkdrive.exe'') True demo_registry of
     (r, rg') \<Rightarrow> r = None \<and> startupEnabled rg' = (True, None)"
proof -
  let ?exe = "''C:/a b/dkdrive.exe''"
  obtain v where v: "startupCommand (\<lambda>_. True) ?exe = Inr v"
  proof -
    have "is_ok (startupCommand (\<lambda>_. True) ?exe)" by code_simp
    then show thesis using that by (auto simp: is_ok_iff)
  qed
  then have run: "setStartup (\<lambda>_. True) (Inr ?exe) True demo_registry = (None, demo_registry\<lparr>rg_key := True, rg_value := Some v\<rparr>)"
    by (simp add: setStartup_def demo_registry_def)
  from startup_roundtrip [OF this] have "startupEnabled (demo_registry\<lparr>rg_key := True, rg_value := Some v\<rparr>) = (True, None)"
    by (simp add: demo_registry_def)
  with run show ?thesis by simp
qed

end
