(* ===== verification/Desktop_Window.thy ===== *)
theory Desktop_Window
  imports Desktop_Rules Go_Strconv Recovery Startup
begin

text \<open>
  The state of \<^verbatim>\<open>internal/desktop/window_windows.go\<close> and of the profile editor
  (\<^verbatim>\<open>profile_editor_windows.go\<close>), and the handlers that read and change the settings.
  A control is its content: a text, a check mark, the chosen entry of a combo box. Without an editor
  window its handles are 0, and reading them gives the empty content. What Windows answers (a message
  box, the drives in use, a new window, the clock, random data) is a parameter indexed by the number of
  questions asked so far. A message box is answered before anything else happens; the nested message loop
  behind it is not modelled. Notifications caused by the program's own updates are suppressed by the flag
  \<open>loading\<close> in the code and do not occur here.
\<close>

subsection \<open>The state\<close>

record editor =
  ed_name :: string
  ed_letters :: "string list"
  ed_drive :: "nat option"
  ed_protocol :: int
  ed_port :: string
  ed_host :: string
  ed_root :: string
  ed_user :: string
  ed_key :: string
  ed_knownHosts :: string
  ed_password :: string
  ed_passphrase :: string
  ed_readOnly :: bool
  ed_autoConnect :: bool
  ed_remember :: bool
  ed_insecure :: bool

definition null_editor :: editor where
  "null_editor = \<lparr>ed_name = '''', ed_letters = [], ed_drive = None, ed_protocol = 0, ed_port = '''',
     ed_host = '''', ed_root = '''', ed_user = '''', ed_key = '''', ed_knownHosts = '''', ed_password = '''',
     ed_passphrase = '''', ed_readOnly = False, ed_autoConnect = False, ed_remember = False, ed_insecure = False\<rparr>"

text \<open>The background task of the main window, and what is left of it to do.\<close>

datatype desk_task =
    ConnectTask saved_profile secrets
  | ConnectAllTask "saved_profile list" bool "saved_profile list" "err option"
  | DisconnectTask "saved_profile list" bool disconnect_result
  | ClearTask store
  | TestTask profile secrets

text \<open>The retry a cache window runs in the background, and its result.\<close>

record retry_job =
  rj_index :: nat
  rj_item :: recovery_item
  rj_profile :: saved_profile
  rj_secrets :: secrets
  rj_target :: string
  rj_inspect :: bool

record retry_result =
  rr_job :: retry_job
  rr_state :: remote_state
  rr_entry :: entry
  rr_uploaded :: bool
  rr_err :: "err option"

record recovery_dialog =
  rd_store :: store
  rd_items :: "recovery_item list"
  rd_usage :: usage
  rd_selected :: int
  rd_busy :: bool
  rd_exportOn :: bool
  rd_retryOn :: bool
  rd_deleteOn :: bool
  rd_othersOn :: bool
  rd_job :: "retry_job option"
  rd_result :: "retry_result option"

text \<open>What the user was shown: a question or an alert, by its tag.\<close>

datatype shown = Asked string nat | Alerted string

record ('w, 's, 'b) window =
  w_busy :: bool
  w_secretFailed :: bool
  w_dirty :: bool
  w_hasTray :: bool
  w_shown :: bool
  w_settings :: settings
  w_filename :: string
  w_manager :: "'s manager"
  w_sessionSecrets :: "(string \<times> secrets) list"
  w_selected :: int
  w_editor :: "editor option"
  w_passwordVisible :: bool
  w_passphraseVisible :: bool
  w_controls :: protocol_controls
  w_buttons :: button_state
  w_editOn :: bool
  w_rows :: "list_row list"
  w_closeCheck :: bool
  w_startupCheck :: bool
  w_registry :: registry
  w_tip :: string
  w_recoveryItems :: "recovery_item list"
  w_cacheUsage :: usage
  w_recovery :: "recovery_dialog option"
  w_task :: "desk_task option"
  w_result :: "(desk_task \<times> err option) option"
  w_status :: string
  w_log :: "shown list"
  w_quit :: bool
  w_clock :: nat
  w_fs :: lfs
  w_mounts :: 'w
  w_remote :: 'b

record ('w, 's, 'b, 'r, 'h) desk_env =
  de_box :: "nat \<Rightarrow> string \<Rightarrow> nat"
  de_drives :: "nat \<Rightarrow> err + 32 word"
  de_window :: "nat \<Rightarrow> err option"
  de_now :: "nat \<Rightarrow> instant"
  de_stamp :: "nat \<Rightarrow> string"
  de_random :: "nat \<Rightarrow> err + bytes"
  de_tempName :: "nat \<Rightarrow> string"
  de_json :: json_codec
  de_dpapi :: protector
  de_metadata :: metadata_codec
  de_cacheDir :: "err + string"
  de_configDir :: "err + string"
  de_isAbs :: "string \<Rightarrow> bool"
  de_executable :: "err + string"
  de_sessions :: "('w, 's) session_ops"
  de_factory :: "settings \<Rightarrow> string \<Rightarrow> profile \<Rightarrow> secrets \<Rightarrow> 'w \<Rightarrow> (err + 's) \<times> 'w"
  de_open :: "profile \<Rightarrow> secrets \<Rightarrow> 'b \<Rightarrow> (err + ('b, 'r, 'h) backend) \<times> 'b"
  de_shell :: "nat \<Rightarrow> string \<Rightarrow> err option"
  de_chooseFile :: "nat \<Rightarrow> string \<Rightarrow> err + string option"

definition tick :: "('w, 's, 'b) window \<Rightarrow> ('w, 's, 'b) window" where
  "tick w = w\<lparr>w_clock := Suc (w_clock w)\<rparr>"

definition desk_box :: "('w, 's, 'b, 'r, 'h) desk_env \<Rightarrow> string \<Rightarrow> ('w, 's, 'b) window \<Rightarrow> nat \<times> ('w, 's, 'b) window" where
  "desk_box env tag w =
     (let answer = de_box env (w_clock w) tag
      in (answer, tick (w\<lparr>w_log := w_log w @ [Asked tag answer]\<rparr>)))"

definition desk_alert :: "string \<Rightarrow> ('w, 's, 'b) window \<Rightarrow> ('w, 's, 'b) window" where
  "desk_alert message w = w\<lparr>w_log := w_log w @ [Alerted message]\<rparr>"

definition desk_show :: "('w, 's, 'b) window \<Rightarrow> ('w, 's, 'b) window" where
  "desk_show w = w\<lparr>w_shown := True\<rparr>"

definition set_status :: "string \<Rightarrow> ('w, 's, 'b) window \<Rightarrow> ('w, 's, 'b) window" where
  "set_status s w = w\<lparr>w_status := s\<rparr>"

definition editor_of :: "('w, 's, 'b) window \<Rightarrow> editor" where
  "editor_of w = (case w_editor w of None \<Rightarrow> null_editor | Some e \<Rightarrow> e)"

text \<open>Writing to the controls of an editor that is not there has no effect.\<close>

definition upd_editor :: "(editor \<Rightarrow> editor) \<Rightarrow> ('w, 's, 'b) window \<Rightarrow> ('w, 's, 'b) window" where
  "upd_editor f w = w\<lparr>w_editor := map_option f (w_editor w)\<rparr>"

definition profiles_of :: "('w, 's, 'b) window \<Rightarrow> saved_profile list" where
  "profiles_of w = s_Profiles (w_settings w)"

definition valid_selection :: "int \<Rightarrow> saved_profile list \<Rightarrow> bool" where
  "valid_selection i ps \<longleftrightarrow> 0 \<le> i \<and> i < int (length ps)"

subsection \<open>Refreshing what is shown\<close>

definition updateActionButtons :: "('w, 's, 'b) window \<Rightarrow> ('w, 's, 'b) window" where
  "updateActionButtons w =
     (if w_busy w then w
      else w\<lparr>w_buttons := profileButtons (w_selected w) (w_dirty w)
               (map (\<lambda>saved. mg_State (w_manager w) (sp_ID saved)) (profiles_of w)),
             w_editOn := valid_selection (w_selected w) (profiles_of w)\<rparr>)"

definition updateProtocolControls :: "('w, 's, 'b) window \<Rightarrow> ('w, 's, 'b) window" where
  "updateProtocolControls w =
     (if w_busy w then w
      else let e = editor_of w;
               state = protocolControls (ed_protocol e) (TrimSpace (ed_key e) \<noteq> '''')
           in w\<lparr>w_controls := state,
                w_passwordVisible := (w_passwordVisible w \<and> pc_password state),
                w_passphraseVisible := (w_passphraseVisible w \<and> pc_passphrase state)\<rparr>)"

definition updateTrayTooltip :: "('w, 's, 'b) window \<Rightarrow> ('w, 's, 'b) window" where
  "updateTrayTooltip w =
     (if w_hasTray w then w\<lparr>w_tip := trayTooltip (profiles_of w) (mg_State (w_manager w))\<rparr> else w)"

definition refreshList :: "('w, 's, 'b) window \<Rightarrow> ('w, 's, 'b) window" where
  "refreshList w =
     updateTrayTooltip (updateActionButtons (w\<lparr>w_rows := profileListRows (profiles_of w) (mg_State (w_manager w))\<rparr>))"

definition setBusy :: "bool \<Rightarrow> ('w, 's, 'b) window \<Rightarrow> ('w, 's, 'b) window" where
  "setBusy value w =
     (let w1 = w\<lparr>w_busy := value\<rparr>
      in if value then w1 else updateActionButtons (updateProtocolControls w1))"

definition window_report :: "err option \<Rightarrow> ('w, 's, 'b) window \<Rightarrow> ('w, 's, 'b) window" where
  "window_report e w =
     (case e of
        None \<Rightarrow> set_status ''done'' w
      | Some e \<Rightarrow> desk_alert (err_Error e)
                    (set_status (err_Error e) (if w_editor w = None then desk_show w else w)))"

definition reportConnectionError ::
  "('w, 's, 'b, 'r, 'h) desk_env \<Rightarrow> string \<Rightarrow> err \<Rightarrow> ('w, 's, 'b) window \<Rightarrow> ('w, 's, 'b) window" where
  "reportConnectionError env cid e w =
     (let w1 = tick (w\<lparr>w_manager := mg_RecordError cid (Some e) (de_now env (w_clock w)) (w_manager w)\<rparr>)
      in window_report (Some e) (refreshList w1))"

definition anyConnected :: "('w, 's, 'b) window \<Rightarrow> bool" where
  "anyConnected w \<longleftrightarrow> list_ex (\<lambda>p. \<not> connectionInactive (mg_State (w_manager w) (sp_ID p))) (profiles_of w)"

definition maskSecrets :: "('w, 's, 'b) window \<Rightarrow> ('w, 's, 'b) window" where
  "maskSecrets w = w\<lparr>w_passwordVisible := False, w_passphraseVisible := False\<rparr>"

definition editor_markDirty :: "('w, 's, 'b) window \<Rightarrow> ('w, 's, 'b) window" where
  "editor_markDirty w =
     (if w_dirty w then w
      else updateActionButtons (set_status ''unsaved changes'' (w\<lparr>w_dirty := True\<rparr>)))"

definition clearDirty :: "('w, 's, 'b) window \<Rightarrow> ('w, 's, 'b) window" where
  "clearDirty w = updateActionButtons (w\<lparr>w_dirty := False\<rparr>)"

definition window_secrets ::
  "('w, 's, 'b, 'r, 'h) desk_env \<Rightarrow> saved_profile \<Rightarrow> ('w, 's, 'b) window \<Rightarrow> err + secrets" where
  "window_secrets env p w =
     (case map_of (w_sessionSecrets w) (sp_ID p) of
        Some s \<Rightarrow> Inr s
      | None \<Rightarrow> OpenSecrets (de_json env) (de_dpapi env) (sp_ProtectedSecret p))"

subsection \<open>Reading the editor\<close>

definition drive_text :: "editor \<Rightarrow> string" where
  "drive_text e = (case ed_drive e of None \<Rightarrow> '''' | Some i \<Rightarrow> ed_letters e ! i)"

text \<open>The profile of the contents, before the protocol's own fields are filled in.\<close>

definition editor_base :: "editor \<Rightarrow> int \<Rightarrow> profile" where
  "editor_base e port =
     (let name = TrimSpace (ed_name e)
      in \<lparr>p_Name = name, p_Protocol = '''', p_DriveLetter = normalizedDriveLetter (drive_text e),
          p_VolumeName = name, p_Host = TrimSpace (ed_host e), p_Port = word_of_int port,
          p_RemotePath = ed_root e, p_Username = ed_user e, p_AuthMethod = AuthPassword, p_PrivateKey = '''',
          p_AutoConnect = ed_autoConnect e, p_ReadOnly = ed_readOnly e, p_AutoReconnect = True,
          p_WebDAVScheme = '''', p_FTPSMode = '''', p_KnownHosts = '''', p_InsecureSkipTLSVerify = ed_insecure e\<rparr>)"

definition editor_profile :: "editor \<Rightarrow> int \<Rightarrow> profile" where
  "editor_profile e port =
     (let p = editor_base e port; i = ed_protocol e
      in if i = 0
         then let key = TrimSpace (ed_key e)
              in p\<lparr>p_Protocol := ProtocolSFTP, p_PrivateKey := key, p_KnownHosts := TrimSpace (ed_knownHosts e),
                   p_AuthMethod := (if key \<noteq> '''' then AuthPrivateKey else AuthPassword)\<rparr>
         else if i = 1 \<or> i = 2
         then p\<lparr>p_Protocol := ProtocolWebDAV, p_WebDAVScheme := (if i = 2 then ''http'' else ''https'')\<rparr>
         else if i = 3 then p\<lparr>p_Protocol := ProtocolFTP\<rparr>
         else if i = 4 \<or> i = 5
         then p\<lparr>p_Protocol := ProtocolFTPS, p_FTPSMode := (if i = 5 then ''implicit-ftps'' else ''explicit-ftps'')\<rparr>
         else p)"

definition editor_secrets :: "editor \<Rightarrow> profile \<Rightarrow> secrets" where
  "editor_secrets e p =
     (if p_AuthMethod p = AuthPrivateKey then \<lparr>sec_Password = '''', sec_Passphrase = ed_passphrase e\<rparr>
      else \<lparr>sec_Password = ed_password e, sec_Passphrase = ''''\<rparr>)"

definition readEditor :: "editor \<Rightarrow> err + profile \<times> secrets" where
  "readEditor e =
     (case ParseUint16 (TrimSpace (ed_port e)) of
        Inl _ \<Rightarrow> Inl (ErrNew ''port must be 1 to 65535'')
      | Inr port \<Rightarrow>
          if port = 0 then Inl (ErrNew ''port must be 1 to 65535'')
          else let p = editor_profile e port
               in case Profile_Validate p of
                    Some er \<Rightarrow> Inl er
                  | None \<Rightarrow> Inr (p, editor_secrets e p))"

subsection \<open>Saving and deleting\<close>

text \<open>
  The checks of \<open>save\<close> before anything is written: a refusal to report, None when a warning is declined,
  or what to save.
\<close>

definition save_questions ::
  "('w, 's, 'b, 'r, 'h) desk_env \<Rightarrow> profile \<Rightarrow> ('w, 's, 'b) window \<Rightarrow> bool \<times> ('w, 's, 'b) window" where
  "save_questions env p w =
     (case (if p_InsecureSkipTLSVerify p then desk_box env ''save without certificate check?'' w else (6, w)) of
        (a, w1) \<Rightarrow>
          if a \<noteq> 6 then (False, w1)
          else (case (if p_Protocol p = ProtocolFTP \<or> p_WebDAVScheme p = ''http''
                      then desk_box env ''save plaintext connection?'' w1 else (6, w1)) of
                  (b, w2) \<Rightarrow> (b = 6, w2)))"

definition save_checks ::
  "profile \<Rightarrow> secrets \<Rightarrow> err + 32 word \<Rightarrow> ('w, 's, 'b) window \<Rightarrow> err option" where
  "save_checks p secret logical w =
     (let currentID = (if w_selected w \<ge> 0 then sp_ID (profiles_of w ! nat (w_selected w)) else '''');
          remember = ed_remember (editor_of w)
      in if w_selected w \<ge> 0 \<and> \<not> connectionInactive (mg_State (w_manager w) currentID)
         then Some (ErrNew ''disconnect before changing the settings'')
         else case logical of
           Inl e \<Rightarrow> Some (Wrapped ''drive letters'' e)
         | Inr used \<Rightarrow>
             (case validateDriveAssignment (p_DriveLetter p) currentID (profiles_of w) used of
                Some e \<Rightarrow> Some e
              | None \<Rightarrow>
                  if p_AutoConnect p \<and> \<not> remember \<and>
                     (p_AuthMethod p = AuthPassword \<or> sec_Passphrase secret \<noteq> '''')
                  then Some (ErrNew ''automatic connection needs stored credentials'')
                  else if w_secretFailed w \<and> remember \<and> sec_Password secret = '''' \<and> sec_Passphrase secret = ''''
                  then Some (ErrNew ''enter new credentials'')
                  else None))"

definition with_profile :: "settings \<Rightarrow> int \<Rightarrow> saved_profile \<Rightarrow> settings \<times> int" where
  "with_profile s selected saved =
     (if selected < 0 then (s\<lparr>s_Profiles := s_Profiles s @ [saved]\<rparr>, int (length (s_Profiles s)))
      else (s\<lparr>s_Profiles := (s_Profiles s)[nat selected := saved]\<rparr>, selected))"

text \<open>\<open>config.SaveSettings\<close>, of which the window sees the error and the disk afterwards.\<close>

definition write_settings ::
  "('w, 's, 'b, 'r, 'h) desk_env \<Rightarrow> settings \<Rightarrow> ('w, 's, 'b) window \<Rightarrow> err option \<times> ('w, 's, 'b) window" where
  "write_settings env s w =
     (case SaveSettings (de_json env) (w_filename w) s (de_tempName env (w_clock w)) (de_now env (w_clock w)) (w_fs w) of
        (r, states) \<Rightarrow> (r, tick (w\<lparr>w_fs := last states\<rparr>)))"

definition window_save ::
  "('w, 's, 'b, 'r, 'h) desk_env \<Rightarrow> ('w, 's, 'b) window \<Rightarrow> bool \<times> ('w, 's, 'b) window" where
  "window_save env w =
     (case readEditor (editor_of w) of
        Inl e \<Rightarrow> (False, window_report (Some e) w)
      | Inr (p, secret) \<Rightarrow>
     (case save_checks p secret (de_drives env (w_clock w)) w of
        Some e \<Rightarrow> (False, window_report (Some e) (tick w))
      | None \<Rightarrow>
     (case save_questions env p (tick w) of
        (False, w1) \<Rightarrow> (False, w1)
      | (True, w1) \<Rightarrow>
     (case (if w_selected w1 \<ge> 0 then (Inr (sp_ID (profiles_of w1 ! nat (w_selected w1))), w1)
            else (NewID (de_random env (w_clock w1)), tick w1)) of
        (Inl e, w2) \<Rightarrow> (False, window_report (Some e) w2)
      | (Inr cid, w2) \<Rightarrow>
     (case (if ed_remember (editor_of w2) then SealSecrets (de_json env) (de_dpapi env) secret else Inr []) of
        Inl e \<Rightarrow> (False, window_report (Some e) w2)
      | Inr sealed \<Rightarrow>
          let saved = \<lparr>sp_ID = cid, sp_Profile = p, sp_ProtectedSecret = sealed\<rparr>;
              (next, i) = with_profile (w_settings w2) (w_selected w2) saved
          in case write_settings env next w2 of
               (Some e, w3) \<Rightarrow> (False, window_report (Some e) w3)
             | (None, w3) \<Rightarrow>
                 (True, set_status ''settings saved''
                          (clearDirty (refreshList (w3\<lparr>w_settings := next, w_selected := i,
                             w_sessionSecrets := AList.update cid secret (w_sessionSecrets w3),
                             w_secretFailed := False\<rparr>)))))))))"

definition deleteProfile :: "('w, 's, 'b, 'r, 'h) desk_env \<Rightarrow> ('w, 's, 'b) window \<Rightarrow> ('w, 's, 'b) window" where
  "deleteProfile env w =
     (if w_selected w < 0 then w
      else let p = profiles_of w ! nat (w_selected w)
           in if \<not> connectionInactive (mg_State (w_manager w) (sp_ID p))
              then window_report (Some (ErrNew ''disconnect before deleting'')) w
              else case desk_box env ''delete the profile?'' w of
                (answer, w1) \<Rightarrow>
                  if answer \<noteq> 6 then w1
                  else let n = nat (w_selected w1);
                           next = (w_settings w1)\<lparr>s_Profiles := take n (profiles_of w1) @ drop (Suc n) (profiles_of w1)\<rparr>
                       in case write_settings env next w1 of
                            (Some e, w2) \<Rightarrow> window_report (Some e) w2
                          | (None, w2) \<Rightarrow>
                              set_status ''profile deleted''
                                (refreshList (w2\<lparr>w_sessionSecrets := AList.delete (sp_ID p) (w_sessionSecrets w2),
                                   w_settings := next, w_selected := - 1\<rparr>)))"

definition setCloseToTray :: "('w, 's, 'b, 'r, 'h) desk_env \<Rightarrow> ('w, 's, 'b) window \<Rightarrow> ('w, 's, 'b) window" where
  "setCloseToTray env w =
     (let next = (w_settings w)\<lparr>s_CloseToTray := w_closeCheck w\<rparr>
      in case write_settings env next w of
           (Some e, w1) \<Rightarrow> window_report (Some e) (w1\<lparr>w_closeCheck := s_CloseToTray (w_settings w1)\<rparr>)
         | (None, w1) \<Rightarrow> w1\<lparr>w_settings := next\<rparr>)"

definition switchStartup :: "('w, 's, 'b, 'r, 'h) desk_env \<Rightarrow> ('w, 's, 'b) window \<Rightarrow> ('w, 's, 'b) window" where
  "switchStartup env w =
     (let value = w_startupCheck w
      in case setStartup (de_isAbs env) (de_executable env) value (w_registry w) of
           (Some e, rg) \<Rightarrow> window_report (Some e) (w\<lparr>w_registry := rg, w_startupCheck := \<not> value\<rparr>)
         | (None, rg) \<Rightarrow> w\<lparr>w_registry := rg\<rparr>)"

subsection \<open>Filling the editor\<close>

definition confirmProfileChange ::
  "('w, 's, 'b, 'r, 'h) desk_env \<Rightarrow> ('w, 's, 'b) window \<Rightarrow> bool \<times> ('w, 's, 'b) window" where
  "confirmProfileChange env w =
     (if \<not> w_dirty w then (True, w)
      else case desk_box env ''save the changes?'' w of
        (choice, w1) \<Rightarrow> allowProfileChange True choice (window_save env) w1)"

definition refreshDriveOptions ::
  "('w, 's, 'b, 'r, 'h) desk_env \<Rightarrow> string \<Rightarrow> ('w, 's, 'b) window \<Rightarrow> ('w, 's, 'b) window" where
  "refreshDriveOptions env current w =
     (case drive_options (profiles_of w) (w_selected w) (de_drives env (w_clock w)) current of
        (letters, k) \<Rightarrow> tick (upd_editor (\<lambda>e. e\<lparr>ed_letters := letters, ed_drive := k\<rparr>) w))"

definition newProfile :: "('w, 's, 'b, 'r, 'h) desk_env \<Rightarrow> ('w, 's, 'b) window \<Rightarrow> ('w, 's, 'b) window" where
  "newProfile env w =
     (let w1 = upd_editor (\<lambda>e. e\<lparr>ed_name := '''', ed_host := '''', ed_user := '''', ed_key := '''',
                 ed_knownHosts := '''', ed_password := '''', ed_passphrase := ''''\<rparr>)
                 (w\<lparr>w_selected := - 1, w_secretFailed := False\<rparr>);
          w2 = upd_editor (\<lambda>e. e\<lparr>ed_port := ''22'', ed_root := ''/'', ed_protocol := 0, ed_readOnly := False,
                 ed_autoConnect := False, ed_remember := False, ed_insecure := False\<rparr>)
                 (refreshDriveOptions env ''X'' w1)
      in clearDirty (set_status ''enter a new connection'' (updateProtocolControls (maskSecrets w2))))"

definition fill_editor :: "saved_profile \<Rightarrow> editor \<Rightarrow> editor" where
  "fill_editor saved e =
     (let v = sp_Profile saved
      in e\<lparr>ed_name := p_Name v, ed_port := itoa (unat (p_Port v)), ed_host := p_Host v, ed_root := p_RemotePath v,
           ed_user := p_Username v, ed_key := p_PrivateKey v, ed_knownHosts := p_KnownHosts v,
           ed_protocol := protocolIndex v, ed_readOnly := p_ReadOnly v, ed_autoConnect := p_AutoConnect v,
           ed_insecure := p_InsecureSkipTLSVerify v, ed_remember := (sp_ProtectedSecret saved \<noteq> [])\<rparr>)"

definition fill_secrets :: "secrets \<Rightarrow> editor \<Rightarrow> editor" where
  "fill_secrets s e = e\<lparr>ed_password := sec_Password s, ed_passphrase := sec_Passphrase s\<rparr>"

definition show_profile :: "('w, 's, 'b, 'r, 'h) desk_env \<Rightarrow> int \<Rightarrow> ('w, 's, 'b) window \<Rightarrow> ('w, 's, 'b) window" where
  "show_profile env index w =
     (let w1 = w\<lparr>w_selected := index\<rparr>;
          p = profiles_of w1 ! nat index;
          w2 = upd_editor (fill_editor p) (refreshDriveOptions env (p_DriveLetter (sp_Profile p)) w1);
          r = window_secrets env p w2;
          s = (case r of Inl _ \<Rightarrow> \<lparr>sec_Password = '''', sec_Passphrase = ''''\<rparr> | Inr s \<Rightarrow> s);
          w3 = updateProtocolControls (maskSecrets (upd_editor (fill_secrets s) (w2\<lparr>w_secretFailed := \<not> is_ok r\<rparr>)));
          w4 = (case r of
                  Inl e \<Rightarrow> reportConnectionError env (sp_ID p) e w3
                | Inr _ \<Rightarrow> set_status ''profile state'' w3)
      in clearDirty w4)"

definition loadEditor :: "('w, 's, 'b, 'r, 'h) desk_env \<Rightarrow> int \<Rightarrow> ('w, 's, 'b) window \<Rightarrow> ('w, 's, 'b) window" where
  "loadEditor env index w =
     (if \<not> valid_selection index (profiles_of w) then w
      else case (if index \<noteq> w_selected w then confirmProfileChange env w else (True, w)) of
        (False, w1) \<Rightarrow> w1
      | (True, w1) \<Rightarrow> show_profile env index w1)"

definition cancelEditorChanges :: "('w, 's, 'b, 'r, 'h) desk_env \<Rightarrow> ('w, 's, 'b) window \<Rightarrow> ('w, 's, 'b) window" where
  "cancelEditorChanges env w =
     (if \<not> w_dirty w then w
      else case desk_box env ''discard the changes?'' w of
        (answer, w1) \<Rightarrow>
          if answer \<noteq> 6 then w1
          else if w_selected w1 \<ge> 0 then loadEditor env (w_selected w1) w1
          else newProfile env w1)"

subsection \<open>The editor window\<close>

text \<open>
  \<open>showProfileEditor\<close>: an open editor is only raised; otherwise a window is created, which may fail.
\<close>

definition showProfileEditor ::
  "('w, 's, 'b, 'r, 'h) desk_env \<Rightarrow> int \<Rightarrow> ('w, 's, 'b) window \<Rightarrow> err option \<times> ('w, 's, 'b) window" where
  "showProfileEditor env index w =
     (if w_editor w \<noteq> None then (None, w)
      else case de_window env (w_clock w) of
        Some e \<Rightarrow> (Some e, tick w)
      | None \<Rightarrow>
          let w1 = tick (w\<lparr>w_editor := Some (null_editor\<lparr>ed_port := ''22''\<rparr>)\<rparr>)
          in (None, if index \<ge> 0 then loadEditor env index (w1\<lparr>w_selected := index\<rparr>) else newProfile env w1))"

definition editor_destroy :: "('w, 's, 'b) window \<Rightarrow> ('w, 's, 'b) window" where
  "editor_destroy w = updateActionButtons (w\<lparr>w_editor := None, w_dirty := False\<rparr>)"

definition editor_close :: "('w, 's, 'b, 'r, 'h) desk_env \<Rightarrow> ('w, 's, 'b) window \<Rightarrow> ('w, 's, 'b) window" where
  "editor_close env w =
     (if w_busy w then desk_alert ''close after the connection test'' w
      else case confirmProfileChange env w of
        (False, w1) \<Rightarrow> w1
      | (True, w1) \<Rightarrow> editor_destroy w1)"

text \<open>
  \<open>handleKeyboardMessage\<close> for a key pressed in the window; \<open>dropped\<close> tells whether a combo box is open.
  Selecting all text of an input changes no state of the program.
\<close>

definition handleKey ::
  "('w, 's, 'b, 'r, 'h) desk_env \<Rightarrow> nat \<Rightarrow> bool \<Rightarrow> bool \<Rightarrow> ('w, 's, 'b) window \<Rightarrow> ('w, 's, 'b) window" where
  "handleKey env key controlDown dropped w =
     (if w_busy w \<or> (key = 0x1b \<and> dropped) then w
      else case keyboardCommandFor key controlDown (w_dirty w) of
        KeyboardSelectAll \<Rightarrow> w
      | KeyboardSave \<Rightarrow> snd (window_save env w)
      | KeyboardCancelEdit \<Rightarrow> cancelEditorChanges env w
      | KeyboardNone \<Rightarrow> w)"

end
