(* ===== verification/Desktop_Recovery.thy ===== *)
theory Desktop_Recovery
  imports Desktop_Window
begin

text \<open>
  \<^verbatim>\<open>internal/desktop/recovery_windows.go\<close>: the cache window. Its handlers run in the
  thread of the main window; a retry runs in the background, as one step between the handlers, and leaves
  its result for \<open>finishRetry\<close>. Which buttons are enabled is part of the state, because the handlers rely
  on disabled buttons not sending commands.
\<close>

definition upd_dialog :: "(recovery_dialog \<Rightarrow> recovery_dialog) \<Rightarrow> ('w, 's, 'b) window \<Rightarrow> ('w, 's, 'b) window" where
  "upd_dialog f w = w\<lparr>w_recovery := map_option f (w_recovery w)\<rparr>"

definition valid_item :: "recovery_dialog \<Rightarrow> int \<Rightarrow> bool" where
  "valid_item d i \<longleftrightarrow> 0 \<le> i \<and> i < int (length (rd_items d))"

definition updateDetails :: "saved_profile list \<Rightarrow> recovery_dialog \<Rightarrow> recovery_dialog" where
  "updateDetails profiles d =
     (if \<not> valid_item d (rd_selected d)
      then d\<lparr>rd_exportOn := False, rd_retryOn := False, rd_deleteOn := False\<rparr>
      else let item = rd_items d ! nat (rd_selected d)
           in d\<lparr>rd_exportOn := recoveryExportable item,
                rd_retryOn := (recoveryRetryable item profiles \<and> \<not> rd_busy d),
                rd_deleteOn := recoveryDeletable item\<rparr>)"

definition syncOwner :: "('w, 's, 'b) window \<Rightarrow> ('w, 's, 'b) window" where
  "syncOwner w =
     (case w_recovery w of
        None \<Rightarrow> w
      | Some d \<Rightarrow> w\<lparr>w_recoveryItems := rd_items d, w_cacheUsage := rd_usage d\<rparr>)"

text \<open>The rows of the list after a scan, and the selection kept when it still exists.\<close>

definition show_items :: "saved_profile list \<Rightarrow> recovery_item list \<Rightarrow> usage \<Rightarrow> recovery_dialog \<Rightarrow> recovery_dialog" where
  "show_items profiles items usage d =
     (let kept = (if rd_selected d \<ge> int (length items) then - 1 else rd_selected d);
          selected = (if kept < 0 \<and> items \<noteq> [] then 0 else kept)
      in updateDetails profiles (d\<lparr>rd_items := items, rd_usage := usage, rd_selected := selected\<rparr>))"

definition prune_cache ::
  "('w, 's, 'b, 'r, 'h) desk_env \<Rightarrow> store \<Rightarrow> ('w, 's, 'b) window \<Rightarrow> err option \<times> ('w, 's, 'b) window" where
  "prune_cache env st w =
     (if anyConnected w then (None, w)
      else case PruneExpired (de_metadata env) st (s_CacheRetentionDays (w_settings w)) (de_now env (w_clock w)) (w_fs w) of
             ((_, e), fs) \<Rightarrow> (e, tick (w\<lparr>w_fs := fs\<rparr>)))"

definition recovery_refresh ::
  "('w, 's, 'b, 'r, 'h) desk_env \<Rightarrow> ('w, 's, 'b) window \<Rightarrow> ('w, 's, 'b) window" where
  "recovery_refresh env w =
     (case w_recovery w of
        None \<Rightarrow> w
      | Some d \<Rightarrow>
     (case prune_cache env (rd_store d) w of
        (Some e, w1) \<Rightarrow> desk_alert (err_Error e) w1
      | (None, w1) \<Rightarrow>
     (case store_Scan (de_metadata env) (rd_store d) (w_fs w1) of
        Inl e \<Rightarrow> desk_alert (err_Error e) w1
      | Inr items \<Rightarrow>
     (case store_Usage (rd_store d) items (w_fs w1) of
        Inl e \<Rightarrow> desk_alert (err_Error e) (upd_dialog (\<lambda>d. d\<lparr>rd_items := items\<rparr>) w1)
      | Inr usage \<Rightarrow> syncOwner (upd_dialog (show_items (profiles_of w1) items usage) w1)))))"

definition showRecoveryDialog ::
  "('w, 's, 'b, 'r, 'h) desk_env \<Rightarrow> ('w, 's, 'b) window \<Rightarrow> err option \<times> ('w, 's, 'b) window" where
  "showRecoveryDialog env w =
     (if w_recovery w \<noteq> None then (None, w)
      else case New (de_cacheDir env) '''' (w_fs w) of
        (Inl e, fs) \<Rightarrow> (Some e, w\<lparr>w_fs := fs\<rparr>)
      | (Inr st, fs) \<Rightarrow>
     (case store_Scan (de_metadata env) st fs of
        Inl e \<Rightarrow> (Some e, w\<lparr>w_fs := fs\<rparr>)
      | Inr items \<Rightarrow>
     (case store_Usage st items fs of
        Inl e \<Rightarrow> (Some e, w\<lparr>w_fs := fs\<rparr>)
      | Inr usage \<Rightarrow>
     (case de_window env (w_clock w) of
        Some e \<Rightarrow> (Some e, tick (w\<lparr>w_fs := fs\<rparr>))
      | None \<Rightarrow>
          (None, recovery_refresh env (tick (w\<lparr>w_fs := fs, w_recovery := Some
             \<lparr>rd_store = st, rd_items = items, rd_usage = usage, rd_selected = - 1, rd_busy = False,
              rd_exportOn = True, rd_retryOn = True, rd_deleteOn = True, rd_othersOn = True,
              rd_job = None, rd_result = None\<rparr>\<rparr>)))))))"

subsection \<open>The limits of the cache\<close>

text \<open>\<open>saveSettings\<close> with the texts of its three inputs; a shift of an \<open>int64\<close> wraps.\<close>

definition cache_settings :: "settings \<Rightarrow> string \<Rightarrow> string \<Rightarrow> string \<Rightarrow> err + settings" where
  "cache_settings s retention fileLimit totalLimit =
     (case (ParseInt32 (TrimSpace retention), ParseInt32 (TrimSpace fileLimit), ParseInt32 (TrimSpace totalLimit)) of
        (Inr days, Inr fileGB, Inr totalGB) \<Rightarrow>
          if days \<le> 0 \<or> fileGB \<le> 0 \<or> totalGB \<le> 0 then Inl (ErrNew ''limits must be positive integers'')
          else if fileGB > totalGB then Inl (ErrNew ''file limit above total limit'')
          else Inr (s\<lparr>s_CacheRetentionDays := days, s_CacheMaxFileBytes := i64 (fileGB * 2 ^ 30),
                      s_CacheMaxTotalBytes := i64 (totalGB * 2 ^ 30)\<rparr>)
      | _ \<Rightarrow> Inl (ErrNew ''limits must be positive integers''))"

definition saveCacheSettings ::
  "('w, 's, 'b, 'r, 'h) desk_env \<Rightarrow> string \<Rightarrow> string \<Rightarrow> string \<Rightarrow> ('w, 's, 'b) window \<Rightarrow> ('w, 's, 'b) window" where
  "saveCacheSettings env retention fileLimit totalLimit w =
     (case cache_settings (w_settings w) retention fileLimit totalLimit of
        Inl e \<Rightarrow> desk_alert (err_Error e) w
      | Inr next \<Rightarrow>
          (case write_settings env next w of
             (Some e, w1) \<Rightarrow> desk_alert (err_Error e) w1
           | (None, w1) \<Rightarrow> snd (desk_box env ''cache settings saved'' (recovery_refresh env (w1\<lparr>w_settings := next\<rparr>)))))"

subsection \<open>Retrying\<close>

definition beginRetry ::
  "int \<Rightarrow> saved_profile \<Rightarrow> secrets \<Rightarrow> string \<Rightarrow> bool \<Rightarrow> ('w, 's, 'b) window \<Rightarrow> ('w, 's, 'b) window" where
  "beginRetry index profile secret target inspect w =
     upd_dialog (\<lambda>d.
       if rd_busy d \<or> \<not> valid_item d index then d
       else (updateDetails (profiles_of w) (d\<lparr>rd_busy := True\<rparr>))
              \<lparr>rd_exportOn := False, rd_deleteOn := False, rd_othersOn := False,
               rd_job := Some \<lparr>rj_index = nat index, rj_item = rd_items d ! nat index, rj_profile = profile,
                               rj_secrets = secret, rj_target = target, rj_inspect = inspect\<rparr>\<rparr>) w"

definition retrySelected :: "('w, 's, 'b, 'r, 'h) desk_env \<Rightarrow> ('w, 's, 'b) window \<Rightarrow> ('w, 's, 'b) window" where
  "retrySelected env w =
     (case w_recovery w of
        None \<Rightarrow> w
      | Some d \<Rightarrow>
     if rd_busy d \<or> \<not> valid_item d (rd_selected d) then w
     else let item = rd_items d ! nat (rd_selected d)
          in if \<not> recoveryRetryable item (profiles_of w) then w
     else case retryProfile (profiles_of w) (w_selected w) item of
        Inl e \<Rightarrow> desk_alert (err_Error e) w
      | Inr profile \<Rightarrow>
     if p_ReadOnly (sp_Profile profile) then desk_alert ''read-only profile'' w
     else case RelativePath (p_RemotePath (sp_Profile profile)) (rm_RemotePath (ri_Metadata item)) of
        Inl e \<Rightarrow> desk_alert (err_Error e) w
      | Inr remotePath \<Rightarrow>
     (case window_secrets env profile w of
        Inl e \<Rightarrow> desk_alert (err_Error e) w
      | Inr secret \<Rightarrow>
     (case desk_box env ''retry the preserved file?'' w of
        (answer, w1) \<Rightarrow>
          if answer \<noteq> 6 then w1 else beginRetry (rd_selected d) profile secret remotePath True w1)))"

text \<open>The goroutine of \<open>beginRetry\<close>.\<close>

definition run_retry ::
  "('w, 's, 'b, 'r, 'h) desk_env \<Rightarrow> store \<Rightarrow> lfs \<Rightarrow> retry_job \<Rightarrow> 'b \<Rightarrow> retry_result \<times> 'b" where
  "run_retry env st fs job b =
     (case de_open env (sp_Profile (rj_profile job)) (rj_secrets job) b of
        (Inl e, b1) \<Rightarrow>
          (\<lparr>rr_job = job, rr_state = RemoteMissing, rr_entry = zero_entry, rr_uploaded = False, rr_err = Some e\<rparr>, b1)
      | (Inr B, b1) \<Rightarrow>
     (case (if rj_inspect job then Inspect st (rj_item job) fs B None (rj_target job) b1
            else ((RemoteMissing, zero_entry, None), b1)) of
        ((state, en, e), b2) \<Rightarrow>
     (case (if e = None \<and> (\<not> rj_inspect job \<or> state = RemoteMissing)
            then (case Upload st (rj_item job) fs B None (rj_target job) b2 of
                    ((en', e'), b3) \<Rightarrow> ((en', e', e' = None), b3))
            else ((en, e, False), b2)) of
        ((en, e, uploaded), b3) \<Rightarrow>
     (case b_Close B b3 of
        (closeErr, b4) \<Rightarrow>
          (\<lparr>rr_job = job, rr_state = state, rr_entry = en, rr_uploaded = uploaded,
            rr_err = errors_Join [e, closeErr]\<rparr>, b4)))))"

definition retry_worker :: "('w, 's, 'b, 'r, 'h) desk_env \<Rightarrow> ('w, 's, 'b) window \<Rightarrow> ('w, 's, 'b) window" where
  "retry_worker env w =
     (case w_recovery w of
        None \<Rightarrow> w
      | Some d \<Rightarrow>
          (case rd_job d of
             None \<Rightarrow> w
           | Some job \<Rightarrow>
               (case run_retry env (rd_store d) (w_fs w) job (w_remote w) of
                  (r, b) \<Rightarrow> upd_dialog (\<lambda>d. d\<lparr>rd_job := None, rd_result := Some r\<rparr>) (w\<lparr>w_remote := b\<rparr>))))"

definition offerDeleteAfterRetry ::
  "('w, 's, 'b, 'r, 'h) desk_env \<Rightarrow> recovery_item \<Rightarrow> ('w, 's, 'b) window \<Rightarrow> ('w, 's, 'b) window" where
  "offerDeleteAfterRetry env item w =
     (case w_recovery w of
        None \<Rightarrow> w
      | Some d \<Rightarrow>
          if anyConnected w
          then recovery_refresh env (snd (desk_box env ''retried; disconnect to delete'' w))
          else case desk_box env ''retried; delete the preserved file?'' w of
                 (answer, w1) \<Rightarrow>
                   recovery_refresh env
                     (if answer = 6
                      then (case store_Delete (rd_store d) item (w_fs w1) of
                              (e, fs) \<Rightarrow> (case e of
                                            None \<Rightarrow> w1\<lparr>w_fs := fs\<rparr>
                                          | Some e \<Rightarrow> desk_alert (err_Error e) (w1\<lparr>w_fs := fs\<rparr>)))
                      else w1))"

definition finishRetry :: "('w, 's, 'b, 'r, 'h) desk_env \<Rightarrow> retry_result \<Rightarrow> ('w, 's, 'b) window \<Rightarrow> ('w, 's, 'b) window" where
  "finishRetry env r w =
     (let w1 = upd_dialog (\<lambda>d. updateDetails (profiles_of w) (d\<lparr>rd_busy := False, rd_othersOn := True\<rparr>)) w;
          job = rr_job r
      in case w_recovery w1 of
           None \<Rightarrow> w1
         | Some d \<Rightarrow>
             (case rr_err r of
                Some e \<Rightarrow> desk_alert (err_Error e) w1
              | None \<Rightarrow>
                  if \<not> rj_index job < length (rd_items d) then recovery_refresh env w1
                  else let item = rd_items d ! rj_index job
                       in if rr_uploaded r \<or> rr_state r = RemoteSame then offerDeleteAfterRetry env item w1
                          else if rr_state r = RemoteConflict
                          then let alternate = AlternatePath (rj_target job) (de_stamp env (w_clock w1))
                               in case desk_box env ''overwrite the remote file?'' (tick w1) of
                                    (choice, w2) \<Rightarrow>
                                      if choice = 6
                                      then beginRetry (int (rj_index job)) (rj_profile job) (rj_secrets job) (rj_target job) False w2
                                      else if choice = 7
                                      then beginRetry (int (rj_index job)) (rj_profile job) (rj_secrets job) alternate True w2
                                      else w2
                          else w1))"

definition retry_done :: "('w, 's, 'b, 'r, 'h) desk_env \<Rightarrow> ('w, 's, 'b) window \<Rightarrow> ('w, 's, 'b) window" where
  "retry_done env w =
     (case w_recovery w of
        None \<Rightarrow> w
      | Some d \<Rightarrow>
          (case rd_result d of
             None \<Rightarrow> w
           | Some r \<Rightarrow> finishRetry env r (upd_dialog (\<lambda>d. d\<lparr>rd_result := None\<rparr>) w)))"

subsection \<open>Exporting, deleting, closing\<close>

definition exportSelected :: "('w, 's, 'b, 'r, 'h) desk_env \<Rightarrow> ('w, 's, 'b) window \<Rightarrow> ('w, 's, 'b) window" where
  "exportSelected env w =
     (case w_recovery w of
        None \<Rightarrow> w
      | Some d \<Rightarrow>
     if \<not> valid_item d (rd_selected d) \<or> \<not> recoveryExportable (rd_items d ! nat (rd_selected d)) then w
     else let item = rd_items d ! nat (rd_selected d)
          in case de_chooseFile env (w_clock w) (recoverySuggestedName item) of
               Inl e \<Rightarrow> desk_alert (err_Error e) (tick w)
             | Inr None \<Rightarrow> tick w
             | Inr (Some destination) \<Rightarrow>
                 (case store_Export (rd_store d) item destination (de_now env (w_clock w)) (w_fs w) of
                    (Some e, fs) \<Rightarrow> desk_alert (err_Error e) (tick (w\<lparr>w_fs := fs\<rparr>))
                  | (None, fs) \<Rightarrow> snd (desk_box env ''exported'' (tick (w\<lparr>w_fs := fs\<rparr>)))))"

definition deleteSelected :: "('w, 's, 'b, 'r, 'h) desk_env \<Rightarrow> ('w, 's, 'b) window \<Rightarrow> ('w, 's, 'b) window" where
  "deleteSelected env w =
     (case w_recovery w of
        None \<Rightarrow> w
      | Some d \<Rightarrow>
     if \<not> valid_item d (rd_selected d) then w
     else if anyConnected w then desk_alert ''disconnect before deleting preserved files'' w
     else let item = rd_items d ! nat (rd_selected d)
          in if \<not> recoveryDeletable item then w
     else case desk_box env ''delete the preserved file?'' w of
        (answer, w1) \<Rightarrow>
          if answer \<noteq> 6 then w1
          else (case store_Delete (rd_store d) item (w_fs w1) of
                  (Some e, fs) \<Rightarrow> desk_alert (err_Error e) (recovery_refresh env (w1\<lparr>w_fs := fs\<rparr>))
                | (None, fs) \<Rightarrow> snd (desk_box env ''deleted'' (recovery_refresh env (w1\<lparr>w_fs := fs\<rparr>)))))"

definition recovery_close :: "('w, 's, 'b, 'r, 'h) desk_env \<Rightarrow> ('w, 's, 'b) window \<Rightarrow> ('w, 's, 'b) window" where
  "recovery_close env w =
     (case w_recovery w of
        None \<Rightarrow> w
      | Some d \<Rightarrow>
          if rd_busy d then snd (desk_box env ''wait for the retry'' w)
          else (syncOwner w)\<lparr>w_recovery := None\<rparr>)"

text \<open>A row is selected with the mouse or the keyboard; the list stays enabled during a retry.\<close>

definition recovery_select :: "int \<Rightarrow> ('w, 's, 'b) window \<Rightarrow> ('w, 's, 'b) window" where
  "recovery_select i w =
     upd_dialog (\<lambda>d. if valid_item d i then updateDetails (profiles_of w) (d\<lparr>rd_selected := i\<rparr>) else d) w"

definition openRecoveryFolder :: "('w, 's, 'b, 'r, 'h) desk_env \<Rightarrow> ('w, 's, 'b) window \<Rightarrow> ('w, 's, 'b) window" where
  "openRecoveryFolder env w =
     (case w_recovery w of
        None \<Rightarrow> w
      | Some d \<Rightarrow>
          (case de_shell env (w_clock w) (st_directory (rd_store d)) of
             None \<Rightarrow> tick w
           | Some e \<Rightarrow> desk_alert (err_Error e) (tick w)))"

text \<open>The window's messages; a command of a disabled button does not arrive.\<close>

datatype recovery_event =
    RefreshPressed | FolderPressed | ExportPressed | RetryPressed | DeletePressed | ClosePressed
  | SavePressed string string string | RowSelected int | WindowClosed | RetryMessage

definition recoveryWndProc ::
  "('w, 's, 'b, 'r, 'h) desk_env \<Rightarrow> recovery_event \<Rightarrow> ('w, 's, 'b) window \<Rightarrow> ('w, 's, 'b) window" where
  "recoveryWndProc env ev w =
     (case w_recovery w of
        None \<Rightarrow> w
      | Some d \<Rightarrow>
          (case ev of
             RefreshPressed \<Rightarrow> if rd_othersOn d then recovery_refresh env w else w
           | FolderPressed \<Rightarrow> openRecoveryFolder env w
           | ExportPressed \<Rightarrow> if rd_exportOn d then exportSelected env w else w
           | RetryPressed \<Rightarrow> if rd_retryOn d then retrySelected env w else w
           | DeletePressed \<Rightarrow> if rd_deleteOn d then deleteSelected env w else w
           | ClosePressed \<Rightarrow> if rd_othersOn d then recovery_close env w else w
           | SavePressed a b c \<Rightarrow> if rd_othersOn d then saveCacheSettings env a b c w else w
           | RowSelected i \<Rightarrow> recovery_select i w
           | WindowClosed \<Rightarrow> recovery_close env w
           | RetryMessage \<Rightarrow> retry_done env w))"

end
