(* ===== verification/Desktop_Commands.thy ===== *)
theory Desktop_Commands
  imports Desktop_Recovery
begin

text \<open>
  The rest of \<^verbatim>\<open>internal/desktop/window_windows.go\<close>: background tasks, the commands of
  the window and of the tray, and the window procedure as a transition function on events. A task runs
  beside the handlers; connecting or disconnecting several profiles is one step per profile. The end of a
  Windows session disconnects as many profiles as its two seconds allow.
\<close>

subsection \<open>Tasks\<close>

definition start_task :: "desk_task \<Rightarrow> ('w, 's, 'b) window \<Rightarrow> ('w, 's, 'b) window" where
  "start_task t w =
     (if w_busy w then w else (set_status ''working'' (setBusy True w))\<lparr>w_task := Some t\<rparr>)"

definition window_connect ::
  "('w, 's, 'b, 'r, 'h) desk_env \<Rightarrow> int \<Rightarrow> ('w, 's, 'b) window \<Rightarrow> ('w, 's, 'b) window" where
  "window_connect env index w =
     (if \<not> valid_selection index (profiles_of w) then window_report (Some (ErrNew ''select a connection'')) w
      else let p = profiles_of w ! nat index
           in case de_drives env (w_clock w) of
                Inl e \<Rightarrow> reportConnectionError env (sp_ID p) (Wrapped ''drive letters'' e) (tick w)
              | Inr used \<Rightarrow>
     (case validateDriveAssignment (p_DriveLetter (sp_Profile p)) (sp_ID p) (profiles_of w) used of
        Some e \<Rightarrow> reportConnectionError env (sp_ID p) e (tick w)
      | None \<Rightarrow>
          (case window_secrets env p w of
             Inl e \<Rightarrow> reportConnectionError env (sp_ID p) e (tick w)
           | Inr s \<Rightarrow> start_task (ConnectTask p s) (tick w))))"

definition connectAll :: "bool \<Rightarrow> ('w, 's, 'b) window \<Rightarrow> ('w, 's, 'b) window" where
  "connectAll auto w = start_task (ConnectAllTask (profiles_of w) auto (profiles_of w) None) w"

definition window_disconnect :: "saved_profile list \<Rightarrow> bool \<Rightarrow> ('w, 's, 'b) window \<Rightarrow> ('w, 's, 'b) window" where
  "window_disconnect profiles exiting w =
     start_task (DisconnectTask profiles exiting \<lparr>dr_messages = [], dr_canceled = [], dr_err = None\<rparr>) w"

definition window_exit :: "('w, 's, 'b) window \<Rightarrow> ('w, 's, 'b) window" where
  "window_exit w =
     (if w_busy w then w
      else if (\<exists>d \<in> set_option (w_recovery w). rd_busy d)
      then desk_alert ''wait for the retry before exiting'' w
      else window_disconnect (profiles_of w) True w)"

definition clearCache :: "('w, 's, 'b, 'r, 'h) desk_env \<Rightarrow> ('w, 's, 'b) window \<Rightarrow> ('w, 's, 'b) window" where
  "clearCache env w =
     (if anyConnected w then window_report (Some (ErrNew ''disconnect before clearing the cache'')) w
      else case desk_box env ''clear the cache?'' w of
        (answer, w1) \<Rightarrow>
          if answer \<noteq> 6 then w1
          else (case New (de_cacheDir env) '''' (w_fs w1) of
                  (Inl e, fs) \<Rightarrow> window_report (Some e) (w1\<lparr>w_fs := fs\<rparr>)
                | (Inr st, fs) \<Rightarrow> start_task (ClearTask st) (w1\<lparr>w_fs := fs\<rparr>)))"

definition testConnection :: "('w, 's, 'b, 'r, 'h) desk_env \<Rightarrow> ('w, 's, 'b) window \<Rightarrow> ('w, 's, 'b) window" where
  "testConnection env w =
     (case readEditor (editor_of w) of
        Inl e \<Rightarrow> window_report (Some e) w
      | Inr (p, s) \<Rightarrow>
          (case (if p_InsecureSkipTLSVerify p \<or> p_Protocol p = ProtocolFTP \<or> p_WebDAVScheme p = ''http''
                 then desk_box env ''test insecure connection?'' w else (6, w)) of
             (answer, w1) \<Rightarrow> if answer \<noteq> 6 then w1 else start_task (TestTask p s) w1))"

subsection \<open>The background goroutine\<close>

text \<open>One profile of \<open>connectAll\<close>: the errors so far, the manager and the mounts.\<close>

definition connect_one ::
  "('w, 's, 'b, 'r, 'h) desk_env \<Rightarrow> saved_profile list \<Rightarrow> bool \<Rightarrow> saved_profile \<Rightarrow> err option
     \<Rightarrow> ('w, 's, 'b) window \<Rightarrow> err option \<times> ('w, 's, 'b) window" where
  "connect_one env profiles auto p result w =
     (let prof = sp_Profile p;
          joined = (\<lambda>tag e. errors_Join [result, Some (Wrapped (p_Name prof @ tag) e)]);
          record_error = (\<lambda>e w. tick (w\<lparr>w_manager := mg_RecordError (sp_ID p) (Some e) (de_now env (w_clock w)) (w_manager w)\<rparr>))
      in if auto \<and> \<not> p_AutoConnect prof then (result, w)
         else if \<not> connectionInactive (mg_State (w_manager w) (sp_ID p)) then (result, w)
         else case de_drives env (w_clock w) of
           Inl e \<Rightarrow> (joined '': drive letters'' e, record_error e (tick w))
         | Inr used \<Rightarrow>
     (case validateDriveAssignment (p_DriveLetter prof) (sp_ID p) profiles used of
        Some e \<Rightarrow> (joined '''' e, record_error e (tick w))
      | None \<Rightarrow>
     (case window_secrets env p w of
        Inl e \<Rightarrow> (joined '''' e, record_error e (tick w))
      | Inr s \<Rightarrow>
     (case mg_Connect (de_sessions env) (de_factory env (w_settings w)) (sp_ID p) prof s (w_manager w) (w_mounts w) of
        (r, m, ws) \<Rightarrow>
          (case r of None \<Rightarrow> result | Some e \<Rightarrow> joined '''' e, tick (w\<lparr>w_manager := m, w_mounts := ws\<rparr>))))))"

text \<open>One profile of \<open>disconnect\<close>; the confirmation is a message box of the window's thread.\<close>

definition disconnect_one ::
  "('w, 's, 'b, 'r, 'h) desk_env \<Rightarrow> saved_profile \<Rightarrow> disconnect_result
     \<Rightarrow> ('w, 's, 'b) window \<Rightarrow> disconnect_result \<times> ('w, 's, 'b) window" where
  "disconnect_one env p result w =
     (let so = de_sessions env;
          answer = de_box env (w_clock w) ''force the disconnect?'';
          asked = (fst (mg_Disconnect so (sp_ID p) (w_manager w) (w_mounts w)) \<noteq> None)
      in case disconnect_loop so (\<lambda>_ _. answer = 6) [p] result (w_manager w) (w_mounts w) of
           (result', m, ws) \<Rightarrow>
             (result', (if asked then tick (desk_show (w\<lparr>w_log := w_log w @ [Asked ''force the disconnect?'' answer]\<rparr>)) else w)
                \<lparr>w_manager := m, w_mounts := ws\<rparr>))"

definition finish_task :: "desk_task \<Rightarrow> err option \<Rightarrow> ('w, 's, 'b) window \<Rightarrow> ('w, 's, 'b) window" where
  "finish_task t e w = w\<lparr>w_task := None, w_result := Some (t, e)\<rparr>"

definition task_step :: "('w, 's, 'b, 'r, 'h) desk_env \<Rightarrow> desk_task \<Rightarrow> ('w, 's, 'b) window \<Rightarrow> ('w, 's, 'b) window" where
  "task_step env t w =
     (case t of
        ConnectTask p s \<Rightarrow>
          (case mg_Connect (de_sessions env) (de_factory env (w_settings w)) (sp_ID p) (sp_Profile p) s
                  (w_manager w) (w_mounts w) of
             (r, m, ws) \<Rightarrow> finish_task t r (w\<lparr>w_manager := m, w_mounts := ws\<rparr>))
      | ConnectAllTask profiles auto rest result \<Rightarrow>
          (case rest of
             [] \<Rightarrow> finish_task t result w
           | p # ps \<Rightarrow>
               (case connect_one env profiles auto p result w of
                  (result', w1) \<Rightarrow> w1\<lparr>w_task := Some (ConnectAllTask profiles auto ps result')\<rparr>))
      | DisconnectTask rest exiting result \<Rightarrow>
          (case rest of
             [] \<Rightarrow> finish_task t (dr_err result) w
           | p # ps \<Rightarrow>
               (case disconnect_one env p result w of
                  (result', w1) \<Rightarrow> w1\<lparr>w_task := Some (DisconnectTask ps exiting result')\<rparr>))
      | ClearTask st \<Rightarrow>
          (case store_Clear st (w_fs w) of ((_, e), fs) \<Rightarrow> finish_task t e (w\<lparr>w_fs := fs\<rparr>))
      | TestTask p s \<Rightarrow>
          (case de_open env p s (w_remote w) of
             (Inl e, b) \<Rightarrow> finish_task t (Some e) (w\<lparr>w_remote := b\<rparr>)
           | (Inr B, b) \<Rightarrow> (case b_Close B b of (e, b') \<Rightarrow> finish_task t e (w\<lparr>w_remote := b'\<rparr>))))"

definition worker_step :: "('w, 's, 'b, 'r, 'h) desk_env \<Rightarrow> ('w, 's, 'b) window \<Rightarrow> ('w, 's, 'b) window" where
  "worker_step env w = (case w_task w of None \<Rightarrow> w | Some t \<Rightarrow> task_step env t w)"

subsection \<open>The end of a task\<close>

definition refreshRecoveryItems ::
  "('w, 's, 'b, 'r, 'h) desk_env \<Rightarrow> ('w, 's, 'b) window \<Rightarrow> err option \<times> ('w, 's, 'b) window" where
  "refreshRecoveryItems env w =
     (case New (de_cacheDir env) '''' (w_fs w) of
        (Inl e, fs) \<Rightarrow> (Some e, w\<lparr>w_fs := fs\<rparr>)
      | (Inr st, fs) \<Rightarrow>
          (case store_Scan (de_metadata env) st fs of
             Inl e \<Rightarrow> (Some e, w\<lparr>w_fs := fs\<rparr>)
           | Inr items \<Rightarrow>
               (case store_Usage st items fs of
                  Inl e \<Rightarrow> (Some e, w\<lparr>w_fs := fs\<rparr>)
                | Inr usage \<Rightarrow> (None, w\<lparr>w_fs := fs, w_recoveryItems := items, w_cacheUsage := usage\<rparr>))))"

definition disconnect_done ::
  "('w, 's, 'b, 'r, 'h) desk_env \<Rightarrow> bool \<Rightarrow> disconnect_result \<Rightarrow> err option \<Rightarrow> ('w, 's, 'b) window \<Rightarrow> ('w, 's, 'b) window" where
  "disconnect_done env exiting result e w =
     (let w0 = setBusy True w;
          w1 = (if e \<noteq> None then window_report e w0
                else if dr_canceled result \<noteq> [] then set_status ''forced disconnect declined'' w0
                else window_report None w0);
          w2 = (if dr_forceMessage result \<noteq> ''''
                then desk_alert (dr_forceMessage result) (set_status (dr_forceMessage result) (desk_show w1)) else w1);
          w3 = (if \<not> exiting
                then (case refreshRecoveryItems env w2 of
                        (None, w') \<Rightarrow> w' | (Some er, w') \<Rightarrow> desk_alert (err_Error er) w')
                else w2);
          w4 = (if exiting \<and> e = None \<and> dr_canceled result = [] then w3\<lparr>w_quit := True\<rparr> else w3)
      in setBusy False w4)"

definition clear_done :: "('w, 's, 'b, 'r, 'h) desk_env \<Rightarrow> err option \<Rightarrow> ('w, 's, 'b) window \<Rightarrow> ('w, 's, 'b) window" where
  "clear_done env clearErr w =
     (case refreshRecoveryItems env w of
        (scanErr, w1) \<Rightarrow>
          (case errors_Join [clearErr, scanErr] of
             Some e \<Rightarrow> window_report (Some e) w1
           | None \<Rightarrow> set_status ''cache cleared'' w1))"

definition task_done :: "('w, 's, 'b, 'r, 'h) desk_env \<Rightarrow> ('w, 's, 'b) window \<Rightarrow> ('w, 's, 'b) window" where
  "task_done env w =
     (case w_result w of
        None \<Rightarrow> w
      | Some (t, e) \<Rightarrow>
          let w1 = refreshList (setBusy False (w\<lparr>w_result := None\<rparr>))
          in (case t of
                ConnectTask p s \<Rightarrow> window_report e w1
              | ConnectAllTask profiles auto rest result \<Rightarrow> window_report e w1
              | DisconnectTask rest exiting result \<Rightarrow> disconnect_done env exiting result e w1
              | ClearTask st \<Rightarrow> clear_done env e w1
              | TestTask p s \<Rightarrow>
                  if e = None then snd (desk_box env ''connection test passed'' (set_status ''connection test passed'' (window_report None w1)))
                  else window_report e w1))"

subsection \<open>The end of the Windows session\<close>

definition finishWindowsSession ::
  "('w, 's, 'b, 'r, 'h) desk_env \<Rightarrow> nat \<Rightarrow> ('w, 's, 'b) window \<Rightarrow> ('w, 's, 'b) window" where
  "finishWindowsSession env n w =
     (case disconnectProfilesForSessionEnd (de_sessions env) (take n (profiles_of w)) (w_manager w) (w_mounts w) of
        (_, m, ws) \<Rightarrow> w\<lparr>w_manager := m, w_mounts := ws, w_quit := True\<rparr>)"

subsection \<open>Commands\<close>

definition idNew :: int where "idNew = 101"
definition idEditProfile :: int where "idEditProfile = 102"
definition idSave :: int where "idSave = 103"
definition idDelete :: int where "idDelete = 104"
definition idConnect :: int where "idConnect = 105"
definition idDisconnect :: int where "idDisconnect = 106"
definition idConnectAll :: int where "idConnectAll = 107"
definition idDisconnectAll :: int where "idDisconnectAll = 108"
definition idExit :: int where "idExit = 109"
definition idShow :: int where "idShow = 110"
definition idCloseToTray :: int where "idCloseToTray = 111"
definition idStartup :: int where "idStartup = 112"
definition idProtocol :: int where "idProtocol = 113"
definition idTestConnection :: int where "idTestConnection = 114"
definition idDrive :: int where "idDrive = 115"
definition idBrowseKey :: int where "idBrowseKey = 116"
definition idBrowseKnownHosts :: int where "idBrowseKnownHosts = 117"
definition idTogglePassword :: int where "idTogglePassword = 118"
definition idTogglePassphrase :: int where "idTogglePassphrase = 119"
definition idRecovery :: int where "idRecovery = 120"
definition idOpenCacheFolder :: int where "idOpenCacheFolder = 121"
definition idClearCache :: int where "idClearCache = 122"
definition idProfileClose :: int where "idProfileClose = 123"
definition idAbout :: int where "idAbout = 124"

lemmas command_ids = idNew_def idEditProfile_def idSave_def idDelete_def idConnect_def idDisconnect_def
  idConnectAll_def idDisconnectAll_def idExit_def idShow_def idCloseToTray_def idStartup_def idProtocol_def
  idTestConnection_def idDrive_def idBrowseKey_def idBrowseKnownHosts_def idTogglePassword_def
  idTogglePassphrase_def idRecovery_def idOpenCacheFolder_def idClearCache_def idProfileClose_def idAbout_def

definition report_failure :: "err option \<times> ('w, 's, 'b) window \<Rightarrow> ('w, 's, 'b) window" where
  "report_failure r = (case r of (None, w) \<Rightarrow> w | (Some e, w) \<Rightarrow> window_report (Some e) w)"

definition browsePath ::
  "('w, 's, 'b, 'r, 'h) desk_env \<Rightarrow> (editor \<Rightarrow> string) \<Rightarrow> (string \<Rightarrow> editor \<Rightarrow> editor)
     \<Rightarrow> ('w, 's, 'b) window \<Rightarrow> ('w, 's, 'b) window" where
  "browsePath env get put w =
     (case de_chooseFile env (w_clock w) (TrimSpace (get (editor_of w))) of
        Inl e \<Rightarrow> window_report (Some e) (tick w)
      | Inr None \<Rightarrow> tick w
      | Inr (Some path) \<Rightarrow> updateProtocolControls (editor_markDirty (upd_editor (put path) (tick w))))"

definition protocol_chosen :: "('w, 's, 'b) window \<Rightarrow> ('w, 's, 'b) window" where
  "protocol_chosen w =
     (let i = ed_protocol (editor_of w)
      in if 0 \<le> i \<and> i < int (length default_ports)
         then updateProtocolControls (upd_editor (\<lambda>e. e\<lparr>ed_port := default_ports ! nat i, ed_insecure := False\<rparr>) w)
         else w)"

definition toggle_connection :: "('w, 's, 'b, 'r, 'h) desk_env \<Rightarrow> int \<Rightarrow> ('w, 's, 'b) window \<Rightarrow> ('w, 's, 'b) window" where
  "toggle_connection env i w =
     (let p = profiles_of w ! nat i
      in if connectionInactive (mg_State (w_manager w) (sp_ID p)) then window_connect env i w
         else window_disconnect [p] False w)"

definition about_box :: "('w, 's, 'b, 'r, 'h) desk_env \<Rightarrow> ('w, 's, 'b) window \<Rightarrow> ('w, 's, 'b) window" where
  "about_box env w =
     (case desk_box env ''about'' w of
        (answer, w1) \<Rightarrow> if answer = 6 then report_failure (de_shell env (w_clock w1) ''WinFsp'', tick w1) else w1)"

definition openCacheFolder :: "('w, 's, 'b, 'r, 'h) desk_env \<Rightarrow> ('w, 's, 'b) window \<Rightarrow> ('w, 's, 'b) window" where
  "openCacheFolder env w =
     (case New (de_cacheDir env) '''' (w_fs w) of
        (Inl e, fs) \<Rightarrow> window_report (Some e) (w\<lparr>w_fs := fs\<rparr>)
      | (Inr st, fs) \<Rightarrow> report_failure (de_shell env (w_clock w) (st_directory st), tick (w\<lparr>w_fs := fs\<rparr>)))"

text \<open>The switch of \<open>command\<close>.\<close>

definition dispatch :: "('w, 's, 'b, 'r, 'h) desk_env \<Rightarrow> int \<Rightarrow> int \<Rightarrow> ('w, 's, 'b) window \<Rightarrow> ('w, 's, 'b) window" where
  "dispatch env cid notice w =
     (if cid = idNew then report_failure (showProfileEditor env (- 1) (desk_show w))
      else if cid = idEditProfile
      then (if w_selected w \<ge> 0 then report_failure (showProfileEditor env (w_selected w) w) else w)
      else if cid = idSave then snd (window_save env w)
      else if cid = idBrowseKey then browsePath env ed_key (\<lambda>p e. e\<lparr>ed_key := p\<rparr>) w
      else if cid = idBrowseKnownHosts then browsePath env ed_knownHosts (\<lambda>p e. e\<lparr>ed_knownHosts := p\<rparr>) w
      else if cid = idTogglePassword then w\<lparr>w_passwordVisible := \<not> w_passwordVisible w\<rparr>
      else if cid = idTogglePassphrase then w\<lparr>w_passphraseVisible := \<not> w_passphraseVisible w\<rparr>
      else if cid = idTestConnection then testConnection env w
      else if cid = idDelete then deleteProfile env w
      else if cid = idConnect then window_connect env (w_selected w) w
      else if cid = idDisconnect
      then (if w_selected w \<ge> 0 then window_disconnect [profiles_of w ! nat (w_selected w)] False w else w)
      else if cid = idConnectAll then connectAll False w
      else if cid = idDisconnectAll then window_disconnect (profiles_of w) False w
      else if cid = idAbout then about_box env w
      else if cid = idRecovery then report_failure (showRecoveryDialog env w)
      else if cid = idOpenCacheFolder then openCacheFolder env w
      else if cid = idClearCache then clearCache env w
      else if cid = idExit then window_exit w
      else if cid = idProtocol then (if notice = 1 then protocol_chosen w else w)
      else if cid = idCloseToTray then setCloseToTray env w
      else if cid = idStartup then switchStartup env w
      else w)"

text \<open>
  \<open>command\<close>; \<open>input\<close> and \<open>key\<close> tell whether the control is an input of the editor, and its private key.
\<close>

definition window_command ::
  "('w, 's, 'b, 'r, 'h) desk_env \<Rightarrow> int \<Rightarrow> int \<Rightarrow> bool \<Rightarrow> bool \<Rightarrow> ('w, 's, 'b) window \<Rightarrow> ('w, 's, 'b) window" where
  "window_command env cid notice input key w =
     (if cid = idShow then desk_show w
      else if w_busy w then w
      else let w1 = (if (cid = 0 \<and> input \<and> (notice = 0 \<or> notice = 0x300)) \<or>
                        ((cid = idProtocol \<or> cid = idDrive) \<and> notice = 1) then editor_markDirty w else w);
               w2 = (if key \<and> notice = 0x300 then updateProtocolControls w1 else w1)
           in if cid \<ge> 1000 \<and> cid < 1000 + int (length (profiles_of w2)) then toggle_connection env (cid - 1000) w2
              else dispatch env cid notice w2)"

subsection \<open>Events\<close>

datatype desk_event =
    Command int int bool bool
  | CheckBoxClicked int
  | UserEdit "editor \<Rightarrow> editor" int int bool
  | EditorClose
  | KeyDown nat bool bool
  | RowChosen int
  | RowDoubleClick
  | CloseMessage
  | TaskMessage
  | AutoConnectMessage
  | TrayDoubleClick
  | TaskbarCreated bool
  | EndSession bool nat
  | WorkerStep
  | RetryStep
  | RecoveryEvent recovery_event

definition window_close :: "('w, 's, 'b) window \<Rightarrow> ('w, 's, 'b) window" where
  "window_close w =
     (if w_busy w then desk_alert ''wait for the running operation'' w
      else if s_CloseToTray (w_settings w) \<and> w_hasTray w then w\<lparr>w_shown := False\<rparr>
      else window_exit w)"

text \<open>An automatic check box changes its mark and then sends its command.\<close>

definition check_clicked :: "('w, 's, 'b, 'r, 'h) desk_env \<Rightarrow> int \<Rightarrow> ('w, 's, 'b) window \<Rightarrow> ('w, 's, 'b) window" where
  "check_clicked env cid w =
     (if w_busy w then w
      else window_command env cid 0 False False
             (if cid = idCloseToTray then w\<lparr>w_closeCheck := \<not> w_closeCheck w\<rparr>
              else if cid = idStartup then w\<lparr>w_startupCheck := \<not> w_startupCheck w\<rparr> else w))"

definition user_edit ::
  "('w, 's, 'b, 'r, 'h) desk_env \<Rightarrow> (editor \<Rightarrow> editor) \<Rightarrow> int \<Rightarrow> int \<Rightarrow> bool \<Rightarrow> ('w, 's, 'b) window \<Rightarrow> ('w, 's, 'b) window" where
  "user_edit env f cid notice key w =
     (if w_busy w \<or> w_editor w = None then w else window_command env cid notice True key (upd_editor f w))"

definition row_chosen :: "int \<Rightarrow> ('w, 's, 'b) window \<Rightarrow> ('w, 's, 'b) window" where
  "row_chosen i w =
     (if 0 \<le> i \<and> i < int (length (w_rows w))
      then updateActionButtons (set_status ''profile state'' (w\<lparr>w_selected := i\<rparr>)) else w)"

definition tray_added :: "bool \<Rightarrow> ('w, 's, 'b) window \<Rightarrow> ('w, 's, 'b) window" where
  "tray_added ok w =
     (let w1 = w\<lparr>w_hasTray := ok, w_tip := trayTooltip (profiles_of w) (mg_State (w_manager w))\<rparr>
      in if ok then w1 else desk_show w1)"

definition desk_step :: "('w, 's, 'b, 'r, 'h) desk_env \<Rightarrow> desk_event \<Rightarrow> ('w, 's, 'b) window \<Rightarrow> ('w, 's, 'b) window" where
  "desk_step env ev w =
     (if w_quit w then w
      else case ev of
        Command cid notice input key \<Rightarrow>
          if cid = idCloseToTray \<or> cid = idStartup then w else window_command env cid notice input key w
      | CheckBoxClicked cid \<Rightarrow> check_clicked env cid w
      | UserEdit f cid notice key \<Rightarrow> user_edit env f cid notice key w
      | EditorClose \<Rightarrow> if w_editor w = None then w else editor_close env w
      | KeyDown key ctrl dropped \<Rightarrow> handleKey env key ctrl dropped w
      | RowChosen i \<Rightarrow> if w_busy w then w else row_chosen i w
      | RowDoubleClick \<Rightarrow>
          if w_busy w then w
          else if w_selected w \<ge> 0 then report_failure (showProfileEditor env (w_selected w) w) else w
      | CloseMessage \<Rightarrow> window_close w
      | TaskMessage \<Rightarrow> task_done env w
      | AutoConnectMessage \<Rightarrow> connectAll True w
      | TrayDoubleClick \<Rightarrow> desk_show w
      | TaskbarCreated ok \<Rightarrow> tray_added ok w
      | EndSession ending n \<Rightarrow> if ending then finishWindowsSession env n w else w
      | WorkerStep \<Rightarrow> worker_step env w
      | RetryStep \<Rightarrow> retry_worker env w
      | RecoveryEvent e \<Rightarrow> recoveryWndProc env e w)"

subsection \<open>Starting the program\<close>

definition null_buttons :: button_state where
  "null_buttons = \<lparr>bs_save = False, bs_delete = False, bs_connect = False, bs_disconnect = False,
     bs_connectAll = False, bs_disconnectAll = False\<rparr>"

text \<open>\<open>Run\<close> up to the message loop; \<open>tray\<close> tells whether Windows takes the tray icon.\<close>

definition desk_start ::
  "('w, 's, 'b, 'r, 'h) desk_env \<Rightarrow> bool \<Rightarrow> bool \<Rightarrow> registry \<Rightarrow> lfs \<Rightarrow> 'w \<Rightarrow> 'b \<Rightarrow> err + ('w, 's, 'b) window" where
  "desk_start env hidden tray rg fs mounts remote =
     (case SettingsPath (de_configDir env) of
        Inl e \<Rightarrow> Inl e
      | Inr filename \<Rightarrow>
     (case LoadSettings (de_json env) filename fs of
        (_, Some e) \<Rightarrow> Inl e
      | (s, None) \<Rightarrow>
     (case New (de_cacheDir env) '''' fs of
        (Inl e, _) \<Rightarrow> Inl e
      | (Inr st, fs1) \<Rightarrow>
     (case PruneExpired (de_metadata env) st (s_CacheRetentionDays s) (de_now env 0) fs1 of
        ((_, Some e), _) \<Rightarrow> Inl e
      | ((_, None), fs2) \<Rightarrow>
     (case store_Scan (de_metadata env) st fs2 of
        Inl e \<Rightarrow> Inl e
      | Inr items \<Rightarrow>
     (case store_Usage st items fs2 of
        Inl e \<Rightarrow> Inl e
      | Inr usage \<Rightarrow>
     (case startupEnabled rg of
        (_, Some e) \<Rightarrow> Inl e
      | (enabled, None) \<Rightarrow>
          let w = \<lparr>w_busy = False, w_secretFailed = False, w_dirty = False, w_hasTray = tray, w_shown = False,
                   w_settings = s, w_filename = filename, w_manager = mg_New, w_sessionSecrets = [],
                   w_selected = - 1, w_editor = None, w_passwordVisible = False, w_passphraseVisible = False,
                   w_controls = protocolControls 0 False, w_buttons = null_buttons, w_editOn = False, w_rows = [],
                   w_closeCheck = s_CloseToTray s, w_startupCheck = enabled, w_registry = rg,
                   w_tip = '''', w_recoveryItems = items,
                   w_cacheUsage = usage, w_recovery = None, w_task = None, w_result = None, w_status = ''ready'',
                   w_log = [], w_quit = False, w_clock = 1, w_fs = fs2, w_mounts = mounts, w_remote = remote\<rparr>
          in Inr (refreshList (if \<not> hidden \<or> \<not> tray then desk_show w else w)))))))))"

inductive desk_reachable ::
  "('w, 's, 'b, 'r, 'h) desk_env \<Rightarrow> ('w, 's, 'b) window \<Rightarrow> bool" for env where
  desk_started: "desk_start env hidden tray rg fs mounts remote = Inr w \<Longrightarrow> desk_reachable env w"
| desk_stepped: "desk_reachable env w \<Longrightarrow> desk_reachable env (desk_step env ev w)"

end
