(* ===== verification/Desktop_Fields.thy ===== *)
theory Desktop_Fields
  imports Desktop_Commands
begin

text \<open>
  Which fields of the window each display operation leaves alone: the simplification rules on which the
  invariants of the desktop rest.
\<close>

lemma tick_fields [simp]:
    "w_settings (tick w) = w_settings w" "w_selected (tick w) = w_selected w"
    "w_rows (tick w) = w_rows w" "w_closeCheck (tick w) = w_closeCheck w"
    "w_manager (tick w) = w_manager w" "w_busy (tick w) = w_busy w"
    "w_task (tick w) = w_task w" "w_result (tick w) = w_result w"
    "w_quit (tick w) = w_quit w" "w_dirty (tick w) = w_dirty w"
    "w_buttons (tick w) = w_buttons w" "w_editOn (tick w) = w_editOn w"
    "w_recovery (tick w) = w_recovery w" "w_log (tick w) = w_log w"
    "w_editor (tick w) = w_editor w" "w_filename (tick w) = w_filename w"
    "w_fs (tick w) = w_fs w" "w_sessionSecrets (tick w) = w_sessionSecrets w"
    "w_secretFailed (tick w) = w_secretFailed w"
  by (simp_all add: tick_def split: prod.splits option.splits)

lemma desk_alert_fields [simp]:
    "w_settings (desk_alert m w) = w_settings w" "w_selected (desk_alert m w) = w_selected w"
    "w_rows (desk_alert m w) = w_rows w" "w_closeCheck (desk_alert m w) = w_closeCheck w"
    "w_manager (desk_alert m w) = w_manager w" "w_busy (desk_alert m w) = w_busy w"
    "w_task (desk_alert m w) = w_task w" "w_result (desk_alert m w) = w_result w"
    "w_quit (desk_alert m w) = w_quit w" "w_dirty (desk_alert m w) = w_dirty w"
    "w_buttons (desk_alert m w) = w_buttons w" "w_editOn (desk_alert m w) = w_editOn w"
    "w_recovery (desk_alert m w) = w_recovery w" "w_editor (desk_alert m w) = w_editor w"
    "w_filename (desk_alert m w) = w_filename w" "w_fs (desk_alert m w) = w_fs w"
    "w_sessionSecrets (desk_alert m w) = w_sessionSecrets w" "w_secretFailed (desk_alert m w) = w_secretFailed w"
  by (simp_all add: desk_alert_def split: prod.splits option.splits)

lemma desk_show_fields [simp]:
    "w_settings (desk_show w) = w_settings w" "w_selected (desk_show w) = w_selected w"
    "w_rows (desk_show w) = w_rows w" "w_closeCheck (desk_show w) = w_closeCheck w"
    "w_manager (desk_show w) = w_manager w" "w_busy (desk_show w) = w_busy w"
    "w_task (desk_show w) = w_task w" "w_result (desk_show w) = w_result w"
    "w_quit (desk_show w) = w_quit w" "w_dirty (desk_show w) = w_dirty w"
    "w_buttons (desk_show w) = w_buttons w" "w_editOn (desk_show w) = w_editOn w"
    "w_recovery (desk_show w) = w_recovery w" "w_log (desk_show w) = w_log w"
    "w_editor (desk_show w) = w_editor w" "w_filename (desk_show w) = w_filename w"
    "w_fs (desk_show w) = w_fs w" "w_sessionSecrets (desk_show w) = w_sessionSecrets w"
    "w_secretFailed (desk_show w) = w_secretFailed w"
  by (simp_all add: desk_show_def split: prod.splits option.splits)

lemma set_status_fields [simp]:
    "w_settings (set_status s w) = w_settings w" "w_selected (set_status s w) = w_selected w"
    "w_rows (set_status s w) = w_rows w" "w_closeCheck (set_status s w) = w_closeCheck w"
    "w_manager (set_status s w) = w_manager w" "w_busy (set_status s w) = w_busy w"
    "w_task (set_status s w) = w_task w" "w_result (set_status s w) = w_result w"
    "w_quit (set_status s w) = w_quit w" "w_dirty (set_status s w) = w_dirty w"
    "w_buttons (set_status s w) = w_buttons w" "w_editOn (set_status s w) = w_editOn w"
    "w_recovery (set_status s w) = w_recovery w" "w_log (set_status s w) = w_log w"
    "w_editor (set_status s w) = w_editor w" "w_filename (set_status s w) = w_filename w"
    "w_fs (set_status s w) = w_fs w" "w_sessionSecrets (set_status s w) = w_sessionSecrets w"
    "w_secretFailed (set_status s w) = w_secretFailed w"
  by (simp_all add: set_status_def split: prod.splits option.splits)

lemma upd_editor_fields [simp]:
    "w_settings (upd_editor f w) = w_settings w" "w_selected (upd_editor f w) = w_selected w"
    "w_rows (upd_editor f w) = w_rows w" "w_closeCheck (upd_editor f w) = w_closeCheck w"
    "w_manager (upd_editor f w) = w_manager w" "w_busy (upd_editor f w) = w_busy w"
    "w_task (upd_editor f w) = w_task w" "w_result (upd_editor f w) = w_result w"
    "w_quit (upd_editor f w) = w_quit w" "w_dirty (upd_editor f w) = w_dirty w"
    "w_buttons (upd_editor f w) = w_buttons w" "w_editOn (upd_editor f w) = w_editOn w"
    "w_recovery (upd_editor f w) = w_recovery w" "w_log (upd_editor f w) = w_log w"
    "w_filename (upd_editor f w) = w_filename w" "w_fs (upd_editor f w) = w_fs w"
    "w_sessionSecrets (upd_editor f w) = w_sessionSecrets w" "w_secretFailed (upd_editor f w) = w_secretFailed w"
  by (simp_all add: upd_editor_def split: prod.splits option.splits)

lemma maskSecrets_fields [simp]:
    "w_settings (maskSecrets w) = w_settings w" "w_selected (maskSecrets w) = w_selected w"
    "w_rows (maskSecrets w) = w_rows w" "w_closeCheck (maskSecrets w) = w_closeCheck w"
    "w_manager (maskSecrets w) = w_manager w" "w_busy (maskSecrets w) = w_busy w"
    "w_task (maskSecrets w) = w_task w" "w_result (maskSecrets w) = w_result w"
    "w_quit (maskSecrets w) = w_quit w" "w_dirty (maskSecrets w) = w_dirty w"
    "w_buttons (maskSecrets w) = w_buttons w" "w_editOn (maskSecrets w) = w_editOn w"
    "w_recovery (maskSecrets w) = w_recovery w" "w_log (maskSecrets w) = w_log w"
    "w_editor (maskSecrets w) = w_editor w" "w_filename (maskSecrets w) = w_filename w"
    "w_fs (maskSecrets w) = w_fs w" "w_sessionSecrets (maskSecrets w) = w_sessionSecrets w"
    "w_secretFailed (maskSecrets w) = w_secretFailed w"
  by (simp_all add: maskSecrets_def split: prod.splits option.splits)

lemma updateProtocolControls_fields [simp]:
    "w_settings (updateProtocolControls w) = w_settings w" "w_selected (updateProtocolControls w) = w_selected w"
    "w_rows (updateProtocolControls w) = w_rows w" "w_closeCheck (updateProtocolControls w) = w_closeCheck w"
    "w_manager (updateProtocolControls w) = w_manager w" "w_busy (updateProtocolControls w) = w_busy w"
    "w_task (updateProtocolControls w) = w_task w" "w_result (updateProtocolControls w) = w_result w"
    "w_quit (updateProtocolControls w) = w_quit w" "w_dirty (updateProtocolControls w) = w_dirty w"
    "w_buttons (updateProtocolControls w) = w_buttons w" "w_editOn (updateProtocolControls w) = w_editOn w"
    "w_recovery (updateProtocolControls w) = w_recovery w" "w_log (updateProtocolControls w) = w_log w"
    "w_editor (updateProtocolControls w) = w_editor w" "w_filename (updateProtocolControls w) = w_filename w"
    "w_fs (updateProtocolControls w) = w_fs w" "w_sessionSecrets (updateProtocolControls w) = w_sessionSecrets w"
    "w_secretFailed (updateProtocolControls w) = w_secretFailed w"
  by (simp_all add: updateProtocolControls_def Let_def split: prod.splits option.splits)

lemma updateTrayTooltip_fields [simp]:
    "w_settings (updateTrayTooltip w) = w_settings w" "w_selected (updateTrayTooltip w) = w_selected w"
    "w_rows (updateTrayTooltip w) = w_rows w" "w_closeCheck (updateTrayTooltip w) = w_closeCheck w"
    "w_manager (updateTrayTooltip w) = w_manager w" "w_busy (updateTrayTooltip w) = w_busy w"
    "w_task (updateTrayTooltip w) = w_task w" "w_result (updateTrayTooltip w) = w_result w"
    "w_quit (updateTrayTooltip w) = w_quit w" "w_dirty (updateTrayTooltip w) = w_dirty w"
    "w_buttons (updateTrayTooltip w) = w_buttons w" "w_editOn (updateTrayTooltip w) = w_editOn w"
    "w_recovery (updateTrayTooltip w) = w_recovery w" "w_log (updateTrayTooltip w) = w_log w"
    "w_editor (updateTrayTooltip w) = w_editor w" "w_filename (updateTrayTooltip w) = w_filename w"
    "w_fs (updateTrayTooltip w) = w_fs w" "w_sessionSecrets (updateTrayTooltip w) = w_sessionSecrets w"
    "w_secretFailed (updateTrayTooltip w) = w_secretFailed w"
  by (simp_all add: updateTrayTooltip_def split: prod.splits option.splits)

lemma window_report_fields [simp]:
    "w_settings (window_report e w) = w_settings w" "w_selected (window_report e w) = w_selected w"
    "w_rows (window_report e w) = w_rows w" "w_closeCheck (window_report e w) = w_closeCheck w"
    "w_manager (window_report e w) = w_manager w" "w_busy (window_report e w) = w_busy w"
    "w_task (window_report e w) = w_task w" "w_result (window_report e w) = w_result w"
    "w_quit (window_report e w) = w_quit w" "w_dirty (window_report e w) = w_dirty w"
    "w_buttons (window_report e w) = w_buttons w" "w_editOn (window_report e w) = w_editOn w"
    "w_recovery (window_report e w) = w_recovery w" "w_editor (window_report e w) = w_editor w"
    "w_filename (window_report e w) = w_filename w" "w_fs (window_report e w) = w_fs w"
    "w_sessionSecrets (window_report e w) = w_sessionSecrets w" "w_secretFailed (window_report e w) = w_secretFailed w"
  by (simp_all add: window_report_def split: prod.splits option.splits)

lemma updateActionButtons_fields [simp]:
    "w_settings (updateActionButtons w) = w_settings w" "w_selected (updateActionButtons w) = w_selected w"
    "w_rows (updateActionButtons w) = w_rows w" "w_closeCheck (updateActionButtons w) = w_closeCheck w"
    "w_manager (updateActionButtons w) = w_manager w" "w_busy (updateActionButtons w) = w_busy w"
    "w_task (updateActionButtons w) = w_task w" "w_result (updateActionButtons w) = w_result w"
    "w_quit (updateActionButtons w) = w_quit w" "w_dirty (updateActionButtons w) = w_dirty w"
    "w_recovery (updateActionButtons w) = w_recovery w" "w_log (updateActionButtons w) = w_log w"
    "w_editor (updateActionButtons w) = w_editor w" "w_filename (updateActionButtons w) = w_filename w"
    "w_fs (updateActionButtons w) = w_fs w" "w_sessionSecrets (updateActionButtons w) = w_sessionSecrets w"
    "w_secretFailed (updateActionButtons w) = w_secretFailed w"
  by (simp_all add: updateActionButtons_def split: prod.splits option.splits)

lemma refreshList_fields [simp]:
    "w_settings (refreshList w) = w_settings w" "w_selected (refreshList w) = w_selected w"
    "w_closeCheck (refreshList w) = w_closeCheck w" "w_manager (refreshList w) = w_manager w"
    "w_busy (refreshList w) = w_busy w" "w_task (refreshList w) = w_task w"
    "w_result (refreshList w) = w_result w" "w_quit (refreshList w) = w_quit w"
    "w_dirty (refreshList w) = w_dirty w" "w_recovery (refreshList w) = w_recovery w"
    "w_log (refreshList w) = w_log w" "w_editor (refreshList w) = w_editor w"
    "w_filename (refreshList w) = w_filename w" "w_fs (refreshList w) = w_fs w"
    "w_sessionSecrets (refreshList w) = w_sessionSecrets w" "w_secretFailed (refreshList w) = w_secretFailed w"
  by (simp_all add: refreshList_def split: prod.splits option.splits)

lemma editor_markDirty_fields [simp]:
    "w_settings (editor_markDirty w) = w_settings w" "w_selected (editor_markDirty w) = w_selected w"
    "w_rows (editor_markDirty w) = w_rows w" "w_closeCheck (editor_markDirty w) = w_closeCheck w"
    "w_manager (editor_markDirty w) = w_manager w" "w_busy (editor_markDirty w) = w_busy w"
    "w_task (editor_markDirty w) = w_task w" "w_result (editor_markDirty w) = w_result w"
    "w_quit (editor_markDirty w) = w_quit w" "w_recovery (editor_markDirty w) = w_recovery w"
    "w_log (editor_markDirty w) = w_log w" "w_editor (editor_markDirty w) = w_editor w"
    "w_filename (editor_markDirty w) = w_filename w" "w_fs (editor_markDirty w) = w_fs w"
    "w_sessionSecrets (editor_markDirty w) = w_sessionSecrets w" "w_secretFailed (editor_markDirty w) = w_secretFailed w"
  by (simp_all add: editor_markDirty_def split: prod.splits option.splits)

lemma clearDirty_fields [simp]:
    "w_settings (clearDirty w) = w_settings w" "w_selected (clearDirty w) = w_selected w"
    "w_rows (clearDirty w) = w_rows w" "w_closeCheck (clearDirty w) = w_closeCheck w"
    "w_manager (clearDirty w) = w_manager w" "w_busy (clearDirty w) = w_busy w"
    "w_task (clearDirty w) = w_task w" "w_result (clearDirty w) = w_result w"
    "w_quit (clearDirty w) = w_quit w" "w_recovery (clearDirty w) = w_recovery w"
    "w_log (clearDirty w) = w_log w" "w_editor (clearDirty w) = w_editor w"
    "w_filename (clearDirty w) = w_filename w" "w_fs (clearDirty w) = w_fs w"
    "w_sessionSecrets (clearDirty w) = w_sessionSecrets w" "w_secretFailed (clearDirty w) = w_secretFailed w"
  by (simp_all add: clearDirty_def split: prod.splits option.splits)

lemma setBusy_fields [simp]:
    "w_settings (setBusy b w) = w_settings w" "w_selected (setBusy b w) = w_selected w"
    "w_rows (setBusy b w) = w_rows w" "w_closeCheck (setBusy b w) = w_closeCheck w"
    "w_manager (setBusy b w) = w_manager w" "w_task (setBusy b w) = w_task w"
    "w_result (setBusy b w) = w_result w" "w_quit (setBusy b w) = w_quit w"
    "w_dirty (setBusy b w) = w_dirty w" "w_recovery (setBusy b w) = w_recovery w"
    "w_log (setBusy b w) = w_log w" "w_editor (setBusy b w) = w_editor w"
    "w_filename (setBusy b w) = w_filename w" "w_fs (setBusy b w) = w_fs w"
    "w_sessionSecrets (setBusy b w) = w_sessionSecrets w" "w_secretFailed (setBusy b w) = w_secretFailed w"
  by (simp_all add: setBusy_def Let_def split: prod.splits option.splits)

lemma refreshDriveOptions_fields [simp]:
    "w_settings (refreshDriveOptions env c w) = w_settings w" "w_selected (refreshDriveOptions env c w) = w_selected w"
    "w_rows (refreshDriveOptions env c w) = w_rows w" "w_closeCheck (refreshDriveOptions env c w) = w_closeCheck w"
    "w_manager (refreshDriveOptions env c w) = w_manager w" "w_busy (refreshDriveOptions env c w) = w_busy w"
    "w_task (refreshDriveOptions env c w) = w_task w" "w_result (refreshDriveOptions env c w) = w_result w"
    "w_quit (refreshDriveOptions env c w) = w_quit w" "w_dirty (refreshDriveOptions env c w) = w_dirty w"
    "w_buttons (refreshDriveOptions env c w) = w_buttons w" "w_editOn (refreshDriveOptions env c w) = w_editOn w"
    "w_recovery (refreshDriveOptions env c w) = w_recovery w" "w_log (refreshDriveOptions env c w) = w_log w"
    "w_filename (refreshDriveOptions env c w) = w_filename w" "w_fs (refreshDriveOptions env c w) = w_fs w"
    "w_sessionSecrets (refreshDriveOptions env c w) = w_sessionSecrets w" "w_secretFailed (refreshDriveOptions env c w) = w_secretFailed w"
  by (simp_all add: refreshDriveOptions_def split: prod.splits option.splits)

lemma upd_dialog_fields [simp]:
    "w_settings (upd_dialog g w) = w_settings w" "w_selected (upd_dialog g w) = w_selected w"
    "w_rows (upd_dialog g w) = w_rows w" "w_closeCheck (upd_dialog g w) = w_closeCheck w"
    "w_manager (upd_dialog g w) = w_manager w" "w_busy (upd_dialog g w) = w_busy w"
    "w_task (upd_dialog g w) = w_task w" "w_result (upd_dialog g w) = w_result w"
    "w_quit (upd_dialog g w) = w_quit w" "w_dirty (upd_dialog g w) = w_dirty w"
    "w_buttons (upd_dialog g w) = w_buttons w" "w_editOn (upd_dialog g w) = w_editOn w"
    "w_log (upd_dialog g w) = w_log w" "w_editor (upd_dialog g w) = w_editor w"
    "w_filename (upd_dialog g w) = w_filename w" "w_fs (upd_dialog g w) = w_fs w"
    "w_sessionSecrets (upd_dialog g w) = w_sessionSecrets w" "w_secretFailed (upd_dialog g w) = w_secretFailed w"
  by (simp_all add: upd_dialog_def split: prod.splits option.splits)

lemma syncOwner_fields [simp]:
    "w_settings (syncOwner w) = w_settings w" "w_selected (syncOwner w) = w_selected w"
    "w_rows (syncOwner w) = w_rows w" "w_closeCheck (syncOwner w) = w_closeCheck w"
    "w_manager (syncOwner w) = w_manager w" "w_busy (syncOwner w) = w_busy w"
    "w_task (syncOwner w) = w_task w" "w_result (syncOwner w) = w_result w"
    "w_quit (syncOwner w) = w_quit w" "w_dirty (syncOwner w) = w_dirty w"
    "w_buttons (syncOwner w) = w_buttons w" "w_editOn (syncOwner w) = w_editOn w"
    "w_recovery (syncOwner w) = w_recovery w" "w_log (syncOwner w) = w_log w"
    "w_editor (syncOwner w) = w_editor w" "w_filename (syncOwner w) = w_filename w"
    "w_fs (syncOwner w) = w_fs w" "w_sessionSecrets (syncOwner w) = w_sessionSecrets w"
    "w_secretFailed (syncOwner w) = w_secretFailed w"
  by (simp_all add: syncOwner_def split: prod.splits option.splits)

lemma desk_box_fields [simp]:
    "w_settings (snd (desk_box env t w)) = w_settings w" "w_selected (snd (desk_box env t w)) = w_selected w"
    "w_rows (snd (desk_box env t w)) = w_rows w" "w_closeCheck (snd (desk_box env t w)) = w_closeCheck w"
    "w_manager (snd (desk_box env t w)) = w_manager w" "w_busy (snd (desk_box env t w)) = w_busy w"
    "w_task (snd (desk_box env t w)) = w_task w" "w_result (snd (desk_box env t w)) = w_result w"
    "w_quit (snd (desk_box env t w)) = w_quit w" "w_dirty (snd (desk_box env t w)) = w_dirty w"
    "w_buttons (snd (desk_box env t w)) = w_buttons w" "w_editOn (snd (desk_box env t w)) = w_editOn w"
    "w_recovery (snd (desk_box env t w)) = w_recovery w" "w_editor (snd (desk_box env t w)) = w_editor w"
    "w_filename (snd (desk_box env t w)) = w_filename w" "w_fs (snd (desk_box env t w)) = w_fs w"
    "w_sessionSecrets (snd (desk_box env t w)) = w_sessionSecrets w" "w_secretFailed (snd (desk_box env t w)) = w_secretFailed w"
  by (simp_all add: desk_box_def Let_def split: prod.splits option.splits)

lemma reportConnectionError_fields [simp]:
    "w_settings (reportConnectionError env cid e w) = w_settings w" "w_selected (reportConnectionError env cid e w) = w_selected w"
    "w_closeCheck (reportConnectionError env cid e w) = w_closeCheck w" "w_busy (reportConnectionError env cid e w) = w_busy w"
    "w_task (reportConnectionError env cid e w) = w_task w" "w_result (reportConnectionError env cid e w) = w_result w"
    "w_quit (reportConnectionError env cid e w) = w_quit w" "w_dirty (reportConnectionError env cid e w) = w_dirty w"
    "w_recovery (reportConnectionError env cid e w) = w_recovery w" "w_editor (reportConnectionError env cid e w) = w_editor w"
    "w_filename (reportConnectionError env cid e w) = w_filename w" "w_fs (reportConnectionError env cid e w) = w_fs w"
    "w_sessionSecrets (reportConnectionError env cid e w) = w_sessionSecrets w" "w_secretFailed (reportConnectionError env cid e w) = w_secretFailed w"
  by (simp_all add: reportConnectionError_def Let_def split: prod.splits option.splits)

lemma profiles_settings: "w_settings w' = w_settings w \<Longrightarrow> profiles_of w' = profiles_of w"
  by (simp add: profiles_of_def)

end
