(* ===== verification/Desktop_Invariants.thy ===== *)
theory Desktop_Invariants
  imports Desktop_Fields Connection_Runs
begin

text \<open>
  The invariants of the desktop: the settings in memory are always valid and the selection always names a
  profile, the buttons are never stale, at most one background task runs, and every mounted connection
  belongs to a profile of the settings.
\<close>

subsection \<open>What an operation leaves alone\<close>

definition idle_same :: "('w, 's, 'b) window \<Rightarrow> ('w, 's, 'b) window \<Rightarrow> bool" where
  "idle_same w w' \<longleftrightarrow>
     w_settings w' = w_settings w \<and> w_selected w' = w_selected w \<and> w_rows w' = w_rows w \<and>
     w_closeCheck w' = w_closeCheck w \<and> w_manager w' = w_manager w \<and> w_busy w' = w_busy w \<and>
     w_task w' = w_task w \<and> w_result w' = w_result w \<and> w_quit w' = w_quit w \<and> w_dirty w' = w_dirty w \<and>
     w_buttons w' = w_buttons w \<and> w_editOn w' = w_editOn w \<and> w_editor w' = w_editor w \<and>
     w_filename w' = w_filename w \<and> w_sessionSecrets w' = w_sessionSecrets w \<and>
     w_secretFailed w' = w_secretFailed w \<and> prefix (w_log w) (w_log w')"

lemma idle_same_refl [simp]: "idle_same w w"
  by (simp add: idle_same_def)

lemma idle_same_trans: "idle_same w w1 \<Longrightarrow> idle_same w1 w2 \<Longrightarrow> idle_same w w2"
  by (auto simp: idle_same_def intro: prefix_order.trans)

lemma idle_same_steps [simp]:
  "idle_same w (tick w1) = idle_same w w1"
  "idle_same w (set_status s w1) = idle_same w w1"
  "idle_same w (w1\<lparr>w_fs := x\<rparr>) = idle_same w w1"
  by (simp_all add: idle_same_def)

lemma idle_same_shown [simp]:
  "idle_same w (window_report e w)" "idle_same w (desk_alert m w)" "idle_same w (snd (desk_box env t w))"
  by (simp_all add: idle_same_def window_report_def desk_alert_def desk_box_def Let_def tick_def split: option.splits)

lemma idle_same_report: "idle_same w w1 \<Longrightarrow> idle_same w (window_report e w1)"
  by (erule idle_same_trans) (rule idle_same_shown)

lemma box_idle: "desk_box env t w = (a, w') \<Longrightarrow> idle_same w w' \<and> w_fs w' = w_fs w \<and> w_log w' = w_log w @ [Asked t a]"
  by (auto simp: desk_box_def Let_def idle_same_def tick_def)

lemma write_settings_idle:
  assumes "write_settings env s w = (r, w')"
  shows "idle_same w w'" and "r = None \<Longrightarrow> settings_ok s"
proof -
  obtain r0 states where s: "SaveSettings (de_json env) (w_filename w) s (de_tempName env (w_clock w)) (de_now env (w_clock w)) (w_fs w)
     = (r0, states)" by (metis surj_pair)
  with assms show "idle_same w w'" by (auto simp: write_settings_def)
  assume "r = None"
  with assms s have "r0 = None" by (simp add: write_settings_def)
  with s show "settings_ok s"
    by (auto simp: SaveSettings_def Settings_Validate_ok split: option.splits)
qed

subsection \<open>Saving\<close>

lemma questions_idle:
  assumes "save_questions env p w = (ok, w')"
  shows "idle_same w w' \<and> w_fs w' = w_fs w"
    and "ok \<Longrightarrow> p_InsecureSkipTLSVerify p \<Longrightarrow> Asked ''save without certificate check?'' 6 \<in> set (drop (length (w_log w)) (w_log w'))"
    and "ok \<Longrightarrow> p_Protocol p = ProtocolFTP \<or> p_WebDAVScheme p = ''http'' \<Longrightarrow>
      Asked ''save plaintext connection?'' 6 \<in> set (drop (length (w_log w)) (w_log w'))"
  using assms
  by (auto simp: save_questions_def desk_box_def Let_def idle_same_def tick_def split: if_splits prod.splits)

text \<open>What a refused save did to the disk: nothing, or a run of \<open>SaveSettings\<close> that failed.\<close>

definition refused_disk :: "('w, 's, 'b, 'r, 'h) desk_env \<Rightarrow> ('w, 's, 'b) window \<Rightarrow> ('w, 's, 'b) window \<Rightarrow> bool" where
  "refused_disk env w w' \<longleftrightarrow> w_fs w' = w_fs w \<or>
     (\<exists>s rnd now e states. SaveSettings (de_json env) (w_filename w) s rnd now (w_fs w) = (Some e, states) \<and> w_fs w' = last states)"

lemma refused_disk_same: "w_fs w' = w_fs w \<Longrightarrow> refused_disk env w w'"
  by (simp add: refused_disk_def)

lemma refused_disk_write:
  "write_settings env s w1 = (Some e, w2) \<Longrightarrow> w_fs w1 = w_fs w \<Longrightarrow> w_filename w1 = w_filename w \<Longrightarrow> w_fs w' = w_fs w2 \<Longrightarrow>
   refused_disk env w w'"
  by (fastforce simp: refused_disk_def write_settings_def tick_def split: prod.splits)

lemma window_save_cases:
  assumes "window_save env w = (b, w')"
  obtains (refused) "\<not> b" "idle_same w w'" "refused_disk env w w'"
  | (saved) p secret w1 cid w2 sealed i "next" w3 where "b"
      "readEditor (editor_of w) = Inr (p, secret)"
      "save_checks p secret (de_drives env (w_clock w)) w = None"
      "save_questions env p (tick w) = (True, w1)"
      "if w_selected w \<ge> 0 then cid = sp_ID (profiles_of w ! nat (w_selected w)) \<and> w2 = w1
       else NewID (de_random env (w_clock w1)) = Inr cid \<and> w2 = tick w1"
      "(if ed_remember (editor_of w) then SealSecrets (de_json env) (de_dpapi env) secret else Inr []) = Inr sealed"
      "with_profile (w_settings w) (w_selected w) \<lparr>sp_ID = cid, sp_Profile = p, sp_ProtectedSecret = sealed\<rparr> = (next, i)"
      "write_settings env next w2 = (None, w3)"
      "idle_same w w2" "w_fs w2 = w_fs w" "idle_same w w3"
      "w' = set_status ''settings saved''
              (clearDirty (refreshList (w3\<lparr>w_settings := next, w_selected := i,
                 w_sessionSecrets := AList.update cid secret (w_sessionSecrets w3), w_secretFailed := False\<rparr>)))"
proof (cases "readEditor (editor_of w)")
  case (Inl e)
  with assms have "\<not> b" "idle_same w w'" "refused_disk env w w'" by (auto simp: window_save_def intro!: refused_disk_same)
  then show thesis by (rule refused)
next
  case (Inr ps)
  obtain p secret where ps: "ps = (p, secret)" by (cases ps)
  note r = Inr [unfolded ps]
  show thesis
  proof (cases "save_checks p secret (de_drives env (w_clock w)) w")
    case (Some e)
    with assms r have "\<not> b" "idle_same w w'" "refused_disk env w w'" by (auto simp: window_save_def intro!: idle_same_report refused_disk_same)
    then show thesis by (rule refused)
  next
    case None
    obtain ok w1 where q: "save_questions env p (tick w) = (ok, w1)" by (metis surj_pair)
    from questions_idle(1) [OF q] have s1: "idle_same w w1" "w_fs w1 = w_fs w"
      by (auto intro: idle_same_trans [of w "tick w"])
    then have f1: "w_settings w1 = w_settings w" "w_selected w1 = w_selected w" "editor_of w1 = editor_of w" "profiles_of w1 = profiles_of w"
      by (simp_all add: idle_same_def editor_of_def profiles_of_def)
    show thesis
    proof (cases ok)
      case False
      with assms r None q s1 have "\<not> b" "idle_same w w'" "refused_disk env w w'" by (auto simp: window_save_def intro!: refused_disk_same)
      then show thesis by (rule refused)
    next
      case True
      obtain x w2 where x: "(if w_selected w1 \<ge> 0 then (Inr (sp_ID (profiles_of w1 ! nat (w_selected w1))), w1)
            else (NewID (de_random env (w_clock w1)), tick w1)) = (x, w2)" by (metis surj_pair)
      with s1 have s2: "idle_same w w2" "w_fs w2 = w_fs w" by (auto split: if_splits)
      then have f2: "w_settings w2 = w_settings w" "w_selected w2 = w_selected w" "editor_of w2 = editor_of w"
        by (simp_all add: idle_same_def editor_of_def)
      show thesis
      proof (cases x)
        case (Inl e)
        with assms r None q True x s2 have "\<not> b" "idle_same w w'" "refused_disk env w w'" by (auto simp: window_save_def intro!: idle_same_report refused_disk_same)
        then show thesis by (rule refused)
      next
        case (Inr cid)
        show thesis
        proof (cases "if ed_remember (editor_of w) then SealSecrets (de_json env) (de_dpapi env) secret else Inr []")
          case (Inl e)
          with assms r None q True x Inr s2 f2 have "\<not> b" "idle_same w w'" "refused_disk env w w'"
            by (auto simp: window_save_def intro!: idle_same_report refused_disk_same)
          then show thesis by (rule refused)
        next
          case sealed: (Inr sealed)
          obtain "next" i where n: "with_profile (w_settings w) (w_selected w) \<lparr>sp_ID = cid, sp_Profile = p, sp_ProtectedSecret = sealed\<rparr> = (next, i)"
            by (metis surj_pair)
          obtain e w3 where ws: "write_settings env next w2 = (e, w3)" by (metis surj_pair)
          have s3: "idle_same w w3" using idle_same_trans [OF s2(1) write_settings_idle(1) [OF ws]] .
          show thesis
          proof (cases e)
            case (Some er)
            with assms r None q True x Inr sealed n ws f2 s3 have same: "\<not> b" "idle_same w w'"
              and fs: "w_fs w' = w_fs w3" by (auto simp: window_save_def Let_def intro!: idle_same_report)
            have "refused_disk env w w'"
              using refused_disk_write [OF ws [unfolded Some] s2(2) _ fs] s2(1) by (simp add: idle_same_def)
            with same show thesis by (rule refused)
          next
            case None2: None
            have c: "if w_selected w \<ge> 0 then cid = sp_ID (profiles_of w ! nat (w_selected w)) \<and> w2 = w1
              else NewID (de_random env (w_clock w1)) = Inr cid \<and> w2 = tick w1"
              using x Inr f1 by (auto split: if_splits)
            from assms r None q True x Inr sealed n ws f2 None2
            have "b" "w' = set_status ''settings saved''
              (clearDirty (refreshList (w3\<lparr>w_settings := next, w_selected := i,
                 w_sessionSecrets := AList.update cid secret (w_sessionSecrets w3), w_secretFailed := False\<rparr>)))"
              by (auto simp: window_save_def Let_def)
            from saved [OF this(1) r None q [unfolded True [THEN eqTrueI]] c sealed n ws [unfolded None2] s2 s3 this(2)]
            show thesis by simp
          qed
        qed
      qed
    qed
  qed
qed

subsection \<open>The settings, the selection and the buttons\<close>

definition buttons_fresh :: "('w, 's, 'b) window \<Rightarrow> bool" where
  "buttons_fresh w \<longleftrightarrow> w_busy w \<or>
     w_buttons w = profileButtons (w_selected w) (w_dirty w)
       (map (\<lambda>saved. mg_State (w_manager w) (sp_ID saved)) (profiles_of w)) \<and>
     w_editOn w = valid_selection (w_selected w) (profiles_of w)"

definition desk_sound :: "('w, 's, 'b) window \<Rightarrow> bool" where
  "desk_sound w \<longleftrightarrow> settings_ok (w_settings w) \<and> - 1 \<le> w_selected w \<and>
     w_selected w < int (length (profiles_of w)) \<and> length (w_rows w) = length (profiles_of w)"

definition desk_ui :: "('w, 's, 'b) window \<Rightarrow> bool" where
  "desk_ui w \<longleftrightarrow> desk_sound w \<and> w_closeCheck w = s_CloseToTray (w_settings w) \<and> buttons_fresh w"

lemmas ui_defs = desk_ui_def desk_sound_def buttons_fresh_def profiles_of_def

text \<open>What the rest of the program sees of an operation on the settings: the task and the mounts stay,
  and no profile with a connection is lost.\<close>

definition work_frame :: "('w, 's, 'b) window \<Rightarrow> ('w, 's, 'b) window \<Rightarrow> bool" where
  "work_frame w w' \<longleftrightarrow>
     w_busy w' = w_busy w \<and> w_task w' = w_task w \<and> w_result w' = w_result w \<and> w_quit w' = w_quit w \<and>
     mview (w_manager w') = mview (w_manager w) \<and> mg_wf (w_manager w') = mg_wf (w_manager w) \<and>
     (w_busy w \<longrightarrow> map sp_ID (profiles_of w') = map sp_ID (profiles_of w)) \<and>
     (\<forall>p \<in> set (profiles_of w). mview (w_manager w) (sp_ID p) \<noteq> None \<longrightarrow> sp_ID p \<in> set (map sp_ID (profiles_of w'))) \<and>
     prefix (w_log w) (w_log w')"

lemma work_frame_refl [simp]: "work_frame w w"
  by (simp add: work_frame_def)

lemma work_frame_trans:
  assumes "work_frame w w1" and "work_frame w1 w2"
  shows "work_frame w w2"
proof -
  have "sp_ID p \<in> set (map sp_ID (profiles_of w2))"
    if "p \<in> set (profiles_of w)" "mview (w_manager w) (sp_ID p) \<noteq> None" for p
  proof -
    from assms(1) that have "sp_ID p \<in> set (map sp_ID (profiles_of w1))" by (simp add: work_frame_def)
    then obtain q where "q \<in> set (profiles_of w1)" "sp_ID p = sp_ID q" by auto
    with assms that(2) show ?thesis by (auto simp: work_frame_def)
  qed
  moreover have "prefix (w_log w) (w_log w2)" using assms prefix_order.trans unfolding work_frame_def by blast
  ultimately show ?thesis using assms by (simp add: work_frame_def)
qed

lemma idle_same_ui: "idle_same w w' \<Longrightarrow> desk_ui w' = desk_ui w \<and> work_frame w w'"
  by (simp add: idle_same_def ui_defs work_frame_def)

lemma idle_ui: "idle_same w w' \<Longrightarrow> desk_ui w \<Longrightarrow> desk_ui w' \<and> work_frame w w'"
  using idle_same_ui by blast

lemma work_frame_steps [simp]:
  "work_frame w (tick w1) = work_frame w w1"
  "work_frame w (set_status s w1) = work_frame w w1"
  "work_frame w (updateActionButtons w1) = work_frame w w1"
  "work_frame w (updateProtocolControls w1) = work_frame w w1"
  "work_frame w (maskSecrets w1) = work_frame w w1"
  "work_frame w (upd_editor f w1) = work_frame w w1"
  "work_frame w (upd_dialog g w1) = work_frame w w1"
  "work_frame w (clearDirty w1) = work_frame w w1"
  "work_frame w (editor_markDirty w1) = work_frame w w1"
  "work_frame w (refreshList w1) = work_frame w w1"
  "work_frame w (desk_show w1) = work_frame w w1"
  "work_frame w (syncOwner w1) = work_frame w w1"
  "work_frame w (refreshDriveOptions env c w1) = work_frame w w1"
  by (simp_all add: work_frame_def profiles_of_def)

lemma ui_steps [simp]:
  "desk_ui (tick w) = desk_ui w" "desk_ui (set_status s w) = desk_ui w" "desk_ui (upd_editor f w) = desk_ui w"
  "desk_ui (updateProtocolControls w) = desk_ui w" "desk_ui (maskSecrets w) = desk_ui w"
  "desk_ui (desk_show w) = desk_ui w" "desk_ui (syncOwner w) = desk_ui w" "desk_ui (upd_dialog g w) = desk_ui w"
  "desk_ui (refreshDriveOptions env c w) = desk_ui w" "desk_ui (window_report e w) = desk_ui w"
  "desk_ui (desk_alert m w) = desk_ui w"
  by (simp_all add: ui_defs)

lemma fresh_update [simp]: "buttons_fresh (updateActionButtons w)"
  by (simp add: buttons_fresh_def updateActionButtons_def profiles_of_def)

lemma ui_update: "desk_sound w \<Longrightarrow> w_closeCheck w = s_CloseToTray (w_settings w) \<Longrightarrow> desk_ui (updateActionButtons w)"
  by (simp add: desk_ui_def) (simp add: desk_sound_def profiles_of_def)

lemma ui_clearDirty: "desk_sound w \<Longrightarrow> w_closeCheck w = s_CloseToTray (w_settings w) \<Longrightarrow> desk_ui (clearDirty w)"
  by (simp add: clearDirty_def ui_update desk_sound_def profiles_of_def)

lemma ui_cleared: "desk_ui w \<Longrightarrow> desk_ui (clearDirty w)"
  by (rule ui_clearDirty) (simp_all add: desk_ui_def)

lemma ui_refreshList:
  "settings_ok (w_settings w) \<Longrightarrow> - 1 \<le> w_selected w \<Longrightarrow> w_selected w < int (length (profiles_of w)) \<Longrightarrow>
   w_closeCheck w = s_CloseToTray (w_settings w) \<Longrightarrow> desk_ui (refreshList w)"
  by (simp add: ui_defs refreshList_def updateTrayTooltip_def updateActionButtons_def profileListRows_def)

lemma ui_markDirty: "desk_ui w \<Longrightarrow> desk_ui (editor_markDirty w)"
  by (simp add: editor_markDirty_def ui_update desk_ui_def) (simp add: ui_update ui_defs updateActionButtons_def)

lemma work_frame_report [simp]: "work_frame w w1 \<Longrightarrow> work_frame w (window_report e w1)"
  by (erule work_frame_trans) (rule idle_same_ui [THEN conjunct2, OF idle_same_shown(1)])

lemma work_frame_alert [simp]: "work_frame w w1 \<Longrightarrow> work_frame w (desk_alert m w1)"
  by (erule work_frame_trans) (rule idle_same_ui [THEN conjunct2, OF idle_same_shown(2)])

lemma update_ids: "sp_ID p = sp_ID (ps ! n) \<Longrightarrow> map sp_ID (ps[n := p]) = map sp_ID ps"
  by (metis list_update_id map_update)

lemma save_ui:
  assumes "desk_ui w" and "window_save env w = (b, w')"
  shows "desk_ui w' \<and> (\<not> w_busy w \<longrightarrow> work_frame w w')"
  using assms(2)
proof (cases rule: window_save_cases)
  case refused
  then show ?thesis using idle_ui assms(1) by blast
next
  case (saved p secret w1 cid w2 sealed i "next" w3)
  let ?saved = "\<lparr>sp_ID = cid, sp_Profile = p, sp_ProtectedSecret = sealed\<rparr>"
  have sel: "- 1 \<le> w_selected w" "w_selected w < int (length (s_Profiles (w_settings w)))"
    using assms(1) by (simp_all add: ui_defs)
  have ok: "settings_ok next" using write_settings_idle(2) [OF saved(8)] by simp
  have i: "- 1 \<le> i" "i < int (length (s_Profiles next))" "s_CloseToTray next = s_CloseToTray (w_settings w)"
    using saved(7) sel by (auto simp: with_profile_def split: if_splits)
  have ids: "map sp_ID (s_Profiles next) =
      (if w_selected w < 0 then map sp_ID (s_Profiles (w_settings w)) @ [cid] else map sp_ID (s_Profiles (w_settings w)))"
  proof (cases "w_selected w < 0")
    case True
    with saved(7) show ?thesis by (auto simp: with_profile_def)
  next
    case False
    with sel have n: "nat (w_selected w) < length (s_Profiles (w_settings w))" by linarith
    from False saved(5) have "cid = map sp_ID (s_Profiles (w_settings w)) ! nat (w_selected w)"
      using n by (simp add: profiles_of_def)
    with False saved(7) n show ?thesis by (auto simp: with_profile_def update_ids)
  qed
  have w3: "w_closeCheck w3 = w_closeCheck w" "w_busy w3 = w_busy w" "w_task w3 = w_task w" "w_result w3 = w_result w"
    "w_quit w3 = w_quit w" "w_manager w3 = w_manager w" "prefix (w_log w) (w_log w3)"
    using saved(11) by (simp_all add: idle_same_def)
  let ?w4 = "w3\<lparr>w_settings := next, w_selected := i,
    w_sessionSecrets := AList.update cid secret (w_sessionSecrets w3), w_secretFailed := False\<rparr>"
  have "desk_ui (refreshList ?w4)"
    using ok i w3 assms(1) by (intro ui_refreshList) (simp_all add: ui_defs)
  then have "desk_ui w'" unfolding saved(12) by (simp add: ui_cleared)
  moreover have "work_frame w w'" if "\<not> w_busy w"
    using that w3 ids unfolding saved(12) by (auto simp: work_frame_def profiles_of_def)
  ultimately show ?thesis by blast
qed

subsection \<open>The cache window keeps to itself\<close>

lemma idle_same_more [simp]:
  "idle_same w (upd_dialog f w1) = idle_same w w1"
  "idle_same w (syncOwner w1) = idle_same w w1"
  "idle_same w (desk_show w1) = idle_same w w1"
  "idle_same w (w1\<lparr>w_recovery := d\<rparr>) = idle_same w w1"
  "idle_same w (w1\<lparr>w_remote := b\<rparr>) = idle_same w w1"
  "idle_same w (w1\<lparr>w_fs := x, w_recovery := d\<rparr>) = idle_same w w1"
  by (simp_all add: idle_same_def)

lemma prefix_self_append [simp]: "prefix xs (xs @ ys)"
  by (simp add: prefix_def)

lemma idle_same_logged [simp]:
  "idle_same w w1 \<Longrightarrow> prefix (w_log w1) l \<Longrightarrow> idle_same w (w1\<lparr>w_log := l\<rparr>)"
  "idle_same w w1 \<Longrightarrow> idle_same w (desk_alert m w1)"
  "idle_same w w1 \<Longrightarrow> idle_same w (window_report e w1)"
  "idle_same w w1 \<Longrightarrow> idle_same w (snd (desk_box env t w1))"
  by (auto simp: idle_same_def window_report_def desk_alert_def desk_box_def Let_def tick_def intro: prefix_order.trans
      split: option.splits)

lemma idle_prune: "prune_cache env st w = (e, w') \<Longrightarrow> idle_same w w'"
  by (auto simp: prune_cache_def split: if_splits prod.splits)

lemma idle_refresh [simp]: "idle_same w w1 \<Longrightarrow> idle_same w (recovery_refresh env w1)"
  by (erule idle_same_trans)
     (auto simp: recovery_refresh_def dest: idle_prune split: option.splits prod.splits sum.splits)

lemma idle_showRecovery: "showRecoveryDialog env w = (e, w') \<Longrightarrow> idle_same w w'"
  by (auto simp: showRecoveryDialog_def split: if_splits option.splits prod.splits sum.splits)

lemma idle_beginRetry [simp]: "idle_same w (beginRetry i p s t ins w1) = idle_same w w1"
  by (simp add: beginRetry_def)

lemma idle_retrySelected: "idle_same w (retrySelected env w)"
  by (simp add: retrySelected_def desk_box_def Let_def split: option.splits sum.splits)

lemma idle_retry_worker: "idle_same w (retry_worker env w)"
  by (simp add: retry_worker_def split: option.splits prod.splits)

lemma idle_offerDelete [simp]: "idle_same w w1 \<Longrightarrow> idle_same w (offerDeleteAfterRetry env item w1)"
  by (erule idle_same_trans)
     (simp add: offerDeleteAfterRetry_def desk_box_def Let_def split: option.splits prod.splits)

lemma idle_finishRetry [simp]: "idle_same w w1 \<Longrightarrow> idle_same w (finishRetry env r w1)"
  by (erule idle_same_trans)
     (simp add: finishRetry_def desk_box_def Let_def split: option.splits prod.splits)

lemma idle_exportSelected: "idle_same w (exportSelected env w)"
  by (simp add: exportSelected_def desk_box_def Let_def split: option.splits prod.splits sum.splits)

lemma idle_deleteSelected: "idle_same w (deleteSelected env w)"
  by (simp add: deleteSelected_def desk_box_def Let_def split: option.splits prod.splits)

lemma idle_close: "idle_same w (recovery_close env w)"
  by (simp add: recovery_close_def split: option.splits)

lemma idle_folder: "idle_same w (openRecoveryFolder env w)"
  by (simp add: openRecoveryFolder_def split: option.splits)

lemma idle_retry_done: "idle_same w (retry_done env w)"
  by (simp add: retry_done_def split: option.splits)

lemma cache_settings_profiles:
  "cache_settings s a b c = Inr s' \<Longrightarrow> s_Profiles s' = s_Profiles s \<and> s_CloseToTray s' = s_CloseToTray s"
  by (auto simp: cache_settings_def split: sum.splits if_splits)

text \<open>A new settings document with the same profiles and tray option.\<close>

lemma new_settings:
  assumes "desk_ui w" and "idle_same w w1" and "settings_ok s"
    and "s_Profiles s = s_Profiles (w_settings w)" and "s_CloseToTray s = s_CloseToTray (w_settings w)"
  shows "desk_ui (w1\<lparr>w_settings := s\<rparr>) \<and> work_frame w (w1\<lparr>w_settings := s\<rparr>)"
  using assms by (simp add: idle_same_def ui_defs work_frame_def)

lemma saveCache_ui:
  assumes "desk_ui w"
  shows "desk_ui (saveCacheSettings env a b c w) \<and> work_frame w (saveCacheSettings env a b c w)"
proof (cases "cache_settings (w_settings w) a b c")
  case (Inl e)
  with assms show ?thesis by (simp add: saveCacheSettings_def)
next
  case (Inr s)
  obtain e w1 where ws: "write_settings env s w = (e, w1)" by (metis surj_pair)
  note idle = write_settings_idle [OF ws]
  show ?thesis
  proof (cases e)
    case (Some er)
    with Inr ws idle(1) assms show ?thesis
      using idle_ui [of w "desk_alert (err_Error er) w1"] by (simp add: saveCacheSettings_def)
  next
    case None
    let ?w2 = "w1\<lparr>w_settings := s\<rparr>"
    from new_settings [OF assms idle(1) idle(2) [OF None]] cache_settings_profiles [OF Inr]
    have 2: "desk_ui ?w2" "work_frame w ?w2" by simp_all
    have "idle_same ?w2 (snd (desk_box env ''cache settings saved'' (recovery_refresh env ?w2)))" by simp
    from idle_ui [OF this 2(1)] work_frame_trans [OF 2(2)] Inr ws None show ?thesis
      by (simp add: saveCacheSettings_def)
  qed
qed

lemma recovery_ui:
  assumes "desk_ui w"
  shows "desk_ui (recoveryWndProc env ev w) \<and> work_frame w (recoveryWndProc env ev w)"
proof (cases "\<exists>a b c. ev = SavePressed a b c")
  case True
  then obtain a b c where "ev = SavePressed a b c" by blast
  with assms saveCache_ui [OF assms, of env a b c] show ?thesis by (simp add: recoveryWndProc_def split: option.splits)
next
  case False
  then have "idle_same w (recoveryWndProc env ev w)"
    by (auto simp: recoveryWndProc_def recovery_select_def idle_retrySelected idle_exportSelected idle_deleteSelected
        idle_close idle_folder idle_retry_done split: option.splits recovery_event.splits)
  from idle_ui [OF this assms] show ?thesis .
qed

subsection \<open>The editor and the settings\<close>

definition manager_live :: "'s manager \<Rightarrow> bool" where
  "manager_live m \<longleftrightarrow> mg_wf m \<and> (\<forall>i q e. mview m i = Some (q, e) \<longrightarrow> ce_state e = Connected)"

lemma inactive_no_entry:
  "manager_live m \<Longrightarrow> connectionInactive (mg_State m i) \<Longrightarrow> mview m i = None"
  by (cases "mview m i") (auto simp: manager_live_def mg_State_def mg_entry_view connectionInactive_def)

lemma frame_live: "work_frame w w' \<Longrightarrow> manager_live (w_manager w') = manager_live (w_manager w)"
  by (simp add: work_frame_def manager_live_def)

lemma delete_ui:
  assumes "desk_ui w" and "manager_live (w_manager w)" and "\<not> w_busy w"
  shows "desk_ui (deleteProfile env w) \<and> work_frame w (deleteProfile env w)"
proof (cases "w_selected w < 0 \<or> \<not> connectionInactive (mg_State (w_manager w) (sp_ID (profiles_of w ! nat (w_selected w))))")
  case True
  with assms show ?thesis by (auto simp: deleteProfile_def Let_def)
next
  case False
  let ?n = "nat (w_selected w)" and ?ps = "profiles_of w"
  have n: "?n < length ?ps" using False assms(1) unfolding ui_defs by linarith
  obtain a w1 where q: "desk_box env ''delete the profile?'' w = (a, w1)" by (metis surj_pair)
  have s1: "idle_same w w1" using box_idle [OF q] by simp
  show ?thesis
  proof (cases "a = 6")
    case no: False
    with False q idle_ui [OF s1 assms(1)] show ?thesis by (simp add: deleteProfile_def Let_def)
  next
    case yes: True
    let ?next = "(w_settings w)\<lparr>s_Profiles := take ?n ?ps @ drop (Suc ?n) ?ps\<rparr>"
    have w1: "w_selected w1 = w_selected w" "w_settings w1 = w_settings w" "profiles_of w1 = ?ps"
      using s1 by (simp_all add: idle_same_def profiles_of_def)
    obtain e w2 where ws: "write_settings env ?next w1 = (e, w2)" by (metis surj_pair)
    have s2: "idle_same w w2" using idle_same_trans [OF s1 write_settings_idle(1) [OF ws]] .
    show ?thesis
    proof (cases e)
      case (Some er)
      with False yes q w1 ws idle_ui [OF idle_same_report [OF s2] assms(1), of "Some er"] show ?thesis
        by (simp add: deleteProfile_def Let_def)
    next
      case None
      let ?w3 = "w2\<lparr>w_sessionSecrets := AList.delete (sp_ID (?ps ! ?n)) (w_sessionSecrets w2), w_settings := ?next, w_selected := - 1\<rparr>"
      have run: "deleteProfile env w = set_status ''profile deleted'' (refreshList ?w3)"
        using False yes q w1 ws None by (simp add: deleteProfile_def Let_def)
      have "desk_ui (refreshList ?w3)"
        using s2 assms(1) write_settings_idle(2) [OF ws None]
        by (intro ui_refreshList) (simp_all add: idle_same_def ui_defs)
      moreover have "work_frame w (refreshList ?w3)"
      proof -
        have "mview (w_manager w) (sp_ID (?ps ! ?n)) = None"
          using inactive_no_entry [OF assms(2)] False by blast
        moreover have "set ?ps = insert (?ps ! ?n) (set (take ?n ?ps @ drop (Suc ?n) ?ps))"
          using arg_cong [OF id_take_nth_drop [OF n], of set] by auto
        ultimately have "sp_ID p \<in> set (map sp_ID (take ?n ?ps @ drop (Suc ?n) ?ps))"
          if "p \<in> set ?ps" "mview (w_manager w) (sp_ID p) \<noteq> None" for p
          using that by (cases "p = ?ps ! ?n") auto
        with s2 assms(3) show ?thesis by (simp add: work_frame_def idle_same_def profiles_of_def)
      qed
      ultimately show ?thesis using run by simp
    qed
  qed
qed

lemma setClose_ui:
  assumes "desk_ui (w\<lparr>w_closeCheck := c\<rparr>)"
  shows "desk_ui (setCloseToTray env w) \<and> work_frame w (setCloseToTray env w)"
proof -
  let ?next = "(w_settings w)\<lparr>s_CloseToTray := w_closeCheck w\<rparr>"
  obtain e w1 where ws: "write_settings env ?next w = (e, w1)" by (metis surj_pair)
  note idle = write_settings_idle [OF ws]
  show ?thesis
  proof (cases e)
    case None
    with ws idle assms show ?thesis
      by (simp add: setCloseToTray_def Let_def idle_same_def ui_defs work_frame_def)
  next
    case (Some er)
    with ws idle(1) assms show ?thesis
      by (simp add: setCloseToTray_def Let_def idle_same_def ui_defs) (simp add: work_frame_def profiles_of_def window_report_def desk_alert_def set_status_def)
  qed
qed

lemma switchStartup_ui: "desk_ui w \<Longrightarrow> desk_ui (switchStartup env w) \<and> work_frame w (switchStartup env w)"
  by (simp add: switchStartup_def Let_def ui_defs split: prod.splits option.splits)
     (simp add: work_frame_def profiles_of_def window_report_def desk_alert_def set_status_def)

lemma confirm_ui:
  assumes "desk_ui w" and "confirmProfileChange env w = (ok, w')" and "\<not> w_busy w"
  shows "desk_ui w' \<and> work_frame w w'"
proof (cases "w_dirty w")
  case True
  obtain a w1 where q: "desk_box env ''save the changes?'' w = (a, w1)" by (metis surj_pair)
  have s1: "idle_same w w1" using box_idle [OF q] by simp
  note 1 = idle_ui [OF s1 assms(1)]
  have nb: "\<not> w_busy w1" using s1 assms(3) by (simp add: idle_same_def)
  obtain b w2 where sv: "window_save env w1 = (b, w2)" by (metis surj_pair)
  note 2 = save_ui [OF conjunct1 [OF 1] sv]
  from True assms(2) q sv have "w' = w1 \<or> w' = w2"
    by (auto simp: confirmProfileChange_def allowProfileChange_def split: if_splits)
  with 1 2 nb work_frame_trans [of w w1 w2] show ?thesis by auto
next
  case False
  with assms show ?thesis by (auto simp: confirmProfileChange_def)
qed

lemma sound_select:
  "desk_ui w \<Longrightarrow> - 1 \<le> i \<Longrightarrow> i < int (length (profiles_of w)) \<Longrightarrow> desk_sound (w\<lparr>w_selected := i\<rparr>)"
  by (simp add: ui_defs)

lemma newProfile_ui:
  assumes "desk_ui w"
  shows "desk_ui (newProfile env w) \<and> work_frame w (newProfile env w)"
proof -
  have "desk_sound (w\<lparr>w_selected := - 1, w_secretFailed := False\<rparr>)"
    using assms by (simp add: ui_defs)
  then have "desk_ui (newProfile env w)"
    using assms unfolding newProfile_def Let_def by (intro ui_clearDirty) (simp_all add: ui_defs)
  moreover have "work_frame w (newProfile env w)"
    by (simp add: newProfile_def Let_def) (simp add: work_frame_def profiles_of_def)
  ultimately show ?thesis by blast
qed

lemma connection_error_ui:
  assumes "settings_ok (w_settings w)" "- 1 \<le> w_selected w" "w_selected w < int (length (profiles_of w))"
    and "w_closeCheck w = s_CloseToTray (w_settings w)"
  shows "desk_ui (reportConnectionError env cid e w)"
proof -
  have "desk_ui (refreshList (tick (w\<lparr>w_manager := mg_RecordError cid (Some e) (de_now env (w_clock w)) (w_manager w)\<rparr>)))"
    using assms by (intro ui_refreshList) (simp_all add: profiles_of_def)
  then show ?thesis by (simp add: reportConnectionError_def Let_def)
qed

lemma connection_error_frame [simp]: "work_frame w w1 \<Longrightarrow> work_frame w (reportConnectionError env cid e w1)"
  unfolding reportConnectionError_def Let_def
  by (erule work_frame_trans, rule work_frame_report) (simp, simp add: work_frame_def profiles_of_def)

lemma show_profile_ui:
  assumes "desk_ui w" and "valid_selection i (profiles_of w)"
  shows "desk_ui (show_profile env i w) \<and> work_frame w (show_profile env i w)"
proof -
  let ?p = "profiles_of w ! nat i"
  let ?w2 = "upd_editor (fill_editor ?p) (refreshDriveOptions env (p_DriveLetter (sp_Profile ?p)) (w\<lparr>w_selected := i\<rparr>))"
  let ?w3 = "\<lambda>s b. updateProtocolControls (maskSecrets (upd_editor (fill_secrets s) (?w2\<lparr>w_secretFailed := b\<rparr>)))"
  have sound: "settings_ok (w_settings (?w3 s b))" "- 1 \<le> w_selected (?w3 s b)"
    "w_selected (?w3 s b) < int (length (profiles_of (?w3 s b)))"
    "w_closeCheck (?w3 s b) = s_CloseToTray (w_settings (?w3 s b))" "desk_sound (?w3 s b)" for s b
    using assms by (simp_all add: ui_defs valid_selection_def)
  have frame: "work_frame w (?w3 s b)" for s b
    by simp (simp add: work_frame_def profiles_of_def)
  show ?thesis
  proof (cases "window_secrets env ?p ?w2")
    case (Inl e)
    let ?v = "?w3 \<lparr>sec_Password = '''', sec_Passphrase = ''''\<rparr> True"
    have "show_profile env i w = clearDirty (reportConnectionError env (sp_ID ?p) e ?v)"
      using Inl by (simp add: show_profile_def Let_def profiles_of_def is_ok_def)
    with ui_cleared [OF connection_error_ui [OF sound(1-4), of env "sp_ID ?p" e]] frame show ?thesis by simp
  next
    case (Inr s)
    have "show_profile env i w = clearDirty (set_status ''profile state'' (?w3 s False))"
      using Inr by (simp add: show_profile_def Let_def profiles_of_def is_ok_def)
    moreover have "desk_ui (clearDirty (set_status ''profile state'' (?w3 s False)))"
      using sound [of s False] by (intro ui_clearDirty) (simp_all add: desk_sound_def profiles_of_def)
    ultimately show ?thesis using frame by simp
  qed
qed

lemma loadEditor_ui:
  assumes "desk_ui w" and "\<not> w_busy w"
  shows "desk_ui (loadEditor env i w) \<and> work_frame w (loadEditor env i w)"
proof (cases "valid_selection i (profiles_of w)")
  case True
  obtain ok w1 where c: "(if i \<noteq> w_selected w then confirmProfileChange env w else (True, w)) = (ok, w1)"
    by (metis surj_pair)
  have 1: "desk_ui w1 \<and> work_frame w w1"
    using c confirm_ui [OF assms(1) _ assms(2), of env ok w1] assms(1) by (auto split: if_splits)
  have v: "valid_selection i (profiles_of w1)"
  proof (cases "i \<noteq> w_selected w")
    case True
    with c have conf: "confirmProfileChange env w = (ok, w1)" by simp
    have "length (profiles_of w) \<le> length (profiles_of w1)"
    proof (cases "w_dirty w")
      case True
      obtain a w0 where q: "desk_box env ''save the changes?'' w = (a, w0)" by (metis surj_pair)
      from box_idle [OF q] have 0: "profiles_of w0 = profiles_of w" by (simp add: idle_same_def profiles_of_def)
      obtain b w2 where sv: "window_save env w0 = (b, w2)" by (metis surj_pair)
      from sv have "length (profiles_of w0) \<le> length (profiles_of w2)"
      proof (cases rule: window_save_cases)
        case refused
        then show ?thesis by (simp add: idle_same_def profiles_of_def)
      next
        case (saved p secret w1 cid w2 sealed i "next" w3)
        then show ?thesis by (auto simp: with_profile_def profiles_of_def split: if_splits)
      qed
      with 0 True conf q sv show ?thesis
        by (auto simp: confirmProfileChange_def allowProfileChange_def split: if_splits)
    next
      case False
      with conf show ?thesis by (simp add: confirmProfileChange_def)
    qed
    with \<open>valid_selection i (profiles_of w)\<close> show ?thesis by (simp add: valid_selection_def)
  next
    case False
    with c \<open>valid_selection i (profiles_of w)\<close> show ?thesis by simp
  qed
  show ?thesis
  proof (cases ok)
    case True
    with 1 show_profile_ui [OF conjunct1 [OF 1] v, of env] work_frame_trans [of w w1 "show_profile env i w1"]
      c \<open>valid_selection i (profiles_of w)\<close> show ?thesis by (simp add: loadEditor_def)
  next
    case False
    with 1 c \<open>valid_selection i (profiles_of w)\<close> show ?thesis by (simp add: loadEditor_def)
  qed
next
  case False
  with assms show ?thesis by (simp add: loadEditor_def)
qed

lemma cancel_ui:
  assumes "desk_ui w" and "\<not> w_busy w"
  shows "desk_ui (cancelEditorChanges env w) \<and> work_frame w (cancelEditorChanges env w)"
proof -
  obtain a w1 where q: "desk_box env ''discard the changes?'' w = (a, w1)" by (metis surj_pair)
  have s1: "idle_same w w1" using box_idle [OF q] by simp
  note 1 = idle_ui [OF s1 assms(1)]
  have nb: "\<not> w_busy w1" using s1 assms(2) by (simp add: idle_same_def)
  have "cancelEditorChanges env w \<in> {w, w1, loadEditor env (w_selected w1) w1, newProfile env w1}"
    using q by (simp add: cancelEditorChanges_def)
  with 1 assms(1) loadEditor_ui [OF conjunct1 [OF 1] nb, of env "w_selected w1"] newProfile_ui [OF conjunct1 [OF 1], of env]
  show ?thesis using work_frame_trans [OF conjunct2 [OF 1]] by auto
qed

lemma showEditor_ui:
  assumes "desk_ui w" and "\<not> w_busy w" and "i < int (length (profiles_of w))" and "i = - 1 \<or> i = w_selected w"
  shows "desk_ui (report_failure (showProfileEditor env i w)) \<and> work_frame w (report_failure (showProfileEditor env i w))"
proof -
  let ?w1 = "tick (w\<lparr>w_editor := Some (null_editor\<lparr>ed_port := ''22''\<rparr>)\<rparr>)"
  have 1: "desk_ui ?w1" "work_frame w ?w1" "\<not> w_busy ?w1"
    using assms(1,2) by (simp_all add: ui_defs) (simp add: work_frame_def profiles_of_def)
  show ?thesis
  proof (cases "w_editor w = None")
    case False
    with assms(1) show ?thesis by (simp add: showProfileEditor_def report_failure_def)
  next
    case None: True
    show ?thesis
    proof (cases "de_window env (w_clock w)")
      case (Some e)
      with None assms(1) show ?thesis by (simp add: showProfileEditor_def report_failure_def)
    next
      case made: None
      show ?thesis
      proof (cases "i \<ge> 0")
        case True
        with assms(4) have "?w1\<lparr>w_selected := i\<rparr> = ?w1" by (auto simp: tick_def)
        with True None made have "report_failure (showProfileEditor env i w) = loadEditor env i ?w1"
          by (simp only: showProfileEditor_def report_failure_def Let_def simp_thms if_True if_False option.case prod.case)
        with loadEditor_ui [OF 1(1,3), of env i] work_frame_trans [OF 1(2)] show ?thesis by simp
      next
        case False
        with None made have "report_failure (showProfileEditor env i w) = newProfile env ?w1"
          by (simp only: showProfileEditor_def report_failure_def Let_def simp_thms if_True if_False option.case prod.case)
        with newProfile_ui [OF 1(1), of env] work_frame_trans [OF 1(2)] show ?thesis by simp
      qed
    qed
  qed
qed

lemma editor_close_ui:
  assumes "desk_ui w"
  shows "desk_ui (editor_close env w) \<and> work_frame w (editor_close env w)"
proof (cases "w_busy w")
  case True
  with assms show ?thesis by (simp add: editor_close_def)
next
  case False
  obtain ok w1 where c: "confirmProfileChange env w = (ok, w1)" by (metis surj_pair)
  note 1 = confirm_ui [OF assms c False]
  have "desk_ui (editor_destroy w1) \<and> work_frame w1 (editor_destroy w1)"
    using 1 by (simp add: editor_destroy_def ui_update ui_defs) (simp add: updateActionButtons_def work_frame_def profiles_of_def)
  with 1 False c work_frame_trans [of w w1] show ?thesis by (cases ok) (simp_all add: editor_close_def)
qed

lemma handleKey_ui:
  assumes "desk_ui w"
  shows "desk_ui (handleKey env key c d w) \<and> work_frame w (handleKey env key c d w)"
proof (cases "w_busy w")
  case False
  obtain b w1 where "window_save env w = (b, w1)" by (metis surj_pair)
  with save_ui [OF assms this] cancel_ui [OF assms False, of env] assms False show ?thesis
    by (auto simp: handleKey_def split: keyboard_command.splits)
next
  case True
  with assms show ?thesis by (simp add: handleKey_def)
qed

end
