(* ===== verification/Desktop_Work.thy ===== *)
theory Desktop_Work
  imports Desktop_Invariants
begin

text \<open>
  The background task of the desktop and the mounted connections: at most one task at a time, every
  mounted connection belongs to a profile, and what an exiting disconnect has detached so far.
\<close>

definition profile_ids :: "('w, 's, 'b) window \<Rightarrow> string set" where
  "profile_ids w = sp_ID ` set (profiles_of w)"

definition mounted :: "'s manager \<Rightarrow> string set" where
  "mounted m = {i. mview m i \<noteq> None}"

definition clean_result :: "disconnect_result \<Rightarrow> bool" where
  "clean_result res \<longleftrightarrow> dr_err res = None \<and> dr_canceled res = []"

definition task_ok :: "('w, 's, 'b) window \<Rightarrow> desk_task \<Rightarrow> bool" where
  "task_ok w t =
     (case t of
        ConnectTask p s \<Rightarrow> sp_ID p \<in> profile_ids w
      | ConnectAllTask ps auto rest r \<Rightarrow> sp_ID ` set rest \<subseteq> profile_ids w
      | DisconnectTask rest exiting res \<Rightarrow>
          exiting \<and> clean_result res \<longrightarrow> mounted (w_manager w) \<subseteq> sp_ID ` set rest
      | _ \<Rightarrow> True)"

definition result_ok :: "('w, 's, 'b) window \<Rightarrow> desk_task \<Rightarrow> err option \<Rightarrow> bool" where
  "result_ok w t e =
     (case t of
        DisconnectTask rest exiting res \<Rightarrow>
          e = dr_err res \<and> (exiting \<and> clean_result res \<longrightarrow> mounted (w_manager w) = {})
      | _ \<Rightarrow> True)"

definition desk_work :: "('w, 's, 'b) window \<Rightarrow> bool" where
  "desk_work w \<longleftrightarrow>
     w_busy w = (w_task w \<noteq> None \<or> w_result w \<noteq> None) \<and> (w_task w = None \<or> w_result w = None) \<and>
     manager_live (w_manager w) \<and> mounted (w_manager w) \<subseteq> profile_ids w \<and>
     (\<forall>t. w_task w = Some t \<longrightarrow> task_ok w t) \<and>
     (\<forall>t e. w_result w = Some (t, e) \<longrightarrow> result_ok w t e)"

lemma frame_mounted: "work_frame w w' \<Longrightarrow> mounted (w_manager w') = mounted (w_manager w)"
  by (simp add: work_frame_def mounted_def)

lemma frame_ids: "work_frame w w' \<Longrightarrow> w_busy w \<Longrightarrow> profile_ids w' = profile_ids w"
  unfolding work_frame_def profile_ids_def by (metis list.set_map)

lemma frame_profiles:
  assumes "work_frame w w'" and "mounted (w_manager w) \<subseteq> profile_ids w"
  shows "mounted (w_manager w') \<subseteq> profile_ids w'"
proof
  fix i assume i: "i \<in> mounted (w_manager w')"
  then have i: "i \<in> mounted (w_manager w)" using frame_mounted [OF assms(1)] by simp
  then have "mview (w_manager w) i \<noteq> None" by (simp add: mounted_def)
  moreover from i assms(2) obtain p where "p \<in> set (profiles_of w)" "i = sp_ID p"
    unfolding profile_ids_def by blast
  ultimately
  show "i \<in> profile_ids w'" using assms(1) by (auto simp: work_frame_def profile_ids_def)
qed

lemma frame_work:
  assumes "desk_work w" and "work_frame w w'"
  shows "desk_work w'"
proof -
  have "task_ok w' t" if "w_task w = Some t" for t
  proof -
    from that assms(1) have "w_busy w" "task_ok w t" by (auto simp: desk_work_def)
    then show ?thesis using frame_ids [OF assms(2)] frame_mounted [OF assms(2)] by (simp add: task_ok_def split: desk_task.splits)
  qed
  moreover have "result_ok w' t e" if "w_result w = Some (t, e)" for t e
    using that assms frame_mounted [OF assms(2)] by (auto simp: desk_work_def result_ok_def split: desk_task.splits)
  ultimately show ?thesis
    using assms frame_profiles [OF assms(2)] frame_live [OF assms(2)]
    by (simp add: desk_work_def) (simp add: work_frame_def)
qed

subsection \<open>Starting a task\<close>

lemma setBusy_busy [simp]: "w_busy (setBusy b w) = b"
  by (simp add: setBusy_def Let_def)

lemma start_task_inv:
  assumes "desk_ui w" and "desk_work w" and "\<not> w_busy w \<Longrightarrow> task_ok w t"
  shows "desk_ui (start_task t w) \<and> desk_work (start_task t w) \<and> w_quit (start_task t w) = w_quit w"
proof (cases "w_busy w")
  case True
  with assms show ?thesis by (simp add: start_task_def)
next
  case False
  then have "w_task w = None" "w_result w = None" using assms(2) unfolding desk_work_def by blast+
  with False assms show ?thesis
    by (simp add: start_task_def ui_defs desk_work_def task_ok_def profile_ids_def split: desk_task.splits)
qed

text \<open>An operation followed by a task, or just the operation.\<close>

lemma frame_then_task:
  assumes "desk_work w" and "desk_ui w1 \<and> work_frame w w1" and "\<not> w_busy w1 \<Longrightarrow> task_ok w1 t"
  shows "desk_ui (start_task t w1) \<and> desk_work (start_task t w1) \<and> w_quit (start_task t w1) = w_quit w"
  using start_task_inv [OF conjunct1 [OF assms(2)] frame_work [OF assms(1)] assms(3)] assms(2)
  by (simp add: work_frame_def)

definition desk_keeps :: "('w, 's, 'b) window \<Rightarrow> ('w, 's, 'b) window \<Rightarrow> bool" where
  "desk_keeps w w' \<longleftrightarrow> desk_ui w' \<and> desk_work w' \<and> w_quit w' = w_quit w"

lemma keeps_frame: "desk_work w \<Longrightarrow> desk_ui w' \<and> work_frame w w' \<Longrightarrow> desk_keeps w w'"
  using frame_work unfolding desk_keeps_def work_frame_def by blast

lemma keeps_idle: "desk_ui w \<Longrightarrow> desk_work w \<Longrightarrow> idle_same w w' \<Longrightarrow> desk_keeps w w'"
  using keeps_frame idle_ui by blast

lemma keeps_task:
  "desk_ui w \<Longrightarrow> desk_work w \<Longrightarrow> idle_same w w' \<Longrightarrow> (\<not> w_busy w' \<Longrightarrow> task_ok w' t) \<Longrightarrow> desk_keeps w (start_task t w')"
  using frame_then_task [OF _ idle_ui, of w w' t] unfolding desk_keeps_def by blast

lemma error_keeps:
  assumes "desk_ui w" and "desk_work w" and "idle_same w w1"
  shows "desk_keeps w (reportConnectionError env cid e w1)"
proof (rule keeps_frame [OF assms(2)], intro conjI)
  have "desk_ui w1" using idle_ui [OF assms(3,1)] by simp
  then show "desk_ui (reportConnectionError env cid e w1)"
    by (intro connection_error_ui) (simp_all add: ui_defs)
  show "work_frame w (reportConnectionError env cid e w1)"
    using idle_ui [OF assms(3,1)] by simp
qed

lemma valid_profile_id: "valid_selection i (profiles_of w) \<Longrightarrow> sp_ID (profiles_of w ! nat i) \<in> profile_ids w"
  by (auto simp: valid_selection_def profile_ids_def intro!: imageI nth_mem)

lemma connect_keeps:
  assumes "desk_ui w" and "desk_work w"
  shows "desk_keeps w (window_connect env i w)"
proof (cases "valid_selection i (profiles_of w)")
  case False
  with assms show ?thesis by (simp add: window_connect_def keeps_idle)
next
  case True
  let ?p = "profiles_of w ! nat i"
  have "idle_same w (tick w)" by simp
  note E = error_keeps [OF assms this, of env "sp_ID ?p"]
  have "task_ok (tick w) (ConnectTask ?p s)" for s
    using valid_profile_id [OF True] by (simp add: task_ok_def profile_ids_def profiles_of_def)
  then have T: "desk_keeps w (start_task (ConnectTask ?p s) (tick w))" for s
    by (intro keeps_task [OF assms]) simp_all
  show ?thesis
    using True E T by (auto simp: window_connect_def Let_def split: sum.splits option.splits)
qed

lemma connectAll_keeps: "desk_ui w \<Longrightarrow> desk_work w \<Longrightarrow> desk_keeps w (connectAll auto w)"
  unfolding connectAll_def by (rule keeps_task) (simp_all add: task_ok_def profile_ids_def)

lemma disconnect_keeps:
  assumes "desk_ui w" and "desk_work w" and "exiting \<Longrightarrow> ps = profiles_of w"
  shows "desk_keeps w (window_disconnect ps exiting w)"
  unfolding window_disconnect_def using assms
  by (intro keeps_task) (auto simp: task_ok_def desk_work_def profile_ids_def)

lemma exit_keeps: "desk_ui w \<Longrightarrow> desk_work w \<Longrightarrow> desk_keeps w (window_exit w)"
  by (simp add: window_exit_def disconnect_keeps keeps_idle)

lemma clearCache_keeps:
  assumes "desk_ui w" and "desk_work w"
  shows "desk_keeps w (clearCache env w)"
proof -
  obtain a w1 where q: "desk_box env ''clear the cache?'' w = (a, w1)" by (metis surj_pair)
  have s: "idle_same w w1" using box_idle [OF q] by simp
  have "desk_keeps w (start_task (ClearTask st) (w1\<lparr>w_fs := fs\<rparr>))" for st fs
    using s by (intro keeps_task [OF assms]) (simp_all add: task_ok_def)
  moreover have "desk_keeps w (window_report e (w1\<lparr>w_fs := fs\<rparr>))" for e fs
    using s by (intro keeps_idle [OF assms]) simp
  moreover have "desk_keeps w w1" "desk_keeps w (window_report e w)" for e
    using s by (intro keeps_idle [OF assms], simp)+
  ultimately show ?thesis
    using q by (auto simp: clearCache_def split: prod.splits sum.splits)
qed

lemma test_keeps:
  assumes "desk_ui w" and "desk_work w"
  shows "desk_keeps w (testConnection env w)"
proof (cases "readEditor (editor_of w)")
  case (Inl e)
  with assms show ?thesis by (simp add: testConnection_def keeps_idle)
next
  case (Inr ps)
  obtain p s where ps: "ps = (p, s)" by (cases ps)
  obtain a w1 where q: "(if p_InsecureSkipTLSVerify p \<or> p_Protocol p = ProtocolFTP \<or> p_WebDAVScheme p = ''http''
                 then desk_box env ''test insecure connection?'' w else (6, w)) = (a, w1)" by (metis surj_pair)
  then have i: "idle_same w w1" by (auto split: if_splits dest: box_idle)
  have "desk_keeps w w1" "desk_keeps w (start_task (TestTask p s) w1)"
    using keeps_idle [OF assms i] keeps_task [OF assms i, of "TestTask p s"] by (simp_all add: task_ok_def)
  with Inr ps q show ?thesis by (simp add: testConnection_def)
qed

subsection \<open>The goroutine\<close>

lemma Connect_live:
  assumes "manager_live m" and "mg_Connect so f cid p s m w = (r, m', w')"
  shows "manager_live m' \<and> mounted m' \<subseteq> insert cid (mounted m)"
proof (cases "connect_begin cid p (so_Now so w) m")
  case (Pair x m1)
  show ?thesis
  proof (cases x)
    case (Inl e)
    from view_connect_refused [OF Pair [unfolded Inl]] assms Pair Inl show ?thesis
      by (auto simp: mg_Connect_def manager_live_def mounted_def)
  next
    case (Inr q)
    have wf: "mg_wf m" using assms(1) by (simp add: manager_live_def)
    note b = view_begin [OF wf Pair [unfolded Inr]]
    obtain r1 w1 where f: "f cid p s w = (r1, w1)" by (metis surj_pair)
    obtain x2 m2 where e: "connect_end cid q r1 (so_Now so w1) m1 = (x2, m2)" by (metis surj_pair)
    from assms(2) Pair Inr f e have m': "m' = m2" by (simp add: mg_Connect_def)
    have v1: "mview m1 cid = Some (q, \<lparr>ce_drive = ToUpper (p_DriveLetter p), ce_state = Connecting, ce_session = None\<rparr>)"
      using b by simp
    from view_connect_end [OF conjunct1 [OF b] v1 e] b assms(1) show ?thesis
      unfolding m' by (cases r1) (auto simp: manager_live_def mounted_def split: if_splits)
  qed
qed

lemma RecordError_live [simp]:
  "manager_live (mg_RecordError cid e now m) = manager_live m" "mounted (mg_RecordError cid e now m) = mounted m"
  by (simp_all add: manager_live_def mounted_def)

lemma views_live:
  assumes "manager_live m" and "mg_wf m'" and "\<forall>j. mview m' j \<in> {None, mview m j}"
  shows "manager_live m' \<and> mounted m' \<subseteq> mounted m"
proof -
  have same: "mview m' j = Some x \<Longrightarrow> mview m j = Some x" for j x using spec [OF assms(3), of j] by auto
  then have "mounted m' \<subseteq> mounted m" by (auto simp: mounted_def)
  moreover have "manager_live m'" using assms(1,2) same unfolding manager_live_def by blast
  ultimately show ?thesis by blast
qed

text \<open>A step of the task, which runs while the window is busy: only the manager and its own rest change.\<close>

definition task_only :: "('w, 's, 'b) window \<Rightarrow> ('w, 's, 'b) window \<Rightarrow> bool" where
  "task_only w w' \<longleftrightarrow>
     w_settings w' = w_settings w \<and> w_selected w' = w_selected w \<and> w_rows w' = w_rows w \<and>
     w_closeCheck w' = w_closeCheck w \<and> w_busy w' = w_busy w \<and> w_quit w' = w_quit w \<and>
     w_result w' = w_result w"

lemma connect_one_facts:
  assumes "connect_one env ps auto p res w = (res', w')" and "manager_live (w_manager w)"
  shows "task_only w w' \<and> manager_live (w_manager w') \<and> mounted (w_manager w') \<subseteq> insert (sp_ID p) (mounted (w_manager w))"
  using assms
  by (auto simp: connect_one_def Let_def task_only_def split: if_splits sum.splits option.splits prod.splits
      dest!: Connect_live [OF assms(2)])

lemma disconnect_one_facts:
  assumes "disconnect_one env p res w = (res', w')" and "manager_live (w_manager w)"
  shows "task_only w w' \<and> manager_live (w_manager w') \<and> mounted (w_manager w') \<subseteq> mounted (w_manager w) \<and>
    (clean_result res' \<longrightarrow> clean_result res \<and> sp_ID p \<notin> mounted (w_manager w'))"
proof -
  let ?so = "de_sessions env"
  let ?c = "\<lambda>_ _. de_box env (w_clock w) ''force the disconnect?'' = 6"
  have wf: "mg_wf (w_manager w)" using assms(2) by (simp add: manager_live_def)
  obtain r m ws where run: "disconnect_loop ?so ?c [p] res (w_manager w) (w_mounts w) = (r, m, ws)" by (metis prod_cases3)
  note o = disconnect_loop_outcome [OF wf run]
  have "mg_wf m"
  proof -
    obtain r1 m1 w1 where d: "mg_Disconnect ?so (sp_ID p) (w_manager w) (w_mounts w) = (r1, m1, w1)" by (metis prod_cases3)
    obtain x m2 w2 where f: "mg_ForceDisconnect ?so (sp_ID p) m1 w1 = (x, m2, w2)" by (metis prod_cases3)
    have "mg_wf m1" using Disconnect_outcome [OF wf d] by simp
    moreover obtain msg r2 where x: "x = (msg, r2)" by (cases x)
    ultimately have "mg_wf m2" using disconnect_outcome [OF _ f [unfolded mg_ForceDisconnect_def x]] by simp
    with \<open>mg_wf m1\<close> d f x run show ?thesis by (auto split: option.splits if_splits)
  qed
  from views_live [OF assms(2) this conjunct1 [OF o]] have live: "manager_live m" "mounted m \<subseteq> mounted (w_manager w)" by blast+
  have w': "w_manager w' = m" "res' = r" "task_only w w'"
    using assms(1) run
    by (cases "fst (mg_Disconnect ?so (sp_ID p) (w_manager w) (w_mounts w)) = None";
        simp add: disconnect_one_def Let_def task_only_def del: disconnect_loop.simps; force)+
  have "clean_result r \<longrightarrow> clean_result res \<and> sp_ID p \<notin> mounted m"
    using o by (auto simp: clean_result_def mounted_def)
  with live w' show ?thesis by simp
qed

lemma task_only_ids: "task_only w w' \<Longrightarrow> profile_ids w' = profile_ids w"
  by (simp add: task_only_def profile_ids_def profiles_of_def)

lemma task_only_ui: "task_only w w' \<Longrightarrow> w_busy w \<Longrightarrow> desk_ui w \<Longrightarrow> desk_ui w'"
  by (simp add: task_only_def ui_defs)

lemma result_ok_task [simp]: "result_ok (w\<lparr>w_task := x, w_result := y\<rparr>) u e = result_ok w u e"
  by (simp add: result_ok_def split: desk_task.splits)

lemma task_ok_task [simp]: "task_ok (w\<lparr>w_task := x\<rparr>) t = task_ok w t"
  by (simp add: task_ok_def profile_ids_def profiles_of_def split: desk_task.splits)

lemma task_ends:
  assumes "desk_ui w" and "w_busy w" and "task_only w w'" and "manager_live (w_manager w')"
    and "mounted (w_manager w') \<subseteq> profile_ids w" and "result_ok w' t e"
  shows "desk_keeps w (finish_task t e w')"
proof -
  have "w_busy w'" "desk_ui w'" "profile_ids w' = profile_ids w" "w_quit w' = w_quit w"
    using assms(2,3) task_only_ui [OF assms(3,2,1)] task_only_ids [OF assms(3)] by (simp_all add: task_only_def)
  then show ?thesis
    using assms(4-6) by (simp add: desk_keeps_def finish_task_def desk_work_def profile_ids_def) (simp add: ui_defs)
qed

lemma task_goes_on:
  assumes "desk_ui w" and "w_busy w" and "w_result w = None" and "task_only w w'" and "manager_live (w_manager w')"
    and "mounted (w_manager w') \<subseteq> profile_ids w" and "task_ok w' t"
  shows "desk_keeps w (w'\<lparr>w_task := Some t\<rparr>)"
proof -
  have "w_busy w'" "desk_ui w'" "profile_ids w' = profile_ids w" "w_quit w' = w_quit w" "w_result w' = None"
    using assms(2,3,4) task_only_ui [OF assms(4,2,1)] task_only_ids [OF assms(4)] by (simp_all add: task_only_def)
  then show ?thesis
    using assms(5-7) by (simp add: desk_keeps_def desk_work_def profile_ids_def) (simp add: ui_defs)
qed

lemma worker_keeps:
  assumes "desk_ui w" and "desk_work w"
  shows "desk_keeps w (worker_step env w)"
proof (cases "w_task w")
  case None
  with assms show ?thesis by (simp add: worker_step_def desk_keeps_def)
next
  case (Some t)
  have busy: "w_busy w" "w_result w = None" "task_ok w t" "manager_live (w_manager w)"
    "mounted (w_manager w) \<subseteq> profile_ids w"
    using assms(2) Some by (auto simp: desk_work_def)
  note fin = task_ends [OF assms(1) busy(1)] and go = task_goes_on [OF assms(1) busy(1,2)]
  have self: "task_only w w" "task_only w (w\<lparr>w_fs := x\<rparr>)" "task_only w (w\<lparr>w_remote := b\<rparr>)" for x b
    by (simp_all add: task_only_def)
  show ?thesis
  proof (cases t)
    case (ConnectTask p s)
    obtain r m ws where c: "mg_Connect (de_sessions env) (de_factory env (w_settings w)) (sp_ID p) (sp_Profile p) s
        (w_manager w) (w_mounts w) = (r, m, ws)" by (metis prod_cases3)
    have "desk_keeps w (finish_task t r (w\<lparr>w_manager := m, w_mounts := ws\<rparr>))"
      using Connect_live [OF busy(4) c] busy(3,5) ConnectTask
      by (intro fin) (auto simp: task_only_def task_ok_def result_ok_def)
    with Some ConnectTask c show ?thesis by (simp add: worker_step_def task_step_def)
  next
    case (ConnectAllTask ps auto rest res)
    show ?thesis
    proof (cases rest)
      case Nil
      have "desk_keeps w (finish_task t res w)" using busy self ConnectAllTask by (intro fin) (simp_all add: result_ok_def)
      with Some ConnectAllTask Nil show ?thesis by (simp add: worker_step_def task_step_def)
    next
      case (Cons p rest')
      obtain res' w1 where c: "connect_one env ps auto p res w = (res', w1)" by (metis surj_pair)
      note f = connect_one_facts [OF c busy(4)]
      have "desk_keeps w (w1\<lparr>w_task := Some (ConnectAllTask ps auto rest' res')\<rparr>)"
        using f busy(3,5) ConnectAllTask Cons task_only_ids [of w w1] by (intro go) (auto simp: task_ok_def)
      with Some ConnectAllTask Cons c show ?thesis by (simp add: worker_step_def task_step_def)
    qed
  next
    case (DisconnectTask rest exiting res)
    show ?thesis
    proof (cases rest)
      case Nil
      have "desk_keeps w (finish_task t (dr_err res) w)"
        using busy self DisconnectTask Nil by (intro fin) (simp_all add: result_ok_def task_ok_def)
      with Some DisconnectTask Nil show ?thesis by (simp add: worker_step_def task_step_def)
    next
      case (Cons p rest')
      obtain res' w1 where c: "disconnect_one env p res w = (res', w1)" by (metis surj_pair)
      note f = disconnect_one_facts [OF c busy(4)]
      have "desk_keeps w (w1\<lparr>w_task := Some (DisconnectTask rest' exiting res')\<rparr>)"
        using f busy(3,5) DisconnectTask Cons by (intro go) (auto simp: task_ok_def)
      with Some DisconnectTask Cons c show ?thesis by (simp add: worker_step_def task_step_def)
    qed
  next
    case (ClearTask st)
    obtain n e fs where "store_Clear st (w_fs w) = ((n, e), fs)" by (metis surj_pair)
    moreover have "desk_keeps w (finish_task t e (w\<lparr>w_fs := fs\<rparr>))"
      using busy self ClearTask by (intro fin) (simp_all add: result_ok_def)
    ultimately show ?thesis using Some ClearTask by (simp add: worker_step_def task_step_def)
  next
    case (TestTask p s)
    have "desk_keeps w (finish_task t e (w\<lparr>w_remote := b\<rparr>))" for e b
      using busy self TestTask by (intro fin) (simp_all add: result_ok_def)
    with Some TestTask show ?thesis
      by (auto simp: worker_step_def task_step_def split: prod.splits sum.splits)
  qed
qed

end
