(* ===== verification/Desktop_Facts.thy ===== *)
theory Desktop_Facts
  imports Desktop_Work
begin

text \<open>
  Every handler of the main window keeps the invariants of the desktop: the end of a task, the commands,
  the check boxes.
\<close>

lemma keeps_trans: "desk_keeps w w1 \<Longrightarrow> desk_keeps w1 w2 \<Longrightarrow> desk_keeps w w2"
  by (simp add: desk_keeps_def)

lemma keepsD: "desk_keeps w w' \<Longrightarrow> desk_ui w' \<and> desk_work w'"
  by (simp add: desk_keeps_def)

subsection \<open>The end of a task\<close>

lemma refresh_items_idle: "refreshRecoveryItems env w = (e, w') \<Longrightarrow> idle_same w w'"
  by (auto simp: refreshRecoveryItems_def idle_same_def split: prod.splits sum.splits)

lemma after_task:
  assumes "desk_ui w" and "desk_work w" and "w_result w = Some (t, e)"
  shows "desk_ui (refreshList (setBusy False (w\<lparr>w_result := None\<rparr>))) \<and>
    desk_work (refreshList (setBusy False (w\<lparr>w_result := None\<rparr>)))"
proof -
  have "w_task w = None" using assms(2,3) by (auto simp: desk_work_def)
  then show ?thesis
    using assms by (intro conjI ui_refreshList) (simp_all add: ui_defs desk_work_def profile_ids_def)
qed

lemma setBusy_False_inv:
  assumes "desk_ui w" and "desk_work w"
    and "w_settings v = w_settings w" "w_selected v = w_selected w" "w_rows v = w_rows w"
    "w_closeCheck v = w_closeCheck w" "w_manager v = w_manager w" "w_task v = w_task w" "w_result v = w_result w"
    and "w_task w = None" "w_result w = None"
  shows "desk_ui (setBusy False v) \<and> desk_work (setBusy False v) \<and> w_quit (setBusy False v) = w_quit v \<and>
    w_manager (setBusy False v) = w_manager w"
proof -
  have "desk_ui (updateActionButtons (updateProtocolControls (v\<lparr>w_busy := False\<rparr>)))"
    using assms by (intro ui_update) (simp_all add: ui_defs)
  with assms show ?thesis
    by (simp add: setBusy_def Let_def desk_work_def profile_ids_def profiles_of_def)
qed

lemma disconnect_done_inv:
  assumes "desk_ui w" and "desk_work w" and "\<not> w_busy w"
  shows "desk_ui (disconnect_done env ex res e w) \<and> desk_work (disconnect_done env ex res e w) \<and>
    (w_quit (disconnect_done env ex res e w) \<longleftrightarrow> w_quit w \<or> (ex \<and> e = None \<and> dr_canceled res = [])) \<and>
    w_manager (disconnect_done env ex res e w) = w_manager w"
proof -
  let ?w0 = "setBusy True w"
  let ?w1 = "if e \<noteq> None then window_report e ?w0
             else if dr_canceled res \<noteq> [] then set_status ''forced disconnect declined'' ?w0 else window_report None ?w0"
  let ?w2 = "if dr_forceMessage res \<noteq> ''''
             then desk_alert (dr_forceMessage res) (set_status (dr_forceMessage res) (desk_show ?w1)) else ?w1"
  let ?w3 = "if \<not> ex then (case refreshRecoveryItems env ?w2 of
                             (None, w') \<Rightarrow> w' | (Some er, w') \<Rightarrow> desk_alert (err_Error er) w') else ?w2"
  let ?w4 = "if ex \<and> e = None \<and> dr_canceled res = [] then ?w3\<lparr>w_quit := True\<rparr> else ?w3"
  have 2: "idle_same ?w0 ?w2" by simp
  have 3: "idle_same ?w0 ?w3"
  proof (cases ex)
    case False
    obtain x w' where r: "refreshRecoveryItems env ?w2 = (x, w')" by (metis surj_pair)
    have "idle_same ?w0 w'" by (rule idle_same_trans [OF 2 refresh_items_idle [OF r]])
    then show ?thesis unfolding r using False by (simp split: option.splits)
  next
    case True
    with 2 show ?thesis by simp
  qed
  obtain w3 where run: "disconnect_done env ex res e w =
      setBusy False (if ex \<and> e = None \<and> dr_canceled res = [] then w3\<lparr>w_quit := True\<rparr> else w3)"
    and i: "idle_same ?w0 w3"
    using that [OF _ 3] by (simp only: disconnect_done_def Let_def)
  let ?v = "if ex \<and> e = None \<and> dr_canceled res = [] then w3\<lparr>w_quit := True\<rparr> else w3"
  have same: "w_settings ?v = w_settings w" "w_selected ?v = w_selected w" "w_rows ?v = w_rows w"
    "w_closeCheck ?v = w_closeCheck w" "w_manager ?v = w_manager w" "w_task ?v = w_task w" "w_result ?v = w_result w"
    "w_quit ?v \<longleftrightarrow> w_quit w \<or> (ex \<and> e = None \<and> dr_canceled res = [])"
    using i by (auto simp: idle_same_def)
  have tr: "w_task w = None" "w_result w = None" using assms(2,3) unfolding desk_work_def by blast+
  from setBusy_False_inv [OF assms(1,2) same(1-7) tr] same(8) show ?thesis unfolding run by blast
qed

lemma task_done_inv:
  assumes "desk_ui w" and "desk_work w" and "\<not> w_quit w"
  shows "desk_ui (task_done env w) \<and> desk_work (task_done env w) \<and>
    (w_quit (task_done env w) \<longrightarrow> mounted (w_manager (task_done env w)) = {})"
proof (cases "w_result w")
  case None
  with assms show ?thesis by (simp add: task_done_def)
next
  case (Some te)
  obtain t e where te: "te = (t, e)" by (cases te)
  note r = Some [unfolded te]
  let ?w1 = "refreshList (setBusy False (w\<lparr>w_result := None\<rparr>))"
  have ok: "result_ok w t e" using assms(2) r by (simp add: desk_work_def)
  have w1: "desk_ui ?w1" "desk_work ?w1" "\<not> w_busy ?w1" "\<not> w_quit ?w1" "w_manager ?w1 = w_manager w"
    using after_task [OF assms(1,2) r] assms(3) by simp_all
  have idle: "desk_ui w' \<and> desk_work w' \<and> (w_quit w' \<longrightarrow> mounted (w_manager w') = {})" if "idle_same ?w1 w'" for w'
    using keeps_idle [OF w1(1,2) that] w1(4) by (simp add: desk_keeps_def)
  show ?thesis
  proof (cases t)
    case (DisconnectTask rest ex res)
    have run: "task_done env w = disconnect_done env ex res e ?w1"
      using r DisconnectTask by (simp add: task_done_def Let_def)
    have "mounted (w_manager w) = {}" if "ex" "e = None" "dr_canceled res = []"
      using ok that DisconnectTask by (simp add: result_ok_def clean_result_def)
    with disconnect_done_inv [OF w1(1-3), of env ex res e] w1(4,5) show ?thesis unfolding run by auto
  next
    case (ClearTask st)
    obtain x w2 where q: "refreshRecoveryItems env ?w1 = (x, w2)" by (metis surj_pair)
    have "idle_same ?w1 (clear_done env e ?w1)"
      using refresh_items_idle [OF q] by (simp add: clear_done_def q split: option.splits)
    with idle r ClearTask show ?thesis by (simp add: task_done_def Let_def)
  next
    case (TestTask p s)
    have "idle_same ?w1 (if e = None then snd (desk_box env ''connection test passed''
        (set_status ''connection test passed'' (window_report None ?w1))) else window_report e ?w1)" by simp
    from idle [OF this] r TestTask show ?thesis by (simp add: task_done_def Let_def)
  qed (use r idle [OF idle_same_shown(1)] in \<open>simp_all add: task_done_def Let_def\<close>)
qed

subsection \<open>Commands\<close>

lemma keeps_self: "desk_ui w \<Longrightarrow> desk_work w \<Longrightarrow> desk_keeps w w"
  by (simp add: desk_keeps_def)

lemma opened_idle: "idle_same w w' \<Longrightarrow> idle_same w (report_failure (e, w'))"
  by (simp add: report_failure_def split: option.splits)

lemma browse_keeps:
  assumes "desk_ui w" and "desk_work w"
  shows "desk_keeps w (browsePath env get put w)"
proof -
  have "desk_ui (editor_markDirty (upd_editor f (tick w))) \<and> work_frame w (editor_markDirty (upd_editor f (tick w)))" for f
    using assms(1) by (simp add: ui_markDirty)
  from keeps_frame [OF assms(2)] this assms show ?thesis
    by (auto simp: browsePath_def keeps_idle split: sum.splits option.splits)
qed

lemma protocol_keeps: "desk_ui w \<Longrightarrow> desk_work w \<Longrightarrow> desk_keeps w (protocol_chosen w)"
  by (simp add: protocol_chosen_def Let_def keeps_frame keeps_self)

lemma toggle_keeps:
  assumes "desk_ui w" and "desk_work w"
  shows "desk_keeps w (toggle_connection env i w)"
  using connect_keeps [OF assms, of env i] disconnect_keeps [OF assms, of False]
  by (simp add: toggle_connection_def Let_def)

lemma about_keeps: "desk_ui w \<Longrightarrow> desk_work w \<Longrightarrow> desk_keeps w (about_box env w)"
  by (rule keeps_idle) (auto simp: about_box_def opened_idle dest: box_idle split: prod.splits)

lemma folder_keeps: "desk_ui w \<Longrightarrow> desk_work w \<Longrightarrow> desk_keeps w (openCacheFolder env w)"
  by (rule keeps_idle) (auto simp: openCacheFolder_def opened_idle split: prod.splits sum.splits)

lemma showRecovery_keeps: "desk_ui w \<Longrightarrow> desk_work w \<Longrightarrow> desk_keeps w (report_failure (showRecoveryDialog env w))"
  by (metis keeps_idle opened_idle idle_showRecovery surj_pair)

lemma save_keeps: "desk_ui w \<Longrightarrow> desk_work w \<Longrightarrow> \<not> w_busy w \<Longrightarrow> desk_keeps w (snd (window_save env w))"
  by (metis keeps_frame save_ui surj_pair snd_conv)

lemma editor_keeps:
  assumes "desk_ui w" and "desk_work w" and "\<not> w_busy w"
  shows "w_selected w \<ge> 0 \<Longrightarrow> desk_keeps w (report_failure (showProfileEditor env (w_selected w) w))"
    and "desk_keeps w (report_failure (showProfileEditor env (- 1) (desk_show w)))"
proof -
  assume "w_selected w \<ge> 0"
  have "w_selected w < int (length (profiles_of w))" using assms(1) by (simp add: ui_defs)
  from showEditor_ui [OF assms(1,3) this, of env] keeps_frame [OF assms(2)]
  show "desk_keeps w (report_failure (showProfileEditor env (w_selected w) w))" by blast
next
  have 1: "desk_ui (desk_show w)" "\<not> w_busy (desk_show w)" "desk_keeps w (desk_show w)"
    using assms by (simp_all add: keeps_frame)
  then have "desk_work (desk_show w)" by (simp add: desk_keeps_def)
  from keeps_frame [OF this showEditor_ui [OF 1(1,2), of "- 1" env]] keeps_trans [OF 1(3)]
  show "desk_keeps w (report_failure (showProfileEditor env (- 1) (desk_show w)))" by simp
qed

lemma toggles_keep:
  "desk_ui w \<Longrightarrow> desk_work w \<Longrightarrow> desk_keeps w (w\<lparr>w_passwordVisible := x\<rparr>)"
  "desk_ui w \<Longrightarrow> desk_work w \<Longrightarrow> desk_keeps w (w\<lparr>w_passphraseVisible := x\<rparr>)"
  by (rule keeps_frame; simp add: ui_defs; simp add: work_frame_def profiles_of_def)+

lemma keeps_if:
  "(P \<Longrightarrow> desk_keeps w a) \<Longrightarrow> (\<not> P \<Longrightarrow> desk_keeps w b) \<Longrightarrow> desk_keeps w (if P then a else b)"
  by simp

lemma dispatch_keeps:
  assumes "desk_ui w" and "desk_work w" and "\<not> w_busy w"
  shows "desk_keeps w (dispatch env cid notice w)"
proof -
  have live: "manager_live (w_manager w)" using assms(2) by (simp add: desk_work_def)
  have same: "w\<lparr>w_closeCheck := w_closeCheck w\<rparr> = w" by simp
  show ?thesis
    unfolding dispatch_def
    by (intro keeps_if keeps_self [OF assms(1,2)] editor_keeps [OF assms] save_keeps [OF assms]
        browse_keeps [OF assms(1,2)] toggles_keep [OF assms(1,2)] test_keeps [OF assms(1,2)]
        keeps_frame [OF assms(2) delete_ui [OF assms(1) live assms(3)]]
        connect_keeps [OF assms(1,2)] disconnect_keeps [OF assms(1,2)] connectAll_keeps [OF assms(1,2)]
        about_keeps [OF assms(1,2)] showRecovery_keeps [OF assms(1,2)] folder_keeps [OF assms(1,2)]
        clearCache_keeps [OF assms(1,2)] exit_keeps [OF assms(1,2)] protocol_keeps [OF assms(1,2)]
        keeps_frame [OF assms(2) setClose_ui [where w = w and c = "w_closeCheck w", unfolded same, OF assms(1)]]
        keeps_frame [OF assms(2) switchStartup_ui [OF assms(1)]]) simp_all
qed

lemma command_keeps:
  assumes "desk_ui w" and "desk_work w"
  shows "desk_keeps w (window_command env cid notice inp key w)"
proof (cases "cid = idShow \<or> w_busy w")
  case True
  with assms show ?thesis by (auto simp: window_command_def keeps_frame keeps_self)
next
  case False
  define w1 where "w1 = (if (cid = 0 \<and> inp \<and> (notice = 0 \<or> notice = 0x300)) \<or>
                        ((cid = idProtocol \<or> cid = idDrive) \<and> notice = 1) then editor_markDirty w else w)"
  define w2 where "w2 = (if key \<and> notice = 0x300 then updateProtocolControls w1 else w1)"
  have "desk_ui w2" "work_frame w w2" "w_busy w2 = w_busy w"
    using assms(1) by (simp_all add: w1_def w2_def ui_markDirty)
  with keeps_frame [OF assms(2)] False have k: "desk_keeps w w2" "desk_ui w2" "desk_work w2" "\<not> w_busy w2"
    by (simp_all add: desk_keeps_def)
  have "desk_keeps w2 (toggle_connection env (cid - 1000) w2)" "desk_keeps w2 (dispatch env cid notice w2)"
    by (rule toggle_keeps [OF k(2,3)], rule dispatch_keeps [OF k(2-4)])
  from keeps_trans [OF k(1) this(1)] keeps_trans [OF k(1) this(2)] False
  show ?thesis by (simp add: window_command_def Let_def w1_def [symmetric] w2_def [symmetric])
qed

lemma check_keeps:
  assumes "desk_ui w" and "desk_work w"
  shows "desk_keeps w (check_clicked env cid w)"
proof (cases "w_busy w \<or> cid \<noteq> idCloseToTray")
  case True
  let ?w1 = "if cid = idStartup then w\<lparr>w_startupCheck := \<not> w_startupCheck w\<rparr> else w"
  have "desk_keeps w ?w1" using assms by (intro keeps_idle) (simp_all add: idle_same_def)
  with keepsD [OF this] have "desk_keeps w (window_command env cid 0 False False ?w1)"
    using keeps_trans [OF _ command_keeps] by blast
  with True assms show ?thesis by (auto simp: check_clicked_def keeps_self)
next
  case False
  let ?w1 = "w\<lparr>w_closeCheck := \<not> w_closeCheck w\<rparr>"
  have "check_clicked env cid w = setCloseToTray env ?w1"
    using False by (simp add: check_clicked_def window_command_def command_ids dispatch_def)
  moreover have "?w1\<lparr>w_closeCheck := w_closeCheck w\<rparr> = w" by simp
  with setClose_ui [where w = ?w1 and c = "w_closeCheck w" and env = env] assms(1)
  have "desk_ui (setCloseToTray env ?w1) \<and> work_frame ?w1 (setCloseToTray env ?w1)" by simp
  moreover from this have "work_frame w (setCloseToTray env ?w1)" by (simp add: work_frame_def profiles_of_def)
  ultimately show ?thesis using keeps_frame [OF assms(2)] by simp
qed

end
