(* ===== verification/Desktop_Demo.thy ===== *)
theory Desktop_Demo
  imports Desktop_Facts Recovery_Facts
begin

text \<open>
  A concrete desktop, on which the properties of the program are applied: the services of Windows as plain
  functions, one saved profile, and a server that refuses every connection test.
\<close>

definition demo_saved :: saved_profile where
  "demo_saved = \<lparr>sp_ID = ''a'', sp_Profile = sample_profile\<lparr>p_VolumeName := ''nas''\<rparr>,
     sp_ProtectedSecret = [255, 0, 0, 119, 1, 112, 1]\<rparr>"

definition demo_settings :: settings where
  "demo_settings = DefaultSettings\<lparr>s_Profiles := [demo_saved]\<rparr>"

definition demo_env :: "(unit, nat, unit, unit, unit) desk_env" where
  "demo_env = \<lparr>de_box = (\<lambda>n tag. 6), de_drives = (\<lambda>n. Inr 0), de_window = (\<lambda>n. None), de_now = (\<lambda>n. int n),
     de_stamp = (\<lambda>n. ''stamp''), de_random = (\<lambda>n. Inr [7]), de_tempName = (\<lambda>n. ''1''),
     de_json = demo_secrets_js\<lparr>js_DecodeSettings := (\<lambda>d b. case b of
        x # rest \<Rightarrow> Inr (demo_settings\<lparr>s_CacheRetentionDays := uint x\<rparr>, rest) | [] \<Rightarrow> Inl (Sentinel EOF))\<rparr>,
     de_dpapi = demo_protector, de_metadata = demo_mj,
     de_cacheDir = Inr ''/c'', de_configDir = Inr ''/d'', de_isAbs = (\<lambda>s. True), de_executable = Inr ''/dk'',
     de_sessions = demo_ops, de_factory = (\<lambda>s i p sec w. (Inr 8, w)),
     de_open = (\<lambda>p sec b. (Inl (ErrNew ''refused''), b)),
     de_shell = (\<lambda>n path. None), de_chooseFile = (\<lambda>n name. Inr None)\<rparr>"

definition demo_profile_disk :: lfs where
  "demo_profile_disk = \<lparr>fs_nodes = [(''/c'', DirNode), (''/d'', DirNode), (''/d/DKDrive'', DirNode),
      (''/d/DKDrive/settings.json'', Reg [30, 10] 5 True)],
     fs_cwd = ''/'', fs_faults = (\<lambda>_ _. None)\<rparr>"

definition demo_begin :: "err + (unit, nat, unit) window" where
  "demo_begin = desk_start demo_env False True demo_registry demo_profile_disk () ()"

definition demo_first :: "(unit, nat, unit) window" where
  "demo_first = projr demo_begin"

text \<open>The user connects the profile, it gets its drive, then the user leaves the program.\<close>

definition demo_after :: "desk_event list \<Rightarrow> (unit, nat, unit) window" where
  "demo_after evs = fold (desk_step demo_env) evs demo_first"

definition demo_connecting :: "desk_event list" where
  "demo_connecting = [RowChosen 0, Command idConnect 0 False False, WorkerStep, TaskMessage]"

definition demo_leaving :: "desk_event list" where
  "demo_leaving = demo_connecting @ [Command idExit 0 False False, WorkerStep, WorkerStep]"

lemma demo_begin_ok: "is_ok demo_begin"
  by code_simp

lemma demo_first_state: "\<not> w_quit demo_first" "\<not> w_busy demo_first" "w_editor demo_first = None" "w_log demo_first = []"
    "w_settings demo_first = demo_settings" "w_manager demo_first = mg_New" "w_clock demo_first = 1"
    "w_sessionSecrets demo_first = []" "length (w_rows demo_first) = 1" "w_dirty demo_first = False"
  by code_simp+

lemma demo_write:
  "fst (SaveSettings (de_json demo_env) (w_filename demo_first) demo_settings (de_tempName demo_env 5) (de_now demo_env 5) (w_fs demo_first)) = None"
  by code_simp

lemma demo_after_reachable: "desk_reachable demo_env (demo_after evs)"
proof (induction evs rule: rev_induct)
  case Nil
  have "x = Inr (projr x)" if "is_ok x" for x :: "err + (unit, nat, unit) window"
    using that by (cases x) simp_all
  from this [OF demo_begin_ok] have "demo_begin = Inr demo_first" by (simp only: demo_first_def)
  then have "desk_start demo_env False True demo_registry demo_profile_disk () () = Inr demo_first"
    by (simp add: demo_begin_def)
  from desk_started [OF this] show ?case by (simp add: demo_after_def)
next
  case (snoc ev evs)
  from desk_stepped [OF snoc, of ev] show ?case by (simp add: demo_after_def)
qed

lemma demo_left:
  "\<not> w_quit (demo_after demo_leaving)" "w_quit (desk_step demo_env TaskMessage (demo_after demo_leaving))"
  by code_simp+

lemma demo_idle: "w_task (demo_after demo_connecting) = None" "w_result (demo_after demo_connecting) = None"
  by code_simp+

lemma demo_connected: "\<not> w_quit (demo_after demo_connecting) \<and> \<not> w_busy (demo_after demo_connecting) \<and>
    mg_entry (w_manager (demo_after demo_connecting)) ''a'' \<noteq> None"
  by code_simp

end
