(* ===== verification/Desktop_Reachable.thy ===== *)
theory Desktop_Reachable
  imports Desktop_Demo
begin

text \<open>
  Every step of the desktop keeps the invariants, and what follows for every state the program can
  reach: valid settings, a selection that names a profile, fresh buttons, and an exit that leaves nothing
  mounted.
\<close>

subsection \<open>Every step\<close>

lemma step_keeps:
  assumes "desk_ui w" and "desk_work w" and "\<not> w_quit w" and "\<And>n. ev \<noteq> EndSession True n" and "ev \<noteq> TaskMessage"
  shows "desk_keeps w (desk_step env ev w)"
proof -
  have run: "desk_keeps w (user_edit env f cid notice key w)" for f cid notice key
  proof (cases "w_busy w \<or> w_editor w = None")
    case True
    with assms show ?thesis by (auto simp: user_edit_def keeps_self)
  next
    case False
    have "desk_keeps w (upd_editor f w)" using assms(1,2) by (intro keeps_frame) simp_all
    moreover from keepsD [OF this]
    have "desk_keeps (upd_editor f w) (window_command env cid notice True key (upd_editor f w))"
      by (intro command_keeps) simp_all
    ultimately have "desk_keeps w (window_command env cid notice True key (upd_editor f w))" by (rule keeps_trans)
    then show ?thesis using False unfolding user_edit_def by (simp only: if_False)
  qed
  have key: "desk_keeps w (handleKey env key c d w)" for key c d
    by (rule keeps_frame [OF assms(2) handleKey_ui [OF assms(1)]])
  have close: "desk_keeps w (window_close w)"
    using exit_keeps [OF assms(1,2)] keeps_idle [OF assms(1,2), of "w\<lparr>w_shown := False\<rparr>"] keeps_idle [OF assms(1,2)]
    by (simp add: window_close_def) (simp add: idle_same_def)
  have row: "desk_keeps w (row_chosen i w)" for i
  proof (rule keeps_frame [OF assms(2)], intro conjI)
    show "desk_ui (row_chosen i w)"
      using assms(1) by (simp add: row_chosen_def ui_update ui_defs) (simp add: updateActionButtons_def profiles_of_def)
    show "work_frame w (row_chosen i w)"
      by (simp add: row_chosen_def) (simp add: work_frame_def profiles_of_def)
  qed
  have tray: "desk_keeps w (tray_added ok w)" for ok
    using assms(1,2) by (intro keeps_idle) (simp_all add: tray_added_def Let_def idle_same_def)
  have editor: "desk_keeps w (if w_editor w = None then w else editor_close env w)"
    using keeps_frame [OF assms(2) editor_close_ui [OF assms(1), of env]] keeps_self [OF assms(1,2)] by simp
  have dbl: "desk_keeps w (report_failure (showProfileEditor env (w_selected w) w))" if "\<not> w_busy w" "w_selected w \<ge> 0"
    using editor_keeps(1) [OF assms(1,2)] that by blast
  show ?thesis
    unfolding desk_step_def
    using assms(3-5) run key close row tray editor dbl command_keeps [OF assms(1,2), of env] check_keeps [OF assms(1,2), of env]
      connectAll_keeps [OF assms(1,2), of True] worker_keeps [OF assms(1,2), of env] keeps_self [OF assms(1,2)]
      keeps_idle [OF assms(1,2) idle_retry_worker, of env] keeps_frame [OF assms(2) recovery_ui [OF assms(1)], of env]
      keeps_idle [OF assms(1,2), of "desk_show w"]
    by (cases ev) (simp_all, blast)
qed

lemma LoadSettings_ok: "LoadSettings js f fs = (s, None) \<Longrightarrow> settings_ok s"
  by (auto simp: LoadSettings_def Let_def Settings_Validate_ok [symmetric] split: sum.splits if_splits)
     (simp add: Settings_Validate_ok settings_ok_def DefaultSettings_def)

lemma load_cases:
  assumes "\<And>a. x = (a, None) \<Longrightarrow> P" and "\<And>a e. x = (a, Some e) \<Longrightarrow> P"
  shows P
  using assms by (cases x; cases "snd x") auto

lemma sum_pair_cases:
  assumes "\<And>a s. x = (Inr a, s) \<Longrightarrow> P" and "\<And>e s. x = (Inl e, s) \<Longrightarrow> P"
  shows P
  using assms by (cases x; cases "fst x") auto

lemma error_pair_cases:
  assumes "\<And>a s. x = ((a, None), s) \<Longrightarrow> P" and "\<And>a e s. x = ((a, Some e), s) \<Longrightarrow> P"
  shows P
  using assms by (cases x; cases "snd (fst x)") auto

lemma not_mounted: "i \<notin> mounted m \<longleftrightarrow> mg_entry m i = None"
  unfolding mounted_def mg_entry_view by (simp only: mem_Collect_eq not_not option.map_disc_iff)

lemma nothing_mounted: "mounted m = {} \<longleftrightarrow> mg_entries m = []"
proof -
  have "mounted m = {} \<longleftrightarrow> (\<forall>j. mview m j = None)" unfolding mounted_def by (simp only: set_eq_iff mem_Collect_eq empty_iff simp_thms)
  then show ?thesis by (simp only: no_entries)
qed

lemma start_inv:
  assumes "desk_start env hidden tray rg fs ms rm = Inr w"
  shows "desk_ui w \<and> desk_work w \<and> \<not> w_quit w"
proof -
  obtain filename where 1: "SettingsPath (de_configDir env) = Inr filename"
    using assms by (cases "SettingsPath (de_configDir env)") (simp_all add: desk_start_def)
  obtain s where 2: "LoadSettings (de_json env) filename fs = (s, None)"
    using assms 1 by (cases "LoadSettings (de_json env) filename fs" rule: load_cases) (simp_all add: desk_start_def)
  obtain st fs1 where 3: "New (de_cacheDir env) '''' fs = (Inr st, fs1)"
    using assms 1 2 by (cases "New (de_cacheDir env) '''' fs" rule: sum_pair_cases) (simp_all add: desk_start_def)
  obtain n fs2 where 4: "PruneExpired (de_metadata env) st (s_CacheRetentionDays s) (de_now env 0) fs1 = ((n, None), fs2)"
    using assms 1 2 3 by (cases "PruneExpired (de_metadata env) st (s_CacheRetentionDays s) (de_now env 0) fs1"
        rule: error_pair_cases) (simp_all add: desk_start_def)
  obtain scanned where 5: "store_Scan (de_metadata env) st fs2 = Inr scanned"
    using assms 1 2 3 4 by (cases "store_Scan (de_metadata env) st fs2") (simp_all add: desk_start_def)
  obtain usage where 6: "store_Usage st scanned fs2 = Inr usage"
    using assms 1 2 3 4 5 by (cases "store_Usage st scanned fs2") (simp_all add: desk_start_def)
  obtain enabled where 7: "startupEnabled rg = (enabled, None)"
    using assms 1 2 3 4 5 6 by (cases "startupEnabled rg" rule: load_cases) (simp_all add: desk_start_def)
  have "\<exists>v. w = refreshList (if \<not> hidden \<or> \<not> tray then desk_show v else v) \<and> w_settings v = s \<and>
      w_selected v = - 1 \<and> w_closeCheck v = s_CloseToTray s \<and> w_busy v = False \<and> w_task v = None \<and>
      w_result v = None \<and> w_quit v = False \<and> w_manager v = mg_New"
    using assms unfolding desk_start_def 1 2 3 4 5 6 7 sum.case prod.case option.case Let_def sum.inject
    by (intro exI conjI) (erule sym, simp_all)
  then obtain v where v: "w = refreshList (if \<not> hidden \<or> \<not> tray then desk_show v else v)" "w_settings v = s"
    "w_selected v = - 1" "w_closeCheck v = s_CloseToTray s" "w_busy v = False" "w_task v = None" "w_result v = None"
    "w_quit v = False" "w_manager v = mg_New"
    by blast
  note v = v LoadSettings_ok [OF 2]
  then have "desk_ui w" by (auto intro!: ui_refreshList simp: profiles_of_def)
  moreover have "desk_work w"
    using v by (simp add: desk_work_def manager_live_def mounted_def)
  ultimately show ?thesis using v by simp
qed

text \<open>What every reachable state satisfies; after the program has quit only the settings matter.\<close>

definition desk_inv :: "('w, 's, 'b) window \<Rightarrow> bool" where
  "desk_inv w \<longleftrightarrow> desk_sound w \<and> w_closeCheck w = s_CloseToTray (w_settings w) \<and>
     (\<not> w_quit w \<longrightarrow> buttons_fresh w \<and> desk_work w)"

lemma inv_live: "desk_inv w \<Longrightarrow> \<not> w_quit w \<Longrightarrow> desk_ui w \<and> desk_work w"
  by (simp add: desk_inv_def desk_ui_def)

lemma inv_of: "desk_ui w \<Longrightarrow> desk_work w \<Longrightarrow> desk_inv w"
  by (simp add: desk_inv_def desk_ui_def)

lemma session_end_inv: "desk_ui w \<Longrightarrow> desk_inv (finishWindowsSession env n w)"
  by (cases "disconnectProfilesForSessionEnd (de_sessions env) (take n (profiles_of w)) (w_manager w) (w_mounts w)")
     (simp add: finishWindowsSession_def desk_inv_def desk_ui_def desk_sound_def profiles_of_def)

lemma step_inv:
  assumes "desk_inv w"
  shows "desk_inv (desk_step env ev w) \<and>
    (\<not> w_quit w \<longrightarrow> (\<forall>n. ev \<noteq> EndSession True n) \<longrightarrow> w_quit (desk_step env ev w) \<longrightarrow>
       mounted (w_manager (desk_step env ev w)) = {})"
proof (cases "w_quit w")
  case True
  with assms show ?thesis by (simp add: desk_step_def)
next
  case False
  note w = inv_live [OF assms False]
  show ?thesis
  proof (cases "\<exists>n. ev = EndSession True n")
    case True
    then obtain n where "ev = EndSession True n" by blast
    with False have "desk_step env ev w = finishWindowsSession env n w" by (simp add: desk_step_def)
    with w session_end_inv [of w env n] \<open>ev = EndSession True n\<close> show ?thesis by simp
  next
    case no: False
    show ?thesis
    proof (cases "ev = TaskMessage")
      case True
      with False have "desk_step env ev w = task_done env w" by (simp add: desk_step_def)
      with task_done_inv [OF conjunct1 [OF w] conjunct2 [OF w] False, of env] inv_of show ?thesis by auto
    next
      case other: False
      with step_keeps [OF conjunct1 [OF w] conjunct2 [OF w] False, of ev env] no inv_of False show ?thesis
        by (auto simp: desk_keeps_def)
    qed
  qed
qed

lemma reachable_inv: "desk_reachable env w \<Longrightarrow> desk_inv w"
proof (induction rule: desk_reachable.induct)
  case (desk_started hidden tray rg fs mounts remote w)
  from start_inv [OF desk_started] inv_of show ?case by blast
next
  case (desk_stepped w ev)
  with step_inv show ?case by blast
qed

text \<open>
  C11. Whatever the user, the servers and Windows do, the settings in memory stay a valid document (so no
  two profiles share a drive letter or an identifier), the selected row always names a profile or none, the
  list shows one row for each profile, and the check box for the tray shows what is saved. In particular
  no handler indexes the profiles out of range.
\<close>

theorem desk_settings_valid:
  assumes "desk_reachable env w"
  shows "Settings_Validate (w_settings w) = None \<and> - 1 \<le> w_selected w \<and>
    w_selected w < int (length (profiles_of w)) \<and> length (w_rows w) = length (profiles_of w) \<and>
    w_closeCheck w = s_CloseToTray (w_settings w)"
  using reachable_inv [OF assms] by (simp add: desk_inv_def desk_sound_def Settings_Validate_ok)

theorem desk_settings_valid_witness:
  "Settings_Validate (w_settings (demo_after demo_connecting)) = None \<and>
   w_selected (demo_after demo_connecting) < int (length (profiles_of (demo_after demo_connecting)))"
  using desk_settings_valid [OF demo_after_reachable, of demo_connecting] by blast

text \<open>
  C10. The program ends by its own Exit only with every drive detached: when a step other than the end of
  the Windows session makes the program quit, no connection is left in the manager, however the profiles,
  the disconnects and their errors came about.
\<close>

theorem exit_detaches_all:
  assumes "desk_reachable env w" and "\<not> w_quit w" and "w_quit (desk_step env ev w)"
    and "\<And>n. ev \<noteq> EndSession True n"
  shows "mg_entries (w_manager (desk_step env ev w)) = []"
proof -
  from step_inv [OF reachable_inv [OF assms(1)], of env ev] assms(2-4)
  have "mounted (w_manager (desk_step env ev w)) = {}" by blast
  then show ?thesis by (simp only: nothing_mounted)
qed

theorem exit_detaches_all_witness:
  "mg_entries (w_manager (desk_step demo_env TaskMessage (demo_after demo_leaving))) = []"
  by (rule exit_detaches_all [OF demo_after_reachable demo_left]) simp

text \<open>
  C12. The buttons of the main window are never stale: whenever no operation runs, Save is enabled exactly
  when there are changes, Edit exactly when a profile is selected, Connect and Delete exactly when the selected
  profile has no connection, Disconnect exactly when it has one, Connect all exactly when some profile has no
  connection, and Disconnect all exactly when anything is mounted at all. While an operation runs there is
  exactly one, still running or waiting to be reported.
\<close>

theorem buttons_never_stale:
  assumes "desk_reachable env w" and "\<not> w_quit w"
  shows "(w_busy w \<longleftrightarrow> (w_task w = None) \<noteq> (w_result w = None)) \<and>
    (if w_busy w then True
     else
       let selected = valid_selection (w_selected w) (profiles_of w);
           entry = mg_entry (w_manager w) (sp_ID (profiles_of w ! nat (w_selected w)))
       in bs_connect (w_buttons w) = (selected \<and> entry = None) \<and>
          bs_delete (w_buttons w) = (selected \<and> entry = None) \<and>
          bs_disconnect (w_buttons w) = (selected \<and> entry \<noteq> None) \<and>
          bs_save (w_buttons w) = w_dirty w \<and> w_editOn w = selected \<and>
          bs_connectAll (w_buttons w) = (\<exists>p \<in> set (profiles_of w). mg_entry (w_manager w) (sp_ID p) = None) \<and>
          bs_disconnectAll (w_buttons w) = (mg_entries (w_manager w) \<noteq> []))"
proof -
  from inv_live [OF reachable_inv [OF assms(1)] assms(2)] have u: "desk_ui w" and k: "desk_work w" by simp_all
  have busy: "w_busy w \<longleftrightarrow> (w_task w = None) \<noteq> (w_result w = None)" using k by (auto simp: desk_work_def)
  show ?thesis
  proof (cases "w_busy w")
    case True
    with busy show ?thesis by simp
  next
    case False
    have live: "manager_live (w_manager w)" and sub: "mounted (w_manager w) \<subseteq> profile_ids w"
      using k by (simp_all add: desk_work_def)
    have act: "connectionInactive (mg_State (w_manager w) i) \<longleftrightarrow> mg_entry (w_manager w) i = None
        \<or> mg_entry (w_manager w) i \<noteq> None \<and> False" for i
    proof (cases "mg_entry (w_manager w) i")
      case None
      then show ?thesis by (auto simp: mg_State_def connectionInactive_def split: option.splits)
    next
      case (Some e)
      with inactive_no_entry [OF live, of i] show ?thesis by (auto simp: mg_entry_view)
    qed
    have b: "w_buttons w = profileButtons (w_selected w) (w_dirty w)
        (map (\<lambda>saved. mg_State (w_manager w) (sp_ID saved)) (profiles_of w))"
      using u False by (simp add: desk_ui_def buttons_fresh_def)
    have edit: "w_editOn w = valid_selection (w_selected w) (profiles_of w)"
      using u False by (simp add: desk_ui_def buttons_fresh_def)
    have all: "mg_entries (w_manager w) \<noteq> [] \<longleftrightarrow> (\<exists>p \<in> set (profiles_of w). mg_entry (w_manager w) (sp_ID p) \<noteq> None)"
    proof -
      have "mg_entries (w_manager w) \<noteq> [] \<longleftrightarrow> mounted (w_manager w) \<noteq> {}"
        by (simp only: nothing_mounted)
      also have "\<dots> \<longleftrightarrow> (\<exists>p \<in> set (profiles_of w). mg_entry (w_manager w) (sp_ID p) \<noteq> None)"
        using sub unfolding profile_ids_def not_mounted [symmetric] by blast
      finally show ?thesis .
    qed
    show ?thesis
      using busy False
      by (auto simp: b edit all profileButtons_def Let_def valid_selection_def act list_ex_iff not_less)
  qed
qed

theorem buttons_never_stale_witness:
  "bs_disconnectAll (w_buttons (demo_after demo_connecting)) \<and>
   w_task (demo_after demo_connecting) = None \<and> w_result (demo_after demo_connecting) = None"
  using buttons_never_stale [OF demo_after_reachable, of demo_connecting] demo_connected demo_idle
  by (auto simp: Let_def mg_entry_def)

end
