(* ===== verification/Desktop_Saving.thy ===== *)
theory Desktop_Saving
  imports Desktop_Reachable
begin

text \<open>
  The profile editor: a profile it saved is read back unchanged, a save changes exactly one profile and only
  with the user's consent to the dangerous settings, and what was saved survives a restart.
\<close>

subsection \<open>From the editor to the profile and back\<close>

lemma readEditor_cases:
  assumes "readEditor e = Inr (p, secret)"
  obtains port where "ParseUint16 (TrimSpace (ed_port e)) = Inr port" "port \<noteq> 0" "p = editor_profile e port"
    "profile_ok p" "secret = editor_secrets e p"
  using assms
  by (auto simp: readEditor_def Let_def Profile_Validate_ok [symmetric] split: sum.splits if_splits option.splits)

lemma parse_digits_nonneg: "parse_digits s acc = Some n \<Longrightarrow> 0 \<le> acc \<Longrightarrow> 0 \<le> n"
proof (induction s acc rule: parse_digits.induct)
  case (2 c s acc)
  then show ?case by (auto simp: digit_value_def Let_def split: option.splits if_splits)
qed simp

lemma ParseUint16_range: "ParseUint16 s = Inr n \<Longrightarrow> 0 \<le> n \<and> n < 2 ^ 16"
  by (auto simp: ParseUint16_def split: if_splits option.splits dest: parse_digits_nonneg)

lemma itoa_trimmed [simp]: "TrimSpace (itoa n) = itoa n"
proof (rule TrimSpace_all_visible)
  have "visible c" if "digit_value c \<noteq> None" for c
    using that of_nat_of_char [of c, where 'a = int]
    by (auto simp: digit_value_def visible_def Let_def split: if_splits)
  with itoa_digits show "list_all visible (itoa n)" by (auto simp: list_all_iff)
qed

lemma editor_profile_fields:
  "p_Name (editor_profile e port) = TrimSpace (ed_name e)"
  "p_DriveLetter (editor_profile e port) = normalizedDriveLetter (drive_text e)"
  "p_Port (editor_profile e port) = word_of_int port"
  by (simp_all add: editor_profile_def editor_base_def Let_def)

lemma editor_protocol:
  assumes "profile_ok (editor_profile e port)"
  shows "ed_protocol e \<in> {0, 1, 2, 3, 4, 5}"
proof (rule ccontr)
  assume "ed_protocol e \<notin> {0, 1, 2, 3, 4, 5}"
  then have "p_Protocol (editor_profile e port) = ''''" by (simp add: editor_profile_def editor_base_def Let_def)
  with assms show False by (simp add: profile_ok_def)
qed

text \<open>The profile depends on the editor's contents only through what the profile itself keeps of them.\<close>

lemma editor_profile_again:
  assumes "profile_ok (editor_profile e port)" and "drive_text e' = p_DriveLetter (editor_profile e port)"
    and "normalizedDriveLetter (p_DriveLetter (editor_profile e port)) = p_DriveLetter (editor_profile e port)"
    and "e' = fill_secrets s (fill_editor \<lparr>sp_ID = i, sp_Profile = editor_profile e port, sp_ProtectedSecret = b\<rparr> e0)"
  shows "editor_profile e' port = editor_profile e port"
proof -
  from editor_protocol [OF assms(1)] consider "ed_protocol e = 0" | "ed_protocol e = 1" | "ed_protocol e = 2"
    | "ed_protocol e = 3" | "ed_protocol e = 4" | "ed_protocol e = 5" by auto
  then show ?thesis
    using assms(2-4)
    by cases (simp_all add: editor_profile_def editor_base_def Let_def fill_editor_def fill_secrets_def
        protocolIndex_def protocol_defs)
qed

lemma editor_reads_back:
  assumes "readEditor e = Inr (p, secret)" and "drive_text e' = ToUpper (p_DriveLetter p)"
    and "e' = fill_secrets secret (fill_editor \<lparr>sp_ID = i, sp_Profile = p, sp_ProtectedSecret = b\<rparr> e0)"
  shows "readEditor e' = Inr (p, secret)"
  using assms(1)
proof (cases rule: readEditor_cases)
  case (1 port)
  have n: "normalizedDriveLetter (drive_text e) = p_DriveLetter p" using 1(3) by (simp add: editor_profile_fields)
  then have u: "ToUpper (p_DriveLetter p) = p_DriveLetter p" by (metis ToUpper_idem normalizedDriveLetter_def)
  have p: "editor_profile e' port = p"
    using editor_profile_again [of e port e', folded 1(3), OF 1(4)] assms(2,3) u valid_letter(1) [OF 1(4)] by simp
  have r: "0 \<le> port" "port < 2 ^ 16" using ParseUint16_range [OF 1(1)] by auto
  have "uint (p_Port p) = port"
    using r by (simp add: 1(3) editor_profile_fields unsigned_of_int take_bit_int_eq_self)
  then have "unat (p_Port p) = nat port" by (simp only: unat_eq_nat_uint)
  then have "ed_port e' = itoa (nat port)" unfolding assms(3) by (simp add: fill_editor_def fill_secrets_def)
  then have "ParseUint16 (TrimSpace (ed_port e')) = Inr port" using r by (simp add: ParseUint16_itoa)
  moreover have "editor_secrets e' p = secret" using 1(5) by (auto simp: assms(3) editor_secrets_def fill_secrets_def)
  moreover have "Profile_Validate p = None" using 1(4) by (simp add: Profile_Validate_ok)
  ultimately show ?thesis using 1(2) p by (simp add: readEditor_def Let_def)
qed

lemma window_secrets_frame: "w_sessionSecrets w' = w_sessionSecrets w \<Longrightarrow> window_secrets env p w' = window_secrets env p w"
  by (simp add: window_secrets_def)

lemma upd_editor_editor [simp]: "w_editor (upd_editor f w) = map_option f (w_editor w)"
  by (simp add: upd_editor_def)

lemma shown_editor:
  "w_editor (show_profile env i w) =
     (case drive_options (profiles_of w) i (de_drives env (w_clock w)) (p_DriveLetter (sp_Profile (profiles_of w ! nat i))) of
        (letters, k) \<Rightarrow> map_option (\<lambda>e.
          fill_secrets (case window_secrets env (profiles_of w ! nat i) w of
                          Inl _ \<Rightarrow> \<lparr>sec_Password = '''', sec_Passphrase = ''''\<rparr> | Inr s \<Rightarrow> s)
            (fill_editor (profiles_of w ! nat i) (e\<lparr>ed_letters := letters, ed_drive := k\<rparr>))) (w_editor w))"
proof -
  obtain letters k where d: "drive_options (profiles_of w) i (de_drives env (w_clock w))
      (p_DriveLetter (sp_Profile (profiles_of w ! nat i))) = (letters, k)" by (metis surj_pair)
  let ?p = "profiles_of w ! nat i" and ?f = "\<lambda>e. e\<lparr>ed_letters := letters, ed_drive := k\<rparr>"
  let ?w2 = "upd_editor (fill_editor ?p) (tick (upd_editor ?f (w\<lparr>w_selected := i\<rparr>)))"
  let ?s = "case window_secrets env ?p w of Inl _ \<Rightarrow> \<lparr>sec_Password = '''', sec_Passphrase = ''''\<rparr> | Inr s \<Rightarrow> s"
  have r: "window_secrets env ?p ?w2 = window_secrets env ?p w"
    by (rule window_secrets_frame) (simp add: tick_def)
  have f: "profiles_of (w\<lparr>w_selected := i\<rparr>) = profiles_of w" by (simp add: profiles_of_def)
  have "w_editor (show_profile env i w) = map_option (fill_secrets ?s) (w_editor ?w2)"
    using r d f
    by (cases "window_secrets env ?p w") (simp_all add: show_profile_def Let_def refreshDriveOptions_def)
  then show ?thesis by (simp add: d option.map_comp comp_def)
qed

text \<open>
  C14. What the editor saved it shows again: when the profile and the secrets read from the editor were
  saved and the profile is opened later (with the secrets at hand), reading the editor gives exactly the
  saved profile and secrets, so opening and saving without a change changes nothing. In particular the
  drive letter is among those offered, even though Windows reports it in use.
\<close>

theorem editor_roundtrip:
  assumes "readEditor e = Inr (p, secret)"
    and "settings_ok (w_settings w)" and "valid_selection i (profiles_of w)"
    and "sp_Profile (profiles_of w ! nat i) = p"
    and "window_secrets env (profiles_of w ! nat i) w = Inr secret" and "w_editor w = Some e0"
  shows "readEditor (editor_of (show_profile env i w)) = Inr (p, secret)"
proof -
  obtain letters k where d: "drive_options (profiles_of w) i (de_drives env (w_clock w)) (p_DriveLetter p) = (letters, k)"
    by (metis surj_pair)
  have v: "0 \<le> i" "i < int (length (s_Profiles (w_settings w)))"
    using assms(3) by (simp_all add: valid_selection_def profiles_of_def)
  with drive_options_current [OF assms(2) v, of "de_drives env (w_clock w)"] d assms(4)
  obtain n where n: "k = Some n" "letters ! n = ToUpper (p_DriveLetter p)" by (auto simp: profiles_of_def)
  let ?e' = "fill_secrets secret (fill_editor (profiles_of w ! nat i) (e0\<lparr>ed_letters := letters, ed_drive := k\<rparr>))"
  have "w_editor (show_profile env i w) = Some ?e'" by (simp add: shown_editor assms(4-6) d)
  moreover have "readEditor ?e' = Inr (p, secret)"
  proof (rule editor_reads_back [OF assms(1)])
    show "drive_text ?e' = ToUpper (p_DriveLetter p)" by (simp add: drive_text_def fill_secrets_def fill_editor_def Let_def n)
    show "?e' = fill_secrets secret (fill_editor \<lparr>sp_ID = sp_ID (profiles_of w ! nat i), sp_Profile = p,
        sp_ProtectedSecret = sp_ProtectedSecret (profiles_of w ! nat i)\<rparr> (e0\<lparr>ed_letters := letters, ed_drive := k\<rparr>))"
      using assms(4) by (cases "profiles_of w ! nat i") simp
  qed
  ultimately show ?thesis by (simp add: editor_of_def)
qed

definition demo_editor :: editor where
  "demo_editor = null_editor\<lparr>ed_name := '' nas '', ed_letters := [''X''], ed_drive := Some 0, ed_protocol := 4,
     ed_port := ''21 '', ed_host := ''host'', ed_root := ''/'', ed_user := ''u'', ed_password := ''pw'', ed_insecure := True\<rparr>"

lemma demo_editor_reads: "readEditor demo_editor = Inr (sample_profile\<lparr>p_VolumeName := ''nas''\<rparr>, demo_secrets)"
  by code_simp

definition demo_edited :: "(unit, nat, unit) window" where
  "demo_edited = demo_first\<lparr>w_sessionSecrets := [(''a'', demo_secrets)], w_editor := Some null_editor\<rparr>"

theorem editor_roundtrip_witness:
  "readEditor (editor_of (show_profile demo_env 0 demo_edited)) = Inr (sample_profile\<lparr>p_VolumeName := ''nas''\<rparr>, demo_secrets)"
proof (rule editor_roundtrip [OF demo_editor_reads])
  have "Settings_Validate (w_settings demo_edited) = None" by code_simp
  then show "settings_ok (w_settings demo_edited)" by (simp only: Settings_Validate_ok)
  have f: "profiles_of demo_edited = [demo_saved]" by code_simp
  then show "valid_selection 0 (profiles_of demo_edited)"
    "sp_Profile (profiles_of demo_edited ! nat 0) = sample_profile\<lparr>p_VolumeName := ''nas''\<rparr>"
    by (simp_all add: valid_selection_def demo_saved_def)
  from f show "window_secrets demo_env (profiles_of demo_edited ! nat 0) demo_edited = Inr demo_secrets"
    by (simp add: window_secrets_def demo_edited_def demo_saved_def)
qed (simp add: demo_edited_def)
subsection \<open>Saving\<close>

text \<open>A saved profile that is being changed is not connected: nothing of the manager belongs to it.\<close>

lemma save_checks_inactive:
  assumes "desk_work w" and "save_checks p secret logical w = None" and "\<not> w_selected w < 0"
  shows "mg_entry (w_manager w) (sp_ID (profiles_of w ! nat (w_selected w))) = None"
proof -
  have "connectionInactive (mg_State (w_manager w) (sp_ID (profiles_of w ! nat (w_selected w))))"
    using assms(2,3) by (simp add: save_checks_def Let_def split: if_splits)
  moreover have "manager_live (w_manager w)" using assms(1) by (simp add: desk_work_def)
  ultimately show ?thesis using inactive_no_entry by (simp add: mg_entry_view)
qed

text \<open>What a save does to the settings file.\<close>

lemma write_settings_file:
  assumes "write_settings env s w = (None, w')" and "w_filename w = abs_path (ds @ [b])" "list_all plain (ds @ [b])"
    "\<not> prefix ''.settings-'' b"
  shows "\<exists>document. js_MarshalSettings (de_json env) s = Inr document \<and> published (w_filename w) (document @ [10]) (w_fs w')"
proof -
  from assms(1) obtain states where run: "SaveSettings (de_json env) (w_filename w) s (de_tempName env (w_clock w))
      (de_now env (w_clock w)) (w_fs w) = (None, states)" and fs: "w_fs w' = last states"
    by (auto simp: write_settings_def tick_def split: prod.splits)
  from SaveSettings_states [OF run assms(2-4)] fs show ?thesis by simp
qed

lemma refused_file:
  assumes "refused_disk env w w'" and "w_filename w = abs_path (ds @ [b])" "list_all plain (ds @ [b])"
    "\<not> prefix ''.settings-'' b"
  shows "fs_get (w_fs w') (w_filename w) = fs_get (w_fs w) (w_filename w)"
  using assms(1) unfolding refused_disk_def
proof (elim disjE exE conjE)
  fix s rnd now e states
  assume run: "SaveSettings (de_json env) (w_filename w) s rnd now (w_fs w) = (Some e, states)" and "w_fs w' = last states"
  with SaveSettings_states [OF run assms(2-4)] show ?thesis by simp
qed simp

text \<open>
  C13. A save changes exactly one profile and nothing else. When \<open>save\<close> reports success, the document in
  memory is valid and is the old one with the selected profile replaced (its identifier kept) or one profile
  appended under a new identifier; the settings file holds exactly that document, complete and synced; the
  secret is kept for the session; the profile had no connection; its credentials are sealed when they are to be
  remembered and not stored otherwise; and a connection without certificate check or without encryption was
  confirmed by the user in a question of its own. When it reports failure, the settings, the selection, the
  editor, the secrets and the connections are as they were, and so is the settings file.
\<close>

theorem save_outcome:
  assumes "desk_reachable env w" and "\<not> w_quit w" and "window_save env w = (saved, w')"
    and "w_filename w = abs_path (ds @ [b])" and "list_all plain (ds @ [b])" and "\<not> prefix ''.settings-'' b"
  shows "if saved
    then \<exists>p secret cid sealed. readEditor (editor_of w) = Inr (p, secret) \<and> settings_ok (w_settings w') \<and>
      w_settings w' = (w_settings w)\<lparr>s_Profiles :=
        (if w_selected w < 0 then profiles_of w @ [\<lparr>sp_ID = cid, sp_Profile = p, sp_ProtectedSecret = sealed\<rparr>]
         else (profiles_of w)[nat (w_selected w) := \<lparr>sp_ID = cid, sp_Profile = p, sp_ProtectedSecret = sealed\<rparr>])\<rparr> \<and>
      (if w_selected w < 0 then cid \<notin> sp_ID ` set (profiles_of w)
       else cid = sp_ID (profiles_of w ! nat (w_selected w)) \<and> mg_entry (w_manager w) cid = None) \<and>
      (if ed_remember (editor_of w) then SealSecrets (de_json env) (de_dpapi env) secret = Inr sealed else sealed = []) \<and>
      (p_InsecureSkipTLSVerify p \<longrightarrow>
        Asked ''save without certificate check?'' 6 \<in> set (drop (length (w_log w)) (w_log w'))) \<and>
      (p_Protocol p = ProtocolFTP \<or> p_WebDAVScheme p = ''http'' \<longrightarrow>
        Asked ''save plaintext connection?'' 6 \<in> set (drop (length (w_log w)) (w_log w'))) \<and>
      map_of (w_sessionSecrets w') cid = Some secret \<and>
      (\<exists>document. js_MarshalSettings (de_json env) (w_settings w') = Inr document \<and>
         published (w_filename w) (document @ [10]) (w_fs w'))
    else w_settings w' = w_settings w \<and> w_selected w' = w_selected w \<and> w_manager w' = w_manager w \<and>
      w_editor w' = w_editor w \<and> w_dirty w' = w_dirty w \<and> w_sessionSecrets w' = w_sessionSecrets w \<and>
      fs_get (w_fs w') (w_filename w) = fs_get (w_fs w) (w_filename w)"
proof -
  from inv_live [OF reachable_inv [OF assms(1)] assms(2)] have u: "desk_ui w" and k: "desk_work w" by simp_all
  show ?thesis
  using assms(3)
  proof (cases rule: window_save_cases)
    case refused
    then show ?thesis using refused_file [OF refused(3) assms(4-6)] by (simp add: idle_same_def)
  next
    case (saved p secret w1 cid w2 sealed i "next" w3)
    have sel: "- 1 \<le> w_selected w" "w_selected w < int (length (profiles_of w))"
      using u by (simp_all add: desk_ui_def desk_sound_def)
    have ok: "settings_ok next" using write_settings_idle(2) [OF saved(8)] by simp
    have nx: "next = (w_settings w)\<lparr>s_Profiles :=
        (if w_selected w < 0 then profiles_of w @ [\<lparr>sp_ID = cid, sp_Profile = p, sp_ProtectedSecret = sealed\<rparr>]
         else (profiles_of w)[nat (w_selected w) := \<lparr>sp_ID = cid, sp_Profile = p, sp_ProtectedSecret = sealed\<rparr>])\<rparr>"
      using saved(7) by (auto simp: with_profile_def profiles_of_def split: if_splits)
    have new: "cid \<notin> sp_ID ` set (profiles_of w)" if "w_selected w < 0"
      using ok nx that by (simp add: settings_ok_def)
    have old: "cid = sp_ID (profiles_of w ! nat (w_selected w)) \<and> mg_entry (w_manager w) cid = None" if "\<not> w_selected w < 0"
      using saved(5) that save_checks_inactive [OF k saved(3) that] by simp
    have q: "p_InsecureSkipTLSVerify p \<longrightarrow> Asked ''save without certificate check?'' 6 \<in> set (drop (length (w_log w)) (w_log w1))"
      "p_Protocol p = ProtocolFTP \<or> p_WebDAVScheme p = ''http'' \<longrightarrow>
        Asked ''save plaintext connection?'' 6 \<in> set (drop (length (w_log w)) (w_log w1))"
      using questions_idle(2,3) [OF saved(4)] by simp_all
    have l: "w_log w' = w_log w1"
      using saved(5,8,12) by (auto simp: write_settings_def tick_def split: if_splits prod.splits)
    have s: "w_settings w' = next" by (simp add: saved(12))
    have seal: "if ed_remember (editor_of w) then SealSecrets (de_json env) (de_dpapi env) secret = Inr sealed else sealed = []"
      using saved(6) by (simp split: if_splits)
    have filename: "w_filename w2 = w_filename w" using saved(9) by (simp add: idle_same_def)
    obtain document where disk: "js_MarshalSettings (de_json env) next = Inr document" "published (w_filename w) (document @ [10]) (w_fs w')"
      using write_settings_file [OF saved(8)] assms(4-6) filename by (auto simp: saved(12))
    have secret: "map_of (w_sessionSecrets w') cid = Some secret" by (simp add: saved(12) update_conv')
    have fresh: "if w_selected w < 0 then cid \<notin> sp_ID ` set (profiles_of w)
       else cid = sp_ID (profiles_of w ! nat (w_selected w)) \<and> mg_entry (w_manager w) cid = None"
      unfolding if_bool_eq_conj using new old by blast
    show ?thesis
      unfolding l s if_P [OF saved(1)] by (intro exI conjI) (rule saved(2) ok nx fresh seal q secret disk)+
  qed
qed

lemma clock_kept [simp]:
  "w_clock (updateActionButtons w) = w_clock w" "w_clock (set_status t w) = w_clock w"
  "w_clock (updateProtocolControls w) = w_clock w" "w_clock (maskSecrets w) = w_clock w"
  "w_clock (upd_editor f w) = w_clock w" "w_clock (clearDirty w) = w_clock w"
  by (simp_all add: updateActionButtons_def set_status_def updateProtocolControls_def maskSecrets_def upd_editor_def
      clearDirty_def Let_def)

lemma show_profile_fields:
  assumes "window_secrets env (profiles_of w ! nat i) w = Inr s"
  shows "w_log (show_profile env i w) = w_log w" "w_settings (show_profile env i w) = w_settings w"
    "w_selected (show_profile env i w) = i" "w_manager (show_profile env i w) = w_manager w"
    "w_quit (show_profile env i w) = w_quit w" "w_secretFailed (show_profile env i w) = False"
    "w_fs (show_profile env i w) = w_fs w" "w_filename (show_profile env i w) = w_filename w"
    "w_clock (show_profile env i w) = Suc (w_clock w)"
proof -
  obtain letters k where d: "drive_options (profiles_of w) i (de_drives env (w_clock w))
      (p_DriveLetter (sp_Profile (profiles_of w ! nat i))) = (letters, k)" by (metis surj_pair)
  let ?p = "profiles_of w ! nat i" and ?f = "\<lambda>e. e\<lparr>ed_letters := letters, ed_drive := k\<rparr>"
  let ?w2 = "upd_editor (fill_editor ?p) (tick (upd_editor ?f (w\<lparr>w_selected := i\<rparr>)))"
  have r: "window_secrets env ?p ?w2 = Inr s"
    unfolding assms [symmetric] by (rule window_secrets_frame) (simp add: tick_def)
  have f: "profiles_of (w\<lparr>w_selected := i\<rparr>) = profiles_of w" by (simp add: profiles_of_def)
  show "w_log (show_profile env i w) = w_log w" "w_settings (show_profile env i w) = w_settings w"
    "w_selected (show_profile env i w) = i" "w_manager (show_profile env i w) = w_manager w"
    "w_quit (show_profile env i w) = w_quit w" "w_secretFailed (show_profile env i w) = False"
    "w_fs (show_profile env i w) = w_fs w" "w_filename (show_profile env i w) = w_filename w"
    "w_clock (show_profile env i w) = Suc (w_clock w)"
    using r d f by (simp_all add: show_profile_def Let_def refreshDriveOptions_def tick_def)
qed

definition demo_insecure :: "(unit, nat, unit) window" where
  "demo_insecure = demo_after [RowChosen 0, Command idEditProfile 0 False False]"

definition demo_opened :: "(unit, nat, unit) window" where
  "demo_opened = (tick ((row_chosen 0 demo_first)\<lparr>w_editor := Some (null_editor\<lparr>ed_port := ''22''\<rparr>)\<rparr>))\<lparr>w_selected := 0\<rparr>"

lemma demo_row: "\<not> w_quit (row_chosen 0 demo_first)" "\<not> w_busy (row_chosen 0 demo_first)" "w_editor (row_chosen 0 demo_first) = None"
    "w_selected (row_chosen 0 demo_first) = 0" "w_settings (row_chosen 0 demo_first) = demo_settings"
    "profiles_of (row_chosen 0 demo_first) = [demo_saved]" "w_clock (row_chosen 0 demo_first) = 1"
    "w_log (row_chosen 0 demo_first) = []" "w_manager (row_chosen 0 demo_first) = mg_New"
    "w_sessionSecrets (row_chosen 0 demo_first) = []" "w_fs (row_chosen 0 demo_first) = w_fs demo_first"
    "w_filename (row_chosen 0 demo_first) = w_filename demo_first"
  using demo_first_state by (simp_all add: row_chosen_def profiles_of_def demo_settings_def)

lemma demo_insecure_step: "demo_insecure = show_profile demo_env 0 demo_opened"
proof -
  have a: "desk_step demo_env (RowChosen 0) demo_first = row_chosen 0 demo_first"
    by (simp only: desk_step_def demo_first_state if_False desk_event.case)
  have "idEditProfile \<noteq> idCloseToTray" "idEditProfile \<noteq> idStartup" "idEditProfile \<noteq> idShow" "idEditProfile \<noteq> idNew"
     "idEditProfile \<noteq> idProtocol" "idEditProfile \<noteq> idDrive" "idEditProfile < 1000" "idEditProfile \<noteq> 0"
    by (simp_all add: command_ids)
  then have c: "desk_step demo_env (Command idEditProfile 0 False False) (row_chosen 0 demo_first) =
      report_failure (showProfileEditor demo_env 0 (row_chosen 0 demo_first))"
    using demo_row by (simp add: desk_step_def window_command_def dispatch_def)
  have "de_window demo_env 1 = None" by (simp add: demo_env_def)
  then show ?thesis
    unfolding demo_insecure_def demo_opened_def demo_after_def fold.simps comp_def a id_apply c
    using demo_row
    by (simp add: showProfileEditor_def report_failure_def loadEditor_def profiles_of_def valid_selection_def Let_def tick_def)
qed

lemma demo_opened_state: "profiles_of demo_opened = [demo_saved]" "w_settings demo_opened = demo_settings"
    "window_secrets demo_env (profiles_of demo_opened ! nat 0) demo_opened = Inr demo_secrets"
    "w_editor demo_opened = Some (null_editor\<lparr>ed_port := ''22''\<rparr>)"
proof -
  have "OpenSecrets (de_json demo_env) (de_dpapi demo_env) (sp_ProtectedSecret demo_saved) = Inr demo_secrets"
    by code_simp
  with demo_row show "profiles_of demo_opened = [demo_saved]" "w_settings demo_opened = demo_settings"
    "window_secrets demo_env (profiles_of demo_opened ! nat 0) demo_opened = Inr demo_secrets"
    "w_editor demo_opened = Some (null_editor\<lparr>ed_port := ''22''\<rparr>)"
    by (simp_all add: demo_opened_def profiles_of_def window_secrets_def tick_def)
qed

lemma demo_insecure_state: "\<not> w_quit demo_insecure" "w_log demo_insecure = []" "w_selected demo_insecure = 0"
    "w_settings demo_insecure = demo_settings" "profiles_of demo_insecure = [demo_saved]" "w_clock demo_insecure = 3"
    "w_manager demo_insecure = mg_New" "\<not> w_secretFailed demo_insecure" "w_fs demo_insecure = w_fs demo_first"
    "w_filename demo_insecure = w_filename demo_first"
proof -
  have o: "\<not> w_quit demo_opened" "w_log demo_opened = []" "w_clock demo_opened = 2" "w_manager demo_opened = mg_New"
    "w_fs demo_opened = w_fs demo_first" "w_filename demo_opened = w_filename demo_first"
    using demo_row by (simp_all add: demo_opened_def tick_def)
  show "\<not> w_quit demo_insecure" "w_log demo_insecure = []" "w_selected demo_insecure = 0"
    "w_settings demo_insecure = demo_settings" "profiles_of demo_insecure = [demo_saved]" "w_clock demo_insecure = 3"
    "w_manager demo_insecure = mg_New" "\<not> w_secretFailed demo_insecure" "w_fs demo_insecure = w_fs demo_first"
    "w_filename demo_insecure = w_filename demo_first"
    unfolding demo_insecure_step using demo_opened_state(1,2) o
    by (simp_all add: show_profile_fields [OF demo_opened_state(3)] profiles_of_def)
qed

lemma demo_settings_ok: "settings_ok demo_settings"
proof -
  have "Settings_Validate demo_settings = None" by code_simp
  then show ?thesis by (simp only: Settings_Validate_ok)
qed

lemma demo_insecure_reads:
  "readEditor (editor_of demo_insecure) = Inr (sp_Profile demo_saved, demo_secrets)" "ed_remember (editor_of demo_insecure)"
proof -
  have d: "drive_options [demo_saved] 0 (de_drives demo_env 2) ''X'' = (drive_alphabet, Some 23)" by code_simp
  have "w_clock demo_opened = 2" using demo_row by (simp add: demo_opened_def tick_def)
  with d shown_editor [of demo_env 0 demo_opened] demo_opened_state
  have e: "editor_of demo_insecure = fill_secrets demo_secrets (fill_editor demo_saved
      (null_editor\<lparr>ed_port := ''22'', ed_letters := drive_alphabet, ed_drive := Some 23\<rparr>))"
    by (simp add: demo_insecure_step editor_of_def) (simp add: demo_saved_def sample_profile_def)
  then show "ed_remember (editor_of demo_insecure)" by (simp add: fill_secrets_def fill_editor_def Let_def demo_saved_def)
  show "readEditor (editor_of demo_insecure) = Inr (sp_Profile demo_saved, demo_secrets)" unfolding e by code_simp
qed

lemma demo_insecure_checks:
  "save_checks (sp_Profile demo_saved) demo_secrets (de_drives demo_env (w_clock demo_insecure)) demo_insecure = None"
proof -
  have "validateDriveAssignment (p_DriveLetter (sp_Profile demo_saved)) ''a'' [demo_saved] 0 = None" by code_simp
  moreover have "connectionInactive (mg_State mg_New ''a'')" by code_simp
  moreover have "sp_ID demo_saved = ''a''" "de_drives demo_env n = Inr 0" "\<not> p_AutoConnect (sp_Profile demo_saved)" for n
    by (simp_all add: demo_saved_def sample_profile_def demo_env_def)
  ultimately show ?thesis using demo_insecure_state by (simp add: save_checks_def Let_def)
qed

lemma demo_insecure_save: "\<exists>w'. window_save demo_env demo_insecure = (True, w')"
proof -
  have a: "de_box demo_env n t = 6" for n t by (simp add: demo_env_def)
  obtain w1 where q: "save_questions demo_env (sp_Profile demo_saved) (tick demo_insecure) = (True, w1)" "w_clock w1 = 5"
    using demo_insecure_state(6)
    by (simp add: save_questions_def desk_box_def Let_def a demo_saved_def sample_profile_def protocol_defs tick_def)
  have "w_fs w1 = w_fs demo_first" "w_filename w1 = w_filename demo_first"
    using questions_idle(1) [OF q(1)] demo_insecure_state(9,10) by (simp_all add: idle_same_def)
  then obtain w2 where s: "write_settings demo_env demo_settings w1 = (None, w2)"
    using demo_write q(2) by (cases "write_settings demo_env demo_settings w1") (auto simp: write_settings_def split: prod.splits)
  have sealed: "SealSecrets (de_json demo_env) (de_dpapi demo_env) demo_secrets = Inr (sp_ProtectedSecret demo_saved)"
    by (simp add: demo_env_def demo_saved_def SealSecrets_def demo_secrets_js_def demo_protector_def demo_secrets_def)
  have w1: "w_selected w1 = 0" "w_settings w1 = demo_settings" "editor_of w1 = editor_of demo_insecure"
    using questions_idle(1) [OF q(1)] demo_insecure_state by (simp_all add: idle_same_def editor_of_def)
  then have "with_profile (w_settings w1) (w_selected w1)
      \<lparr>sp_ID = sp_ID (profiles_of w1 ! 0), sp_Profile = sp_Profile demo_saved, sp_ProtectedSecret = sp_ProtectedSecret demo_saved\<rparr> =
      (demo_settings, 0)"
    by (simp add: with_profile_def profiles_of_def demo_settings_def demo_saved_def)
  with q(1) s sealed w1 demo_insecure_state demo_insecure_reads demo_insecure_checks show ?thesis
    by (simp add: window_save_def Let_def)
qed

lemma demo_filename:
  "w_filename demo_insecure = abs_path ([''d'', ''DKDrive''] @ [''settings.json''])"
  "list_all plain ([''d'', ''DKDrive''] @ [''settings.json''])" "\<not> prefix ''.settings-'' ''settings.json''"
proof -
  have "w_filename demo_first = ''/d/DKDrive/settings.json''" by code_simp
  then show "w_filename demo_insecure = abs_path ([''d'', ''DKDrive''] @ [''settings.json''])"
    using demo_insecure_state(10) by (simp add: abs_path_def)
qed (simp_all add: plain_def)

theorem save_outcome_witness:
  "Asked ''save without certificate check?'' 6 \<in> set (w_log (snd (window_save demo_env demo_insecure)))"
proof -
  obtain w' where r: "window_save demo_env demo_insecure = (True, w')" using demo_insecure_save by blast
  have "desk_reachable demo_env demo_insecure" unfolding demo_insecure_def by (rule demo_after_reachable)
  from save_outcome [OF this demo_insecure_state(1) r demo_filename] demo_insecure_state(2) demo_insecure_reads(1) r show ?thesis
    by (auto simp: sample_profile_def demo_saved_def)
qed

end
