(* ===== verification/Desktop_Retry.thy ===== *)
theory Desktop_Retry
  imports Desktop_Demo
begin

text \<open>
  The cache window: a remote file is overwritten only with consent, the limits saved from it are exact, and the end
  of a retry acts on the row of the list it was started from, which may hold another file by then.
\<close>

subsection \<open>A row deleted during a retry\<close>

definition retry_mj :: metadata_codec where
  "retry_mj = \<lparr>mj_Encode = (\<lambda>md. Inl (ErrNew ''unused'')),
     mj_Unmarshal = (\<lambda>d. case d of
         [b] \<Rightarrow> Inr (zero_metadata\<lparr>rm_Version := 1, rm_StagingPath := ''/c/staging-'' @ [char_of (48 + unat b)],
                       rm_RemotePath := ''/file'', rm_RecoveryState := StatePreserved\<rparr>)
       | _ \<Rightarrow> Inl (Sentinel EOF))\<rparr>"

text \<open>A server whose file has the size and the time of the preserved one.\<close>

definition same_backend :: "(unit, unit, unit) backend" where
  "same_backend = \<lparr>
     b_Stat = (\<lambda>x n w. (Inr (zero_entry\<lparr>e_Size := 1, e_ModTime := 5\<rparr>), w)), b_ReadDir = (\<lambda>x n w. (Inr [], w)),
     b_OpenRead = (\<lambda>x n w. (Inr (), w)), b_OpenWrite = (\<lambda>x n opt w. (Inr (), w)),
     b_Mkdir = (\<lambda>x n w. (None, w)), b_Remove = (\<lambda>x n d w. (None, w)),
     b_Rename = (\<lambda>x m n w. (None, w)), b_SetModTime = (\<lambda>x n t w. (None, w)),
     b_SetReadOnly = (\<lambda>x n r w. (None, w)), b_Close = (\<lambda>w. (None, w)),
     r_ReadAll = (\<lambda>r w. (([], None), w)), r_Close = (\<lambda>r w. (None, w)),
     h_WriteAt = (\<lambda>h d off w. ((0, None), w)), h_Sync = (\<lambda>h w. (None, w)), h_Close = (\<lambda>h w. (None, w))\<rparr>"

definition retry_env :: "(unit, nat, unit, unit, unit) desk_env" where
  "retry_env = demo_env\<lparr>de_metadata := retry_mj, de_open := (\<lambda>p sec b. (Inr same_backend, b))\<rparr>"

text \<open>Three preserved files, \<open>A\<close>, \<open>B\<close> and \<open>C\<close>, in a cache folder, and the window that shows them.\<close>

definition retry_disk :: lfs where
  "retry_disk = \<lparr>fs_nodes = [(''/c'', DirNode),
      (''/c/staging-0'', Reg [1] 5 True), (''/c/staging-0.recovery.json'', Reg [0] 5 True),
      (''/c/staging-1'', Reg [2] 5 True), (''/c/staging-1.recovery.json'', Reg [1] 5 True),
      (''/c/staging-2'', Reg [3] 5 True), (''/c/staging-2.recovery.json'', Reg [2] 5 True)],
     fs_cwd = ''/'', fs_faults = (\<lambda>_ _. None)\<rparr>"

definition retry_item :: "string \<Rightarrow> recovery_item" where
  "retry_item n = \<lparr>ri_Metadata = zero_metadata\<lparr>rm_Version := 1, rm_StagingPath := ''/c/staging-'' @ n,
       rm_RemotePath := ''/file'', rm_RecoveryState := StatePreserved, rm_Size := 1\<rparr>,
     ri_MetadataPath = ''/c/staging-'' @ n @ ''.recovery.json'', ri_Problem = ''''\<rparr>"

lemma retry_items: "store_Scan retry_mj demo_store retry_disk = Inr [retry_item ''0'', retry_item ''1'', retry_item ''2'']"
  by code_simp

definition retry_opened :: "(unit, nat, unit) window" where
  "retry_opened = demo_first\<lparr>w_fs := retry_disk, w_selected := 0,
     w_recovery := Some \<lparr>rd_store = demo_store, rd_items = [retry_item ''0'', retry_item ''1'', retry_item ''2''],
       rd_usage = w_cacheUsage demo_first, rd_selected = 1, rd_busy = False, rd_exportOn = True, rd_retryOn = True,
       rd_deleteOn = True, rd_othersOn = True, rd_job = None, rd_result = None\<rparr>\<rparr>"

definition retry_events :: "recovery_event list" where
  "retry_events = [RetryPressed, RowSelected 0, DeletePressed]"

definition retry_running :: "(unit, nat, unit) window" where
  "retry_running = fold (recoveryWndProc retry_env) retry_events retry_opened"

text \<open>
  C16. A retry ends by deleting the file in its row, whichever that is by then. When a retry has sent its file (or the
  server had it already) and the row of the list it was started from now holds another preserved file, the user is
  asked whether to delete ``the preserved file'', and on agreeing it is this other file, never sent to any
  server, that is deleted, and the one that was sent is kept. (The list is refreshed afterwards. In the witness the rows
  moved because the user deleted an earlier row while the retry ran.)
\<close>

theorem retry_deletes_other_item:
  assumes "w_recovery w = Some d" and "rd_result d = Some r" and "rr_err r = None" and "rr_uploaded r \<or> rr_state r = RemoteSame"
    and "rj_index (rr_job r) < length (rd_items d)" and "other = rd_items d ! rj_index (rr_job r)"
    and "\<not> anyConnected w" and "de_box env (w_clock w) ''retried; delete the preserved file?'' = 6"
    and "store_ok (rd_store d)" "cwd_ok (w_fs w)" "honest (w_fs w)"
    and "rm_StagingPath (ri_Metadata (rj_item (rr_job r))) = staging_file (rd_store d) sent" "staging_name sent"
    and "rm_StagingPath (ri_Metadata other) = staging_file (rd_store d) unsent" "staging_name unsent"
    and "sent \<noteq> unsent" "sent \<noteq> unsent @ metadataSuffix"
  shows "\<exists>e w1. recoveryWndProc env RetryMessage w = recovery_refresh env w1 \<and>
    store_Delete (rd_store d) other (w_fs w) = (e, w_fs w1) \<and>
    (e = None \<longrightarrow> fs_get (w_fs w1) (staging_file (rd_store d) unsent) = None) \<and>
    fs_get (w_fs w1) (staging_file (rd_store d) sent) = fs_get (w_fs w) (staging_file (rd_store d) sent) \<and>
    (\<exists>more. w_log w1 = w_log w @ Asked ''retried; delete the preserved file?'' 6 # more)"
proof -
  let ?st = "rd_store d" and ?d = "d\<lparr>rd_result := None\<rparr>"
  let ?v = "upd_dialog (\<lambda>d. updateDetails (profiles_of w) (d\<lparr>rd_busy := False, rd_othersOn := True\<rparr>)) (upd_dialog (\<lambda>d. d\<lparr>rd_result := None\<rparr>) w)"
  have v: "w_recovery ?v = Some (updateDetails (profiles_of w) (?d\<lparr>rd_busy := False, rd_othersOn := True\<rparr>))"
    "anyConnected ?v = anyConnected w" "w_clock ?v = w_clock w" "w_fs ?v = w_fs w" "w_log ?v = w_log w"
    using assms(1) by (simp_all add: upd_dialog_def anyConnected_def profiles_of_def)
  have u: "rd_items (updateDetails ps c) = rd_items c" "rd_store (updateDetails ps c) = rd_store c" for ps c
    by (simp_all add: updateDetails_def Let_def)
  have p: "profiles_of (upd_dialog f w) = profiles_of w" for f by (simp add: upd_dialog_def profiles_of_def)
  have run: "recoveryWndProc env RetryMessage w = offerDeleteAfterRetry env other ?v"
    using assms(1-6) v(1) by (simp add: recoveryWndProc_def retry_done_def finishRetry_def Let_def u p)
  obtain e fs where del: "store_Delete ?st other (w_fs w) = (e, fs)" by force
  let ?asked = "tick (?v\<lparr>w_log := w_log w @ [Asked ''retried; delete the preserved file?'' 6]\<rparr>)"
  let ?w1 = "case e of None \<Rightarrow> ?asked\<lparr>w_fs := fs\<rparr> | Some e \<Rightarrow> desk_alert (err_Error e) (?asked\<lparr>w_fs := fs\<rparr>)"
  have end_run: "recoveryWndProc env RetryMessage w = recovery_refresh env ?w1"
    unfolding run using assms(7,8) v del by (cases e) (simp_all add: offerDeleteAfterRetry_def desk_box_def Let_def u tick_def)
  have fs: "w_fs ?w1 = fs" by (simp add: desk_alert_def split: option.splits)
  have log: "\<exists>more. w_log ?w1 = w_log w @ Asked ''retried; delete the preserved file?'' 6 # more"
    by (simp add: desk_alert_def tick_def split: option.splits)
  have abs: "filepath_Abs (w_fs w) (staging_file ?st unsent) = Inr (staging_file ?st unsent)"
    using safe_staging_file [OF assms(9,10,15)] safe_staging_eq [OF assms(9,10)] by simp
  have no: "staging_file ?st sent \<notin> item_files ?st unsent"
    using assms(16,17) by (simp add: item_files_def staging_file_path [OF assms(9)])
  have "fs_get fs (staging_file ?st sent) = fs_get (w_fs w) (staging_file ?st sent) \<and>
    (e = None \<longrightarrow> fs_get fs (staging_file ?st unsent) = None)"
    using Delete_effect [OF assms(9-11) del]
  proof (elim conjE disjE exE)
    fix n
    assume "filepath_Abs (w_fs w) (rm_StagingPath (ri_Metadata other)) = Inr (staging_file ?st n)"
      and ch: "\<forall>q. fs_get fs q \<noteq> fs_get (w_fs w) q \<longrightarrow> q \<in> item_files ?st n \<and> fs_get fs q = None \<and> fs_get (w_fs w) q \<noteq> Some DirNode"
      and gone: "e = None \<longrightarrow> fs_get fs (staging_file ?st n) = None \<and>
        (ri_MetadataPath other \<noteq> '''' \<longrightarrow> fs_get fs (staging_file ?st n @ metadataSuffix) = None)"
    then have n: "staging_file ?st n = staging_file ?st unsent" using abs assms(14) by simp
    then have "item_files ?st n = item_files ?st unsent" by (simp add: item_files_def)
    with ch gone no n show ?thesis by auto
  qed auto
  with end_run del fs log show ?thesis by (intro exI [of _ e] exI [of _ ?w1]) simp
qed

definition retry_ended :: "(unit, nat, unit) window" where
  "retry_ended = retry_worker retry_env retry_running"

text \<open>What the witness needs of the state after the retry of B, with A deleted meanwhile.\<close>

lemma retry_ended_dialog:
  "map_option (\<lambda>d. (rd_store d, rd_items d, map_option (\<lambda>r. (rr_err r, rr_uploaded r \<or> rr_state r = RemoteSame,
       rj_index (rr_job r), rm_StagingPath (ri_Metadata (rj_item (rr_job r))))) (rd_result d))) (w_recovery retry_ended) =
     Some (demo_store, [retry_item ''1'', retry_item ''2''], Some (None, True, 1, ''/c/staging-1''))"
  by code_simp

lemma retry_ended_window:
  "\<not> anyConnected retry_ended" "de_box retry_env (w_clock retry_ended) ''retried; delete the preserved file?'' = 6"
  by code_simp+

lemma retry_ended_disk:
  "fs_nodes (w_fs retry_ended) = [(''/c'', DirNode), (''/c/staging-1'', Reg [2] 5 True), (''/c/staging-1.recovery.json'', Reg [1] 5 True),
      (''/c/staging-2'', Reg [3] 5 True), (''/c/staging-2.recovery.json'', Reg [2] 5 True)]"
  "fs_cwd (w_fs retry_ended) = ''/''"
  by code_simp+

lemma retry_ended_faults: "fs_faults (w_fs retry_ended) q p = None"
  by code_simp

theorem retry_deletes_other_item_witness:
  "\<exists>w1. recoveryWndProc retry_env RetryMessage retry_ended = recovery_refresh retry_env w1 \<and>
     fs_get (w_fs w1) ''/c/staging-2'' = None \<and> fs_get (w_fs w1) ''/c/staging-1'' = Some (Reg [2] 5 True)"
proof -
  from retry_ended_dialog obtain d r where d: "w_recovery retry_ended = Some d" "rd_result d = Some r" "rr_err r = None"
    "rr_uploaded r \<or> rr_state r = RemoteSame" and i: "rd_store d = demo_store" "rd_items d = [retry_item ''1'', retry_item ''2'']"
    "rj_index (rr_job r) = 1" "rm_StagingPath (ri_Metadata (rj_item (rr_job r))) = ''/c/staging-1''" by auto
  have row: "rj_index (rr_job r) < length (rd_items d)" "retry_item ''2'' = rd_items d ! rj_index (rr_job r)" by (simp_all add: i)
  have n: "staging_name ''staging-1''" "staging_name ''staging-2''" by (simp_all add: staging_name_def plain_def)
  have p: "staging_file demo_store ''staging-1'' = ''/c/staging-1''" "staging_file demo_store ''staging-2'' = ''/c/staging-2''"
    using staging_file_path [OF demo_store_ok] by (simp_all add: demo_store_def)
  have env: "store_ok (rd_store d)" "cwd_ok (w_fs retry_ended)" "honest (w_fs retry_ended)"
    using demo_store_ok retry_ended_faults by (simp_all add: i honest_def cwd_ok_def retry_ended_disk(2)) code_simp
  have paths: "rm_StagingPath (ri_Metadata (rj_item (rr_job r))) = staging_file (rd_store d) ''staging-1''"
    "rm_StagingPath (ri_Metadata (retry_item ''2'')) = staging_file (rd_store d) ''staging-2''"
    by (simp_all add: i p retry_item_def)
  have del: "fst (store_Delete demo_store (retry_item ''2'') (w_fs retry_ended)) = None" by code_simp
  have kept: "fs_get (w_fs retry_ended) ''/c/staging-1'' = Some (Reg [2] 5 True)"
    by (simp add: fs_get_def retry_ended_disk(1))
  from retry_deletes_other_item [OF d row retry_ended_window env paths(1) n(1) paths(2) n(2)] i p del kept
  show ?thesis by (auto simp: metadataSuffix_def)
qed

subsection \<open>The limits of the cache\<close>

text \<open>
  The limits saved from the cache window are exactly the numbers the user typed: from a valid document
  every accepted input gives a valid document, with whole gigabytes that fit 64 bits (no shift wraps
  around), and no profile is touched.
\<close>

theorem cache_limits_exact:
  assumes "settings_ok s" and "cache_settings s days file_GB total_GB = Inr s'"
  shows "settings_ok s' \<and> s_Profiles s' = s_Profiles s \<and> in_i64 (s_CacheMaxTotalBytes s') \<and>
    ParseInt32 (TrimSpace days) = Inr (s_CacheRetentionDays s') \<and>
    (\<exists>f t. ParseInt32 (TrimSpace file_GB) = Inr f \<and> ParseInt32 (TrimSpace total_GB) = Inr t \<and>
       s_CacheMaxFileBytes s' = f * 2 ^ 30 \<and> s_CacheMaxTotalBytes s' = t * 2 ^ 30)"
proof -
  from assms(2) obtain d f t where p: "ParseInt32 (TrimSpace days) = Inr d" "ParseInt32 (TrimSpace file_GB) = Inr f"
    "ParseInt32 (TrimSpace total_GB) = Inr t" and pos: "0 < d" "0 < f" "0 < t" "f \<le> t"
    and s': "s' = s\<lparr>s_CacheRetentionDays := d, s_CacheMaxFileBytes := i64 (f * 2 ^ 30), s_CacheMaxTotalBytes := i64 (t * 2 ^ 30)\<rparr>"
    by (auto simp: cache_settings_def split: sum.splits if_splits)
  have r: "f < 2 ^ 31" "t < 2 ^ 31" using ParseInt32_range [OF p(2)] ParseInt32_range [OF p(3)] by (simp_all add: in_i32_def)
  then have b: "in_i64 (f * 2 ^ 30)" "in_i64 (t * 2 ^ 30)"
    using pos by (simp_all add: in_i64_def min_i64_def max_i64_def)
  then have w: "i64 (f * 2 ^ 30) = f * 2 ^ 30" "i64 (t * 2 ^ 30) = t * 2 ^ 30" by (simp_all only: i64_id)
  have "settings_ok s'" using assms(1) pos unfolding s' w by (simp add: settings_ok_def)
  then show ?thesis using p b(2) unfolding s' w by simp
qed

theorem cache_limits_exact_witness:
  "s_CacheMaxTotalBytes (projr (cache_settings DefaultSettings ''7'' ''1'' '' 2 '')) = 2 * 2 ^ 30"
proof -
  have "is_ok (cache_settings DefaultSettings ''7'' ''1'' '' 2 '')" "ParseInt32 (TrimSpace '' 2 '') = Inr 2" by code_simp+
  then obtain s' where s: "cache_settings DefaultSettings ''7'' ''1'' '' 2 '' = Inr s'" unfolding is_ok_iff by blast
  have "settings_ok DefaultSettings" by (simp add: settings_ok_def DefaultSettings_def)
  from cache_limits_exact [OF this s] s \<open>ParseInt32 (TrimSpace '' 2 '') = Inr 2\<close> show ?thesis by auto
qed

subsection \<open>Overwriting\<close>

definition job_of :: "('w, 's, 'b) window \<Rightarrow> retry_job option" where
  "job_of w = (case w_recovery w of None \<Rightarrow> None | Some d \<Rightarrow> rd_job d)"

lemma job_kept [simp]:
  "job_of (tick w) = job_of w" "job_of (desk_alert m w) = job_of w" "job_of (syncOwner w) = job_of w"
  "job_of (w\<lparr>w_log := l\<rparr>) = job_of w" "job_of (w\<lparr>w_fs := x\<rparr>) = job_of w" "job_of (w\<lparr>w_settings := s\<rparr>) = job_of w"
  "job_of (snd (desk_box env t w)) = job_of w"
  by (simp_all add: job_of_def)

lemma job_dialog: "(\<And>d. rd_job (f d) = rd_job d) \<Longrightarrow> job_of (upd_dialog f w) = job_of w"
  by (simp add: job_of_def upd_dialog_def split: option.splits)

lemma job_details [simp]: "rd_job (updateDetails ps d) = rd_job d" "rd_job (show_items ps items u d) = rd_job d"
  by (simp_all add: updateDetails_def show_items_def Let_def)

lemma job_refresh [simp]: "job_of (recovery_refresh env w) = job_of w"
proof -
  have "job_of (snd (prune_cache env st w)) = job_of w" for st
    by (simp add: prune_cache_def split: prod.splits)
  then show ?thesis
    by (auto simp: recovery_refresh_def job_dialog split: option.splits prod.splits sum.splits) (metis snd_conv)+
qed

lemma job_begin:
  assumes "job_of (beginRetry i p s t inspect w) = Some job" and "job_of w \<noteq> Some job"
  shows "rj_inspect job = inspect \<and> rj_target job = t \<and> rj_profile job = p \<and> rj_secrets job = s \<and> rj_index job = nat i \<and>
    (\<exists>d. w_recovery w = Some d \<and> rj_item job = rd_items d ! nat i)"
  using assms by (auto simp: beginRetry_def job_of_def upd_dialog_def Let_def split: option.splits if_splits)

lemma job_finish:
  assumes "job_of (finishRetry env r w) = Some job" and "job_of w \<noteq> Some job" and "\<not> rj_inspect job"
  shows "rr_err r = None \<and> rr_state r = RemoteConflict \<and> \<not> rr_uploaded r \<and> rj_target job = rj_target (rr_job r) \<and>
    rj_profile job = rj_profile (rr_job r) \<and> rj_secrets job = rj_secrets (rr_job r) \<and> rj_index job = rj_index (rr_job r) \<and>
    (\<exists>d. w_recovery w = Some d \<and> rj_index job < length (rd_items d) \<and> rj_item job = rd_items d ! rj_index job) \<and>
    w_log (finishRetry env r w) = w_log w @ [Asked ''overwrite the remote file?'' 6]"
proof -
  let ?w1 = "upd_dialog (\<lambda>d. updateDetails (profiles_of w) (d\<lparr>rd_busy := False, rd_othersOn := True\<rparr>)) w"
  have 1: "job_of ?w1 = job_of w" by (rule job_dialog) simp
  have del: "job_of (offerDeleteAfterRetry env item v) = job_of v" for item and v :: "('a, 'b, 'c) window"
    by (auto simp: offerDeleteAfterRetry_def desk_box_def Let_def split: option.splits prod.splits)
  obtain choice w2 where q: "desk_box env ''overwrite the remote file?'' (tick ?w1) = (choice, w2)" by (metis surj_pair)
  have l2: "w_log w2 = w_log w @ [Asked ''overwrite the remote file?'' choice]" using box_idle [OF q] by simp
  have j2: "job_of w2 = job_of w" using job_kept(7) [of env "''overwrite the remote file?''" "tick ?w1"] q 1 by simp
  have begin_log: "w_log (beginRetry i p s t b v) = w_log v" for i p s t b and v :: "('a, 'b, 'c) window"
    by (simp add: beginRetry_def)
  obtain d where d: "w_recovery ?w1 = Some d"
    using assms(1) by (cases "w_recovery ?w1") (simp_all add: finishRetry_def Let_def job_of_def)
  have e: "rr_err r = None"
    using assms(1,2) d 1 by (cases "rr_err r") (simp_all add: finishRetry_def Let_def)
  have items: "rd_items (updateDetails ps c) = rd_items c" for ps c by (simp add: updateDetails_def Let_def)
  obtain d0 where d0: "w_recovery w = Some d0" "rd_items d = rd_items d0"
    using d by (cases "w_recovery w") (auto simp: upd_dialog_def items)
  have rec2: "w_recovery w2 = Some d" using q d by (auto simp: desk_box_def Let_def tick_def)
  have n: "rj_index (rr_job r) < length (rd_items d)"
    using assms(1,2) d e 1 by (cases "rj_index (rr_job r) < length (rd_items d)") (simp_all add: finishRetry_def Let_def)
  have u: "\<not> (rr_uploaded r \<or> rr_state r = RemoteSame)"
    using assms(1,2) d e n 1 del by (cases "rr_uploaded r \<or> rr_state r = RemoteSame") (simp_all add: finishRetry_def Let_def)
  have c: "rr_state r = RemoteConflict"
    using assms(1,2) d e n u 1 by (cases "rr_state r = RemoteConflict") (simp_all add: finishRetry_def Let_def)
  show ?thesis
  proof (cases "choice = 6")
    case True
    with d e n u c q have "finishRetry env r w =
        beginRetry (int (rj_index (rr_job r))) (rj_profile (rr_job r)) (rj_secrets (rr_job r)) (rj_target (rr_job r)) False w2"
      by (simp add: finishRetry_def Let_def)
    with job_begin [of _ _ _ _ False w2 job] assms(1,2) j2 l2 e u c n d0 rec2 True show ?thesis by (auto simp: begin_log)
  next
    case False
    have "job_of (finishRetry env r w) = job_of w2 \<or> rj_inspect job"
    proof (cases "choice = 7")
      case True
      with d e n u c q have "finishRetry env r w =
          beginRetry (int (rj_index (rr_job r))) (rj_profile (rr_job r)) (rj_secrets (rr_job r))
            (AlternatePath (rj_target (rr_job r)) (de_stamp env (w_clock ?w1))) True w2"
        by (simp add: finishRetry_def Let_def)
      with job_begin [of _ _ _ _ True w2 job] assms(1,2) j2 show ?thesis by simp
    next
      case no: False
      with False d e n u c q show ?thesis by (simp add: finishRetry_def Let_def)
    qed
    with assms j2 show ?thesis by simp
  qed
qed

lemma job_retry: "job_of (retrySelected env w) = job_of w \<or> (\<exists>job. job_of (retrySelected env w) = Some job \<and> rj_inspect job)"
proof -
  have b: "job_of (beginRetry i p s t True v) = job_of v \<or> (\<exists>job. job_of (beginRetry i p s t True v) = Some job \<and> rj_inspect job)"
    for i p s t and v :: "('a, 'b, 'c) window"
    by (auto simp: beginRetry_def job_of_def upd_dialog_def Let_def split: option.splits)
  obtain a w1 where q: "desk_box env ''retry the preserved file?'' w = (a, w1)" by (metis surj_pair)
  have "job_of w1 = job_of w" using job_kept(7) [of env "''retry the preserved file?''" w] q by simp
  with b [of _ _ _ _ w1] show ?thesis
    by (auto simp: retrySelected_def Let_def q split: option.splits sum.splits)
qed

lemma job_save: "job_of (saveCacheSettings env a b c w) = job_of w"
proof -
  have "job_of (snd (write_settings env s w)) = job_of w" for s
    by (simp add: write_settings_def split: prod.splits)
  then have "write_settings env s w = (r, w1) \<Longrightarrow> job_of w1 = job_of w" for s r w1 by (metis snd_conv)
  then show ?thesis by (auto simp: saveCacheSettings_def split: sum.splits prod.splits option.splits)
qed

lemma job_export: "job_of (exportSelected env w) = job_of w"
  by (auto simp: exportSelected_def Let_def split: option.splits sum.splits prod.splits)

lemma job_delete: "job_of (deleteSelected env w) = job_of w"
proof -
  obtain a w1 where q: "desk_box env ''delete the preserved file?'' w = (a, w1)" by (metis surj_pair)
  have "job_of w1 = job_of w" using job_kept(7) [of env "''delete the preserved file?''" w] q by simp
  then show ?thesis by (auto simp: deleteSelected_def Let_def q split: option.splits prod.splits)
qed

lemma job_close: "job_of (recovery_close env w) = job_of w \<or> job_of (recovery_close env w) = None"
  by (auto simp: recovery_close_def split: option.splits) (simp add: job_of_def)

lemma job_select: "job_of (recovery_select i w) = job_of w"
  unfolding recovery_select_def by (rule job_dialog) simp

lemma job_folder: "job_of (openRecoveryFolder env w) = job_of w"
  by (simp add: openRecoveryFolder_def split: option.splits)

lemma job_events:
  assumes "w_recovery w = Some d" and "ev \<noteq> RetryMessage"
  shows "job_of (recoveryWndProc env ev w) = job_of w \<or> job_of (recoveryWndProc env ev w) = None \<or>
    (\<exists>job. job_of (recoveryWndProc env ev w) = Some job \<and> rj_inspect job)"
  using assms job_close [of env w] job_retry [of env w]
  by (cases ev) (simp_all add: recoveryWndProc_def job_save job_export job_delete job_select job_folder, blast+)

text \<open>
  A retry that looks first: it sends the file only when the server itself answered that it has none at the target.
  Otherwise it has made no other call on the server than to ask and to close the connection; and when it reports a conflict,
  the server did have a file there (the one reported), of another size, or with a modification time that is unknown or more
  than two seconds away from that of the preserved file.
\<close>

definition different_file :: "store \<Rightarrow> recovery_item \<Rightarrow> lfs \<Rightarrow> entry \<Rightarrow> bool" where
  "different_file st item fs en \<longleftrightarrow> (\<exists>p info. OpenRecovery st item fs = Inr (p, info) \<and> \<not> entry_IsDir en \<and>
     (let t = (if rm_UpdatedAt (ri_Metadata item) = 0 then fi_ModTime info else rm_UpdatedAt (ri_Metadata item))
      in e_Size en \<noteq> fi_Size info \<or> t = 0 \<or> e_ModTime en = 0 \<or> 2 * second < \<bar>t - e_ModTime en\<bar>))"

definition looks_first :: "('w, 's, 'b, 'r, 'h) desk_env \<Rightarrow> retry_job \<Rightarrow> bool" where
  "looks_first env job \<longleftrightarrow> (\<forall>st fs b.
     case (run_retry env st fs job b, de_open env (sp_Profile (rj_profile job)) (rj_secrets job) b) of
       ((r, b'), (Inl e, b1)) \<Rightarrow> \<not> rr_uploaded r \<and> b' = b1
     | ((r, b'), (Inr B, b1)) \<Rightarrow>
         (case b_Stat B None (rj_target job) b1 of (answer, b2) \<Rightarrow>
            (\<exists>e. answer = Inl e \<and> errors_Is e ErrNotExist) \<or>
            \<not> rr_uploaded r \<and> b' \<in> {snd (b_Close B b1), snd (b_Close B b2)} \<and>
            (rr_state r = RemoteConflict \<and> rr_err r = None \<longrightarrow>
               answer = Inr (rr_entry r) \<and> different_file st (rj_item job) fs (rr_entry r))))"

lemma Inspect_missing:
  assumes "Inspect st item fs B x n w = ((RemoteMissing, en, e), w')"
  shows "\<exists>e. b_Stat B x n w = (Inl e, w') \<and> errors_Is e ErrNotExist"
  using assms by (auto simp: Inspect_def Let_def split: sum.splits prod.splits option.splits if_splits)

lemma Inspect_asks: "Inspect st item fs B x n w = (r, w') \<Longrightarrow> w' = w \<or> w' = snd (b_Stat B x n w)"
  by (auto simp: Inspect_def Let_def split: sum.splits prod.splits option.splits if_splits)

lemma Inspect_conflict:
  assumes "Inspect st item fs B x n w = ((RemoteConflict, en, None), w')"
  shows "b_Stat B x n w = (Inr en, w') \<and> different_file st item fs en"
proof -
  obtain p info where f: "OpenRecovery st item fs = Inr (p, info)" "file_Close p fs = None"
    using assms by (auto simp: Inspect_def split: sum.splits option.splits)
  obtain answer w1 where a: "b_Stat B x n w = (answer, w1)" by force
  from inspect_decides [OF f assms a refl] have d: "w' = w1"
    "\<not> (\<exists>se. answer = Inl se \<and> errors_Is se ErrNotExist)" "\<And>r. answer = Inr r \<Longrightarrow> en = r" and
    same: "\<not> (\<exists>r. answer = Inr r \<and> \<not> entry_IsDir r \<and> e_Size r = fi_Size info \<and>
       (if time_IsZero (rm_UpdatedAt (ri_Metadata item)) then fi_ModTime info else rm_UpdatedAt (ri_Metadata item)) \<noteq> 0 \<and>
       e_ModTime r \<noteq> 0 \<and> (\<bar>(if time_IsZero (rm_UpdatedAt (ri_Metadata item)) then fi_ModTime info else rm_UpdatedAt (ri_Metadata item))
          - e_ModTime r\<bar> \<le> 2 * second \<or> (if time_IsZero (rm_UpdatedAt (ri_Metadata item)) then fi_ModTime info
          else rm_UpdatedAt (ri_Metadata item)) - e_ModTime r \<le> min_i64))" by auto
  from assms f a have "answer = Inr en" "\<not> entry_IsDir en"
    by (auto simp: Inspect_def Let_def split: sum.splits if_splits)
  with same f a d(1) show ?thesis by (auto simp: different_file_def Let_def time_IsZero_def not_le)
qed

lemma retry_looks_first:
  assumes "rj_inspect job"
  shows "looks_first env job"
  unfolding looks_first_def
proof (intro allI)
  fix st fs b
  obtain r b' where run: "run_retry env st fs job b = (r, b')" by force
  obtain rB b1 where op: "de_open env (sp_Profile (rj_profile job)) (rj_secrets job) b = (rB, b1)" by force
  show "case (run_retry env st fs job b, de_open env (sp_Profile (rj_profile job)) (rj_secrets job) b) of
       ((r, b'), (Inl e, b1)) \<Rightarrow> \<not> rr_uploaded r \<and> b' = b1
     | ((r, b'), (Inr B, b1)) \<Rightarrow>
         (case b_Stat B None (rj_target job) b1 of (answer, b2) \<Rightarrow>
            (\<exists>e. answer = Inl e \<and> errors_Is e ErrNotExist) \<or>
            \<not> rr_uploaded r \<and> b' \<in> {snd (b_Close B b1), snd (b_Close B b2)} \<and>
            (rr_state r = RemoteConflict \<and> rr_err r = None \<longrightarrow>
               answer = Inr (rr_entry r) \<and> different_file st (rj_item job) fs (rr_entry r)))"
  proof (cases rB)
    case (Inl e)
    with run op show ?thesis by (auto simp: run_retry_def)
  next
    case (Inr B)
    obtain state en e b2 where i: "Inspect st (rj_item job) fs B None (rj_target job) b1 = ((state, en, e), b2)" by (metis surj_pair)
    obtain answer b3 where a: "b_Stat B None (rj_target job) b1 = (answer, b3)" by force
    show ?thesis
    proof (cases "state = RemoteMissing")
      case True
      with Inspect_missing [of st "rj_item job" fs B None "rj_target job" b1 en e b2] i a run op Inr show ?thesis by auto
    next
      case False
      obtain ce b4 where cl: "b_Close B b2 = (ce, b4)" by force
      from run op Inr i False cl assms have r: "r = \<lparr>rr_job = job, rr_state = state, rr_entry = en, rr_uploaded = False,
          rr_err = errors_Join [e, ce]\<rparr>" "b' = b4" by (auto simp: run_retry_def)
      have "b2 = b1 \<or> b2 = b3" using Inspect_asks [OF i] a by auto
      then have b': "b' \<in> {snd (b_Close B b1), snd (b_Close B b3)}" using cl r(2) by auto
      have "answer = Inr en \<and> different_file st (rj_item job) fs en" if "state = RemoteConflict" "errors_Join [e, ce] = None"
      proof -
        from that(2) have "e = None" by (auto simp: errors_Join_None_iff)
        with Inspect_conflict [of st "rj_item job" fs B None "rj_target job" b1 en b2] i that(1) a show ?thesis by auto
      qed
      with b' r a run op Inr show ?thesis by auto
    qed
  qed
qed


definition retry_conflict :: "(unit, nat, unit) window" where
  "retry_conflict = upd_dialog (\<lambda>d. d\<lparr>rd_busy := True, rd_result := Some
     \<lparr>rr_job = \<lparr>rj_index = 1, rj_item = retry_item ''1'', rj_profile = demo_saved, rj_secrets = demo_secrets,
                rj_target = ''/file'', rj_inspect = True\<rparr>,
      rr_state = RemoteConflict, rr_entry = zero_entry, rr_uploaded = False, rr_err = None\<rparr>\<rparr>) retry_opened"

lemma retry_conflict_job: "map_option rj_inspect (job_of (recoveryWndProc retry_env RetryMessage retry_conflict)) = Some False"
    "job_of retry_conflict = None"
  by code_simp+


end
