(* ===== verification/Mount_Metadata.thy ===== *)
theory Mount_Metadata
  imports Mount_Facts
begin

text \<open>
  \<^verbatim>\<open>internal/mount/metadata_windows.go\<close>: the layer between WinFsp and the file system that
  carries out what \<^verbatim>\<open>gofs\<close> cannot, the read-only attribute and the modification time. The callbacks it
  passes on are a parameter that acts on a state of its own and on the mounted file system; so are the bits
  of the request flags, which the WinFsp library defines.
\<close>

unbundle bit_operations_syntax

record file_info =
  inf_FileAttributes :: "32 word"
  inf_LastWriteTime :: "64 word"
  inf_ChangeTime :: "64 word"

record basic_request =
  br_flags :: "32 word"
  br_attributes :: "32 word"
  br_creationTime :: "64 word"
  br_lastAccessTime :: "64 word"
  br_lastWriteTime :: "64 word"
  br_changeTime :: "64 word"

text \<open>The callbacks of \<open>goFSBehaviour\<close> the layer overrides, on the world \<open>'m\<close>.\<close>

record 'm gofs_behaviour =
  gb_Open :: "string \<Rightarrow> 32 word \<Rightarrow> 32 word \<Rightarrow> 'm \<Rightarrow> (err + nat \<times> file_info) \<times> 'm"
  gb_Create :: "string \<Rightarrow> 32 word \<Rightarrow> 32 word \<Rightarrow> 32 word \<Rightarrow> bytes \<Rightarrow> 64 word \<Rightarrow> 'm \<Rightarrow> (err + nat \<times> file_info) \<times> 'm"
  gb_Close :: "nat \<Rightarrow> 'm \<Rightarrow> 'm"
  gb_Rename :: "nat \<Rightarrow> string \<Rightarrow> string \<Rightarrow> bool \<Rightarrow> 'm \<Rightarrow> err option \<times> 'm"
  gb_SetBasicInfo :: "nat \<Rightarrow> basic_request \<Rightarrow> file_info \<Rightarrow> 'm \<Rightarrow> (err option \<times> file_info) \<times> 'm"

record ('d, 'w, 'r, 'h) metadata_behaviour =
  mb_inner :: "('d \<times> 'w mount_world) gofs_behaviour"
  mb_filesystem :: "('w, 'r, 'h) gofs"
  mb_readOnly :: bool
  mb_SetAttributes :: "32 word"
  mb_SetLastWriteTime :: "32 word"

text \<open>The paths of the open handles, the callbacks' own state, and the mounted file system.\<close>

type_synonym ('d, 'w) metadata_state = "(nat \<times> string) list \<times> 'd \<times> 'w mount_world"

text \<open>\<open>NewMetadataBehaviour\<close>, given the results of its two type assertions.\<close>

definition NewMetadataBehaviour ::
  "('d \<times> 'w mount_world) gofs_behaviour option \<Rightarrow> ('w, 'r, 'h) gofs option \<Rightarrow> bool \<Rightarrow> 32 word \<Rightarrow> 32 word
     \<Rightarrow> err + ('d, 'w, 'r, 'h) metadata_behaviour" where
  "NewMetadataBehaviour inner filesystem readOnly a l =
     (case inner of
        None \<Rightarrow> Inl (ErrNew ''unsupported behaviour'')
      | Some delegate \<Rightarrow>
          (case filesystem of
             None \<Rightarrow> Inl (ErrNew ''unsupported file system'')
           | Some fs \<Rightarrow> Inr \<lparr>mb_inner = delegate, mb_filesystem = fs, mb_readOnly = readOnly,
                             mb_SetAttributes = a, mb_SetLastWriteTime = l\<rparr>))"

subsection \<open>Handles\<close>

definition remember_handle ::
  "string \<Rightarrow> (nat \<times> string) list \<Rightarrow> (err + nat \<times> file_info) \<times> 'd \<times> 'w mount_world
     \<Rightarrow> (err + nat \<times> file_info) \<times> ('d, 'w) metadata_state" where
  "remember_handle name handles result =
     (case result of
        (Inr (handle, info), m) \<Rightarrow> (Inr (handle, info), AList.update handle (cleanMountPath name) handles, m)
      | (Inl e, m) \<Rightarrow> (Inl e, handles, m))"

definition meta_Open ::
  "('d, 'w, 'r, 'h) metadata_behaviour \<Rightarrow> string \<Rightarrow> 32 word \<Rightarrow> 32 word \<Rightarrow> ('d, 'w) metadata_state
     \<Rightarrow> (err + nat \<times> file_info) \<times> ('d, 'w) metadata_state" where
  "meta_Open B name createOptions grantedAccess s =
     (case s of (handles, m) \<Rightarrow> remember_handle name handles (gb_Open (mb_inner B) name createOptions grantedAccess m))"

definition meta_Create ::
  "('d, 'w, 'r, 'h) metadata_behaviour \<Rightarrow> string \<Rightarrow> 32 word \<Rightarrow> 32 word \<Rightarrow> 32 word \<Rightarrow> bytes \<Rightarrow> 64 word
     \<Rightarrow> ('d, 'w) metadata_state \<Rightarrow> (err + nat \<times> file_info) \<times> ('d, 'w) metadata_state" where
  "meta_Create B name createOptions grantedAccess fileAttributes descriptor allocationSize s =
     (case s of (handles, m) \<Rightarrow>
        remember_handle name handles
          (gb_Create (mb_inner B) name createOptions grantedAccess fileAttributes descriptor allocationSize m))"

definition meta_Close :: "('d, 'w, 'r, 'h) metadata_behaviour \<Rightarrow> nat \<Rightarrow> ('d, 'w) metadata_state \<Rightarrow> ('d, 'w) metadata_state" where
  "meta_Close B file s = (case s of (handles, m) \<Rightarrow> (AList.delete file handles, gb_Close (mb_inner B) file m))"

definition meta_Rename ::
  "('d, 'w, 'r, 'h) metadata_behaviour \<Rightarrow> nat \<Rightarrow> string \<Rightarrow> string \<Rightarrow> bool \<Rightarrow> ('d, 'w) metadata_state
     \<Rightarrow> err option \<times> ('d, 'w) metadata_state" where
  "meta_Rename B file source target replaceIfExists s =
     (case s of (handles, m) \<Rightarrow>
        (case gb_Rename (mb_inner B) file source target replaceIfExists m of
           (Some e, m1) \<Rightarrow> (Some e, handles, m1)
         | (None, m1) \<Rightarrow> (None, AList.update file (cleanMountPath target) handles, m1)))"

subsection \<open>Times and attributes\<close>

text \<open>
  \<open>syscall.Filetime.Nanoseconds\<close>: the 64 bits are read as an \<open>int64\<close> of 100 ns since 1601, and every
  operation on it wraps; \<open>time.Unix\<close> counts from 1970.
\<close>

definition unix_epoch :: instant where "unix_epoch = 62135596800 * second"
definition filetime_epoch :: int where "filetime_epoch = 116444736000000000"

definition filetimeToTime :: "64 word \<Rightarrow> instant" where
  "filetimeToTime value = unix_epoch + i64 (i64 (sint value - filetime_epoch) * 100)"

definition FILE_ATTRIBUTE_READONLY :: "32 word" where "FILE_ATTRIBUTE_READONLY = 0x1"
definition FILE_ATTRIBUTE_NORMAL :: "32 word" where "FILE_ATTRIBUTE_NORMAL = 0x80"

text \<open>The steps of \<open>SetBasicInfo\<close>: the attribute on the server, the time, and what is reported back.\<close>

definition set_attribute ::
  "('d, 'w, 'r, 'h) metadata_behaviour \<Rightarrow> string \<Rightarrow> 32 word \<Rightarrow> 'w mount_world \<Rightarrow> err option \<times> 'w mount_world" where
  "set_attribute B name attributes w =
     (case remote_call (b_Stat (gf_backend (mb_filesystem B)) operationContext name) w of
        (Inl e, w1) \<Rightarrow> (Some e, w1)
      | (Inr en, w1) \<Rightarrow>
          if entry_IsDir en then (None, w1)
          else remote_call (b_SetReadOnly (gf_backend (mb_filesystem B)) operationContext name
                 (attributes AND FILE_ATTRIBUTE_READONLY \<noteq> 0)) w1)"

definition reported_info :: "('d, 'w, 'r, 'h) metadata_behaviour \<Rightarrow> basic_request \<Rightarrow> file_info \<Rightarrow> file_info" where
  "reported_info B req info =
     (let info1 =
        (if br_flags req AND mb_SetAttributes B = 0 then info
         else let attrs = inf_FileAttributes info AND NOT FILE_ATTRIBUTE_READONLY
              in info\<lparr>inf_FileAttributes :=
                   (if br_attributes req AND FILE_ATTRIBUTE_READONLY \<noteq> 0
                    then (attrs AND NOT FILE_ATTRIBUTE_NORMAL) OR FILE_ATTRIBUTE_READONLY
                    else if attrs = 0 then FILE_ATTRIBUTE_NORMAL else attrs)\<rparr>)
      in if br_flags req AND mb_SetLastWriteTime B = 0 then info1
         else info1\<lparr>inf_LastWriteTime := br_lastWriteTime req, inf_ChangeTime := br_lastWriteTime req\<rparr>)"

definition meta_SetBasicInfo ::
  "('d, 'w, 'r, 'h) metadata_behaviour \<Rightarrow> nat \<Rightarrow> basic_request \<Rightarrow> file_info \<Rightarrow> ('d, 'w) metadata_state
     \<Rightarrow> (err option \<times> file_info) \<times> ('d, 'w) metadata_state" where
  "meta_SetBasicInfo B file req info s =
     (case s of (handles, d, w) \<Rightarrow>
        if mb_readOnly B \<or> br_flags req AND NOT (mb_SetAttributes B OR mb_SetLastWriteTime B) \<noteq> 0
        then (case gb_SetBasicInfo (mb_inner B) file req info (d, w) of (r, m) \<Rightarrow> (r, handles, m))
        else case map_of handles file of
          None \<Rightarrow> ((Some (Sentinel STATUS_INVALID_HANDLE), info), handles, d, w)
        | Some name \<Rightarrow>
       (case (if br_flags req AND mb_SetAttributes B \<noteq> 0 then set_attribute B name (br_attributes req) w else (None, w)) of
          (Some e, w1) \<Rightarrow> ((Some e, info), handles, d, w1)
        | (None, w1) \<Rightarrow>
       (case (if br_flags req AND mb_SetLastWriteTime B \<noteq> 0
              then gofs_setModTime (mb_filesystem B) name (filetimeToTime (br_lastWriteTime req)) w1 else (None, w1)) of
          (Some e, w2) \<Rightarrow> ((Some e, info), handles, d, w2)
        | (None, w2) \<Rightarrow>
       (case gb_SetBasicInfo (mb_inner B) file req info (d, w2) of
          ((Some e, info1), m) \<Rightarrow>
            if errors_Is e STATUS_ACCESS_DENIED then ((None, reported_info B req info1), handles, m)
            else ((Some e, info1), handles, m)
        | ((None, info1), m) \<Rightarrow> ((None, reported_info B req info1), handles, m)))))"
subsection \<open>What the layer guarantees\<close>

text \<open>The handle table is the partial function of the last names, whatever the callbacks do.\<close>

lemma handles_after:
  "meta_Open B name a b (handles, m) = (Inr (h, info), handles', m') \<Longrightarrow> map_of handles' = (map_of handles)(h \<mapsto> cleanMountPath name)"
  "meta_Create B name a b c sd n (handles, m) = (Inr (h, info), handles', m') \<Longrightarrow> map_of handles' = (map_of handles)(h \<mapsto> cleanMountPath name)"
  "meta_Rename B h source target r (handles, m) = (None, handles', m') \<Longrightarrow> map_of handles' = (map_of handles)(h \<mapsto> cleanMountPath target)"
  "meta_Close B h (handles, m) = (handles', m') \<Longrightarrow> map_of handles' = (map_of handles)(h := None)"
  by (auto simp: meta_Open_def meta_Create_def meta_Rename_def meta_Close_def remember_handle_def update_conv' delete_conv'
      split: prod.splits sum.splits option.splits)

lemma i64_mult: "i64 (i64 x * y) = i64 (x * y)"
proof -
  have "(i64 x * y + 2 ^ 63) mod 2 ^ 64 = (x * y + 2 ^ 63) mod 2 ^ 64"
  proof -
    have "i64 x mod 2 ^ 64 = x mod 2 ^ 64" by (simp add: i64_def mod_diff_left_eq)
    then have "i64 x * y mod 2 ^ 64 = x * y mod 2 ^ 64" by (metis mod_mult_left_eq)
    then show ?thesis by (metis mod_add_left_eq)
  qed
  then show ?thesis by (simp add: i64_def)
qed

lemma i64_id_iff: "i64 x = x \<longleftrightarrow> in_i64 x"
  using i64_id [of x] in_i64_i64 [of x] by metis

text \<open>
  C22. The time WinFsp passes on is converted exactly when it lies between 1677 and 2262, that is within
  92233720368547758 ticks of 1970, and in no other case: beyond, the product wraps around, and the time sent
  to the server is another one.
\<close>

theorem filetime_exact:
  "filetimeToTime v = unix_epoch + (sint v - filetime_epoch) * 100 \<longleftrightarrow>
     filetime_epoch - 92233720368547758 \<le> sint v \<and> sint v \<le> filetime_epoch + 92233720368547758"
  by (auto simp: filetimeToTime_def i64_mult i64_id_iff in_i64_def min_i64_def max_i64_def)

lemma readonly_bit:
  "(((x AND NOT FILE_ATTRIBUTE_READONLY) AND NOT FILE_ATTRIBUTE_NORMAL) OR FILE_ATTRIBUTE_READONLY) AND FILE_ATTRIBUTE_READONLY \<noteq> 0"
  "(x AND NOT FILE_ATTRIBUTE_READONLY) AND FILE_ATTRIBUTE_READONLY = 0"
  "FILE_ATTRIBUTE_NORMAL AND FILE_ATTRIBUTE_READONLY = 0"
proof -
  show "(((x AND NOT FILE_ATTRIBUTE_READONLY) AND NOT FILE_ATTRIBUTE_NORMAL) OR FILE_ATTRIBUTE_READONLY) AND FILE_ATTRIBUTE_READONLY \<noteq> 0"
    "FILE_ATTRIBUTE_NORMAL AND FILE_ATTRIBUTE_READONLY = 0"
    by (simp_all add: FILE_ATTRIBUTE_READONLY_def FILE_ATTRIBUTE_NORMAL_def and_one_eq even_or_iff
        odd_iff_mod_2_eq_one [symmetric])
  show "(x AND NOT FILE_ATTRIBUTE_READONLY) AND FILE_ATTRIBUTE_READONLY = 0" by (simp add: and.assoc)
qed

lemma set_attribute_None:
  "set_attribute B name attributes w = (None, w1) \<longleftrightarrow>
     (\<exists>en ws. remote_call (b_Stat (gf_backend (mb_filesystem B)) operationContext name) w = (Inr en, ws) \<and>
        (if entry_IsDir en then w1 = ws
         else remote_call (b_SetReadOnly (gf_backend (mb_filesystem B)) operationContext name
                (attributes AND FILE_ATTRIBUTE_READONLY \<noteq> 0)) ws = (None, w1)))"
  by (auto simp: set_attribute_def split: prod.splits sum.splits)

text \<open>
  C21. What a successful \<open>SetBasicInfo\<close> means. On a writable drive and with the flags the layer carries
  out itself, a success means the handle is open; a requested read-only attribute was accepted by the server
  for the path of the handle, unless that is a directory, and a requested time was accepted with the
  converted value; and what is reported back is exactly what was asked for, although the callback behind
  may have denied the access. A handle that is not open is refused and changes nothing.
\<close>

theorem set_basic_info_success:
  assumes "meta_SetBasicInfo B file req info (handles, d, w) = ((e, info'), handles', d', w')"
    and "\<not> mb_readOnly B" and "br_flags req AND NOT (mb_SetAttributes B OR mb_SetLastWriteTime B) = 0"
  shows "handles' = handles \<and>
    (map_of handles file = None \<longrightarrow> e = Some (Sentinel STATUS_INVALID_HANDLE) \<and> info' = info \<and> d' = d \<and> w' = w) \<and>
    (e = None \<longrightarrow> (\<exists>name w1 w2. map_of handles file = Some name \<and>
      (if br_flags req AND mb_SetAttributes B = 0 then w1 = w
       else (\<exists>en ws. remote_call (b_Stat (gf_backend (mb_filesystem B)) operationContext name) w = (Inr en, ws) \<and>
           (if entry_IsDir en then w1 = ws
            else remote_call (b_SetReadOnly (gf_backend (mb_filesystem B)) operationContext name
                   (br_attributes req AND FILE_ATTRIBUTE_READONLY \<noteq> 0)) ws = (None, w1))) \<and>
         (inf_FileAttributes info' AND FILE_ATTRIBUTE_READONLY = 0 \<longleftrightarrow> br_attributes req AND FILE_ATTRIBUTE_READONLY = 0)) \<and>
      (if br_flags req AND mb_SetLastWriteTime B = 0 then w2 = w1
       else gofs_setModTime (mb_filesystem B) name (filetimeToTime (br_lastWriteTime req)) w1 = (None, w2) \<and>
         inf_LastWriteTime info' = br_lastWriteTime req \<and> inf_ChangeTime info' = br_lastWriteTime req) \<and>
      (\<exists>r info1. gb_SetBasicInfo (mb_inner B) file req info (d, w2) = ((r, info1), d', w') \<and>
         (\<forall>er. r = Some er \<longrightarrow> errors_Is er STATUS_ACCESS_DENIED))))"
proof (cases "map_of handles file")
  case None
  with assms show ?thesis by (auto simp: meta_SetBasicInfo_def)
next
  case (Some name)
  obtain e1 w1 where a: "(if br_flags req AND mb_SetAttributes B \<noteq> 0 then set_attribute B name (br_attributes req) w else (None, w)) = (e1, w1)"
    by (metis surj_pair)
  obtain e2 w2 where t: "(if br_flags req AND mb_SetLastWriteTime B \<noteq> 0
      then gofs_setModTime (mb_filesystem B) name (filetimeToTime (br_lastWriteTime req)) w1 else (None, w1)) = (e2, w2)"
    by (metis surj_pair)
  obtain r info1 d3 w3 where g: "gb_SetBasicInfo (mb_inner B) file req info (d, w2) = ((r, info1), d3, w3)"
    by (metis surj_pair)
  note run = assms(1) [unfolded meta_SetBasicInfo_def prod.case Some option.case a t g]
  show ?thesis
  proof (cases "e = None")
    case False
    with run Some assms(2,3) show ?thesis by (auto split: option.splits if_splits)
  next
    case True
    with run assms(2,3) have n: "e1 = None" "e2 = None" "handles' = handles" "d' = d3" "w' = w3"
      "info' = reported_info B req info1" "\<forall>er. r = Some er \<longrightarrow> errors_Is er STATUS_ACCESS_DENIED"
      by (auto split: option.splits if_splits)
    have i: "br_flags req AND mb_SetAttributes B \<noteq> 0 \<Longrightarrow>
        inf_FileAttributes info' AND FILE_ATTRIBUTE_READONLY = 0 \<longleftrightarrow> br_attributes req AND FILE_ATTRIBUTE_READONLY = 0"
      "br_flags req AND mb_SetLastWriteTime B \<noteq> 0 \<Longrightarrow>
        inf_LastWriteTime info' = br_lastWriteTime req \<and> inf_ChangeTime info' = br_lastWriteTime req"
      using readonly_bit unfolding n(6) by (auto simp: reported_info_def Let_def)
    show ?thesis
      using a t g n i Some True unfolding set_attribute_None [symmetric] by (auto split: if_splits)
  qed
qed
text \<open>A drive whose callbacks deny every change of the basic information, with one file open under handle 7.\<close>

definition demo_metadata :: "(unit, (string \<times> bytes) list, bytes, string) metadata_behaviour" where
  "demo_metadata = \<lparr>mb_inner = \<lparr>gb_Open = (\<lambda>n a b m. (Inl (ErrNew ''unused''), m)), gb_Create = (\<lambda>n a b c sd k m. (Inl (ErrNew ''unused''), m)),
       gb_Close = (\<lambda>h m. m), gb_Rename = (\<lambda>h a b r m. (None, m)),
       gb_SetBasicInfo = (\<lambda>h req info m. ((Some (Sentinel STATUS_ACCESS_DENIED), info), m))\<rparr>,
     mb_filesystem = demo_gofs, mb_readOnly = False, mb_SetAttributes = 1, mb_SetLastWriteTime = 8\<rparr>"

definition demo_request :: basic_request where
  "demo_request = \<lparr>br_flags = 9, br_attributes = 1, br_creationTime = 0, br_lastAccessTime = 0,
     br_lastWriteTime = 116444736000000001, br_changeTime = 0\<rparr>"

definition demo_info :: file_info where
  "demo_info = \<lparr>inf_FileAttributes = 0x80, inf_LastWriteTime = 0, inf_ChangeTime = 0\<rparr>"

lemma demo_set_info:
  "fst (fst (meta_SetBasicInfo demo_metadata 7 demo_request demo_info ([(7, ''g'')], (), demo_mount\<lparr>mw_remote := [(''g'', [])]\<rparr>))) = None"
  by code_simp

theorem set_basic_info_success_witness:
  "inf_FileAttributes (snd (fst (meta_SetBasicInfo demo_metadata 7 demo_request demo_info
     ([(7, ''g'')], (), demo_mount\<lparr>mw_remote := [(''g'', [])]\<rparr>)))) AND FILE_ATTRIBUTE_READONLY \<noteq> 0"
proof -
  obtain e info' handles' d' w' where run: "meta_SetBasicInfo demo_metadata 7 demo_request demo_info
      ([(7, ''g'')], (), demo_mount\<lparr>mw_remote := [(''g'', [])]\<rparr>) = ((e, info'), handles', d', w')"
    by (metis surj_pair)
  have "\<not> mb_readOnly demo_metadata"
    "br_flags demo_request AND NOT (mb_SetAttributes demo_metadata OR mb_SetLastWriteTime demo_metadata) = 0"
    "br_flags demo_request AND mb_SetAttributes demo_metadata \<noteq> 0"
    "br_attributes demo_request AND FILE_ATTRIBUTE_READONLY \<noteq> 0"
    by (simp_all add: demo_metadata_def demo_request_def FILE_ATTRIBUTE_READONLY_def)
  with set_basic_info_success [OF run this(1,2)] demo_set_info run show ?thesis by auto
qed

end
