(* ===== verification/Prerequisite.thy ===== *)
theory Prerequisite
  imports Config
begin

text \<open>
  \<^verbatim>\<open>internal/prerequisite/winfsp.go\<close> and \<^verbatim>\<open>cmd/dkdrive/prerequisite_windows.go\<close>: the installer of WinFsp
  that comes with the program is run only when it is the pinned one. The digest, the loader of WinFsp, the
  message box, the directories of Windows, the installation itself and the installer pinned by the embedded
  \<^verbatim>\<open>winfsp.json\<close> are parameters; what the user is
  shown and what is run is recorded in the order it happens.
\<close>

record installer =
  ins_File :: string
  ins_URL :: string
  ins_SHA256 :: string

datatype run_result = RunDone | RunExit int | RunError err

datatype setup_event = Prompted string nat | Ran string "string list"

record setup_env =
  su_LoadWinFSP :: "err option"
  su_Executable :: "err + string"
  su_Installer :: installer
  su_sha256 :: "bytes \<Rightarrow> bytes"
  su_box :: "string \<Rightarrow> nat \<Rightarrow> nat"
  su_SystemDirectory :: "err + string"
  su_Run :: "string \<Rightarrow> string list \<Rightarrow> run_result"

definition Verify :: "(bytes \<Rightarrow> bytes) \<Rightarrow> installer \<Rightarrow> string \<Rightarrow> lfs \<Rightarrow> err option" where
  "Verify sha256 i path fs =
     (case os_ReadFile path fs of
        Inl e \<Rightarrow> Some e
      | Inr data \<Rightarrow>
          if hex_EncodeToString (sha256 data) \<noteq> ins_SHA256 i then Some (ErrNew ''installer not verified'') else None)"

definition prerequisiteMessage :: "setup_env \<Rightarrow> string \<Rightarrow> nat \<Rightarrow> nat \<times> setup_event" where
  "prerequisiteMessage env text flags = (su_box env text flags, Prompted text (su_box env text flags))"

text \<open>The result of \<open>prepareWinFsp\<close>, and what happened.\<close>

definition prepareWinFsp :: "setup_env \<Rightarrow> bool \<Rightarrow> lfs \<Rightarrow> (bool \<times> err option) \<times> setup_event list" where
  "prepareWinFsp env hidden fs =
     (if su_LoadWinFSP env = None then ((True, None), [])
      else if hidden then ((False, Some (ErrNew ''WinFsp not available'')), [])
      else case su_Executable env of
        Inl e \<Rightarrow> ((False, Some e), [])
      | Inr exe \<Rightarrow>
          let installer = path_Join [path_Dir exe, ins_File (su_Installer env)]
          in case Verify (su_sha256 env) (su_Installer env) installer fs of
               Some e \<Rightarrow> ((False, Some (Wrapped ''installer of WinFsp'' e)), [])
             | None \<Rightarrow>
          (case prerequisiteMessage env ''run the installer?'' 0x24 of
             (answer, prompted) \<Rightarrow>
               if answer \<noteq> 6 then ((False, None), [prompted])
               else case su_SystemDirectory env of
                 Inl e \<Rightarrow> ((False, Some e), [prompted])
               | Inr system \<Rightarrow>
                   let command = path_Join [system, ''msiexec.exe''];
                       args = [''/i'', installer, ''/norestart''];
                       past = [prompted, Ran command args]
                   in case su_Run env command args of
                        RunExit code \<Rightarrow>
                          if code = 1602 then ((False, None), past)
                          else if code = 3010
                          then ((False, None), past @ [snd (prerequisiteMessage env ''restart Windows'' 0x40)])
                          else ((False, Some (Wrapped ''installation of WinFsp'' (ErrNew ''exit status''))), past)
                      | RunError e \<Rightarrow> ((False, Some (Wrapped ''installation of WinFsp'' e)), past)
                      | RunDone \<Rightarrow> ((False, None), past @ [snd (prerequisiteMessage env ''start again'' 0x40)])))"

text \<open>
  C33. The program runs nothing but the pinned installer, and only with consent: whatever is run is
  \<^verbatim>\<open>msiexec\<close> from the directory of Windows on the installer beside the program, whose digest at that moment
  was the pinned one, after the user agreed, at most once and never in a hidden start; the program goes on
  only when WinFsp could be loaded.
\<close>

theorem installer_verified:
  assumes "prepareWinFsp env hidden fs = ((ready, e), events)"
  shows "(ready \<longleftrightarrow> su_LoadWinFSP env = None) \<and> (hidden \<longrightarrow> events = []) \<and>
    (\<forall>command args. Ran command args \<in> set events \<longrightarrow>
      (\<exists>exe system data rest. su_Executable env = Inr exe \<and> su_SystemDirectory env = Inr system \<and>
         command = path_Join [system, ''msiexec.exe''] \<and>
         args = [''/i'', path_Join [path_Dir exe, ins_File (su_Installer env)], ''/norestart''] \<and>
         os_ReadFile (path_Join [path_Dir exe, ins_File (su_Installer env)]) fs = Inr data \<and>
         hex_EncodeToString (su_sha256 env data) = ins_SHA256 (su_Installer env) \<and>
         events = Prompted ''run the installer?'' 6 # Ran command args # rest \<and>
         list_all (\<lambda>ev. \<exists>t a. ev = Prompted t a) rest))"
  using assms
  by (auto simp: prepareWinFsp_def prerequisiteMessage_def Verify_def Let_def
      split: if_splits sum.splits option.splits run_result.splits)

definition demo_setup :: setup_env where
  "demo_setup = \<lparr>su_LoadWinFSP = Some (ErrNew ''not installed''), su_Executable = Inr ''/d/dkdrive.exe'',
     su_Installer = \<lparr>ins_File = ''w.msi'', ins_URL = [], ins_SHA256 = ''0102''\<rparr>, su_sha256 = id, su_box = (\<lambda>t flags. 6),
     su_SystemDirectory = Inr ''/w'', su_Run = (\<lambda>c a. RunDone)\<rparr>"

definition demo_setup_disk :: lfs where
  "demo_setup_disk = \<lparr>fs_nodes = [(''/d'', DirNode), (''/d/w.msi'', Reg [1, 2] 5 True)], fs_cwd = ''/'', fs_faults = (\<lambda>_ _. None)\<rparr>"

lemma demo_setup_run:
  "snd (prepareWinFsp demo_setup False demo_setup_disk) =
     [Prompted ''run the installer?'' 6, Ran ''/w/msiexec.exe'' [''/i'', ''/d/w.msi'', ''/norestart''], Prompted ''start again'' 6]"
  by code_simp

theorem installer_verified_witness:
  "\<exists>data. os_ReadFile ''/d/w.msi'' demo_setup_disk = Inr data \<and> hex_EncodeToString data = ''0102''"
proof -
  obtain ready e events where run: "prepareWinFsp demo_setup False demo_setup_disk = ((ready, e), events)" by (metis surj_pair)
  have "Ran ''/w/msiexec.exe'' [''/i'', ''/d/w.msi'', ''/norestart''] \<in> set events" using demo_setup_run run by simp
  with installer_verified [OF run] show ?thesis by (fastforce simp: demo_setup_def)
qed

end
