(* ===== verification/Resources.thy ===== *)
theory Resources
  imports Go_Strconv Vfs
begin

text \<open>
  \<^verbatim>\<open>internal/buildresources/main.go\<close> and \<^verbatim>\<open>internal/branding/icon.go\<close>: the Windows resources that are linked
  into the program, as the bytes of one object file: the icon in three sizes and the version block. Texts are
  lists of runes; a write at an offset stays inside the buffer in every call of the code.
\<close>

unbundle bit_operations_syntax

type_synonym runes = "nat list"

subsection \<open>Little-endian buffers\<close>

definition le16 :: "16 word \<Rightarrow> bytes" where
  "le16 v = [ucast v, ucast (drop_bit 8 v)]"

definition le32 :: "32 word \<Rightarrow> bytes" where
  "le32 v = [ucast v, ucast (drop_bit 8 v), ucast (drop_bit 16 v), ucast (drop_bit 24 v)]"

definition put_word :: "bytes \<Rightarrow> 16 word \<Rightarrow> bytes" where "put_word b v = b @ le16 v"
definition put_dword :: "bytes \<Rightarrow> 32 word \<Rightarrow> bytes" where "put_dword b v = b @ le32 v"

definition align :: "bytes \<Rightarrow> bytes" where
  "align b = b @ replicate ((4 - length b mod 4) mod 4) 0"

definition PutUint16 :: "nat \<Rightarrow> 16 word \<Rightarrow> bytes \<Rightarrow> bytes" where
  "PutUint16 k v b = b[k := ucast v, k + 1 := ucast (drop_bit 8 v)]"

definition PutUint32 :: "nat \<Rightarrow> 32 word \<Rightarrow> bytes \<Rightarrow> bytes" where
  "PutUint32 k v b = b[k := ucast v, k + 1 := ucast (drop_bit 8 v), k + 2 := ucast (drop_bit 16 v), k + 3 := ucast (drop_bit 24 v)]"

text \<open>\<open>utf16.Encode\<close>: a surrogate or a number beyond Unicode becomes the replacement character.\<close>

fun utf16_Encode :: "runes \<Rightarrow> 16 word list" where
  "utf16_Encode [] = []"
| "utf16_Encode (r # rs) =
     (if r < 0xD800 \<or> 0xE000 \<le> r \<and> r < 0x10000 then [of_nat r]
      else if 0x10000 \<le> r \<and> r \<le> 0x10FFFF
      then [of_nat (0xD800 + (r - 0x10000) div 0x400), of_nat (0xDC00 + (r - 0x10000) mod 0x400)]
      else [0xFFFD]) @ utf16_Encode rs"

definition wide :: "runes \<Rightarrow> bytes" where
  "wide s = foldl put_word [] (utf16_Encode (s @ [0]))"

subsection \<open>Version blocks\<close>

definition block :: "runes \<Rightarrow> bool \<Rightarrow> bytes \<Rightarrow> bytes list \<Rightarrow> bytes" where
  "block key text value children =
     (let b = replicate 6 0;
          n = (if text then length value div 2 else length value);
          b = (if text then PutUint16 4 1 b else b);
          b = PutUint16 2 (of_nat n) b;
          b = align (b @ wide key) @ value;
          b = foldl (\<lambda>b child. align b @ child) b children
      in PutUint16 0 (of_nat (length b)) b)"

definition ascii :: "string \<Rightarrow> runes" where "ascii s = map of_char s"

fun split_dots :: "string \<Rightarrow> string list" where
  "split_dots [] = [[]]"
| "split_dots (c # s) = (if c = CHR ''.'' then [] # split_dots s else (c # hd (split_dots s)) # tl (split_dots s))"

definition fixed_info :: "32 word \<Rightarrow> 32 word \<Rightarrow> 32 word \<Rightarrow> bytes" where
  "fixed_info major minor patch =
     foldl put_dword [] [0xfeef04bd, 0x10000, push_bit 16 major OR minor, push_bit 16 patch, push_bit 16 major OR minor,
       push_bit 16 patch, 0x3f, 0, 0x40004, 1, 0, 0, 0]"

definition version_fields :: "string \<Rightarrow> runes \<Rightarrow> (string \<times> runes) list" where
  "version_fields Version Creator =
     [(''CompanyName'', Creator), (''FileDescription'', ascii ''DK-Drive''), (''FileVersion'', ascii (Version @ ''.0'')),
      (''InternalName'', ascii ''dkdrive''), (''OriginalFilename'', ascii ''dkdrive.exe''),
      (''ProductName'', ascii ''DK-Drive''), (''ProductVersion'', ascii Version)]"

text \<open>\<open>version\<close>; a panic is None.\<close>

definition version :: "string \<Rightarrow> runes \<Rightarrow> bytes option" where
  "version Version Creator =
     (case map ParseUint16 (split_dots Version) of
        [Inr major, Inr minor, Inr patch] \<Rightarrow>
          let fixed = fixed_info (of_int major) (of_int minor) (of_int patch);
              fields = map (\<lambda>(k, v). block (ascii k) True (wide v) []) (version_fields Version Creator);
              translation = put_word (put_word [] 0x409) 1200
          in Some (block (ascii ''VS_VERSION_INFO'') False fixed
               [block (ascii ''StringFileInfo'') True [] [block (ascii ''040904B0'') True [] fields],
                block (ascii ''VarFileInfo'') True [] [block (ascii ''Translation'') False translation []]])
      | _ \<Rightarrow> None)"

definition app_Version :: string where "app_Version = ''0.9.2''"
definition app_Creator :: runes where "app_Creator = [0xCC38, 0xBE5B, 0xBC14, 0xB2E4]"

subsection \<open>The icon\<close>

definition set_pixel :: "nat \<Rightarrow> nat \<Rightarrow> nat \<Rightarrow> 8 word \<Rightarrow> 8 word \<Rightarrow> 8 word \<Rightarrow> bytes \<times> bytes \<Rightarrow> bytes \<times> bytes" where
  "set_pixel side x y r g b bits =
     (let andStride = ((side + 15) div 16) * 2; row = side - 1 - y;
          k = row * andStride + x div 8; i = (row * side + x) * 4
      in (let m = fst bits in m[k := m ! k AND NOT (drop_bit (x mod 8) 0x80)],
          (snd bits)[i := b, i + 1 := g, i + 2 := r, i + 3 := 0xff]))"

definition background :: "nat \<Rightarrow> nat \<Rightarrow> (8 word \<times> 8 word \<times> 8 word) option" where
  "background sx sy =
     (let cx = min (max (int sx) 6) 25; cy = min (max (int sy) 6) 25
      in if (int sx - cx) * (int sx - cx) + (int sy - cy) * (int sy - cy) > 16 then None
         else if sx \<le> 3 \<or> sx \<ge> 28 \<or> sy \<le> 3 \<or> sy \<ge> 28 then Some (11, 79, 138) else Some (18, 104, 179))"

definition letter :: "nat \<Rightarrow> nat \<Rightarrow> bool" where
  "letter sx sy \<longleftrightarrow>
     (sx \<ge> 8 \<and> sx \<le> 11 \<and> sy \<ge> 7 \<and> sy \<le> 23) \<or> (sx \<ge> 10 \<and> sx \<le> 19 \<and> sy \<ge> 7 \<and> sy \<le> 10) \<or>
     (sx \<ge> 10 \<and> sx \<le> 19 \<and> sy \<ge> 20 \<and> sy \<le> 23) \<or> (sx \<ge> 19 \<and> sx \<le> 22 \<and> sy \<ge> 10 \<and> sy \<le> 20)"

definition pixels_of :: "nat \<Rightarrow> (nat \<times> nat) list" where
  "pixels_of side = concat (map (\<lambda>y. map (\<lambda>x. (x, y)) [0..<side]) [0..<side])"

definition draw_background :: "nat \<Rightarrow> bytes \<times> bytes \<Rightarrow> nat \<times> nat \<Rightarrow> bytes \<times> bytes" where
  "draw_background side bits p =
     (case background (fst p * 32 div side) (snd p * 32 div side) of
        None \<Rightarrow> bits | Some (r, g, b) \<Rightarrow> set_pixel side (fst p) (snd p) r g b bits)"

definition draw_letter :: "nat \<Rightarrow> bytes \<times> bytes \<Rightarrow> nat \<times> nat \<Rightarrow> bytes \<times> bytes" where
  "draw_letter side bits p =
     (if letter (fst p * 32 div side) (snd p * 32 div side)
      then set_pixel side (fst p) (snd p) 255 255 255 bits else bits)"

definition IconBits :: "nat \<Rightarrow> bytes \<times> bytes" where
  "IconBits side =
     foldl (draw_letter side)
       (foldl (draw_background side)
          (replicate (((side + 15) div 16) * 2 * side) 0xff, replicate (side * side * 4) 0) (pixels_of side))
       (pixels_of side)"

definition icon :: "nat \<Rightarrow> bytes" where
  "icon side =
     (let (mask, pixels) = IconBits side;
          b = PutUint16 14 32 (PutUint16 12 1 (PutUint32 8 (of_nat (side * 2))
                (PutUint32 4 (of_nat side) (PutUint32 0 40 (replicate 40 0))))) @ pixels;
          stride = ((side + 15) div 16) * 2;
          dibStride = ((side + 31) div 32) * 4
      in foldl (\<lambda>b y. b @ take stride (drop (y * stride) mask) @ replicate (dibStride - stride) 0) b [0..<side])"

subsection \<open>The object file\<close>

record resource =
  res_kind :: "32 word"
  res_id :: "32 word"
  res_data :: bytes

text \<open>One language directory with its data entry and the data.\<close>

definition add_resource :: "nat \<Rightarrow> nat \<Rightarrow> bytes \<times> nat list \<Rightarrow> resource \<Rightarrow> bytes \<times> nat list" where
  "add_resource typeOffset j st item =
     (case st of (section, relocs) \<Rightarrow>
        let langOffset = length section;
            section = PutUint32 (typeOffset + 16 + j * 8) (res_id item) section;
            section = PutUint32 (typeOffset + 20 + j * 8) (of_nat langOffset OR 0x80000000) section;
            section = section @ replicate 24 0;
            section = PutUint16 (langOffset + 14) 1 section;
            section = PutUint32 (langOffset + 16) 0x409 section;
            dataEntry = length section;
            section = PutUint32 (langOffset + 20) (of_nat dataEntry) section;
            section = section @ replicate 16 0;
            section = PutUint32 dataEntry (of_nat (length section)) section;
            section = PutUint32 (dataEntry + 4) (of_nat (length (res_data item))) section
        in (align (section @ res_data item), relocs @ [dataEntry]))"

fun add_resources :: "nat \<Rightarrow> nat \<Rightarrow> bytes \<times> nat list \<Rightarrow> resource list \<Rightarrow> bytes \<times> nat list" where
  "add_resources typeOffset j st [] = st"
| "add_resources typeOffset j st (item # items) =
     add_resources typeOffset (Suc j) (add_resource typeOffset j st item) items"

definition type_count :: "32 word \<Rightarrow> nat" where "type_count kind = (if kind = 3 then 3 else 1)"

text \<open>The directory of one kind, which takes its items from the front of the list.\<close>

fun add_types :: "nat \<Rightarrow> 32 word list \<Rightarrow> resource list \<Rightarrow> bytes \<times> nat list \<Rightarrow> bytes \<times> nat list" where
  "add_types typeIndex [] items st = st"
| "add_types typeIndex (kind # kinds) items st =
     (case st of (section, relocs) \<Rightarrow>
        let count = type_count kind;
            typeOffset = length section;
            section = PutUint32 (16 + typeIndex * 8) kind section;
            section = PutUint32 (20 + typeIndex * 8) (of_nat typeOffset OR 0x80000000) section;
            section = section @ replicate (16 + count * 8) 0;
            section = PutUint16 (typeOffset + 14) (of_nat count) section
        in add_types (Suc typeIndex) kinds (drop count items)
             (add_resources typeOffset 0 (section, relocs) (take count items)))"

definition resource_section :: "resource list \<Rightarrow> bytes \<times> nat list" where
  "resource_section items = add_types 0 [3, 14, 16] items (PutUint16 14 3 (replicate (16 + 3 * 8) 0), [])"

definition icon_group :: "(nat \<times> nat \<times> bytes) list \<Rightarrow> bytes" where
  "icon_group icons =
     foldl (\<lambda>group (i, side, data). put_word (put_dword (put_word (put_word
         (group @ [of_nat side, of_nat side, 0, 0]) 1) 32) (of_nat (length data))) (of_nat (i + 1)))
       (put_word (put_word (put_word [] 0) 1) 3) icons"

definition resource_items :: "string \<Rightarrow> runes \<Rightarrow> resource list option" where
  "resource_items Version Creator =
     (let icons = map (\<lambda>(i, side). (i, side, icon side)) [(0, 16), (1, 32), (2, 48)]
      in case version Version Creator of
           None \<Rightarrow> None
         | Some v \<Rightarrow> Some (map (\<lambda>(i, side, data). \<lparr>res_kind = 3, res_id = of_nat (i + 1), res_data = data\<rparr>) icons @
             [\<lparr>res_kind = 14, res_id = 1, res_data = icon_group icons\<rparr>, \<lparr>res_kind = 16, res_id = 1, res_data = v\<rparr>]))"

definition object_file :: "bytes \<times> nat list \<Rightarrow> bytes" where
  "object_file st =
     (case st of (section, relocs) \<Rightarrow>
        let relocationOffset = 60 + length section;
            symbolOffset = relocationOffset + 10 * length relocs;
            name = map of_char ''.rsrc'';
            b = PutUint16 0 0x8664 (replicate 60 0);
            b = PutUint16 2 1 b;
            b = PutUint32 8 (of_nat symbolOffset) b;
            b = PutUint32 12 1 b;
            b = take 20 b @ name @ drop 25 b;
            b = PutUint32 36 (of_nat (length section)) b;
            b = PutUint32 40 60 b;
            b = PutUint32 44 (of_nat relocationOffset) b;
            b = PutUint16 52 (of_nat (length relocs)) b;
            b = PutUint32 56 0x40300040 b;
            b = b @ section;
            b = foldl (\<lambda>b offset. put_word (put_dword (put_dword b (of_nat offset)) 0) 3) b relocs;
            symbol = (name @ replicate 13 0)[16 := 3];
            symbol = PutUint16 12 1 symbol
        in put_dword (b @ symbol) 4)"

definition resource_object :: "string \<Rightarrow> runes \<Rightarrow> bytes option" where
  "resource_object Version Creator =
     (case resource_items Version Creator of None \<Rightarrow> None | Some items \<Rightarrow> Some (object_file (resource_section items)))"

end
