(* ===== verification/Version_Blocks.thy ===== *)
theory Version_Blocks
  imports Resources
begin

text \<open>
  The version block of \<^verbatim>\<open>internal/buildresources/main.go\<close> reads back: a reader for the documented layout, the
  round trip of every forest of blocks, and a reader for the numbers and texts in their values.
\<close>

unbundle bit_operations_syntax

subsection \<open>Reading version blocks\<close>

text \<open>The documented layout of version resources, read the way Windows reads it: the reference for \<open>block\<close>.\<close>

datatype vblock = VBlock runes bool bytes "vblock list"

definition up4 :: "nat \<Rightarrow> nat" where "up4 n = n + (4 - n mod 4) mod 4"

definition get16 :: "8 word \<Rightarrow> 8 word \<Rightarrow> 16 word" where
  "get16 lo hi = ucast lo OR push_bit 8 (ucast hi)"

fun read_key :: "bytes \<Rightarrow> (16 word list \<times> bytes) option" where
  "read_key (lo # hi # b) =
     (if get16 lo hi = 0 then Some ([], b)
      else map_option (\<lambda>(us, r). (get16 lo hi # us, r)) (read_key b))"
| "read_key _ = None"

fun utf16_Decode :: "16 word list \<Rightarrow> runes" where
  "utf16_Decode (u # v # us) =
     (if 0xD800 \<le> u \<and> u < 0xDC00 then (0x10000 + (unat u - 0xD800) * 0x400 + (unat v - 0xDC00)) # utf16_Decode us
      else unat u # utf16_Decode (v # us))"
| "utf16_Decode us = map unat us"

definition read_header :: "bytes \<Rightarrow> (nat \<times> runes \<times> bool \<times> bytes \<times> bytes) option" where
  "read_header b =
     (if length b < 6 then None
      else let whole = unat (get16 (b ! 0) (b ! 1)); n = unat (get16 (b ! 2) (b ! 3)); text = (get16 (b ! 4) (b ! 5) = 1)
      in if whole < 6 \<or> length b < whole then None
         else case read_key (drop 6 (take whole b)) of
                None \<Rightarrow> None
              | Some (units, r) \<Rightarrow>
                  let start = up4 (whole - length r); m = (if text then 2 * n else n)
                  in Some (whole, utf16_Decode units, text, take m (drop start (take whole b)), drop (up4 (start + m)) (take whole b)))"

lemma up4_ge: "n \<le> up4 n"
  by (simp add: up4_def)

lemma read_key_length: "read_key b = Some (us, r) \<Longrightarrow> length r < length b"
  by (induction b arbitrary: us rule: read_key.induct) (fastforce split: if_splits)+

lemma read_header_some:
  assumes "read_header b = Some (whole, key, text, value, r)"
  shows "6 \<le> whole \<and> whole \<le> length b \<and> length r < length b"
proof -
  let ?w = "unat (get16 (b ! 0) (b ! 1))"
  have g: "\<not> length b < 6" "\<not> (?w < 6 \<or> length b < ?w)"
    using assms by (simp_all add: read_header_def Let_def split: if_split_asm)
  with assms obtain us ks where k0: "read_key (drop 6 (take ?w b)) = Some (us, ks)"
    by (cases "read_key (drop 6 (take ?w b))") (auto simp: read_header_def Let_def)
  with g assms have "whole = ?w" and "\<exists>m. r = drop (up4 (up4 (?w - length ks) + m)) (take ?w b)"
    by (simp_all add: read_header_def Let_def) blast
  with g k0 obtain m where w: "6 \<le> whole" "whole \<le> length b"
    and k: "read_key (drop 6 (take whole b)) = Some (us, ks)"
    and r: "r = drop (up4 (up4 (whole - length ks) + m)) (take whole b)" by auto
  from read_key_length [OF k] w have "length ks < whole" by simp
  then have "0 < up4 (up4 (whole - length ks) + m)" by (simp add: up4_def)
  with r w show ?thesis by simp
qed

function read_blocks :: "bytes \<Rightarrow> vblock list option" where
  "read_blocks b =
     (if b = [] then Some []
      else case read_header b of
             None \<Rightarrow> None
           | Some (whole, key, text, value, r) \<Rightarrow>
               (case (read_blocks r, read_blocks (drop (up4 whole) b)) of
                  (Some cs, Some bs) \<Rightarrow> Some (VBlock key text value cs # bs)
                | _ \<Rightarrow> None))"
  by pat_completeness auto

termination
  by (relation "measure length") (auto dest!: read_header_some simp: up4_def)

declare read_blocks.simps [simp del]

subsection \<open>What \<open>block\<close> writes\<close>

abbreviation add_child :: "bytes \<Rightarrow> bytes \<Rightarrow> bytes" where "add_child b c \<equiv> align b @ c"

lemma length_align [simp]: "length (align b) = up4 (length b)"
  by (simp add: align_def up4_def)

lemma up4_mod [simp]: "up4 n mod 4 = 0"
proof -
  have "n mod 4 = 0 \<or> n mod 4 = 1 \<or> n mod 4 = 2 \<or> n mod 4 = 3" by arith
  then show ?thesis by (auto simp: up4_def mod_add_left_eq [of n 4, symmetric] simp del: mod_add_left_eq)
qed

lemma align_Nil [simp]: "align [] = []"
  by (simp add: align_def)

lemma align_aligned: "length b mod 4 = 0 \<Longrightarrow> align b = b"
  by (simp add: align_def)

lemma align_append: "length p mod 4 = 0 \<Longrightarrow> align (p @ q) = p @ align q"
  by (simp add: align_def mod_add_eq [symmetric] del: mod_add_eq)

lemma children_prefix: "length p mod 4 = 0 \<Longrightarrow> foldl add_child (p @ q) cs = p @ foldl add_child q cs"
proof (induction cs arbitrary: q)
  case (Cons c cs)
  then show ?case using Cons.IH [of "align q @ c"] by (simp add: align_append)
qed simp

lemma children_cons: "foldl add_child b (c # cs) = align b @ foldl add_child [] (c # cs)"
  using children_prefix [of "align b" c cs] by (simp add: align_aligned)

lemma drop_children: "drop (up4 (length b)) (foldl add_child b cs) = foldl add_child [] cs"
proof (cases cs)
  case Nil
  then show ?thesis using up4_ge by simp
next
  case (Cons c cs')
  then show ?thesis using children_cons [of b c cs'] by (metis append_eq_conv_conj length_align)
qed

lemma children_start: "\<exists>t. foldl add_child b cs = b @ t"
proof (cases cs)
  case (Cons c cs')
  then show ?thesis using children_cons [of b c cs'] by (simp add: align_def)
qed simp


lemma get16_le16: "get16 (ucast v) (ucast (drop_bit 8 v)) = v"
  by (intro bit_word_eqI) (auto simp: get16_def bit_simps)

lemma length_le16 [simp]: "length (le16 v) = 2" by (simp add: le16_def)
lemma length_le32 [simp]: "length (le32 v) = 4" by (simp add: le32_def)

lemma put_words: "foldl put_word b us = b @ concat (map le16 us)"
  by (induction us arbitrary: b) (simp_all add: put_word_def)

lemma encode_append: "utf16_Encode (a @ b) = utf16_Encode a @ utf16_Encode b"
  by (induction a) simp_all

lemma wide_units: "wide s = concat (map le16 (utf16_Encode s)) @ [0, 0]"
  by (simp add: wide_def put_words encode_append le16_def put_word_def)

lemma even_wide [simp]: "even (length (wide s))"
proof -
  have "length (concat (map le16 us)) = 2 * length us" for us by (induction us) simp_all
  then show ?thesis by (simp add: wide_units)
qed

definition valid_rune :: "nat \<Rightarrow> bool" where
  "valid_rune r \<longleftrightarrow> r < 0xD800 \<or> 0xE000 \<le> r \<and> r \<le> 0x10FFFF"

lemma small_unit: "r < 0x10000 \<Longrightarrow> unat (of_nat r :: 16 word) = r"
  by (simp add: unat_of_nat)

lemma surrogate_unit:
  assumes "k < 0x400"
  shows "unat (0xD800 + of_nat k :: 16 word) = 0xD800 + k" and "unat (0xDC00 + of_nat k :: 16 word) = 0xDC00 + k"
  using assms small_unit [of "0xD800 + k"] small_unit [of "0xDC00 + k"] by simp_all

lemma read_key_wide:
  assumes "\<forall>u\<in>set us. u \<noteq> 0"
  shows "read_key (concat (map le16 us) @ 0 # 0 # b) = Some (us, b)"
  using assms by (induction us) (simp_all add: le16_def get16_le16, simp add: get16_def)

lemma encode_nonzero:
  assumes "list_all valid_rune s" and "0 \<notin> set s" and "u \<in> set (utf16_Encode s)"
  shows "u \<noteq> 0"
proof -
  have "unat u \<noteq> 0"
    using assms
  proof (induction s)
    case (Cons r s)
    have "(r - 0x10000) div 0x400 < 0x400" if "r \<le> 0x10FFFF" using that by (simp add: div_less_iff_less_mult)
    with Cons show ?case by (auto simp: valid_rune_def small_unit surrogate_unit split: if_splits)
  qed simp
  then show ?thesis by auto
qed

lemma decode_encode:
  assumes "list_all valid_rune s"
  shows "utf16_Decode (utf16_Encode s) = s"
  using assms
proof (induction s)
  case (Cons r s)
  consider "r < 0xD800 \<or> 0xE000 \<le> r \<and> r < 0x10000" | "0x10000 \<le> r" "r \<le> 0x10FFFF"
    using Cons.prems by (fastforce simp: valid_rune_def)
  then show ?case
  proof cases
    case 1
    then have u: "unat (of_nat r :: 16 word) = r" by (auto intro: small_unit)
    have "\<not> (0xD800 \<le> (of_nat r :: 16 word) \<and> (of_nat r :: 16 word) < 0xDC00)"
      using 1 u by (auto simp: word_le_nat_alt word_less_nat_alt)
    with 1 u Cons show ?thesis by (cases "utf16_Encode s") auto
  next
    case 2
    let ?h = "0xD800 + (r - 0x10000) div 0x400" and ?l = "0xDC00 + (r - 0x10000) mod 0x400"
    have d: "(r - 0x10000) div 0x400 < 0x400" using 2 by (simp add: div_less_iff_less_mult)
    have m: "(r - 0x10000) mod 0x400 < 0x400" by simp
    have u: "unat (of_nat ?h :: 16 word) = ?h" "unat (of_nat ?l :: 16 word) = ?l"
      using d m by (auto intro!: small_unit simp del: of_nat_add)
    have h: "0xD800 \<le> (of_nat ?h :: 16 word) \<and> (of_nat ?h :: 16 word) < 0xDC00"
      using u(1) d by (simp add: word_le_nat_alt word_less_nat_alt del: of_nat_add)
    have e: "utf16_Encode (r # s) = of_nat ?h # of_nat ?l # utf16_Encode s" using 2 by simp
    have "0x10000 + ((r - 0x10000) div 0x400) * 0x400 + (r - 0x10000) mod 0x400 = r"
      using 2 by simp
    then show ?thesis
      unfolding e using h u Cons by (simp del: of_nat_add)
  qed
qed simp

lemma wide_roundtrip:
  assumes "list_all valid_rune s" and "0 \<notin> set s"
  shows "map_option (\<lambda>(us, r). (utf16_Decode us, r)) (read_key (wide s @ b)) = Some (s, b)"
  using assms by (simp add: wide_units read_key_wide encode_nonzero decode_encode)


subsection \<open>Every block reads back\<close>

text \<open>The body of a block does not depend on its header, which is written last.\<close>

definition block_body :: "runes \<Rightarrow> bytes \<Rightarrow> bytes list \<Rightarrow> bytes" where
  "block_body key value children =
     drop 6 (foldl add_child (align (replicate 6 0 @ wide key) @ value) children)"

definition pad :: "nat \<Rightarrow> bytes" where "pad n = replicate ((4 - n mod 4) mod 4) 0"

lemma align_pad: "align b = b @ pad (length b)"
  by (simp add: align_def pad_def)

lemma children_front:
  assumes "length a = length a'"
  shows "\<exists>t. foldl add_child (a @ q) cs = a @ t \<and> foldl add_child (a' @ q) cs = a' @ t"
proof (induction cs arbitrary: q)
  case (Cons c cs)
  from Cons.IH [of "q @ pad (length a + length q) @ c"] show ?case using assms by (simp add: align_pad)
qed simp

lemma body_front:
  assumes "length a = 6"
  shows "foldl add_child (align (a @ wide key) @ value) children = a @ block_body key value children"
proof -
  obtain t where t: "foldl add_child (a @ (wide key @ pad (6 + length (wide key)) @ value)) children = a @ t"
    "foldl add_child (replicate 6 0 @ (wide key @ pad (6 + length (wide key)) @ value)) children = replicate 6 0 @ t"
    using children_front [of a "replicate 6 0" "wide key @ pad (6 + length (wide key)) @ value" children] assms by auto
  have "align (a @ wide key) @ value = a @ (wide key @ pad (6 + length (wide key)) @ value)"
    "align (replicate 6 0 @ wide key) @ value = replicate 6 0 @ (wide key @ pad (6 + length (wide key)) @ value)"
    using assms by (simp_all add: align_pad)
  then show ?thesis unfolding block_body_def by (simp only: t) simp
qed

definition value_count :: "bool \<Rightarrow> bytes \<Rightarrow> nat" where
  "value_count text value = (if text then length value div 2 else length value)"

lemma block_layout:
  "block key text value children =
     le16 (of_nat (6 + length (block_body key value children))) @ le16 (of_nat (value_count text value)) @
     le16 (if text then 1 else 0) @ block_body key value children"
proof -
  let ?h = "[0, 0] @ le16 (of_nat (value_count text value)) @ le16 (if text then 1 else 0)"
  have h: "PutUint16 2 (of_nat (value_count text value)) (if text then PutUint16 4 1 (replicate 6 0) else replicate 6 0) = ?h"
    by (simp add: PutUint16_def le16_def numeral_eq_Suc)
  have "block key text value children =
      PutUint16 0 (of_nat (length (?h @ block_body key value children))) (?h @ block_body key value children)"
    unfolding block_def Let_def value_count_def [symmetric] h by (subst (1 2) body_front) simp_all
  also have "\<dots> = le16 (of_nat (6 + length (block_body key value children))) @ le16 (of_nat (value_count text value)) @
     le16 (if text then 1 else 0) @ block_body key value children"
    by (simp add: PutUint16_def le16_def)
  finally show ?thesis .
qed

lemma length_block: "length (block key text value children) = 6 + length (block_body key value children)"
  by (simp add: block_layout)

lemma block_front:
  obtains h where "length h = 6" and "block key text value children = h @ block_body key value children"
proof (rule that)
  show "length (le16 (of_nat (6 + length (block_body key value children))) @ le16 (of_nat (value_count text value)) @
     le16 (if text then 1 else 0)) = 6" by simp
  show "block key text value children = (le16 (of_nat (6 + length (block_body key value children))) @
     le16 (of_nat (value_count text value)) @ le16 (if text then 1 else 0)) @ block_body key value children"
    unfolding block_layout append_assoc ..
qed

lemma block_children:
  "drop (up4 (up4 (6 + length (wide key)) + length value)) (block key text value children) = foldl add_child [] children"
proof -
  obtain h where h: "length h = 6" "block key text value children = h @ block_body key value children" by (rule block_front)
  have "length (align (h @ wide key) @ value) = up4 (6 + length (wide key)) + length value" using h(1) by simp
  then show ?thesis
    using drop_children [of "align (h @ wide key) @ value" children] body_front [OF h(1), of key "value" children]
    by (simp only: h(2))
qed

lemma block_value:
  "\<exists>r. block_body key value children = wide key @ r \<and>
     take (length value) (drop (up4 (6 + length (wide key)) - (6 + length (wide key))) r) = value"
proof -
  obtain t where t: "foldl add_child (align (replicate 6 0 @ wide key) @ value) children =
      (align (replicate 6 0 @ wide key) @ value) @ t" using children_start by blast
  show ?thesis
    unfolding block_body_def t by (rule exI) (auto simp: align_def up4_def)
qed


lemma header_words:
  fixes a b c :: "16 word" and r :: bytes
  defines "x \<equiv> le16 a @ le16 b @ le16 c @ r"
  shows "get16 (x ! 0) (x ! 1) = a" and "get16 (x ! 2) (x ! 3) = b" and "get16 (x ! 4) (x ! 5) = c"
  by (simp_all add: x_def le16_def get16_le16)

lemma block_header:
  assumes "length (block key text value children) < 2 ^ 16"
    and "list_all valid_rune key" and "0 \<notin> set key" and "text \<longrightarrow> even (length value)"
  shows "read_header (block key text value children @ t) =
    Some (length (block key text value children), key, text, value, foldl add_child [] children)"
proof -
  let ?b = "block key text value children"
  obtain r where r: "block_body key value children = wide key @ r"
    "take (length value) (drop (up4 (6 + length (wide key)) - (6 + length (wide key))) r) = value"
    using block_value by blast
  have len: "length ?b = 6 + length (wide key) + length r" by (simp add: length_block r(1))
  have fits: "length value \<le> length (block_body key value children)"
  proof -
    have "length value \<le> length r" using arg_cong [OF r(2), of length] by simp
    then show ?thesis by (simp add: r(1))
  qed
  have at0: "unat (get16 ((?b @ t) ! 0) ((?b @ t) ! 1)) = length ?b"
    and at2: "unat (get16 ((?b @ t) ! 2) ((?b @ t) ! 3)) = value_count text value"
    and at4: "(get16 ((?b @ t) ! 4) ((?b @ t) ! 5) = 1) = text"
  proof -
    have n: "6 + length (block_body key value children) < 2 ^ 16" "value_count text value < 2 ^ 16"
      using assms(1) fits by (auto simp: length_block value_count_def)
    show "unat (get16 ((?b @ t) ! 0) ((?b @ t) ! 1)) = length ?b"
      unfolding length_block [of key "text" "value" children]
      unfolding block_layout append_assoc header_words by (rule small_unit) (use n(1) in simp)
    show "unat (get16 ((?b @ t) ! 2) ((?b @ t) ! 3)) = value_count text value"
      unfolding block_layout append_assoc header_words using n(2) by (intro small_unit) simp
    show "(get16 ((?b @ t) ! 4) ((?b @ t) ! 5) = 1) = text"
      unfolding block_layout append_assoc header_words by simp
  qed
  have key: "read_key (drop 6 ?b) = Some (utf16_Encode key, r)"
    using assms(2,3) encode_nonzero by (simp add: block_layout r(1) wide_units read_key_wide)
  have count: "(if text then 2 * value_count text value else value_count text value) = length value"
    using assms(4) by (auto simp: value_count_def)
  have start: "up4 (length ?b - length r) = up4 (6 + length (wide key))" by (simp add: len)
  have val: "take (length value) (drop (up4 (6 + length (wide key))) ?b) = value"
  proof -
    obtain h where h: "length h = 6" "?b = h @ block_body key value children" by (rule block_front)
    then have "drop (up4 (6 + length (wide key))) ?b = drop (up4 (6 + length (wide key)) - (6 + length (wide key))) r"
      using up4_ge [of "6 + length (wide key)"] by (simp add: r(1))
    with r(2) show ?thesis by simp
  qed
  show ?thesis
    unfolding read_header_def Let_def at0 at2 at4 count
    by (simp add: key count start val block_children decode_encode assms(2)) (simp add: length_block)
qed

text \<open>A forest of blocks, and the bytes the code writes for it.\<close>

fun renders :: "vblock list \<Rightarrow> bytes list" where
  "renders [] = []"
| "renders (VBlock key text value cs # bs) = block key text value (renders cs) # renders bs"

fun blocks_ok :: "vblock list \<Rightarrow> bool" where
  "blocks_ok [] \<longleftrightarrow> True"
| "blocks_ok (VBlock key text value cs # bs) \<longleftrightarrow>
     list_all valid_rune key \<and> 0 \<notin> set key \<and> (text \<longrightarrow> even (length value)) \<and> blocks_ok cs \<and> blocks_ok bs"

lemma child_length: "c \<in> set cs \<Longrightarrow> length c \<le> length (foldl add_child b cs)"
proof (induction cs arbitrary: b)
  case (Cons c' cs)
  obtain t where "foldl add_child (align b @ c') cs = (align b @ c') @ t" using children_start by blast
  with Cons.prems Cons.IH [of "align b @ c'"] show ?case by auto
qed simp

lemma child_in_block: "c \<in> set cs \<Longrightarrow> length c \<le> length (block key text value cs)"
  using child_length [of c cs "align (replicate 6 0 @ wide key) @ value"] by (simp add: length_block block_body_def)

theorem blocks_roundtrip:
  assumes "blocks_ok ts" and "\<And>c. c \<in> set (renders ts) \<Longrightarrow> length c < 2 ^ 16"
  shows "read_blocks (foldl add_child [] (renders ts)) = Some ts"
  using assms
proof (induction ts rule: renders.induct)
  case 1
  then show ?case by (simp add: read_blocks.simps)
next
  case (2 key "text" "value" cs bs)
  let ?b = "block key text value (renders cs)"
  have small: "length ?b < 2 ^ 16" using 2(4) by simp
  have cs: "read_blocks (foldl add_child [] (renders cs)) = Some cs"
    using 2(1,3) small child_in_block [of _ "renders cs" key "text" "value"] by (meson blocks_ok.simps(2) le_less_trans)
  have bs: "read_blocks (foldl add_child [] (renders bs)) = Some bs" using 2(2-4) by simp
  obtain t where t: "foldl add_child [] (renders (VBlock key text value cs # bs)) = ?b @ t"
    using children_start [of ?b "renders bs"] by auto
  have rest: "drop (up4 (length ?b)) (?b @ t) = foldl add_child [] (renders bs)"
    unfolding t [symmetric] using drop_children [of ?b "renders bs"] by simp
  have "?b @ t \<noteq> []" using length_block [of key "text" "value" "renders cs"] by auto
  then show ?case
    unfolding t using block_header [of key "text" "value" "renders cs" t] 2(3) small
    by (subst read_blocks.simps) (simp add: cs bs rest del: drop_append)
qed


definition version_fixed :: "int list \<Rightarrow> bytes" where
  "version_fixed ns = fixed_info (of_int (ns ! 0)) (of_int (ns ! 1)) (of_int (ns ! 2))"

definition version_tree :: "string \<Rightarrow> runes \<Rightarrow> int list \<Rightarrow> vblock" where
  "version_tree Version Creator ns =
     VBlock (ascii ''VS_VERSION_INFO'') False (version_fixed ns)
       [VBlock (ascii ''StringFileInfo'') True []
          [VBlock (ascii ''040904B0'') True [] (map (\<lambda>(k, v). VBlock (ascii k) True (wide v) []) (version_fields Version Creator))],
        VBlock (ascii ''VarFileInfo'') True [] [VBlock (ascii ''Translation'') False (le16 0x409 @ le16 1200) []]]"

lemma version_renders:
  assumes "version Version Creator = Some b"
  obtains ns where "map ParseUint16 (split_dots Version) = map Inr ns" and "length ns = 3"
    and "renders [version_tree Version Creator ns] = [b]"
proof -
  obtain major minor patch where p: "map ParseUint16 (split_dots Version) = [Inr major, Inr minor, Inr patch]"
    using assms by (auto simp: version_def split: list.splits sum.splits)
  show ?thesis
  proof (rule that)
    show "map ParseUint16 (split_dots Version) = map Inr [major, minor, patch]" using p by simp
    show "renders [version_tree Version Creator [major, minor, patch]] = [b]"
      using assms p by (simp add: version_def version_tree_def version_fixed_def version_fields_def Let_def put_word_def)
  qed simp
qed

lemma ascii_rune: "valid_rune (of_char c)"
  unfolding valid_rune_def by (intro disjI1 less_trans [OF nat_of_char_less_256]) simp

lemma ascii_runes: "list_all valid_rune (ascii s)"
  by (simp add: ascii_def list_all_iff ascii_rune)

lemma version_tree_ok: "blocks_ok [version_tree Version Creator ns]"
  by (simp add: version_tree_def version_fields_def ascii_runes) (simp add: ascii_def)

subsection \<open>What a reader finds in the values\<close>

text \<open>A number is its bytes, the least significant first; a text is UTF-16 up to a zero at its very end.\<close>

fun le_number :: "bytes \<Rightarrow> nat" where
  "le_number [] = 0"
| "le_number (x # b) = unat x + 256 * le_number b"

fun dwords_of :: "bytes \<Rightarrow> nat list" where
  "dwords_of (p # q # r # s # b) = le_number [p, q, r, s] # dwords_of b"
| "dwords_of _ = []"

definition read_text :: "bytes \<Rightarrow> runes option" where
  "read_text b = (case read_key b of Some (us, []) \<Rightarrow> Some (utf16_Decode us) | _ \<Rightarrow> None)"

lemma byte_value: "unat (ucast (drop_bit k v :: 'a::len word) :: 8 word) = unat v div 2 ^ k mod 256"
  by (simp add: unsigned_ucast_eq unsigned_drop_bit_eq take_bit_eq_mod) (simp add: drop_bit_eq_div)

lemma digits_chain:
  "x + 256 * q = n \<Longrightarrow> y + 256 * r = q \<Longrightarrow> z + 256 * s = r \<Longrightarrow> t = s \<Longrightarrow> x + 256 * (y + 256 * (z + 256 * t)) = (n :: nat)"
  by simp

lemma bytes_value:
  assumes "n < 2 ^ 32"
  shows "n mod 256 + 256 * (n div 2 ^ 8 mod 256 + 256 * (n div 2 ^ 16 mod 256 + 256 * (n div 2 ^ 24 mod 256))) = (n :: nat)"
proof -
  have d: "n div 256 div 256 = n div 65536" "n div 65536 div 256 = n div 16777216" by (simp_all add: div_mult2_eq [symmetric])
  have "n mod 256 + 256 * (n div 256) = n" "n div 256 mod 256 + 256 * (n div 65536) = n div 256"
    "n div 65536 mod 256 + 256 * (n div 16777216) = n div 65536"
    using mod_mult_div_eq [of n 256] mod_mult_div_eq [of "n div 256" 256, unfolded d]
      mod_mult_div_eq [of "n div 65536" 256, unfolded d] by blast+
  moreover have "n div 16777216 mod 256 = n div 16777216" using assms by (simp add: less_mult_imp_div_less)
  ultimately have "n mod 256 + 256 * (n div 256 mod 256 + 256 * (n div 65536 mod 256 + 256 * (n div 16777216 mod 256))) = n"
    by (rule digits_chain)
  moreover have "(2 :: nat) ^ 8 = 256" "(2 :: nat) ^ 16 = 65536" "(2 :: nat) ^ 24 = 16777216" by simp_all
  ultimately show ?thesis by (simp only:)
qed

lemma le32_number: "le_number (le32 v) = unat v"
proof -
  have "unat v < 2 ^ 32" using unsigned_less [of v] by simp
  from bytes_value [OF this] show ?thesis
    unfolding le32_def le_number.simps byte_value byte_value [of 0 v, unfolded drop_bit_0 id_apply power_0 div_by_1]
    by (simp only: mult_0_right add_0_right)
qed

lemma dwords_le32: "dwords_of (le32 v @ b) = unat v # dwords_of b"
  using le32_number [of v] by (simp add: le32_def)

lemma put_dwords: "foldl put_dword b vs = b @ concat (map le32 vs)"
  by (induction vs arbitrary: b) (simp_all add: put_dword_def)

lemma dwords_concat: "dwords_of (concat (map le32 vs)) = map unat vs"
  by (induction vs) (simp_all add: dwords_le32)

text \<open>Two 16-bit numbers in one of 32 bits.\<close>

lemma two_halves:
  assumes "0 \<le> hi" "hi < 2 ^ 16" "0 \<le> lo" "lo < 2 ^ 16"
  shows "int (unat (push_bit 16 (of_int hi) OR of_int lo :: 32 word)) = hi * 65536 + lo"
proof -
  have "take_bit 16 lo = lo" using assms by (simp add: take_bit_int_eq_self)
  then have low: "bit lo k \<Longrightarrow> k < 16" for k by (metis bit_take_bit_iff)
  then have "push_bit 16 (of_int hi) OR of_int lo = push_bit 16 (of_int hi) + (of_int lo :: 32 word)"
    by (intro disjunctive_add [symmetric]) (auto simp: bit_push_bit_iff bit_of_int_iff dest: low)
  also have "\<dots> = of_int (hi * 65536 + lo)" by (simp add: push_bit_eq_mult mult.commute)
  finally have "push_bit 16 (of_int hi) OR of_int lo = (of_int (hi * 65536 + lo) :: 32 word)" .
  moreover have "uint (of_int (hi * 65536 + lo) :: 32 word) = hi * 65536 + lo"
    unfolding uint_word_of_int using assms by simp
  ultimately show ?thesis by (simp only: uint_nat [symmetric])
qed

lemma digit_value_nonneg: "digit_value c = Some d \<Longrightarrow> 0 \<le> d"
  by (auto simp: digit_value_def Let_def split: if_splits)

lemma parse_digits_ok:
  "parse_digits s a = Some n \<Longrightarrow> 0 \<le> a \<Longrightarrow> 0 \<le> n \<and> (\<forall>c \<in> set s. digit_value c \<noteq> None)"
  by (induction s a rule: parse_digits.induct) (auto split: option.splits dest: digit_value_nonneg)

lemma ParseUint16_ok: "ParseUint16 s = Inr n \<Longrightarrow> 0 \<le> n \<and> n < 2 ^ 16 \<and> (\<forall>c \<in> set s. digit_value c \<noteq> None)"
  using parse_digits_ok [of s 0] by (auto simp: ParseUint16_def split: if_splits option.splits)

lemma split_dots_set: "c \<in> set s \<Longrightarrow> c \<noteq> CHR ''.'' \<Longrightarrow> \<exists>p \<in> set (split_dots s). c \<in> set p"
proof (induction s)
  case (Cons d s)
  have "split_dots s \<noteq> []" by (cases s) auto
  then obtain p ps where "split_dots s = p # ps" by (cases "split_dots s") auto
  with Cons show ?case by auto
qed simp

lemma version_text:
  assumes "map ParseUint16 (split_dots Version) = map Inr ns"
  shows "0 \<notin> set (ascii Version)"
proof
  assume "0 \<in> set (ascii Version)"
  then obtain c where c: "c \<in> set Version" "of_char c = (0 :: nat)" by (auto simp: ascii_def)
  have "c = char_of (of_char c :: nat)" by simp
  then have z: "c = char_of (0 :: nat)" unfolding c(2) .
  have "char_of (0 :: nat) \<noteq> CHR ''.''" "digit_value (char_of (0 :: nat)) = None" by code_simp+
  then have d: "c \<noteq> CHR ''.''" "digit_value c = None" unfolding z by blast+
  obtain p where "p \<in> set (split_dots Version)" "c \<in> set p" using split_dots_set [OF c(1) d(1)] by blast
  moreover have "ParseUint16 p \<in> set (map ParseUint16 (split_dots Version))" using calculation(1) by simp
  then obtain n where "ParseUint16 p = Inr n" unfolding assms by auto
  ultimately show False using ParseUint16_ok d(2) by blast
qed

lemma read_wide: "list_all valid_rune s \<Longrightarrow> 0 \<notin> set s \<Longrightarrow> read_text (wide s) = Some s"
  using wide_roundtrip [of s "[]"] by (auto simp: read_text_def split: list.splits)

text \<open>
  C39. The version block of the program reads back. For every version of three numbers and every creator (of valid
  characters other than zero) a reader for the documented layout finds in what \<open>version\<close> writes one version block:
  its fixed part is the thirteen little-endian numbers of the format, the signature, the file and the product version
  (the first number in the high half, the second in the low one, the third in the high half of the next),
  the flags of a Windows program; its string table maps each name to its zero-terminated UTF-16 text;
  and its translation is U.S. English in Unicode. The block has to fit its 16-bit length.
\<close>

theorem version_reads_back:
  assumes "version Version Creator = Some b" and "length b < 2 ^ 16"
    and "list_all valid_rune Creator" and "0 \<notin> set Creator"
  shows "\<exists>major minor patch fixed table.
    map ParseUint16 (split_dots Version) = [Inr major, Inr minor, Inr patch] \<and>
    read_blocks b = Some
      [VBlock (ascii ''VS_VERSION_INFO'') False fixed
        [VBlock (ascii ''StringFileInfo'') True [] [VBlock (ascii ''040904B0'') True [] table],
         VBlock (ascii ''VarFileInfo'') True [] [VBlock (ascii ''Translation'') False [0x09, 0x04, 0xB0, 0x04] []]]] \<and>
    map int (dwords_of fixed) =
      [0xFEEF04BD, 0x10000, major * 65536 + minor, patch * 65536, major * 65536 + minor, patch * 65536,
       0x3F, 0, 0x40004, 1, 0, 0, 0] \<and>
    map (\<lambda>t. case t of VBlock k is_text v cs \<Rightarrow> (k, is_text, read_text v, cs)) table =
      map (\<lambda>(k, v). (ascii k, True, Some v, []))
        [(''CompanyName'', Creator), (''FileDescription'', ascii ''DK-Drive''), (''FileVersion'', ascii (Version @ ''.0'')),
         (''InternalName'', ascii ''dkdrive''), (''OriginalFilename'', ascii ''dkdrive.exe''),
         (''ProductName'', ascii ''DK-Drive''), (''ProductVersion'', ascii Version)]"
proof -
  obtain ns where ns: "map ParseUint16 (split_dots Version) = map Inr ns" "length ns = 3"
    "renders [version_tree Version Creator ns] = [b]" using version_renders [OF assms(1)] .
  have read: "read_blocks b = Some [version_tree Version Creator ns]"
    using blocks_roundtrip [of "[version_tree Version Creator ns]"] version_tree_ok assms(2)
    by (simp add: ns(3) del: renders.simps blocks_ok.simps)
  obtain major minor patch where m: "ns = [major, minor, patch]" using ns(2) by (auto simp: numeral_3_eq_3 length_Suc_conv)
  have p: "map ParseUint16 (split_dots Version) = [Inr major, Inr minor, Inr patch]" using ns(1) m by simp
  then obtain x y z where "ParseUint16 x = Inr major" "ParseUint16 y = Inr minor" "ParseUint16 z = Inr patch"
    by (auto simp: map_eq_Cons_conv)
  then have r: "0 \<le> major" "major < 2 ^ 16" "0 \<le> minor" "minor < 2 ^ 16" "0 \<le> patch" "patch < 2 ^ 16"
    using ParseUint16_ok by blast+
  have h: "int (unat (push_bit 16 (of_int major) OR of_int minor :: 32 word)) = major * 65536 + minor"
    "int (unat (push_bit 16 (of_int patch) :: 32 word)) = patch * 65536"
    using two_halves [OF r(1,2,3,4)] two_halves [OF r(5,6), of 0] by simp_all
  have fixed: "map int (dwords_of (version_fixed ns)) =
      [0xFEEF04BD, 0x10000, major * 65536 + minor, patch * 65536, major * 65536 + minor, patch * 65536,
       0x3F, 0, 0x40004, 1, 0, 0, 0]"
    unfolding version_fixed_def m fixed_info_def put_dwords append_Nil dwords_concat
    by (simp only: list.map nth_Cons_0 nth_Cons_Suc h One_nat_def numeral_2_eq_2) simp
  have z: "0 \<notin> set (ascii s)" if "s \<in> {''DK-Drive'', ''dkdrive'', ''dkdrive.exe'', Version, Version @ ''.0''}" for s
    using that version_text [OF ns(1)] by (auto simp: ascii_def)
  have table: "map (\<lambda>t. case t of VBlock k is_text v cs \<Rightarrow> (k, is_text, read_text v, cs))
        (map (\<lambda>(k, v). VBlock (ascii k) True (wide v) []) (version_fields Version Creator)) =
      map (\<lambda>(k, v). (ascii k, True, Some v, []))
        [(''CompanyName'', Creator), (''FileDescription'', ascii ''DK-Drive''), (''FileVersion'', ascii (Version @ ''.0'')),
         (''InternalName'', ascii ''dkdrive''), (''OriginalFilename'', ascii ''dkdrive.exe''),
         (''ProductName'', ascii ''DK-Drive''), (''ProductVersion'', ascii Version)]"
    by (simp add: version_fields_def read_wide assms(3,4) ascii_runes z)
  have lang: "le16 0x409 @ le16 1200 = [0x09, 0x04, 0xB0, 0x04]" by (simp add: le16_def)
  show ?thesis
    by (intro exI [of _ major] exI [of _ minor] exI [of _ patch] exI [of _ "version_fixed ns"] exI conjI)
      (rule p read [unfolded version_tree_def lang] fixed table)+
qed

lemma length_children:
  "length (foldl add_child b cs) = foldl (\<lambda>n c. up4 n + length c) (length b) cs"
  by (induction cs arbitrary: b) simp_all

lemma block_size:
  "length (block key text value cs) = foldl (\<lambda>n c. up4 n + length c) (up4 (6 + length (wide key)) + length value) cs"
  using arg_cong [OF body_front [of "replicate 6 0" key "value" cs], of length]
  by (simp add: length_block length_children)

lemma encode_ascii: "length (utf16_Encode (ascii s)) = length s"
proof (induction s)
  case (Cons c s)
  have "(of_char c :: nat) < 0xD800" by (rule less_trans [OF nat_of_char_less_256]) simp
  with Cons show ?case by (simp add: ascii_def)
qed (simp add: ascii_def)

lemma length_wide: "length (wide s) = 2 * length (utf16_Encode s) + 2"
proof -
  have "length (concat (map le16 us)) = 2 * length us" for us by (induction us) simp_all
  then show ?thesis by (simp add: wide_units)
qed

lemma app_version_numbers: "map ParseUint16 (split_dots app_Version) = [Inr 0, Inr 9, Inr 2]"
  by code_simp

lemma app_version_size: "\<exists>b. version app_Version app_Creator = Some b \<and> length b = 584"
  using app_version_numbers
  by (simp add: version_def app_Version_def app_Creator_def version_fields_def Let_def block_size length_wide encode_ascii
      up4_def fixed_info_def put_dword_def put_word_def)

theorem version_reads_back_witness:
  "\<exists>b key fixed cs. version app_Version app_Creator = Some b \<and> read_blocks b = Some [VBlock key False fixed cs] \<and>
     map int (dwords_of fixed) = [0xFEEF04BD, 0x10000, 9, 2 * 65536, 9, 2 * 65536, 0x3F, 0, 0x40004, 1, 0, 0, 0]"
proof -
  obtain b where b: "version app_Version app_Creator = Some b" "length b = 584" using app_version_size by blast
  have small: "length b < 2 ^ 16" using b(2) by simp
  have creator: "list_all valid_rune app_Creator" "0 \<notin> set app_Creator" by (simp_all add: app_Creator_def valid_rune_def)
  from version_reads_back [OF b(1) small creator] obtain major minor patch fixed cs where
    n: "map ParseUint16 (split_dots app_Version) = [Inr major, Inr minor, Inr patch]" and
    r: "read_blocks b = Some [VBlock (ascii ''VS_VERSION_INFO'') False fixed cs]" and
    f: "map int (dwords_of fixed) = [0xFEEF04BD, 0x10000, major * 65536 + minor, patch * 65536, major * 65536 + minor,
      patch * 65536, 0x3F, 0, 0x40004, 1, 0, 0, 0]" by (elim exE conjE) (rule that, assumption+)
  from n have "major = 0" "minor = 9" "patch = 2" using app_version_numbers by simp_all
  with b(1) r f show ?thesis by (intro exI [of _ b] exI conjI) simp_all
qed

end
