(* ===== verification/Icon_Mask.thy ===== *)
theory Icon_Mask
  imports Version_Blocks
begin

text \<open>
  The icon of \<^verbatim>\<open>internal/branding/icon.go\<close> and its form in the resources: mask and pixels agree in every size.
\<close>

unbundle bit_operations_syntax

subsection \<open>The icon's mask\<close>

definition mask_stride :: "nat \<Rightarrow> nat" where "mask_stride n = ((n + 15) div 16) * 2"

definition mask_bit :: "bytes \<Rightarrow> nat \<Rightarrow> nat \<Rightarrow> bool" where
  "mask_bit m k x \<longleftrightarrow> bit (m ! (k + x div 8)) (7 - x mod 8)"

text \<open>The mask and the pixels agree while the icon is drawn: a pixel whose mask bit is set is transparent.\<close>

definition bits_agree :: "nat \<Rightarrow> bytes \<times> bytes \<Rightarrow> bool" where
  "bits_agree n bits \<longleftrightarrow> length (fst bits) = mask_stride n * n \<and> length (snd bits) = n * n * 4 \<and>
     (\<forall>x row. x < n \<longrightarrow> row < n \<longrightarrow> (mask_bit (fst bits) (row * mask_stride n) x \<longleftrightarrow> snd bits ! ((row * n + x) * 4 + 3) = 0))"

lemma row_unique:
  assumes "row * d + k = row' * d + k'" and "k < d" and "k' < (d :: nat)"
  shows "row = row' \<and> k = k'"
proof -
  have "row = (row * d + k) div d" "row' = (row' * d + k') div d" using assms(2,3) by simp_all
  with assms(1) show ?thesis by simp
qed

lemma row_inside: "row < n \<Longrightarrow> k < d \<Longrightarrow> row * d + k < n * (d :: nat)"
proof -
  assume "row < n" "k < d"
  then have "row * d + k < Suc row * d" by simp
  also have "\<dots> \<le> n * d" using \<open>row < n\<close> by (intro mult_le_mono1) simp
  finally show ?thesis .
qed

lemma stride_byte: "x < n \<Longrightarrow> x div 8 < mask_stride n"
  unfolding mask_stride_def by linarith

lemma same_mask_bit: "x div 8 = x' div 8 \<Longrightarrow> 7 - x mod 8 = 7 - x' mod 8 \<Longrightarrow> x = (x' :: nat)"
proof -
  assume a: "x div 8 = x' div 8" "7 - x mod 8 = 7 - x' mod 8"
  have "x mod 8 < 8" "x' mod 8 < 8" by simp_all
  with a(2) have "x mod 8 = x' mod 8" by linarith
  with a(1) show ?thesis by (metis div_mult_mod_eq)
qed

lemma clear_bit:
  assumes "j < 8" and "i < 8"
  shows "bit (w AND NOT (drop_bit j (0x80 :: 8 word))) i \<longleftrightarrow> bit w i \<and> i \<noteq> 7 - j"
proof -
  have e: "(0x80 :: 8 word) = push_bit 7 1" by (simp add: push_bit_eq_mult)
  have "bit (drop_bit j (0x80 :: 8 word)) i \<longleftrightarrow> i = 7 - j"
    unfolding e bit_drop_bit_eq o_apply bit_push_bit_iff bit_1_iff using assms by auto
  then show ?thesis using assms(2) by (simp add: bit_and_iff bit_not_iff)
qed

lemma set_pixel_agrees:
  assumes "bits_agree n bits" and "x < n" and "y < n"
  shows "bits_agree n (set_pixel n x y r g b bits)"
proof -
  let ?s = "mask_stride n" and ?row = "n - 1 - y"
  let ?k = "?row * ?s + x div 8" and ?i = "(?row * n + x) * 4"
  let ?m = "(fst bits)[?k := fst bits ! ?k AND NOT (drop_bit (x mod 8) 0x80)]"
  let ?p = "(snd bits)[?i := b, ?i + 1 := g, ?i + 2 := r, ?i + 3 := 0xff]"
  have res: "set_pixel n x y r g b bits = (?m, ?p)"
    by (simp add: set_pixel_def mask_stride_def Let_def)
  have row: "?row < n" using assms(3) by simp
  have lens: "length (fst bits) = ?s * n" "length (snd bits) = n * n * 4" using assms(1) by (simp_all add: bits_agree_def)
  have old: "mask_bit (fst bits) (row' * ?s) x' \<longleftrightarrow> snd bits ! ((row' * n + x') * 4 + 3) = 0" if "x' < n" "row' < n" for x' row'
    using assms(1) that by (simp add: bits_agree_def)
  have "mask_bit ?m (row' * ?s) x' \<longleftrightarrow> ?p ! ((row' * n + x') * 4 + 3) = 0" if i: "x' < n" "row' < n" for x' row'
  proof -
    have m: "mask_bit ?m (row' * ?s) x' \<longleftrightarrow> mask_bit (fst bits) (row' * ?s) x' \<and> \<not> (row' = ?row \<and> x' = x)"
    proof (cases "row' * ?s + x' div 8 = ?k")
      case True
      with stride_byte [OF i(1)] stride_byte [OF assms(2)] have r: "row' = ?row" "x' div 8 = x div 8" by (auto dest: row_unique)
      have "?k < length (fst bits)"
        unfolding lens using row_inside [OF row stride_byte [OF assms(2)]] by (simp add: mult.commute)
      then have "mask_bit ?m (row' * ?s) x' \<longleftrightarrow> bit (fst bits ! ?k AND NOT (drop_bit (x mod 8) (0x80 :: 8 word))) (7 - x' mod 8)"
        by (simp only: mask_bit_def True nth_list_update_eq)
      also have "\<dots> \<longleftrightarrow> bit (fst bits ! ?k) (7 - x' mod 8) \<and> 7 - x' mod 8 \<noteq> 7 - x mod 8"
        by (rule clear_bit) simp_all
      also have "\<dots> \<longleftrightarrow> mask_bit (fst bits) (row' * ?s) x' \<and> x' \<noteq> x"
        using same_mask_bit [OF r(2)] by (auto simp: mask_bit_def True)
      finally show ?thesis using r(1) by simp
    next
      case False
      then have "mask_bit ?m (row' * ?s) x' = mask_bit (fst bits) (row' * ?s) x'"
        by (simp only: mask_bit_def nth_list_update_neq)
      with False show ?thesis by auto
    qed
    have p: "?p ! ((row' * n + x') * 4 + 3) = (if row' = ?row \<and> x' = x then 0xff else snd bits ! ((row' * n + x') * 4 + 3))"
    proof (cases "row' * n + x' = ?row * n + x")
      case True
      with i(1) assms(2) have "row' = ?row" "x' = x" by (auto dest: row_unique)
      moreover have "?i + 3 < length (snd bits)"
        unfolding lens using row_inside [OF row assms(2)] by simp
      ultimately show ?thesis by simp
    next
      case False
      have ne: "(row' * n + x') * 4 + 3 \<noteq> ?i + k" if "k < 4" for k
        using False that by presburger
      from False have d: "\<not> (row' = ?row \<and> x' = x)" by auto
      show ?thesis
        unfolding if_not_P [OF d] using ne [of 0] ne [of 1] ne [of 2] ne [of 3] by (simp add: nth_list_update_neq del: add_right_cancel)
    qed
    show ?thesis unfolding m p using old [OF i] by auto
  qed
  then show ?thesis unfolding res by (simp add: bits_agree_def lens)
qed


lemma pixels_inside: "p \<in> set (pixels_of n) \<Longrightarrow> fst p < n \<and> snd p < n"
  by (auto simp: pixels_of_def)

lemma blank_agrees: "bits_agree n (replicate (mask_stride n * n) 0xff, replicate (n * n * 4) 0)"
proof -
  have "mask_bit (replicate (mask_stride n * n) 0xff) (row * mask_stride n) x" if "x < n" "row < n" for x row
  proof -
    have "row * mask_stride n + x div 8 < mask_stride n * n"
      using row_inside [OF that(2) stride_byte [OF that(1)]] by (simp add: mult.commute)
    moreover have "bit (0xff :: 8 word) (7 - x mod 8)"
    proof -
      have e: "(0xff :: 8 word) = - 1" by simp
      show ?thesis unfolding e bit_minus_1_iff by simp
    qed
    ultimately show ?thesis by (simp add: mask_bit_def del: bit_numeral_iff)
  qed
  moreover have "(row * n + x) * 4 + 3 < n * n * 4" if "x < n" "row < n" for x row
    using row_inside [OF that(2,1)] by simp
  ultimately show ?thesis by (simp add: bits_agree_def)
qed

lemma draw_agrees:
  assumes "\<And>bits p. bits_agree n bits \<Longrightarrow> fst p < n \<Longrightarrow> snd p < n \<Longrightarrow> bits_agree n (f bits p)"
    and "bits_agree n bits" and "\<forall>p\<in>set ps. fst p < n \<and> snd p < n"
  shows "bits_agree n (foldl f bits ps)"
  using assms(2,3)
proof (induction ps arbitrary: bits)
  case (Cons p ps)
  have "bits_agree n (f bits p)" using Cons.prems by (intro assms(1)) simp_all
  from Cons.IH [OF this] Cons.prems show ?case by simp
qed simp

lemma IconBits_agree: "bits_agree n (IconBits n)"
proof -
  have "bits_agree n (draw_background n bits p)" if "bits_agree n bits" "fst p < n" "snd p < n" for bits p
    using that by (auto simp: draw_background_def intro: set_pixel_agrees split: option.split)
  moreover have "bits_agree n (draw_letter n bits p)" if "bits_agree n bits" "fst p < n" "snd p < n" for bits p
    using that by (simp add: draw_letter_def set_pixel_agrees)
  ultimately show ?thesis
    unfolding IconBits_def mask_stride_def [symmetric]
    using pixels_inside blank_agrees by (intro draw_agrees) auto
qed

definition dib_stride :: "nat \<Rightarrow> nat" where "dib_stride n = ((n + 31) div 32) * 4"

definition icon_header :: "nat \<Rightarrow> bytes" where
  "icon_header n = PutUint16 14 32 (PutUint16 12 1 (PutUint32 8 (of_nat (n * 2))
     (PutUint32 4 (of_nat n) (PutUint32 0 40 (replicate 40 0)))))"

definition mask_row :: "nat \<Rightarrow> nat \<Rightarrow> bytes" where
  "mask_row n y = take (mask_stride n) (drop (y * mask_stride n) (fst (IconBits n))) @ replicate (dib_stride n - mask_stride n) 0"

lemma icon_layout: "icon n = icon_header n @ snd (IconBits n) @ concat (map (mask_row n) [0..<n])"
proof -
  have "foldl (\<lambda>b y. b @ mask_row n y) b ys = b @ concat (map (mask_row n) ys)" for b ys
    by (induction ys arbitrary: b) simp_all
  then show ?thesis
    by (simp add: icon_def icon_header_def mask_row_def mask_stride_def dib_stride_def case_prod_beta Let_def)
qed

lemma icon_header_length [simp]: "length (icon_header n) = 40"
  by (simp add: icon_header_def PutUint16_def PutUint32_def)

lemma stride_le: "mask_stride n \<le> dib_stride n"
proof -
  have "n + 15 \<le> 2 * ((n + 31) div 32) * 16 + 15" by linarith
  then have "(n + 15) div 16 \<le> (2 * ((n + 31) div 32) * 16 + 15) div 16" by (rule div_le_mono)
  then show ?thesis by (simp add: mask_stride_def dib_stride_def)
qed

lemma mask_row_length: "y < n \<Longrightarrow> length (mask_row n y) = dib_stride n"
proof -
  assume "y < n"
  then have "y * mask_stride n + mask_stride n \<le> n * mask_stride n"
    by (metis Suc_leI add.commute mult_Suc mult_le_mono1)
  then show ?thesis
    using IconBits_agree [of n] stride_le [of n] by (simp add: mask_row_def bits_agree_def mult.commute)
qed

lemma concat_rows:
  assumes "\<And>y. y < n \<Longrightarrow> length (f y) = d"
  shows "length (concat (map f [0..<n])) = n * d \<and>
    (\<forall>y k. y < n \<longrightarrow> k < d \<longrightarrow> concat (map f [0..<n]) ! (y * d + k) = f y ! k)"
  using assms
proof (induction n)
  case (Suc n)
  from Suc have IH: "length (concat (map f [0..<n])) = n * d"
    "\<And>y k. y < n \<Longrightarrow> k < d \<Longrightarrow> concat (map f [0..<n]) ! (y * d + k) = f y ! k" by simp_all
  have split: "concat (map f [0..<Suc n]) = concat (map f [0..<n]) @ f n" by simp
  have "concat (map f [0..<Suc n]) ! (y * d + k) = f y ! k" if "y < Suc n" "k < d" for y k
  proof (cases "y < n")
    case True
    then show ?thesis unfolding split using IH row_inside [OF True that(2)] that(2) by (simp add: nth_append)
  next
    case False
    then have "y = n" using that(1) by simp
    then show ?thesis unfolding split using IH(1) by (simp add: nth_append)
  qed
  then show ?case unfolding split using IH(1) Suc.prems [of n] by simp
qed simp

text \<open>
  The icon is well formed in every size: its parts have the lengths the format asks for, and the row of the
  mask that a reader finds at a 32-bit aligned stride says transparent for exactly the pixels whose alpha is
  zero.
\<close>

theorem icon_mask_agrees:
  assumes "x < n" and "y < n"
  shows "length (icon n) = 40 + 4 * n * n + n * (((n + 31) div 32) * 4) \<and>
    (bit (icon n ! (40 + 4 * n * n + y * (((n + 31) div 32) * 4) + x div 8)) (7 - x mod 8) \<longleftrightarrow>
       icon n ! (40 + (y * n + x) * 4 + 3) = 0)"
proof -
  have agree: "length (fst (IconBits n)) = mask_stride n * n" "length (snd (IconBits n)) = n * n * 4"
    "mask_bit (fst (IconBits n)) (y * mask_stride n) x \<longleftrightarrow> snd (IconBits n) ! ((y * n + x) * 4 + 3) = 0"
    using IconBits_agree [of n] assms by (simp_all add: bits_agree_def)
  note rows = concat_rows [of n "mask_row n", OF mask_row_length]
  have k: "x div 8 < dib_stride n" using stride_byte [OF assms(1)] stride_le [of n] by simp
  have pixels: "icon n ! (40 + i) = snd (IconBits n) ! i" if "i < n * n * 4" for i
    unfolding icon_layout using that by (simp add: nth_append agree(2))
  have "(y * n + x) * 4 + 3 < n * n * 4" using row_inside [OF assms(2,1)] by simp
  from pixels [OF this] have pixel: "icon n ! (40 + (y * n + x) * 4 + 3) = snd (IconBits n) ! ((y * n + x) * 4 + 3)"
    by (simp only: add.assoc)
  have "icon n ! (40 + 4 * n * n + y * dib_stride n + x div 8) = concat (map (mask_row n) [0..<n]) ! (y * dib_stride n + x div 8)"
    unfolding icon_layout by (simp add: nth_append agree(2) add.assoc)
  also have "\<dots> = mask_row n y ! (x div 8)" using rows assms(2) k by simp
  also have "\<dots> = fst (IconBits n) ! (y * mask_stride n + x div 8)"
  proof -
    have i: "y * mask_stride n + x div 8 < length (fst (IconBits n))"
      using row_inside [OF assms(2) stride_byte [OF assms(1)]] by (simp add: agree(1) mult.commute)
    then have "x div 8 < length (fst (IconBits n)) - y * mask_stride n" "y * mask_stride n \<le> length (fst (IconBits n))" by simp_all
    with stride_byte [OF assms(1)] show ?thesis by (simp add: mask_row_def nth_append nth_drop)
  qed
  finally show ?thesis
    using agree(2,3) pixel rows by (simp add: mask_bit_def dib_stride_def icon_layout)
qed

theorem icon_mask_agrees_witness: "bit (icon 2 ! 56) 7 \<longleftrightarrow> icon 2 ! 43 = 0"
  using icon_mask_agrees [of 0 2 0] by simp

end
