(* ===== verification/Resource_Object.thy ===== *)
theory Resource_Object
  imports Icon_Mask
begin

text \<open>
  The object file of \<^verbatim>\<open>internal/buildresources/main.go\<close>: a loader that follows its directories finds every
  resource.
\<close>

unbundle bit_operations_syntax

subsection \<open>Finding a resource in the object file\<close>

text \<open>Little-endian reads, and the three directories a loader follows: kind, name, language.\<close>

definition read16 :: "bytes \<Rightarrow> nat \<Rightarrow> 16 word" where "read16 b k = get16 (b ! k) (b ! (k + 1))"

definition get32 :: "8 word \<Rightarrow> 8 word \<Rightarrow> 8 word \<Rightarrow> 8 word \<Rightarrow> 32 word" where
  "get32 p q r s = ucast p OR push_bit 8 (ucast q) OR push_bit 16 (ucast r) OR push_bit 24 (ucast s)"

definition read32 :: "bytes \<Rightarrow> nat \<Rightarrow> 32 word" where
  "read32 b k = get32 (b ! k) (b ! (k + 1)) (b ! (k + 2)) (b ! (k + 3))"

definition dir_lookup :: "bytes \<Rightarrow> nat \<Rightarrow> 32 word \<Rightarrow> 32 word option" where
  "dir_lookup b dir key =
     map_option (\<lambda>j. read32 b (dir + 20 + j * 8))
       (List.find (\<lambda>j. read32 b (dir + 16 + j * 8) = key) [0..<unat (read16 b (dir + 14))])"

definition dir_offset :: "32 word \<Rightarrow> nat" where "dir_offset v = unat (v AND 0x7FFFFFFF)"

definition find_resource :: "bytes \<Rightarrow> 32 word \<Rightarrow> 32 word \<Rightarrow> bytes option" where
  "find_resource b kind key =
     (case dir_lookup b 0 kind of None \<Rightarrow> None | Some t \<Rightarrow>
      case dir_lookup b (dir_offset t) key of None \<Rightarrow> None | Some l \<Rightarrow>
      case dir_lookup b (dir_offset l) 0x409 of None \<Rightarrow> None | Some d \<Rightarrow>
        Some (take (unat (read32 b (unat d + 4))) (drop (unat (read32 b (unat d))) b)))"

definition section_of :: "bytes \<Rightarrow> bytes" where
  "section_of b = take (unat (read32 b 36)) (drop (unat (read32 b 40)) b)"

lemma get32_le32: "get32 (ucast v) (ucast (drop_bit 8 v)) (ucast (drop_bit 16 v)) (ucast (drop_bit 24 v)) = v"
proof (rule bit_word_eqI)
  fix n assume "n < LENGTH(32)"
  then consider "n < 8" | "8 \<le> n" "n < 16" | "16 \<le> n" "n < 24" | "24 \<le> n" "n < 32" by fastforce
  then show "bit (get32 (ucast v) (ucast (drop_bit 8 v)) (ucast (drop_bit 16 v)) (ucast (drop_bit 24 v))) n \<longleftrightarrow> bit v n"
    by cases (auto simp: get32_def bit_simps)
qed

lemma small_dword: "n < 2 ^ 32 \<Longrightarrow> unat (of_nat n :: 32 word) = n"
  by (simp add: unat_of_nat)

lemma dir_offset_high:
  assumes "n < 2 ^ 31"
  shows "dir_offset (of_nat n OR 0x80000000) = n"
proof -
  have e: "(0x7FFFFFFF :: 32 word) = mask 31" "(0x80000000 :: 32 word) = push_bit 31 1"
    by (simp_all add: mask_eq_exp_minus_1 push_bit_eq_mult)
  have "(of_nat n OR push_bit 31 1) AND mask 31 = (take_bit 31 (of_nat n) :: 32 word)"
    by (rule bit_word_eqI) (simp only: bit_and_iff bit_or_iff bit_mask_iff bit_push_bit_iff bit_take_bit_iff, auto)
  also have "\<dots> = of_nat n"
  proof -
    have "unat (take_bit 31 (of_nat n :: 32 word)) = unat (of_nat n :: 32 word)"
      using assms by (simp add: unsigned_take_bit_eq small_dword take_bit_nat_eq_self)
    then show ?thesis by (simp only: word_unat_eq_iff)
  qed
  finally have "(of_nat n OR push_bit 31 1) AND mask 31 = (of_nat n :: 32 word)" .
  then show ?thesis unfolding dir_offset_def e using assms by (simp add: small_dword)
qed

lemma dir_lookup_hit:
  assumes "unat (read16 b (dir + 14)) = length ks" and "distinct ks"
    and "\<And>j. j < length ks \<Longrightarrow> read32 b (dir + 16 + j * 8) = ks ! j" and "i < length ks"
  shows "dir_lookup b dir (ks ! i) = Some (read32 b (dir + 20 + i * 8))"
proof -
  have "List.find (\<lambda>j. read32 b (dir + 16 + j * 8) = ks ! i) [0..<length ks] = Some i"
    unfolding find_Some_iff using assms(2-4) by (intro exI [of _ i]) (auto simp: nth_eq_iff_index_eq)
  then show ?thesis by (simp add: dir_lookup_def assms(1))
qed

text \<open>Writes, and what they leave alone.\<close>

lemma PutUint32_length [simp]: "length (PutUint32 k v b) = length b" by (simp add: PutUint32_def)
lemma PutUint16_length [simp]: "length (PutUint16 k v b) = length b" by (simp add: PutUint16_def)

lemma PutUint32_append: "k = length a + i \<Longrightarrow> PutUint32 k v (a @ b) = a @ PutUint32 i v b"
  by (simp add: PutUint32_def list_update_append)

lemma PutUint16_append: "k = length a + i \<Longrightarrow> PutUint16 k v (a @ b) = a @ PutUint16 i v b"
  by (simp add: PutUint16_def list_update_append)

lemma PutUint32_here: "length a = k \<Longrightarrow> PutUint32 k v (a @ p # q # r # s # b) = a @ le32 v @ b"
  by (simp add: PutUint32_def le32_def list_update_append)

lemma PutUint16_here: "length a = k \<Longrightarrow> PutUint16 k v (a @ p # q # b) = a @ le16 v @ b"
  by (simp add: PutUint16_def le16_def list_update_append)

lemma read32_put: "k + 4 \<le> length b \<Longrightarrow> read32 (PutUint32 k v b) k = v"
  by (simp add: read32_def PutUint32_def get32_le32)

lemma PutUint32_other: "i < k \<or> k + 4 \<le> i \<Longrightarrow> PutUint32 k v b ! i = b ! i"
  by (auto simp: PutUint32_def)

lemma read32_same: "(\<And>i. k \<le> i \<Longrightarrow> i < k + 4 \<Longrightarrow> b' ! i = b ! i) \<Longrightarrow> read32 b' k = read32 b k"
  by (simp add: read32_def)

lemma read16_same: "(\<And>i. k \<le> i \<Longrightarrow> i < k + 2 \<Longrightarrow> b' ! i = b ! i) \<Longrightarrow> read16 b' k = read16 b k"
  by (simp add: read16_def)

text \<open>A written resource: its language directory, data entry and data stand together at \<open>q\<close>.\<close>

definition resource_bytes :: "nat \<Rightarrow> bytes \<Rightarrow> bytes" where
  "resource_bytes q data = replicate 14 0 @ le16 1 @ le32 0x409 @ le32 (of_nat (q + 24)) @
     le32 (of_nat (q + 40)) @ le32 (of_nat (length data)) @ replicate 8 0 @ data"

lemma resource_bytes_length [simp]: "length (resource_bytes q data) = 40 + length data"
  by (simp add: resource_bytes_def)

lemma add_resource_layout:
  "add_resource T j (S, relocs) item =
     (align (PutUint32 (T + 20 + j * 8) (of_nat (length S) OR 0x80000000) (PutUint32 (T + 16 + j * 8) (res_id item) S) @
        resource_bytes (length S) (res_data item)), relocs @ [length S + 24])"
proof -
  define S1 where "S1 = PutUint32 (T + 20 + j * 8) (of_nat (length S) OR 0x80000000) (PutUint32 (T + 16 + j * 8) (res_id item) S)"
  have l: "length S = length S1" by (simp add: S1_def)
  have dir: "PutUint32 20 v (PutUint32 16 0x409 (PutUint16 14 1 (replicate 24 0))) =
      replicate 14 0 @ le16 1 @ le32 0x409 @ le32 v" for v
  proof -
    have "(replicate 24 0 :: bytes) = replicate 14 0 @ 0 # 0 # [0, 0, 0, 0, 0, 0, 0, 0]" by (simp add: numeral_eq_Suc)
    then have "PutUint16 14 1 (replicate 24 0) = (replicate 14 0 @ le16 1) @ 0 # 0 # 0 # 0 # [0, 0, 0, 0]"
      by (simp only: PutUint16_here length_replicate) simp
    then have "PutUint32 16 0x409 (PutUint16 14 1 (replicate 24 0)) = (replicate 14 0 @ le16 1 @ le32 0x409) @ 0 # 0 # 0 # 0 # []"
      using PutUint32_here [of "replicate 14 0 @ le16 1" 16] by simp
    then show ?thesis
      using PutUint32_here [of "replicate 14 0 @ le16 1 @ le32 0x409" 20 v 0 0 0 0 "[]"] by simp
  qed
  have entry: "PutUint32 28 w (PutUint32 24 v (replicate 14 0 @ le16 1 @ le32 0x409 @ le32 u @ replicate 16 0)) =
      replicate 14 0 @ le16 1 @ le32 0x409 @ le32 u @ le32 v @ le32 w @ replicate 8 0" for u v w
  proof -
    let ?d = "replicate 14 0 @ le16 1 @ le32 0x409 @ le32 u"
    have "(replicate 16 0 :: bytes) = 0 # 0 # 0 # 0 # 0 # 0 # 0 # 0 # replicate 8 0" by (simp add: numeral_eq_Suc)
    then have "PutUint32 24 v (?d @ replicate 16 0) = (?d @ le32 v) @ 0 # 0 # 0 # 0 # replicate 8 0"
      using PutUint32_here [of ?d 24] by simp
    then show ?thesis using PutUint32_here [of "?d @ le32 v" 28 w] by simp
  qed
  have put: "PutUint32 (length S1 + i) v (S1 @ b) = S1 @ PutUint32 i v b"
    "PutUint32 (i + length S1) v (S1 @ b) = S1 @ PutUint32 i v b"
    "PutUint16 (length S1 + i) x (S1 @ b) = S1 @ PutUint16 i x b" for i v x b
    by (simp_all add: PutUint32_append PutUint16_append)
  show ?thesis
    unfolding add_resource_def Let_def split_conv S1_def [symmetric]
    unfolding l
    by (simp add: put dir entry resource_bytes_def)
qed


definition kept :: "nat \<Rightarrow> nat \<Rightarrow> bytes \<Rightarrow> bytes \<Rightarrow> bool" where
  "kept lo hi S S' \<longleftrightarrow> length S \<le> length S' \<and> (\<forall>k<length S. k < lo \<or> hi \<le> k \<longrightarrow> S' ! k = S ! k)"

definition good_entry :: "nat \<Rightarrow> bytes \<Rightarrow> nat \<Rightarrow> resource \<Rightarrow> bool" where
  "good_entry lo S p item \<longleftrightarrow> read32 S p = res_id item \<and>
     (\<exists>q. lo \<le> q \<and> q + 40 + length (res_data item) \<le> length S \<and> read32 S (p + 4) = of_nat q OR 0x80000000 \<and>
       take (40 + length (res_data item)) (drop q S) = resource_bytes q (res_data item))"

lemma kept_trans: "kept a b S S' \<Longrightarrow> kept c d S' S'' \<Longrightarrow> lo \<le> a \<Longrightarrow> lo \<le> c \<Longrightarrow> b \<le> hi \<Longrightarrow> d \<le> hi \<Longrightarrow> kept lo hi S S''"
  by (auto simp: kept_def)

lemma kept_slice:
  assumes "kept a b S S'" and "b \<le> q" and "q + n \<le> length S"
  shows "take n (drop q S') = take n (drop q S)"
  using assms by (intro nth_equalityI) (auto simp: kept_def)

lemma kept_read32: "kept a b S S' \<Longrightarrow> k + 4 \<le> length S \<Longrightarrow> k + 4 \<le> a \<or> b \<le> k \<Longrightarrow> read32 S' k = read32 S k"
  by (rule read32_same) (auto simp: kept_def)

lemma kept_read16: "kept a b S S' \<Longrightarrow> k + 2 \<le> length S \<Longrightarrow> k + 2 \<le> a \<or> b \<le> k \<Longrightarrow> read16 S' k = read16 S k"
  by (rule read16_same) (auto simp: kept_def)

lemma good_entry_kept:
  assumes "good_entry lo S p item" and "kept a b S S'" and "p + 8 \<le> length S" and "p + 8 \<le> a \<or> b \<le> p"
    and "b \<le> lo" and "lo' \<le> lo"
  shows "good_entry lo' S' p item"
proof -
  obtain q where q: "lo \<le> q" "q + (40 + length (res_data item)) \<le> length S" "read32 S (p + 4) = of_nat q OR 0x80000000"
    "take (40 + length (res_data item)) (drop q S) = resource_bytes q (res_data item)" and i: "read32 S p = res_id item"
    using assms(1) by (auto simp: good_entry_def)
  have "read32 S' p = read32 S p" "read32 S' (p + 4) = read32 S (p + 4)"
    using assms(3,4) by (auto intro!: kept_read32 [OF assms(2)])
  moreover have "take (40 + length (res_data item)) (drop q S') = take (40 + length (res_data item)) (drop q S)"
    using q(1,2) assms(5) by (intro kept_slice [OF assms(2)]) simp_all
  moreover have "length S \<le> length S'" using assms(2) by (simp add: kept_def)
  ultimately show ?thesis unfolding good_entry_def using q i assms(6) by (intro conjI exI [of _ q]) simp_all
qed

lemma add_resource_step:
  assumes "add_resource T j (S, relocs) item = (S', relocs')" and "T + 16 + j * 8 + 8 \<le> length S"
  shows "kept (T + 16 + j * 8) (T + 16 + j * 8 + 8) S S' \<and> good_entry (length S) S' (T + 16 + j * 8) item"
proof -
  let ?p = "T + 16 + j * 8"
  define S1 where "S1 = PutUint32 (?p + 4) (of_nat (length S) OR 0x80000000) (PutUint32 ?p (res_id item) S)"
  have l: "length S1 = length S" by (simp add: S1_def)
  obtain pad where S': "S' = S1 @ resource_bytes (length S) (res_data item) @ pad"
    using assms(1) by (auto simp: add_resource_layout S1_def align_def add.commute add.left_commute)
  have front: "S' ! k = S1 ! k" if "k < length S" for k using that by (simp add: S' l nth_append)
  have r1: "read32 S1 ?p = res_id item" "read32 S1 (?p + 4) = of_nat (length S) OR 0x80000000"
  proof -
    have "read32 S1 ?p = read32 (PutUint32 ?p (res_id item) S) ?p"
      unfolding S1_def by (rule read32_same) (simp add: PutUint32_other)
    then show "read32 S1 ?p = res_id item" using assms(2) by (simp add: read32_put)
    show "read32 S1 (?p + 4) = of_nat (length S) OR 0x80000000"
      unfolding S1_def using assms(2) by (intro read32_put) simp
  qed
  have "read32 S' ?p = read32 S1 ?p" "read32 S' (?p + 4) = read32 S1 (?p + 4)"
    using assms(2) by (auto intro!: read32_same front)
  moreover have "take (40 + length (res_data item)) (drop (length S) S') = resource_bytes (length S) (res_data item)"
    by (simp add: S' flip: l)
  moreover have "length S + 40 + length (res_data item) \<le> length S'" by (simp add: S' l)
  ultimately have "good_entry (length S) S' ?p item" using r1 by (auto simp: good_entry_def)
  moreover have "kept ?p (?p + 8) S S'"
    using front by (auto simp: kept_def S' l S1_def PutUint32_other)
  ultimately show ?thesis by blast
qed

lemma add_resources_steps:
  assumes "add_resources T j (S, relocs) items = (S', relocs')" and "T + 16 + (j + length items) * 8 \<le> length S"
  shows "kept (T + 16 + j * 8) (T + 16 + (j + length items) * 8) S S' \<and>
    (\<forall>i<length items. good_entry (length S) S' (T + 16 + (j + i) * 8) (items ! i))"
  using assms
proof (induction items arbitrary: j S relocs)
  case Nil
  then show ?case by (simp add: kept_def)
next
  case (Cons item items)
  obtain S1 relocs1 where s1: "add_resource T j (S, relocs) item = (S1, relocs1)" by (metis surj_pair)
  have step: "kept (T + 16 + j * 8) (T + 16 + j * 8 + 8) S S1" "good_entry (length S) S1 (T + 16 + j * 8) item"
    using add_resource_step [OF s1] Cons.prems(2) by simp_all
  have len: "length S \<le> length S1" using step(1) by (simp add: kept_def)
  have IH: "kept (T + 16 + Suc j * 8) (T + 16 + (Suc j + length items) * 8) S1 S'"
    "\<forall>i<length items. good_entry (length S1) S' (T + 16 + (Suc j + i) * 8) (items ! i)"
    using Cons.IH [of "Suc j" S1 relocs1] Cons.prems s1 len by simp_all
  have "good_entry (length S) S' (T + 16 + j * 8) item"
    using step(2) IH(1) by (rule good_entry_kept) (use Cons.prems(2) len in simp_all)
  moreover have "good_entry (length S) S' p it" if "good_entry (length S1) S' p it" for p it
    using that len order_trans [OF len] unfolding good_entry_def by blast
  ultimately have "\<forall>i<length (item # items). good_entry (length S) S' (T + 16 + (j + i) * 8) ((item # items) ! i)"
    using IH(2) by (auto simp: nth_Cons split: nat.split)
  moreover have "kept (T + 16 + j * 8) (T + 16 + (j + length (item # items)) * 8) S S'"
    using step(1) IH(1) by (rule kept_trans) simp_all
  ultimately show ?case by blast
qed


text \<open>A written directory of one kind: its header, and an entry for each of its items.\<close>

definition good_kind :: "nat \<Rightarrow> bytes \<Rightarrow> nat \<Rightarrow> 32 word \<Rightarrow> resource list \<Rightarrow> bool" where
  "good_kind lo S p kind items \<longleftrightarrow> read32 S p = kind \<and>
     (\<exists>T. lo \<le> T \<and> T + 16 + length items * 8 \<le> length S \<and> read32 S (p + 4) = of_nat T OR 0x80000000 \<and>
       read16 S (T + 14) = of_nat (length items) \<and>
       (\<forall>i<length items. good_entry (T + 16 + length items * 8) S (T + 16 + i * 8) (items ! i)))"

fun kind_groups :: "32 word list \<Rightarrow> resource list \<Rightarrow> resource list list" where
  "kind_groups [] items = []"
| "kind_groups (kind # kinds) items = take (type_count kind) items # kind_groups kinds (drop (type_count kind) items)"

lemma good_kind_kept:
  assumes "good_kind lo S p kind items" and "kept a b S S'" and "p + 8 \<le> length S" and "p + 8 \<le> a \<or> b \<le> p"
    and "b \<le> lo" and "lo' \<le> lo"
  shows "good_kind lo' S' p kind items"
proof -
  obtain T where T: "lo \<le> T" "T + 16 + length items * 8 \<le> length S" "read32 S (p + 4) = of_nat T OR 0x80000000"
    "read16 S (T + 14) = of_nat (length items)"
    "\<forall>i<length items. good_entry (T + 16 + length items * 8) S (T + 16 + i * 8) (items ! i)" and k: "read32 S p = kind"
    using assms(1) by (auto simp: good_kind_def)
  have "read32 S' p = read32 S p" "read32 S' (p + 4) = read32 S (p + 4)"
    using assms(3,4) by (auto intro!: kept_read32 [OF assms(2)])
  moreover have "read16 S' (T + 14) = read16 S (T + 14)"
    using assms(5) T(1,2) by (intro kept_read16 [OF assms(2)]) simp_all
  moreover have "good_entry (T + 16 + length items * 8) S' (T + 16 + i * 8) (items ! i)" if "i < length items" for i
    using T(5) [rule_format, OF that] assms(2) by (rule good_entry_kept) (use assms(5) T(1,2) that in simp_all)
  moreover have "length S \<le> length S'" using assms(2) by (simp add: kept_def)
  ultimately show ?thesis unfolding good_kind_def using T k assms(6) by (intro conjI exI [of _ T]) simp_all
qed

text \<open>The directory of one kind as it stands before its items are added.\<close>

definition start_kind :: "nat \<Rightarrow> 32 word \<Rightarrow> bytes \<Rightarrow> bytes" where
  "start_kind t kind S =
     PutUint32 (20 + t * 8) (of_nat (length S) OR 0x80000000) (PutUint32 (16 + t * 8) kind S) @
       replicate 14 0 @ le16 (of_nat (type_count kind)) @ replicate (type_count kind * 8) 0"

lemma add_types_start:
  "add_types t (kind # kinds) items (S, relocs) =
     add_types (Suc t) kinds (drop (type_count kind) items)
       (add_resources (length S) 0 (start_kind t kind S, relocs) (take (type_count kind) items))"
proof -
  let ?S1 = "PutUint32 (20 + t * 8) (of_nat (length S) OR 0x80000000) (PutUint32 (16 + t * 8) kind S)"
  have "(replicate (16 + n) 0 :: bytes) = replicate 14 0 @ 0 # 0 # replicate n 0" for n
    using replicate_add [of 14 "Suc (Suc n)" "0 :: 8 word"] by simp
  then have "PutUint16 (length S + 14) v (?S1 @ replicate (16 + n) 0) = ?S1 @ replicate 14 0 @ le16 v @ replicate n 0" for v n
    using PutUint16_append [of "length S + 14" ?S1 14 v] by (simp add: PutUint16_here)
  then show ?thesis by (simp add: start_kind_def Let_def)
qed

lemma start_kind_facts:
  assumes "16 + t * 8 + 8 \<le> length S"
  shows "kept (16 + t * 8) (16 + t * 8 + 8) S (start_kind t kind S)"
    and "length (start_kind t kind S) = length S + 16 + type_count kind * 8"
    and "read32 (start_kind t kind S) (16 + t * 8) = kind"
    and "read32 (start_kind t kind S) (16 + t * 8 + 4) = of_nat (length S) OR 0x80000000"
    and "read16 (start_kind t kind S) (length S + 14) = of_nat (type_count kind)"
proof -
  let ?p = "16 + t * 8"
  let ?S1 = "PutUint32 (?p + 4) (of_nat (length S) OR 0x80000000) (PutUint32 ?p kind S)"
  have s: "start_kind t kind S = ?S1 @ replicate 14 0 @ le16 (of_nat (type_count kind)) @ replicate (type_count kind * 8) 0"
    by (simp add: start_kind_def add.commute add.left_commute)
  have front: "start_kind t kind S ! k = ?S1 ! k" if "k < length S" for k using that by (simp add: s nth_append)
  show "kept ?p (?p + 8) S (start_kind t kind S)"
    using front by (auto simp: kept_def s PutUint32_other)
  show "length (start_kind t kind S) = length S + 16 + type_count kind * 8" by (simp add: s)
  have "read32 (start_kind t kind S) ?p = read32 (PutUint32 ?p kind S) ?p"
    using assms front by (intro read32_same) (simp add: PutUint32_other)
  then show "read32 (start_kind t kind S) ?p = kind" using assms by (simp add: read32_put)
  have "read32 (start_kind t kind S) (?p + 4) = read32 ?S1 (?p + 4)" using assms front by (intro read32_same) simp
  then show "read32 (start_kind t kind S) (?p + 4) = of_nat (length S) OR 0x80000000"
    using assms by (simp add: read32_put)
  have "start_kind t kind S ! (length S + 14) = le16 (of_nat (type_count kind)) ! 0"
    "start_kind t kind S ! (length S + 14 + 1) = le16 (of_nat (type_count kind)) ! 1"
    by (simp_all add: s nth_append)
  then show "read16 (start_kind t kind S) (length S + 14) = of_nat (type_count kind)"
    by (simp add: read16_def le16_def get16_le16)
qed


lemma add_types_steps:
  assumes "add_types t kinds items (S, relocs) = (S', relocs')" and "16 + (t + length kinds) * 8 \<le> length S"
    and "length items = sum_list (map type_count kinds)"
  shows "kept (16 + t * 8) (16 + (t + length kinds) * 8) S S' \<and>
    (\<forall>i<length kinds. good_kind (length S) S' (16 + (t + i) * 8) (kinds ! i) (kind_groups kinds items ! i))"
  using assms
proof (induction kinds arbitrary: t items S relocs)
  case Nil
  then show ?case by (simp add: kept_def)
next
  case (Cons kind kinds)
  let ?n = "type_count kind" and ?S1 = "start_kind t kind S" and ?p = "16 + t * 8"
  let ?items = "take ?n items"
  have inside: "?p + 8 \<le> length S" using Cons.prems(2) by simp
  have n: "length ?items = ?n" using Cons.prems(3) by simp
  obtain S2 relocs2 where s2: "add_resources (length S) 0 (?S1, relocs) ?items = (S2, relocs2)" by (metis surj_pair)
  have rest: "add_types (Suc t) kinds (drop ?n items) (S2, relocs2) = (S', relocs')"
    using Cons.prems(1) s2 by (simp only: add_types_start)
  note start = start_kind_facts [OF inside, of kind]
  have k1: "kept (length S + 16) (length S + 16 + ?n * 8) ?S1 S2"
    and e1: "\<forall>i<?n. good_entry (length ?S1) S2 (length S + 16 + i * 8) (?items ! i)"
    using add_resources_steps [OF s2] start(2) n by simp_all
  have l: "length S \<le> length S2" "length ?S1 \<le> length S2" using k1 start(2) by (simp_all add: kept_def)
  have g1: "good_kind (length S) S2 ?p kind ?items"
    unfolding good_kind_def n
  proof (intro conjI exI [of _ "length S"])
    show "read32 S2 ?p = kind" using kept_read32 [OF k1, of ?p] start(2,3) inside by simp
    show "read32 S2 (?p + 4) = of_nat (length S) OR 0x80000000"
      using kept_read32 [OF k1, of "?p + 4"] start(2,4) inside by simp
    show "read16 S2 (length S + 14) = of_nat ?n" using kept_read16 [OF k1, of "length S + 14"] start(2,5) by simp
    show "length S + 16 + ?n * 8 \<le> length S2" using l(2) start(2) by simp
    show "\<forall>i<?n. good_entry (length S + 16 + ?n * 8) S2 (length S + 16 + i * 8) (?items ! i)"
      using e1 by (simp add: start(2))
  qed simp
  have IH: "kept (16 + Suc t * 8) (16 + (Suc t + length kinds) * 8) S2 S'"
    "\<forall>i<length kinds. good_kind (length S2) S' (16 + (Suc t + i) * 8) (kinds ! i) (kind_groups kinds (drop ?n items) ! i)"
    using Cons.IH [OF rest] Cons.prems(2,3) l(1) by simp_all
  have g: "good_kind (length S) S' ?p kind ?items"
    using g1 IH(1) by (rule good_kind_kept) (use Cons.prems(2) l(1) in simp_all)
  have weaken: "good_kind (length S) S' p k its" if "good_kind (length S2) S' p k its" for p k its
    using that l(1) order_trans [OF l(1)] unfolding good_kind_def by blast
  have "\<forall>i<length (kind # kinds).
      good_kind (length S) S' (16 + (t + i) * 8) ((kind # kinds) ! i) (kind_groups (kind # kinds) items ! i)"
    using g IH(2) weaken by (auto simp: nth_Cons split: nat.split)
  moreover have "kept ?p (16 + (t + length (kind # kinds)) * 8) S S'"
  proof -
    have "kept ?p (?p + 8) S S2"
      using start(1,2) k1 by (auto simp: kept_def)
    then show ?thesis using IH(1) by (rule kept_trans) simp_all
  qed
  ultimately show ?case by blast
qed

lemma slice_nth: "take n (drop q S) = R \<Longrightarrow> i < length R \<Longrightarrow> S ! (q + i) = R ! i"
  by auto

lemma read32_slice:
  assumes "take n (drop q S) = a @ le32 v @ b" and "k = q + length a"
  shows "read32 S k = v"
proof -
  have "S ! (q + (length a + i)) = le32 v ! i" if "i < 4" for i
    using slice_nth [OF assms(1), of "length a + i"] that by (simp add: nth_append)
  from this [of 0] this [of 1] this [of 2] this [of 3] show ?thesis
    by (simp add: read32_def assms(2) le32_def get32_le32 add.assoc)
qed

lemma read16_slice:
  assumes "take n (drop q S) = a @ le16 v @ b" and "k = q + length a"
  shows "read16 S k = v"
proof -
  have "S ! (q + (length a + i)) = le16 v ! i" if "i < 2" for i
    using slice_nth [OF assms(1), of "length a + i"] that by (simp add: nth_append)
  from this [of 0] this [of 1] show ?thesis
    by (simp add: read16_def assms(2) le16_def get16_le16)
qed

lemma good_entry_found:
  assumes "good_entry lo S p item" and "length S < 2 ^ 31"
  obtains d where "dir_lookup S (dir_offset (read32 S (p + 4))) 0x409 = Some d"
    and "take (unat (read32 S (unat d + 4))) (drop (unat (read32 S (unat d))) S) = res_data item"
proof -
  obtain q where q: "q + 40 + length (res_data item) \<le> length S" "read32 S (p + 4) = of_nat q OR 0x80000000"
    "take (40 + length (res_data item)) (drop q S) = resource_bytes q (res_data item)"
    using assms(1) by (auto simp: good_entry_def)
  note R = q(3) [unfolded resource_bytes_def]
  have off: "dir_offset (read32 S (p + 4)) = q" unfolding q(2) using q(1) assms(2) by (intro dir_offset_high) simp
  have "read16 S (q + 14) = 1" using R by (rule read16_slice) simp
  moreover have "read32 S (q + 16) = 0x409"
    using R by (intro read32_slice [of "40 + length (res_data item)" q S "replicate 14 0 @ le16 1"]) simp_all
  ultimately have hit: "dir_lookup S q 0x409 = Some (read32 S (q + 20))"
    using dir_lookup_hit [of S q "[0x409]" 0] by simp
  have "read32 S (q + 20) = of_nat (q + 24)"
    using R by (intro read32_slice [of "40 + length (res_data item)" q S "replicate 14 0 @ le16 1 @ le32 0x409"]) simp_all
  moreover have "read32 S (q + 24) = of_nat (q + 40)"
    using R by (intro read32_slice [of "40 + length (res_data item)" q S "replicate 14 0 @ le16 1 @ le32 0x409 @ le32 (of_nat (q + 24))"]) simp_all
  moreover have "read32 S (28 + q) = of_nat (length (res_data item))"
    using R by (intro read32_slice [of "40 + length (res_data item)" q S
        "replicate 14 0 @ le16 1 @ le32 0x409 @ le32 (of_nat (q + 24)) @ le32 (of_nat (q + 40))"]) simp_all
  moreover have "take (length (res_data item)) (drop (q + 40) S) = res_data item"
  proof -
    have "drop 40 (take (40 + length (res_data item)) (drop q S)) = res_data item" by (simp add: q(3) resource_bytes_def)
    then show ?thesis by (simp add: drop_take add.commute)
  qed
  moreover have "unat (of_nat (q + 24) :: 32 word) = q + 24" "unat (of_nat (q + 40) :: 32 word) = q + 40"
    "unat (of_nat (length (res_data item)) :: 32 word) = length (res_data item)"
    by (rule small_dword; use q(1) assms(2) in simp)+
  ultimately show ?thesis using hit by (intro that) (simp_all only: off add.assoc, simp_all)
qed


lemma good_kind_found:
  assumes "good_kind lo S p kind items" and "length S < 2 ^ 31" and "distinct (map res_id items)"
    and "length items < 2 ^ 16" and "item \<in> set items"
  obtains l d where "dir_lookup S (dir_offset (read32 S (p + 4))) (res_id item) = Some l"
    and "dir_lookup S (dir_offset l) 0x409 = Some d"
    and "take (unat (read32 S (unat d + 4))) (drop (unat (read32 S (unat d))) S) = res_data item"
proof -
  obtain T where T: "T + 16 + length items * 8 \<le> length S" "read32 S (p + 4) = of_nat T OR 0x80000000"
    "read16 S (T + 14) = of_nat (length items)"
    "\<forall>i<length items. good_entry (T + 16 + length items * 8) S (T + 16 + i * 8) (items ! i)"
    using assms(1) by (auto simp: good_kind_def)
  obtain i where i: "i < length items" "item = items ! i" using assms(5) by (auto simp: in_set_conv_nth)
  have off: "dir_offset (read32 S (p + 4)) = T" unfolding T(2) using T(1) assms(2) by (intro dir_offset_high) simp
  have "dir_lookup S T (map res_id items ! i) = Some (read32 S (T + 20 + i * 8))"
  proof (rule dir_lookup_hit)
    show "unat (read16 S (T + 14)) = length (map res_id items)" using T(3) assms(4) by (simp add: small_unit)
    show "read32 S (T + 16 + j * 8) = map res_id items ! j" if "j < length (map res_id items)" for j
      using T(4) that by (simp add: good_entry_def)
  qed (use assms(3) i in simp_all)
  then have hit: "dir_lookup S (dir_offset (read32 S (p + 4))) (res_id item) = Some (read32 S (T + 16 + i * 8 + 4))"
    using i off by (simp add: add.commute add.left_commute)
  obtain d where "dir_lookup S (dir_offset (read32 S (T + 16 + i * 8 + 4))) 0x409 = Some d"
    "take (unat (read32 S (unat d + 4))) (drop (unat (read32 S (unat d))) S) = res_data item"
    using good_entry_found [OF T(4) [rule_format, OF i(1)] assms(2)] i(2) by metis
  with hit show ?thesis by (rule that)
qed

text \<open>The section of the resources finds each of them.\<close>

lemma section_found:
  assumes "map res_kind items = [3, 3, 3, 14, 16]" and "distinct (map res_id (take 3 items))"
    and "length (fst (resource_section items)) < 2 ^ 31" and "item \<in> set items"
  shows "find_resource (fst (resource_section items)) (res_kind item) (res_id item) = Some (res_data item)"
proof -
  let ?S0 = "PutUint16 14 3 (replicate (16 + 3 * 8) 0) :: bytes" and ?kinds = "[3, 14, 16] :: 32 word list"
  obtain S relocs where S: "add_types 0 ?kinds items (?S0, []) = (S, relocs)" by (metis surj_pair)
  have len5: "length items = 5" using arg_cong [OF assms(1), of length] by simp
  then obtain a b c d e where it: "items = [a, b, c, d, e]"
    by (auto simp: numeral_eq_Suc length_Suc_conv)
  have kinds: "res_kind a = 3" "res_kind b = 3" "res_kind c = 3" "res_kind d = 14" "res_kind e = 16"
    using assms(1) it by simp_all
  have l0: "length ?S0 = 40" by simp
  have steps: "kept 16 40 ?S0 S" "\<forall>i<3. good_kind 40 S (16 + i * 8) (?kinds ! i) (kind_groups ?kinds items ! i)"
    using add_types_steps [OF S] by (simp_all add: len5 type_count_def)
  have groups: "kind_groups ?kinds items = [[a, b, c], [d], [e]]" by (simp add: it type_count_def)
  have sec: "fst (resource_section items) = S" using S by (simp add: resource_section_def)
  have short: "length S < 2 ^ 31" using assms(3) sec by simp
  have count: "unat (read16 S (0 + 14)) = length ?kinds"
  proof -
    have "read16 S 14 = read16 ?S0 14" by (rule kept_read16 [OF steps(1)]) simp_all
    also have "\<dots> = 3" by (simp add: read16_def PutUint16_def) (simp add: get16_def)
    finally show ?thesis by simp
  qed
  have kind: "read32 S (0 + 16 + j * 8) = ?kinds ! j" if "j < length ?kinds" for j
    using steps(2) that by (simp add: good_kind_def)
  have dist: "distinct ?kinds" by simp
  have top: "dir_lookup S 0 (?kinds ! i) = Some (read32 S (16 + i * 8 + 4))" if "i < 3" for i
    using dir_lookup_hit [OF count dist kind, of i] that by (simp add: add.commute add.left_commute)
  have found: "find_resource S (?kinds ! i) (res_id item) = Some (res_data item)"
    if "i < 3" "item \<in> set (kind_groups ?kinds items ! i)" "distinct (map res_id (kind_groups ?kinds items ! i))" for i
  proof -
    have g: "good_kind 40 S (16 + i * 8) (?kinds ! i) (kind_groups ?kinds items ! i)" using steps(2) that(1) by blast
    have "length (kind_groups ?kinds items ! i) < 2 ^ 16"
    proof -
      from that(1) consider "i = 0" | "i = 1" | "i = 2" by linarith
      then show ?thesis unfolding groups by cases simp_all
    qed
    from good_kind_found [OF g short that(3) this that(2)] obtain l d
      where "dir_lookup S (dir_offset (read32 S (16 + i * 8 + 4))) (res_id item) = Some l"
        and "dir_lookup S (dir_offset l) 0x409 = Some d"
        and "take (unat (read32 S (unat d + 4))) (drop (unat (read32 S (unat d))) S) = res_data item" .
    then show ?thesis unfolding find_resource_def top [OF that(1)] option.case by (simp only: option.case)
  qed
  have ids: "distinct (map res_id [a, b, c])" using assms(2) it by simp
  consider "item \<in> set [a, b, c]" "res_kind item = 3" | "item = d" | "item = e" using assms(4) it kinds by auto
  then show ?thesis
    unfolding sec using found [of 0, unfolded groups] found [of 1, unfolded groups] found [of 2, unfolded groups] ids kinds by cases simp_all
qed


text \<open>The object file around the section.\<close>

lemma read32_PutUint32: "i + 4 \<le> k \<or> k + 4 \<le> i \<Longrightarrow> read32 (PutUint32 k v b) i = read32 b i"
  by (rule read32_same) (auto simp: PutUint32_other)

lemma read32_PutUint16: "i + 4 \<le> k \<or> k + 2 \<le> i \<Longrightarrow> read32 (PutUint16 k v b) i = read32 b i"
  by (rule read32_same) (auto simp: PutUint16_def)

lemma read32_append: "i + 4 \<le> length a \<Longrightarrow> read32 (a @ b) i = read32 a i"
  by (rule read32_same) (simp add: nth_append)

lemma section_of_layout:
  assumes "length h = 60" and "read32 h 36 = of_nat (length S)" and "read32 h 40 = 60" and "length S < 2 ^ 32"
  shows "section_of (h @ S @ r) = S"
  using assms by (simp add: section_of_def read32_append small_dword)

lemma relocations_start:
  "\<exists>r. foldl (\<lambda>b offset. put_word (put_dword (put_dword b (of_nat offset)) 0) 3) b rs = b @ r"
proof (induction rs arbitrary: b)
  case (Cons a rs)
  from Cons.IH [of "b @ le32 (of_nat a) @ le32 0 @ le16 3"] show ?case by (auto simp: put_word_def put_dword_def)
qed simp

lemma object_section:
  assumes "length S < 2 ^ 32"
  shows "section_of (object_file (S, relocs)) = S"
proof -
  note relocate = relocations_start
  define name where "name = (map of_char ''.rsrc'' :: bytes)"
  have name: "length name = 5" by (simp add: name_def)
  define h1 where "h1 = PutUint32 12 1 (PutUint32 8 (of_nat (60 + length S + 10 * length relocs)) (PutUint16 2 1 (PutUint16 0 0x8664 (replicate 60 0))))"
  define h2 where "h2 = PutUint32 40 60 (PutUint32 36 (of_nat (length S)) (take 20 h1 @ name @ drop 25 h1))"
  define h where "h = PutUint32 56 0x40300040 (PutUint16 52 (of_nat (length relocs)) (PutUint32 44 (of_nat (60 + length S)) h2))"
  obtain r where "object_file (S, relocs) = put_dword ((h @ S) @ r) 4"
    using relocate [of "h @ S" relocs]
    by (fastforce simp: object_file_def Let_def h_def h2_def h1_def name_def)
  then have o: "object_file (S, relocs) = h @ S @ (r @ le32 4)" by (simp add: put_dword_def)
  have l: "length h1 = 60" "length h2 = 60" "length h = 60" by (simp_all add: h1_def h2_def h_def name)
  have "read32 h 36 = of_nat (length S)" "read32 h 40 = 60"
    by (simp_all add: h_def h2_def read32_PutUint32 read32_PutUint16 read32_put l(1) name)
  then show ?thesis unfolding o using l(3) assms by (intro section_of_layout) simp_all
qed

lemma icon_length: "length (icon n) = 40 + 4 * n * n + n * dib_stride n"
  using IconBits_agree [of n] concat_rows [of n "mask_row n", OF mask_row_length]
  by (simp add: icon_layout bits_agree_def)

definition section_size :: "nat \<Rightarrow> resource list \<Rightarrow> nat" where
  "section_size n items = foldl (\<lambda>n item. up4 (n + 40 + length (res_data item))) n items"

lemma add_resources_size:
  "length (fst (add_resources T j st items)) = section_size (length (fst st)) items"
proof (induction items arbitrary: j st)
  case (Cons item items)
  obtain S relocs where "st = (S, relocs)" by (cases st)
  with Cons show ?case by (simp add: section_size_def add_resource_layout add.assoc)
qed (simp add: section_size_def)

fun kinds_size :: "nat \<Rightarrow> 32 word list \<Rightarrow> resource list \<Rightarrow> nat" where
  "kinds_size n [] items = n"
| "kinds_size n (kind # kinds) items =
     kinds_size (section_size (n + 16 + type_count kind * 8) (take (type_count kind) items)) kinds (drop (type_count kind) items)"

lemma add_types_size: "length (fst (add_types t kinds items st)) = kinds_size (length (fst st)) kinds items"
proof (induction kinds arbitrary: t items st)
  case (Cons kind kinds)
  obtain S relocs where st: "st = (S, relocs)" by (cases st)
  have "length (start_kind t kind S) = length S + 16 + type_count kind * 8" by (simp add: start_kind_def)
  then show ?case
    unfolding st add_types_start by (simp only: Cons.IH add_resources_size fst_conv kinds_size.simps)
qed simp

definition app_icons :: "(nat \<times> nat \<times> bytes) list" where
  "app_icons = [(0, 16, icon 16), (1, 32, icon 32), (2, 48, icon 48)]"

lemma resource_items_some:
  assumes "version Version Creator = Some v"
  shows "resource_items Version Creator = Some
    [\<lparr>res_kind = 3, res_id = 1, res_data = icon 16\<rparr>, \<lparr>res_kind = 3, res_id = 2, res_data = icon 32\<rparr>,
     \<lparr>res_kind = 3, res_id = 3, res_data = icon 48\<rparr>, \<lparr>res_kind = 14, res_id = 1, res_data = icon_group app_icons\<rparr>,
     \<lparr>res_kind = 16, res_id = 1, res_data = v\<rparr>]"
  by (simp add: resource_items_def app_icons_def assms)

lemma icon_group_length: "length (icon_group app_icons) = 48"
  by (simp add: icon_group_def app_icons_def put_word_def put_dword_def)

text \<open>
  C40. Whatever the version of the program, the object file holds all its resources where a loader looks for
  them: following the directories of the section by kind, name and language finds the version block, the group
  of icons and each of the three icons, byte for byte.
\<close>

theorem resource_object_complete:
  assumes "version Version Creator = Some v" and "length v < 2 ^ 16"
  shows "\<exists>obj. resource_object Version Creator = Some obj \<and>
    find_resource (section_of obj) 3 1 = Some (icon 16) \<and> find_resource (section_of obj) 3 2 = Some (icon 32) \<and>
    find_resource (section_of obj) 3 3 = Some (icon 48) \<and>
    find_resource (section_of obj) 14 1 = Some (icon_group app_icons) \<and> find_resource (section_of obj) 16 1 = Some v"
proof -
  obtain items where items: "resource_items Version Creator = Some items" and it: "items =
    [\<lparr>res_kind = 3, res_id = 1, res_data = icon 16\<rparr>, \<lparr>res_kind = 3, res_id = 2, res_data = icon 32\<rparr>,
     \<lparr>res_kind = 3, res_id = 3, res_data = icon 48\<rparr>, \<lparr>res_kind = 14, res_id = 1, res_data = icon_group app_icons\<rparr>,
     \<lparr>res_kind = 16, res_id = 1, res_data = v\<rparr>]" using resource_items_some [OF assms(1)] by blast
  obtain S relocs where S: "resource_section items = (S, relocs)" by (cases "resource_section items")
  have "length S = kinds_size 40 [3, 14, 16] items"
    using add_types_size [of 0 "[3, 14, 16]" items "(PutUint16 14 3 (replicate (16 + 3 * 8) 0), [])"] S
    by (simp add: resource_section_def)
  also have "\<dots> < 2 ^ 31"
    using assms(2) by (simp add: it type_count_def section_size_def icon_length dib_stride_def icon_group_length up4_def)
  finally have short: "length S < 2 ^ 31" .
  have found: "find_resource (section_of (object_file (S, relocs))) (res_kind item) (res_id item) = Some (res_data item)"
    if "item \<in> set items" for item
  proof -
    have "section_of (object_file (S, relocs)) = fst (resource_section items)"
      using short by (simp add: object_section S)
    moreover have "map res_kind items = [3, 3, 3, 14, 16]" "distinct (map res_id (take 3 items))" by (simp_all add: it)
    ultimately show ?thesis using section_found [of items item] that short by (simp add: S)
  qed
  have "resource_object Version Creator = Some (object_file (S, relocs))" by (simp add: resource_object_def items S)
  moreover from found have "\<forall>item\<in>set items.
      find_resource (section_of (object_file (S, relocs))) (res_kind item) (res_id item) = Some (res_data item)" by blast
  ultimately show ?thesis unfolding it by simp
qed

theorem resource_object_complete_witness:
  "\<exists>obj v. resource_object app_Version app_Creator = Some obj \<and> find_resource (section_of obj) 16 1 = Some v \<and> length v = 584"
proof -
  obtain v where v: "version app_Version app_Creator = Some v" "length v = 584" using app_version_size by blast
  have "length v < 2 ^ 16" using v(2) by simp
  from resource_object_complete [OF v(1) this] v(2) show ?thesis by blast
qed

end
