(* ===== verification/Spec2Isabelle.thy ===== *)
theory Spec2Isabelle
  imports Metadata_Protocol Connection_Runs Diagnostics Cache_Sizes Ftp_Safety Webdav_Facts Sftp_Facts
    Recovery_Facts Connection_Backend Remote_Path Recovery_Path Session_Facts Mount_Bytes Config Desktop_Saving Desktop_Retry Mount_Metadata Prerequisite Resource_Object
begin

text \<open>
  DK-Drive mounts FTP, FTPS, WebDAV and SFTP servers as Windows drives. This development models the Go
  program under \<^verbatim>\<open>src/internal\<close> as executable definitions and proves what makes its parts correct.

  \<^bold>\<open>The program and how its parts interact.\<close> A profile of the settings (\<^verbatim>\<open>config\<close>) is opened as a backend
  of its protocol (\<^verbatim>\<open>connection/backend.go\<close>, \<^verbatim>\<open>protocol/*\<close>), wrapped by the read-only check, the diagnostics
  and the metadata cache (\<^verbatim>\<open>vfs\<close>, \<^verbatim>\<open>diagnostics\<close>), and mounted (\<^verbatim>\<open>connection/mount_windows.go\<close>,
  \<^verbatim>\<open>mount\<close>): files that are written are staged in a cache folder (\<^verbatim>\<open>cache/store.go\<close>), uploaded when they are
  looked up, synced or closed, and preserved with a metadata document when the upload fails. The connection
  manager (\<^verbatim>\<open>connection/manager.go\<close>) holds the mounted sessions; the desktop (\<^verbatim>\<open>desktop\<close>) edits the profiles,
  connects and disconnects in the background, and retries preserved files (\<^verbatim>\<open>recovery/retry.go\<close>).

  \<^bold>\<open>Theories.\<close> Shared: \<^verbatim>\<open>DK_Prelude\<close> (results, 64-bit arithmetic, instants, strings, association lists),
  \<^verbatim>\<open>Go_Errors\<close>, \<^verbatim>\<open>Go_Path\<close>, \<^verbatim>\<open>Go_Strconv\<close>, \<^verbatim>\<open>Go_Trim\<close> (Go's libraries as far as used), \<^verbatim>\<open>Local_FS\<close> (the local
  disk, with a fault for every operation and path).
  \<^item> \<^verbatim>\<open>Vfs\<close>, \<^verbatim>\<open>Vfs_Writer\<close>: the backend interface as a record of operations on a world, the read-only
    wrapper, and the locale of backends that publish on close; \<^verbatim>\<open>Ftp_Facts\<close> and \<^verbatim>\<open>Webdav_Facts\<close> interpret it.
  \<^item> \<^verbatim>\<open>Metadata_Cache\<close>, \<^verbatim>\<open>Metadata_Protocol\<close>: \<^verbatim>\<open>vfs/metadata_cache.go\<close> and its interleavings as a step
    relation: coherence with the server, bounds.
  \<^item> \<^verbatim>\<open>Ftp_Backend\<close>, \<^verbatim>\<open>Ftp_Facts\<close>, \<^verbatim>\<open>Ftp_Safety\<close>; \<^verbatim>\<open>Webdav_Backend\<close>, \<^verbatim>\<open>Webdav_Facts\<close>; \<^verbatim>\<open>Sftp_Backend\<close>,
    \<^verbatim>\<open>Sftp_Facts\<close>; \<^verbatim>\<open>Remote_Path\<close>: the protocols over parameters for their client libraries: what a write
    publishes, mutations sent once, the mutex, connections and response bodies closed, roots not left.
  \<^item> \<^verbatim>\<open>Connection\<close>, \<^verbatim>\<open>Connection_Runs\<close>: \<^verbatim>\<open>connection/manager.go\<close>, \<^verbatim>\<open>desktop/disconnect.go\<close> and the
    interleavings of their critical sections; \<^verbatim>\<open>Connection_Backend\<close>: opening and mounting a profile, and what
    a profile puts on the wire.
  \<^item> \<^verbatim>\<open>Cache_Store\<close>, \<^verbatim>\<open>Cache_Facts\<close>, \<^verbatim>\<open>Cache_Effects\<close>, \<^verbatim>\<open>Cache_Sizes\<close>: \<^verbatim>\<open>cache/store.go\<close>: what is deleted,
    atomic metadata, sizes; \<^verbatim>\<open>Recovery\<close>, \<^verbatim>\<open>Recovery_Path\<close>, \<^verbatim>\<open>Recovery_Facts\<close>: \<^verbatim>\<open>recovery/retry.go\<close>.
  \<^item> \<^verbatim>\<open>Mount_FS\<close>, \<^verbatim>\<open>Mount_Ops\<close>: \<^verbatim>\<open>mount/gofs_windows.go\<close>; \<^verbatim>\<open>Mount_Facts\<close>: no data is lost on close or lookup;
    \<^verbatim>\<open>Mount_Bytes\<close>: a staged file refines a byte file, quotas, directories; \<^verbatim>\<open>Mount_Session\<close>,
    \<^verbatim>\<open>Session_Facts\<close>: the guard, safe and forced detach; \<^verbatim>\<open>Mount_Metadata\<close>: \<^verbatim>\<open>mount/metadata_windows.go\<close>.
  \<^item> \<^verbatim>\<open>Config\<close>: \<^verbatim>\<open>config\<close>: validation, secrets, atomic saving. \<^verbatim>\<open>Diagnostics\<close>: the recorder and the
    measuring backend. \<^verbatim>\<open>Startup\<close>: \<^verbatim>\<open>desktop/startup_windows.go\<close>. \<^verbatim>\<open>Prerequisite\<close>:
    \<^verbatim>\<open>prerequisite/winfsp.go\<close> and its use in \<^verbatim>\<open>cmd/dkdrive/prerequisite_windows.go\<close>.
  \<^item> \<^verbatim>\<open>Resources\<close>: \<^verbatim>\<open>branding/icon.go\<close> and \<^verbatim>\<open>buildresources/main.go\<close>; \<^verbatim>\<open>Version_Blocks\<close>: the version block reads
    back; \<^verbatim>\<open>Icon_Mask\<close>: mask and pixels agree; \<^verbatim>\<open>Resource_Object\<close>: a loader finds every resource.
  \<^item> \<^verbatim>\<open>Desktop_Rules\<close> (the pure decisions of the windows), \<^verbatim>\<open>Desktop_Window\<close> (state, editor, saving),
    \<^verbatim>\<open>Desktop_Recovery\<close> (the cache window), \<^verbatim>\<open>Desktop_Commands\<close> (background tasks, commands, messages, the start
    of the program; \<open>desk_reachable\<close> are the states it can reach), \<^verbatim>\<open>Desktop_Fields\<close>, \<^verbatim>\<open>Desktop_Invariants\<close>,
    \<^verbatim>\<open>Desktop_Work\<close>, \<^verbatim>\<open>Desktop_Facts\<close> (every handler keeps the invariants), \<^verbatim>\<open>Desktop_Demo\<close> (a concrete desktop for
    the examples), \<^verbatim>\<open>Desktop_Reachable\<close>, \<^verbatim>\<open>Desktop_Saving\<close>, \<^verbatim>\<open>Desktop_Retry\<close> (what follows).

  This theory composes components: staged files over WebDAV (what a close and a lookup publish), retries over FTP,
  typed directory entries.

  \<^bold>\<open>Correspondence.\<close> A Go struct is a record with a prefix for its fields, a method is a definition of the
  same name (with the component as a prefix where names clash) that takes the state and returns it changed; an
  error result is \<open>err option\<close> or \<open>err + 'a\<close>, and every early return is a branch. Files, handles and
  directories that the code shares by pointer are indexed in the world. \<open>int64\<close> values are integers with the
  wrap-around written out (\<open>i64\<close>), modes, masks and attributes are words. Critical sections are the atomic
  steps of the concurrent components.

  \<^bold>\<open>Bounds and fuel.\<close> No definition has fuel. Loops are structural, or have a decreasing measure (what is
  left of the file, the length of a text, the number of digits). The only loop that might not end,
  the copy loop of \<open>mount_upload\<close>, is a \<open>partial_function\<close> and is proved to return on a disk that does not
  report an early end of file.

  \<^bold>\<open>Parameters.\<close> Code outside the repository is a parameter, with the documented behaviour that is needed as a
  named hypothesis: the FTP, SSH/SFTP and HTTP clients, URL and XML parsing, JSON encoding, DPAPI, go-winfsp and its
  callbacks, the services of Windows (message boxes, drives in use, new windows, the Registry, the shell).

  \<^bold>\<open>Not modelled.\<close> Contexts and timeouts (a timeout is an error of the parameter that suffers it; the end of
  a Windows session within its two seconds is a number of profiles detached in time). Drawing, layout, menus and
  the creation of controls, \<^verbatim>\<open>desktop/native_windows.go\<close>, \<^verbatim>\<open>app\<close> and the other
  programs under \<^verbatim>\<open>src/cmd\<close>: they are calls of the system, constants, or probes that call what is modelled.
  Simplifications of the models: paths of the local disk are POSIX paths and case-sensitive; upper and lower
  case are those of ASCII; error texts are short tags, which no decision reads; an operation reads the clock and
  the random name of a temporary file once; a local write that fails writes nothing; a PROPFIND body is read
  before it is parsed and a downloaded file is read to its end; the generation counter of the metadata cache
  is unbounded; the timing calls around the protocol operations are left out of their models, as
  \<^verbatim>\<open>Diagnostics\<close> shows them transparent; a message box is answered at once, its nested message loop is not
  modelled; connecting or disconnecting all profiles is one step for each profile; the disk of the settings and
  the world of the mounted sessions are separate; file names are valid UTF-8; the disk does not change between the
  check of the WinFsp installer and its start, although a message box waits in between; starting a session is a
  parameter of the mount of a profile, which receives of its options the drive letter and whether the protocol is SFTP
  (the others are fields of the profile passed on as they are). The coherence of the metadata cache is
  about a remote tree that changes only through the mount, and does not compare the size and time of folders, which
  servers change on their own.
\<close>

subsection \<open>The drive and the retries over the protocols\<close>

text \<open>The facts proved once for every backend that keeps the writer contract, for the two that do.\<close>

lemmas ftp_Upload_exact = staged_writer.Upload_exact [OF ftp_writer.staged_writer_axioms]
lemmas ftp_failed_copy = staged_writer.failed_copy_publishes_prefix [OF ftp_writer.staged_writer_axioms]
lemmas dav_Close_acked = staged_writer.Close_acked [OF dav_writer.staged_writer_axioms]

text \<open>
  C6. A retry that reports success has published exactly the preserved file, over FTP: the server
  acknowledged a STOR of precisely the bytes of the staging file, to the path below the root that the
  remote name maps to, and afterwards reports a file of that size.
\<close>

theorem retry_publishes_exactly:
  assumes "Upload st item fs (ftp_backend_ops B) x remote w = ((en, None), w')"
  shows "\<exists>p d t s q client s0 w1. safeStagingPath st fs (rm_StagingPath (ri_Metadata item)) = Inr p \<and>
    fs_get fs p = Some (Reg d t s) \<and> ftp_remotePath (fb_root B) remote = Inr q \<and>
    fl_Stor (fb_lib B) client q d s0 = (None, fw_server w1) \<and>
    ftp_Stat B x remote w1 = (Inr en, w') \<and> \<not> entry_IsDir en \<and> e_Size en = int (length d)"
  using ftp_Upload_exact [OF assms] by (simp add: ftp_acked_def ftp_backend_ops_def) blast

text \<open>
  C5. What a closed drive file leaves behind, over WebDAV: when \<open>Close\<close> removed the staging file of a
  file with unsaved bytes, the server answered a PUT of exactly these bytes, on the resource of the
  file's name, with success; and if no modification time was asked for, that is the last thing it was asked.
\<close>

theorem drive_close_published:
  assumes "staged_Close g i w = (r, w')" and "staged_open i c w" and "no_early_EOF (mw_fs w)"
    and "gf_backend g = dav_backend_ops B"
    and "store_ok (gf_store g)" "cwd_ok (mw_fs w)" "staging_name n" "stf_path (mw_staged w ! i) = staging_file (gf_store g) n"
    and "stf_dirty (mw_staged w ! i)" and "fs_get (mw_fs w') (staging_file (gf_store g) n) = None"
  shows "\<exists>q x req resp s1 s2 v. webdav_resourcePath (du_Path (db_baseURL B)) (stf_name (mw_staged w ! i)) = Inr q \<and>
    hq_Method req = ''PUT'' \<and> du_Path (hq_URL req) = q \<and> hq_Body req = c \<and>
    dl_Do (db_client B) x req s1 = (Inr resp, s2) \<and> hr_StatusCode resp \<in> {200, 201, 204} \<and>
    dw_server v = snd (dl_CloseBody (db_client B) (hr_Body resp) s2) \<and>
    (stf_requestedTime (mw_staged w ! i) = 0 \<longrightarrow> v = mw_remote w')"
  using dav_Close_acked [OF assms] by (fastforce simp: dav_acked_def)

text \<open>
  One file published over WebDAV: the mount's upload from one state of the server to the next reported success, in it
  the server acknowledged a PUT of exactly these bytes to the resource of the name, and the modification time was set
  when one had been asked for.
\<close>

definition put_link :: "('s, 'd) dav_backend \<Rightarrow> string \<Rightarrow> 's dav_world \<Rightarrow> bytes \<times> instant \<Rightarrow> 's dav_world \<Rightarrow> bool" where
  "put_link B name s job s' \<longleftrightarrow> (\<exists>fs p t b q r. fs_get fs p = Some (Reg (fst job) t b) \<and>
     mount_upload (dav_backend_ops B) name p fs s = Some (None, r) \<and>
     webdav_resourcePath (du_Path (db_baseURL B)) name = Inr q \<and> dav_acked B s q (fst job) r \<and>
     (if snd job = 0 then s' = r else b_SetModTime (dav_backend_ops B) None name (snd job) r = (None, s')))"

lemmas dav_mount_upload_exact = staged_writer.mount_upload_exact [OF dav_writer.staged_writer_axioms]

lemma put_link_of_upload:
  assumes "upload_link g name s job s'" and "gf_backend g = dav_backend_ops B"
  shows "put_link B name s job s'"
proof -
  from assms(1) obtain fs p t b r where u: "mount_upload (dav_backend_ops B) name p fs s = Some (None, r)"
    "fs_get fs p = Some (Reg (fst job) t b)" "no_early_EOF fs"
    "if snd job = 0 then s' = r else b_SetModTime (dav_backend_ops B) None name (snd job) r = (None, s')"
    unfolding upload_link_def assms(2) by blast
  from dav_mount_upload_exact [OF u(1-3)] u show ?thesis unfolding put_link_def by blast
qed

text \<open>
  C8. A lookup sees what was written before it, here over WebDAV. A lookup of a path publishes the unsaved bytes of
  every open file with that path, one after the other, each by an upload of exactly the bytes of its staging file that
  the server acknowledged; then it asks the server, and answers what the server says, with nothing left unsaved. When
  one of these uploads fails, those before it are on the server, and the lookup answers that error without asking.
  Open files of other paths are left as they are.
\<close>

theorem lookup_publishes_pending:
  assumes "gofs_stat g name w = (res, w')" and "gf_backend g = dav_backend_ops B"
    and "distinct (mw_open w)" and "\<forall>i \<in> set (mw_open w). i < length (mw_staged w)"
    and "contents c name w (mw_open w)" and "no_early_EOF (mw_fs w)"
  shows "(if \<exists>e. res = Inl e \<and> sync_range g name (mw_open w) w = (Some e, w')
      then \<exists>pre i post w1 e. mw_open w = pre @ i # post \<and> pending_file name w i \<and>
        in_order (put_link B name) (to_publish c name w pre) (mw_remote w) (mw_remote w1) \<and>
        staged_syncLocked g i w1 = (Some e, w') \<and> res = Inl e
      else (\<exists>s. in_order (put_link B name) (to_publish c name w (mw_open w)) (mw_remote w) s \<and>
              dav_Stat B None name s = (res, mw_remote w')) \<and>
        (\<forall>i \<in> set (mw_open w'). \<not> pending_file name w' i)) \<and>
    (\<forall>j. stf_name (mw_staged w ! j) \<noteq> name \<longrightarrow> mw_staged w' ! j = mw_staged w ! j)"
proof -
  note m = in_order_mono [where f = "upload_link g name" and g = "put_link B name", OF put_link_of_upload [OF _ assms(2)]]
  have st: "b_Stat (gf_backend g) = dav_Stat B" using assms(2) by (simp add: dav_backend_ops_def)
  from gofs_stat_uploads [OF assms(1,3-6)] show ?thesis
    unfolding st by (simp split: if_splits) (use m in blast)+
qed

text \<open>
  C7. The other side of the same contract: a retry whose copying fails on a local read or a remote write
  still closes its writer, and over FTP that publishes what was copied so far. The retry reports the
  error, but the server has acknowledged a STOR of a proper prefix of the preserved file in place of the
  old remote file.
\<close>

theorem failed_retry_publishes_prefix:
  assumes "OpenRecovery st item fs = Inr (p, info)"
    and "b_OpenWrite (ftp_backend_ops B) x remote (fresh_write (fi_Mode info)) w = (Inr h, w1)"
    and "upload_chunks (ftp_backend_ops B) h p (nat (fi_Size info)) fs 0 w1 = (Some e, w2)"
    and "h_Close (ftp_backend_ops B) h w2 = (None, w3)"
  shows "Upload st item fs (ftp_backend_ops B) x remote w = ((zero_entry, Some (Joined [e])), w3) \<and>
    (\<exists>d t s k q client s0. fs_get fs p = Some (Reg d t s) \<and> k < length d \<and> ftp_remotePath (fb_root B) remote = Inr q \<and>
       fl_Stor (fb_lib B) client q (take k d) s0 = (None, fw_server w3))"
proof -
  from OpenRecovery_file [OF assms(1)] obtain d t s where f: "fs_get fs p = Some (Reg d t s)" "info = node_info (Reg d t s)" by blast
  then have n: "nat (fi_Size info) = length d" by simp
  from ftp_failed_copy [OF assms(2,3,4) f(1)] n obtain k q where
    "k < length d" "ftp_remotePath (fb_root B) remote = Inr q" "ftp_acked B w q (take k d) w3" by auto
  moreover have "Upload st item fs (ftp_backend_ops B) x remote w = ((zero_entry, Some (Joined [e])), w3)"
    using assms by (simp add: Upload_def errors_Join_two)
  ultimately show ?thesis using f(1) by (auto simp: ftp_acked_def)
qed

subsection \<open>What the drive is told about remote files\<close>

text \<open>
  A well-typed entry: a size that fits in 64 bits and is not negative, and one of the modes the backend
  builds (a folder, a link, a file).
\<close>

definition ftp_entry_typed :: "entry \<Rightarrow> bool" where
  "ftp_entry_typed e \<longleftrightarrow> 0 \<le> e_Size e \<and> e_Size e \<le> max_i64 \<and> e_Mode e \<in> {ModeDir OR 0x1ED, ModeSymlink OR 0x1FF, 0x1A4}"

lemma entryFromFTP_typed: "ftp_entry_typed (entryFromFTP e)"
  by (auto simp: ftp_entry_typed_def entryFromFTP_def max_i64_def split: ftp_entry_type.splits)

lemma entryFromFTP_name: "e_Name (entryFromFTP e) = fe_Name e"
  by (simp add: entryFromFTP_def)

lemma ftp_stat_list_typed: "ftp_stat_list B x p e w = (Inr en, w') \<Longrightarrow> ftp_entry_typed en"
  by (auto simp: ftp_stat_list_def Let_def entryFromFTP_typed split: prod.splits sum.splits option.splits list.splits if_splits)

lemma root_typed: "ftp_entry_typed \<lparr>e_Name = n, e_Size = 0, e_Mode = ModeDir OR 0x1ED, e_ModTime = 0\<rparr>"
  by (simp add: ftp_entry_typed_def max_i64_def)

lemma ftp_stat_typed: "ftp_stat_locked B x p w = (Inr en, w') \<Longrightarrow> ftp_entry_typed en"
  by (auto simp: ftp_stat_locked_def entryFromFTP_typed root_typed
      dest!: ftp_stat_list_typed split: prod.splits sum.splits option.splits if_splits)

lemma ftp_readdir_typed: "ftp_readdir_locked B x p w = (Inr es, w') \<Longrightarrow> list_all (\<lambda>e. ftp_entry_typed e \<and> e_Name e \<notin> {''.'', ''..''}) es"
  by (auto simp: ftp_readdir_locked_def Let_def entryFromFTP_typed list_all_iff entryFromFTP_name
      split: prod.splits sum.splits option.splits if_splits)

text \<open>
  C30. Every entry that \<open>Stat\<close> and \<open>ReadDir\<close> answer is well typed. Over FTP a size the server reports as
  an unsigned number is clamped to the largest \<open>int64\<close> instead of turning negative, the mode is one of
  three, and a listing names neither itself nor its parent. Over WebDAV the size is an \<open>int64\<close> and the
  mode that of a folder or a file.
\<close>

theorem remote_entries_typed:
  "(ftp_Stat F x n w = (Inr en, w') \<longrightarrow> ftp_entry_typed en) \<and>
   (ftp_ReadDir F x n w = (Inr es, w') \<longrightarrow> list_all (\<lambda>e. ftp_entry_typed e \<and> e_Name e \<notin> {''.'', ''..''}) es) \<and>
   (dav_Stat D x n v = (Inr en, v') \<longrightarrow> in_i64 (e_Size en) \<and> e_Mode en \<in> {ModeDir OR 0x1ED, 0x1A4}) \<and>
   (dav_ReadDir D x n v = (Inr es, v') \<longrightarrow> list_all (\<lambda>e. in_i64 (e_Size e) \<and> e_Mode e \<in> {ModeDir OR 0x1ED, 0x1A4}) es)"
proof (intro conjI impI)
  show "ftp_Stat F x n w = (Inr en, w') \<Longrightarrow> ftp_entry_typed en"
    by (auto simp: ftp_Stat_def map_prod_def dest!: ftp_stat_typed split: sum.splits prod.splits option.splits)
  show "ftp_ReadDir F x n w = (Inr es, w') \<Longrightarrow> list_all (\<lambda>e. ftp_entry_typed e \<and> e_Name e \<notin> {''.'', ''..''}) es"
    by (auto simp: ftp_ReadDir_def map_prod_def dest!: ftp_readdir_typed split: sum.splits prod.splits option.splits)
qed (use dav_Stat_typed [of D x n v en v'] dav_ReadDir_typed [of D x n v es v'] in \<open>auto simp: dav_entry_typed_def [abs_def]\<close>)

subsection \<open>Examples\<close>

text \<open>A retry over the small FTP server, one call at a time.\<close>

definition demo_retry_item :: recovery_item where
  "demo_retry_item = \<lparr>ri_Metadata = demo_md, ri_MetadataPath = ''/c/staging-1.recovery.json'', ri_Problem = ''''\<rparr>"

definition demo_retry_opened :: "(err + nat) \<times> (nat, (string \<times> bytes) list, bytes) ftp_world" where
  "demo_retry_opened = b_OpenWrite (ftp_backend_ops demo_ftp_backend) None ''/r'' (fresh_write 0x180) (demo_ftp_world [])"

definition demo_retry_written :: "(nat \<times> err option) \<times> (nat, (string \<times> bytes) list, bytes) ftp_world" where
  "demo_retry_written = h_WriteAt (ftp_backend_ops demo_ftp_backend) 0 [1, 2, 3] 0 (snd demo_retry_opened)"

definition demo_retry_closed :: "err option \<times> (nat, (string \<times> bytes) list, bytes) ftp_world" where
  "demo_retry_closed = syncAndClose (ftp_backend_ops demo_ftp_backend) 0 (snd demo_retry_written)"

lemma demo_retry_steps:
  "OpenRecovery demo_store demo_retry_item demo_cache = Inr (''/c/staging-1'', node_info (Reg [1, 2, 3] 5 True))"
  "fst demo_retry_opened = Inr 0" "fst demo_retry_written = (3, None)" "fst demo_retry_closed = None"
  "fst (b_Stat (ftp_backend_ops demo_ftp_backend) None ''/r'' (snd demo_retry_closed)) =
     Inr \<lparr>e_Name = ''r'', e_Size = 3, e_Mode = 420, e_ModTime = 0\<rparr>"
  "file_ReadAt ''/c/staging-1'' 3 0 demo_cache = ([1, 2, 3], None)"
  by code_simp+

lemma demo_retry_chunks:
  "upload_chunks (ftp_backend_ops demo_ftp_backend) 0 ''/c/staging-1'' 3 demo_cache 0 (snd demo_retry_opened) = (None, snd demo_retry_written)"
proof -
  have "h_WriteAt (ftp_backend_ops demo_ftp_backend) 0 [1, 2, 3] 0 (snd demo_retry_opened) = ((3, None), snd demo_retry_written)"
    using demo_retry_steps(3) unfolding demo_retry_written_def by (metis prod.collapse)
  then show ?thesis
    by (simp add: upload_chunks.simps [of _ _ _ _ _ 0] upload_chunks.simps [of _ _ _ _ _ "Suc (Suc (Suc 0))"] chunk_size_def Let_def
        demo_retry_steps)
qed

lemma demo_retry:
  "\<exists>w'. Upload demo_store demo_retry_item demo_cache (ftp_backend_ops demo_ftp_backend) None ''/r'' (demo_ftp_world []) =
    ((\<lparr>e_Name = ''r'', e_Size = 3, e_Mode = 420, e_ModTime = 0\<rparr>, None), w')"
proof -
  have o1: "b_OpenWrite (ftp_backend_ops demo_ftp_backend) None ''/r'' (fresh_write 0x180) (demo_ftp_world []) = (Inr 0, snd demo_retry_opened)"
    using demo_retry_steps(2) unfolding demo_retry_opened_def by (metis prod.collapse)
  have c1: "syncAndClose (ftp_backend_ops demo_ftp_backend) 0 (snd demo_retry_written) = (None, snd demo_retry_closed)"
    using demo_retry_steps(4) unfolding demo_retry_closed_def by (metis prod.collapse)
  obtain a w' where s1: "b_Stat (ftp_backend_ops demo_ftp_backend) None ''/r'' (snd demo_retry_closed) = (a, w')" by force
  with demo_retry_steps(5) have a: "a = Inr \<lparr>e_Name = ''r'', e_Size = 3, e_Mode = 420, e_ModTime = 0\<rparr>" by simp
  show ?thesis
    by (intro exI [of _ w']) (simp add: Upload_def demo_retry_steps(1) o1 demo_retry_chunks c1 s1 a entry_IsDir_def mode_IsDir_def ModeDir_def)
qed

theorem retry_publishes_exactly_witness:
  "\<exists>client s0 w1. fl_Stor demo_ftp client ''/r'' [1, 2, 3] s0 = (None, fw_server (w1 :: (nat, (string \<times> bytes) list, bytes) ftp_world))"
proof -
  obtain w' where run: "Upload demo_store demo_retry_item demo_cache (ftp_backend_ops demo_ftp_backend) None ''/r'' (demo_ftp_world []) =
    ((\<lparr>e_Name = ''r'', e_Size = 3, e_Mode = 420, e_ModTime = 0\<rparr>, None), w')" using demo_retry by blast
  from retry_publishes_exactly [OF run] obtain p d t s q client s0 w1 where
    "safeStagingPath demo_store demo_cache (rm_StagingPath (ri_Metadata demo_retry_item)) = Inr p" "fs_get demo_cache p = Some (Reg d t s)"
    "ftp_remotePath (fb_root demo_ftp_backend) ''/r'' = Inr q"
    "fl_Stor (fb_lib demo_ftp_backend) client q d s0 = (None, fw_server (w1 :: (nat, (string \<times> bytes) list, bytes) ftp_world))" by blast
  moreover have "safeStagingPath demo_store demo_cache (rm_StagingPath (ri_Metadata demo_retry_item)) = Inr ''/c/staging-1''"
    "ftp_remotePath (fb_root demo_ftp_backend) ''/r'' = Inr ''/r''" by code_simp+
  moreover have "fs_get demo_cache ''/c/staging-1'' = Some (Reg [1, 2, 3] 5 True)" by (simp add: demo_cache_def fs_get_def)
  ultimately show ?thesis by (auto simp: demo_ftp_backend_def)
qed

text \<open>The same retry when the staging file cannot be read.\<close>

definition demo_unreadable :: lfs where
  "demo_unreadable = demo_cache\<lparr>fs_faults := (\<lambda>op p. if op = OpRead then Some (PathErr EIO) else None)\<rparr>"

lemma demo_failed_steps:
  "OpenRecovery demo_store demo_retry_item demo_unreadable = Inr (''/c/staging-1'', node_info (Reg [1, 2, 3] 5 True))"
  "fst (h_Close (ftp_backend_ops demo_ftp_backend) 0 (snd demo_retry_opened)) = None"
  "file_ReadAt ''/c/staging-1'' 3 0 demo_unreadable = ([], Some (PathErr EIO))"
  "fw_server (snd (h_Close (ftp_backend_ops demo_ftp_backend) 0 (snd demo_retry_opened))) = [(''/r'', [])]"
  by code_simp+

theorem failed_retry_publishes_prefix_witness:
  "\<exists>w3. Upload demo_store demo_retry_item demo_unreadable (ftp_backend_ops demo_ftp_backend) None ''/r'' (demo_ftp_world []) =
     ((zero_entry, Some (Joined [Wrapped ''read cache'' (PathErr EIO)])), w3) \<and> fw_server w3 = [(''/r'', [])]"
proof -
  let ?info = "node_info (Reg [1, 2, 3] 5 True)"
  have o1: "b_OpenWrite (ftp_backend_ops demo_ftp_backend) None ''/r'' (fresh_write (fi_Mode ?info)) (demo_ftp_world []) = (Inr 0, snd demo_retry_opened)"
    using demo_retry_steps(2) unfolding demo_retry_opened_def by (simp add: prod_eq_iff)
  have u1: "upload_chunks (ftp_backend_ops demo_ftp_backend) 0 ''/c/staging-1'' (nat (fi_Size ?info)) demo_unreadable 0 (snd demo_retry_opened) =
      (Some (Wrapped ''read cache'' (PathErr EIO)), snd demo_retry_opened)"
    by (simp add: upload_chunks.simps [of _ _ _ _ _ 0] chunk_size_def Let_def demo_failed_steps sentinel_is_def)
  obtain w3 where c1: "h_Close (ftp_backend_ops demo_ftp_backend) 0 (snd demo_retry_opened) = (None, w3)"
    using demo_failed_steps(2) by (metis prod.collapse)
  with demo_failed_steps(4) have "fw_server w3 = [(''/r'', [])]" by simp
  with failed_retry_publishes_prefix [OF demo_failed_steps(1) o1 u1 c1] show ?thesis by blast
qed

text \<open>A drive over a WebDAV server that accepts every request, with one file of unsaved bytes.\<close>

definition accept_backend :: "(unit, unit) dav_backend" where
  "accept_backend = portal_backend\<lparr>db_client := portal_client\<lparr>dl_Do := (\<lambda>x q s.
     (Inr \<lparr>hr_StatusCode = 201, hr_Status = ''201 Created'', hr_Header = [], hr_Body = ()\<rparr>, s)),
     dl_ReadBody := (\<lambda>d s. (([], None), s))\<rparr>\<rparr>"

definition demo_dav_gofs :: "(unit dav_world, unit, nat) gofs" where
  "demo_dav_gofs = \<lparr>gf_backend = dav_backend_ops accept_backend, gf_readOnly = False, gf_store = demo_store, gf_codec = exact_mj,
     gf_recovery = gf_recovery demo_gofs\<rparr>"

definition demo_dav_mount :: "unit dav_world mount_world" where
  "demo_dav_mount = \<lparr>mw_remote = demo_dav_world (), mw_fs = demo_cache, mw_staged = [demo_staged], mw_dirs = [], mw_open = [0],
     mw_rnd = ''9'', mw_now = 9\<rparr>"

definition demo_put_opened :: "(err + nat) \<times> unit dav_world" where
  "demo_put_opened = b_OpenWrite (dav_backend_ops accept_backend) None ''f'' (fresh_write 0x180) (demo_dav_world ())"

definition demo_put_written :: "(nat \<times> err option) \<times> unit dav_world" where
  "demo_put_written = h_WriteAt (dav_backend_ops accept_backend) 0 [1, 2, 3] 0 (snd demo_put_opened)"

definition demo_put_synced :: "err option \<times> unit dav_world" where
  "demo_put_synced = h_Sync (dav_backend_ops accept_backend) 0 (snd demo_put_written)"

definition demo_put_closed :: "err option \<times> unit dav_world" where
  "demo_put_closed = h_Close (dav_backend_ops accept_backend) 0 (snd demo_put_synced)"

lemma demo_put_steps: "fst demo_put_opened = Inr 0" "fst demo_put_written = (3, None)" "fst demo_put_synced = None" "fst demo_put_closed = None"
  by code_simp+

lemma demo_put_upload:
  "mount_upload (dav_backend_ops accept_backend) ''f'' ''/c/staging-1'' demo_cache (demo_dav_world ()) = Some (None, snd demo_put_closed)"
proof -
  let ?ops = "dav_backend_ops accept_backend"
  have 1: "b_OpenWrite ?ops None ''f'' (fresh_write 0x180) (demo_dav_world ()) = (Inr 0, snd demo_put_opened)"
    "h_WriteAt ?ops 0 [1, 2, 3] 0 (snd demo_put_opened) = ((3, None), snd demo_put_written)"
    "h_Sync ?ops 0 (snd demo_put_written) = (None, snd demo_put_synced)" "h_Close ?ops 0 (snd demo_put_synced) = (None, snd demo_put_closed)"
    using demo_put_steps
    by (simp_all add: demo_put_opened_def [symmetric] demo_put_written_def [symmetric] demo_put_synced_def [symmetric]
        demo_put_closed_def [symmetric] prod_eq_iff)
  have ch: "mount_chunks ?ops 0 ''/c/staging-1'' 3 demo_cache 0 (snd demo_put_opened) = Some (None, snd demo_put_written)"
    by (simp add: mount_chunks.simps [of _ _ _ _ _ 0] mount_chunks.simps [of _ _ _ _ _ "Suc (Suc (Suc 0))"] mount_chunk_def Let_def
        demo_retry_steps(6) 1(2))
  have st: "file_Stat ''/c/staging-1'' demo_cache = Inr (node_info (Reg [1, 2, 3] 5 True))"
    by (simp add: file_Stat_def demo_cache_def fs_get_def)
  show ?thesis by (simp add: mount_upload_def st operationContext_def 1 ch errors_Join_two)
qed

lemma demo_put_sync:
  "staged_syncLocked demo_dav_gofs 0 demo_dav_mount = (None, upd_staged 0 (\<lambda>f. f\<lparr>stf_dirty := False,
      stf_modTime := (if stf_requestedTime f = 0 then 9 else stf_requestedTime f)\<rparr>) (demo_dav_mount\<lparr>mw_remote := snd demo_put_closed\<rparr>))"
proof -
  have sy: "file_Sync ''/c/staging-1'' demo_cache = (None, demo_cache)"
    by (simp add: file_Sync_def demo_cache_def fs_get_def fs_set_def)
  have up: "upload demo_dav_gofs ''f'' ''/c/staging-1'' demo_dav_mount = (None, demo_dav_mount\<lparr>mw_remote := snd demo_put_closed\<rparr>)"
    by (simp add: upload_def remote_call_def demo_dav_gofs_def demo_dav_mount_def demo_put_upload)
  have lc: "local_call (file_Sync ''/c/staging-1'') demo_dav_mount = (None, demo_dav_mount)"
    by (simp add: local_call_def demo_dav_mount_def sy)
  have f: "mw_staged demo_dav_mount ! 0 = demo_staged" by (simp add: demo_dav_mount_def)
  show ?thesis
    unfolding staged_syncLocked_def Let_def f
    by (simp add: demo_staged_def lc up) (simp add: demo_dav_mount_def cong: if_cong)
qed

lemma demo_put_close:
  "\<exists>w'. staged_Close demo_dav_gofs 0 demo_dav_mount = (None, w') \<and> fs_get (mw_fs w') ''/c/staging-1'' = None"
proof -
  have f: "mw_staged demo_dav_mount ! 0 = demo_staged" by (simp add: demo_dav_mount_def)
  have fc: "file_Close ''/c/staging-1'' demo_cache = None" by (simp add: file_Close_def demo_cache_def)
  have rm: "os_Remove ''/c/staging-1'' demo_cache = (None, fs_del ''/c/staging-1'' demo_cache)"
    by (simp add: os_Remove_def demo_cache_def fs_get_def)
  show ?thesis unfolding staged_Close_def Let_def f
    by (simp add: demo_put_sync demo_staged_def)
      (simp add: upd_staged_def forget_open_def local_call_def demo_dav_mount_def rm fc fs_get_del errors_Join_two)
qed

theorem drive_close_published_witness:
  "\<exists>x req resp s1 s2. hq_Method req = ''PUT'' \<and> hq_Body req = [1, 2, 3] \<and>
     dl_Do (db_client accept_backend) x req s1 = (Inr resp, s2) \<and> hr_StatusCode resp \<in> {200, 201, 204}"
proof -
  obtain w' where cl: "staged_Close demo_dav_gofs 0 demo_dav_mount = (None, w')" "fs_get (mw_fs w') ''/c/staging-1'' = None"
    using demo_put_close by blast
  have op: "staged_open 0 [1, 2, 3] demo_dav_mount" "no_early_EOF (mw_fs demo_dav_mount)" "cwd_ok (mw_fs demo_dav_mount)"
    using demo_cwd_ok by (auto simp: staged_open_def demo_dav_mount_def demo_staged_def demo_cache_def fs_get_def no_early_EOF_def)
  have g: "gf_backend demo_dav_gofs = dav_backend_ops accept_backend" "store_ok (gf_store demo_dav_gofs)"
    "stf_path (mw_staged demo_dav_mount ! 0) = staging_file (gf_store demo_dav_gofs) ''staging-1''"
    "stf_dirty (mw_staged demo_dav_mount ! 0)" "fs_get (mw_fs w') (staging_file (gf_store demo_dav_gofs) ''staging-1'') = None"
    using demo_store_ok demo_staging(2) cl(2) by (simp_all add: demo_dav_gofs_def demo_dav_mount_def demo_staged_def)
  from drive_close_published [OF cl(1) op(1,2) g(1,2) op(3) demo_staging(1) g(3,4,5)] show ?thesis by blast
qed

theorem lookup_publishes_pending_witness:
  "\<exists>res w' q s. gofs_stat demo_dav_gofs ''f'' demo_dav_mount = (res, w') \<and>
     dav_acked accept_backend (mw_remote demo_dav_mount) q [1, 2, 3] s \<and> dav_Stat accept_backend None ''f'' s = (res, mw_remote w')"
proof -
  obtain res w' where run: "gofs_stat demo_dav_gofs ''f'' demo_dav_mount = (res, w')" by force
  have f: "mw_staged demo_dav_mount ! 0 = demo_staged" "mw_open demo_dav_mount = [0]" "length (mw_staged demo_dav_mount) = 1"
    "gf_backend demo_dav_gofs = dav_backend_ops accept_backend"
    by (simp_all add: demo_dav_mount_def demo_dav_gofs_def)
  have op: "contents (\<lambda>_. [1, 2, 3]) ''f'' demo_dav_mount (mw_open demo_dav_mount)" "no_early_EOF (mw_fs demo_dav_mount)"
    by (auto simp: contents_def staged_open_def demo_dav_mount_def demo_staged_def demo_cache_def fs_get_def no_early_EOF_def)
  have pub: "to_publish (\<lambda>_. [1, 2, 3]) ''f'' demo_dav_mount [0] = [([1, 2, 3], 0)]"
    by (simp add: to_publish_def pending_file_def f) (simp add: demo_staged_def)
  have "fst (sync_range demo_dav_gofs ''f'' [0] demo_dav_mount) = None"
    by (simp add: f demo_put_sync Let_def)
  then have no: "\<not> (\<exists>e. res = Inl e \<and> sync_range demo_dav_gofs ''f'' [0] demo_dav_mount = (Some e, w'))" by auto
  have open_ok: "distinct (mw_open demo_dav_mount)" "\<forall>i \<in> set (mw_open demo_dav_mount). i < length (mw_staged demo_dav_mount)"
    by (simp_all add: f)
  from lookup_publishes_pending [OF run f(4) open_ok op, unfolded f(2) pub if_not_P [OF no]] obtain s where
    "in_order (put_link accept_backend ''f'') [([1, 2, 3], 0)] (mw_remote demo_dav_mount) s" "dav_Stat accept_backend None ''f'' s = (res, mw_remote w')"
    by blast
  with run show ?thesis by (auto simp: put_link_def)
qed

lemma demo_stat:
  "fst (ftp_Stat demo_ftp_backend None ''r'' (demo_ftp_world [(''/r'', [7])])) =
     Inr \<lparr>e_Name = ''r'', e_Size = 1, e_Mode = 420, e_ModTime = 0\<rparr>"
  by code_simp

theorem remote_entries_typed_witness:
  "\<exists>en. fst (ftp_Stat demo_ftp_backend None ''r'' (demo_ftp_world [(''/r'', [7])])) = Inr en \<and> ftp_entry_typed en"
proof -
  obtain w' where run: "ftp_Stat demo_ftp_backend None ''r'' (demo_ftp_world [(''/r'', [7])]) =
      (Inr \<lparr>e_Name = ''r'', e_Size = 1, e_Mode = 420, e_ModTime = 0\<rparr>, w')" using demo_stat by (metis prod.collapse)
  from remote_entries_typed [of demo_ftp_backend None "''r''" "demo_ftp_world [(''/r'', [7])]"
      "\<lparr>e_Name = ''r'', e_Size = 1, e_Mode = 420, e_ModTime = 0\<rparr>" w', THEN conjunct1, THEN mp, OF run] run
  show ?thesis by simp
qed

end
